(* ===== verification/Delego_Prelude.thy ===== *)
theory Delego_Prelude
  imports Main "HOL-Library.AList"
begin

text \<open>
  Shared vocabulary of the development.
  \<^item> \<open>prog\<close>: programs that thread a state and may throw, the shape of every
    \<^verbatim>\<open>async\<close> function of the backend once its awaits are run in sequence. The state that a
    throwing call leaves behind is kept, because the TypeScript code keeps it.
  \<^item> \<open>keeps\<close> and \<open>ensures\<close>: an invariant calculus and a partial-correctness
    calculus for such programs, with one rule per combinator.
  \<^item> the JavaScript values and string helpers that several components use;
  \<^item> the locales of the interfaces that more than one component shares.
\<close>

section \<open>Basic types\<close>

text \<open>A \<^verbatim>\<open>Date\<close> or \<^verbatim>\<open>Date.now()\<close> is its number of milliseconds.\<close>

type_synonym ms = int

text \<open>A thrown \<^verbatim>\<open>Error\<close> is carried as a value of the component's error type.\<close>

type_synonym ('s, 'e, 'a) prog = "'s \<Rightarrow> ('e + 'a) \<times> 's"

named_theorems keeps_rules "invariant preservation, one rule per program combinator"
named_theorems ensures_rules "postconditions, one rule per program combinator"
named_theorems prog_simps "unfolding of the program combinators at a state"

section \<open>Programs with state and exceptions\<close>

definition pret :: "'a \<Rightarrow> ('s, 'e, 'a) prog" where
  "pret x s = (Inr x, s)"

definition pthrow :: "'e \<Rightarrow> ('s, 'e, 'a) prog" where
  "pthrow e s = (Inl e, s)"

definition pbind :: "('s, 'e, 'a) prog \<Rightarrow> ('a \<Rightarrow> ('s, 'e, 'b) prog) \<Rightarrow> ('s, 'e, 'b) prog" where
  "pbind m f s = (case m s of (Inl e, s') \<Rightarrow> (Inl e, s') | (Inr x, s') \<Rightarrow> f x s')"

text \<open>\<^verbatim>\<open>try { m } catch (err) { h(err) }\<close>: the handler runs in the state the failed body left.\<close>

definition pcatch :: "('s, 'e, 'a) prog \<Rightarrow> ('e \<Rightarrow> ('s, 'f, 'a) prog) \<Rightarrow> ('s, 'f, 'a) prog" where
  "pcatch m h s = (case m s of (Inl e, s') \<Rightarrow> h e s' | (Inr x, s') \<Rightarrow> (Inr x, s'))"

definition pgets :: "('s \<Rightarrow> 'a) \<Rightarrow> ('s, 'e, 'a) prog" where
  "pgets f s = (Inr (f s), s)"

definition pmodify :: "('s \<Rightarrow> 's) \<Rightarrow> ('s, 'e, unit) prog" where
  "pmodify f s = (Inr (), f s)"

text \<open>A sequential \<^verbatim>\<open>for ... of\<close> loop with a loop-carried value.\<close>

fun pfor :: "'x list \<Rightarrow> 'a \<Rightarrow> ('x \<Rightarrow> 'a \<Rightarrow> ('s, 'e, 'a) prog) \<Rightarrow> ('s, 'e, 'a) prog" where
  "pfor [] a body = pret a"
| "pfor (x # xs) a body = pbind (body x a) (\<lambda>a'. pfor xs a' body)"

text \<open>A \<^verbatim>\<open>try\<close> block whose handler leaves the block: the outcome as a value.\<close>

definition ptry :: "('s, 'e, 'a) prog \<Rightarrow> ('s, 'f, 'e + 'a) prog" where
  "ptry m s = (case m s of (r, s') \<Rightarrow> (Inr r, s'))"

text \<open>A call that only touches one component of the state.\<close>

definition pzoom :: "('s \<Rightarrow> 'x) \<Rightarrow> ('x \<Rightarrow> 's \<Rightarrow> 's) \<Rightarrow> ('x, 'e, 'a) prog \<Rightarrow> ('s, 'e, 'a) prog" where
  "pzoom get put m s = (case m (get s) of (r, x) \<Rightarrow> (r, put x s))"

lemma pret_apply [prog_simps]: "pret x s = (Inr x, s)"
  by (simp add: pret_def)

lemma pthrow_apply [prog_simps]: "pthrow e s = (Inl e, s)"
  by (simp add: pthrow_def)

lemma pgets_apply [prog_simps]: "pgets f s = (Inr (f s), s)"
  by (simp add: pgets_def)

lemma pmodify_apply [prog_simps]: "pmodify f s = (Inr (), f s)"
  by (simp add: pmodify_def)

lemma pbind_apply [prog_simps]:
  "pbind m f s = (case m s of (Inl e, s') \<Rightarrow> (Inl e, s') | (Inr x, s') \<Rightarrow> f x s')"
  by (simp add: pbind_def)

lemma pcatch_apply [prog_simps]:
  "pcatch m h s = (case m s of (Inl e, s') \<Rightarrow> h e s' | (Inr x, s') \<Rightarrow> (Inr x, s'))"
  by (simp add: pcatch_def)

lemma ptry_apply [prog_simps]: "ptry m s = (case m s of (r, s') \<Rightarrow> (Inr r, s'))"
  by (simp add: ptry_def)

lemma pzoom_apply [prog_simps]: "pzoom get put m s = (case m (get s) of (r, x) \<Rightarrow> (r, put x s))"
  by (simp add: pzoom_def)

lemma pbind_pret [simp]: "pbind (pret x) f = f x"
  by (rule ext) (simp add: prog_simps)

lemma pbind_pthrow [simp]: "pbind (pthrow e) f = pthrow e"
  by (rule ext) (simp add: prog_simps)

lemma pbind_assoc: "pbind (pbind m f) g = pbind m (\<lambda>x. pbind (f x) g)"
  by (rule ext) (auto simp: prog_simps split: sum.splits prod.splits)

lemma pbind_pret_right: "pbind m pret = m"
  by (rule ext) (auto simp: prog_simps split: prod.splits sum.splits)

lemma pfor_snoc: "pfor (xs @ [x]) a body = pbind (pfor xs a body) (body x)"
  by (induction xs arbitrary: a) (simp_all add: pbind_assoc pbind_pret_right)

subsection \<open>Invariants of programs\<close>

definition keeps :: "('s \<Rightarrow> bool) \<Rightarrow> ('s, 'e, 'a) prog \<Rightarrow> bool" where
  "keeps I m \<longleftrightarrow> (\<forall>s. I s \<longrightarrow> I (snd (m s)))"

lemma keepsI: "(\<And>s. I s \<Longrightarrow> I (snd (m s))) \<Longrightarrow> keeps I m"
  by (simp add: keeps_def)

lemma keepsD: "keeps I m \<Longrightarrow> I s \<Longrightarrow> I (snd (m s))"
  by (simp add: keeps_def)

lemma keepsD': "keeps I m \<Longrightarrow> I s \<Longrightarrow> m s = (r, s') \<Longrightarrow> I s'"
  using keepsD by fastforce

lemma keeps_pret [keeps_rules, intro!]: "keeps I (pret x)"
  by (simp add: keeps_def prog_simps)

lemma keeps_pthrow [keeps_rules, intro!]: "keeps I (pthrow e)"
  by (simp add: keeps_def prog_simps)

lemma keeps_pgets [keeps_rules, intro!]: "keeps I (pgets f)"
  by (simp add: keeps_def prog_simps)

lemma keeps_pmodify [keeps_rules]: "(\<And>s. I s \<Longrightarrow> I (f s)) \<Longrightarrow> keeps I (pmodify f)"
  by (simp add: keeps_def prog_simps)

lemma keeps_pbind [keeps_rules]:
  assumes "keeps I m" and "\<And>x. keeps I (f x)"
  shows "keeps I (pbind m f)"
proof (rule keepsI)
  fix s assume "I s"
  with assms(1) have "I (snd (m s))" by (rule keepsD)
  with assms(2) show "I (snd (pbind m f s))"
    by (auto simp: prog_simps keeps_def split: sum.splits prod.splits)
qed

lemma keeps_pcatch [keeps_rules]:
  assumes "keeps I m" and "\<And>e. keeps I (h e)"
  shows "keeps I (pcatch m h)"
proof (rule keepsI)
  fix s assume "I s"
  with assms(1) have "I (snd (m s))" by (rule keepsD)
  with assms(2) show "I (snd (pcatch m h s))"
    by (auto simp: prog_simps keeps_def split: sum.splits prod.splits)
qed

lemma keeps_ptry [keeps_rules]: "keeps I m \<Longrightarrow> keeps I (ptry m)"
  by (auto simp: keeps_def prog_simps split: prod.splits)

lemma keeps_case_sum [keeps_rules]:
  assumes "\<And>e. x = Inl e \<Longrightarrow> keeps I (f e)" and "\<And>y. x = Inr y \<Longrightarrow> keeps I (g y)"
  shows "keeps I (case x of Inl e \<Rightarrow> f e | Inr y \<Rightarrow> g y)"
  using assms by (cases x) auto

lemma keeps_if [keeps_rules]:
  "(b \<Longrightarrow> keeps I m) \<Longrightarrow> (\<not> b \<Longrightarrow> keeps I m') \<Longrightarrow> keeps I (if b then m else m')"
  by simp

lemma keeps_case_option [keeps_rules]:
  assumes "x = None \<Longrightarrow> keeps I m" and "\<And>y. x = Some y \<Longrightarrow> keeps I (f y)"
  shows "keeps I (case x of None \<Rightarrow> m | Some y \<Rightarrow> f y)"
  using assms by (cases x) auto

lemma keeps_pfor [keeps_rules]:
  assumes "\<And>x a. keeps I (body x a)"
  shows "keeps I (pfor xs a body)"
  by (induction xs arbitrary: a) (auto intro: keeps_rules assms)

text \<open>A program that may start from a stronger condition \<open>J\<close> and ends in \<open>I\<close>, however it ends.\<close>

definition establishes :: "('s \<Rightarrow> bool) \<Rightarrow> ('s \<Rightarrow> bool) \<Rightarrow> ('s, 'e, 'a) prog \<Rightarrow> bool" where
  "establishes J I m \<longleftrightarrow> (\<forall>s. J s \<longrightarrow> I (snd (m s)))"

lemma establishes_pbind:
  assumes "keeps J m" and "\<And>s. J s \<Longrightarrow> I s" and "\<And>x. establishes J I (f x)"
  shows "establishes J I (pbind m f)"
  unfolding establishes_def
proof (intro allI impI)
  fix s assume "J s"
  with assms(1) have "J (snd (m s))" by (rule keepsD)
  with assms(2,3) show "I (snd (pbind m f s))"
    by (auto simp: prog_simps establishes_def split: sum.splits prod.splits)
qed

lemma establishes_pcatch:
  assumes "establishes J I m" and "\<And>e. keeps I (h e)"
  shows "establishes J I (pcatch m h)"
  unfolding establishes_def
proof (intro allI impI)
  fix s assume "J s"
  with assms(1) have "I (snd (m s))" by (simp add: establishes_def)
  with assms(2) show "I (snd (pcatch m h s))"
    by (auto simp: prog_simps keeps_def split: sum.splits prod.splits)
qed

lemma establishes_keeps: "keeps I m \<Longrightarrow> (\<And>s. J s \<Longrightarrow> I s) \<Longrightarrow> establishes J I m"
  by (simp add: establishes_def keeps_def)

lemma establishes_first:
  assumes "establishes J I m" and "\<And>x. keeps I (f x)"
  shows "establishes J I (pbind m f)"
  unfolding establishes_def
proof (intro allI impI)
  fix s assume "J s"
  with assms(1) have "I (snd (m s))" by (simp add: establishes_def)
  with assms(2) show "I (snd (pbind m f s))"
    by (auto simp: prog_simps keeps_def split: sum.splits prod.splits)
qed

lemma establishes_if:
  "(b \<Longrightarrow> establishes J I m) \<Longrightarrow> (\<not> b \<Longrightarrow> establishes J I m') \<Longrightarrow> establishes J I (if b then m else m')"
  by simp

subsection \<open>Postconditions of programs\<close>

text \<open>\<open>ensures P m Q E\<close>: from a state in \<open>P\<close> a normal return satisfies \<open>Q\<close>
  and a throw satisfies \<open>E\<close>.\<close>

definition ensures ::
  "('s \<Rightarrow> bool) \<Rightarrow> ('s, 'e, 'a) prog \<Rightarrow> ('a \<Rightarrow> 's \<Rightarrow> bool) \<Rightarrow> ('e \<Rightarrow> 's \<Rightarrow> bool) \<Rightarrow> bool" where
  "ensures P m Q E \<longleftrightarrow>
     (\<forall>s. P s \<longrightarrow> (\<forall>x s'. m s = (Inr x, s') \<longrightarrow> Q x s')
                  \<and> (\<forall>e s'. m s = (Inl e, s') \<longrightarrow> E e s'))"

lemma ensures_pret [ensures_rules]: "(\<And>s. P s \<Longrightarrow> Q x s) \<Longrightarrow> ensures P (pret x) Q E"
  by (simp add: ensures_def prog_simps)

lemma ensures_pthrow [ensures_rules]: "(\<And>s. P s \<Longrightarrow> E e s) \<Longrightarrow> ensures P (pthrow e) Q E"
  by (simp add: ensures_def prog_simps)

lemma ensures_pgets [ensures_rules]: "(\<And>s. P s \<Longrightarrow> Q (f s) s) \<Longrightarrow> ensures P (pgets f) Q E"
  by (simp add: ensures_def prog_simps)

lemma ensures_pmodify [ensures_rules]: "(\<And>s. P s \<Longrightarrow> Q () (f s)) \<Longrightarrow> ensures P (pmodify f) Q E"
  by (simp add: ensures_def prog_simps)

lemma ensures_pbind:
  assumes "ensures P m R E" and "\<And>x. ensures (R x) (f x) Q E"
  shows "ensures P (pbind m f) Q E"
  using assms unfolding ensures_def
  by (auto simp: prog_simps split: sum.splits prod.splits)

lemma ensures_pcatch:
  assumes "ensures P m Q R" and "\<And>e. ensures (R e) (h e) Q E"
  shows "ensures P (pcatch m h) Q E"
  using assms unfolding ensures_def
  by (auto simp: prog_simps split: sum.splits prod.splits)

lemma ensures_pfor:
  assumes "\<And>x a. x \<in> set xs \<Longrightarrow> ensures (J a) (body x a) J E"
  shows "ensures (J a) (pfor xs a body) J E"
  using assms
proof (induction xs arbitrary: a)
  case Nil
  then show ?case by (simp add: ensures_rules)
next
  case (Cons x xs)
  then show ?case by (auto intro!: ensures_pbind [where R = J])
qed

lemma ensuresD_normal:
  "ensures P m Q E \<Longrightarrow> P s \<Longrightarrow> m s = (Inr x, s') \<Longrightarrow> Q x s'"
  unfolding ensures_def by blast

lemma ensuresD_throw:
  "ensures P m Q E \<Longrightarrow> P s \<Longrightarrow> m s = (Inl e, s') \<Longrightarrow> E e s'"
  unfolding ensures_def by blast

section \<open>JavaScript values\<close>

text \<open>Values of TypeScript type \<^verbatim>\<open>unknown\<close>. An object is its list of own properties, in order.\<close>

datatype jsval =
    JUndefined
  | JNull
  | JBool bool
  | JNum int
  | JStr string
  | JArr "jsval list"
  | JObj "(string \<times> jsval) list"

text \<open>Reading a property that is not there gives \<^verbatim>\<open>undefined\<close>.\<close>

definition js_get :: "(string \<times> jsval) list \<Rightarrow> string \<Rightarrow> jsval" where
  "js_get ob k = (case map_of ob k of None \<Rightarrow> JUndefined | Some v \<Rightarrow> v)"

text \<open>The condition \<^verbatim>\<open>!v || typeof v !== "string"\<close>, negated.\<close>

fun js_nonempty_string :: "jsval \<Rightarrow> bool" where
  "js_nonempty_string (JStr s) = (s \<noteq> [])"
| "js_nonempty_string _ = False"

text \<open>\<^verbatim>\<open>String.prototype.trim\<close> on the ASCII white space of the language.\<close>

definition js_space :: "char \<Rightarrow> bool" where
  "js_space c \<longleftrightarrow> of_char c \<in> {9, 10, 11, 12, 13, 32 :: nat}"

definition js_trim :: "string \<Rightarrow> string" where
  "js_trim s = rev (dropWhile js_space (rev (dropWhile js_space s)))"

text \<open>\<^verbatim>\<open>toLowerCase\<close> on ASCII letters.\<close>

definition js_lower_char :: "char \<Rightarrow> char" where
  "js_lower_char c = (if of_char c \<in> {65..90 :: nat} then char_of (of_char c + 32 :: nat) else c)"

definition js_lower :: "string \<Rightarrow> string" where
  "js_lower s = map js_lower_char s"

text \<open>\<^verbatim>\<open>s.includes(p)\<close>.\<close>

fun js_includes :: "string \<Rightarrow> string \<Rightarrow> bool" where
  "js_includes [] p = (p = [])"
| "js_includes (c # cs) p = (take (length p) (c # cs) = p \<or> js_includes cs p)"

text \<open>\<^verbatim>\<open>BigInt(s)\<close> on a text: white space around, an optional sign before decimal digits, or the prefixes of the
  other three radixes; the empty text is 0.\<close>

definition digit_value :: "char \<Rightarrow> nat option" where
  "digit_value c = (let n = of_char c in
     if 48 \<le> n \<and> n \<le> 57 then Some (n - 48) else if 97 \<le> n \<and> n \<le> 122 then Some (n - 87)
     else if 65 \<le> n \<and> n \<le> 90 then Some (n - 55) else None)"

definition radix_value :: "nat \<Rightarrow> string \<Rightarrow> int option" where
  "radix_value r s = (if s = [] then None
     else map_option int (foldl (\<lambda>acc c. case (acc, digit_value c) of
            (Some n, Some v) \<Rightarrow> if v < r then Some (r * n + v) else None | _ \<Rightarrow> None) (Some 0) s))"

definition js_BigInt :: "string \<Rightarrow> int option" where
  "js_BigInt s =
     (case js_trim s of
        [] \<Rightarrow> Some 0
      | c # cs \<Rightarrow>
          if c = CHR ''-'' then map_option uminus (radix_value 10 cs)
          else if c = CHR ''+'' then radix_value 10 cs
          else if c = CHR ''0'' \<and> cs \<noteq> [] \<and> hd cs \<in> {CHR ''x'', CHR ''X''} then radix_value 16 (tl cs)
          else if c = CHR ''0'' \<and> cs \<noteq> [] \<and> hd cs \<in> {CHR ''o'', CHR ''O''} then radix_value 8 (tl cs)
          else if c = CHR ''0'' \<and> cs \<noteq> [] \<and> hd cs \<in> {CHR ''b'', CHR ''B''} then radix_value 2 (tl cs)
          else radix_value 10 (c # cs))"

lemma js_includes_iff: "js_includes s p \<longleftrightarrow> (\<exists>xs ys. s = xs @ p @ ys)"
proof (induction s)
  case Nil
  then show ?case by auto
next
  case (Cons c cs)
  have "(\<exists>xs ys. c # cs = xs @ p @ ys) \<longleftrightarrow> (\<exists>ys. c # cs = p @ ys) \<or> (\<exists>xs ys. cs = xs @ p @ ys)"
    by (metis append_Cons append_self_conv2 list.sel(3) tl_append2)
  moreover have "take (length p) (c # cs) = p \<longleftrightarrow> (\<exists>ys. c # cs = p @ ys)"
    by (metis append_eq_conv_conj append_take_drop_id)
  ultimately show ?case using Cons.IH by auto
qed

lemma hd_dropWhile_not: "dropWhile P xs \<noteq> [] \<Longrightarrow> \<not> P (hd (dropWhile P xs))"
  by (induction xs) auto

lemma dropWhile_hd_not: "xs = [] \<or> \<not> P (hd xs) \<Longrightarrow> dropWhile P xs = xs"
  by (cases xs) auto

lemma js_trim_all_space: "js_trim s = [] \<longleftrightarrow> (\<forall>c \<in> set s. js_space c)"
proof -
  have "js_trim s = [] \<longleftrightarrow> (\<forall>c \<in> set (dropWhile js_space s). js_space c)"
    by (simp add: js_trim_def dropWhile_eq_Nil_conv)
  also have "\<dots> \<longleftrightarrow> (\<forall>c \<in> set s. js_space c)"
    by (induction s) auto
  finally show ?thesis .
qed

lemma js_trim_first_not_space:
  assumes "js_trim s \<noteq> []"
  shows "\<not> js_space (hd (js_trim s))"
proof -
  let ?d = "dropWhile js_space s"
  let ?t = "takeWhile js_space (rev ?d)"
  have "rev (?t @ dropWhile js_space (rev ?d)) = ?d"
    by (subst takeWhile_dropWhile_id) simp
  then have split: "?d = js_trim s @ rev ?t"
    unfolding js_trim_def rev_append by (rule sym)
  from assms have "?d \<noteq> []" by (metis split append_is_Nil_conv)
  moreover from assms have "hd ?d = hd (js_trim s)" by (metis split hd_append2)
  ultimately show ?thesis using hd_dropWhile_not by metis
qed

lemma js_trim_idem [simp]: "js_trim (js_trim s) = js_trim s"
proof -
  have "dropWhile js_space (js_trim s) = js_trim s"
    using js_trim_first_not_space by (intro dropWhile_hd_not) blast
  moreover have "dropWhile js_space (rev (js_trim s)) = rev (js_trim s)"
    unfolding js_trim_def rev_rev_ident
    by (rule dropWhile_hd_not) (metis hd_dropWhile_not)
  ultimately show ?thesis by (metis js_trim_def rev_rev_ident)
qed

section \<open>JavaScript maps\<close>

text \<open>
  A \<^verbatim>\<open>Map\<close> is an association list in insertion order: \<^verbatim>\<open>set\<close> on a present
  key replaces the value in place, on a new key appends, which is \<^const>\<open>AList.update\<close>.
\<close>

abbreviation jm_get :: "('k \<times> 'v) list \<Rightarrow> 'k \<Rightarrow> 'v option" where
  "jm_get \<equiv> map_of"

abbreviation jm_set :: "'k \<Rightarrow> 'v \<Rightarrow> ('k \<times> 'v) list \<Rightarrow> ('k \<times> 'v) list" where
  "jm_set \<equiv> AList.update"

lemma jm_get_set: "jm_get (jm_set k v m) k' = (if k' = k then Some v else jm_get m k')"
  by (simp add: update_conv')

section \<open>JavaScript sets\<close>

text \<open>\<^verbatim>\<open>[...new Set(xs)]\<close>: the first occurrences, in order.\<close>

definition js_unique :: "'a list \<Rightarrow> 'a list" where
  "js_unique xs = foldl (\<lambda>acc x. if x \<in> set acc then acc else acc @ [x]) [] xs"

lemma js_unique_distinct: "distinct (js_unique xs)"
proof -
  have "distinct acc \<Longrightarrow> distinct (foldl (\<lambda>acc x. if x \<in> set acc then acc else acc @ [x]) acc xs)" for acc
    by (induction xs arbitrary: acc) auto
  then show ?thesis by (simp add: js_unique_def)
qed

lemma js_unique_snoc: "js_unique (xs @ [x]) = (if x \<in> set (js_unique xs) then js_unique xs else js_unique xs @ [x])"
  by (simp add: js_unique_def)

lemma js_unique_set [simp]: "set (js_unique xs) = set xs"
  by (induction xs rule: rev_induct) (auto simp: js_unique_snoc js_unique_def [of "[]"])

section \<open>Finite transition systems that only move forward\<close>

text \<open>
  Several components are state machines whose table only leads to later stages. The interface:
  a partial step function and a rank that every step increases and that is bounded. What a
  client gets: runs are short, and a state of maximal rank is terminal.
\<close>

fun run_steps :: "('st \<Rightarrow> 'ev \<Rightarrow> 'st option) \<Rightarrow> 'st \<Rightarrow> 'ev list \<Rightarrow> 'st option" where
  "run_steps step s [] = Some s"
| "run_steps step s (e # es) =
     (case step s e of None \<Rightarrow> None | Some s' \<Rightarrow> run_steps step s' es)"

lemma run_steps_append:
  "run_steps step s (xs @ ys) =
     (case run_steps step s xs of None \<Rightarrow> None | Some s' \<Rightarrow> run_steps step s' ys)"
  by (induction xs arbitrary: s) (auto split: option.splits)

locale ranked_machine =
  fixes step :: "'st \<Rightarrow> 'ev \<Rightarrow> 'st option"
    and rank :: "'st \<Rightarrow> nat"
    and bound :: nat
  assumes step_rank: "step s e = Some s' \<Longrightarrow> rank s < rank s'"
    and rank_bound: "rank s \<le> bound"
begin

lemma run_rank: "run_steps step s es = Some s' \<Longrightarrow> rank s + length es \<le> rank s'"
proof (induction es arbitrary: s)
  case Nil
  then show ?case by simp
next
  case (Cons e es)
  then obtain t where t: "step s e = Some t" "run_steps step t es = Some s'"
    by (auto split: option.splits)
  from Cons.IH [OF t(2)] step_rank [OF t(1)] show ?case by simp
qed

lemma run_bounded: "run_steps step s es = Some s' \<Longrightarrow> length es \<le> bound - rank s"
  using run_rank rank_bound [of s'] by fastforce

lemma max_rank_terminal: "rank s = bound \<Longrightarrow> step s e = None"
  using step_rank rank_bound by (metis leD not_None_eq)

lemma no_return: "run_steps step s es = Some s' \<Longrightarrow> es \<noteq> [] \<Longrightarrow> s' \<noteq> s"
  using run_rank by fastforce

end

end
