(* ===== verification/Workflow_Types.thy ===== *)
theory Workflow_Types
  imports Delego_Prelude
begin

text \<open>
  The data of the purchase workflow machine (orchestrator/state/types.ts) and the snapshot
  validator that guards crash recovery (orchestrator/state/snapshot-validator.ts). The validator
  receives a value of type \<^verbatim>\<open>unknown\<close>, so it is modelled on \<^typ>\<open>jsval\<close>;
  \<open>snapshot_js\<close> is the object a typed snapshot is at run time.
\<close>

section \<open>Data\<close>

datatype PurchaseState =
    Discovery
  | SpendingCheck
  | UserApprovalPending
  | EscrowLocking
  | MerchantFulfillment
  | DeliveryVerification
  | Completed
  | Refunded

datatype PurchaseEvent =
    PRODUCT_FOUND string string int  \<comment> \<open>productId, merchantId, totalStroops\<close>
  | SPEND_APPROVED
  | SPEND_DENIED string
  | USER_APPROVED
  | USER_REJECTED
  | ESCROW_LOCKED string             \<comment> \<open>escrowContractId\<close>
  | ESCROW_FAILED string
  | FULFILLMENT_CONFIRMED
  | DELIVERY_VERIFIED
  | REFUND_INITIATED string

text \<open>The discriminant \<^verbatim>\<open>event.type\<close>.\<close>

fun event_type :: "PurchaseEvent \<Rightarrow> string" where
  "event_type (PRODUCT_FOUND _ _ _) = ''PRODUCT_FOUND''"
| "event_type SPEND_APPROVED = ''SPEND_APPROVED''"
| "event_type (SPEND_DENIED _) = ''SPEND_DENIED''"
| "event_type USER_APPROVED = ''USER_APPROVED''"
| "event_type USER_REJECTED = ''USER_REJECTED''"
| "event_type (ESCROW_LOCKED _) = ''ESCROW_LOCKED''"
| "event_type (ESCROW_FAILED _) = ''ESCROW_FAILED''"
| "event_type FULFILLMENT_CONFIRMED = ''FULFILLMENT_CONFIRMED''"
| "event_type DELIVERY_VERIFIED = ''DELIVERY_VERIFIED''"
| "event_type (REFUND_INITIATED _) = ''REFUND_INITIATED''"

fun state_name :: "PurchaseState \<Rightarrow> string" where
  "state_name Discovery = ''Discovery''"
| "state_name SpendingCheck = ''SpendingCheck''"
| "state_name UserApprovalPending = ''UserApprovalPending''"
| "state_name EscrowLocking = ''EscrowLocking''"
| "state_name MerchantFulfillment = ''MerchantFulfillment''"
| "state_name DeliveryVerification = ''DeliveryVerification''"
| "state_name Completed = ''Completed''"
| "state_name Refunded = ''Refunded''"

record PurchaseContext =
  pc_workflowId :: string
  pc_delegationId :: string
  pc_userId :: string
  pc_productId :: "string option"
  pc_merchantId :: "string option"
  pc_totalStroops :: "int option"
  pc_escrowContractId :: "string option"
  pc_rejectionReason :: "string option"
  pc_createdAt :: ms
  pc_updatedAt :: ms

record StateTransitionRecord =
  tr_workflowId :: string
  tr_fromState :: "PurchaseState option"
  tr_toState :: PurchaseState
  tr_event :: string
  tr_context :: PurchaseContext
  tr_timestamp :: ms

record WorkflowSnapshot =
  ws_workflowId :: string
  ws_currentState :: PurchaseState
  ws_context :: PurchaseContext
  ws_history :: "StateTransitionRecord list"
  ws_version :: int
  ws_timeoutAt :: "ms option"

section \<open>Snapshot validation\<close>

text \<open>The messages of the validator, with the values they quote.\<close>

datatype snapshot_problem =
    NotAnObject
  | BadField string
  | BadState jsval
  | BadContextField string
  | BadVersion jsval

definition VALID_STATES :: "string list" where
  "VALID_STATES = [''Discovery'', ''SpendingCheck'', ''UserApprovalPending'', ''EscrowLocking'',
     ''MerchantFulfillment'', ''DeliveryVerification'', ''Completed'', ''Refunded'']"

definition SNAPSHOT_VERSION :: int where
  "SNAPSHOT_VERSION = 1"

fun context_problems :: "jsval \<Rightarrow> snapshot_problem list" where
  "context_problems (JObj ctx) =
     map BadContextField
       (filter (\<lambda>f. \<not> js_nonempty_string (js_get ctx f)) [''workflowId'', ''delegationId'', ''userId''])"
| "context_problems (JArr xs) = map BadContextField [''workflowId'', ''delegationId'', ''userId'']"
| "context_problems _ = [BadField ''context'']"

fun is_js_array :: "jsval \<Rightarrow> bool" where
  "is_js_array (JArr _) = True"
| "is_js_array _ = False"

fun valid_state_value :: "jsval \<Rightarrow> bool" where
  "valid_state_value (JStr s) = (s \<noteq> [] \<and> s \<in> set VALID_STATES)"
| "valid_state_value _ = False"

definition object_problems :: "(string \<times> jsval) list \<Rightarrow> snapshot_problem list" where
  "object_problems s =
     (if js_nonempty_string (js_get s ''workflowId'') then [] else [BadField ''workflowId'']) @
     (if valid_state_value (js_get s ''currentState'') then [] else [BadState (js_get s ''currentState'')]) @
     context_problems (js_get s ''context'') @
     (if is_js_array (js_get s ''history'') then [] else [BadField ''history'']) @
     (if js_get s ''version'' = JNum SNAPSHOT_VERSION then [] else [BadVersion (js_get s ''version'')])"

text \<open>
  \<^verbatim>\<open>validateSnapshot\<close>: the list of problems, valid when it is empty. An array passes the
  \<^verbatim>\<open>typeof ... === "object"\<close> test and then lacks every property.
\<close>

fun validateSnapshot :: "jsval \<Rightarrow> bool \<times> snapshot_problem list" where
  "validateSnapshot (JObj s) = (object_problems s = [], object_problems s)"
| "validateSnapshot (JArr xs) = (object_problems [] = [], object_problems [])"
| "validateSnapshot _ = (False, [NotAnObject])"

text \<open>\<^verbatim>\<open>assertValidSnapshot\<close> throws the joined problems.\<close>

definition assertValidSnapshot :: "jsval \<Rightarrow> snapshot_problem list + unit" where
  "assertValidSnapshot v = (if fst (validateSnapshot v) then Inr () else Inl (snd (validateSnapshot v)))"

section \<open>A typed snapshot as a run-time object\<close>

definition opt_js :: "('a \<Rightarrow> jsval) \<Rightarrow> 'a option \<Rightarrow> jsval" where
  "opt_js f x = (case x of None \<Rightarrow> JNull | Some v \<Rightarrow> f v)"

definition context_js :: "PurchaseContext \<Rightarrow> jsval" where
  "context_js c = JObj
     [(''workflowId'', JStr (pc_workflowId c)), (''delegationId'', JStr (pc_delegationId c)),
      (''userId'', JStr (pc_userId c)), (''productId'', opt_js JStr (pc_productId c)),
      (''merchantId'', opt_js JStr (pc_merchantId c)), (''totalStroops'', opt_js JNum (pc_totalStroops c)),
      (''escrowContractId'', opt_js JStr (pc_escrowContractId c)),
      (''rejectionReason'', opt_js JStr (pc_rejectionReason c)),
      (''createdAt'', JNum (pc_createdAt c)), (''updatedAt'', JNum (pc_updatedAt c))]"

definition transition_js :: "StateTransitionRecord \<Rightarrow> jsval" where
  "transition_js r = JObj
     [(''workflowId'', JStr (tr_workflowId r)), (''fromState'', opt_js (JStr \<circ> state_name) (tr_fromState r)),
      (''toState'', JStr (state_name (tr_toState r))), (''event'', JStr (tr_event r)),
      (''context'', context_js (tr_context r)), (''timestamp'', JNum (tr_timestamp r))]"

definition snapshot_js :: "WorkflowSnapshot \<Rightarrow> jsval" where
  "snapshot_js s = JObj
     ([(''workflowId'', JStr (ws_workflowId s)), (''currentState'', JStr (state_name (ws_currentState s))),
       (''context'', context_js (ws_context s)), (''history'', JArr (map transition_js (ws_history s))),
       (''version'', JNum (ws_version s))] @
      (case ws_timeoutAt s of None \<Rightarrow> [] | Some t \<Rightarrow> [(''timeoutAt'', JNum t)]))"

lemma state_name_valid [simp]: "state_name s \<in> set VALID_STATES" "state_name s \<noteq> []"
  by (cases s; simp add: VALID_STATES_def)+

lemma state_name_inj: "state_name s = state_name t \<Longrightarrow> s = t"
  by (cases s; cases t; simp)

text \<open>On a typed snapshot the validator asks exactly for the ids and the version.\<close>

lemma validateSnapshot_typed:
  "fst (validateSnapshot (snapshot_js s)) \<longleftrightarrow>
     ws_workflowId s \<noteq> [] \<and> pc_workflowId (ws_context s) \<noteq> [] \<and>
     pc_delegationId (ws_context s) \<noteq> [] \<and> pc_userId (ws_context s) \<noteq> [] \<and>
     ws_version s = SNAPSHOT_VERSION"
  by (auto simp: snapshot_js_def context_js_def object_problems_def js_get_def split: option.splits)

lemma validateSnapshot_problems: "fst (validateSnapshot v) \<longleftrightarrow> snd (validateSnapshot v) = []"
  by (cases v) (auto simp: object_problems_def js_get_def)

end
