(* ===== verification/Event_Store.thy ===== *)
theory Event_Store
  imports Workflow_Types
begin

text \<open>
  The in-memory workflow event store (orchestrator/src/events/eventStore.ts): records are
  appended, read back per workflow in time order, counted, and cleaned up by age. The store is
  a list in insertion order; \<^verbatim>\<open>Array.prototype.sort\<close> is stable, as is \<^const>\<open>sort_key\<close>.
\<close>

section \<open>Data\<close>

record WorkflowEventRecord =
  er_id :: "ms \<times> nat"            \<comment> \<open>the two parts of the id \<^verbatim>\<open>evt_<now>_<counter>\<close>\<close>
  er_workflowId :: string
  er_eventType :: string
  er_payload :: PurchaseEvent
  er_fromState :: "PurchaseState option"
  er_toState :: PurchaseState
  er_snapshotVersion :: int     \<comment> \<open>\<^verbatim>\<open>metadata.snapshotVersion\<close>\<close>
  er_recordedAt :: ms

record EventStoreStats =
  st_totalEvents :: nat
  st_workflowsTracked :: nat
  st_oldestEvent :: "ms option"
  st_newestEvent :: "ms option"

section \<open>Operations\<close>

definition store_record :: "WorkflowEventRecord \<Rightarrow> WorkflowEventRecord list \<Rightarrow> WorkflowEventRecord list" where
  "store_record r es = es @ [r]"

definition getEvents :: "WorkflowEventRecord list \<Rightarrow> string \<Rightarrow> WorkflowEventRecord list" where
  "getEvents es wid = sort_key er_recordedAt (filter (\<lambda>e. er_workflowId e = wid) es)"

definition store_stats :: "WorkflowEventRecord list \<Rightarrow> EventStoreStats" where
  "store_stats es =
     \<lparr>st_totalEvents = length es,
      st_workflowsTracked = length (remdups (map er_workflowId es)),
      st_oldestEvent = (if es = [] then None else Some (er_recordedAt (es ! 0))),
      st_newestEvent = (if es = [] then None else Some (er_recordedAt (es ! (length es - 1))))\<rparr>"

definition store_cleanup :: "ms \<Rightarrow> WorkflowEventRecord list \<Rightarrow> nat \<times> WorkflowEventRecord list" where
  "store_cleanup cutoff es =
     (let es' = filter (\<lambda>e. cutoff \<le> er_recordedAt e) es in (length es - length es', es'))"

text \<open>\<^verbatim>\<open>createWorkflowEventRecord\<close>; the module counter is incremented first.\<close>

definition createWorkflowEventRecord ::
  "ms \<Rightarrow> nat \<Rightarrow> string \<Rightarrow> string \<Rightarrow> PurchaseEvent \<Rightarrow> PurchaseState option \<Rightarrow> PurchaseState \<Rightarrow> int
     \<Rightarrow> WorkflowEventRecord \<times> nat" where
  "createWorkflowEventRecord now idCounter wid etype payload fromSt toSt ver =
     (\<lparr>er_id = (now, Suc idCounter), er_workflowId = wid, er_eventType = etype, er_payload = payload,
       er_fromState = fromSt, er_toState = toSt, er_snapshotVersion = ver, er_recordedAt = now\<rparr>,
      Suc idCounter)"

text \<open>\<^verbatim>\<open>cleanupOldEvents\<close>: the extra millisecond removes events at exactly the boundary.\<close>

definition cleanupOldEvents :: "ms \<Rightarrow> int \<Rightarrow> WorkflowEventRecord list \<Rightarrow> nat \<times> WorkflowEventRecord list" where
  "cleanupOldEvents now retentionDays es =
     store_cleanup (now - retentionDays * 24 * 60 * 60 * 1000 + 1) es"

section \<open>Reading back what was recorded\<close>

lemma sort_key_sorted: "sorted (map f xs) \<Longrightarrow> sort_key f xs = xs"
  by (induction xs) (auto simp: insort_is_Cons)

lemma getEvents_sorted: "sorted (map er_recordedAt (getEvents es wid))"
  by (simp add: getEvents_def)

lemma set_getEvents [simp]: "set (getEvents es wid) = {e \<in> set es. er_workflowId e = wid}"
  by (auto simp: getEvents_def)

lemma sorted_filter_key: "sorted (map f xs) \<Longrightarrow> sorted (map f (filter P xs))"
  by (induction xs) auto

text \<open>With a clock that does not go back, events come back in the order they were recorded.\<close>

lemma getEvents_in_order:
  "sorted (map er_recordedAt es) \<Longrightarrow> getEvents es wid = filter (\<lambda>e. er_workflowId e = wid) es"
  by (simp add: getEvents_def sort_key_sorted sorted_filter_key)

lemma getEvents_record_other:
  "er_workflowId r \<noteq> wid \<Longrightarrow> getEvents (store_record r es) wid = getEvents es wid"
  by (simp add: getEvents_def store_record_def)

lemma insort_key_snoc:
  "\<forall>y \<in> set ys. f y \<le> f x \<Longrightarrow> f z \<le> f x \<Longrightarrow> insort_key f z (ys @ [x]) = insort_key f z ys @ [x]"
  by (induction ys) auto

lemma sort_key_snoc: "\<forall>y \<in> set ys. f y \<le> f x \<Longrightarrow> sort_key f (ys @ [x]) = sort_key f ys @ [x]"
  by (induction ys) (auto simp: insort_key_snoc)

text \<open>A record made no earlier than the stored ones of its workflow is read back last.\<close>

lemma getEvents_record:
  assumes "\<forall>e \<in> set es. er_recordedAt e \<le> er_recordedAt r"
  shows "getEvents (store_record r es) (er_workflowId r) = getEvents es (er_workflowId r) @ [r]"
  using assms by (simp add: getEvents_def store_record_def sort_key_snoc)

section \<open>Retention\<close>

lemma store_cleanup_accounts:
  "store_cleanup c es = (n, es') \<Longrightarrow> n + length es' = length es"
  by (auto simp: store_cleanup_def Let_def length_filter_le)

lemma store_cleanup_keeps:
  "store_cleanup c es = (n, es') \<Longrightarrow> set es' = {e \<in> set es. c \<le> er_recordedAt e}"
  by (auto simp: store_cleanup_def Let_def)

end
