(* ===== verification/Workflow_Machine.thy ===== *)
theory Workflow_Machine
  imports Event_Store
begin

text \<open>
  The purchase workflow machine (orchestrator/state/machine.ts) and the replay functions of the
  event store (orchestrator/src/events/eventStore.ts). The world holds the machine's snapshot, the
  global event store with its id counter, and whatever the persistence hook writes to.
\<close>

section \<open>The transition table\<close>

fun TRANSITIONS :: "PurchaseState \<Rightarrow> PurchaseEvent \<Rightarrow> PurchaseState option" where
  "TRANSITIONS Discovery (PRODUCT_FOUND _ _ _) = Some SpendingCheck"
| "TRANSITIONS SpendingCheck SPEND_APPROVED = Some UserApprovalPending"
| "TRANSITIONS SpendingCheck (SPEND_DENIED _) = Some Refunded"
| "TRANSITIONS UserApprovalPending USER_APPROVED = Some EscrowLocking"
| "TRANSITIONS UserApprovalPending USER_REJECTED = Some Refunded"
| "TRANSITIONS EscrowLocking (ESCROW_LOCKED _) = Some MerchantFulfillment"
| "TRANSITIONS EscrowLocking (ESCROW_FAILED _) = Some Refunded"
| "TRANSITIONS MerchantFulfillment FULFILLMENT_CONFIRMED = Some DeliveryVerification"
| "TRANSITIONS MerchantFulfillment (REFUND_INITIATED _) = Some Refunded"
| "TRANSITIONS DeliveryVerification DELIVERY_VERIFIED = Some Completed"
| "TRANSITIONS DeliveryVerification (REFUND_INITIATED _) = Some Refunded"
| "TRANSITIONS _ _ = None"

definition TERMINAL_STATES :: "PurchaseState list" where
  "TERMINAL_STATES = [Completed, Refunded]"

fun applyContextUpdate :: "ms \<Rightarrow> PurchaseContext \<Rightarrow> PurchaseEvent \<Rightarrow> PurchaseContext" where
  "applyContextUpdate now ctx (PRODUCT_FOUND p m t) =
     ctx\<lparr>pc_productId := Some p, pc_merchantId := Some m, pc_totalStroops := Some t, pc_updatedAt := now\<rparr>"
| "applyContextUpdate now ctx (SPEND_DENIED r) = ctx\<lparr>pc_rejectionReason := Some r, pc_updatedAt := now\<rparr>"
| "applyContextUpdate now ctx USER_REJECTED =
     ctx\<lparr>pc_rejectionReason := Some ''user_rejected'', pc_updatedAt := now\<rparr>"
| "applyContextUpdate now ctx (ESCROW_LOCKED c) = ctx\<lparr>pc_escrowContractId := Some c, pc_updatedAt := now\<rparr>"
| "applyContextUpdate now ctx (ESCROW_FAILED r) = ctx\<lparr>pc_rejectionReason := Some r, pc_updatedAt := now\<rparr>"
| "applyContextUpdate now ctx (REFUND_INITIATED r) = ctx\<lparr>pc_rejectionReason := Some r, pc_updatedAt := now\<rparr>"
| "applyContextUpdate now ctx _ = ctx\<lparr>pc_updatedAt := now\<rparr>"

section \<open>The machine\<close>

datatype machine_error =
    InTerminalState PurchaseState
  | EventNotValid string PurchaseState
  | HookFailed string
  | NoEvents string
  | InvalidSnapshot "snapshot_problem list"

record 'w wf_world =
  wf_snapshot :: WorkflowSnapshot
  wf_events :: "WorkflowEventRecord list"  \<comment> \<open>the global in-memory event store\<close>
  wf_idCounter :: nat
  wf_ext :: 'w                             \<comment> \<open>what the transition hook writes to\<close>

text \<open>\<^verbatim>\<open>TransitionHook\<close>: an external writer that may reject.\<close>

type_synonym 'w hook = "StateTransitionRecord \<Rightarrow> 'w \<Rightarrow> (string + unit) \<times> 'w"

definition initial_context :: "ms \<Rightarrow> string \<Rightarrow> string \<Rightarrow> string \<Rightarrow> PurchaseContext" where
  "initial_context now wid did uid =
     \<lparr>pc_workflowId = wid, pc_delegationId = did, pc_userId = uid, pc_productId = None,
      pc_merchantId = None, pc_totalStroops = None, pc_escrowContractId = None,
      pc_rejectionReason = None, pc_createdAt = now, pc_updatedAt = now\<rparr>"

text \<open>The constructor of \<^verbatim>\<open>PurchaseWorkflowMachine\<close>.\<close>

definition new_machine :: "ms \<Rightarrow> string \<Rightarrow> string \<Rightarrow> string \<Rightarrow> WorkflowSnapshot" where
  "new_machine now wid did uid =
     \<lparr>ws_workflowId = wid, ws_currentState = Discovery, ws_context = initial_context now wid did uid,
      ws_history = [], ws_version = SNAPSHOT_VERSION, ws_timeoutAt = None\<rparr>"

definition isTerminal :: "WorkflowSnapshot \<Rightarrow> bool" where
  "isTerminal s \<longleftrightarrow> ws_currentState s \<in> set TERMINAL_STATES"

text \<open>\<^verbatim>\<open>getSnapshot\<close> copies five fields and nothing else.\<close>

definition getSnapshot :: "WorkflowSnapshot \<Rightarrow> WorkflowSnapshot" where
  "getSnapshot s =
     \<lparr>ws_workflowId = ws_workflowId s, ws_currentState = ws_currentState s,
      ws_context = ws_context s, ws_history = ws_history s, ws_version = ws_version s,
      ws_timeoutAt = None\<rparr>"

definition fromSnapshot :: "jsval \<Rightarrow> WorkflowSnapshot \<Rightarrow> machine_error + WorkflowSnapshot" where
  "fromSnapshot v s =
     (case assertValidSnapshot v of Inl ps \<Rightarrow> Inl (InvalidSnapshot ps) | Inr _ \<Rightarrow> Inr s)"

text \<open>\<^verbatim>\<open>recordWorkflowEvent\<close> appends to the global store.\<close>

definition recordWorkflowEvent ::
  "ms \<Rightarrow> string \<Rightarrow> string \<Rightarrow> PurchaseEvent \<Rightarrow> PurchaseState option \<Rightarrow> PurchaseState \<Rightarrow> int
     \<Rightarrow> ('w wf_world, machine_error, WorkflowEventRecord) prog" where
  "recordWorkflowEvent now wid etype payload fromSt toSt ver =
     pbind (pgets wf_idCounter) (\<lambda>n.
       let (r, n') = createWorkflowEventRecord now n wid etype payload fromSt toSt ver in
       pbind (pmodify (\<lambda>w. w\<lparr>wf_events := store_record r (wf_events w), wf_idCounter := n'\<rparr>)) (\<lambda>_.
       pret r))"

definition runHook :: "'w hook option \<Rightarrow> StateTransitionRecord \<Rightarrow> ('w wf_world, machine_error, unit) prog" where
  "runHook hook r =
     (case hook of
        None \<Rightarrow> pret ()
      | Some h \<Rightarrow> (\<lambda>w. case h r (wf_ext w) of
                          (Inl msg, x) \<Rightarrow> (Inl (HookFailed msg), w\<lparr>wf_ext := x\<rparr>)
                        | (Inr _, x) \<Rightarrow> (Inr (), w\<lparr>wf_ext := x\<rparr>)))"

definition transition_record :: "ms \<Rightarrow> WorkflowSnapshot \<Rightarrow> PurchaseEvent \<Rightarrow> PurchaseState \<Rightarrow> StateTransitionRecord" where
  "transition_record now s ev next =
     \<lparr>tr_workflowId = ws_workflowId s, tr_fromState = Some (ws_currentState s), tr_toState = next,
      tr_event = event_type ev, tr_context = applyContextUpdate now (ws_context s) ev, tr_timestamp = now\<rparr>"

definition advance_snapshot :: "ms \<Rightarrow> WorkflowSnapshot \<Rightarrow> PurchaseEvent \<Rightarrow> PurchaseState \<Rightarrow> WorkflowSnapshot" where
  "advance_snapshot now s ev next =
     s\<lparr>ws_currentState := next, ws_context := applyContextUpdate now (ws_context s) ev,
       ws_history := ws_history s @ [transition_record now s ev next]\<rparr>"

text \<open>
  \<^verbatim>\<open>send\<close>. The snapshot is replaced before the hook runs, so a hook that rejects leaves
  the machine moved on and the event unrecorded; a failure to record the event is swallowed.
\<close>

definition send :: "'w hook option \<Rightarrow> ms \<Rightarrow> PurchaseEvent \<Rightarrow> ('w wf_world, machine_error, WorkflowSnapshot) prog" where
  "send hook now ev =
     pbind (pgets wf_snapshot) (\<lambda>s.
     if isTerminal s then pthrow (InTerminalState (ws_currentState s))
     else (case TRANSITIONS (ws_currentState s) ev of
        None \<Rightarrow> pthrow (EventNotValid (event_type ev) (ws_currentState s))
      | Some next \<Rightarrow>
          pbind (pmodify (\<lambda>w. w\<lparr>wf_snapshot := advance_snapshot now s ev next\<rparr>)) (\<lambda>_.
          pbind (runHook hook (transition_record now s ev next)) (\<lambda>_.
          pbind (pcatch (pbind (recordWorkflowEvent now (ws_workflowId s) (event_type ev) ev
                           (Some (ws_currentState s)) next (ws_version s)) (\<lambda>_. pret ()))
                   (\<lambda>_. pret ())) (\<lambda>_.
          pgets (\<lambda>w. getSnapshot (wf_snapshot w)))))))"

text \<open>A caller feeding events to the machine, the \<open>i\<close>-th at time \<open>clk i\<close>.\<close>

fun send_all :: "'w hook option \<Rightarrow> (nat \<Rightarrow> ms) \<Rightarrow> nat \<Rightarrow> PurchaseEvent list \<Rightarrow> ('w wf_world, machine_error, unit) prog" where
  "send_all hook clk i [] = pret ()"
| "send_all hook clk i (e # es) = pbind (send hook (clk i) e) (\<lambda>_. send_all hook clk (Suc i) es)"

section \<open>Replay\<close>

text \<open>
  \<^verbatim>\<open>replayWorkflowEvents\<close> builds a fresh machine and sends it the recorded payloads; the sends
  record into the same global store. The fresh machine replaces nothing, so the world's machine
  slot is the fresh one from here on.
\<close>

definition replayWorkflowEvents ::
  "(nat \<Rightarrow> ms) \<Rightarrow> WorkflowEventRecord list \<Rightarrow> string \<Rightarrow> string \<Rightarrow> string
     \<Rightarrow> ('w wf_world, machine_error, WorkflowSnapshot) prog" where
  "replayWorkflowEvents clk events wid did uid =
     (if events = [] then pthrow (NoEvents wid)
      else pbind (pmodify (\<lambda>w. w\<lparr>wf_snapshot := new_machine (clk 0) wid did uid\<rparr>)) (\<lambda>_.
           pbind (send_all None clk 1 (map er_payload events)) (\<lambda>_.
           pgets (\<lambda>w. getSnapshot (wf_snapshot w)))))"

definition replayFromStore ::
  "(nat \<Rightarrow> ms) \<Rightarrow> string \<Rightarrow> string \<Rightarrow> string \<Rightarrow> ('w wf_world, machine_error, WorkflowSnapshot) prog" where
  "replayFromStore clk wid did uid =
     pbind (pgets (\<lambda>w. getEvents (wf_events w) wid)) (\<lambda>events.
     if events = [] then pthrow (NoEvents wid)
     else replayWorkflowEvents clk events wid did uid)"

text \<open>\<^verbatim>\<open>PurchaseWorkflowMachine.fromEventReplay\<close>: the same loop, with the caller's hook.\<close>

definition fromEventReplay ::
  "'w hook option \<Rightarrow> (nat \<Rightarrow> ms) \<Rightarrow> string \<Rightarrow> string \<Rightarrow> string \<Rightarrow> string
     \<Rightarrow> ('w wf_world, machine_error, WorkflowSnapshot) prog" where
  "fromEventReplay hook clk workflowId wid did uid =
     pbind (pgets (\<lambda>w. getEvents (wf_events w) workflowId)) (\<lambda>events.
     if events = [] then pthrow (NoEvents workflowId)
     else pbind (pmodify (\<lambda>w. w\<lparr>wf_snapshot := new_machine (clk 0) wid did uid\<rparr>)) (\<lambda>_.
          pbind (send_all hook clk 1 (map er_payload events)) (\<lambda>_.
          pgets wf_snapshot)))"

section \<open>The table\<close>

fun state_rank :: "PurchaseState \<Rightarrow> nat" where
  "state_rank Discovery = 0"
| "state_rank SpendingCheck = 1"
| "state_rank UserApprovalPending = 2"
| "state_rank EscrowLocking = 3"
| "state_rank MerchantFulfillment = 4"
| "state_rank DeliveryVerification = 5"
| "state_rank Completed = 6"
| "state_rank Refunded = 6"

interpretation purchase: ranked_machine TRANSITIONS state_rank 6
proof
  show "state_rank s < state_rank s'" if "TRANSITIONS s e = Some s'" for s e s'
    using that by (cases "(s, e)" rule: TRANSITIONS.cases) auto
  show "state_rank s \<le> 6" for s
    by (cases s) auto
qed

text \<open>Every state that is not terminal accepts some event.\<close>

fun some_event :: "PurchaseState \<Rightarrow> PurchaseEvent" where
  "some_event Discovery = PRODUCT_FOUND [] [] 0"
| "some_event SpendingCheck = SPEND_APPROVED"
| "some_event UserApprovalPending = USER_APPROVED"
| "some_event EscrowLocking = ESCROW_LOCKED []"
| "some_event MerchantFulfillment = FULFILLMENT_CONFIRMED"
| "some_event _ = DELIVERY_VERIFIED"

lemma some_event_accepted: "s \<notin> set TERMINAL_STATES \<Longrightarrow> TRANSITIONS s (some_event s) \<noteq> None"
  by (cases s) (auto simp: TERMINAL_STATES_def)

lemma terminal_stuck: "s \<in> set TERMINAL_STATES \<Longrightarrow> TRANSITIONS s e = None"
  by (auto simp: TERMINAL_STATES_def)

lemma terminal_iff_stuck: "s \<in> set TERMINAL_STATES \<longleftrightarrow> (\<forall>e. TRANSITIONS s e = None)"
  using some_event_accepted terminal_stuck by metis

lemma discovery_only: "TRANSITIONS Discovery e \<noteq> None \<longleftrightarrow> (\<exists>p m t. e = PRODUCT_FOUND p m t)"
  by (cases e) auto

lemma product_found_only: "TRANSITIONS s (PRODUCT_FOUND p m t) \<noteq> None \<longleftrightarrow> s = Discovery"
  by (cases s) auto

section \<open>One send\<close>

text \<open>The record that an accepted event leaves in the event store.\<close>

definition event_record :: "ms \<Rightarrow> nat \<Rightarrow> WorkflowSnapshot \<Rightarrow> PurchaseEvent \<Rightarrow> PurchaseState \<Rightarrow> WorkflowEventRecord" where
  "event_record now n s ev next =
     fst (createWorkflowEventRecord now n (ws_workflowId s) (event_type ev) ev
            (Some (ws_currentState s)) next (ws_version s))"

lemma event_record_fields [simp]:
  "er_payload (event_record now n s ev next) = ev"
  "er_workflowId (event_record now n s ev next) = ws_workflowId s"
  "er_recordedAt (event_record now n s ev next) = now"
  "er_toState (event_record now n s ev next) = next"
  "er_fromState (event_record now n s ev next) = Some (ws_currentState s)"
  by (simp_all add: event_record_def createWorkflowEventRecord_def)

lemma advance_snapshot_fields [simp]:
  "ws_workflowId (advance_snapshot now s ev next) = ws_workflowId s"
  "ws_currentState (advance_snapshot now s ev next) = next"
  "ws_version (advance_snapshot now s ev next) = ws_version s"
  "ws_timeoutAt (advance_snapshot now s ev next) = ws_timeoutAt s"
  by (simp_all add: advance_snapshot_def)

lemma recordWorkflowEvent_run:
  "recordWorkflowEvent now wid ty ev f t v w =
     (Inr (fst (createWorkflowEventRecord now (wf_idCounter w) wid ty ev f t v)),
      w\<lparr>wf_events := wf_events w @ [fst (createWorkflowEventRecord now (wf_idCounter w) wid ty ev f t v)],
        wf_idCounter := Suc (wf_idCounter w)\<rparr>)"
  by (simp add: recordWorkflowEvent_def prog_simps Let_def createWorkflowEventRecord_def store_record_def)

lemma not_terminal_of_step: "TRANSITIONS (ws_currentState s) ev = Some next \<Longrightarrow> \<not> isTerminal s"
  by (auto simp: isTerminal_def terminal_iff_stuck)

lemma send_accepted:
  assumes "TRANSITIONS (ws_currentState (wf_snapshot w)) ev = Some next"
    and "runHook hook (transition_record now (wf_snapshot w) ev next)
           (w\<lparr>wf_snapshot := advance_snapshot now (wf_snapshot w) ev next\<rparr>) = (Inr (), w1)"
    and "wf_snapshot w1 = advance_snapshot now (wf_snapshot w) ev next"
  shows "send hook now ev w =
     (Inr (getSnapshot (wf_snapshot w1)),
      w1\<lparr>wf_events := wf_events w1 @ [event_record now (wf_idCounter w1) (wf_snapshot w) ev next],
         wf_idCounter := Suc (wf_idCounter w1)\<rparr>)"
  using assms not_terminal_of_step [OF assms(1)]
  by (simp add: send_def prog_simps recordWorkflowEvent_run event_record_def)

lemma send_accepted_no_hook:
  assumes "TRANSITIONS (ws_currentState (wf_snapshot w)) ev = Some next"
  shows "send None now ev w =
     (Inr (getSnapshot (advance_snapshot now (wf_snapshot w) ev next)),
      w\<lparr>wf_snapshot := advance_snapshot now (wf_snapshot w) ev next,
        wf_events := wf_events w @ [event_record now (wf_idCounter w) (wf_snapshot w) ev next],
        wf_idCounter := Suc (wf_idCounter w)\<rparr>)"
  using send_accepted [OF assms, of None now] by (simp add: runHook_def prog_simps)

lemma send_refused:
  assumes "TRANSITIONS (ws_currentState (wf_snapshot w)) ev = None"
  shows "send hook now ev w =
     (Inl (if isTerminal (wf_snapshot w) then InTerminalState (ws_currentState (wf_snapshot w))
           else EventNotValid (event_type ev) (ws_currentState (wf_snapshot w))), w)"
  using assms by (simp add: send_def prog_simps)

lemma send_hook_failed:
  assumes "TRANSITIONS (ws_currentState (wf_snapshot w)) ev = Some next"
    and "h (transition_record now (wf_snapshot w) ev next) (wf_ext w) = (Inl msg, x)"
  shows "send (Some h) now ev w =
     (Inl (HookFailed msg), w\<lparr>wf_snapshot := advance_snapshot now (wf_snapshot w) ev next, wf_ext := x\<rparr>)"
  using assms not_terminal_of_step [OF assms(1)] by (simp add: send_def prog_simps runHook_def)

section \<open>A run of sends\<close>

text \<open>The reference: folding the table and the context update over the events.\<close>

fun advance_all :: "(nat \<Rightarrow> ms) \<Rightarrow> nat \<Rightarrow> WorkflowSnapshot \<Rightarrow> PurchaseEvent list \<Rightarrow> WorkflowSnapshot option" where
  "advance_all clk i s [] = Some s"
| "advance_all clk i s (e # es) =
     (case TRANSITIONS (ws_currentState s) e of
        None \<Rightarrow> None
      | Some next \<Rightarrow> advance_all clk (Suc i) (advance_snapshot (clk i) s e next) es)"

text \<open>The records those events leave in the store.\<close>

fun records_all :: "(nat \<Rightarrow> ms) \<Rightarrow> nat \<Rightarrow> nat \<Rightarrow> WorkflowSnapshot \<Rightarrow> PurchaseEvent list \<Rightarrow> WorkflowEventRecord list" where
  "records_all clk i n s [] = []"
| "records_all clk i n s (e # es) =
     (case TRANSITIONS (ws_currentState s) e of
        None \<Rightarrow> []
      | Some next \<Rightarrow> event_record (clk i) n s e next #
                     records_all clk (Suc i) (Suc n) (advance_snapshot (clk i) s e next) es)"

lemma advance_all_state:
  "map_option ws_currentState (advance_all clk i s es) = run_steps TRANSITIONS (ws_currentState s) es"
  by (induction es arbitrary: i s) (auto split: option.splits)

lemma advance_all_Some_state:
  "advance_all clk i s es = Some s' \<Longrightarrow> run_steps TRANSITIONS (ws_currentState s) es = Some (ws_currentState s')"
  using advance_all_state [of clk i s es] by simp

lemma advance_all_clock:
  "(advance_all clk i s es = None) = (advance_all clk' j s' es = None)"
  if "ws_currentState s = ws_currentState s'"
  using that advance_all_state [of clk i s es] advance_all_state [of clk' j s' es]
  by (metis option.map_disc_iff)

lemma send_all_run:
  assumes "advance_all clk i (wf_snapshot w) es = Some s'"
  shows "send_all None clk i es w =
     (Inr (), w\<lparr>wf_snapshot := s',
                wf_events := wf_events w @ records_all clk i (wf_idCounter w) (wf_snapshot w) es,
                wf_idCounter := wf_idCounter w + length es\<rparr>)"
  using assms
proof (induction es arbitrary: i w)
  case Nil
  then show ?case by (simp add: prog_simps)
next
  case (Cons e es)
  then obtain nxt where n: "TRANSITIONS (ws_currentState (wf_snapshot w)) e = Some nxt"
    by (auto split: option.splits)
  with Cons show ?case
    by (simp add: prog_simps send_accepted_no_hook [OF n])
qed

lemma send_all_fails:
  assumes "advance_all clk i (wf_snapshot w) es = None"
  shows "\<exists>err w'. send_all None clk i es w = (Inl err, w')"
  using assms
proof (induction es arbitrary: i w)
  case Nil
  then show ?case by simp
next
  case (Cons e es)
  show ?case
  proof (cases "TRANSITIONS (ws_currentState (wf_snapshot w)) e")
    case None
    then show ?thesis by (simp add: prog_simps send_refused)
  next
    case (Some nxt)
    with Cons show ?thesis by (simp add: prog_simps send_accepted_no_hook [OF Some])
  qed
qed

lemma records_all_payloads:
  "advance_all clk i s es = Some s' \<Longrightarrow> map er_payload (records_all clk i n s es) = es"
  by (induction es arbitrary: i n s) (auto split: option.splits)

lemma records_all_workflow: "r \<in> set (records_all clk i n s es) \<Longrightarrow> er_workflowId r = ws_workflowId s"
  by (induction es arbitrary: i n s) (auto split: option.splits)

lemma records_all_times:
  "r \<in> set (records_all clk i n s es) \<Longrightarrow> \<exists>k \<ge> i. er_recordedAt r = clk k"
proof (induction es arbitrary: i n s)
  case Nil
  then show ?case by simp
next
  case (Cons e es)
  from Cons.prems consider "er_recordedAt r = clk i"
    | m t where "r \<in> set (records_all clk (Suc i) m t es)"
    by (auto split: option.splits)
  then show ?case
    by cases (auto dest: Cons.IH Suc_leD)
qed

lemma records_all_sorted:
  assumes "mono clk"
  shows "sorted (map er_recordedAt (records_all clk i n s es))"
proof (induction es arbitrary: i n s)
  case Nil
  then show ?case by simp
next
  case (Cons e es)
  have "clk i \<le> er_recordedAt r" if r: "r \<in> set (records_all clk (Suc i) m t es)" for r m t
    using records_all_times [OF r] assms by (auto simp: mono_def dest!: Suc_leD)
  with Cons show ?case by (auto split: option.splits)
qed

section \<open>Snapshots up to timestamps\<close>

definition erase_context :: "PurchaseContext \<Rightarrow> PurchaseContext" where
  "erase_context c = c\<lparr>pc_createdAt := 0, pc_updatedAt := 0\<rparr>"

definition erase_transition :: "StateTransitionRecord \<Rightarrow> StateTransitionRecord" where
  "erase_transition r = r\<lparr>tr_context := erase_context (tr_context r), tr_timestamp := 0\<rparr>"

definition erase_snapshot :: "WorkflowSnapshot \<Rightarrow> WorkflowSnapshot" where
  "erase_snapshot s =
     s\<lparr>ws_context := erase_context (ws_context s), ws_history := map erase_transition (ws_history s)\<rparr>"

lemma erase_context_update:
  "erase_context c = erase_context c' \<Longrightarrow>
   erase_context (applyContextUpdate now c ev) = erase_context (applyContextUpdate now' c' ev)"
  by (cases c; cases c'; cases ev) (simp_all add: erase_context_def)

lemma erase_snapshot_state: "erase_snapshot s = erase_snapshot s' \<Longrightarrow> ws_currentState s = ws_currentState s'"
  by (cases s; cases s') (simp add: erase_snapshot_def)

lemma erase_advance:
  assumes "erase_snapshot s = erase_snapshot s'"
  shows "erase_snapshot (advance_snapshot now s ev nxt) = erase_snapshot (advance_snapshot now' s' ev nxt)"
proof -
  from assms have "erase_context (ws_context s) = erase_context (ws_context s')"
    by (cases s; cases s') (simp add: erase_snapshot_def)
  from erase_context_update [OF this] assms show ?thesis
    by (cases s; cases s')
      (simp add: erase_snapshot_def advance_snapshot_def transition_record_def erase_transition_def)
qed

lemma advance_all_erase:
  assumes "erase_snapshot s = erase_snapshot s'" and "advance_all clk i s es = Some t"
  shows "\<exists>t'. advance_all clk' j s' es = Some t' \<and> erase_snapshot t' = erase_snapshot t"
  using assms
proof (induction es arbitrary: i j s s')
  case Nil
  then show ?case by simp
next
  case (Cons e es)
  then obtain nxt where n: "TRANSITIONS (ws_currentState s) e = Some nxt"
    and rest: "advance_all clk (Suc i) (advance_snapshot (clk i) s e nxt) es = Some t"
    by (auto split: option.splits)
  from Cons.IH [OF erase_advance [OF Cons.prems(1)] rest] n erase_snapshot_state [OF Cons.prems(1)]
  show ?case by simp
qed

lemma erase_getSnapshot:
  "erase_snapshot s = erase_snapshot s' \<Longrightarrow> erase_snapshot (getSnapshot s) = erase_snapshot (getSnapshot s')"
  by (cases s; cases s') (simp add: erase_snapshot_def getSnapshot_def)

lemma erase_new_machine: "erase_snapshot (new_machine t wid did uid) = erase_snapshot (new_machine t' wid did uid)"
  by (simp add: erase_snapshot_def new_machine_def initial_context_def erase_context_def)

lemma new_machine_fields [simp]:
  "ws_currentState (new_machine t wid did uid) = Discovery"
  "ws_workflowId (new_machine t wid did uid) = wid"
  by (simp_all add: new_machine_def)

section \<open>Replay reconstructs a workflow, once\<close>

text \<open>What the store holds of one workflow after it ran from a fresh machine.\<close>

lemma send_all_succeeds_iff:
  "send_all None clk i es w = (Inr (), w') \<longleftrightarrow>
   (\<exists>s'. advance_all clk i (wf_snapshot w) es = Some s' \<and>
     w' = w\<lparr>wf_snapshot := s',
            wf_events := wf_events w @ records_all clk i (wf_idCounter w) (wf_snapshot w) es,
            wf_idCounter := wf_idCounter w + length es\<rparr>)"
proof (cases "advance_all clk i (wf_snapshot w) es")
  case None
  with send_all_fails [OF None] show ?thesis by auto
next
  case (Some s')
  with send_all_run [OF Some] show ?thesis by auto
qed

lemma getEvents_after_run:
  assumes "mono clk" and "\<forall>r \<in> set old. er_workflowId r \<noteq> ws_workflowId s"
  shows "getEvents (old @ records_all clk i n s es) (ws_workflowId s) = records_all clk i n s es"
proof -
  have "filter (\<lambda>e. er_workflowId e = ws_workflowId s) (old @ records_all clk i n s es)
          = records_all clk i n s es"
    using assms(2) records_all_workflow by (fastforce simp: filter_empty_conv filter_id_conv)
  then show ?thesis
    by (simp add: getEvents_def sort_key_sorted records_all_sorted [OF assms(1)])
qed

lemma replay_run:
  assumes "getEvents (wf_events w) wid = recs" and "recs \<noteq> []"
    and "advance_all clk 1 (new_machine (clk 0) wid did uid) (map er_payload recs) = Some s'"
  shows "replayFromStore clk wid did uid w =
     (Inr (getSnapshot s'),
      w\<lparr>wf_snapshot := s',
        wf_events := wf_events w @ records_all clk 1 (wf_idCounter w) (new_machine (clk 0) wid did uid) (map er_payload recs),
        wf_idCounter := wf_idCounter w + length recs\<rparr>)"
proof -
  let ?w0 = "w\<lparr>wf_snapshot := new_machine (clk 0) wid did uid\<rparr>"
  have "send_all None clk 1 (map er_payload recs) ?w0 =
     (Inr (), ?w0\<lparr>wf_snapshot := s',
        wf_events := wf_events w @ records_all clk 1 (wf_idCounter w) (new_machine (clk 0) wid did uid) (map er_payload recs),
        wf_idCounter := wf_idCounter w + length recs\<rparr>)"
    using send_all_run [of clk 1 ?w0 "map er_payload recs" s'] assms(3) by simp
  with assms(1,2) show ?thesis
    by (simp add: replayFromStore_def replayWorkflowEvents_def prog_simps)
qed

lemma replay_fails:
  assumes "getEvents (wf_events w) wid = recs" and "recs \<noteq> []"
    and "advance_all clk 1 (new_machine (clk 0) wid did uid) (map er_payload recs) = None"
  shows "\<exists>err w'. replayFromStore clk wid did uid w = (Inl err, w')"
proof -
  let ?w0 = "w\<lparr>wf_snapshot := new_machine (clk 0) wid did uid\<rparr>"
  obtain err w' where "send_all None clk 1 (map er_payload recs) ?w0 = (Inl err, w')"
    using send_all_fails [of clk 1 ?w0 "map er_payload recs"] assms(3) by auto
  with assms(1,2) show ?thesis
    by (simp add: replayFromStore_def replayWorkflowEvents_def prog_simps)
qed

text \<open>A run from \<open>Discovery\<close> starts with \<open>PRODUCT_FOUND\<close> and never comes back to
  \<open>Discovery\<close>, so it cannot be followed by itself.\<close>

lemma rerun_refused:
  assumes run: "run_steps TRANSITIONS Discovery es = Some s" and "es \<noteq> []"
  shows "run_steps TRANSITIONS Discovery (es @ es) = None"
proof -
  obtain e es' where es: "es = e # es'" using \<open>es \<noteq> []\<close> by (cases es) auto
  from run obtain p m t where "e = PRODUCT_FOUND p m t"
    using discovery_only [of e] by (auto simp: es split: option.splits)
  moreover have "s \<noteq> Discovery"
    using purchase.no_return [OF run \<open>es \<noteq> []\<close>] .
  ultimately have "run_steps TRANSITIONS s es = None"
    using product_found_only [of s p m t] by (auto simp: es)
  with run show ?thesis by (simp add: run_steps_append)
qed

text \<open>C22: event sourcing is faithful. When a fresh workflow accepted the events \<open>es\<close> (with a
  clock that does not go back, and no older events under its id), replaying the store
  rebuilds its snapshot: the same state, context and history, up to timestamps.\<close>

theorem replay_reconstructs:
  assumes "mono clk" and "es \<noteq> []"
    and start: "wf_snapshot w = new_machine t0 wid did uid"
    and fresh: "\<forall>r \<in> set (wf_events w). er_workflowId r \<noteq> wid"
    and ran: "send_all None clk 0 es w = (Inr (), w1)"
  shows "\<exists>s w2. replayFromStore clk' wid did uid w1 = (Inr s, w2) \<and>
           erase_snapshot s = erase_snapshot (getSnapshot (wf_snapshot w1))"
proof -
  let ?recs = "records_all clk 0 (wf_idCounter w) (new_machine t0 wid did uid) es"
  from ran start obtain s1 where s1: "advance_all clk 0 (new_machine t0 wid did uid) es = Some s1"
    and w1: "wf_snapshot w1 = s1" "wf_events w1 = wf_events w @ ?recs"
    by (auto simp: send_all_succeeds_iff)
  have stored: "getEvents (wf_events w1) wid = ?recs"
    using getEvents_after_run [OF \<open>mono clk\<close>, of "wf_events w" "new_machine t0 wid did uid"] fresh w1
    by simp
  have payloads: "map er_payload ?recs = es" by (rule records_all_payloads [OF s1])
  then have "?recs \<noteq> []" using \<open>es \<noteq> []\<close> by (metis list.map_disc_iff)
  obtain s2 where s2: "advance_all clk' 1 (new_machine (clk' 0) wid did uid) es = Some s2"
    and "erase_snapshot s2 = erase_snapshot s1"
    using advance_all_erase [OF erase_new_machine s1] by blast
  with replay_run [OF stored \<open>?recs \<noteq> []\<close>, of clk' did uid s2] payloads w1(1) show ?thesis
    by (auto intro: erase_getSnapshot)
qed

text \<open>A workflow that found a product and had its spend approved, for the witnesses.\<close>

definition demo_world :: "unit wf_world" where
  "demo_world = \<lparr>wf_snapshot = new_machine 0 ''w1'' ''d1'' ''u1'', wf_events = [], wf_idCounter = 0, wf_ext = ()\<rparr>"

definition demo_events :: "PurchaseEvent list" where
  "demo_events = [PRODUCT_FOUND ''p1'' ''m1'' 5000, SPEND_APPROVED]"

lemma demo_run: "send_all None int 0 demo_events demo_world = (Inr (), snd (send_all None int 0 demo_events demo_world))"
proof -
  have "advance_all int 0 (wf_snapshot demo_world) demo_events \<noteq> None"
    by (simp add: demo_world_def demo_events_def)
  then show ?thesis using send_all_run by fastforce
qed

lemma mono_int: "mono int"
  by (simp add: mono_def)

theorem replay_reconstructs_witness:
  "\<exists>s w2. replayFromStore int ''w1'' ''d1'' ''u1'' (snd (send_all None int 0 demo_events demo_world)) = (Inr s, w2) \<and>
     erase_snapshot s = erase_snapshot (getSnapshot (wf_snapshot (snd (send_all None int 0 demo_events demo_world))))"
  by (rule replay_reconstructs [OF mono_int _ _ _ demo_run, where ?t0.0 = 0])
    (simp_all add: demo_events_def demo_world_def)

text \<open>replay is not repeatable. The replaying machine records the replayed events again, so a
  second replay of the same workflow reads every event twice and is refused. The hypotheses are
  those of a successful first replay, with a clock that does not go back.\<close>

theorem replay_twice_fails:
  assumes "mono clk" and "mono clk'" and "\<forall>i j. clk i \<le> clk' j" and "es \<noteq> []"
    and start: "wf_snapshot w = new_machine t0 wid did uid"
    and fresh: "\<forall>r \<in> set (wf_events w). er_workflowId r \<noteq> wid"
    and ran: "send_all None clk 0 es w = (Inr (), w1)"
    and replayed: "replayFromStore clk' wid did uid w1 = (Inr s, w2)"
  shows "\<exists>err w3. replayFromStore clk'' wid did uid w2 = (Inl err, w3)"
proof -
  let ?m = "new_machine t0 wid did uid" and ?m' = "new_machine (clk' 0) wid did uid"
  let ?recs = "records_all clk 0 (wf_idCounter w) ?m es"
  let ?recs' = "records_all clk' 1 (wf_idCounter w1) ?m' es"
  from ran start obtain s1 where s1: "advance_all clk 0 ?m es = Some s1"
    and w1: "wf_events w1 = wf_events w @ ?recs"
    by (auto simp: send_all_succeeds_iff)
  have stored: "getEvents (wf_events w1) wid = ?recs"
    using getEvents_after_run [OF \<open>mono clk\<close>, of "wf_events w" ?m] fresh w1 by simp
  have pl: "map er_payload ?recs = es" by (rule records_all_payloads [OF s1])
  then have ne: "?recs \<noteq> []" using \<open>es \<noteq> []\<close> by (metis list.map_disc_iff)
  obtain s2 where s2: "advance_all clk' 1 ?m' es = Some s2"
    using advance_all_erase [OF erase_new_machine s1] by blast
  with replay_run [OF stored ne, of clk' did uid s2] replayed pl w1
  have w2: "wf_events w2 = wf_events w @ ?recs @ ?recs'"
    by simp
  have "sorted (map er_recordedAt (?recs @ ?recs'))"
    using records_all_sorted [OF \<open>mono clk\<close>] records_all_sorted [OF \<open>mono clk'\<close>] assms(3)
    by (fastforce simp: sorted_append dest: records_all_times)
  moreover have "filter (\<lambda>e. er_workflowId e = wid) (wf_events w2) = ?recs @ ?recs'"
    using fresh records_all_workflow [of _ clk 0 "wf_idCounter w" ?m es]
      records_all_workflow [of _ clk' 1 "wf_idCounter w1" ?m' es]
    by (fastforce simp: w2 filter_empty_conv filter_id_conv)
  ultimately have twice: "getEvents (wf_events w2) wid = ?recs @ ?recs'"
    by (simp add: getEvents_def sort_key_sorted)
  have pl': "map er_payload ?recs' = es" by (rule records_all_payloads [OF s2])
  have "run_steps TRANSITIONS Discovery (es @ es) = None"
    using advance_all_Some_state [OF s1] \<open>es \<noteq> []\<close> by (intro rerun_refused) auto
  then have "advance_all clk'' 1 (new_machine (clk'' 0) wid did uid) (map er_payload (?recs @ ?recs')) = None"
    using advance_all_state [of clk'' 1 "new_machine (clk'' 0) wid did uid" "es @ es"] pl pl' by simp
  with ne show ?thesis
    by (intro replay_fails [OF twice]) auto
qed

theorem replay_twice_fails_witness:
  "\<exists>s w2. replayFromStore (\<lambda>i. int i + 10) ''w1'' ''d1'' ''u1''
            (snd (send_all None (\<lambda>i. min (int i) 10) 0 demo_events demo_world)) = (Inr s, w2) \<and>
     (\<exists>err w3. replayFromStore (\<lambda>i. int i + 20) ''w1'' ''d1'' ''u1'' w2 = (Inl err, w3))"
proof -
  let ?clk = "\<lambda>i. min (int i) 10" and ?clk' = "\<lambda>i. int i + 10"
  have m: "mono ?clk" "mono ?clk'" by (auto simp: mono_def)
  have "advance_all ?clk 0 (wf_snapshot demo_world) demo_events \<noteq> None"
    by (simp add: demo_world_def demo_events_def)
  then have ran: "send_all None ?clk 0 demo_events demo_world
      = (Inr (), snd (send_all None ?clk 0 demo_events demo_world))" (is "_ = (_, ?w1)")
    using send_all_run by fastforce
  have start: "wf_snapshot demo_world = new_machine 0 ''w1'' ''d1'' ''u1''"
    and fresh: "\<forall>r \<in> set (wf_events demo_world). er_workflowId r \<noteq> ''w1''"
    and ne: "demo_events \<noteq> []"
    by (simp_all add: demo_world_def demo_events_def)
  have "getEvents (wf_events ?w1) ''w1'' \<noteq> []"
    by (simp add: demo_world_def demo_events_def send_accepted_no_hook prog_simps new_machine_def
        getEvents_def filter_empty_conv event_record_def createWorkflowEventRecord_def)
  then obtain s w2 where r: "replayFromStore ?clk' ''w1'' ''d1'' ''u1'' ?w1 = (Inr s, w2)"
    using replay_reconstructs [OF m(1) ne start fresh ran, of ?clk'] by blast
  have "\<forall>i j. ?clk i \<le> ?clk' j" by auto
  from replay_twice_fails [OF m this ne start fresh ran r] r show ?thesis by blast
qed

section \<open>Reachable workflows\<close>

text \<open>The history is a path of the table from \<open>Discovery\<close> to the current state.\<close>

fun chain :: "PurchaseState \<Rightarrow> StateTransitionRecord list \<Rightarrow> PurchaseState \<Rightarrow> bool" where
  "chain s [] t = (s = t)"
| "chain s (r # rs) t =
     (tr_fromState r = Some s \<and> (\<exists>ev. TRANSITIONS s ev = Some (tr_toState r) \<and> event_type ev = tr_event r) \<and>
      chain (tr_toState r) rs t)"

lemma chain_snoc:
  "chain s (rs @ [r]) t \<longleftrightarrow>
     (\<exists>u. chain s rs u \<and> tr_fromState r = Some u \<and>
          (\<exists>ev. TRANSITIONS u ev = Some (tr_toState r) \<and> event_type ev = tr_event r) \<and> tr_toState r = t)"
  by (induction rs arbitrary: s) auto

lemma chain_run: "chain s rs t \<Longrightarrow> \<exists>es. length es = length rs \<and> run_steps TRANSITIONS s es = Some t"
proof (induction rs arbitrary: s)
  case Nil
  then show ?case by simp
next
  case (Cons r rs)
  then obtain ev es where "TRANSITIONS s ev = Some (tr_toState r)" "length es = length rs"
    "run_steps TRANSITIONS (tr_toState r) es = Some t"
    by fastforce
  then have "length (ev # es) = length (r # rs) \<and> run_steps TRANSITIONS s (ev # es) = Some t" by simp
  then show ?case by blast
qed

text \<open>What the context holds at each stage: a product after discovery, a locked escrow from
  fulfilment on, a reason once refunded.\<close>

definition stage_data :: "PurchaseState \<Rightarrow> PurchaseContext \<Rightarrow> bool" where
  "stage_data st c \<longleftrightarrow>
     (st \<noteq> Discovery \<longrightarrow> pc_productId c \<noteq> None \<and> pc_merchantId c \<noteq> None \<and> pc_totalStroops c \<noteq> None) \<and>
     (st \<in> {MerchantFulfillment, DeliveryVerification, Completed} \<longrightarrow> pc_escrowContractId c \<noteq> None) \<and>
     (st = Refunded \<longrightarrow> pc_rejectionReason c \<noteq> None)"

definition workflow_inv :: "WorkflowSnapshot \<Rightarrow> bool" where
  "workflow_inv s \<longleftrightarrow>
     chain Discovery (ws_history s) (ws_currentState s) \<and>
     (\<forall>r \<in> set (ws_history s). tr_workflowId r = ws_workflowId s \<and> stage_data (tr_toState r) (tr_context r)) \<and>
     stage_data (ws_currentState s) (ws_context s)"

lemma stage_data_step:
  "TRANSITIONS st ev = Some nxt \<Longrightarrow> stage_data st c \<Longrightarrow> stage_data nxt (applyContextUpdate now c ev)"
  by (cases "(st, ev)" rule: TRANSITIONS.cases) (auto simp: stage_data_def)

lemma workflow_inv_new: "workflow_inv (new_machine t wid did uid)"
  by (simp add: workflow_inv_def new_machine_def stage_data_def)

lemma workflow_inv_advance:
  assumes "workflow_inv s" and n: "TRANSITIONS (ws_currentState s) ev = Some nxt"
  shows "workflow_inv (advance_snapshot now s ev nxt)"
proof -
  from assms have "stage_data nxt (applyContextUpdate now (ws_context s) ev)"
    by (auto simp: workflow_inv_def intro: stage_data_step)
  with assms show ?thesis
    by (auto simp: workflow_inv_def advance_snapshot_def transition_record_def chain_snoc)
qed

lemma runHook_snapshot: "wf_snapshot (snd (runHook hook r w)) = wf_snapshot w"
  by (auto simp: runHook_def prog_simps split: option.splits prod.splits sum.splits)

text \<open>Whatever the hook does, a send leaves the snapshot alone or advances it by one table entry.\<close>

lemma send_snapshot:
  "wf_snapshot (snd (send hook now ev w)) = wf_snapshot w \<or>
   (\<exists>nxt. TRANSITIONS (ws_currentState (wf_snapshot w)) ev = Some nxt \<and>
          wf_snapshot (snd (send hook now ev w)) = advance_snapshot now (wf_snapshot w) ev nxt)"
proof (cases "TRANSITIONS (ws_currentState (wf_snapshot w)) ev")
  case None
  then show ?thesis by (simp add: send_refused)
next
  case (Some nxt)
  let ?s' = "advance_snapshot now (wf_snapshot w) ev nxt"
  let ?hk = "runHook hook (transition_record now (wf_snapshot w) ev nxt) (w\<lparr>wf_snapshot := ?s'\<rparr>)"
  have hk: "wf_snapshot (snd ?hk) = ?s'" by (simp add: runHook_snapshot)
  have "wf_snapshot (snd (send hook now ev w)) = ?s'"
    using Some not_terminal_of_step [OF Some] hk
    by (auto simp: send_def prog_simps recordWorkflowEvent_run split: prod.splits sum.splits)
  with Some show ?thesis by blast
qed

lemma send_keeps_inv: "keeps (\<lambda>w. workflow_inv (wf_snapshot w)) (send hook now ev)"
proof (rule keepsI)
  fix w :: "'a wf_world"
  assume "workflow_inv (wf_snapshot w)"
  then show "workflow_inv (wf_snapshot (snd (send hook now ev w)))"
    using send_snapshot [of hook now ev w] workflow_inv_advance by metis
qed

text \<open>The worlds a workflow can get into: any sends, at any times, accepted or refused, with a
  hook that may fail.\<close>

inductive wf_reach :: "'w hook option \<Rightarrow> 'w wf_world \<Rightarrow> bool" for hook where
  wf_new: "wf_snapshot w = new_machine t wid did uid \<Longrightarrow> wf_reach hook w"
| wf_send: "wf_reach hook w \<Longrightarrow> wf_reach hook (snd (send hook now ev w))"

lemma reach_inv: "wf_reach hook w \<Longrightarrow> workflow_inv (wf_snapshot w)"
proof (induction rule: wf_reach.induct)
  case (wf_new w t wid did uid)
  then show ?case by (simp add: workflow_inv_new)
next
  case (wf_send w now ev)
  from keepsD [OF send_keeps_inv] wf_send.IH show ?case .
qed

text \<open>C7: every reachable workflow has a history that is a path of the transition table from
  \<open>Discovery\<close> to its current state, at most six steps long, and the data its stage promises: it is
  in fulfilment, verification or completed only with an escrow contract, and refunded only with a
  reason.\<close>

theorem reachable_workflow_ok:
  assumes "wf_reach hook w"
  shows "chain Discovery (ws_history (wf_snapshot w)) (ws_currentState (wf_snapshot w)) \<and>
         length (ws_history (wf_snapshot w)) \<le> 6 \<and>
         stage_data (ws_currentState (wf_snapshot w)) (ws_context (wf_snapshot w))"
proof -
  from reach_inv [OF assms] have inv: "workflow_inv (wf_snapshot w)" .
  then obtain es where "length es = length (ws_history (wf_snapshot w))"
    "run_steps TRANSITIONS Discovery es = Some (ws_currentState (wf_snapshot w))"
    using chain_run unfolding workflow_inv_def by blast
  with purchase.run_bounded have "length (ws_history (wf_snapshot w)) \<le> 6" by fastforce
  with inv show ?thesis by (simp add: workflow_inv_def)
qed

theorem reachable_workflow_ok_witness:
  "let w = snd (send None 1 (PRODUCT_FOUND ''p1'' ''m1'' 5000) demo_world) in
   ws_currentState (wf_snapshot w) = SpendingCheck \<and> length (ws_history (wf_snapshot w)) = 1 \<and>
   length (ws_history (wf_snapshot w)) \<le> 6"
proof -
  let ?w = "snd (send None 1 (PRODUCT_FOUND ''p1'' ''m1'' 5000) demo_world)"
  have "wf_reach None ?w"
    by (rule wf_send, rule wf_new [where t = 0 and wid = "''w1''" and did = "''d1''" and uid = "''u1''"])
      (simp add: demo_world_def)
  then have "length (ws_history (wf_snapshot ?w)) \<le> 6"
    using reachable_workflow_ok by blast
  then show ?thesis
    by (simp add: send_accepted_no_hook demo_world_def new_machine_def advance_snapshot_def Let_def)
qed

text \<open>on every branch of \<open>send\<close>: an event the table does not list, or any event in a terminal
  state, is refused and changes nothing; an accepted event whose hook succeeds moves the machine
  along the table and appends exactly one record, carrying the event and both states, to the event
  store; an accepted event whose hook rejects still moves the machine but leaves no record.\<close>

theorem send_branches:
  "case TRANSITIONS (ws_currentState (wf_snapshot w)) ev of
     None \<Rightarrow> \<exists>err. send (Some h) now ev w = (Inl err, w)
   | Some nxt \<Rightarrow>
       (case h (transition_record now (wf_snapshot w) ev nxt) (wf_ext w) of
          (Inl msg, x) \<Rightarrow>
            send (Some h) now ev w = (Inl (HookFailed msg),
              w\<lparr>wf_snapshot := advance_snapshot now (wf_snapshot w) ev nxt, wf_ext := x\<rparr>)
        | (Inr _, x) \<Rightarrow>
            send (Some h) now ev w = (Inr (getSnapshot (advance_snapshot now (wf_snapshot w) ev nxt)),
              w\<lparr>wf_snapshot := advance_snapshot now (wf_snapshot w) ev nxt, wf_ext := x,
                wf_events := wf_events w @ [event_record now (wf_idCounter w) (wf_snapshot w) ev nxt],
                wf_idCounter := Suc (wf_idCounter w)\<rparr>))"
proof (cases "TRANSITIONS (ws_currentState (wf_snapshot w)) ev")
  case None
  then show ?thesis by (simp add: send_refused)
next
  case (Some nxt)
  then show ?thesis
    by (auto simp: send_hook_failed [OF Some] send_accepted [OF Some] runHook_def
        split: prod.splits sum.splits)
qed

text \<open>a snapshot taken from a workflow with non-empty ids validates and restores to the same
  machine, except for its absolute deadline \<open>timeoutAt\<close>, which the snapshot does not carry.\<close>

theorem snapshot_roundtrip:
  assumes "ws_workflowId s \<noteq> []" and "pc_workflowId (ws_context s) \<noteq> []"
    and "pc_delegationId (ws_context s) \<noteq> []" and "pc_userId (ws_context s) \<noteq> []"
    and "ws_version s = SNAPSHOT_VERSION"
  shows "fromSnapshot (snapshot_js (getSnapshot s)) (getSnapshot s) = Inr (s\<lparr>ws_timeoutAt := None\<rparr>)"
proof -
  have "fst (validateSnapshot (snapshot_js (getSnapshot s)))"
    using assms by (simp add: validateSnapshot_typed) (simp add: getSnapshot_def)
  then show ?thesis
    by (cases s) (simp add: fromSnapshot_def assertValidSnapshot_def getSnapshot_def)
qed

theorem snapshot_roundtrip_witness:
  "let s = (new_machine 0 ''w1'' ''d1'' ''u1'')\<lparr>ws_timeoutAt := Some 1800000\<rparr> in
   fromSnapshot (snapshot_js (getSnapshot s)) (getSnapshot s) = Inr (s\<lparr>ws_timeoutAt := None\<rparr>) \<and>
   s\<lparr>ws_timeoutAt := None\<rparr> \<noteq> s"
  using snapshot_roundtrip [of "(new_machine 0 ''w1'' ''d1'' ''u1'')\<lparr>ws_timeoutAt := Some 1800000\<rparr>"]
  by (simp add: new_machine_def initial_context_def Let_def)

text \<open>a workflow can be refunded from exactly the five middle stages: not from \<open>Discovery\<close>, and
  not from a terminal state.\<close>

theorem refundable_states:
  "(\<exists>e. TRANSITIONS s e = Some Refunded) \<longleftrightarrow>
   s \<in> {SpendingCheck, UserApprovalPending, EscrowLocking, MerchantFulfillment, DeliveryVerification}"
proof
  assume "\<exists>e. TRANSITIONS s e = Some Refunded"
  then obtain e where "TRANSITIONS s e = Some Refunded" ..
  then show "s \<in> {SpendingCheck, UserApprovalPending, EscrowLocking, MerchantFulfillment, DeliveryVerification}"
    by (cases "(s, e)" rule: TRANSITIONS.cases) auto
next
  have "TRANSITIONS SpendingCheck (SPEND_DENIED []) = Some Refunded"
    "TRANSITIONS UserApprovalPending USER_REJECTED = Some Refunded"
    "TRANSITIONS EscrowLocking (ESCROW_FAILED []) = Some Refunded"
    "TRANSITIONS MerchantFulfillment (REFUND_INITIATED []) = Some Refunded"
    "TRANSITIONS DeliveryVerification (REFUND_INITIATED []) = Some Refunded"
    by simp_all
  moreover assume "s \<in> {SpendingCheck, UserApprovalPending, EscrowLocking, MerchantFulfillment, DeliveryVerification}"
  ultimately show "\<exists>e. TRANSITIONS s e = Some Refunded" by blast
qed

end
