(* ===== verification/Saga_Store.thy ===== *)
theory Saga_Store
  imports Delego_Prelude
begin

text \<open>
  The saga records and their in-memory store (orchestrator/src/saga/types.ts and memory-store.ts).
  A record is saved only against the version it was read at; the interface \<open>versioned_store\<close> states
  this compare-and-set contract and what a client gets from it, and the in-memory store interprets
  it. A context is of any type \<open>'c\<close>; the store's \<^verbatim>\<open>clone\<close> is the identity on such values.
\<close>

section \<open>Data\<close>

datatype SagaWorkflowType = WfCheckout | WfPurchase | WfRefund | WfDispute

datatype SagaStatus = SRunning | SCompleted | SCompensating | SCompensated | SFailed | STimedOut

datatype CompletedStepStatus = StepCompleted | StepFailed | StepCompensated

record 'c CompletedStep =
  cs_stepName :: string
  cs_status :: CompletedStepStatus
  cs_output :: 'c
  cs_completedAt :: ms
  cs_compensationAction :: "string option"

record 'c SagaRecord =
  sr_sagaId :: string
  sr_orderId :: string
  sr_workflowType :: SagaWorkflowType
  sr_status :: SagaStatus
  sr_currentStep :: "string option"
  sr_completedSteps :: "'c CompletedStep list"
  sr_context :: 'c
  sr_version :: nat
  sr_correlationId :: string
  sr_error :: "string option"
  sr_expiresAt :: "ms option"
  sr_claimExpiresAt :: "ms option"
  sr_createdAt :: ms
  sr_updatedAt :: ms

record SagaEvent =
  se_sagaId :: string
  se_correlationId :: string
  se_eventType :: string
  se_fromStatus :: "SagaStatus option"
  se_toStatus :: "SagaStatus option"
  se_payload :: "(string \<times> string) list"
  se_createdAt :: ms

type_synonym 'c saga_rows = "(string \<times> 'c SagaRecord) list"

section \<open>The in-memory store\<close>

definition saga_create :: "'c SagaRecord \<Rightarrow> 'c saga_rows \<Rightarrow> 'c SagaRecord \<times> 'c saga_rows" where
  "saga_create r rows =
     (case jm_get rows (sr_sagaId r) of
        Some existing \<Rightarrow> (existing, rows)
      | None \<Rightarrow> let stored = r\<lparr>sr_version := 0\<rparr> in (stored, jm_set (sr_sagaId r) stored rows))"

definition saga_get :: "'c saga_rows \<Rightarrow> string \<Rightarrow> 'c SagaRecord option" where
  "saga_get rows sid = jm_get rows sid"

text \<open>\<^verbatim>\<open>save\<close>; \<open>None\<close> is the thrown \<^verbatim>\<open>SagaConcurrencyError\<close>.\<close>

definition saga_save :: "'c SagaRecord \<Rightarrow> 'c saga_rows \<Rightarrow> ('c SagaRecord \<times> 'c saga_rows) option" where
  "saga_save r rows =
     (case jm_get rows (sr_sagaId r) of
        None \<Rightarrow> None
      | Some existing \<Rightarrow>
          if sr_version existing \<noteq> sr_version r then None
          else (let updated = r\<lparr>sr_version := sr_version r + 1\<rparr>
                in Some (updated, jm_set (sr_sagaId r) updated rows)))"

definition listIncomplete :: "'c saga_rows \<Rightarrow> 'c SagaRecord list" where
  "listIncomplete rows =
     filter (\<lambda>r. sr_status r = SRunning \<or> sr_status r = SCompensating) (map snd rows)"

definition listTimedOut :: "ms \<Rightarrow> 'c saga_rows \<Rightarrow> 'c SagaRecord list" where
  "listTimedOut now rows =
     filter (\<lambda>r. (sr_status r = SRunning \<or> sr_status r = SCompensating) \<and>
                 (case sr_expiresAt r of None \<Rightarrow> False | Some t \<Rightarrow> t \<le> now)) (map snd rows)"

definition appendEvent :: "SagaEvent \<Rightarrow> SagaEvent list \<Rightarrow> SagaEvent list" where
  "appendEvent e es = es @ [e]"

definition getSagaEvents :: "SagaEvent list \<Rightarrow> string \<Rightarrow> SagaEvent list" where
  "getSagaEvents es sid = filter (\<lambda>e. se_sagaId e = sid) es"

definition findByCorrelationId :: "string \<Rightarrow> 'c saga_rows \<Rightarrow> 'c SagaRecord option" where
  "findByCorrelationId cid rows = find (\<lambda>r. sr_correlationId r = cid) (map snd rows)"

section \<open>The compare-and-set interface\<close>

locale versioned_store =
  fixes get :: "'s \<Rightarrow> 'k \<Rightarrow> 'r option"
    and save :: "'r \<Rightarrow> 's \<Rightarrow> ('r \<times> 's) option"
    and key :: "'r \<Rightarrow> 'k"
    and ver :: "'r \<Rightarrow> nat"
  assumes save_iff: "(\<exists>x. save r s = Some x) \<longleftrightarrow> (\<exists>old. get s (key r) = Some old \<and> ver old = ver r)"
    and save_key: "save r s = Some (r', s') \<Longrightarrow> key r' = key r"
    and save_ver: "save r s = Some (r', s') \<Longrightarrow> ver r' = Suc (ver r)"
    and save_get: "save r s = Some (r', s') \<Longrightarrow> get s' k = (if k = key r then Some r' else get s k)"
begin

text \<open>Of two runners that read the same version, the second to save is refused.\<close>

lemma save_exclusive:
  assumes "save r1 s = Some (r1', s')" and "key r2 = key r1" and "ver r2 = ver r1"
  shows "save r2 s' = None"
proof (rule ccontr)
  assume "save r2 s' \<noteq> None"
  then obtain old where "get s' (key r2) = Some old" "ver old = ver r2"
    using save_iff [of r2 s'] by auto
  moreover have "get s' (key r2) = Some r1'"
    using save_get [OF assms(1)] assms(2) by simp
  ultimately show False using save_ver [OF assms(1)] assms(3) by simp
qed

text \<open>The stored copy can be saved again; a saver that keeps its copy never fails.\<close>

lemma save_chain:
  assumes "save r s = Some (r', s')" and "key r2 = key r'" and "ver r2 = ver r'"
  shows "\<exists>x. save r2 s' = Some x"
  using assms save_iff [of r2 s'] save_get [OF assms(1)] save_key [OF assms(1)] by auto

text \<open>A save never lowers a version.\<close>

lemma save_monotone:
  assumes "save r s = Some (r', s')" and "get s k = Some old"
  shows "\<exists>new. get s' k = Some new \<and> ver old \<le> ver new"
proof (cases "k = key r")
  case True
  with assms save_iff [of r s] have "ver old = ver r" by auto
  with True save_get [OF assms(1)] save_ver [OF assms(1)] show ?thesis by simp
next
  case False
  with save_get [OF assms(1)] assms(2) show ?thesis by simp
qed

end

interpretation saga_rows: versioned_store saga_get saga_save sr_sagaId sr_version
  by unfold_locales
    (auto simp: saga_get_def saga_save_def Let_def jm_get_set split: option.splits if_splits)

lemma saga_get_create:
  "saga_create r rows = (r', rows') \<Longrightarrow>
     saga_get rows' sid = (if sid = sr_sagaId r then Some r' else saga_get rows sid)"
  by (auto simp: saga_create_def saga_get_def Let_def jm_get_set split: option.splits if_splits)

lemma saga_create_existing:
  "saga_get rows (sr_sagaId r) = Some e \<Longrightarrow> saga_create r rows = (e, rows)"
  by (simp add: saga_create_def saga_get_def)

text \<open>Each id has one row.\<close>

lemma distinct_keys_save:
  "saga_save r rows = Some (r', rows') \<Longrightarrow> distinct (map fst rows) \<Longrightarrow> distinct (map fst rows')"
  by (auto simp: saga_save_def Let_def distinct_update split: option.splits if_splits)

end
