(* ===== verification/Saga_Coordinator.thy ===== *)
theory Saga_Coordinator
  imports Saga_Store
begin

text \<open>
  The saga coordinator (orchestrator/src/saga/coordinator.ts) over the in-memory store, without the
  optional Redis lock manager. The steps' actions are parameters: they act on an external world
  \<open>'w\<close> and may fail with a message. The clock is a parameter too: the \<open>n\<close>-th reading of the run is
  \<open>clk n\<close>, with no assumption on it. A scheduled retry is noted in the world as the saga and the delay.
\<close>

section \<open>Steps, coordinators and the world\<close>

text \<open>An error's message is kept as text; the tail of the concurrency error's message is left out.\<close>

record SagaRetryPolicy =
  rp_maxAttempts :: int
  rp_backoffMs :: int
  rp_retryableErrors :: "string list"

record ('c, 'w) SagaStep =
  ss_name :: string
  ss_execute :: "'c \<Rightarrow> 'w \<Rightarrow> (string + 'c) \<times> 'w"
  ss_compensate :: "'c \<Rightarrow> 'c \<Rightarrow> 'w \<Rightarrow> (string + 'c) \<times> 'w"
  ss_timeoutMs :: "int option"      \<comment> \<open>declared by the source, read by none of its code\<close>
  ss_retryPolicy :: "SagaRetryPolicy option"

record ('c, 'w) SagaCoordinator =
  co_steps :: "('c, 'w) SagaStep list"
  co_claimLeaseMs :: int
  co_sagaTimeoutMs :: int

record ('c, 'w) saga_world =
  sw_rows :: "'c saga_rows"
  sw_events :: "SagaEvent list"
  sw_clock :: "nat \<Rightarrow> ms"
  sw_ticks :: nat
  sw_timers :: "(string \<times> ms) list"
  sw_ext :: 'w

datatype saga_error =
    NoSteps
  | DuplicateStep string
  | BadLease
  | SagaNotFound string
  | UnknownStep string
  | UnknownStepInCompensation string
  | SagaConcurrencyError string
  | StepError string

type_synonym ('c, 'w, 'a) saga_prog = "(('c, 'w) saga_world, saga_error, 'a) prog"

fun error_message :: "saga_error \<Rightarrow> string" where
  "error_message NoSteps = ''SagaCoordinator requires at least one step''"
| "error_message (DuplicateStep n) = ''Duplicate saga step name: '' @ n"
| "error_message BadLease = ''claimLeaseMs must be a positive safe integer''"
| "error_message (SagaNotFound s) = ''Saga not found: '' @ s"
| "error_message (UnknownStep n) = ''Unknown saga step: '' @ n"
| "error_message (UnknownStepInCompensation n) = ''Unknown saga step during compensation: '' @ n"
| "error_message (SagaConcurrencyError s) =
     ''Saga '' @ s @ '' was modified by another runner''"
| "error_message (StepError m) = m"

definition DEFAULT_CLAIM_LEASE_MS :: int where "DEFAULT_CLAIM_LEASE_MS = 30000"

definition DEFAULT_SAGA_TIMEOUT_MS :: int where "DEFAULT_SAGA_TIMEOUT_MS = 5 * 60000"

definition MAX_SAFE_INTEGER :: int where "MAX_SAFE_INTEGER = 2 ^ 53 - 1"

text \<open>The constructor's checks. The \<^verbatim>\<open>for\<close> loop reports the first name seen twice.\<close>

fun first_duplicate :: "string list \<Rightarrow> string list \<Rightarrow> string option" where
  "first_duplicate seen [] = None"
| "first_duplicate seen (n # ns) = (if n \<in> set seen then Some n else first_duplicate (n # seen) ns)"

definition new_coordinator ::
  "('c, 'w) SagaStep list \<Rightarrow> int option \<Rightarrow> int option \<Rightarrow> saga_error + ('c, 'w) SagaCoordinator" where
  "new_coordinator steps claimLeaseMs sagaTimeoutMs =
     (if steps = [] then Inl NoSteps
      else case first_duplicate [] (map ss_name steps) of
        Some n \<Rightarrow> Inl (DuplicateStep n)
      | None \<Rightarrow>
          (let lease = (case claimLeaseMs of None \<Rightarrow> DEFAULT_CLAIM_LEASE_MS | Some l \<Rightarrow> l) in
           if lease > MAX_SAFE_INTEGER \<or> lease \<le> 0 then Inl BadLease
           else Inr \<lparr>co_steps = steps, co_claimLeaseMs = lease,
                     co_sagaTimeoutMs = (case sagaTimeoutMs of None \<Rightarrow> DEFAULT_SAGA_TIMEOUT_MS | Some t \<Rightarrow> t)\<rparr>))"

abbreviation stepOrder :: "('c, 'w) SagaCoordinator \<Rightarrow> string list" where
  "stepOrder co \<equiv> map ss_name (co_steps co)"

definition step_named :: "('c, 'w) SagaCoordinator \<Rightarrow> string \<Rightarrow> ('c, 'w) SagaStep option" where
  "step_named co n = map_of (map (\<lambda>s. (ss_name s, s)) (co_steps co)) n"

section \<open>Primitive actions\<close>

definition now :: "('c, 'w, ms) saga_prog" where
  "now = pbind (pgets (\<lambda>w. sw_clock w (sw_ticks w))) (\<lambda>t.
         pbind (pmodify (\<lambda>w. w\<lparr>sw_ticks := Suc (sw_ticks w)\<rparr>)) (\<lambda>_. pret t))"

definition save :: "'c SagaRecord \<Rightarrow> ('c, 'w, 'c SagaRecord) saga_prog" where
  "save r w = (case saga_save r (sw_rows w) of
       None \<Rightarrow> (Inl (SagaConcurrencyError (sr_sagaId r)), w)
     | Some (r', rows') \<Rightarrow> (Inr r', w\<lparr>sw_rows := rows'\<rparr>))"

definition recordEvent ::
  "'c SagaRecord \<Rightarrow> string \<Rightarrow> SagaStatus option \<Rightarrow> SagaStatus option \<Rightarrow> (string \<times> string) list
     \<Rightarrow> ('c, 'w, unit) saga_prog" where
  "recordEvent r etype fromSt toSt payload =
     pbind now (\<lambda>t. pmodify (\<lambda>w. w\<lparr>sw_events := appendEvent
       \<lparr>se_sagaId = sr_sagaId r, se_correlationId = sr_correlationId r, se_eventType = etype,
        se_fromStatus = fromSt, se_toStatus = toSt, se_payload = payload, se_createdAt = t\<rparr> (sw_events w)\<rparr>))"

text \<open>\<^verbatim>\<open>executeWithRetry\<close>: \<open>n\<close> attempts are left; a failure is final when it matches no
  retryable pattern or was the last attempt.\<close>

definition retryable :: "('c, 'w) SagaStep \<Rightarrow> string \<Rightarrow> bool" where
  "retryable st msg = (case ss_retryPolicy st of None \<Rightarrow> False
                       | Some p \<Rightarrow> list_ex (js_includes msg) (rp_retryableErrors p))"

fun attempt_loop :: "('c, 'w) SagaStep \<Rightarrow> 'c \<Rightarrow> nat \<Rightarrow> string option \<Rightarrow> 'w \<Rightarrow> (string + 'c) \<times> 'w" where
  "attempt_loop st c 0 lastError x =
     (Inl (case lastError of None \<Rightarrow> ''Saga step '' @ ss_name st @ '' failed'' | Some m \<Rightarrow> m), x)"
| "attempt_loop st c (Suc n) lastError x =
     (case ss_execute st c x of
        (Inr c', x') \<Rightarrow> (Inr c', x')
      | (Inl m, x') \<Rightarrow> if \<not> retryable st m \<or> n = 0 then (Inl m, x')
                       else attempt_loop st c n (Some m) x')"

definition executeWithRetry :: "('c, 'w) SagaStep \<Rightarrow> 'c \<Rightarrow> 'w \<Rightarrow> (string + 'c) \<times> 'w" where
  "executeWithRetry st c x =
     attempt_loop st c (case ss_retryPolicy st of None \<Rightarrow> 1 | Some p \<Rightarrow> nat (rp_maxAttempts p)) None x"

text \<open>Running an action of a step on the external world.\<close>

definition run_ext :: "('w \<Rightarrow> (string + 'c) \<times> 'w) \<Rightarrow> ('c, 'w, 'c) saga_prog" where
  "run_ext f w = (case f (sw_ext w) of
       (Inl m, x) \<Rightarrow> (Inl (StepError m), w\<lparr>sw_ext := x\<rparr>)
     | (Inr c, x) \<Rightarrow> (Inr c, w\<lparr>sw_ext := x\<rparr>))"

section \<open>Claiming a step\<close>

definition lease_live :: "'c SagaRecord \<Rightarrow> string \<Rightarrow> ms \<Rightarrow> bool" where
  "lease_live r stepName t \<longleftrightarrow>
     sr_currentStep r = Some stepName \<and>
     (case sr_claimExpiresAt r of None \<Rightarrow> False | Some e \<Rightarrow> e > t)"

definition claimStep ::
  "('c, 'w) SagaCoordinator \<Rightarrow> 'c SagaRecord \<Rightarrow> string \<Rightarrow> ('c, 'w, 'c SagaRecord option) saga_prog" where
  "claimStep co r stepName =
     pbind now (\<lambda>t0.
     if lease_live r stepName t0 then pret None
     else pcatch
       (pbind now (\<lambda>t1. pbind now (\<lambda>t2.
        pbind (save (r\<lparr>sr_currentStep := Some stepName,
                       sr_claimExpiresAt := Some (t1 + co_claimLeaseMs co), sr_updatedAt := t2\<rparr>)) (\<lambda>r'.
        pret (Some r')))))
       (\<lambda>e. case e of SagaConcurrencyError _ \<Rightarrow> pret None | _ \<Rightarrow> pthrow e))"

section \<open>Compensation\<close>

definition mark_compensated :: "string \<Rightarrow> 'c CompletedStep \<Rightarrow> 'c CompletedStep list \<Rightarrow> 'c CompletedStep list" where
  "mark_compensated n upd steps = map (\<lambda>e. if cs_stepName e = n then upd else e) steps"

text \<open>One step: run the rollback, save the entry as compensated, note the event; on any failure
  release the lease and rethrow.\<close>

definition compensateStep ::
  "'c SagaRecord \<Rightarrow> ('c, 'w) SagaStep \<Rightarrow> 'c CompletedStep \<Rightarrow> ('c, 'w, 'c SagaRecord) saga_prog" where
  "compensateStep current st cs =
     pcatch
       (pbind (run_ext (ss_compensate st (sr_context current) (cs_output cs))) (\<lambda>c.
        pbind now (\<lambda>t.
        pbind (save (current\<lparr>sr_context := c,
                 sr_completedSteps := mark_compensated (cs_stepName cs) (cs\<lparr>cs_status := StepCompensated\<rparr>)
                                        (sr_completedSteps current),
                 sr_claimExpiresAt := None, sr_updatedAt := t\<rparr>)) (\<lambda>r.
        pbind (recordEvent r ''step_compensated'' (Some SCompensating) (Some SCompensating)
                 [(''step'', cs_stepName cs)]) (\<lambda>_. pret r)))))
       (\<lambda>e. pbind now (\<lambda>t.
            pbind (save (current\<lparr>sr_claimExpiresAt := None, sr_updatedAt := t\<rparr>)) (\<lambda>_. pthrow e)))"

definition finishCompensation :: "'c SagaRecord \<Rightarrow> ('c, 'w, 'c SagaRecord) saga_prog" where
  "finishCompensation current =
     pbind now (\<lambda>t.
     pbind (save (current\<lparr>sr_status := SCompensated, sr_currentStep := None, sr_claimExpiresAt := None,
                          sr_updatedAt := t\<rparr>)) (\<lambda>r.
     pbind (recordEvent r ''saga_compensated'' (Some SCompensating) (Some SCompensated) []) (\<lambda>_. pret r)))"

fun compensateFrom ::
  "('c, 'w) SagaCoordinator \<Rightarrow> 'c SagaRecord \<Rightarrow> 'c CompletedStep list \<Rightarrow> ('c, 'w, 'c SagaRecord) saga_prog" where
  "compensateFrom co current [] = finishCompensation current"
| "compensateFrom co current (cs # rest) =
     (case step_named co (cs_stepName cs) of
        None \<Rightarrow>
          (let e = UnknownStepInCompensation (cs_stepName cs) in
           pbind now (\<lambda>t. pbind (save (current\<lparr>sr_error := Some (error_message e), sr_updatedAt := t\<rparr>)) (\<lambda>_.
           pthrow e)))
      | Some st \<Rightarrow>
          pbind (claimStep co current (cs_stepName cs)) (\<lambda>claimed.
          case claimed of
            None \<Rightarrow> pret current
          | Some cl \<Rightarrow> pbind (compensateStep cl st cs) (\<lambda>r. compensateFrom co r rest)))"

text \<open>The list to roll back is every entry of \<open>completedSteps\<close>, last first.\<close>

definition compensate :: "('c, 'w) SagaCoordinator \<Rightarrow> 'c SagaRecord \<Rightarrow> ('c, 'w, 'c SagaRecord) saga_prog" where
  "compensate co r = compensateFrom co r (rev (sr_completedSteps r))"

section \<open>Moving forward\<close>

definition next_step :: "string list \<Rightarrow> string \<Rightarrow> string option" where
  "next_step order n =
     (case dropWhile (\<lambda>m. m \<noteq> n) order of
        [] \<Rightarrow> (case order of [] \<Rightarrow> None | m # _ \<Rightarrow> Some m)
      | _ # [] \<Rightarrow> None
      | _ # m # _ \<Rightarrow> Some m)"

definition failStep ::
  "('c, 'w) SagaCoordinator \<Rightarrow> 'c SagaRecord \<Rightarrow> string \<Rightarrow> string \<Rightarrow> ('c, 'w, 'c SagaRecord) saga_prog" where
  "failStep co current stepName msg =
     pbind now (\<lambda>t.
     pbind (save (current\<lparr>sr_status := SCompensating, sr_error := Some msg, sr_claimExpiresAt := None,
                          sr_updatedAt := t\<rparr>)) (\<lambda>r.
     pbind (recordEvent r ''step_failed'' (Some SRunning) (Some SCompensating)
              [(''step'', stepName), (''error'', msg)]) (\<lambda>_.
     compensate co r)))"

definition completeStep ::
  "('c, 'w) SagaCoordinator \<Rightarrow> 'c SagaRecord \<Rightarrow> ('c, 'w) SagaStep \<Rightarrow> string \<Rightarrow> 'c \<Rightarrow> ('c, 'w, 'c SagaRecord) saga_prog" where
  "completeStep co current st stepName c =
     pbind now (\<lambda>t. pbind now (\<lambda>t'.
     pbind (save (current\<lparr>sr_context := c,
              sr_completedSteps := sr_completedSteps current @
                [\<lparr>cs_stepName = stepName, cs_status = StepCompleted, cs_output = c, cs_completedAt = t,
                  cs_compensationAction = Some (ss_name st)\<rparr>],
              sr_currentStep := next_step (stepOrder co) stepName,
              sr_claimExpiresAt := None, sr_updatedAt := t'\<rparr>)) (\<lambda>r.
     pbind (recordEvent r ''step_completed'' (Some SRunning) (Some SRunning) [(''step'', stepName)]) (\<lambda>_.
     pret r))))"

definition completeSaga :: "'c SagaRecord \<Rightarrow> ('c, 'w, 'c SagaRecord) saga_prog" where
  "completeSaga current =
     pbind now (\<lambda>t.
     pbind (save (current\<lparr>sr_status := SCompleted, sr_currentStep := None, sr_claimExpiresAt := None,
                          sr_updatedAt := t\<rparr>)) (\<lambda>r.
     pbind (recordEvent r ''saga_completed'' (Some SRunning) (Some SCompleted) []) (\<lambda>_. pret r)))"

fun advanceFrom ::
  "('c, 'w) SagaCoordinator \<Rightarrow> 'c SagaRecord \<Rightarrow> string list \<Rightarrow> ('c, 'w, 'c SagaRecord) saga_prog" where
  "advanceFrom co current [] = completeSaga current"
| "advanceFrom co current (stepName # rest) =
     (case step_named co stepName of
        None \<Rightarrow> pthrow (UnknownStep stepName)
      | Some st \<Rightarrow>
          pbind (claimStep co current stepName) (\<lambda>claimed.
          case claimed of
            None \<Rightarrow> pret current
          | Some cl \<Rightarrow>
              pbind (ptry (run_ext (executeWithRetry st (sr_context cl)))) (\<lambda>res.
              case res of
                Inl e \<Rightarrow> failStep co cl stepName (error_message e)
              | Inr c \<Rightarrow> pbind (completeStep co cl st stepName c) (\<lambda>r. advanceFrom co r rest))))"

definition remaining_steps :: "('c, 'w) SagaCoordinator \<Rightarrow> 'c SagaRecord \<Rightarrow> string list" where
  "remaining_steps co r = filter (\<lambda>n. n \<notin> set (map cs_stepName (sr_completedSteps r))) (stepOrder co)"

definition advance :: "('c, 'w) SagaCoordinator \<Rightarrow> 'c SagaRecord \<Rightarrow> ('c, 'w, 'c SagaRecord) saga_prog" where
  "advance co r =
     (if sr_status r = SCompensating \<or> sr_status r = STimedOut then compensate co r
      else advanceFrom co r (remaining_steps co r))"

section \<open>The public operations\<close>

definition finished :: "'c SagaRecord \<Rightarrow> bool" where
  "finished r \<longleftrightarrow> sr_status r \<in> {SCompleted, SCompensated, SFailed}"

definition initial_record ::
  "('c, 'w) SagaCoordinator \<Rightarrow> ms \<Rightarrow> string \<Rightarrow> string \<Rightarrow> 'c \<Rightarrow> SagaWorkflowType option \<Rightarrow> string \<Rightarrow> 'c SagaRecord" where
  "initial_record co t sagaId orderId ctx wtype correlationId =
     \<lparr>sr_sagaId = sagaId, sr_orderId = orderId,
      sr_workflowType = (case wtype of None \<Rightarrow> WfCheckout | Some x \<Rightarrow> x),
      sr_status = SRunning, sr_currentStep = (case stepOrder co of [] \<Rightarrow> None | n # _ \<Rightarrow> Some n),
      sr_completedSteps = [], sr_context = ctx, sr_version = 0, sr_correlationId = correlationId,
      sr_error = None,
      sr_expiresAt = (if co_sagaTimeoutMs co > 0 then Some (t + co_sagaTimeoutMs co) else None),
      sr_claimExpiresAt = None, sr_createdAt = t, sr_updatedAt = t\<rparr>"

definition create :: "'c SagaRecord \<Rightarrow> ('c, 'w, 'c SagaRecord) saga_prog" where
  "create r w = (case saga_create r (sw_rows w) of (r', rows') \<Rightarrow> (Inr r', w\<lparr>sw_rows := rows'\<rparr>))"

definition saga_run ::
  "('c, 'w) SagaCoordinator \<Rightarrow> string \<Rightarrow> string \<Rightarrow> 'c \<Rightarrow> SagaWorkflowType option \<Rightarrow> string
     \<Rightarrow> ('c, 'w, 'c SagaRecord) saga_prog" where
  "saga_run co sagaId orderId ctx wtype correlationId =
     pbind now (\<lambda>t.
     pbind (create (initial_record co t sagaId orderId ctx wtype correlationId)) (\<lambda>r.
     pbind (recordEvent r ''saga_started'' None (Some SRunning) [(''orderId'', orderId)]) (\<lambda>_.
     if finished r then pret r else advance co r)))"

definition resume :: "('c, 'w) SagaCoordinator \<Rightarrow> string \<Rightarrow> ('c, 'w, 'c SagaRecord) saga_prog" where
  "resume co sagaId =
     pbind (pgets (\<lambda>w. saga_get (sw_rows w) sagaId)) (\<lambda>found.
     case found of
       None \<Rightarrow> pthrow (SagaNotFound sagaId)
     | Some r \<Rightarrow> if finished r then pret r else advance co r)"

section \<open>Recovery\<close>

datatype SagaRecoveryAction = Resumed | RecCompensated | MarkedFailed

record SagaRecoveryDetail =
  rd_sagaId :: string
  rd_action :: SagaRecoveryAction
  rd_reason :: string

definition scheduleRetryIfLeased :: "'c SagaRecord \<Rightarrow> ('c, 'w, unit) saga_prog" where
  "scheduleRetryIfLeased r =
     (if sr_status r \<noteq> SRunning \<and> sr_status r \<noteq> SCompensating then pret ()
      else case sr_claimExpiresAt r of
        None \<Rightarrow> pret ()
      | Some e \<Rightarrow> pbind now (\<lambda>t.
          if e - t \<le> 0 then pret ()
          else pmodify (\<lambda>w. w\<lparr>sw_timers := sw_timers w @ [(sr_sagaId r, e - t + 50)]\<rparr>)))"

fun status_name :: "SagaStatus \<Rightarrow> string" where
  "status_name SRunning = ''running''"
| "status_name SCompleted = ''completed''"
| "status_name SCompensating = ''compensating''"
| "status_name SCompensated = ''compensated''"
| "status_name SFailed = ''failed''"
| "status_name STimedOut = ''timed_out''"

definition expire ::
  "('c, 'w) SagaCoordinator \<Rightarrow> 'c SagaRecord \<Rightarrow> ('c, 'w, SagaRecoveryDetail) saga_prog" where
  "expire co latest =
     pbind (recordEvent latest ''saga_timed_out'' (Some (sr_status latest)) (Some STimedOut) []) (\<lambda>_.
     pbind now (\<lambda>t.
     pbind (save (latest\<lparr>sr_status := STimedOut,
              sr_error := Some (case sr_error latest of None \<Rightarrow> ''Saga exceeded its deadline'' | Some e \<Rightarrow> e),
              sr_claimExpiresAt := None, sr_updatedAt := t\<rparr>)) (\<lambda>timedOut.
     pbind (ptry (compensate co timedOut)) (\<lambda>res.
     pret (case res of
       Inl _ \<Rightarrow> \<lparr>rd_sagaId = sr_sagaId latest, rd_action = MarkedFailed,
                 rd_reason = ''Saga timed out and compensation failed''\<rparr>
     | Inr r \<Rightarrow> \<lparr>rd_sagaId = sr_sagaId latest,
                 rd_action = (if sr_status r = SCompensated then RecCompensated else MarkedFailed),
                 rd_reason = ''Saga exceeded its timeout deadline and was auto-compensated''\<rparr>)))))"

definition recover_body ::
  "('c, 'w) SagaCoordinator \<Rightarrow> string \<Rightarrow> ('c, 'w, SagaRecoveryDetail option) saga_prog" where
  "recover_body co sagaId =
     pbind (pgets (\<lambda>w. saga_get (sw_rows w) sagaId)) (\<lambda>fetched.
     case fetched of
       None \<Rightarrow> pret None
     | Some latest \<Rightarrow>
         pbind now (\<lambda>t.
         if (case sr_expiresAt latest of None \<Rightarrow> False | Some e \<Rightarrow> e \<le> t)
         then pbind (expire co latest) (\<lambda>d. pret (Some d))
         else pbind (resume co sagaId) (\<lambda>r.
              pbind (scheduleRetryIfLeased r) (\<lambda>_.
              pbind (if (sr_status r = SRunning \<or> sr_status r = SCompensating) \<and> sr_claimExpiresAt r = None
                     then pbind (pgets (\<lambda>w. saga_get (sw_rows w) sagaId)) (\<lambda>fresh.
                          case fresh of None \<Rightarrow> pret () | Some f \<Rightarrow> scheduleRetryIfLeased f)
                     else pret ()) (\<lambda>_.
              pret (Some \<lparr>rd_sagaId = sagaId, rd_action = Resumed,
                          rd_reason = ''Recovered in status '' @ status_name (sr_status r)\<rparr>))))))"

definition recoverOne ::
  "('c, 'w) SagaCoordinator \<Rightarrow> string \<Rightarrow> ('c, 'w, SagaRecoveryDetail option) saga_prog" where
  "recoverOne co sagaId =
     pcatch (recover_body co sagaId)
       (\<lambda>e. pret (Some \<lparr>rd_sagaId = sagaId, rd_action = MarkedFailed, rd_reason = error_message e\<rparr>))"

record SagaRecoveryResult =
  rr_recovered :: nat
  rr_failed :: nat
  rr_details :: "SagaRecoveryDetail list"

definition tally :: "SagaRecoveryDetail option \<Rightarrow> SagaRecoveryResult \<Rightarrow> SagaRecoveryResult" where
  "tally d acc = (case d of
       None \<Rightarrow> acc
     | Some x \<Rightarrow>
         (let acc' = acc\<lparr>rr_details := rr_details acc @ [x]\<rparr> in
          if rd_action x = MarkedFailed then acc'\<lparr>rr_failed := rr_failed acc + 1\<rparr>
          else acc'\<lparr>rr_recovered := rr_recovered acc + 1\<rparr>))"

definition recoverAll :: "('c, 'w) SagaCoordinator \<Rightarrow> ('c, 'w, SagaRecoveryResult) saga_prog" where
  "recoverAll co =
     pbind (pgets (\<lambda>w. listIncomplete (sw_rows w))) (\<lambda>incomplete.
     pfor incomplete \<lparr>rr_recovered = 0, rr_failed = 0, rr_details = []\<rparr>
       (\<lambda>r acc. pbind (recoverOne co (sr_sagaId r)) (\<lambda>d. pret (tally d acc))))"

text \<open>One tick of \<^verbatim>\<open>startTimeoutSweeper\<close>.\<close>

definition timeoutSweep :: "('c, 'w) SagaCoordinator \<Rightarrow> ('c, 'w, unit) saga_prog" where
  "timeoutSweep co =
     pbind now (\<lambda>t.
     pbind (pgets (\<lambda>w. listTimedOut t (sw_rows w))) (\<lambda>timedOut.
     pfor timedOut () (\<lambda>r _. pbind (recoverOne co (sr_sagaId r)) (\<lambda>_. pret ()))))"

section \<open>The primitive actions at a state\<close>

text \<open>The store holds \<open>r\<close> as the current copy of its saga.\<close>

definition stored :: "('c, 'w) saga_world \<Rightarrow> 'c SagaRecord \<Rightarrow> bool" where
  "stored w r \<longleftrightarrow> saga_get (sw_rows w) (sr_sagaId r) = Some r"

lemma now_run: "now w = (Inr (sw_clock w (sw_ticks w)), w\<lparr>sw_ticks := Suc (sw_ticks w)\<rparr>)"
  by (simp add: now_def prog_simps)

lemma save_run:
  assumes "stored w r" and "sr_sagaId r' = sr_sagaId r" and "sr_version r' = sr_version r"
  shows "save r' w = (Inr (r'\<lparr>sr_version := Suc (sr_version r)\<rparr>),
           w\<lparr>sw_rows := jm_set (sr_sagaId r) (r'\<lparr>sr_version := Suc (sr_version r)\<rparr>) (sw_rows w)\<rparr>)"
  using assms by (simp add: save_def saga_save_def stored_def saga_get_def Let_def)

lemma recordEvent_run:
  "\<exists>es. recordEvent r ty f u pl w = (Inr (), w\<lparr>sw_ticks := Suc (sw_ticks w), sw_events := es\<rparr>)"
  by (auto simp: recordEvent_def prog_simps now_run)

lemma stored_simps [simp]:
  "stored (w\<lparr>sw_ticks := n\<rparr>) r = stored w r"
  "stored (w\<lparr>sw_events := es\<rparr>) r = stored w r"
  "stored (w\<lparr>sw_ext := x\<rparr>) r = stored w r"
  "stored (w\<lparr>sw_timers := ts\<rparr>) r = stored w r"
  by (simp_all add: stored_def)

lemma stored_set: "stored (w\<lparr>sw_rows := jm_set (sr_sagaId r) r rows\<rparr>) r"
  by (simp add: stored_def saga_get_def jm_get_set)

lemma stored_set': "k = sr_sagaId r \<Longrightarrow> stored (w\<lparr>sw_rows := jm_set k r rows\<rparr>) r"
  by (simp add: stored_set)

text \<open>A save of the current copy, as clients use it: it succeeds and the returned record is the
  new current copy, the same but for its version.\<close>

lemma save_current:
  assumes "stored w r" and "sr_sagaId r' = sr_sagaId r" and "sr_version r' = sr_version r"
  obtains w' where "save r' w = (Inr (r'\<lparr>sr_version := Suc (sr_version r)\<rparr>), w')"
    and "stored w' (r'\<lparr>sr_version := Suc (sr_version r)\<rparr>)" and "sw_ext w' = sw_ext w"
proof
  show "save r' w = (Inr (r'\<lparr>sr_version := Suc (sr_version r)\<rparr>),
      w\<lparr>sw_rows := jm_set (sr_sagaId r) (r'\<lparr>sr_version := Suc (sr_version r)\<rparr>) (sw_rows w)\<rparr>)"
    by (rule save_run [OF assms])
  show "stored (w\<lparr>sw_rows := jm_set (sr_sagaId r) (r'\<lparr>sr_version := Suc (sr_version r)\<rparr>) (sw_rows w)\<rparr>)
      (r'\<lparr>sr_version := Suc (sr_version r)\<rparr>)"
    by (rule stored_set') (simp add: assms)
qed simp

text \<open>An update that then notes an event, the shape of every progress write.\<close>

lemma save_then_event:
  assumes "stored w r" and "\<And>t. sr_sagaId (f t) = sr_sagaId r" and "\<And>t. sr_version (f t) = sr_version r"
  obtains t w' where
    "pbind now (\<lambda>t. pbind (save (f t)) (\<lambda>r'. pbind (recordEvent r' ty a b pl) (\<lambda>_. pret r'))) w
       = (Inr ((f t)\<lparr>sr_version := Suc (sr_version r)\<rparr>), w')"
    and "stored w' ((f t)\<lparr>sr_version := Suc (sr_version r)\<rparr>)" and "sw_ext w' = sw_ext w"
proof -
  let ?t = "sw_clock w (sw_ticks w)" and ?w1 = "w\<lparr>sw_ticks := Suc (sw_ticks w)\<rparr>"
  let ?r' = "(f ?t)\<lparr>sr_version := Suc (sr_version r)\<rparr>"
  obtain w2 where w2: "save (f ?t) ?w1 = (Inr ?r', w2)" "stored w2 ?r'" "sw_ext w2 = sw_ext w"
    using save_current [of ?w1 r "f ?t"] assms by auto
  obtain es where "recordEvent ?r' ty a b pl w2 = (Inr (), w2\<lparr>sw_ticks := Suc (sw_ticks w2), sw_events := es\<rparr>)"
    using recordEvent_run by blast
  with w2 that show ?thesis by (auto simp: prog_simps now_run)
qed

section \<open>Claims\<close>

lemma claim_none: "lease_live r n (sw_clock w (sw_ticks w)) \<Longrightarrow>
    claimStep co r n w = (Inr None, w\<lparr>sw_ticks := Suc (sw_ticks w)\<rparr>)"
  by (simp add: claimStep_def prog_simps now_run)

lemma claim_run:
  assumes "stored w r" and "\<not> lease_live r n (sw_clock w (sw_ticks w))"
  obtains e u w' where
    "claimStep co r n w = (Inr (Some (r\<lparr>sr_currentStep := Some n, sr_claimExpiresAt := Some e,
        sr_updatedAt := u, sr_version := Suc (sr_version r)\<rparr>)), w')"
    "stored w' (r\<lparr>sr_currentStep := Some n, sr_claimExpiresAt := Some e,
        sr_updatedAt := u, sr_version := Suc (sr_version r)\<rparr>)"
    "sw_ext w' = sw_ext w" "e = sw_clock w (Suc (sw_ticks w)) + co_claimLeaseMs co"
    "sw_clock w' = sw_clock w" "sw_ticks w' = sw_ticks w + 3"
proof -
  define e where "e = sw_clock w (Suc (sw_ticks w)) + co_claimLeaseMs co"
  define u where "u = sw_clock w (Suc (Suc (sw_ticks w)))"
  define cl where "cl = r\<lparr>sr_currentStep := Some n, sr_claimExpiresAt := Some e, sr_updatedAt := u\<rparr>"
  define cl' where "cl' = cl\<lparr>sr_version := Suc (sr_version r)\<rparr>"
  let ?w3 = "w\<lparr>sw_ticks := Suc (Suc (Suc (sw_ticks w)))\<rparr>"
  let ?w4 = "?w3\<lparr>sw_rows := jm_set (sr_sagaId r) cl' (sw_rows w)\<rparr>"
  have "save cl ?w3 = (Inr cl', ?w4)"
    using save_run [of ?w3 r cl] assms(1) by (simp add: cl_def cl'_def)
  then have "claimStep co r n w = (Inr (Some cl'), ?w4)"
    using assms(2) by (simp add: claimStep_def prog_simps now_run cl_def e_def u_def)
  moreover have "stored ?w4 cl'"
    by (rule stored_set') (simp add: cl'_def cl_def)
  ultimately show ?thesis
    by (intro that [where e = e and u = u and w' = ?w4]) (simp_all add: cl'_def cl_def e_def)
qed

lemma claim_lost:
  assumes "saga_save (r\<lparr>sr_currentStep := Some n, sr_claimExpiresAt := Some e, sr_updatedAt := u\<rparr>) (sw_rows w) = None"
    and "\<not> lease_live r n (sw_clock w (sw_ticks w))"
    and "e = sw_clock w (Suc (sw_ticks w)) + co_claimLeaseMs co" and "u = sw_clock w (Suc (Suc (sw_ticks w)))"
  shows "claimStep co r n w = (Inr None, w\<lparr>sw_ticks := sw_ticks w + 3\<rparr>)"
  using assms by (simp add: claimStep_def prog_simps now_run save_def)

section \<open>The abstract saga\<close>

text \<open>
  What a saga means, without store, leases, versions or events: run the steps in order until one
  fails; undo a list of performed steps with the outputs they left.
\<close>

fun saga_forward ::
  "('c, 'w) SagaStep list \<Rightarrow> 'c \<Rightarrow> 'w \<Rightarrow> (string \<times> 'c) list \<times> string option \<times> 'c \<times> 'w" where
  "saga_forward [] c x = ([], None, c, x)"
| "saga_forward (s # ss) c x =
     (case executeWithRetry s c x of
        (Inl m, x') \<Rightarrow> ([], Some m, c, x')
      | (Inr c', x') \<Rightarrow>
          (case saga_forward ss c' x' of (outs, f, c'', x'') \<Rightarrow> ((ss_name s, c') # outs, f, c'', x'')))"

fun saga_backward ::
  "(string \<Rightarrow> ('c, 'w) SagaStep option) \<Rightarrow> (string \<times> 'c) list \<Rightarrow> 'c \<Rightarrow> 'w \<Rightarrow> string option \<times> 'c \<times> 'w" where
  "saga_backward lk [] c x = (None, c, x)"
| "saga_backward lk ((n, out) # rest) c x =
     (case lk n of
        None \<Rightarrow> (Some (error_message (UnknownStepInCompensation n)), c, x)
      | Some st \<Rightarrow>
          (case ss_compensate st c out x of
             (Inl m, x') \<Rightarrow> (Some m, c, x')
           | (Inr c', x') \<Rightarrow> saga_backward lk rest c' x'))"

text \<open>The performed steps a record remembers, with their outputs.\<close>

definition saga_log :: "'c SagaRecord \<Rightarrow> (string \<times> 'c) list" where
  "saga_log r = map (\<lambda>cs. (cs_stepName cs, cs_output cs)) (sr_completedSteps r)"

definition entry :: "'c CompletedStep \<Rightarrow> string \<times> 'c" where
  "entry cs = (cs_stepName cs, cs_output cs)"

lemma entry_pair: "entry cs = (n, out) \<longleftrightarrow> n = cs_stepName cs \<and> out = cs_output cs"
  by (auto simp: entry_def)

lemma saga_log_entry: "saga_log r = map entry (sr_completedSteps r)"
  by (simp add: saga_log_def entry_def)

lemma not_leased [simp]: "sr_claimExpiresAt r = None \<Longrightarrow> \<not> lease_live r n t"
  by (simp add: lease_live_def)

text \<open>No runner holds the saga: there is no lease, or it has run out by the next reading of the clock, as after a crash in the middle
  of a step.\<close>

definition lease_free :: "('c, 'w) saga_world \<Rightarrow> 'c SagaRecord \<Rightarrow> bool" where
  "lease_free w r \<longleftrightarrow> (case sr_claimExpiresAt r of None \<Rightarrow> True | Some e \<Rightarrow> e \<le> sw_clock w (sw_ticks w))"

lemma unclaimed_free [simp]: "sr_claimExpiresAt r = None \<Longrightarrow> lease_free w r"
  by (simp add: lease_free_def)

lemma free_not_live: "lease_free w r \<Longrightarrow> \<not> lease_live r n (sw_clock w (sw_ticks w))"
  by (auto simp: lease_free_def lease_live_def split: option.splits)

lemma claim_free:
  assumes "stored w r" and "lease_free w r"
  obtains cl w' where "claimStep co r n w = (Inr (Some cl), w')" "stored w' cl" "sw_ext w' = sw_ext w"
    "sr_sagaId cl = sr_sagaId r" "sr_status cl = sr_status r" "sr_error cl = sr_error r"
    "sr_completedSteps cl = sr_completedSteps r" "sr_context cl = sr_context r"
    "sr_expiresAt cl = sr_expiresAt r"
  by (rule claim_run [OF assms(1) free_not_live [OF assms(2)], where co = co and n = n]) (rule that, assumption+, simp_all)

section \<open>Rolling back refines the abstract rollback\<close>

lemma mark_marks:
  "e \<in> set (mark_compensated n (cs\<lparr>cs_status := StepCompensated\<rparr>) steps) \<Longrightarrow> cs_stepName cs = n \<Longrightarrow>
     (cs_stepName e = n \<and> cs_status e = StepCompensated) \<or> (e \<in> set steps \<and> cs_stepName e \<noteq> n)"
  by (auto simp: mark_compensated_def split: if_splits)

lemma pcatch_normal: "m w = (Inr x, w') \<Longrightarrow> pcatch m h w = (Inr x, w')"
  by (simp add: pcatch_apply)

lemma pbind_normal: "m w = (Inr x, w1) \<Longrightarrow> f x w1 = res \<Longrightarrow> pbind m f w = res"
  by (simp add: pbind_apply)

lemma compensateStep_ok:
  assumes "stored w r" and "ss_compensate st (sr_context r) (cs_output cs) (sw_ext w) = (Inr c', x')"
  obtains r' w' where "compensateStep r st cs w = (Inr r', w')" "stored w' r'" "sw_ext w' = x'"
    "sr_sagaId r' = sr_sagaId r" "sr_status r' = sr_status r" "sr_error r' = sr_error r"
    "sr_claimExpiresAt r' = None" "sr_context r' = c'"
    "sr_completedSteps r' = mark_compensated (cs_stepName cs) (cs\<lparr>cs_status := StepCompensated\<rparr>) (sr_completedSteps r)"
proof -
  define f where "f = (\<lambda>t. r\<lparr>sr_context := c',
       sr_completedSteps := mark_compensated (cs_stepName cs) (cs\<lparr>cs_status := StepCompensated\<rparr>) (sr_completedSteps r),
       sr_claimExpiresAt := None, sr_updatedAt := t\<rparr>)"
  have f: "sr_sagaId (f t) = sr_sagaId r" "sr_version (f t) = sr_version r" for t
    by (simp_all add: f_def)
  have st: "stored (w\<lparr>sw_ext := x'\<rparr>) r" using assms(1) by simp
  have run: "run_ext (ss_compensate st (sr_context r) (cs_output cs)) w = (Inr c', w\<lparr>sw_ext := x'\<rparr>)"
    using assms(2) by (simp add: run_ext_def)
  obtain t w' where ev: "pbind now (\<lambda>t. pbind (save (f t)) (\<lambda>r'.
         pbind (recordEvent r' ''step_compensated'' (Some SCompensating) (Some SCompensating)
                  [(''step'', cs_stepName cs)]) (\<lambda>_. pret r'))) (w\<lparr>sw_ext := x'\<rparr>)
       = (Inr ((f t)\<lparr>sr_version := Suc (sr_version r)\<rparr>), w')"
    "stored w' ((f t)\<lparr>sr_version := Suc (sr_version r)\<rparr>)" "sw_ext w' = sw_ext (w\<lparr>sw_ext := x'\<rparr>)"
    by (rule save_then_event [OF st f])
  have "compensateStep r st cs w = (Inr ((f t)\<lparr>sr_version := Suc (sr_version r)\<rparr>), w')"
    unfolding compensateStep_def
    by (rule pcatch_normal, rule pbind_normal, rule run) (use ev(1) in \<open>simp only: f_def\<close>)
  then show ?thesis by (rule that) (use ev in \<open>simp_all add: f_def\<close>)
qed

lemma pcatch_throw: "m w = (Inl e, w1) \<Longrightarrow> h e w1 = res \<Longrightarrow> pcatch m h w = res"
  by (simp add: pcatch_apply)

lemma compensateStep_fails:
  assumes "stored w r" and "ss_compensate st (sr_context r) (cs_output cs) (sw_ext w) = (Inl m, x')"
  obtains r' w' where "compensateStep r st cs w = (Inl (StepError m), w')" "stored w' r'" "sw_ext w' = x'"
    "sr_sagaId r' = sr_sagaId r" "sr_status r' = sr_status r" "sr_error r' = sr_error r"
    "sr_claimExpiresAt r' = None" "sr_completedSteps r' = sr_completedSteps r" "sr_context r' = sr_context r"
proof -
  let ?w1 = "w\<lparr>sw_ext := x'\<rparr>" and ?t = "sw_clock w (sw_ticks w)"
  define r1 where "r1 = r\<lparr>sr_claimExpiresAt := None, sr_updatedAt := ?t\<rparr>"
  define r2 where "r2 = r1\<lparr>sr_version := Suc (sr_version r)\<rparr>"
  have fail: "pbind (run_ext (ss_compensate st (sr_context r) (cs_output cs))) g w = (Inl (StepError m), ?w1)" for g
    using assms(2) by (simp add: run_ext_def pbind_apply)
  obtain w' where sv: "save r1 (?w1\<lparr>sw_ticks := Suc (sw_ticks w)\<rparr>) = (Inr r2, w')" "stored w' r2"
    "sw_ext w' = sw_ext (?w1\<lparr>sw_ticks := Suc (sw_ticks w)\<rparr>)"
    using save_current [of "?w1\<lparr>sw_ticks := Suc (sw_ticks w)\<rparr>" r r1] assms(1) by (auto simp: r1_def r2_def)
  have "compensateStep r st cs w = (Inl (StepError m), w')"
    unfolding compensateStep_def
    by (rule pcatch_throw, rule fail, rule pbind_normal, rule now_run, rule pbind_normal)
      (use sv(1) in \<open>simp_all add: r1_def pthrow_apply\<close>)
  then show ?thesis by (rule that [where r' = r2]) (use sv in \<open>simp_all add: r1_def r2_def\<close>)
qed

text \<open>Writing the final status of a rollback.\<close>

lemma finishCompensation_run:
  assumes "stored w r"
  obtains r' w' where "finishCompensation r w = (Inr r', w')" "stored w' r'" "sw_ext w' = sw_ext w"
    "sr_sagaId r' = sr_sagaId r" "sr_status r' = SCompensated" "sr_error r' = sr_error r"
    "sr_claimExpiresAt r' = None" "sr_context r' = sr_context r" "sr_completedSteps r' = sr_completedSteps r"
proof -
  define f where "f = (\<lambda>t. r\<lparr>sr_status := SCompensated, sr_currentStep := None, sr_claimExpiresAt := None,
       sr_updatedAt := t\<rparr>)"
  have f: "sr_sagaId (f t) = sr_sagaId r" "sr_version (f t) = sr_version r" for t
    by (simp_all add: f_def)
  obtain t w' where ev: "pbind now (\<lambda>t. pbind (save (f t)) (\<lambda>r'.
         pbind (recordEvent r' ''saga_compensated'' (Some SCompensating) (Some SCompensated) []) (\<lambda>_. pret r'))) w
       = (Inr ((f t)\<lparr>sr_version := Suc (sr_version r)\<rparr>), w')"
    "stored w' ((f t)\<lparr>sr_version := Suc (sr_version r)\<rparr>)" "sw_ext w' = sw_ext w"
    by (rule save_then_event [OF assms f])
  show ?thesis
    by (rule that [where r' = "(f t)\<lparr>sr_version := Suc (sr_version r)\<rparr>" and w' = w'])
      (use ev in \<open>simp_all add: f_def finishCompensation_def\<close>)
qed

text \<open>The record's log and marks after one more entry is rolled back.\<close>

lemma mark_keeps_log:
  assumes "distinct (map fst (saga_log r))" and "entry cs \<in> set (saga_log r)"
    and "sr_completedSteps r' = mark_compensated (cs_stepName cs) (cs\<lparr>cs_status := StepCompensated\<rparr>) (sr_completedSteps r)"
  shows "saga_log r' = saga_log r"
proof -
  have "entry e = entry cs" if "e \<in> set (sr_completedSteps r)" "cs_stepName e = cs_stepName cs" for e
  proof -
    have "entry e \<in> set (saga_log r)" using that(1) by (simp add: saga_log_entry)
    with that(2) assms(1,2) show ?thesis
      by (metis eq_key_imp_eq_value entry_def)
  qed
  then show ?thesis
    by (auto simp: saga_log_entry assms(3) mark_compensated_def) (auto simp: entry_def)
qed

lemma compensateFrom_ok:
  assumes "stored w r" and "sr_claimExpiresAt r = None" and "distinct (map fst (saga_log r))"
    and "entry ` set todo \<subseteq> set (saga_log r)"
    and "saga_backward (step_named co) (map entry todo) (sr_context r) (sw_ext w) = (None, c', x')"
  shows "\<exists>r' w'. compensateFrom co r todo w = (Inr r', w') \<and> stored w' r' \<and> sw_ext w' = x' \<and>
     sr_sagaId r' = sr_sagaId r \<and> sr_status r' = SCompensated \<and> sr_error r' = sr_error r \<and>
     sr_context r' = c' \<and> saga_log r' = saga_log r \<and>
     (\<forall>e \<in> set (sr_completedSteps r'). cs_status e = StepCompensated \<or>
        (e \<in> set (sr_completedSteps r) \<and> cs_stepName e \<notin> cs_stepName ` set todo))"
  using assms
proof (induction todo arbitrary: r w)
  case Nil
  obtain r' w' where "finishCompensation r w = (Inr r', w')" "stored w' r'" "sw_ext w' = sw_ext w"
    "sr_sagaId r' = sr_sagaId r" "sr_status r' = SCompensated" "sr_error r' = sr_error r"
    "sr_context r' = sr_context r" "sr_completedSteps r' = sr_completedSteps r"
    by (rule finishCompensation_run [OF Nil.prems(1)])
  with Nil.prems(5) show ?case by (intro exI [of _ r'] exI [of _ w']) (simp add: saga_log_def)
next
  case (Cons cs todo)
  obtain st c1 x1 where st: "step_named co (cs_stepName cs) = Some st"
    and comp: "ss_compensate st (sr_context r) (cs_output cs) (sw_ext w) = (Inr c1, x1)"
    and rest: "saga_backward (step_named co) (map entry todo) c1 x1 = (None, c', x')"
    using Cons.prems(5) by (auto simp: entry_pair entry_def [of cs] split: option.splits prod.splits sum.splits)
  obtain cl w1 where cl: "claimStep co r (cs_stepName cs) w = (Inr (Some cl), w1)" "stored w1 cl" "sw_ext w1 = sw_ext w"
    "sr_sagaId cl = sr_sagaId r" "sr_status cl = sr_status r" "sr_error cl = sr_error r"
    "sr_completedSteps cl = sr_completedSteps r" "sr_context cl = sr_context r"
    by (rule claim_free [OF Cons.prems(1) unclaimed_free [OF Cons.prems(2)]])
  have comp': "ss_compensate st (sr_context cl) (cs_output cs) (sw_ext w1) = (Inr c1, x1)"
    using comp cl by simp
  obtain r1 w2 where r1: "compensateStep cl st cs w1 = (Inr r1, w2)" "stored w2 r1" "sw_ext w2 = x1"
    "sr_sagaId r1 = sr_sagaId cl" "sr_error r1 = sr_error cl" "sr_claimExpiresAt r1 = None" "sr_context r1 = c1"
    "sr_completedSteps r1 = mark_compensated (cs_stepName cs) (cs\<lparr>cs_status := StepCompensated\<rparr>) (sr_completedSteps cl)"
    by (rule compensateStep_ok [OF cl(2) comp'])
  have log: "saga_log r1 = saga_log r"
    using mark_keeps_log [of r cs r1] Cons.prems(3,4) r1(8) cl(7) by simp
  have "\<exists>r' w'. compensateFrom co r1 todo w2 = (Inr r', w') \<and> stored w' r' \<and> sw_ext w' = x' \<and>
     sr_sagaId r' = sr_sagaId r1 \<and> sr_status r' = SCompensated \<and> sr_error r' = sr_error r1 \<and>
     sr_context r' = c' \<and> saga_log r' = saga_log r1 \<and>
     (\<forall>e \<in> set (sr_completedSteps r'). cs_status e = StepCompensated \<or>
        (e \<in> set (sr_completedSteps r1) \<and> cs_stepName e \<notin> cs_stepName ` set todo))"
    using Cons.IH [of w2 r1] Cons.prems(3,4) r1(2,3,6,7) log rest by simp
  then obtain r' w' where IH: "compensateFrom co r1 todo w2 = (Inr r', w')" "stored w' r'" "sw_ext w' = x'"
    "sr_sagaId r' = sr_sagaId r1" "sr_status r' = SCompensated" "sr_error r' = sr_error r1" "sr_context r' = c'"
    "saga_log r' = saga_log r1"
    "\<forall>e \<in> set (sr_completedSteps r'). cs_status e = StepCompensated \<or>
       (e \<in> set (sr_completedSteps r1) \<and> cs_stepName e \<notin> cs_stepName ` set todo)"
    by blast
  have "cs_status e = StepCompensated \<or>
       (e \<in> set (sr_completedSteps r) \<and> cs_stepName e \<notin> cs_stepName ` set (cs # todo))"
    if "e \<in> set (sr_completedSteps r')" for e
    using IH(9) that mark_marks [of e "cs_stepName cs" cs "sr_completedSteps r"] r1(8) cl(7) by auto
  moreover have "compensateFrom co r (cs # todo) w = (Inr r', w')"
    using st cl(1) r1(1) IH(1) by (simp add: pbind_apply)
  ultimately show ?case
    using IH r1(4,5) cl(4,6) log by (intro exI [of _ r'] exI [of _ w']) simp
qed

text \<open>A rollback that fails stops there: the error is rethrown, and the record keeps its status,
  releases its lease and is at the point the abstract rollback stopped at.\<close>

lemma compensateFrom_fails:
  assumes "stored w r" and "sr_claimExpiresAt r = None" and "distinct (map fst (saga_log r))"
    and "entry ` set todo \<subseteq> set (saga_log r)"
    and "saga_backward (step_named co) (map entry todo) (sr_context r) (sw_ext w) = (Some m, c', x')"
  shows "\<exists>e r' w'. compensateFrom co r todo w = (Inl e, w') \<and> error_message e = m \<and> stored w' r' \<and>
     sw_ext w' = x' \<and> sr_sagaId r' = sr_sagaId r \<and> sr_status r' = sr_status r \<and>
     sr_claimExpiresAt r' = None \<and> sr_context r' = c' \<and> saga_log r' = saga_log r"
  using assms
proof (induction todo arbitrary: r w)
  case Nil
  then show ?case by simp
next
  case (Cons cs todo)
  show ?case
  proof (cases "step_named co (cs_stepName cs)")
    case None
    define r1 where "r1 = r\<lparr>sr_error := Some (error_message (UnknownStepInCompensation (cs_stepName cs))),
      sr_updatedAt := sw_clock w (sw_ticks w)\<rparr>"
    obtain w' where "save r1 (w\<lparr>sw_ticks := Suc (sw_ticks w)\<rparr>) = (Inr (r1\<lparr>sr_version := Suc (sr_version r)\<rparr>), w')"
      "stored w' (r1\<lparr>sr_version := Suc (sr_version r)\<rparr>)" "sw_ext w' = sw_ext (w\<lparr>sw_ticks := Suc (sw_ticks w)\<rparr>)"
      by (rule save_current [of "w\<lparr>sw_ticks := Suc (sw_ticks w)\<rparr>" r r1]) (simp_all add: r1_def Cons.prems(1))
    with Cons.prems None show ?thesis
      by (intro exI [of _ "UnknownStepInCompensation (cs_stepName cs)"]
            exI [of _ "r1\<lparr>sr_version := Suc (sr_version r)\<rparr>"] exI [of _ w'])
        (simp add: r1_def now_run pbind_apply pthrow_apply saga_log_def entry_def)
  next
    case (Some st)
    obtain cl w1 where cl: "claimStep co r (cs_stepName cs) w = (Inr (Some cl), w1)" "stored w1 cl" "sw_ext w1 = sw_ext w"
      "sr_sagaId cl = sr_sagaId r" "sr_status cl = sr_status r"
      "sr_completedSteps cl = sr_completedSteps r" "sr_context cl = sr_context r"
      by (rule claim_free [OF Cons.prems(1) unclaimed_free [OF Cons.prems(2)]])
    show ?thesis
    proof (cases "ss_compensate st (sr_context cl) (cs_output cs) (sw_ext w1)")
      case (Pair res x1)
      show ?thesis
      proof (cases res)
        case (Inl m1)
        with Pair have comp: "ss_compensate st (sr_context cl) (cs_output cs) (sw_ext w1) = (Inl m1, x1)" by simp
        with Cons.prems(5) Some cl have "m = m1" "c' = sr_context r" "x' = x1" by (simp_all add: entry_def)
        moreover obtain r' w' where "compensateStep cl st cs w1 = (Inl (StepError m1), w')" "stored w' r'" "sw_ext w' = x1"
          "sr_sagaId r' = sr_sagaId cl" "sr_status r' = sr_status cl" "sr_claimExpiresAt r' = None"
          "sr_completedSteps r' = sr_completedSteps cl" "sr_context r' = sr_context cl"
          by (rule compensateStep_fails [OF cl(2) comp])
        ultimately show ?thesis using cl Some
          by (intro exI [of _ "StepError m1"] exI [of _ r'] exI [of _ w']) (simp add: pbind_apply saga_log_def)
      next
        case (Inr c1)
        with Pair have comp: "ss_compensate st (sr_context cl) (cs_output cs) (sw_ext w1) = (Inr c1, x1)" by simp
        obtain r1 w2 where r1: "compensateStep cl st cs w1 = (Inr r1, w2)" "stored w2 r1" "sw_ext w2 = x1"
          "sr_sagaId r1 = sr_sagaId cl" "sr_status r1 = sr_status cl" "sr_claimExpiresAt r1 = None" "sr_context r1 = c1"
          "sr_completedSteps r1 = mark_compensated (cs_stepName cs) (cs\<lparr>cs_status := StepCompensated\<rparr>) (sr_completedSteps cl)"
          by (rule compensateStep_ok [OF cl(2) comp])
        have log: "saga_log r1 = saga_log r"
          using mark_keeps_log [of r cs r1] Cons.prems(3,4) r1(8) cl(6) by simp
        have "saga_backward (step_named co) (map entry todo) c1 x1 = (Some m, c', x')"
          using Cons.prems(5) Some comp cl by (simp add: entry_def [of cs])
        then have "\<exists>e r' w'. compensateFrom co r1 todo w2 = (Inl e, w') \<and> error_message e = m \<and> stored w' r' \<and>
            sw_ext w' = x' \<and> sr_sagaId r' = sr_sagaId r1 \<and> sr_status r' = sr_status r1 \<and>
            sr_claimExpiresAt r' = None \<and> sr_context r' = c' \<and> saga_log r' = saga_log r1"
          using Cons.IH [of w2 r1] Cons.prems(3,4) r1(2,3,6,7) log by simp
        then show ?thesis using cl Some r1 log by (simp add: pbind_apply)
      qed
    qed
  qed
qed

section \<open>Moving forward refines the abstract run\<close>

lemma completeStep_run:
  assumes "stored w r"
  obtains r' w' where "completeStep co r st n c w = (Inr r', w')" "stored w' r'" "sw_ext w' = sw_ext w"
    "sr_sagaId r' = sr_sagaId r" "sr_status r' = sr_status r" "sr_error r' = sr_error r"
    "sr_claimExpiresAt r' = None" "sr_context r' = c" "saga_log r' = saga_log r @ [(n, c)]"
proof -
  define f where "f = (\<lambda>t'. r\<lparr>sr_context := c,
       sr_completedSteps := sr_completedSteps r @
         [\<lparr>cs_stepName = n, cs_status = StepCompleted, cs_output = c, cs_completedAt = sw_clock w (sw_ticks w),
           cs_compensationAction = Some (ss_name st)\<rparr>],
       sr_currentStep := next_step (stepOrder co) n, sr_claimExpiresAt := None, sr_updatedAt := t'\<rparr>)"
  have f: "sr_sagaId (f t) = sr_sagaId r" "sr_version (f t) = sr_version r" for t
    by (simp_all add: f_def)
  have st: "stored (w\<lparr>sw_ticks := Suc (sw_ticks w)\<rparr>) r" using assms by simp
  obtain t w' where ev: "pbind now (\<lambda>t. pbind (save (f t)) (\<lambda>r'.
         pbind (recordEvent r' ''step_completed'' (Some SRunning) (Some SRunning) [(''step'', n)]) (\<lambda>_. pret r')))
         (w\<lparr>sw_ticks := Suc (sw_ticks w)\<rparr>)
       = (Inr ((f t)\<lparr>sr_version := Suc (sr_version r)\<rparr>), w')"
    "stored w' ((f t)\<lparr>sr_version := Suc (sr_version r)\<rparr>)" "sw_ext w' = sw_ext (w\<lparr>sw_ticks := Suc (sw_ticks w)\<rparr>)"
    by (rule save_then_event [OF st f])
  have "completeStep co r st n c w = (Inr ((f t)\<lparr>sr_version := Suc (sr_version r)\<rparr>), w')"
    unfolding completeStep_def by (rule pbind_normal, rule now_run) (use ev(1) in \<open>simp only: f_def\<close>)
  then show ?thesis by (rule that) (use ev in \<open>simp_all add: f_def saga_log_def\<close>)
qed

lemma completeSaga_run:
  assumes "stored w r"
  obtains r' w' where "completeSaga r w = (Inr r', w')" "stored w' r'" "sw_ext w' = sw_ext w"
    "sr_sagaId r' = sr_sagaId r" "sr_status r' = SCompleted" "sr_error r' = sr_error r"
    "sr_claimExpiresAt r' = None" "sr_context r' = sr_context r" "saga_log r' = saga_log r"
proof -
  define f where "f = (\<lambda>t. r\<lparr>sr_status := SCompleted, sr_currentStep := None, sr_claimExpiresAt := None,
       sr_updatedAt := t\<rparr>)"
  have f: "sr_sagaId (f t) = sr_sagaId r" "sr_version (f t) = sr_version r" for t
    by (simp_all add: f_def)
  obtain t w' where ev: "pbind now (\<lambda>t. pbind (save (f t)) (\<lambda>r'.
         pbind (recordEvent r' ''saga_completed'' (Some SRunning) (Some SCompleted) []) (\<lambda>_. pret r'))) w
       = (Inr ((f t)\<lparr>sr_version := Suc (sr_version r)\<rparr>), w')"
    "stored w' ((f t)\<lparr>sr_version := Suc (sr_version r)\<rparr>)" "sw_ext w' = sw_ext w"
    by (rule save_then_event [OF assms f])
  show ?thesis
    by (rule that [where r' = "(f t)\<lparr>sr_version := Suc (sr_version r)\<rparr>" and w' = w'])
      (use ev in \<open>simp_all add: f_def completeSaga_def saga_log_def\<close>)
qed

text \<open>One induction over the remaining steps: the loop reaches a stored record that has exactly the
  performed steps appended, and then either completes the saga or fails the first failing step.\<close>

lemma advanceFrom_refines:
  assumes "stored w r" and "lease_free w r"
    and "\<forall>s \<in> set ss. step_named co (ss_name s) = Some s"
    and "saga_forward ss (sr_context r) (sw_ext w) = (outs, f, c', x')"
  shows "\<exists>r1 w1 n. advanceFrom co r (map ss_name ss) w =
       (case f of None \<Rightarrow> completeSaga r1 w1 | Some m \<Rightarrow> failStep co r1 n m w1) \<and>
     stored w1 r1 \<and> sw_ext w1 = x' \<and> sr_sagaId r1 = sr_sagaId r \<and> sr_error r1 = sr_error r \<and>
     sr_context r1 = c' \<and> saga_log r1 = saga_log r @ outs"
  using assms
proof (induction ss arbitrary: r w outs)
  case Nil
  then show ?case by (intro exI [of _ r] exI [of _ w]) simp
next
  case (Cons s ss)
  have st: "step_named co (ss_name s) = Some s" using Cons.prems(3) by simp
  obtain cl w1 where cl: "claimStep co r (ss_name s) w = (Inr (Some cl), w1)" "stored w1 cl" "sw_ext w1 = sw_ext w"
    "sr_sagaId cl = sr_sagaId r" "sr_error cl = sr_error r"
    "sr_completedSteps cl = sr_completedSteps r" "sr_context cl = sr_context r"
    by (rule claim_free [OF Cons.prems(1,2)])
  obtain res x1 where ex: "executeWithRetry s (sr_context r) (sw_ext w) = (res, x1)" by force
  show ?case
  proof (cases res)
    case (Inl m)
    with Cons.prems(4) ex have "outs = []" "f = Some m" "c' = sr_context r" "x' = x1" by auto
    moreover have "advanceFrom co r (map ss_name (s # ss)) w = failStep co cl (ss_name s) m (w1\<lparr>sw_ext := x1\<rparr>)"
      using st cl(1,3,7) ex Inl by (simp add: pbind_apply ptry_apply run_ext_def)
    ultimately show ?thesis using cl
      by (intro exI [of _ cl] exI [of _ "w1\<lparr>sw_ext := x1\<rparr>"] exI [of _ "ss_name s"]) (simp add: saga_log_def)
  next
    case (Inr c1)
    obtain r1 w2 where r1: "completeStep co cl s (ss_name s) c1 (w1\<lparr>sw_ext := x1\<rparr>) = (Inr r1, w2)" "stored w2 r1"
      "sw_ext w2 = sw_ext (w1\<lparr>sw_ext := x1\<rparr>)" "sr_sagaId r1 = sr_sagaId cl" "sr_error r1 = sr_error cl"
      "sr_claimExpiresAt r1 = None" "sr_context r1 = c1" "saga_log r1 = saga_log cl @ [(ss_name s, c1)]"
      by (rule completeStep_run [of "w1\<lparr>sw_ext := x1\<rparr>" cl co s "ss_name s" c1]) (use cl(2) in simp)
    obtain outs' where outs': "saga_forward ss c1 x1 = (outs', f, c', x')" "outs = (ss_name s, c1) # outs'"
      using Cons.prems(4) ex Inr by (auto split: prod.splits)
    have "advanceFrom co r (map ss_name (s # ss)) w = advanceFrom co r1 (map ss_name ss) w2"
      using st cl(1,3,7) ex Inr r1(1) by (simp add: pbind_apply ptry_apply run_ext_def)
    moreover have "saga_log cl = saga_log r" using cl(6) by (simp add: saga_log_def)
    ultimately show ?thesis
      using Cons.IH [of w2 r1 outs'] Cons.prems(3) r1(2-8) outs' cl(4,5) by simp
  qed
qed

section \<open>Outcomes of a saga\<close>

text \<open>
  The abstract saga: run \<open>ss\<close> after the performed steps \<open>log\<close>; when one fails, undo everything performed,
  last first. \<open>Stuck m m'\<close> is a failure \<open>m\<close> whose rollback failed with \<open>m'\<close>.
\<close>

datatype ('c, 'w) saga_outcome =
    Committed "(string \<times> 'c) list" 'c 'w
  | RolledBack string "(string \<times> 'c) list" 'c 'w
  | Stuck string string "(string \<times> 'c) list" 'c 'w

definition abstract_saga ::
  "(string \<Rightarrow> ('c, 'w) SagaStep option) \<Rightarrow> (string \<times> 'c) list \<Rightarrow> ('c, 'w) SagaStep list \<Rightarrow> 'c \<Rightarrow> 'w
     \<Rightarrow> ('c, 'w) saga_outcome" where
  "abstract_saga lk log ss c x =
     (case saga_forward ss c x of
        (outs, None, c', x') \<Rightarrow> Committed (log @ outs) c' x'
      | (outs, Some m, c', x') \<Rightarrow>
          (case saga_backward lk (rev (log @ outs)) c' x' of
             (None, c'', x'') \<Rightarrow> RolledBack m (log @ outs) c'' x''
           | (Some m', c'', x'') \<Rightarrow> Stuck m m' (log @ outs) c'' x''))"

text \<open>What the store and the caller see of an outcome.\<close>

fun realises ::
  "('c, 'w) saga_outcome \<Rightarrow> string \<Rightarrow> (saga_error + 'c SagaRecord) \<times> ('c, 'w) saga_world \<Rightarrow> bool" where
  "realises (Committed log c x) sid (Inr r, w) \<longleftrightarrow>
     stored w r \<and> sw_ext w = x \<and> sr_sagaId r = sid \<and> sr_status r = SCompleted \<and>
     sr_context r = c \<and> saga_log r = log"
| "realises (RolledBack m log c x) sid (Inr r, w) \<longleftrightarrow>
     stored w r \<and> sw_ext w = x \<and> sr_sagaId r = sid \<and> sr_status r = SCompensated \<and>
     sr_error r = Some m \<and> sr_context r = c \<and> saga_log r = log \<and>
     (\<forall>e \<in> set (sr_completedSteps r). cs_status e = StepCompensated)"
| "realises (Stuck m m' log c x) sid (Inl e, w) \<longleftrightarrow>
     error_message e = m' \<and> sw_ext w = x \<and>
     (case saga_get (sw_rows w) sid of
        None \<Rightarrow> False
      | Some r \<Rightarrow> sr_sagaId r = sid \<and> sr_status r = SCompensating \<and> sr_claimExpiresAt r = None \<and>
                  sr_context r = c \<and> saga_log r = log)"
| "realises _ _ _ \<longleftrightarrow> False"

lemma entry_log: "rev (saga_log r) = map entry (rev (sr_completedSteps r))"
  by (simp add: saga_log_entry rev_map)

lemma compensate_ok:
  assumes "stored w r" and "sr_claimExpiresAt r = None" and "distinct (map fst (saga_log r))"
    and "saga_backward (step_named co) (rev (saga_log r)) (sr_context r) (sw_ext w) = (None, c', x')"
  shows "\<exists>r' w'. compensate co r w = (Inr r', w') \<and> stored w' r' \<and> sw_ext w' = x' \<and>
     sr_sagaId r' = sr_sagaId r \<and> sr_status r' = SCompensated \<and> sr_error r' = sr_error r \<and>
     sr_context r' = c' \<and> saga_log r' = saga_log r \<and>
     (\<forall>e \<in> set (sr_completedSteps r'). cs_status e = StepCompensated)"
proof -
  obtain r' w' where *: "compensate co r w = (Inr r', w')" "stored w' r'" "sw_ext w' = x'"
     "sr_sagaId r' = sr_sagaId r" "sr_status r' = SCompensated" "sr_error r' = sr_error r"
     "sr_context r' = c'" "saga_log r' = saga_log r"
     "\<forall>e \<in> set (sr_completedSteps r'). cs_status e = StepCompensated \<or>
        (e \<in> set (sr_completedSteps r) \<and> cs_stepName e \<notin> cs_stepName ` set (rev (sr_completedSteps r)))"
    using compensateFrom_ok [OF assms(1-3), of "rev (sr_completedSteps r)" co c' x'] assms(4)
    unfolding compensate_def entry_log by (auto simp: saga_log_entry)
  then show ?thesis by auto
qed

lemma compensate_fails:
  assumes "stored w r" and "sr_claimExpiresAt r = None" and "distinct (map fst (saga_log r))"
    and "saga_backward (step_named co) (rev (saga_log r)) (sr_context r) (sw_ext w) = (Some m, c', x')"
  shows "\<exists>e r' w'. compensate co r w = (Inl e, w') \<and> error_message e = m \<and> stored w' r' \<and>
     sw_ext w' = x' \<and> sr_sagaId r' = sr_sagaId r \<and> sr_status r' = sr_status r \<and>
     sr_claimExpiresAt r' = None \<and> sr_context r' = c' \<and> saga_log r' = saga_log r"
  using compensateFrom_fails [OF assms(1-3), of "rev (sr_completedSteps r)" co m c' x'] assms(4)
  unfolding compensate_def entry_log by (simp add: saga_log_entry)

lemma failStep_run:
  assumes "stored w r"
  obtains r' w' where "failStep co r n m w = compensate co r' w'" "stored w' r'" "sw_ext w' = sw_ext w"
    "sr_sagaId r' = sr_sagaId r" "sr_status r' = SCompensating" "sr_error r' = Some m"
    "sr_claimExpiresAt r' = None" "sr_context r' = sr_context r" "saga_log r' = saga_log r"
proof -
  define f where "f = (\<lambda>t. r\<lparr>sr_status := SCompensating, sr_error := Some m, sr_claimExpiresAt := None,
      sr_updatedAt := t\<rparr>)"
  have f: "sr_sagaId (f t) = sr_sagaId r" "sr_version (f t) = sr_version r" for t
    by (simp_all add: f_def)
  obtain t w' where ev: "pbind now (\<lambda>t. pbind (save (f t)) (\<lambda>r'.
         pbind (recordEvent r' ''step_failed'' (Some SRunning) (Some SCompensating)
           [(''step'', n), (''error'', m)]) (\<lambda>_. pret r'))) w
       = (Inr ((f t)\<lparr>sr_version := Suc (sr_version r)\<rparr>), w')"
    "stored w' ((f t)\<lparr>sr_version := Suc (sr_version r)\<rparr>)" "sw_ext w' = sw_ext w"
    by (rule save_then_event [OF assms f])
  have "failStep co r n m = pbind (pbind now (\<lambda>t. pbind (save (f t)) (\<lambda>r'.
         pbind (recordEvent r' ''step_failed'' (Some SRunning) (Some SCompensating)
           [(''step'', n), (''error'', m)]) (\<lambda>_. pret r')))) (compensate co)"
    by (simp add: failStep_def f_def pbind_assoc)
  then have "failStep co r n m w = compensate co ((f t)\<lparr>sr_version := Suc (sr_version r)\<rparr>) w'"
    using ev(1) by (simp add: pbind_normal)
  then show ?thesis by (rule that) (use ev in \<open>simp_all add: f_def saga_log_def\<close>)
qed

lemma saga_forward_names:
  "saga_forward ss c x = (outs, f, c', x') \<Longrightarrow> \<exists>k. map fst outs = take k (map ss_name ss)"
proof (induction ss arbitrary: c x outs)
  case Nil
  then show ?case by simp
next
  case (Cons s ss)
  obtain res x1 where ex: "executeWithRetry s c x = (res, x1)" by force
  show ?case
  proof (cases res)
    case (Inl m)
    with Cons.prems ex show ?thesis by (intro exI [of _ 0]) auto
  next
    case (Inr c1)
    with Cons.prems ex obtain outs' where o: "saga_forward ss c1 x1 = (outs', f, c', x')" "outs = (ss_name s, c1) # outs'"
      by (auto split: prod.splits)
    from Cons.IH [OF o(1)] obtain k where "map fst outs' = take k (map ss_name ss)" by blast
    with o show ?thesis by (intro exI [of _ "Suc k"]) simp
  qed
qed

lemma first_duplicate_None: "first_duplicate seen ns = None \<longleftrightarrow> distinct ns \<and> set ns \<inter> set seen = {}"
  by (induction ns arbitrary: seen) auto

lemma step_named_mem:
  assumes "distinct (stepOrder co)" and "s \<in> set (co_steps co)"
  shows "step_named co (ss_name s) = Some s"
  unfolding step_named_def using assms by (intro map_of_is_SomeI) (auto simp: comp_def)

lemma remaining_steps_alt:
  "remaining_steps co r = map ss_name (filter (\<lambda>s. ss_name s \<notin> fst ` set (saga_log r)) (co_steps co))"
  by (simp add: remaining_steps_def filter_map comp_def saga_log_def image_image)

lemma performed_distinct:
  assumes "saga_forward (filter (\<lambda>s. ss_name s \<notin> fst ` set log) ss) c x = (outs, f, c', x')"
    and "distinct (map ss_name ss)" and "distinct (map fst log)"
  shows "distinct (map fst (log @ outs))"
proof -
  let ?ss = "filter (\<lambda>s. ss_name s \<notin> fst ` set log) ss"
  obtain k where k: "map fst outs = take k (map ss_name ?ss)"
    using saga_forward_names [OF assms(1)] by blast
  have "set (map fst outs) \<subseteq> set (map ss_name ?ss)"
    unfolding k by (rule set_take_subset)
  moreover have "set (map ss_name ?ss) \<inter> K = {}" if "K = fst ` set log" for K
    using that by auto
  ultimately have "set (map fst outs) \<inter> fst ` set log = {}" by blast
  moreover have "distinct (map fst outs)"
    using assms(2) by (simp add: k distinct_map_filter)
  ultimately show ?thesis using assms(3) by auto
qed

text \<open>The rollback of a failed saga, as an outcome.\<close>

definition rollback_outcome ::
  "(string \<Rightarrow> ('c, 'w) SagaStep option) \<Rightarrow> string \<Rightarrow> (string \<times> 'c) list \<Rightarrow> 'c \<Rightarrow> 'w \<Rightarrow> ('c, 'w) saga_outcome" where
  "rollback_outcome lk m log c x =
     (case saga_backward lk (rev log) c x of
        (None, c', x') \<Rightarrow> RolledBack m log c' x'
      | (Some m', c', x') \<Rightarrow> Stuck m m' log c' x')"

lemma compensate_realises:
  assumes "stored w r" and "sr_claimExpiresAt r = None" and "distinct (map fst (saga_log r))"
    and "sr_status r = SCompensating" and "sr_error r = Some m"
  shows "realises (rollback_outcome (step_named co) m (saga_log r) (sr_context r) (sw_ext w))
           (sr_sagaId r) (compensate co r w)"
proof -
  obtain g c' x' where bw: "saga_backward (step_named co) (rev (saga_log r)) (sr_context r) (sw_ext w) = (g, c', x')"
    by (metis prod_cases3)
  show ?thesis
  proof (cases g)
    case None
    with compensate_ok [OF assms(1-3)] bw assms(5) show ?thesis
      by (fastforce simp: rollback_outcome_def)
  next
    case (Some m')
    with compensate_fails [OF assms(1-3)] bw assms(4) show ?thesis
      by (fastforce simp: rollback_outcome_def stored_def)
  qed
qed

text \<open>Continuing a running saga realises the abstract saga of its remaining steps.\<close>

lemma advance_running:
  assumes "stored w r" and "lease_free w r" and "sr_status r = SRunning"
    and "distinct (stepOrder co)" and "distinct (map fst (saga_log r))"
  shows "realises (abstract_saga (step_named co) (saga_log r)
            (filter (\<lambda>s. ss_name s \<notin> fst ` set (saga_log r)) (co_steps co)) (sr_context r) (sw_ext w))
          (sr_sagaId r) (advance co r w)"
proof -
  let ?ss = "filter (\<lambda>s. ss_name s \<notin> fst ` set (saga_log r)) (co_steps co)"
  obtain outs f c1 x1 where fw: "saga_forward ?ss (sr_context r) (sw_ext w) = (outs, f, c1, x1)"
    by (metis prod_cases4)
  have "\<forall>s \<in> set ?ss. step_named co (ss_name s) = Some s"
    using step_named_mem [OF assms(4)] by simp
  from advanceFrom_refines [OF assms(1,2) this fw]
  obtain r1 w1 n where adv: "advance co r w =
       (case f of None \<Rightarrow> completeSaga r1 w1 | Some m \<Rightarrow> failStep co r1 n m w1)"
    and r1: "stored w1 r1" "sw_ext w1 = x1" "sr_sagaId r1 = sr_sagaId r" "sr_context r1 = c1"
      "saga_log r1 = saga_log r @ outs"
    unfolding advance_def remaining_steps_alt using assms(3) by auto
  show ?thesis
  proof (cases f)
    case None
    obtain r' w' where "completeSaga r1 w1 = (Inr r', w')" "stored w' r'" "sw_ext w' = sw_ext w1"
      "sr_sagaId r' = sr_sagaId r1" "sr_status r' = SCompleted" "sr_context r' = sr_context r1"
      "saga_log r' = saga_log r1"
      by (rule completeSaga_run [OF r1(1)])
    with None adv r1 fw show ?thesis by (simp add: abstract_saga_def)
  next
    case (Some m)
    obtain r2 w2 where r2: "failStep co r1 n m w1 = compensate co r2 w2" "stored w2 r2" "sw_ext w2 = sw_ext w1"
      "sr_sagaId r2 = sr_sagaId r1" "sr_status r2 = SCompensating" "sr_error r2 = Some m"
      "sr_claimExpiresAt r2 = None" "sr_context r2 = sr_context r1" "saga_log r2 = saga_log r1"
      by (rule failStep_run [OF r1(1)])
    have "distinct (map fst (saga_log r2))"
      using performed_distinct [OF fw assms(4,5)] r2(9) r1(5) by simp
    from compensate_realises [OF r2(2,7) this r2(5,6), of co] Some adv r1 r2 fw show ?thesis
      by (simp add: abstract_saga_def rollback_outcome_def)
  qed
qed

end
