(* ===== verification/Saga_Properties.thy ===== *)
theory Saga_Properties
  imports Saga_Coordinator
begin

text \<open>
  What the saga coordinator promises: a run or a resume realises the abstract saga, a finished saga is
  left alone, a step has one claimant at a time, a retried step is attempted a bounded number of times;
  and two behaviours of the recovery path that its comments do not describe.
\<close>

section \<open>Example saga\<close>

text \<open>Two steps over an integer context; the world is the list of calls made. The second step fails.\<close>

definition demo_lock :: "(int, string list) SagaStep" where
  "demo_lock = \<lparr>ss_name = ''lock'', ss_execute = (\<lambda>c x. (Inr (c + 1), x @ [''lock''])),
     ss_compensate = (\<lambda>c out x. (Inr (c - 1), x @ [''unlock''])), ss_timeoutMs = None, ss_retryPolicy = None\<rparr>"

definition demo_pay :: "(int, string list) SagaStep" where
  "demo_pay = \<lparr>ss_name = ''pay'', ss_execute = (\<lambda>c x. (Inl ''declined'', x @ [''pay''])),
     ss_compensate = (\<lambda>c out x. (Inl ''bank down'', x @ [''unpay''])), ss_timeoutMs = None,
     ss_retryPolicy = Some \<lparr>rp_maxAttempts = 2, rp_backoffMs = 5, rp_retryableErrors = [''decl'']\<rparr>\<rparr>"

definition demo_co :: "(int, string list) SagaCoordinator" where
  "demo_co = \<lparr>co_steps = [demo_lock, demo_pay], co_claimLeaseMs = 30000, co_sagaTimeoutMs = 300000\<rparr>"

definition demo_world :: "int saga_rows \<Rightarrow> (int, string list) saga_world" where
  "demo_world rows = \<lparr>sw_rows = rows, sw_events = [], sw_clock = (\<lambda>n. 1000 + int n), sw_ticks = 0,
     sw_timers = [], sw_ext = []\<rparr>"

definition demo_record :: "SagaStatus \<Rightarrow> string option \<Rightarrow> int SagaRecord" where
  "demo_record st err = \<lparr>sr_sagaId = ''s1'', sr_orderId = ''o1'', sr_workflowType = WfCheckout, sr_status = st,
     sr_currentStep = Some ''pay'',
     sr_completedSteps = [\<lparr>cs_stepName = ''lock'', cs_status = StepCompleted, cs_output = 1, cs_completedAt = 7,
        cs_compensationAction = Some ''lock''\<rparr>],
     sr_context = 1, sr_version = 2, sr_correlationId = ''c1'', sr_error = err, sr_expiresAt = Some 500,
     sr_claimExpiresAt = None, sr_createdAt = 0, sr_updatedAt = 7\<rparr>"

lemmas demo_defs = demo_lock_def demo_pay_def demo_co_def demo_world_def demo_record_def

lemma demo_new: "new_coordinator [demo_lock, demo_pay] None None = Inr demo_co"
  by (simp add: new_coordinator_def demo_defs DEFAULT_CLAIM_LEASE_MS_def DEFAULT_SAGA_TIMEOUT_MS_def
        MAX_SAFE_INTEGER_def)

lemma demo_steps:
  "step_named demo_co ''lock'' = Some demo_lock" "step_named demo_co ''pay'' = Some demo_pay"
  by (simp_all add: step_named_def demo_defs)

lemma demo_actions:
  "ss_name demo_lock = ''lock''" "ss_name demo_pay = ''pay''"
  "executeWithRetry demo_lock c x = (Inr (c + 1), x @ [''lock''])"
  "executeWithRetry demo_pay c x = (Inl ''declined'', x @ [''pay'', ''pay''])"
  "ss_compensate demo_lock c out x = (Inr (c - 1), x @ [''unlock''])"
  by (simp_all add: demo_lock_def demo_pay_def executeWithRetry_def numeral_2_eq_2 retryable_def)

lemma demo_outcome:
  "abstract_saga (step_named demo_co) [] [demo_lock, demo_pay] 5 [] =
     RolledBack ''declined'' [(''lock'', 6)] 5 [''lock'', ''pay'', ''pay'', ''unlock'']"
  "abstract_saga (step_named demo_co) [(''lock'', 1)] [demo_pay] 1 [] =
     RolledBack ''declined'' [(''lock'', 1)] 0 [''pay'', ''pay'', ''unlock'']"
  by (simp_all add: abstract_saga_def demo_steps demo_actions)

section \<open>Running and resuming\<close>

lemma new_coordinator_distinct:
  "new_coordinator steps l t = Inr co \<Longrightarrow> co_steps co = steps \<and> distinct (stepOrder co)"
  by (auto simp: new_coordinator_def first_duplicate_None Let_def split: if_splits option.splits)

lemma saga_run_fresh:
  assumes "saga_get (sw_rows w) sid = None"
  obtains r w' where "saga_run co sid oid c wt cid w = advance co r w'" "stored w' r" "sw_ext w' = sw_ext w"
    "sr_sagaId r = sid" "sr_status r = SRunning" "sr_claimExpiresAt r = None" "sr_context r = c" "saga_log r = []"
proof -
  define r where "r = initial_record co (sw_clock w (sw_ticks w)) sid oid c wt cid"
  let ?w1 = "w\<lparr>sw_ticks := Suc (sw_ticks w), sw_rows := jm_set sid r (sw_rows w)\<rparr>"
  have r: "sr_sagaId r = sid" "sr_status r = SRunning" "sr_claimExpiresAt r = None" "sr_context r = c"
    "saga_log r = []" "r\<lparr>sr_version := 0\<rparr> = r" "\<not> finished r"
    by (simp_all add: r_def initial_record_def saga_log_def finished_def)
  have "create r (w\<lparr>sw_ticks := Suc (sw_ticks w)\<rparr>) = (Inr r, ?w1)"
    using assms r by (simp add: create_def saga_create_def saga_get_def Let_def)
  moreover obtain es where "recordEvent r ''saga_started'' None (Some SRunning) [(''orderId'', oid)] ?w1 =
      (Inr (), ?w1\<lparr>sw_ticks := Suc (sw_ticks ?w1), sw_events := es\<rparr>)"
    using recordEvent_run by blast
  ultimately have "saga_run co sid oid c wt cid w = advance co r (?w1\<lparr>sw_ticks := Suc (sw_ticks ?w1), sw_events := es\<rparr>)"
    unfolding saga_run_def using r(7) by (simp add: now_run pbind_apply r_def)
  then show ?thesis
    by (rule that) (simp_all add: r stored_def saga_get_def jm_get_set)
qed

text \<open>C1: A saga started under a fresh id realises the abstract saga: with all steps succeeding it is stored
  as completed with every step's output in order; with a failing step every performed step has been
  undone, last first, with the output it had produced, and the saga is stored as compensated with the
  failing step's message; when an undo fails too, its error is thrown and the saga is stored as
  compensating with no lease, so that it can be retried. The effect on the external world is exactly
  that of the abstract run.\<close>

theorem saga_run_realises:
  assumes "new_coordinator steps lease timeout = Inr co" and "saga_get (sw_rows w) sid = None"
  shows "realises (abstract_saga (step_named co) [] steps ctx (sw_ext w)) sid
           (saga_run co sid oid ctx wtype cid w)"
proof -
  have co: "co_steps co = steps" "distinct (stepOrder co)"
    using new_coordinator_distinct [OF assms(1)] by blast+
  obtain r w' where r: "saga_run co sid oid ctx wtype cid w = advance co r w'" "stored w' r" "sw_ext w' = sw_ext w"
    "sr_sagaId r = sid" "sr_status r = SRunning" "sr_claimExpiresAt r = None" "sr_context r = ctx" "saga_log r = []"
    by (rule saga_run_fresh [OF assms(2)])
  from advance_running [OF r(2) unclaimed_free [OF r(6)] r(5) co(2)] r(1,3,4,7,8) co(1) show ?thesis by simp
qed

theorem saga_run_realises_witness:
  "realises (RolledBack ''declined'' [(''lock'', 6)] 5 [''lock'', ''pay'', ''pay'', ''unlock'']) ''s1''
     (saga_run demo_co ''s1'' ''o1'' 5 None ''c1'' (demo_world []))"
proof -
  have "saga_get (sw_rows (demo_world [])) ''s1'' = None"
    by (simp add: demo_world_def saga_get_def)
  moreover have "sw_ext (demo_world []) = []" by (simp add: demo_world_def)
  ultimately show ?thesis
    using saga_run_realises [OF demo_new, of "demo_world []" "''s1''" 5 "''o1''" None "''c1''"] demo_outcome(1) by simp
qed

text \<open>C23: Resuming a stored running saga that no runner holds (there is no lease, or it has run out, as after a crash in the middle of
  a step) runs only the steps it has not yet performed,
  in order, from the stored context, and ends like the abstract saga continued from the stored log;
  performed steps are not executed again.\<close>

theorem resume_realises:
  assumes "stored w r" and "sr_status r = SRunning" and "lease_free w r"
    and "distinct (stepOrder co)" and "distinct (map fst (saga_log r))"
  shows "realises (abstract_saga (step_named co) (saga_log r)
            (filter (\<lambda>s. ss_name s \<notin> fst ` set (saga_log r)) (co_steps co)) (sr_context r) (sw_ext w))
          (sr_sagaId r) (resume co (sr_sagaId r) w)"
proof -
  have "resume co (sr_sagaId r) w = advance co r w"
    using assms(1,2) by (simp add: resume_def prog_simps stored_def finished_def)
  with advance_running [OF assms(1,3,2,4,5)] show ?thesis by simp
qed

text \<open>The runner crashed in the middle of the second step and its lease ended at 900.\<close>

definition demo_crashed :: "int SagaRecord" where
  "demo_crashed = (demo_record SRunning None)\<lparr>sr_claimExpiresAt := Some 900\<rparr>"

theorem resume_realises_witness:
  "sr_claimExpiresAt demo_crashed = Some 900 \<and>
   realises (RolledBack ''declined'' [(''lock'', 1)] 0 [''pay'', ''pay'', ''unlock'']) ''s1''
     (resume demo_co ''s1'' (demo_world [(''s1'', demo_crashed)]))"
proof -
  let ?w = "demo_world [(''s1'', demo_crashed)]"
  have "stored ?w demo_crashed" "sr_status demo_crashed = SRunning" "lease_free ?w demo_crashed" "distinct (stepOrder demo_co)"
    "distinct (map fst (saga_log demo_crashed))"
    by (simp_all add: demo_crashed_def demo_defs stored_def saga_get_def saga_log_def lease_free_def)
  moreover have "sr_sagaId demo_crashed = ''s1''" "saga_log demo_crashed = [(''lock'', 1)]" "sr_context demo_crashed = 1" "sw_ext ?w = []"
    "co_steps demo_co = [demo_lock, demo_pay]" "sr_claimExpiresAt demo_crashed = Some 900"
    by (simp_all add: demo_crashed_def demo_record_def demo_world_def saga_log_def demo_co_def)
  ultimately show ?thesis
    using resume_realises [of ?w demo_crashed demo_co] demo_outcome(2) by (simp add: demo_actions)
qed

text \<open>A saga that has finished (completed, compensated or failed) is left alone: running it again under the
  same id, whatever the new context, or resuming it returns the stored record, executes no step and
  changes no row; a repeated run only notes one more event.\<close>

theorem finished_saga_untouched:
  assumes "stored w r" and "finished r"
  shows "resume co (sr_sagaId r) w = (Inr r, w) \<and>
    (\<exists>w'. saga_run co (sr_sagaId r) oid ctx wtype cid w = (Inr r, w') \<and> sw_rows w' = sw_rows w \<and>
           sw_ext w' = sw_ext w \<and> length (sw_events w') = Suc (length (sw_events w)))"
proof
  show "resume co (sr_sagaId r) w = (Inr r, w)"
    using assms by (simp add: resume_def prog_simps stored_def)
  define w1 where "w1 = w\<lparr>sw_ticks := Suc (sw_ticks w)\<rparr>"
  have "create (initial_record co t (sr_sagaId r) oid ctx wtype cid) w1 = (Inr r, w1)" for t
    using assms(1) by (simp add: create_def saga_create_def initial_record_def stored_def saga_get_def w1_def)
  moreover have "now w = (Inr (sw_clock w (sw_ticks w)), w1)" by (simp add: now_run w1_def)
  ultimately show "\<exists>w'. saga_run co (sr_sagaId r) oid ctx wtype cid w = (Inr r, w') \<and> sw_rows w' = sw_rows w \<and>
           sw_ext w' = sw_ext w \<and> length (sw_events w') = Suc (length (sw_events w))"
    using assms(2) by (simp add: saga_run_def pbind_apply recordEvent_def now_run pmodify_apply pret_apply appendEvent_def w1_def)
qed

theorem finished_saga_untouched_witness:
  "resume demo_co ''s1'' (demo_world [(''s1'', demo_record SCompleted None)]) =
     (Inr (demo_record SCompleted None), demo_world [(''s1'', demo_record SCompleted None)])"
  using finished_saga_untouched [of "demo_world [(''s1'', demo_record SCompleted None)]" "demo_record SCompleted None" demo_co]
  by (simp add: demo_world_def stored_def saga_get_def demo_record_def finished_def)

section \<open>One claimant per step\<close>

text \<open>C8: Once a runner has claimed a step from a copy of the saga, every other runner backs off without
  touching the store: one that still holds the same copy, because its version is stale, for any step;
  and one that reads the claimed record, because of the lease, until the lease has run out.\<close>

theorem claim_exclusive:
  assumes "stored w r" and "claimStep co r n w = (Inr (Some cl), w1)" and "sw_rows w2 = sw_rows w1"
  shows "(fst (claimStep co' r m w2) = Inr None \<and> sw_rows (snd (claimStep co' r m w2)) = sw_rows w2) \<and>
    (sw_clock w2 (sw_ticks w2) < sw_clock w (Suc (sw_ticks w)) + co_claimLeaseMs co \<longrightarrow>
         fst (claimStep co' cl n w2) = Inr None \<and> sw_rows (snd (claimStep co' cl n w2)) = sw_rows w2)"
proof (rule conjI [OF _ impI])
  have free: "\<not> lease_live r n (sw_clock w (sw_ticks w))"
    using assms(2) claim_none [of r n w co] by auto
  obtain e u where e: "e = sw_clock w (Suc (sw_ticks w)) + co_claimLeaseMs co"
    and cl: "cl = r\<lparr>sr_currentStep := Some n, sr_claimExpiresAt := Some e, sr_updatedAt := u,
        sr_version := Suc (sr_version r)\<rparr>" and st: "stored w1 cl"
    by (rule claim_run [OF assms(1) free, of co]) (use assms(2) in auto)
  have st2: "saga_get (sw_rows w2) (sr_sagaId r) = Some cl"
    using st assms(3) by (simp add: stored_def cl)
  have stale: "saga_save (r\<lparr>sr_currentStep := a, sr_claimExpiresAt := b, sr_updatedAt := d\<rparr>) (sw_rows w2) = None" for a b d
    using st2 by (simp add: saga_save_def saga_get_def cl)
  show "fst (claimStep co' r m w2) = Inr None \<and> sw_rows (snd (claimStep co' r m w2)) = sw_rows w2"
  proof (cases "lease_live r m (sw_clock w2 (sw_ticks w2))")
    case True
    then show ?thesis by (simp add: claim_none)
  next
    case False
    then show ?thesis by (simp add: claim_lost [OF stale])
  qed
  assume "sw_clock w2 (sw_ticks w2) < sw_clock w (Suc (sw_ticks w)) + co_claimLeaseMs co"
  then have "lease_live cl n (sw_clock w2 (sw_ticks w2))"
    by (simp add: lease_live_def cl e)
  then show "fst (claimStep co' cl n w2) = Inr None \<and> sw_rows (snd (claimStep co' cl n w2)) = sw_rows w2"
    by (simp add: claim_none)
qed

theorem claim_exclusive_witness:
  "\<exists>cl w1. claimStep demo_co (demo_record SRunning None) ''pay'' (demo_world [(''s1'', demo_record SRunning None)])
       = (Inr (Some cl), w1) \<and> fst (claimStep demo_co (demo_record SRunning None) ''pay'' w1) = Inr None \<and>
     fst (claimStep demo_co cl ''pay'' w1) = Inr None"
proof -
  let ?r = "demo_record SRunning None" and ?w = "demo_world [(''s1'', demo_record SRunning None)]"
  have st: "stored ?w ?r" "\<not> lease_live ?r ''pay'' (sw_clock ?w (sw_ticks ?w))"
    by (simp_all add: demo_defs stored_def saga_get_def lease_live_def)
  obtain e u w1 where c: "claimStep demo_co ?r ''pay'' ?w = (Inr (Some (?r\<lparr>sr_currentStep := Some ''pay'',
        sr_claimExpiresAt := Some e, sr_updatedAt := u, sr_version := Suc (sr_version ?r)\<rparr>)), w1)"
    and w1: "sw_clock w1 = sw_clock ?w" "sw_ticks w1 = sw_ticks ?w + 3"
    by (rule claim_run [OF st, of demo_co])
  have early: "sw_clock w1 (sw_ticks w1) < sw_clock ?w (Suc (sw_ticks ?w)) + co_claimLeaseMs demo_co"
    unfolding w1 by (simp add: demo_world_def demo_co_def)
  from claim_exclusive [OF st(1) c refl, where co' = demo_co and m = "''pay''"] early c
  show ?thesis by blast
qed

section \<open>Retries\<close>

lemma attempt_loop_count:
  assumes "\<And>c x. cnt (snd (ss_execute st c x)) = Suc (cnt x)"
  shows "cnt (snd (attempt_loop st c n e x)) \<le> cnt x + n"
proof (induction n arbitrary: e x)
  case 0
  then show ?case by simp
next
  case (Suc n)
  obtain res x' where ex: "ss_execute st c x = (res, x')" by force
  with assms [of c x] have "cnt x' = Suc (cnt x)" by simp
  with ex Suc.IH [of _ x'] show ?case by (auto split: sum.splits)
qed



section \<open>The store under every operation\<close>

definition rows_ok :: "'c saga_rows \<Rightarrow> bool" where
  "rows_ok rows \<longleftrightarrow> distinct (map fst rows) \<and> (\<forall>(k, r) \<in> set rows. sr_sagaId r = k)"

text \<open>From \<open>w0\<close> to \<open>w\<close> no saga is lost, no version decreases and the event log is only extended.\<close>

definition store_grows :: "('c, 'w) saga_world \<Rightarrow> ('c, 'w) saga_world \<Rightarrow> bool" where
  "store_grows w0 w \<longleftrightarrow> rows_ok (sw_rows w) \<and>
     (\<forall>k r0. saga_get (sw_rows w0) k = Some r0 \<longrightarrow>
        (\<exists>r. saga_get (sw_rows w) k = Some r \<and> sr_version r0 \<le> sr_version r)) \<and>
     (\<exists>es. sw_events w = sw_events w0 @ es)"

lemma set_jm_set: "set (jm_set k v m) \<subseteq> insert (k, v) (set m)"
  by (induction m) auto

lemma rows_ok_set: "rows_ok rows \<Longrightarrow> rows_ok (jm_set (sr_sagaId r) r rows)"
  using set_jm_set [of "sr_sagaId r" r rows] by (auto simp: rows_ok_def distinct_update)

lemma rows_ok_unique:
  assumes "rows_ok rows" and "saga_get rows k = Some r" and "x \<in> snd ` set rows" and "sr_sagaId x = k"
  shows "x = r"
proof -
  from assms(3) obtain k' where "(k', x) \<in> set rows" by auto
  with assms(1,4) have "map_of rows k = Some x" by (auto simp: rows_ok_def)
  with assms(2) show ?thesis by (simp add: saga_get_def)
qed

lemma grows_save:
  assumes "store_grows w0 w" and "saga_save r (sw_rows w) = Some (r', rows')"
  shows "store_grows w0 (w\<lparr>sw_rows := rows'\<rparr>)"
proof -
  have "rows' = jm_set (sr_sagaId r') r' (sw_rows w)"
    using assms(2) by (auto simp: saga_save_def Let_def split: option.splits if_splits)
  then have "rows_ok rows'"
    using assms(1) by (simp add: store_grows_def rows_ok_set)
  moreover have "\<exists>n. saga_get rows' k = Some n \<and> sr_version r0 \<le> sr_version n"
    if "saga_get (sw_rows w0) k = Some r0" for k r0
    using that assms(1) saga_rows.save_monotone [OF assms(2), of k] unfolding store_grows_def by (meson order_trans)
  ultimately show ?thesis using assms(1) by (simp add: store_grows_def)
qed

lemma grows_create:
  assumes "store_grows w0 w" and "saga_create r (sw_rows w) = (r', rows')"
  shows "store_grows w0 (w\<lparr>sw_rows := rows'\<rparr>)"
proof (cases "saga_get (sw_rows w) (sr_sagaId r)")
  case None
  then have rows': "rows' = jm_set (sr_sagaId r) (r\<lparr>sr_version := 0\<rparr>) (sw_rows w)"
    using assms(2) by (auto simp: saga_create_def saga_get_def Let_def)
  have "rows_ok rows'"
    using assms(1) rows_ok_set [of "sw_rows w" "r\<lparr>sr_version := 0\<rparr>"] by (simp add: rows' store_grows_def)
  moreover have "saga_get rows' k = saga_get (sw_rows w) k" if "k \<noteq> sr_sagaId r" for k
    using that by (simp add: rows' saga_get_def jm_get_set)
  ultimately show ?thesis
    using assms(1) None unfolding store_grows_def
    by (metis (no_types, lifting) option.distinct(1) saga_world.select_convs(1,2) saga_world.update_convs(1) saga_world.surjective)
next
  case (Some e)
  with assms show ?thesis by (simp add: saga_create_existing store_grows_def)
qed

lemma grows_prims [keeps_rules]:
  "keeps (store_grows w0) now" "keeps (store_grows w0) (save r)" "keeps (store_grows w0) (create r)"
  "keeps (store_grows w0) (run_ext f)"
  by (auto intro!: keepsI simp: now_run save_def create_def run_ext_def grows_save grows_create store_grows_def [of _ "_\<lparr>sw_ticks := _\<rparr>"]
      store_grows_def [of _ "_\<lparr>sw_ext := _\<rparr>"] split: option.splits prod.splits sum.splits) (auto simp: store_grows_def)

lemma grows_event [keeps_rules]: "keeps (store_grows w0) (recordEvent r ty a b pl)"
  unfolding recordEvent_def by (intro keeps_rules) (auto simp: store_grows_def appendEvent_def)

lemma grows_timer [keeps_rules]: "keeps (store_grows w0) (scheduleRetryIfLeased r)"
  unfolding scheduleRetryIfLeased_def by (intro keeps_rules) (auto simp: store_grows_def)

lemma grows_claim [keeps_rules]: "keeps (store_grows w0) (claimStep co r n)"
  unfolding claimStep_def by (intro keeps_rules) (auto intro!: keeps_rules split: saga_error.splits)

lemma grows_compensateStep [keeps_rules]: "keeps (store_grows w0) (compensateStep r st cs)"
  unfolding compensateStep_def by (intro keeps_rules)

lemma grows_compensateFrom [keeps_rules]: "keeps (store_grows w0) (compensateFrom co r todo)"
  by (induction todo arbitrary: r) (auto simp: Let_def finishCompensation_def intro!: keeps_rules)

lemma grows_advanceFrom [keeps_rules]: "keeps (store_grows w0) (advanceFrom co r ns)"
  by (induction ns arbitrary: r)
    (auto simp: completeSaga_def failStep_def completeStep_def compensate_def intro!: keeps_rules)

lemma grows_advance [keeps_rules]: "keeps (store_grows w0) (advance co r)"
  unfolding advance_def compensate_def by (intro keeps_rules)

lemma grows_run [keeps_rules]: "keeps (store_grows w0) (saga_run co sid oid c wt cid)"
  unfolding saga_run_def by (intro keeps_rules)

lemma grows_resume [keeps_rules]: "keeps (store_grows w0) (resume co sid)"
  unfolding resume_def by (intro keeps_rules)

lemma recoverOne_grows [keeps_rules]: "keeps (store_grows w0) (recoverOne co sid)"
  unfolding recoverOne_def recover_body_def expire_def compensate_def by (intro keeps_rules)

lemma grows_recoverAll [keeps_rules]: "keeps (store_grows w0) (recoverAll co)"
  unfolding recoverAll_def by (intro keeps_rules)

lemma grows_sweep [keeps_rules]: "keeps (store_grows w0) (timeoutSweep co)"
  unfolding timeoutSweep_def by (intro keeps_rules)

text \<open>C24: Every public operation of the coordinator, on every path, errors included, keeps the store
  well-formed (one row per saga, under its own id), loses no saga, lowers no version and only appends to
  the event log.\<close>

theorem coordinator_keeps_store:
  assumes "rows_ok (sw_rows w)"
  shows "store_grows w (snd (saga_run co sid oid ctx wtype cid w)) \<and> store_grows w (snd (resume co sid w)) \<and>
         store_grows w (snd (recoverAll co w)) \<and> store_grows w (snd (timeoutSweep co w))"
proof -
  have "store_grows w w" using assms by (simp add: store_grows_def)
  then show ?thesis
    by (intro conjI keepsD [OF grows_run] keepsD [OF grows_resume] keepsD [OF grows_recoverAll] keepsD [OF grows_sweep])
qed

theorem coordinator_keeps_store_witness:
  "store_grows (demo_world [(''s1'', demo_record SRunning None)])
     (snd (recoverAll demo_co (demo_world [(''s1'', demo_record SRunning None)])))"
  using coordinator_keeps_store [of "demo_world [(''s1'', demo_record SRunning None)]"]
  by (simp add: demo_world_def demo_record_def rows_ok_def)

section \<open>Recovery\<close>

lemma expire_run:
  assumes "stored w r"
  obtains r' w' where
    "expire co r w = pbind (ptry (compensate co r')) (\<lambda>res. pret (case res of
       Inl _ \<Rightarrow> \<lparr>rd_sagaId = sr_sagaId r, rd_action = MarkedFailed,
                 rd_reason = ''Saga timed out and compensation failed''\<rparr>
     | Inr x \<Rightarrow> \<lparr>rd_sagaId = sr_sagaId r,
                 rd_action = (if sr_status x = SCompensated then RecCompensated else MarkedFailed),
                 rd_reason = ''Saga exceeded its timeout deadline and was auto-compensated''\<rparr>)) w'"
    "stored w' r'" "sw_ext w' = sw_ext w" "sr_sagaId r' = sr_sagaId r" "sr_status r' = STimedOut"
    "sr_claimExpiresAt r' = None" "sr_context r' = sr_context r" "saga_log r' = saga_log r"
proof -
  obtain es where ev: "recordEvent r ''saga_timed_out'' (Some (sr_status r)) (Some STimedOut) [] w =
      (Inr (), w\<lparr>sw_ticks := Suc (sw_ticks w), sw_events := es\<rparr>)"
    using recordEvent_run by blast
  define w1 where "w1 = w\<lparr>sw_ticks := Suc (Suc (sw_ticks w)), sw_events := es\<rparr>"
  define t where "t = sw_clock w (Suc (sw_ticks w))"
  have nw: "now (w\<lparr>sw_ticks := Suc (sw_ticks w), sw_events := es\<rparr>) = (Inr t, w1)"
    by (simp add: now_run w1_def t_def)
  define r1 where "r1 = r\<lparr>sr_status := STimedOut,
      sr_error := Some (case sr_error r of None \<Rightarrow> ''Saga exceeded its deadline'' | Some e \<Rightarrow> e),
      sr_claimExpiresAt := None, sr_updatedAt := t\<rparr>"
  obtain w' where sv: "save r1 w1 = (Inr (r1\<lparr>sr_version := Suc (sr_version r)\<rparr>), w')"
      "stored w' (r1\<lparr>sr_version := Suc (sr_version r)\<rparr>)" "sw_ext w' = sw_ext w1"
    by (rule save_current [of w1 r r1]) (simp_all add: w1_def r1_def assms)
  show ?thesis
  proof (rule that [where r' = "r1\<lparr>sr_version := Suc (sr_version r)\<rparr>" and w' = w'], unfold expire_def,
      rule pbind_normal, rule ev, rule pbind_normal, rule nw, rule pbind_normal, fold r1_def, rule sv(1), rule refl)
  qed (use sv in \<open>simp_all add: r1_def w1_def saga_log_def\<close>)
qed

definition overdue :: "'c SagaRecord \<Rightarrow> ms \<Rightarrow> bool" where
  "overdue r t \<longleftrightarrow> (case sr_expiresAt r of None \<Rightarrow> False | Some e \<Rightarrow> e \<le> t)"

lemma recoverOne_overdue:
  assumes "stored w r" and "overdue r (sw_clock w (sw_ticks w))"
  shows "recoverOne co (sr_sagaId r) w =
    pcatch (pbind (expire co r) (\<lambda>d. pret (Some d)))
      (\<lambda>e. pret (Some \<lparr>rd_sagaId = sr_sagaId r, rd_action = MarkedFailed, rd_reason = error_message e\<rparr>))
      (w\<lparr>sw_ticks := Suc (sw_ticks w)\<rparr>)"
  using assms by (simp add: recoverOne_def recover_body_def pcatch_apply pbind_apply [of now] pgets_apply
      pbind_apply [of "pgets _"] now_run stored_def overdue_def)

text \<open>Recovery of a saga past its deadline undoes all its steps whatever its status: the record is not
  required to be running or compensating, so a saga that has completed (or was compensated before) is
  rolled back when a sweep or a scheduled retry reaches it after its deadline.\<close>

theorem recovery_undoes_overdue:
  assumes "stored w r" and "overdue r (sw_clock w (sw_ticks w))" and "distinct (map fst (saga_log r))"
    and "saga_backward (step_named co) (rev (saga_log r)) (sr_context r) (sw_ext w) = (None, c', x')"
  shows "\<exists>d r' w'. recoverOne co (sr_sagaId r) w = (Inr (Some d), w') \<and> rd_action d = RecCompensated \<and>
     stored w' r' \<and> sr_sagaId r' = sr_sagaId r \<and> sr_status r' = SCompensated \<and> sw_ext w' = x' \<and>
     saga_log r' = saga_log r \<and> (\<forall>e \<in> set (sr_completedSteps r'). cs_status e = StepCompensated)"
proof -
  let ?w = "w\<lparr>sw_ticks := Suc (sw_ticks w)\<rparr>"
  have st: "stored ?w r" using assms(1) by simp
  obtain r1 w1 where ex: "expire co r ?w = pbind (ptry (compensate co r1)) (\<lambda>res. pret (case res of
       Inl _ \<Rightarrow> \<lparr>rd_sagaId = sr_sagaId r, rd_action = MarkedFailed,
                 rd_reason = ''Saga timed out and compensation failed''\<rparr>
     | Inr x \<Rightarrow> \<lparr>rd_sagaId = sr_sagaId r,
                 rd_action = (if sr_status x = SCompensated then RecCompensated else MarkedFailed),
                 rd_reason = ''Saga exceeded its timeout deadline and was auto-compensated''\<rparr>)) w1"
    and r1: "stored w1 r1" "sw_ext w1 = sw_ext ?w" "sr_sagaId r1 = sr_sagaId r" "sr_claimExpiresAt r1 = None"
      "sr_context r1 = sr_context r" "saga_log r1 = saga_log r"
    by (rule expire_run [OF st])
  obtain r' w' where cp: "compensate co r1 w1 = (Inr r', w')" "stored w' r'" "sw_ext w' = x'"
     "sr_sagaId r' = sr_sagaId r1" "sr_status r' = SCompensated" "saga_log r' = saga_log r1"
     "\<forall>e \<in> set (sr_completedSteps r'). cs_status e = StepCompensated"
    using compensate_ok [OF r1(1,4), of co c' x'] assms(3,4) r1(2,5,6) by auto
  show ?thesis
    unfolding recoverOne_overdue [OF assms(1,2)]
    using ex cp r1 by (auto simp: pcatch_apply pbind_apply ptry_apply pret_apply)
qed

theorem recovery_undoes_overdue_witness:
  "\<exists>d r' w'. recoverOne demo_co ''s1'' (demo_world [(''s1'', demo_record SCompleted None)]) = (Inr (Some d), w') \<and>
     rd_action d = RecCompensated \<and> sr_status r' = SCompensated \<and> stored w' r' \<and> sw_ext w' = [''unlock'']"
proof -
  let ?r = "demo_record SCompleted None" and ?w = "demo_world [(''s1'', demo_record SCompleted None)]"
  have h: "stored ?w ?r" "overdue ?r (sw_clock ?w (sw_ticks ?w))" "distinct (map fst (saga_log ?r))"
    by (simp_all add: demo_world_def demo_record_def stored_def saga_get_def overdue_def saga_log_def)
  have "saga_backward (step_named demo_co) (rev (saga_log ?r)) (sr_context ?r) (sw_ext ?w) = (None, 0, [''unlock''])"
    by (simp add: demo_world_def demo_record_def saga_log_def demo_steps demo_actions)
  moreover have "sr_sagaId ?r = ''s1''" by (simp add: demo_record_def)
  ultimately show ?thesis using recovery_undoes_overdue [OF h] by metis
qed

text \<open>When the rollback of a saga past its deadline fails, the saga is left in status timed-out with its
  lease released, and neither the list of incomplete sagas nor the list of timed-out ones contains it:
  no later recovery pass or sweep retries it.\<close>

theorem timed_out_rollback_is_lost:
  assumes "stored w r" and "overdue r (sw_clock w (sw_ticks w))" and "distinct (map fst (saga_log r))"
    and "saga_backward (step_named co) (rev (saga_log r)) (sr_context r) (sw_ext w) = (Some m, c', x')"
    and "rows_ok (sw_rows w)"
  shows "\<exists>d r' w'. recoverOne co (sr_sagaId r) w = (Inr (Some d), w') \<and> rd_action d = MarkedFailed \<and>
     saga_get (sw_rows w') (sr_sagaId r) = Some r' \<and> sr_status r' = STimedOut \<and> sr_claimExpiresAt r' = None \<and>
     saga_log r' = saga_log r \<and> sr_sagaId r \<notin> sr_sagaId ` set (listIncomplete (sw_rows w')) \<and>
     sr_sagaId r \<notin> sr_sagaId ` set (listTimedOut t (sw_rows w'))"
proof -
  let ?w = "w\<lparr>sw_ticks := Suc (sw_ticks w)\<rparr>"
  have st: "stored ?w r" using assms(1) by simp
  obtain r1 w1 where ex: "expire co r ?w = pbind (ptry (compensate co r1)) (\<lambda>res. pret (case res of
       Inl _ \<Rightarrow> \<lparr>rd_sagaId = sr_sagaId r, rd_action = MarkedFailed,
                 rd_reason = ''Saga timed out and compensation failed''\<rparr>
     | Inr x \<Rightarrow> \<lparr>rd_sagaId = sr_sagaId r,
                 rd_action = (if sr_status x = SCompensated then RecCompensated else MarkedFailed),
                 rd_reason = ''Saga exceeded its timeout deadline and was auto-compensated''\<rparr>)) w1"
    and r1: "stored w1 r1" "sw_ext w1 = sw_ext ?w" "sr_sagaId r1 = sr_sagaId r" "sr_status r1 = STimedOut"
      "sr_claimExpiresAt r1 = None" "sr_context r1 = sr_context r" "saga_log r1 = saga_log r"
    by (rule expire_run [OF st])
  obtain e r' w' where cp: "compensate co r1 w1 = (Inl e, w')" "stored w' r'" "sr_sagaId r' = sr_sagaId r1"
     "sr_status r' = sr_status r1" "sr_claimExpiresAt r' = None" "saga_log r' = saga_log r1"
    using compensate_fails [OF r1(1,5), of co m c' x'] assms(3,4) r1(2,6,7) by auto
  have "rows_ok (sw_rows (snd (recoverOne co (sr_sagaId r) w)))"
    using keepsD [OF recoverOne_grows, of w w] assms(5) by (simp add: store_grows_def)
  moreover have run: "recoverOne co (sr_sagaId r) w = (Inr (Some \<lparr>rd_sagaId = sr_sagaId r, rd_action = MarkedFailed,
      rd_reason = ''Saga timed out and compensation failed''\<rparr>), w')"
    unfolding recoverOne_overdue [OF assms(1,2)]
    using ex cp(1) by (simp add: pcatch_apply pbind_apply ptry_apply pret_apply)
  ultimately have "rows_ok (sw_rows w')" by simp
  moreover have "saga_get (sw_rows w') (sr_sagaId r) = Some r'"
    using cp(2,3) r1(3) by (simp add: stored_def)
  ultimately have only: "x = r'" if "x \<in> snd ` set (sw_rows w')" "sr_sagaId x = sr_sagaId r" for x
    using that rows_ok_unique by fastforce
  have "sr_sagaId r \<notin> sr_sagaId ` set (listIncomplete (sw_rows w'))"
    "sr_sagaId r \<notin> sr_sagaId ` set (listTimedOut t (sw_rows w'))"
    using only cp(4) r1(4) by (fastforce simp: listIncomplete_def listTimedOut_def)+
  with run show ?thesis using cp r1 by (simp add: stored_def)
qed

theorem timed_out_rollback_is_lost_witness:
  "\<exists>r'. sr_status r' = STimedOut \<and>
     saga_get (sw_rows (snd (recoverOne (demo_co\<lparr>co_steps := [demo_pay\<lparr>ss_name := ''lock''\<rparr>]\<rparr>) ''s1''
       (demo_world [(''s1'', demo_record SRunning None)])))) ''s1'' = Some r'"
proof -
  let ?r = "demo_record SRunning None" and ?w = "demo_world [(''s1'', demo_record SRunning None)]"
  let ?co = "demo_co\<lparr>co_steps := [demo_pay\<lparr>ss_name := ''lock''\<rparr>]\<rparr>"
  have h: "stored ?w ?r" "overdue ?r (sw_clock ?w (sw_ticks ?w))" "distinct (map fst (saga_log ?r))"
    by (simp_all add: demo_world_def demo_record_def stored_def saga_get_def overdue_def saga_log_def)
  have b: "saga_backward (step_named ?co) (rev (saga_log ?r)) (sr_context ?r) (sw_ext ?w) = (Some ''bank down'', 1, [''unpay''])"
    by (simp add: demo_defs saga_log_def step_named_def)
  have "rows_ok (sw_rows ?w)" by (simp add: demo_world_def demo_record_def rows_ok_def)
  moreover have "sr_sagaId ?r = ''s1''" by (simp add: demo_record_def)
  ultimately show ?thesis using timed_out_rollback_is_lost [OF h b] by fastforce
qed

text \<open>Retrying a rollback undoes every performed step again, also those whose entry is already marked as
  compensated: the result of resuming a compensating saga depends on the names and outputs of its log
  only, not on the marks.\<close>

theorem rollback_retry_repeats:
  assumes "stored w r" and "sr_status r = SCompensating" and "sr_claimExpiresAt r = None"
    and "sr_error r = Some m" and "distinct (map fst (saga_log r))"
  shows "realises (rollback_outcome (step_named co) m (saga_log r) (sr_context r) (sw_ext w))
           (sr_sagaId r) (resume co (sr_sagaId r) w)"
proof -
  have "resume co (sr_sagaId r) w = compensate co r w"
    using assms(1,2) by (simp add: resume_def prog_simps stored_def finished_def advance_def)
  with compensate_realises [OF assms(1,3,5,2,4)] show ?thesis by simp
qed

theorem rollback_retry_repeats_witness:
  "let r = demo_record SCompensating (Some ''declined'') in
   let r' = r\<lparr>sr_completedSteps := map (\<lambda>e. e\<lparr>cs_status := StepCompensated\<rparr>) (sr_completedSteps r)\<rparr> in
   realises (RolledBack ''declined'' [(''lock'', 1)] 0 [''unlock'']) ''s1''
     (resume demo_co ''s1'' (demo_world [(''s1'', r')]))"
proof -
  define r' where "r' = (demo_record SCompensating (Some ''declined''))
    \<lparr>sr_completedSteps := map (\<lambda>e. e\<lparr>cs_status := StepCompensated\<rparr>)
       (sr_completedSteps (demo_record SCompensating (Some ''declined'')))\<rparr>"
  have f: "sr_sagaId r' = ''s1''" "saga_log r' = [(''lock'', 1)]" "sr_context r' = 1" "sr_status r' = SCompensating"
    "sr_claimExpiresAt r' = None" "sr_error r' = Some ''declined''"
    by (simp_all add: r'_def demo_record_def saga_log_def)
  then have "stored (demo_world [(''s1'', r')]) r'" by (simp add: demo_world_def stored_def saga_get_def)
  from rollback_retry_repeats [OF this f(4,5,6), of demo_co] f(1,2,3)
  have "realises (RolledBack ''declined'' [(''lock'', 1)] 0 [''unlock'']) ''s1''
     (resume demo_co ''s1'' (demo_world [(''s1'', r')]))"
    by (simp add: rollback_outcome_def demo_steps demo_actions) (simp add: demo_world_def)
  then show ?thesis by (simp add: Let_def r'_def)
qed

end
