(* ===== verification/Payment_Records.thy ===== *)
theory Payment_Records
  imports Delego_Prelude
begin

text \<open>
  The payment records table (payments/src/escrowCoordinator/paymentRecordStore.ts and types.ts). The table
  is the list of its rows. Postgres is not part of the repository: what the statements rely on is modelled
  (a filter by key, an update in place, \<^verbatim>\<open>BIGINT\<close> and \<^verbatim>\<open>NUMERIC(20,0)\<close> ranges, the primary key, the
  unique index on \<^verbatim>\<open>order_id\<close>, an id that the database makes up), and every other check it makes on an insert
  (foreign keys, text syntax and widths) is the parameter \<open>accepts\<close>. An amount that the code passes as
  decimal text is the integer it denotes, or \<open>None\<close> for text that \<^verbatim>\<open>BigInt()\<close> refuses. Lookups and updates are those of a
  reachable database and of texts that fit their columns (64 characters for escrow ids and hashes), with ids in the
  canonical spelling of a UUID; outages of the database are added where the settlement module uses the table.
\<close>

section \<open>Data\<close>

datatype PaymentRecordStatus = PPending | PFunded | PReleased | PRefunded | PDisputed | PFailed

record PaymentRecord =
  pr_id :: string
  pr_orderId :: string
  pr_escrowId :: "string option"
  pr_escrowContractId :: string
  pr_buyerAddress :: string
  pr_sellerAddress :: string
  pr_tokenContractId :: string
  pr_amount :: int
  pr_status :: PaymentRecordStatus
  pr_fundTxHash :: "string option"
  pr_releaseTxHash :: "string option"
  pr_refundTxHash :: "string option"
  pr_disputeTxHash :: "string option"
  pr_released :: int
  pr_refunded :: int
  pr_failureReason :: "string option"
  pr_subtotal :: int
  pr_taxAmount :: int
  pr_taxRateBasisPoints :: int
  pr_taxJurisdiction :: "string option"
  pr_createdAt :: ms
  pr_updatedAt :: ms

type_synonym stroop_text = "int option"

record CreatePaymentRecordInput =
  ci_orderId :: string
  ci_escrowContractId :: string
  ci_buyerAddress :: string
  ci_sellerAddress :: string
  ci_tokenContractId :: string
  ci_amountStroops :: stroop_text
  ci_subtotalStroops :: "stroop_text option"
  ci_taxAmountStroops :: "stroop_text option"
  ci_taxRateBasisPoints :: "int option"
  ci_taxJurisdiction :: "string option"

text \<open>A partial update: the outer option of a nullable column is \<^verbatim>\<open>undefined\<close>.\<close>

record PaymentRecordUpdate =
  pu_escrowId :: "string option"
  pu_status :: "PaymentRecordStatus option"
  pu_fundTxHash :: "string option option"
  pu_releaseTxHash :: "string option option"
  pu_refundTxHash :: "string option option"
  pu_disputeTxHash :: "string option option"
  pu_failureReason :: "string option option"

definition no_update :: PaymentRecordUpdate where
  "no_update = \<lparr>pu_escrowId = None, pu_status = None, pu_fundTxHash = None, pu_releaseTxHash = None,
     pu_refundTxHash = None, pu_disputeTxHash = None, pu_failureReason = None\<rparr>"

record PaymentRecordTaxUpdate =
  tu_subtotalStroops :: stroop_text
  tu_taxAmountStroops :: stroop_text
  tu_taxRateBasisPoints :: int
  tu_taxJurisdiction :: "string option"

record PaymentRecordAmountDelta =
  ad_releasedDelta :: "int option"
  ad_refundedDelta :: "int option"
  ad_status :: "PaymentRecordStatus option"

datatype store_error = RecordNotFound string | InvalidTax string | DbError string

type_synonym payment_table = "PaymentRecord list"

type_synonym 'a store_op = "payment_table \<Rightarrow> (store_error + 'a) \<times> payment_table"

definition bigint_ok :: "int \<Rightarrow> bool" where
  "bigint_ok x \<longleftrightarrow> - (2 ^ 63) \<le> x \<and> x < 2 ^ 63"

definition numeric20_ok :: "int \<Rightarrow> bool" where
  "numeric20_ok x \<longleftrightarrow> \<bar>x\<bar> < 10 ^ 20"

section \<open>Operations\<close>

definition findPaymentRecordByOrderId :: "string \<Rightarrow> payment_table \<Rightarrow> PaymentRecord option" where
  "findPaymentRecordByOrderId oid rows = find (\<lambda>r. pr_orderId r = oid) rows"

definition findPaymentRecordByEscrowId :: "string \<Rightarrow> payment_table \<Rightarrow> PaymentRecord option" where
  "findPaymentRecordByEscrowId eid rows = find (\<lambda>r. pr_escrowId r = Some eid) rows"

definition tax_problem :: "stroop_text \<Rightarrow> stroop_text \<Rightarrow> string option" where
  "tax_problem sub tax =
     (case sub of None \<Rightarrow> Some ''Cannot convert to a BigInt'' | Some s \<Rightarrow>
      (case tax of None \<Rightarrow> Some ''Cannot convert to a BigInt'' | Some t \<Rightarrow>
        if s < 0 then Some ''subtotalStroops must be non-negative''
        else if t < 0 then Some ''taxAmountStroops must be non-negative''
        else if t > s then Some ''taxAmountStroops must not exceed subtotalStroops''
        else None))"

definition new_row :: "CreatePaymentRecordInput \<Rightarrow> string \<Rightarrow> ms \<Rightarrow> int \<Rightarrow> int \<Rightarrow> int \<Rightarrow> int \<Rightarrow> PaymentRecord" where
  "new_row inp rid t amount sub tax rate =
     \<lparr>pr_id = rid, pr_orderId = ci_orderId inp, pr_escrowId = None, pr_escrowContractId = ci_escrowContractId inp,
      pr_buyerAddress = ci_buyerAddress inp, pr_sellerAddress = ci_sellerAddress inp,
      pr_tokenContractId = ci_tokenContractId inp, pr_amount = amount, pr_status = PPending, pr_fundTxHash = None,
      pr_releaseTxHash = None, pr_refundTxHash = None, pr_disputeTxHash = None, pr_released = 0, pr_refunded = 0,
      pr_failureReason = None, pr_subtotal = sub, pr_taxAmount = tax, pr_taxRateBasisPoints = rate,
      pr_taxJurisdiction = ci_taxJurisdiction inp, pr_createdAt = t, pr_updatedAt = t\<rparr>"

text \<open>\<open>rid\<close> and \<open>t\<close> are the id and the time that the database fills in.\<close>

definition createPaymentRecord ::
  "(CreatePaymentRecordInput \<Rightarrow> bool) \<Rightarrow> string \<Rightarrow> ms \<Rightarrow> CreatePaymentRecordInput \<Rightarrow> PaymentRecord store_op" where
  "createPaymentRecord accepts rid t inp rows =
     (let sub = (case ci_subtotalStroops inp of None \<Rightarrow> ci_amountStroops inp | Some x \<Rightarrow> x);
          tax = (case ci_taxAmountStroops inp of None \<Rightarrow> Some 0 | Some x \<Rightarrow> x);
          rate = (case ci_taxRateBasisPoints inp of None \<Rightarrow> 0 | Some x \<Rightarrow> x)
      in case tax_problem sub tax of
           Some m \<Rightarrow> (Inl (InvalidTax (''Invalid tax breakdown values: '' @ m)), rows)
         | None \<Rightarrow>
             if rate < 0 then (Inl (InvalidTax ''taxRateBasisPoints must be a non-negative integer''), rows)
             else (case ci_amountStroops inp of
                 None \<Rightarrow> (Inl (DbError ''invalid input syntax for type bigint''), rows)
               | Some amount \<Rightarrow>
                   if \<not> bigint_ok amount \<or> \<not> numeric20_ok (the sub) \<or> \<not> numeric20_ok (the tax) \<or> \<not> accepts inp
                   then (Inl (DbError ''insert rejected''), rows)
                   else if rid \<in> set (map pr_id rows) \<or> findPaymentRecordByOrderId (ci_orderId inp) rows \<noteq> None
                   then (Inl (DbError ''duplicate key value violates unique constraint''), rows)
                   else (let r = new_row inp rid t amount (the sub) (the tax) rate in (Inr r, rows @ [r]))))"

text \<open>An \<^verbatim>\<open>UPDATE ... WHERE id = $1 RETURNING *\<close>.\<close>

definition update_row :: "string \<Rightarrow> (PaymentRecord \<Rightarrow> PaymentRecord) \<Rightarrow> PaymentRecord store_op" where
  "update_row rid f rows =
     (case find (\<lambda>r. pr_id r = rid) rows of
        None \<Rightarrow> (Inl (RecordNotFound rid), rows)
      | Some r \<Rightarrow> (Inr (f r), map (\<lambda>x. if pr_id x = rid then f x else x) rows))"

definition keep :: "'a option \<Rightarrow> 'a \<Rightarrow> 'a" where
  "keep v old = (case v of None \<Rightarrow> old | Some x \<Rightarrow> x)"

definition apply_update :: "PaymentRecordUpdate \<Rightarrow> ms \<Rightarrow> PaymentRecord \<Rightarrow> PaymentRecord" where
  "apply_update u t r =
     r\<lparr>pr_escrowId := (case pu_escrowId u of None \<Rightarrow> pr_escrowId r | Some e \<Rightarrow> Some e),
       pr_status := keep (pu_status u) (pr_status r),
       pr_fundTxHash := keep (pu_fundTxHash u) (pr_fundTxHash r),
       pr_releaseTxHash := keep (pu_releaseTxHash u) (pr_releaseTxHash r),
       pr_refundTxHash := keep (pu_refundTxHash u) (pr_refundTxHash r),
       pr_disputeTxHash := keep (pu_disputeTxHash u) (pr_disputeTxHash r),
       pr_failureReason := keep (pu_failureReason u) (pr_failureReason r),
       pr_updatedAt := t\<rparr>"

definition updatePaymentRecord :: "ms \<Rightarrow> string \<Rightarrow> PaymentRecordUpdate \<Rightarrow> PaymentRecord store_op" where
  "updatePaymentRecord t rid u =
     (if u = no_update then update_row rid (\<lambda>r. r) else update_row rid (apply_update u t))"

definition updatePaymentTaxBreakdown :: "ms \<Rightarrow> string \<Rightarrow> PaymentRecordTaxUpdate \<Rightarrow> PaymentRecord store_op" where
  "updatePaymentTaxBreakdown t rid u rows =
     (case tax_problem (tu_subtotalStroops u) (tu_taxAmountStroops u) of
        Some m \<Rightarrow> (Inl (InvalidTax m), rows)
      | None \<Rightarrow>
          if tu_taxRateBasisPoints u < 0
          then (Inl (InvalidTax ''taxRateBasisPoints must be a non-negative integer''), rows)
          else if \<not> numeric20_ok (the (tu_subtotalStroops u)) \<or> \<not> numeric20_ok (the (tu_taxAmountStroops u)) \<or>
            tu_taxRateBasisPoints u > 2147483647 \<or> (case tu_taxJurisdiction u of None \<Rightarrow> False | Some j \<Rightarrow> length j > 64)
          then (Inl (DbError ''numeric field overflow''), rows)
          else update_row rid (\<lambda>r. r\<lparr>pr_subtotal := the (tu_subtotalStroops u),
                 pr_taxAmount := the (tu_taxAmountStroops u), pr_taxRateBasisPoints := tu_taxRateBasisPoints u,
                 pr_taxJurisdiction := tu_taxJurisdiction u, pr_updatedAt := t\<rparr>) rows)"

definition add_delta :: "PaymentRecordAmountDelta \<Rightarrow> ms \<Rightarrow> PaymentRecord \<Rightarrow> PaymentRecord" where
  "add_delta d t r =
     r\<lparr>pr_released := pr_released r + (case ad_releasedDelta d of None \<Rightarrow> 0 | Some x \<Rightarrow> x),
       pr_refunded := pr_refunded r + (case ad_refundedDelta d of None \<Rightarrow> 0 | Some x \<Rightarrow> x),
       pr_status := keep (ad_status d) (pr_status r), pr_updatedAt := t\<rparr>"

definition no_delta :: PaymentRecordAmountDelta where
  "no_delta = \<lparr>ad_releasedDelta = None, ad_refundedDelta = None, ad_status = None\<rparr>"

text \<open>A sum outside \<^verbatim>\<open>BIGINT\<close> fails the statement.\<close>

definition incrementPaymentRecordAmounts ::
  "ms \<Rightarrow> string \<Rightarrow> PaymentRecordAmountDelta \<Rightarrow> PaymentRecord store_op" where
  "incrementPaymentRecordAmounts t rid d rows =
     (if d = no_delta then update_row rid (\<lambda>r. r) rows
      else case find (\<lambda>r. pr_id r = rid) rows of
        None \<Rightarrow> (Inl (RecordNotFound rid), rows)
      | Some r \<Rightarrow>
          if bigint_ok (pr_released (add_delta d t r)) \<and> bigint_ok (pr_refunded (add_delta d t r))
          then update_row rid (add_delta d t) rows
          else (Inl (DbError ''bigint out of range''), rows))"

section \<open>Well-formed tables\<close>

definition row_ok :: "PaymentRecord \<Rightarrow> bool" where
  "row_ok r \<longleftrightarrow> 0 \<le> pr_amount r \<and> bigint_ok (pr_amount r) \<and> 0 \<le> pr_taxAmount r \<and> pr_taxAmount r \<le> pr_subtotal r \<and>
     0 \<le> pr_taxRateBasisPoints r"

text \<open>The tax data alone, which the code validates whatever the amount is.\<close>

definition tax_ok :: "PaymentRecord \<Rightarrow> bool" where
  "tax_ok r \<longleftrightarrow> 0 \<le> pr_taxAmount r \<and> pr_taxAmount r \<le> pr_subtotal r \<and> 0 \<le> pr_taxRateBasisPoints r"

text \<open>Ids and order ids are unique.\<close>

definition table_ok :: "payment_table \<Rightarrow> bool" where
  "table_ok rows \<longleftrightarrow> distinct (map pr_id rows) \<and> distinct (map pr_orderId rows)"

definition rows_in :: "(PaymentRecord \<Rightarrow> bool) \<Rightarrow> payment_table \<Rightarrow> bool" where
  "rows_in P rows \<longleftrightarrow> (\<forall>r \<in> set rows. P r)"

lemma find_SomeD: "find P xs = Some x \<Longrightarrow> x \<in> set xs \<and> P x"
  by (induction xs) (auto split: if_splits)

lemma find_NoneD: "find P xs = None \<longleftrightarrow> (\<forall>x \<in> set xs. \<not> P x)"
  by (induction xs) auto

lemma find_unique_key:
  assumes "distinct (map k rows)" and "r \<in> set rows"
  shows "find (\<lambda>x. k x = k r) rows = Some r"
  using assms by (induction rows) (auto simp: rev_image_eqI)

lemma find_append_fresh:
  "find P (xs @ [x]) = (case find P xs of Some y \<Rightarrow> Some y | None \<Rightarrow> if P x then Some x else None)"
  by (induction xs) auto

lemma update_row_found:
  assumes "table_ok rows" and "r \<in> set rows"
  shows "update_row (pr_id r) f rows = (Inr (f r), map (\<lambda>x. if pr_id x = pr_id r then f x else x) rows)"
  using find_unique_key [of pr_id rows r] assms by (simp add: update_row_def table_ok_def)

text \<open>Updates that touch neither key keep the table well-formed; they change one row only.\<close>

lemma update_row_table_ok:
  assumes "table_ok rows" and "\<And>r. pr_id (f r) = pr_id r" and "\<And>r. pr_orderId (f r) = pr_orderId r"
  shows "table_ok (snd (update_row rid f rows))"
proof -
  have "pr_id \<circ> (\<lambda>x. if pr_id x = rid then f x else x) = pr_id"
    "pr_orderId \<circ> (\<lambda>x. if pr_id x = rid then f x else x) = pr_orderId"
    by (auto simp: fun_eq_iff assms(2,3))
  with assms(1) show ?thesis
    by (auto simp: update_row_def table_ok_def split: option.splits)
qed

lemma update_row_rows_in:
  assumes "rows_in P rows" and "\<And>r. P r \<Longrightarrow> P (f r)"
  shows "rows_in P (snd (update_row rid f rows))"
  using assms by (auto simp: rows_in_def update_row_def split: option.splits)

lemma update_row_result:
  "update_row rid f rows = (Inr r', rows') \<Longrightarrow> \<exists>r \<in> set rows. pr_id r = rid \<and> r' = f r"
  by (auto simp: update_row_def split: option.splits dest!: find_SomeD)

lemma apply_update_keys [simp]:
  "pr_id (apply_update u t r) = pr_id r" "pr_orderId (apply_update u t r) = pr_orderId r"
  "pr_amount (apply_update u t r) = pr_amount r" "pr_released (apply_update u t r) = pr_released r"
  "pr_refunded (apply_update u t r) = pr_refunded r" "pr_taxAmount (apply_update u t r) = pr_taxAmount r"
  "pr_subtotal (apply_update u t r) = pr_subtotal r"
  "pr_taxRateBasisPoints (apply_update u t r) = pr_taxRateBasisPoints r"
  by (simp_all add: apply_update_def)

lemma add_delta_keys [simp]:
  "pr_id (add_delta d t r) = pr_id r" "pr_orderId (add_delta d t r) = pr_orderId r"
  "pr_amount (add_delta d t r) = pr_amount r" "pr_escrowId (add_delta d t r) = pr_escrowId r"
  by (simp_all add: add_delta_def)

lemma row_ok_simps [simp]: "row_ok (apply_update u t r) = row_ok r" "row_ok (add_delta d t r) = row_ok r"
  by (simp_all add: row_ok_def add_delta_def)

lemma update_keeps:
  "table_ok rows \<Longrightarrow> table_ok (snd (updatePaymentRecord t rid u rows))"
  "rows_in row_ok rows \<Longrightarrow> rows_in row_ok (snd (updatePaymentRecord t rid u rows))"
  by (simp_all add: updatePaymentRecord_def update_row_table_ok update_row_rows_in)

lemma increment_keeps:
  "table_ok rows \<Longrightarrow> table_ok (snd (incrementPaymentRecordAmounts t rid d rows))"
  "rows_in row_ok rows \<Longrightarrow> rows_in row_ok (snd (incrementPaymentRecordAmounts t rid d rows))"
  by (auto simp: incrementPaymentRecordAmounts_def update_row_table_ok update_row_rows_in split: option.splits)

lemma tax_problem_None:
  "tax_problem sub tax = None \<longleftrightarrow> (\<exists>s t. sub = Some s \<and> tax = Some t \<and> 0 \<le> t \<and> t \<le> s)"
  by (auto simp: tax_problem_def split: option.splits if_splits)

lemma create_cases:
  assumes "createPaymentRecord accepts rid t inp rows = (res, rows')"
  obtains (refused) e where "res = Inl e" "rows' = rows"
  | (inserted) amount sub tax rate where "ci_amountStroops inp = Some amount" "bigint_ok amount"
      "ci_subtotalStroops inp = None \<Longrightarrow> 0 \<le> amount" "0 \<le> tax" "tax \<le> sub" "0 \<le> rate"
      "\<forall>r \<in> set rows. pr_orderId r \<noteq> ci_orderId inp \<and> pr_id r \<noteq> rid"
      "res = Inr (new_row inp rid t amount sub tax rate)" "rows' = rows @ [new_row inp rid t amount sub tax rate]"
proof (cases res)
  case (Inl e)
  with assms refused show ?thesis
    by (auto simp: createPaymentRecord_def Let_def split: option.splits if_splits)
next
  case (Inr r)
  define sub where "sub = (case ci_subtotalStroops inp of None \<Rightarrow> ci_amountStroops inp | Some x \<Rightarrow> x)"
  define tax where "tax = (case ci_taxAmountStroops inp of None \<Rightarrow> Some 0 | Some x \<Rightarrow> x)"
  define rate where "rate = (case ci_taxRateBasisPoints inp of None \<Rightarrow> 0 | Some x \<Rightarrow> x)"
  from assms Inr have *: "tax_problem sub tax = None" "0 \<le> rate" "\<exists>a. ci_amountStroops inp = Some a \<and> bigint_ok a"
    "findPaymentRecordByOrderId (ci_orderId inp) rows = None" "rid \<notin> pr_id ` set rows"
    "r = new_row inp rid t (the (ci_amountStroops inp)) (the sub) (the tax) rate" "rows' = rows @ [r]"
    unfolding createPaymentRecord_def Let_def sub_def [symmetric] tax_def [symmetric] rate_def [symmetric]
    by (auto split: option.splits if_splits)
  from *(1) obtain s x where s: "sub = Some s" "tax = Some x" "0 \<le> x" "x \<le> s" by (auto simp: tax_problem_None)
  from *(3) obtain a where a: "ci_amountStroops inp = Some a" "bigint_ok a" by blast
  show ?thesis
  proof (rule inserted [of a x s rate])
    show "0 \<le> a" if "ci_subtotalStroops inp = None" using that a s by (simp add: sub_def)
    show "\<forall>r \<in> set rows. pr_orderId r \<noteq> ci_orderId inp \<and> pr_id r \<noteq> rid"
      using *(4,5) by (auto simp: findPaymentRecordByOrderId_def find_NoneD)
  qed (use a s * Inr in simp_all)
qed

lemma create_keeps:
  assumes "table_ok rows" and "rows_in row_ok rows"
    and "ci_subtotalStroops inp = None \<or> (\<forall>a. ci_amountStroops inp = Some a \<longrightarrow> 0 \<le> a)"
    and "createPaymentRecord accepts rid t inp rows = (res, rows')"
  shows "table_ok rows' \<and> rows_in row_ok rows'"
  using assms(4)
proof (cases rule: create_cases)
  case refused
  with assms(1,2) show ?thesis by simp
next
  case (inserted amount sub tax rate)
  then have "row_ok (new_row inp rid t amount sub tax rate)"
    using assms(3) by (auto simp: row_ok_def new_row_def)
  moreover have "table_ok rows'"
    using inserted assms(1) by (auto simp: table_ok_def new_row_def)
  ultimately show ?thesis using assms(2) inserted by (simp add: rows_in_def)
qed

lemma tax_keeps:
  "table_ok rows \<Longrightarrow> table_ok (snd (updatePaymentTaxBreakdown t rid u rows))"
  "rows_in row_ok rows \<Longrightarrow> rows_in row_ok (snd (updatePaymentTaxBreakdown t rid u rows))"
proof -
  show "table_ok rows \<Longrightarrow> table_ok (snd (updatePaymentTaxBreakdown t rid u rows))"
    by (auto simp: updatePaymentTaxBreakdown_def update_row_table_ok split: option.splits)
  have "row_ok r \<Longrightarrow> tax_problem (tu_subtotalStroops u) (tu_taxAmountStroops u) = None \<Longrightarrow> 0 \<le> tu_taxRateBasisPoints u \<Longrightarrow>
    row_ok (r\<lparr>pr_subtotal := the (tu_subtotalStroops u), pr_taxAmount := the (tu_taxAmountStroops u),
      pr_taxRateBasisPoints := tu_taxRateBasisPoints u, pr_taxJurisdiction := tu_taxJurisdiction u, pr_updatedAt := t\<rparr>)" for r
    by (auto simp: tax_problem_None row_ok_def)
  then show "rows_in row_ok rows \<Longrightarrow> rows_in row_ok (snd (updatePaymentTaxBreakdown t rid u rows))"
    by (auto simp: updatePaymentTaxBreakdown_def not_less intro: update_row_rows_in split: option.splits)
qed

lemma create_keeps_tax:
  assumes "table_ok rows" and "rows_in tax_ok rows" and "createPaymentRecord accepts rid t inp rows = (res, rows')"
  shows "table_ok rows' \<and> rows_in tax_ok rows'"
  using assms(3)
proof (cases rule: create_cases)
  case refused
  with assms(1,2) show ?thesis by simp
next
  case (inserted amount sub tax rate)
  then have "tax_ok (new_row inp rid t amount sub tax rate)" by (simp add: tax_ok_def new_row_def)
  moreover have "table_ok rows'" using inserted assms(1) by (auto simp: table_ok_def new_row_def)
  ultimately show ?thesis using assms(2) inserted by (simp add: rows_in_def)
qed

lemma tax_ok_kept:
  assumes "rows_in tax_ok rows"
  shows "rows_in tax_ok (snd (updatePaymentRecord t rid u rows))"
    and "rows_in tax_ok (snd (incrementPaymentRecordAmounts t rid d rows))"
    and "rows_in tax_ok (snd (updatePaymentTaxBreakdown t rid tax rows))"
proof -
  have 1: "tax_ok (apply_update u t r) = tax_ok r" "tax_ok (add_delta d t r) = tax_ok r" for r by (simp_all add: tax_ok_def apply_update_def add_delta_def)
  show "rows_in tax_ok (snd (updatePaymentRecord t rid u rows))" unfolding updatePaymentRecord_def
    using assms 1(1) by (auto intro: update_row_rows_in)
  show "rows_in tax_ok (snd (incrementPaymentRecordAmounts t rid d rows))" unfolding incrementPaymentRecordAmounts_def
    using assms 1(2) by (auto intro: update_row_rows_in split: option.splits)
  have "tax_problem (tu_subtotalStroops tax) (tu_taxAmountStroops tax) = None \<Longrightarrow> 0 \<le> tu_taxRateBasisPoints tax \<Longrightarrow>
    tax_ok (r\<lparr>pr_subtotal := the (tu_subtotalStroops tax), pr_taxAmount := the (tu_taxAmountStroops tax),
      pr_taxRateBasisPoints := tu_taxRateBasisPoints tax, pr_taxJurisdiction := tu_taxJurisdiction tax, pr_updatedAt := t\<rparr>)" for r
    by (auto simp: tax_problem_None tax_ok_def)
  then show "rows_in tax_ok (snd (updatePaymentTaxBreakdown t rid tax rows))"
    using assms by (auto simp: updatePaymentTaxBreakdown_def not_less intro: update_row_rows_in split: option.splits)
qed

text \<open>C25: Every operation of the payment record store, with any input, keeps the table well-formed: ids and order ids stay unique,
  so an order never gets a second payment record, and in every row the tax is non-negative and at most
  the subtotal and the rate is non-negative. This holds when the operation throws as well.\<close>

theorem payment_table_invariant:
  assumes "table_ok rows" and "rows_in tax_ok rows"
    and "rows' \<in> {snd (createPaymentRecord accepts rid t inp rows), snd (updatePaymentRecord t rid' u rows),
                 snd (updatePaymentTaxBreakdown t rid' tax rows), snd (incrementPaymentRecordAmounts t rid' d rows)}"
  shows "table_ok rows' \<and> rows_in tax_ok rows'"
  using assms create_keeps_tax [OF assms(1,2) prod.collapse [symmetric]] tax_ok_kept [OF assms(2)] update_keeps(1) increment_keeps(1) tax_keeps(1)
  by auto

definition demo_input :: CreatePaymentRecordInput where
  "demo_input = \<lparr>ci_orderId = ''o1'', ci_escrowContractId = ''C'', ci_buyerAddress = ''B'', ci_sellerAddress = ''S'',
     ci_tokenContractId = ''T'', ci_amountStroops = Some 1000, ci_subtotalStroops = None, ci_taxAmountStroops = None,
     ci_taxRateBasisPoints = None, ci_taxJurisdiction = None\<rparr>"

definition demo_row :: PaymentRecord where
  "demo_row = (new_row demo_input ''p1'' 5 1000 1000 0 0)\<lparr>pr_escrowId := Some ''7'', pr_status := PFunded\<rparr>"

theorem payment_table_invariant_witness:
  "table_ok (snd (createPaymentRecord (\<lambda>_. True) ''p2'' 6 (demo_input\<lparr>ci_orderId := ''o2''\<rparr>) [demo_row])) \<and>
   rows_in tax_ok (snd (createPaymentRecord (\<lambda>_. True) ''p2'' 6 (demo_input\<lparr>ci_orderId := ''o2''\<rparr>) [demo_row]))"
proof -
  have "table_ok [demo_row]" "rows_in tax_ok [demo_row]" by (simp_all add: table_ok_def rows_in_def tax_ok_def demo_row_def new_row_def)
  from payment_table_invariant [OF this] show ?thesis by blast
qed

end
