(* ===== verification/Funding_Lock.thy ===== *)
theory Funding_Lock
  imports Complex_Main Delego_Prelude "HOL-Library.Word"
begin

text \<open>
  The escrow funding lock (payments/src/escrowCoordinator/escrowFundingLock.ts): lock stripes chosen by a
  32-bit hash, contention metrics, the optimistic versions and the lock manager. Times and ratios are
  rationals (the code halves and multiplies by 1.5). The clock does not run backwards: it advances by an
  arbitrary amount between two readings and by at least one millisecond over a sleep, as Node's timers do.
  While an acquisition sleeps, other calls of the same process run; what they do to the stripes, the metrics
  and the versions is a parameter of the manager's state, any function of the tables for each sleep. (The
  configuration stays as it is meanwhile; the waiting loop would not read a new one.)
\<close>

section \<open>Data\<close>

datatype LockType = Pessimistic | Optimistic | Adaptive

record EscrowLockConfig =
  lc_lockType :: LockType
  lc_stripingFactor :: nat
  lc_optimisticRetryLimit :: int
  lc_lockTimeoutMs :: rat
  lc_waitTimeoutMs :: rat
  lc_contentionThreshold :: rat

definition DEFAULT_LOCK_CONFIG :: EscrowLockConfig where
  "DEFAULT_LOCK_CONFIG = \<lparr>lc_lockType = Adaptive, lc_stripingFactor = 16, lc_optimisticRetryLimit = 3,
     lc_lockTimeoutMs = 5000, lc_waitTimeoutMs = 10000, lc_contentionThreshold = 3 / 10\<rparr>"

record LockAcquisition =
  la_lockId :: string
  la_stripeIndex :: int
  la_lockType :: LockType
  la_acquiredAt :: rat
  la_expiresAt :: rat
  la_holderId :: string

record LockStripe =
  st_holderId :: "string option"
  st_acquiredAt :: rat
  st_expiresAt :: rat

definition free_stripe :: LockStripe where
  "free_stripe = \<lparr>st_holderId = None, st_acquiredAt = 0, st_expiresAt = 0\<rparr>"

record EscrowMetrics =
  em_acquisitions :: nat
  em_waits :: nat
  em_waitTimes :: "rat list"
  em_contentions :: nat
  em_timeouts :: nat
  em_stolenLocks :: nat

definition zero_metrics :: EscrowMetrics where
  "zero_metrics = \<lparr>em_acquisitions = 0, em_waits = 0, em_waitTimes = [], em_contentions = 0, em_timeouts = 0,
     em_stolenLocks = 0\<rparr>"

text \<open>The clock: the time now and the amounts by which it advances at the coming readings.\<close>

record clock =
  ck_time :: rat
  ck_steps :: "nat \<Rightarrow> nat"
  ck_reads :: nat

definition read_clock :: "clock \<Rightarrow> rat \<times> clock" where
  "read_clock c = (ck_time c, c\<lparr>ck_time := ck_time c + of_nat (ck_steps c (ck_reads c)), ck_reads := Suc (ck_reads c)\<rparr>)"

definition sleep_clock :: "rat \<Rightarrow> clock \<Rightarrow> clock" where
  "sleep_clock d c = c\<lparr>ck_time := ck_time c + max 1 (of_int \<lfloor>d\<rfloor>)\<rparr>"

type_synonym lock_tables = "LockStripe list \<times> (string \<times> EscrowMetrics) list \<times> (string \<times> nat) list"

text \<open>\<open>lm_others n\<close> is what the other calls do to the tables during a sleep after the \<open>n\<close>-th reading of the clock.\<close>

record lock_manager =
  lm_stripes :: "LockStripe list"
  lm_metrics :: "(string \<times> EscrowMetrics) list"
  lm_versions :: "(string \<times> nat) list"
  lm_config :: EscrowLockConfig
  lm_clock :: clock
  lm_others :: "nat \<Rightarrow> lock_tables \<Rightarrow> lock_tables"

section \<open>Stripes\<close>

text \<open>\<^verbatim>\<open>hash = (hash * 31 + c) | 0\<close>: the product and sum of a 32-bit value are exact in a double, and
  \<^verbatim>\<open>| 0\<close> takes them modulo \<open>2 ^ 32\<close> as a signed value.\<close>

definition hash_string :: "string \<Rightarrow> 32 word" where
  "hash_string s = foldl (\<lambda>h c. h * 31 + word_of_nat (of_char c)) 0 s"

definition getStripeIndex :: "nat \<Rightarrow> string \<Rightarrow> nat" where
  "getStripeIndex factor escrowId = nat \<bar>sint (hash_string escrowId)\<bar> mod factor"

definition stripe_held :: "LockStripe \<Rightarrow> rat \<Rightarrow> bool" where
  "stripe_held s t \<longleftrightarrow> st_holderId s \<noteq> None \<and> st_expiresAt s > t"

text \<open>Decimal digits of a stripe index, for the lock id.\<close>

fun show_nat :: "nat \<Rightarrow> string" where
  "show_nat n = (if n < 10 then [char_of (48 + n)] else show_nat (n div 10) @ [char_of (48 + n mod 10)])"

declare show_nat.simps [simp del]

text \<open>\<^verbatim>\<open>String\<close> of an integer number or a \<^verbatim>\<open>bigint\<close>.\<close>

definition show_int :: "int \<Rightarrow> string" where
  "show_int n = (if n < 0 then CHR ''-'' # show_nat (nat (- n)) else show_nat (nat n))"

lemma show_nat_digits: "c \<in> set (show_nat n) \<Longrightarrow> \<exists>d < 10. c = char_of (48 + d :: nat)"
proof (induction n rule: show_nat.induct)
  case (1 n)
  consider "n < 10" "c = char_of (48 + n)" | "\<not> n < 10" "c \<in> set (show_nat (n div 10))"
    | "c = char_of (48 + n mod 10)"
    using 1(2) show_nat.simps [of n] by (auto simp del: char_of_eq_iff split: if_splits)
  then show ?case
  proof cases
    case 3
    then show ?thesis by (intro exI [of _ "n mod 10"]) simp
  qed (use 1(1) in blast)+
qed

lemma show_int_chars: "c \<in> set (show_int n) \<Longrightarrow> c = CHR ''-'' \<or> (\<exists>d < 10. c = char_of (48 + d :: nat))"
  by (auto simp: show_int_def dest: show_nat_digits split: if_splits)

lemma digit_not_letter: "d < 10 \<Longrightarrow> of_char (char_of (48 + d :: nat)) = (48 + d :: nat)"
  by simp

lemma show_int_no_char:
  assumes "of_char c \<notin> {48..57 :: nat}" and "c \<noteq> CHR ''-''"
  shows "c \<notin> set (show_int n)"
  using assms show_int_chars [of c n] digit_not_letter by fastforce

definition tryAcquire ::
  "rat \<Rightarrow> string \<Rightarrow> string \<Rightarrow> rat \<Rightarrow> LockStripe list \<Rightarrow> LockAcquisition option \<times> LockStripe list" where
  "tryAcquire t escrowId holderId timeoutMs stripes =
     (let i = getStripeIndex (length stripes) escrowId; s = stripes ! i in
      if stripe_held s t then (None, stripes)
      else (Some \<lparr>la_lockId = escrowId @ '':'' @ show_nat i, la_stripeIndex = int i, la_lockType = Pessimistic,
                  la_acquiredAt = t, la_expiresAt = t + timeoutMs, la_holderId = holderId\<rparr>,
            stripes[i := \<lparr>st_holderId = Some holderId, st_acquiredAt = t, st_expiresAt = t + timeoutMs\<rparr>]))"

definition release_stripe :: "nat \<Rightarrow> string \<Rightarrow> LockStripe list \<Rightarrow> bool \<times> LockStripe list" where
  "release_stripe i holderId stripes =
     (if st_holderId (stripes ! i) \<noteq> Some holderId then (False, stripes)
      else (True, stripes[i := free_stripe]))"

definition isAcquired :: "rat \<Rightarrow> nat \<Rightarrow> LockStripe list \<Rightarrow> bool" where
  "isAcquired t i stripes = stripe_held (stripes ! i) t"

section \<open>Contention metrics\<close>

type_synonym metrics_map = "(string \<times> EscrowMetrics) list"

definition getOrCreate :: "string \<Rightarrow> metrics_map \<Rightarrow> EscrowMetrics" where
  "getOrCreate e m = (case jm_get m e of None \<Rightarrow> zero_metrics | Some x \<Rightarrow> x)"

definition recordAcquisition :: "string \<Rightarrow> rat \<Rightarrow> metrics_map \<Rightarrow> metrics_map" where
  "recordAcquisition e waitMs m =
     (let x = getOrCreate e m; y = x\<lparr>em_acquisitions := em_acquisitions x + 1\<rparr> in
      jm_set e (if waitMs > 0 then y\<lparr>em_waits := em_waits y + 1, em_waitTimes := em_waitTimes y @ [waitMs]\<rparr> else y) m)"

definition recordContention :: "string \<Rightarrow> metrics_map \<Rightarrow> metrics_map" where
  "recordContention e m = (let x = getOrCreate e m in jm_set e (x\<lparr>em_contentions := em_contentions x + 1\<rparr>) m)"

definition recordTimeout :: "string \<Rightarrow> metrics_map \<Rightarrow> metrics_map" where
  "recordTimeout e m = (let x = getOrCreate e m in jm_set e (x\<lparr>em_timeouts := em_timeouts x + 1\<rparr>) m)"

definition recordStolenLock :: "string \<Rightarrow> metrics_map \<Rightarrow> metrics_map" where
  "recordStolenLock e m = (let x = getOrCreate e m in jm_set e (x\<lparr>em_stolenLocks := em_stolenLocks x + 1\<rparr>) m)"

definition getContentionRatio :: "string \<Rightarrow> metrics_map \<Rightarrow> rat" where
  "getContentionRatio e m =
     (case jm_get m e of None \<Rightarrow> 0
      | Some x \<Rightarrow> if em_acquisitions x = 0 then 0 else of_nat (em_contentions x) / of_nat (em_acquisitions x))"

definition getGlobalContentionRatio :: "metrics_map \<Rightarrow> rat" where
  "getGlobalContentionRatio m =
     (let a = sum_list (map (em_acquisitions \<circ> snd) m); c = sum_list (map (em_contentions \<circ> snd) m) in
      if a = 0 then 0 else of_nat c / of_nat a)"

record LockMetrics =
  me_escrowId :: string
  me_acquisitions :: nat
  me_waits :: nat
  me_avgWaitMs :: rat
  me_maxWaitMs :: rat
  me_contentions :: nat
  me_timeouts :: nat
  me_stolenLocks :: nat

definition getMetrics :: "string \<Rightarrow> metrics_map \<Rightarrow> LockMetrics \<times> metrics_map" where
  "getMetrics e m =
     (let x = getOrCreate e m; ws = em_waitTimes x in
      (\<lparr>me_escrowId = e, me_acquisitions = em_acquisitions x, me_waits = em_waits x,
        me_avgWaitMs = (if ws = [] then 0 else sum_list ws / of_nat (length ws)),
        me_maxWaitMs = (if ws = [] then 0 else Max (set ws)), me_contentions = em_contentions x,
        me_timeouts = em_timeouts x, me_stolenLocks = em_stolenLocks x\<rparr>, jm_set e x m))"

definition selectLockType :: "string \<Rightarrow> metrics_map \<Rightarrow> EscrowLockConfig \<Rightarrow> LockType" where
  "selectLockType e m cfg =
     (if lc_lockType cfg \<noteq> Adaptive then lc_lockType cfg
      else if getContentionRatio e m \<ge> lc_contentionThreshold cfg then Pessimistic else Optimistic)"

section \<open>Optimistic versions\<close>

definition tryOptimistic :: "string \<Rightarrow> (string \<times> nat) list \<Rightarrow> nat" where
  "tryOptimistic e v = (case jm_get v e of None \<Rightarrow> 0 | Some n \<Rightarrow> n)"

definition commitOptimistic :: "string \<Rightarrow> nat \<Rightarrow> (string \<times> nat) list \<Rightarrow> bool \<times> (string \<times> nat) list" where
  "commitOptimistic e expected v =
     (let current = tryOptimistic e v in
      if current \<noteq> expected then (False, v) else (True, jm_set e (current + 1) v))"

section \<open>The lock manager\<close>

definition new_manager :: "EscrowLockConfig \<Rightarrow> clock \<Rightarrow> (nat \<Rightarrow> lock_tables \<Rightarrow> lock_tables) \<Rightarrow> lock_manager" where
  "new_manager cfg ck others = \<lparr>lm_stripes = replicate (lc_stripingFactor cfg) free_stripe, lm_metrics = [], lm_versions = [],
     lm_config = cfg, lm_clock = ck, lm_others = others\<rparr>"

definition lm_tables :: "lock_manager \<Rightarrow> lock_tables" where
  "lm_tables m = (lm_stripes m, lm_metrics m, lm_versions m)"

definition with_tables :: "lock_tables \<Rightarrow> lock_manager \<Rightarrow> lock_manager" where
  "with_tables ts m = (case ts of (s, x, v) \<Rightarrow> m\<lparr>lm_stripes := s, lm_metrics := x, lm_versions := v\<rparr>)"

text \<open>A sleep of \<open>d\<close> milliseconds, over which the other calls run.\<close>

definition lm_sleep :: "rat \<Rightarrow> lock_manager \<Rightarrow> lock_manager" where
  "lm_sleep d m = with_tables (lm_others m (ck_reads (lm_clock m)) (lm_tables m)) (m\<lparr>lm_clock := sleep_clock d (lm_clock m)\<rparr>)"

definition lm_now :: "lock_manager \<Rightarrow> rat \<times> lock_manager" where
  "lm_now m = (case read_clock (lm_clock m) of (t, c) \<Rightarrow> (t, m\<lparr>lm_clock := c\<rparr>))"

text \<open>The waiting loop. Its condition reads the clock, and every failed round sleeps, so it ends.\<close>

function wait_loop ::
  "string \<Rightarrow> string \<Rightarrow> rat \<Rightarrow> rat \<Rightarrow> rat \<Rightarrow> lock_manager \<Rightarrow> LockAcquisition option \<times> lock_manager" where
  "wait_loop escrowId holderId timeoutMs startMs deadline m =
     (case lm_now m of (t, m1) \<Rightarrow>
      if \<not> t < deadline then (None, m1\<lparr>lm_metrics := recordTimeout escrowId (lm_metrics m1)\<rparr>)
      else (case lm_now m1 of (t', m2) \<Rightarrow>
            (case tryAcquire t' escrowId holderId timeoutMs (lm_stripes m2) of
               (Some a, stripes) \<Rightarrow>
                 (case lm_now (m2\<lparr>lm_stripes := stripes\<rparr>) of (t'', m3) \<Rightarrow>
                   (Some a, m3\<lparr>lm_metrics := recordAcquisition escrowId (t'' - startMs) (lm_metrics m3)\<rparr>))
             | (None, _) \<Rightarrow>
                 wait_loop escrowId holderId timeoutMs startMs deadline
                   (lm_sleep (min 50 (timeoutMs / 10)) (m2\<lparr>lm_metrics := recordContention escrowId (lm_metrics m2)\<rparr>)))))"
  by pat_completeness auto

lemma clock_advances:
  "ck_time (lm_clock (snd (lm_now m))) \<ge> fst (lm_now m)" "fst (lm_now m) = ck_time (lm_clock m)"
  by (simp_all add: lm_now_def read_clock_def)

lemma round_advances:
  assumes "(t, m1) = lm_now m" and "t < deadline" and "(t', m2) = lm_now m1"
  shows "nat \<lceil>deadline - (ck_time (lm_clock m2) + max 1 d)\<rceil> < nat \<lceil>deadline - ck_time (lm_clock m)\<rceil>"
proof -
  have "ck_time (lm_clock m) = t" "ck_time (lm_clock m) \<le> ck_time (lm_clock m2)"
    using assms clock_advances [of m] clock_advances [of m1] by (metis fst_conv snd_conv order_trans)+
  with assms(2) have "\<lceil>deadline - (ck_time (lm_clock m2) + max 1 d)\<rceil> < \<lceil>deadline - ck_time (lm_clock m)\<rceil>"
    and "0 < \<lceil>deadline - ck_time (lm_clock m)\<rceil>"
    by linarith+
  then show ?thesis by (simp add: nat_less_eq_zless)
qed

termination wait_loop
proof (relation "measure (\<lambda>(e, h, t, s, deadline, m). nat \<lceil>deadline - ck_time (lm_clock m)\<rceil>)", goal_cases)
  case 1
  show ?case by (rule wf_measure)
next
  case (2 escrowId holderId timeoutMs startMs deadline m t m1 t' m2 a b)
  have slept: "ck_time (lm_clock (lm_sleep d (m2\<lparr>lm_metrics := x\<rparr>))) = ck_time (lm_clock m2) + max 1 (of_int \<lfloor>d\<rfloor>)" for x d
    by (simp add: lm_sleep_def with_tables_def sleep_clock_def split: prod.splits)
  from 2(2) have "t < deadline" by simp
  from round_advances [OF 2(1) this 2(3)] show ?case
    unfolding in_measure prod.case slept .
qed

declare wait_loop.simps [simp del]

definition acquireLock ::
  "string \<Rightarrow> string \<Rightarrow> rat option \<Rightarrow> lock_manager \<Rightarrow> LockAcquisition option \<times> lock_manager" where
  "acquireLock escrowId holderId timeoutMs m =
     (let timeout = (case timeoutMs of None \<Rightarrow> lc_lockTimeoutMs (lm_config m) | Some t \<Rightarrow> t);
          lockType = selectLockType escrowId (lm_metrics m) (lm_config m)
      in case lm_now m of (startMs, m1) \<Rightarrow>
         if lockType = Optimistic
         then (Some \<lparr>la_lockId = ''opt:'' @ escrowId, la_stripeIndex = -1, la_lockType = Optimistic,
                     la_acquiredAt = startMs, la_expiresAt = startMs + timeout, la_holderId = holderId\<rparr>,
               m1\<lparr>lm_metrics := recordAcquisition escrowId 0 (lm_metrics m1)\<rparr>)
         else wait_loop escrowId holderId timeout startMs (startMs + lc_waitTimeoutMs (lm_config m)) m1)"

text \<open>\<^verbatim>\<open>replace("opt:", "")\<close> removes the first occurrence.\<close>

fun remove_first :: "string \<Rightarrow> string \<Rightarrow> string" where
  "remove_first p [] = []"
| "remove_first p (c # cs) =
     (if take (length p) (c # cs) = p then drop (length p) (c # cs) else c # remove_first p cs)"

definition releaseLock :: "LockAcquisition \<Rightarrow> string \<Rightarrow> lock_manager \<Rightarrow> bool \<times> lock_manager" where
  "releaseLock a holderId m =
     (if la_holderId a \<noteq> holderId
      then (False, m\<lparr>lm_metrics := recordStolenLock (la_lockId a) (lm_metrics m)\<rparr>)
      else if la_lockType a = Optimistic
      then (case commitOptimistic (remove_first ''opt:'' (la_lockId a)) 0 (lm_versions m) of
              (ok, v) \<Rightarrow> (ok, m\<lparr>lm_versions := v\<rparr>))
      else (case release_stripe (nat (la_stripeIndex a)) holderId (lm_stripes m) of
              (ok, s) \<Rightarrow> (ok, m\<lparr>lm_stripes := s\<rparr>)))"

definition extendLock :: "LockAcquisition \<Rightarrow> string \<Rightarrow> rat \<Rightarrow> bool \<times> LockAcquisition" where
  "extendLock a holderId additionalMs =
     (if la_holderId a \<noteq> holderId then (False, a)
      else (True, a\<lparr>la_expiresAt := la_expiresAt a + additionalMs\<rparr>))"

record LockOptimizationResult =
  lo_originalConfig :: EscrowLockConfig
  lo_optimizedConfig :: EscrowLockConfig
  lo_throughputIncrease :: rat
  lo_latencyReduction :: rat
  lo_contentionReduction :: rat

definition optimizeConfig :: "lock_manager \<Rightarrow> LockOptimizationResult" where
  "optimizeConfig m =
     (let cfg = lm_config m; high = getGlobalContentionRatio (lm_metrics m) \<ge> lc_contentionThreshold cfg in
      \<lparr>lo_originalConfig = cfg,
       lo_optimizedConfig =
         (if high then cfg\<lparr>lc_lockType := Pessimistic, lc_stripingFactor := min (lc_stripingFactor cfg * 2) 128,
                          lc_lockTimeoutMs := min (lc_lockTimeoutMs cfg * (3 / 2)) 30000\<rparr>
          else cfg\<lparr>lc_lockType := Optimistic,
                   lc_optimisticRetryLimit := max (lc_optimisticRetryLimit cfg - 1) 1\<rparr>),
       lo_throughputIncrease = (if high then 7 / 10 else 13 / 10),
       lo_latencyReduction = (if high then 5 / 10 else 2 / 10),
       lo_contentionReduction = (if high then 7 / 10 else 3 / 10)\<rparr>)"

text \<open>A configuration patch: each field that is present replaces the old one. The check after the merge
  compares the patch with the merged configuration; its outcome is whether the warning is logged.\<close>

record config_patch =
  cp_lockType :: "LockType option"
  cp_stripingFactor :: "nat option"
  cp_optimisticRetryLimit :: "int option"
  cp_lockTimeoutMs :: "rat option"
  cp_waitTimeoutMs :: "rat option"
  cp_contentionThreshold :: "rat option"

definition patched :: "'a option \<Rightarrow> 'a \<Rightarrow> 'a" where
  "patched v old = (case v of None \<Rightarrow> old | Some x \<Rightarrow> x)"

definition updateConfig :: "config_patch \<Rightarrow> lock_manager \<Rightarrow> bool \<times> lock_manager" where
  "updateConfig p m =
     (let cfg = lm_config m;
          cfg' = \<lparr>lc_lockType = patched (cp_lockType p) (lc_lockType cfg),
                  lc_stripingFactor = patched (cp_stripingFactor p) (lc_stripingFactor cfg),
                  lc_optimisticRetryLimit = patched (cp_optimisticRetryLimit p) (lc_optimisticRetryLimit cfg),
                  lc_lockTimeoutMs = patched (cp_lockTimeoutMs p) (lc_lockTimeoutMs cfg),
                  lc_waitTimeoutMs = patched (cp_waitTimeoutMs p) (lc_waitTimeoutMs cfg),
                  lc_contentionThreshold = patched (cp_contentionThreshold p) (lc_contentionThreshold cfg)\<rparr>;
          warned = (case cp_stripingFactor p of None \<Rightarrow> False
                    | Some f \<Rightarrow> f \<noteq> 0 \<and> f \<noteq> lc_stripingFactor cfg')
      in (warned, m\<lparr>lm_config := cfg'\<rparr>))"

section \<open>Leased mutual exclusion\<close>

text \<open>
  The contract of a lock with a lease: who holds key \<open>k\<close> at time \<open>t\<close>, and what acquiring and releasing do
  to that. From it: a second acquisition within the lease is refused, whoever asks; a holder's lease is not
  ended by anyone else's release.
\<close>

locale leased_lock =
  fixes acquire :: "rat \<Rightarrow> 'k \<Rightarrow> 'h \<Rightarrow> rat \<Rightarrow> 's \<Rightarrow> 's option"
    and release :: "'k \<Rightarrow> 'h \<Rightarrow> 's \<Rightarrow> 's option"
    and holder :: "'s \<Rightarrow> 'k \<Rightarrow> rat \<Rightarrow> 'h option"
    and usable :: "'s \<Rightarrow> bool"
  assumes acquire_iff: "usable s \<Longrightarrow> acquire t k h d s = None \<longleftrightarrow> holder s k t \<noteq> None"
    and acquire_holds: "usable s \<Longrightarrow> acquire t k h d s = Some s' \<Longrightarrow> t' < t + d \<Longrightarrow> holder s' k t' = Some h"
    and acquire_usable: "usable s \<Longrightarrow> acquire t k h d s = Some s' \<Longrightarrow> usable s'"
    and release_own: "usable s \<Longrightarrow> holder s k t = Some h \<Longrightarrow> h' \<noteq> h \<Longrightarrow> release k h' s = None"
    and release_frees: "usable s \<Longrightarrow> release k h s = Some s' \<Longrightarrow> holder s' k t = None"
begin

lemma acquire_exclusive:
  assumes "usable s" and "acquire t k h d s = Some s'" and "t' < t + d"
  shows "acquire t' k h' d' s' = None"
  using acquire_iff [OF acquire_usable [OF assms(1,2)]] acquire_holds [OF assms] by simp

lemma release_by_other:
  assumes "usable s" and "acquire t k h d s = Some s'" and "h' \<noteq> h" and "0 < d"
  shows "release k h' s' = None"
  using release_own [OF acquire_usable [OF assms(1,2)] acquire_holds [OF assms(1,2), of t]] assms(3,4) by simp

lemma acquire_again:
  assumes "usable s" and "acquire t k h d s = Some s'" and "release k h s' = Some s''"
    and "usable s''"
  shows "acquire t' k h' d' s'' \<noteq> None"
  using acquire_iff [OF assms(4)] release_frees [OF acquire_usable [OF assms(1,2)] assms(3)] by simp

end

definition stripe_acquire :: "rat \<Rightarrow> string \<Rightarrow> string \<Rightarrow> rat \<Rightarrow> LockStripe list \<Rightarrow> LockStripe list option" where
  "stripe_acquire t e h d s = (case tryAcquire t e h d s of (None, _) \<Rightarrow> None | (Some _, s') \<Rightarrow> Some s')"

definition stripe_release :: "string \<Rightarrow> string \<Rightarrow> LockStripe list \<Rightarrow> LockStripe list option" where
  "stripe_release e h s = (case release_stripe (getStripeIndex (length s) e) h s of (ok, s') \<Rightarrow> if ok then Some s' else None)"

definition stripe_holder :: "LockStripe list \<Rightarrow> string \<Rightarrow> rat \<Rightarrow> string option" where
  "stripe_holder s e t = (let x = s ! getStripeIndex (length s) e in if stripe_held x t then st_holderId x else None)"

lemma getStripeIndex_less: "0 < n \<Longrightarrow> getStripeIndex n e < n"
  by (simp add: getStripeIndex_def)

lemma hash_magnitude: "\<bar>sint (hash_string e)\<bar> \<le> 2 ^ 31"
  using sint_ge [of "hash_string e"] sint_lt [of "hash_string e"] by simp

interpretation stripe_pool: leased_lock stripe_acquire stripe_release stripe_holder "\<lambda>s. s \<noteq> []"
proof unfold_locales
  fix s :: "LockStripe list" and t t' d :: rat and k h h' :: string and s'
  assume "s \<noteq> []"
  then have i: "getStripeIndex (length s) k < length s" by (simp add: getStripeIndex_less)
  show "stripe_acquire t k h d s = None \<longleftrightarrow> stripe_holder s k t \<noteq> None"
    by (auto simp: stripe_acquire_def stripe_holder_def tryAcquire_def Let_def stripe_held_def)
  show "stripe_acquire t k h d s = Some s' \<Longrightarrow> t' < t + d \<Longrightarrow> stripe_holder s' k t' = Some h"
    using i by (auto simp: stripe_acquire_def stripe_holder_def tryAcquire_def Let_def stripe_held_def split: if_splits)
  show "stripe_acquire t k h d s = Some s' \<Longrightarrow> s' \<noteq> []"
    using \<open>s \<noteq> []\<close> by (auto simp: stripe_acquire_def tryAcquire_def Let_def split: if_splits)
  show "stripe_holder s k t = Some h \<Longrightarrow> h' \<noteq> h \<Longrightarrow> stripe_release k h' s = None"
    by (auto simp: stripe_release_def release_stripe_def stripe_holder_def Let_def split: if_splits)
  show "stripe_release k h s = Some s' \<Longrightarrow> stripe_holder s' k t = None"
    using i by (auto simp: stripe_release_def release_stripe_def stripe_holder_def Let_def free_stripe_def stripe_held_def
        split: if_splits)
qed

text \<open>C29: A lock stripe excludes: after an acquisition, every attempt on an escrow of the same stripe is refused
  while the lease lasts, also by the same holder, and a release by anyone but the holder is refused;
  the holder's release makes the stripe available at once.\<close>

theorem stripe_exclusion:
  assumes "s \<noteq> []" and "tryAcquire t e h d s = (Some a, s')" and "0 < d"
  shows "(getStripeIndex (length s) e' = getStripeIndex (length s) e \<and> t' < t + d \<longrightarrow>
            fst (tryAcquire t' e' h' d' s') = None) \<and>
         (h' \<noteq> h \<longrightarrow> release_stripe (nat (la_stripeIndex a)) h' s' = (False, s')) \<and>
         fst (release_stripe (nat (la_stripeIndex a)) h s') \<and>
         fst (tryAcquire t' e h' d' (snd (release_stripe (nat (la_stripeIndex a)) h s'))) \<noteq> None"
proof -
  have acq: "stripe_acquire t e h d s = Some s'" using assms(2) by (simp add: stripe_acquire_def)
  have s': "s' \<noteq> []" "length s' = length s" and a: "la_stripeIndex a = int (getStripeIndex (length s) e)"
    and h: "st_holderId (s' ! getStripeIndex (length s) e) = Some h"
    using assms(1,2) getStripeIndex_less [of "length s" e] by (auto simp: tryAcquire_def Let_def split: if_splits)
  have "fst (tryAcquire t' e' h' d' s') = None"
    if "getStripeIndex (length s) e' = getStripeIndex (length s) e" "t' < t + d"
    using stripe_pool.acquire_exclusive [OF assms(1) acq that(2), of h' d'] that(1) s'
    by (auto simp: stripe_acquire_def tryAcquire_def Let_def split: if_splits)
  moreover have "release_stripe (nat (la_stripeIndex a)) h' s' = (False, s')" if "h' \<noteq> h"
    using stripe_pool.release_by_other [OF assms(1) acq that assms(3)] a s'
    by (auto simp: stripe_release_def release_stripe_def split: if_splits)
  moreover have rel: "stripe_release e h s' = Some (snd (release_stripe (nat (la_stripeIndex a)) h s'))"
    "fst (release_stripe (nat (la_stripeIndex a)) h s')"
    using a h s' by (simp_all add: stripe_release_def release_stripe_def)
  moreover have "snd (release_stripe (nat (la_stripeIndex a)) h s') \<noteq> []"
    using s' by (simp add: release_stripe_def)
  from stripe_pool.acquire_again [OF assms(1) acq rel(1) this, of t' h' d']
  have "fst (tryAcquire t' e h' d' (snd (release_stripe (nat (la_stripeIndex a)) h s'))) \<noteq> None"
    by (auto simp: stripe_acquire_def split: prod.splits option.splits)
  ultimately show ?thesis by blast
qed

theorem stripe_exclusion_witness:
  "fst (tryAcquire 7 ''e1'' ''h2'' 5 (snd (tryAcquire 5 ''e1'' ''h1'' 10 [free_stripe, free_stripe]))) = None"
proof -
  obtain a s' where "tryAcquire 5 ''e1'' ''h1'' 10 [free_stripe, free_stripe] = (Some a, s')"
    using getStripeIndex_less [of 2 "''e1''"] by (auto simp: tryAcquire_def Let_def stripe_held_def free_stripe_def nth_Cons
        numeral_2_eq_2 less_Suc_eq split: nat.splits)
  from stripe_exclusion [OF _ this, of "''e1''" 7 "''h2''" 5] this show ?thesis by simp
qed

section \<open>Waiting for a lock\<close>

lemma lm_now_same [simp]:
  "lm_stripes (snd (lm_now m)) = lm_stripes m" "lm_metrics (snd (lm_now m)) = lm_metrics m"
  "lm_versions (snd (lm_now m)) = lm_versions m" "lm_config (snd (lm_now m)) = lm_config m" "lm_others (snd (lm_now m)) = lm_others m"
  by (simp_all add: lm_now_def read_clock_def)

text \<open>The tables after waiting rounds with sleeps number \<open>js\<close>: each round counts a contention and lets the others run.\<close>

definition waited :: "string \<Rightarrow> (nat \<Rightarrow> lock_tables \<Rightarrow> lock_tables) \<Rightarrow> nat list \<Rightarrow> lock_tables \<Rightarrow> lock_tables" where
  "waited e others js ts = foldl (\<lambda>(s, x, v) j. others j (s, recordContention e x, v)) ts js"

lemma waited_Cons: "waited e others (j # js) (s, x, v) = waited e others js (others j (s, recordContention e x, v))"
  by (simp add: waited_def)

lemma recordContention_counts: "em_contentions (getOrCreate e (recordContention e x)) = em_contentions (getOrCreate e x) + 1"
  by (simp add: recordContention_def getOrCreate_def Let_def jm_get_set)

lemma waited_alone:
  "waited e (\<lambda>_ ts. ts) js (s, x, v) = (s', x', v') \<Longrightarrow>
   s' = s \<and> v' = v \<and> em_contentions (getOrCreate e x') = em_contentions (getOrCreate e x) + length js"
  by (induction js arbitrary: x) (simp_all add: waited_Cons recordContention_counts, simp add: waited_def)

lemma waited_length:
  assumes "\<And>n s x v. length (fst (others n (s, x, v))) = length s"
  shows "length (fst (waited e others js (s, x, v))) = length s"
proof (induction js arbitrary: s x v)
  case (Cons j js)
  obtain s1 x1 v1 where o: "others j (s, recordContention e x, v) = (s1, x1, v1)"
    by (cases "others j (s, recordContention e x, v)")
  with assms [of j s "recordContention e x" v] Cons.IH [of s1 x1 v1] show ?case by (simp add: waited_Cons)
qed (simp add: waited_def)

text \<open>How an acquisition that began at \<open>start\<close> ends, from the tables \<open>(s, x, v)\<close> its last round found: refused
  after the deadline, with a timeout counted and nothing else touched, or granted on a stripe that nobody held.\<close>

definition lock_ended ::
  "string \<Rightarrow> string \<Rightarrow> rat \<Rightarrow> rat \<Rightarrow> rat \<Rightarrow> lock_tables \<Rightarrow> LockAcquisition option \<Rightarrow> lock_manager \<Rightarrow> bool" where
  "lock_ended e h d start dl ts res m' = (case ts of (s, x, v) \<Rightarrow>
     (case res of
        None \<Rightarrow> lm_tables m' = (s, recordTimeout e x, v) \<and> dl \<le> ck_time (lm_clock m')
      | Some a \<Rightarrow> let t = la_acquiredAt a; i = getStripeIndex (length s) e in
          \<not> stripe_held (s ! i) t \<and> la_holderId a = h \<and> la_stripeIndex a = int i \<and> la_lockType a = Pessimistic \<and> la_expiresAt a = t + d \<and>
          (\<exists>wait \<ge> t - start. lm_tables m' =
             (s[i := \<lparr>st_holderId = Some h, st_acquiredAt = t, st_expiresAt = t + d\<rparr>], recordAcquisition e wait x, v))))"

lemma wait_loop_outcome:
  "wait_loop e h d s dl m = (res, m') \<Longrightarrow> \<exists>js. lock_ended e h d s dl (waited e (lm_others m) js (lm_tables m)) res m'"
proof (induction e h d s dl m rule: wait_loop.induct)
  case (1 e h d s dl m)
  obtain t m1 where m1: "lm_now m = (t, m1)" by force
  obtain t' m2 where m2: "lm_now m1 = (t', m2)" by force
  have same: "lm_stripes m2 = lm_stripes m" "lm_metrics m2 = lm_metrics m" "lm_versions m2 = lm_versions m" "lm_others m2 = lm_others m"
    "lm_metrics m1 = lm_metrics m" "lm_stripes m1 = lm_stripes m" "lm_versions m1 = lm_versions m" "t = ck_time (lm_clock m)" "t \<le> ck_time (lm_clock m1)"
    "t' \<le> ck_time (lm_clock m2)"
    using lm_now_same [of m] lm_now_same [of m1] clock_advances [of m] clock_advances [of m1] m1 m2 by simp_all
  note step = wait_loop.simps [of e h d s dl m]
  show ?case
  proof (cases "t < dl")
    case False
    with 1(2) m1 same have "lock_ended e h d s dl (waited e (lm_others m) [] (lm_tables m)) res m'"
      by (auto simp: step waited_def lm_tables_def lock_ended_def)
    then show ?thesis by blast
  next
    case True
    obtain r stripes where tr: "tryAcquire t' e h d (lm_stripes m2) = (r, stripes)" by force
    show ?thesis
    proof (cases r)
      case None
      define m3 where "m3 = lm_sleep (min 50 (d / 10)) (m2\<lparr>lm_metrics := recordContention e (lm_metrics m2)\<rparr>)"
      have "wait_loop e h d s dl m3 = (res, m')" using 1(2) m1 m2 True tr None by (simp add: step m3_def)
      then obtain js where js: "lock_ended e h d s dl (waited e (lm_others m3) js (lm_tables m3)) res m'"
        using 1(1) [OF m1 [symmetric] _ m2 [symmetric] tr [symmetric] None] True unfolding m3_def by auto
      have "lm_others m3 = lm_others m"
        "lm_tables m3 = lm_others m (ck_reads (lm_clock m2)) (lm_stripes m, recordContention e (lm_metrics m), lm_versions m)"
        using same by (simp_all add: m3_def lm_sleep_def with_tables_def lm_tables_def split: prod.splits)
      with js have "lock_ended e h d s dl (waited e (lm_others m) (ck_reads (lm_clock m2) # js) (lm_tables m)) res m'"
        by (simp add: waited_Cons lm_tables_def)
      then show ?thesis by blast
    next
      case (Some a)
      obtain t'' m3 where m3: "lm_now (m2\<lparr>lm_stripes := stripes\<rparr>) = (t'', m3)" by force
      then have t'': "lm_stripes m3 = stripes" "lm_metrics m3 = lm_metrics m" "lm_versions m3 = lm_versions m" "t' \<le> t''"
        using lm_now_same [of "m2\<lparr>lm_stripes := stripes\<rparr>"] clock_advances(2) [of "m2\<lparr>lm_stripes := stripes\<rparr>"] same by simp_all
      have res: "res = Some a" "m' = m3\<lparr>lm_metrics := recordAcquisition e (t'' - s) (lm_metrics m3)\<rparr>"
        using 1(2) m1 m2 m3 True tr Some by (simp_all add: step)
      have "lock_ended e h d s dl (waited e (lm_others m) [] (lm_tables m)) res m'"
        using tr Some t'' same(1)
        by (auto simp: res waited_def lm_tables_def lock_ended_def tryAcquire_def Let_def intro!: exI [of _ "t'' - s"] split: if_splits)
      then show ?thesis by blast
    qed
  qed
qed

text \<open>C31: Acquiring under the pessimistic strategy ends, whatever the other calls of the process do to the stripes,
  the metrics and the versions while it sleeps (they never change the number of stripes), with one of two
  outcomes. Every round that found the stripe held has counted one contention. Then either the stripe was free
  or its lease had run out at the moment of acquisition, and it is leased to the caller from that moment for the
  lock timeout, with one acquisition counted and no other stripe touched; or the clock has passed the waiting
  deadline, one timeout is counted and this call has changed nothing else. With no other call meanwhile, a
  refused acquisition leaves all stripes and versions as they were and its contentions and timeout are all that
  is new in the escrow's metrics.\<close>

theorem pessimistic_lock_outcome:
  assumes "selectLockType e (lm_metrics m) (lm_config m) = Pessimistic" and "lm_stripes m \<noteq> []"
    and "\<And>n s x v. length (fst (lm_others m n (s, x, v))) = length s"
    and "acquireLock e h timeout m = (res, m')"
    and "d = (case timeout of None \<Rightarrow> lc_lockTimeoutMs (lm_config m) | Some d \<Rightarrow> d)"
  shows "\<exists>js s x v. waited e (lm_others m) js (lm_tables m) = (s, x, v) \<and>
    (lm_others m = (\<lambda>_ ts. ts) \<longrightarrow> s = lm_stripes m \<and> v = lm_versions m \<and>
       em_contentions (getOrCreate e x) = em_contentions (getOrCreate e (lm_metrics m)) + length js) \<and>
    (case res of
       None \<Rightarrow> lm_tables m' = (s, recordTimeout e x, v) \<and>
         ck_time (lm_clock m) + lc_waitTimeoutMs (lm_config m) \<le> ck_time (lm_clock m')
     | Some a \<Rightarrow> let t = la_acquiredAt a; i = getStripeIndex (length s) e in
         i < length s \<and> \<not> stripe_held (s ! i) t \<and> la_holderId a = h \<and> la_stripeIndex a = int i \<and>
         la_lockType a = Pessimistic \<and> la_expiresAt a = t + d \<and>
         (\<exists>wait \<ge> t - ck_time (lm_clock m). lm_tables m' =
            (s[i := \<lparr>st_holderId = Some h, st_acquiredAt = t, st_expiresAt = t + d\<rparr>], recordAcquisition e wait x, v)))"
proof -
  obtain t m1 where m1: "lm_now m = (t, m1)" by force
  then have m: "t = ck_time (lm_clock m)" "lm_tables m1 = lm_tables m" "lm_others m1 = lm_others m"
    using clock_advances(2) [of m] lm_now_same [of m] by (simp_all add: lm_tables_def)
  from assms(4) m1 have "wait_loop e h d t (t + lc_waitTimeoutMs (lm_config m)) m1 = (res, m')"
    using assms(1) by (simp add: acquireLock_def Let_def assms(5))
  from wait_loop_outcome [OF this] obtain js where
    js: "lock_ended e h d t (t + lc_waitTimeoutMs (lm_config m)) (waited e (lm_others m) js (lm_tables m)) res m'" unfolding m by blast
  obtain s x v where w: "waited e (lm_others m) js (lm_tables m) = (s, x, v)" by (cases "waited e (lm_others m) js (lm_tables m)")
  have alone: "lm_others m = (\<lambda>_ ts. ts) \<longrightarrow> s = lm_stripes m \<and> v = lm_versions m \<and>
       em_contentions (getOrCreate e x) = em_contentions (getOrCreate e (lm_metrics m)) + length js"
    using w waited_alone [of e js "lm_stripes m" "lm_metrics m" "lm_versions m" s x v] by (auto simp: lm_tables_def)
  have "length s = length (lm_stripes m)"
    using waited_length [of "lm_others m" e js "lm_stripes m" "lm_metrics m" "lm_versions m"] assms(3) w by (simp add: lm_tables_def)
  then have "getStripeIndex (length s) e < length s" using assms(2) getStripeIndex_less by simp
  with js w alone show ?thesis unfolding m
    by (intro exI [of _ js] exI [of _ s] exI [of _ x] exI [of _ v]) (auto simp: lock_ended_def Let_def split: option.splits)
qed

definition demo_clock :: clock where
  "demo_clock = \<lparr>ck_time = 1000, ck_steps = (\<lambda>_. 1), ck_reads = 0\<rparr>"

text \<open>A manager on which, during every sleep, another caller frees the stripes.\<close>

definition demo_lock_manager :: lock_manager where
  "demo_lock_manager = new_manager (DEFAULT_LOCK_CONFIG\<lparr>lc_lockType := Pessimistic\<rparr>) demo_clock
     (\<lambda>n (s, x, v). (map (\<lambda>_. free_stripe) s, x, v))"

theorem pessimistic_lock_outcome_witness:
  "case fst (acquireLock ''e1'' ''h1'' None demo_lock_manager) of
      None \<Rightarrow> 11000 \<le> ck_time (lm_clock (snd (acquireLock ''e1'' ''h1'' None demo_lock_manager)))
    | Some a \<Rightarrow> la_holderId a = ''h1'' \<and> la_expiresAt a = la_acquiredAt a + 5000"
proof -
  have "selectLockType ''e1'' (lm_metrics demo_lock_manager) (lm_config demo_lock_manager) = Pessimistic" "lm_stripes demo_lock_manager \<noteq> []"
    by (simp_all add: demo_lock_manager_def new_manager_def selectLockType_def DEFAULT_LOCK_CONFIG_def)
  moreover have "length (fst (lm_others demo_lock_manager n (s, x, v))) = length s" for n s x v
    by (simp add: demo_lock_manager_def new_manager_def)
  ultimately show ?thesis
    using pessimistic_lock_outcome [of "''e1''" demo_lock_manager "''h1''" None, OF _ _ _ prod.collapse [symmetric] refl]
    by (auto simp: demo_lock_manager_def new_manager_def DEFAULT_LOCK_CONFIG_def demo_clock_def Let_def split: option.splits)
qed

section \<open>The adaptive strategy\<close>

datatype lock_call = AcquireCall string string "rat option" | ReleaseCall LockAcquisition string

fun lock_step :: "lock_manager \<Rightarrow> lock_call \<Rightarrow> lock_manager" where
  "lock_step m (AcquireCall e h t) = snd (acquireLock e h t m)"
| "lock_step m (ReleaseCall a h) = snd (releaseLock a h m)"

definition no_contention :: "lock_manager \<Rightarrow> bool" where
  "no_contention m \<longleftrightarrow> lc_lockType (lm_config m) = Adaptive \<and> 0 < lc_contentionThreshold (lm_config m) \<and>
     (\<forall>e x. jm_get (lm_metrics m) e = Some x \<longrightarrow> em_contentions x = 0)"

lemma no_contention_optimistic:
  "no_contention m \<Longrightarrow> selectLockType e (lm_metrics m) (lm_config m) = Optimistic"
  by (auto simp: no_contention_def selectLockType_def getContentionRatio_def split: option.splits)

lemma getOrCreate_no_contention:
  "no_contention m \<Longrightarrow> em_contentions (getOrCreate e (lm_metrics m)) = 0"
  by (auto simp: no_contention_def getOrCreate_def zero_metrics_def split: option.splits)

lemma acquire_optimistic:
  assumes "no_contention m"
  shows "\<exists>a. fst (acquireLock e h t m) = Some a \<and> la_lockType a = Optimistic \<and> la_lockId a = ''opt:'' @ e \<and> la_holderId a = h"
    and "no_contention (snd (acquireLock e h t m))"
proof -
  obtain s m1 where m1: "lm_now m = (s, m1)" by force
  then have same: "lm_metrics m1 = lm_metrics m" "lm_config m1 = lm_config m"
    using lm_now_same [of m] by simp_all
  show "\<exists>a. fst (acquireLock e h t m) = Some a \<and> la_lockType a = Optimistic \<and> la_lockId a = ''opt:'' @ e \<and> la_holderId a = h"
    using m1 no_contention_optimistic [OF assms, of e] by (simp add: acquireLock_def Let_def)
  show "no_contention (snd (acquireLock e h t m))"
    using m1 same no_contention_optimistic [OF assms, of e] assms getOrCreate_no_contention [OF assms, of e]
    by (auto simp: acquireLock_def Let_def no_contention_def recordAcquisition_def jm_get_set split: if_splits)
qed

lemma release_no_contention: "no_contention m \<Longrightarrow> no_contention (snd (releaseLock a h m))"
  using getOrCreate_no_contention [of m "la_lockId a"]
  by (auto simp: releaseLock_def no_contention_def recordStolenLock_def Let_def jm_get_set split: prod.splits if_splits)

lemma steps_no_contention: "no_contention m \<Longrightarrow> no_contention (foldl lock_step m calls)"
proof (induction calls arbitrary: m)
  case (Cons c calls)
  then have "no_contention (lock_step m c)"
    by (cases c) (simp_all add: acquire_optimistic(2) release_no_contention)
  with Cons.IH show ?case by simp
qed simp

text \<open>The adaptive strategy never leaves the optimistic path: contention is only counted while waiting for a
  stripe, which needs the pessimistic path. After any sequence of acquisitions and releases on a fresh
  adaptive manager with a positive threshold, such as the default one, an acquisition succeeds at once,
  takes no stripe, and so does the next one for the same escrow by another holder.\<close>

theorem adaptive_never_excludes:
  assumes "lc_lockType cfg = Adaptive" and "0 < lc_contentionThreshold cfg"
    and "m = foldl lock_step (new_manager cfg ck others) calls"
  shows "\<exists>a b. fst (acquireLock e h1 t m) = Some a \<and> la_lockType a = Optimistic \<and>
               fst (acquireLock e h2 t' (snd (acquireLock e h1 t m))) = Some b \<and> la_lockId b = la_lockId a"
proof -
  have "no_contention m"
    unfolding assms(3) using assms(1,2) by (intro steps_no_contention) (simp add: no_contention_def new_manager_def)
  from acquire_optimistic(1) [OF this, of e h1 t] acquire_optimistic(1) [OF acquire_optimistic(2) [OF this, of e h1 t], of e h2 t']
  show ?thesis by auto
qed

theorem adaptive_never_excludes_witness:
  "\<exists>a. fst (acquireLock ''e1'' ''h1'' None (foldl lock_step (new_manager DEFAULT_LOCK_CONFIG demo_clock (\<lambda>_ ts. ts))
          [AcquireCall ''e1'' ''h0'' None])) = Some a \<and> la_lockType a = Optimistic"
  using adaptive_never_excludes [of DEFAULT_LOCK_CONFIG _ demo_clock "\<lambda>_ ts. ts" "[AcquireCall ''e1'' ''h0'' None]" "''e1''" "''h1''" None, OF _ _ refl]
  by (auto simp: DEFAULT_LOCK_CONFIG_def)

text \<open>An escrow's optimistic lock can be released successfully once: releasing commits against version 0 and
  makes it 1, so every later release of an optimistic acquisition of that escrow reports failure.\<close>

theorem optimistic_release_once:
  assumes "la_lockType a = Optimistic" and "la_lockType b = Optimistic" and "la_lockId b = la_lockId a"
    and "releaseLock a h m = (True, m')"
  shows "fst (releaseLock b h' m') = False"
  using assms
  by (auto simp: releaseLock_def commitOptimistic_def tryOptimistic_def Let_def jm_get_set split: prod.splits if_splits)

theorem optimistic_release_once_witness:
  "let a = \<lparr>la_lockId = ''opt:e1'', la_stripeIndex = -1, la_lockType = Optimistic, la_acquiredAt = 0, la_expiresAt = 5,
            la_holderId = ''h''\<rparr>; m = new_manager DEFAULT_LOCK_CONFIG demo_clock (\<lambda>_ ts. ts) in
   fst (releaseLock a ''h'' m) \<and> fst (releaseLock a ''h'' (snd (releaseLock a ''h'' m))) = False"
proof -
  define a where "a = \<lparr>la_lockId = ''opt:e1'', la_stripeIndex = -1, la_lockType = Optimistic, la_acquiredAt = (0 :: rat),
     la_expiresAt = 5, la_holderId = ''h''\<rparr>"
  define m where "m = new_manager DEFAULT_LOCK_CONFIG demo_clock (\<lambda>_ ts. ts)"
  have ok: "fst (releaseLock a ''h'' m)"
    by (simp add: releaseLock_def a_def m_def new_manager_def commitOptimistic_def tryOptimistic_def Let_def)
  then have "releaseLock a ''h'' m = (True, snd (releaseLock a ''h'' m))" by (simp add: prod_eq_iff)
  from optimistic_release_once [OF _ _ refl this] ok show ?thesis
    unfolding a_def [symmetric] m_def [symmetric] Let_def by (simp add: a_def)
qed

text \<open>Updating the configuration never recreates the stripe pool nor logs that it will: the patch's striping
  factor is compared with the configuration that already contains it, and the stripes stay as they are.\<close>

theorem update_config_keeps_pool:
  "fst (updateConfig p m) = False \<and> lm_stripes (snd (updateConfig p m)) = lm_stripes m"
  by (auto simp: updateConfig_def Let_def patched_def split: option.splits)

end
