(* ===== verification/Backoff_Retry.thy ===== *)
theory Backoff_Retry
  imports Delego_Prelude
begin

text \<open>
  The retry helper of the payments service (payments/src/autoRelease/retry.ts) and its use for contract
  invocations (payments/src/escrowCoordinator/contractInvocationRetry.ts). The retried call, the sleep
  and the \<^verbatim>\<open>onRetry\<close> hook act on a world \<open>'w\<close> and are parameters; an error is its message.
\<close>

section \<open>Retrying with exponential backoff\<close>

record ('e, 'a) RetryResult =
  rr_value :: "'a option"          \<comment> \<open>present exactly when \<^verbatim>\<open>success\<close> is true\<close>
  rr_error :: "'e option"
  rr_retryCount :: nat

record ('e, 'w) RetryOptions =
  ro_maxRetries :: "int option"
  ro_baseDelayMs :: "int option"
  ro_onRetry :: "nat \<Rightarrow> 'e \<Rightarrow> int \<Rightarrow> 'w \<Rightarrow> 'w"
  ro_sleep :: "int \<Rightarrow> 'w \<Rightarrow> 'w"
  ro_shouldRetry :: "('e \<Rightarrow> nat \<Rightarrow> bool) option"

definition isRetryable :: "('e, 'w) RetryOptions \<Rightarrow> 'e \<Rightarrow> nat \<Rightarrow> bool" where
  "isRetryable opts e attempt = (case ro_shouldRetry opts of None \<Rightarrow> True | Some p \<Rightarrow> p e attempt)"

text \<open>The loop, with \<open>n\<close> attempts left; the attempt is the last one when none is left after it.\<close>

fun retry_loop ::
  "(nat \<Rightarrow> 'w \<Rightarrow> ('e + 'a) \<times> 'w) \<Rightarrow> ('e, 'w) RetryOptions \<Rightarrow> int \<Rightarrow> nat \<Rightarrow> nat \<Rightarrow> 'e option \<Rightarrow> nat \<Rightarrow> 'w
     \<Rightarrow> ('e, 'a) RetryResult \<times> 'w" where
  "retry_loop fn opts base 0 attempt lastError retryCount w =
     (\<lparr>rr_value = None, rr_error = lastError, rr_retryCount = retryCount\<rparr>, w)"
| "retry_loop fn opts base (Suc n) attempt lastError retryCount w =
     (case fn attempt w of
        (Inr v, w1) \<Rightarrow> (\<lparr>rr_value = Some v, rr_error = None, rr_retryCount = attempt\<rparr>, w1)
      | (Inl e, w1) \<Rightarrow>
          if n = 0 \<or> \<not> isRetryable opts e attempt
          then (\<lparr>rr_value = None, rr_error = Some e, rr_retryCount = retryCount\<rparr>, w1)
          else (let delay = base * 2 ^ attempt;
                    w2 = ro_onRetry opts (attempt + 1) e delay w1;
                    w3 = ro_sleep opts delay w2
                in retry_loop fn opts base n (attempt + 1) (Some e) (attempt + 1) w3))"

declare retry_loop.simps(2) [simp del]

text \<open>The two ways one attempt continues.\<close>

lemma retry_loop_stop:
  assumes "fn a w = (r, w1)" and "\<And>e. r = Inl e \<Longrightarrow> n = 0 \<or> \<not> isRetryable opts e a"
  shows "retry_loop fn opts base (Suc n) a le rc w =
    (case r of Inr v \<Rightarrow> \<lparr>rr_value = Some v, rr_error = None, rr_retryCount = a\<rparr>
       | Inl e \<Rightarrow> \<lparr>rr_value = None, rr_error = Some e, rr_retryCount = rc\<rparr>, w1)"
  using assms by (cases r) (simp_all add: retry_loop.simps(2))

lemma retry_loop_again:
  assumes "fn a w = (Inl e, w1)" and "isRetryable opts e a"
  shows "retry_loop fn opts base (Suc (Suc n)) a le rc w =
    retry_loop fn opts base (Suc n) (a + 1) (Some e) (a + 1)
      (ro_sleep opts (base * 2 ^ a) (ro_onRetry opts (a + 1) e (base * 2 ^ a) w1))"
  by (subst retry_loop.simps(2)) (simp add: assms Let_def)

definition retryWithBackoff ::
  "(nat \<Rightarrow> 'w \<Rightarrow> ('e + 'a) \<times> 'w) \<Rightarrow> ('e, 'w) RetryOptions \<Rightarrow> 'w \<Rightarrow> ('e, 'a) RetryResult \<times> 'w" where
  "retryWithBackoff fn opts w =
     (let maxRetries = (case ro_maxRetries opts of None \<Rightarrow> 3 | Some m \<Rightarrow> m);
          base = (case ro_baseDelayMs opts of None \<Rightarrow> 2000 | Some b \<Rightarrow> b)
      in retry_loop fn opts base (nat (maxRetries + 1)) 0 None 0 w)"

section \<open>Contract invocations\<close>

definition DEFAULT_MAX_RETRIES :: int where "DEFAULT_MAX_RETRIES = 3"

definition DEFAULT_BASE_DELAY_MS :: int where "DEFAULT_BASE_DELAY_MS = 2000"

definition TRANSIENT_NETWORK_PATTERNS :: "string list" where
  "TRANSIENT_NETWORK_PATTERNS =
     [''timeout'', ''timed out'', ''network'', ''econnrefused'', ''econnreset'', ''econnaborted'', ''epipe'',
      ''enotfound'', ''eai_again'', ''socket hang up'', ''socket closed'', ''connection reset'',
      ''connection refused'', ''fetch failed'', ''failed to fetch'', ''rate limit'', ''too many requests'',
      ''429'', ''500'', ''502'', ''503'', ''504'', ''temporarily unavailable'', ''service unavailable'',
      ''wallet service unavailable'']"

definition isTransientNetworkError :: "string \<Rightarrow> bool" where
  "isTransientNetworkError msg = list_ex (js_includes (js_lower msg)) TRANSIENT_NETWORK_PATTERNS"

definition submitContractInvocationWithRetry ::
  "('req \<Rightarrow> 'w \<Rightarrow> (string + 'tx) \<times> 'w) \<Rightarrow> (int \<Rightarrow> 'w \<Rightarrow> 'w) \<Rightarrow> 'req \<Rightarrow> 'w \<Rightarrow> (string + 'tx) \<times> 'w" where
  "submitContractInvocationWithRetry submit slp request w =
     (case retryWithBackoff (\<lambda>_. submit request)
             \<lparr>ro_maxRetries = Some DEFAULT_MAX_RETRIES, ro_baseDelayMs = Some DEFAULT_BASE_DELAY_MS,
              ro_onRetry = (\<lambda>_ _ _ x. x), ro_sleep = slp,
              ro_shouldRetry = Some (\<lambda>e _. isTransientNetworkError e)\<rparr> w of
        (res, w') \<Rightarrow>
          (case rr_value res of
             Some v \<Rightarrow> (Inr v, w')
           | None \<Rightarrow> (Inl (case rr_error res of None \<Rightarrow> ''undefined'' | Some e \<Rightarrow> e), w')))"

section \<open>Number of calls and total delay\<close>

text \<open>Counting calls with \<open>cnt\<close> and slept time with \<open>slept\<close>: \<open>k\<close> retries make \<open>k + 1\<close> calls and sleep
  \<open>base * 2 ^ attempt\<close> each.\<close>

lemma retry_loop_schedule:
  assumes "\<And>a w. cnt (snd (fn a w)) = cnt w + (1::nat)" "\<And>a w. slept (snd (fn a w)) = (slept w :: int)"
    and "\<And>d w. slept (ro_sleep opts d w) = slept w + d" "\<And>d w. cnt (ro_sleep opts d w) = cnt w"
    and "\<And>a e d w. slept (ro_onRetry opts a e d w) = slept w" "\<And>a e d w. cnt (ro_onRetry opts a e d w) = cnt w"
    and "retry_loop fn opts base (Suc n) a le rc w = (res, w')"
  shows "\<exists>k \<le> n. cnt w' = cnt w + k + 1 \<and> slept w' = slept w + base * 2 ^ a * (2 ^ k - 1) \<and>
     (rr_value res = None \<longrightarrow> (\<exists>e. rr_error res = Some e \<and> (k = n \<or> \<not> isRetryable opts e (a + k))))"
  using assms(7)
proof (induction n arbitrary: a le rc w)
  case 0
  obtain r w1 where fn: "fn a w = (r, w1)" by force
  with assms(1,2) [of a w] have "cnt w1 = cnt w + 1" "slept w1 = slept w" by simp_all
  moreover have "retry_loop fn opts base (Suc 0) a le rc w =
      (case r of Inr v \<Rightarrow> \<lparr>rr_value = Some v, rr_error = None, rr_retryCount = a\<rparr>
         | Inl e \<Rightarrow> \<lparr>rr_value = None, rr_error = Some e, rr_retryCount = rc\<rparr>, w1)"
    using fn by (intro retry_loop_stop) auto
  ultimately show ?case using 0 by (cases r) auto
next
  case (Suc n)
  obtain r w1 where fn: "fn a w = (r, w1)" by force
  with assms(1,2) [of a w] have w1: "cnt w1 = cnt w + 1" "slept w1 = slept w" by simp_all
  show ?case
  proof (cases "\<exists>e. r = Inl e \<and> isRetryable opts e a")
    case False
    then have "retry_loop fn opts base (Suc (Suc n)) a le rc w =
      (case r of Inr v \<Rightarrow> \<lparr>rr_value = Some v, rr_error = None, rr_retryCount = a\<rparr>
         | Inl e \<Rightarrow> \<lparr>rr_value = None, rr_error = Some e, rr_retryCount = rc\<rparr>, w1)"
      using fn by (intro retry_loop_stop) auto
    with Suc.prems have res: "w' = w1" "res = (case r of Inr v \<Rightarrow> \<lparr>rr_value = Some v, rr_error = None, rr_retryCount = a\<rparr>
         | Inl e \<Rightarrow> \<lparr>rr_value = None, rr_error = Some e, rr_retryCount = rc\<rparr>)"
      by simp_all
    have "rr_value res = None \<longrightarrow> (\<exists>e. rr_error res = Some e \<and> \<not> isRetryable opts e (a + 0))"
      unfolding res(2) using False by (cases r) simp_all
    with res(1) w1 show ?thesis by (intro exI [of _ 0]) simp
  next
    case True
    then obtain e where e: "r = Inl e" "isRetryable opts e a" by blast
    define w3 where "w3 = ro_sleep opts (base * 2 ^ a) (ro_onRetry opts (a + 1) e (base * 2 ^ a) w1)"
    have w3: "cnt w3 = cnt w + 1" "slept w3 = slept w + base * 2 ^ a"
      by (simp_all add: w3_def assms(3-6) w1)
    have "retry_loop fn opts base (Suc n) (a + 1) (Some e) (a + 1) w3 = (res, w')"
      unfolding w3_def by (rule trans [OF retry_loop_again [symmetric] Suc.prems]) (use fn e in simp_all)
    from Suc.IH [OF this] obtain k where k: "k \<le> n" "cnt w' = cnt w3 + k + 1"
      "slept w' = slept w3 + base * 2 ^ (a + 1) * (2 ^ k - 1)"
      "rr_value res = None \<longrightarrow> (\<exists>e. rr_error res = Some e \<and> (k = n \<or> \<not> isRetryable opts e (a + 1 + k)))"
      by (elim exE conjE) (rule that)
    have "slept w' = slept w + base * 2 ^ a * (2 ^ Suc k - 1)"
      unfolding k(3) w3(2) by (simp add: algebra_simps)
    moreover have "Suc k \<le> Suc n" "cnt w' = cnt w + Suc k + 1" using k(1,2) w3(1) by simp_all
    moreover have "rr_value res = None \<longrightarrow>
        (\<exists>e. rr_error res = Some e \<and> (Suc k = Suc n \<or> \<not> isRetryable opts e (a + Suc k)))"
      using k(4) by simp
    ultimately show ?thesis by (intro exI [of _ "Suc k"] conjI)
  qed
qed

text \<open>A contract invocation is submitted at most four times; \<open>k\<close> retries sleep 2000 ms, then twice as long each
  time, \<open>2000 * (2 ^ k - 1)\<close> ms in all; and an error is given up on before the fourth submission only when
  its message matches no transient network pattern, so deterministic errors are never retried.\<close>

theorem invocation_retry_schedule:
  fixes cnt :: "'w \<Rightarrow> nat" and slept :: "'w \<Rightarrow> int"
  assumes "\<And>r w. cnt (snd (submit r w)) = cnt w + 1" and "\<And>r w. slept (snd (submit r w)) = slept w"
    and "\<And>d w. slept (slp d w) = slept w + d" and "\<And>d w. cnt (slp d w) = cnt w"
    and "submitContractInvocationWithRetry submit slp req w = (res, w')"
  shows "\<exists>k \<le> 3. cnt w' = cnt w + k + 1 \<and> slept w' = slept w + 2000 * (2 ^ k - 1) \<and>
           (\<forall>m. res = Inl m \<longrightarrow> k = 3 \<or> \<not> isTransientNetworkError m)"
proof -
  define opts where "opts = \<lparr>ro_maxRetries = Some DEFAULT_MAX_RETRIES, ro_baseDelayMs = Some DEFAULT_BASE_DELAY_MS,
      ro_onRetry = (\<lambda>_ _ _ x. x), ro_sleep = slp, ro_shouldRetry = Some (\<lambda>e _. isTransientNetworkError e)\<rparr>"
  obtain rr where rr: "retry_loop (\<lambda>_. submit req) opts 2000 (Suc 3) 0 None 0 w = (rr, w')"
    and res: "res = (case rr_value rr of Some v \<Rightarrow> Inr v | None \<Rightarrow> Inl (case rr_error rr of None \<Rightarrow> ''undefined'' | Some e \<Rightarrow> e))"
    using assms(5) unfolding submitContractInvocationWithRetry_def retryWithBackoff_def opts_def [symmetric]
    by (auto simp: opts_def DEFAULT_MAX_RETRIES_def DEFAULT_BASE_DELAY_MS_def Let_def simp del: retry_loop.simps
        split: prod.splits option.splits)
  from retry_loop_schedule [of cnt "\<lambda>_. submit req" slept opts, OF _ _ _ _ _ _ rr] assms
  obtain k where "k \<le> 3" "cnt w' = cnt w + k + 1" "slept w' = slept w + 2000 * (2 ^ k - 1)"
    "rr_value rr = None \<longrightarrow> (\<exists>e. rr_error rr = Some e \<and> (k = 3 \<or> \<not> isRetryable opts e k))"
    by (auto simp: opts_def simp del: retry_loop.simps)
  with res show ?thesis by (auto simp: opts_def isRetryable_def split: option.splits)
qed

theorem invocation_retry_schedule_witness:
  "\<exists>k \<le> 3. fst (snd (submitContractInvocationWithRetry
       (\<lambda>_ (n, s). (if n < 2 then Inl ''ECONNRESET'' else Inr n, (n + 1, s))) (\<lambda>d (n, s). (n, s + d)) () (0, 0 :: int)))
     = k + (1 :: nat)"
proof -
  define sub :: "unit \<Rightarrow> nat \<times> int \<Rightarrow> (string + nat) \<times> nat \<times> int" where
    "sub = (\<lambda>_ (n, s). (if n < 2 then Inl ''ECONNRESET'' else Inr n, (n + 1, s)))"
  define slp :: "int \<Rightarrow> nat \<times> int \<Rightarrow> nat \<times> int" where "slp = (\<lambda>d (n, s). (n, s + d))"
  have "fst (snd (sub r w)) = fst w + 1" "snd (snd (sub r w)) = snd w"
    "snd (slp d w) = snd w + d" "fst (slp d w) = fst w" for r d w
    by (simp_all add: sub_def slp_def split: prod.splits)
  from invocation_retry_schedule [of fst sub snd slp, OF this prod.collapse [symmetric], of "()" "(0, 0)"]
  show ?thesis by (auto simp: sub_def slp_def)
qed

end
