(* ===== verification/Escrow_Coordinator.thy ===== *)
theory Escrow_Coordinator
  imports Payment_Records Funding_Lock Backoff_Retry
begin

text \<open>
  The escrow coordinator (payments/src/escrowCoordinator/index.ts) over the payment records, the funding
  lock and the retried contract invocation. What lies outside the repository or behind HTTP is the
  environment \<open>escrow_env\<close>, an argument of every operation: the wallet service that submits a contract call
  (and the sleep between two submissions), the chain (reading an escrow id from a transaction, reading an
  escrow), the Redis publisher, the fraud check (which fails open and so never throws), the database's new
  ids and clock and its insert checks, the hash of an order id, and two environment variables. No law is
  assumed of any of them. A call runs to its end before the next one starts: nothing in the code enforces this, and
  what overlapping partial refunds do is shown with the two segments \<open>refund_check\<close> and \<open>refund_from\<close>.
\<close>

section \<open>Requests, results and the environment\<close>

datatype contract_arg = ArgAddress string | ArgAmount stroop_text | ArgBytes "nat list" | ArgInt int

record TransactionRequest =
  tr_sourceAddress :: string
  tr_contractId :: string
  tr_method :: string
  tr_args :: "contract_arg list"
  tr_memo :: string
  tr_amountStroops :: "stroop_text option"

record TransactionResult =
  tx_hash :: string
  tx_ledger :: int
  tx_success :: bool

datatype PaymentStatusChannel =
  ChFunded | ChReleased | ChRefunded | ChDisputed | ChPartialReleased | ChPartialRefunded | ChFailed

record PaymentStatusEventPayload =
  ev_channel :: PaymentStatusChannel
  ev_orderId :: string
  ev_escrowId :: "string option"
  ev_txHash :: "string option"
  ev_status :: PaymentRecordStatus
  ev_reason :: "string option"
  ev_occurredAt :: ms

record OnChainEscrowRecord =
  oc_escrow_id :: int
  oc_buyer :: string
  oc_seller :: string
  oc_amount :: int
  oc_status :: string
  oc_created_at :: int

record 'w escrow_env =
  en_submit :: "TransactionRequest \<Rightarrow> 'w \<Rightarrow> (string + TransactionResult) \<times> 'w"
  en_sleep :: "int \<Rightarrow> 'w \<Rightarrow> 'w"
  en_extract :: "string \<Rightarrow> 'w \<Rightarrow> (string + string) \<times> 'w"
  en_readEscrow :: "string \<Rightarrow> string \<Rightarrow> string \<Rightarrow> 'w \<Rightarrow> (string + OnChainEscrowRecord) \<times> 'w"
  en_publish :: "PaymentStatusEventPayload \<Rightarrow> 'w \<Rightarrow> (string + unit) \<times> 'w"
  en_paused :: "string \<Rightarrow> 'w \<Rightarrow> bool \<times> 'w"
  en_newId :: "'w \<Rightarrow> string \<times> 'w"
  en_now :: "'w \<Rightarrow> ms \<times> 'w"
  en_accepts :: "CreatePaymentRecordInput \<Rightarrow> bool"
  en_orderBytes :: "string \<Rightarrow> nat list"
  en_ESCROW_CONTRACT_ID :: "string option"
  en_readSource :: "string option"

record 'w escrow_world =
  ew_table :: payment_table
  ew_locks :: lock_manager
  ew_ext :: 'w

datatype escrow_error =
    NoRecord string
  | InsufficientEscrowBalance string int int
  | NotAnInteger
  | InvalidEscrowId string
  | StoreFailed store_error
  | NotConfigured string
  | ExternalError string

type_synonym ('w, 'a) escrow_prog = "('w escrow_world, escrow_error, 'a) prog"

fun escrow_message :: "escrow_error \<Rightarrow> string" where
  "escrow_message (NoRecord e) = ''Payment record not found for escrow '' @ e"
| "escrow_message (InsufficientEscrowBalance e r q) = ''Escrow '' @ e @ '' has insufficient balance''"
| "escrow_message NotAnInteger = ''Cannot convert to a BigInt''"
| "escrow_message (InvalidEscrowId e) = ''Invalid escrow ID: '' @ e"
| "escrow_message (StoreFailed (RecordNotFound i)) = ''Payment record not found: '' @ i"
| "escrow_message (StoreFailed (InvalidTax m)) = m"
| "escrow_message (StoreFailed (DbError m)) = m"
| "escrow_message (NotConfigured v) = v @ '' is not configured''"
| "escrow_message (ExternalError m) = m"

section \<open>Calls out of the coordinator\<close>

definition run_env :: "('w \<Rightarrow> (string + 'a) \<times> 'w) \<Rightarrow> ('w, 'a) escrow_prog" where
  "run_env f w = (case f (ew_ext w) of
       (Inl m, x) \<Rightarrow> (Inl (ExternalError m), w\<lparr>ew_ext := x\<rparr>)
     | (Inr a, x) \<Rightarrow> (Inr a, w\<lparr>ew_ext := x\<rparr>))"

definition ask_env :: "('w \<Rightarrow> 'a \<times> 'w) \<Rightarrow> ('w, 'a) escrow_prog" where
  "ask_env f w = (case f (ew_ext w) of (a, x) \<Rightarrow> (Inr a, w\<lparr>ew_ext := x\<rparr>))"

definition run_table :: "'a store_op \<Rightarrow> ('w, 'a) escrow_prog" where
  "run_table op w = (case op (ew_table w) of
       (Inl e, tb) \<Rightarrow> (Inl (StoreFailed e), w\<lparr>ew_table := tb\<rparr>)
     | (Inr a, tb) \<Rightarrow> (Inr a, w\<lparr>ew_table := tb\<rparr>))"

definition update_record :: "'w escrow_env \<Rightarrow> string \<Rightarrow> PaymentRecordUpdate \<Rightarrow> ('w, PaymentRecord) escrow_prog" where
  "update_record env rid u = pbind (ask_env (en_now env)) (\<lambda>t. run_table (updatePaymentRecord t rid u))"

definition submit :: "'w escrow_env \<Rightarrow> TransactionRequest \<Rightarrow> ('w, TransactionResult) escrow_prog" where
  "submit env req = run_env (submitContractInvocationWithRetry (en_submit env) (en_sleep env) req)"

definition emitStatusEvent ::
  "'w escrow_env \<Rightarrow> PaymentStatusChannel \<Rightarrow> PaymentRecord \<Rightarrow> string option \<Rightarrow> string option \<Rightarrow> ('w, unit) escrow_prog" where
  "emitStatusEvent env ch r txHash reason =
     pbind (ask_env (en_now env)) (\<lambda>t.
     run_env (en_publish env \<lparr>ev_channel = ch, ev_orderId = pr_orderId r, ev_escrowId = pr_escrowId r, ev_txHash = txHash,
       ev_status = pr_status r, ev_reason = reason, ev_occurredAt = t\<rparr>))"

text \<open>A string is truthy when it is not empty.\<close>

definition truthy :: "string option \<Rightarrow> bool" where
  "truthy s \<longleftrightarrow> (case s of None \<Rightarrow> False | Some t \<Rightarrow> t \<noteq> [])"

definition or_empty :: "string option \<Rightarrow> string" where
  "or_empty s = (case s of None \<Rightarrow> '''' | Some t \<Rightarrow> t)"

text \<open>\<^verbatim>\<open>Number(s)\<close> on decimal spellings; the empty text is 0. Exponents and other radixes, which no escrow
  id of the chain has, count as not a number.\<close>

definition digit :: "char \<Rightarrow> bool" where
  "digit c \<longleftrightarrow> of_char c \<in> {48..57 :: nat}"

definition digits_value :: "string \<Rightarrow> nat" where
  "digits_value s = foldl (\<lambda>n c. 10 * n + (of_char c - 48)) 0 s"

definition js_integer :: "string \<Rightarrow> int option" where
  "js_integer s =
     (case js_trim s of
        [] \<Rightarrow> Some 0
      | c # cs \<Rightarrow>
          if c = CHR ''-'' \<and> cs \<noteq> [] \<and> list_all digit cs then Some (- int (digits_value cs))
          else if list_all digit (c # cs) then Some (int (digits_value (c # cs))) else None)"

definition parseEscrowId :: "string \<Rightarrow> ('w, int) escrow_prog" where
  "parseEscrowId eid = (case js_integer eid of
       None \<Rightarrow> pthrow (InvalidEscrowId eid)
     | Some n \<Rightarrow> if n < 0 then pthrow (InvalidEscrowId eid) else pret n)"

section \<open>Funding\<close>

record FundEscrowParams =
  fp_orderId :: string
  fp_buyerAddress :: string
  fp_sellerAddress :: string
  fp_tokenContractId :: string
  fp_amountStroops :: stroop_text
  fp_escrowContractId :: string
  fp_timeoutLedgers :: int

datatype escrow_op_status =
  OpFunded | OpReleased | OpRefunded | OpDisputed | OpPartialRefunded | OpPartialReleased | OpFailed

record FundEscrowResult =
  fr_escrowId :: string
  fr_txHash :: string
  fr_ledger :: int
  fr_status :: escrow_op_status

definition toFundResult :: "PaymentRecord \<Rightarrow> int \<Rightarrow> FundEscrowResult" where
  "toFundResult r ledger =
     \<lparr>fr_escrowId = or_empty (pr_escrowId r), fr_txHash = or_empty (pr_fundTxHash r), fr_ledger = ledger,
      fr_status = (if pr_status r \<in> {PFunded, PReleased, PRefunded} \<or> truthy (pr_fundTxHash r)
                   then OpFunded else OpFailed)\<rparr>"

definition create_input :: "FundEscrowParams \<Rightarrow> CreatePaymentRecordInput" where
  "create_input p = \<lparr>ci_orderId = fp_orderId p, ci_escrowContractId = fp_escrowContractId p,
     ci_buyerAddress = fp_buyerAddress p, ci_sellerAddress = fp_sellerAddress p,
     ci_tokenContractId = fp_tokenContractId p, ci_amountStroops = fp_amountStroops p, ci_subtotalStroops = None,
     ci_taxAmountStroops = None, ci_taxRateBasisPoints = None, ci_taxJurisdiction = None\<rparr>"

definition deposit_request :: "'w escrow_env \<Rightarrow> FundEscrowParams \<Rightarrow> TransactionRequest" where
  "deposit_request env p = \<lparr>tr_sourceAddress = fp_buyerAddress p, tr_contractId = fp_escrowContractId p,
     tr_method = ''deposit'',
     tr_args = [ArgAddress (fp_buyerAddress p), ArgAddress (fp_sellerAddress p), ArgAddress (fp_tokenContractId p),
                ArgAmount (fp_amountStroops p), ArgBytes (en_orderBytes env (fp_orderId p)), ArgInt (fp_timeoutLedgers p)],
     tr_memo = ''Fund escrow for order '' @ fp_orderId p, tr_amountStroops = Some (fp_amountStroops p)\<rparr>"

definition acquire_funding_lock :: "string \<Rightarrow> string \<Rightarrow> ('w, LockAcquisition option) escrow_prog" where
  "acquire_funding_lock e h w = (case acquireLock e h None (ew_locks w) of (a, m) \<Rightarrow> (Inr a, w\<lparr>ew_locks := m\<rparr>))"

definition release_funding_lock :: "LockAcquisition option \<Rightarrow> string \<Rightarrow> ('w, unit) escrow_prog" where
  "release_funding_lock acq h w = (case acq of
       None \<Rightarrow> (Inr (), w)
     | Some a \<Rightarrow> (Inr (), w\<lparr>ew_locks := snd (releaseLock a h (ew_locks w))\<rparr>))"

text \<open>\<open>update(...)\<close> to \<^verbatim>\<open>failed\<close> followed by the \<^verbatim>\<open>payment:failed\<close> event.\<close>

definition mark_failed ::
  "'w escrow_env \<Rightarrow> string \<Rightarrow> string \<Rightarrow> string option \<Rightarrow> string \<Rightarrow> ('w, PaymentRecord) escrow_prog" where
  "mark_failed env rid failure txHash reason =
     pbind (update_record env rid (no_update\<lparr>pu_status := Some PFailed, pu_failureReason := Some (Some failure)\<rparr>)) (\<lambda>r.
     pbind (emitStatusEvent env ChFailed r txHash (Some reason)) (\<lambda>_. pret r))"

definition fund_body ::
  "'w escrow_env \<Rightarrow> FundEscrowParams \<Rightarrow> LockAcquisition option \<Rightarrow> string \<Rightarrow> PaymentRecord \<Rightarrow> ('w, FundEscrowResult) escrow_prog" where
  "fund_body env p acq holder r =
     pbind (submit env (deposit_request env p)) (\<lambda>tx.
     if \<not> tx_success tx
     then pbind (mark_failed env (pr_id r) ''Fund transaction failed on-chain'' (Some (tx_hash tx))
                   ''Fund transaction failed on-chain'') (\<lambda>_.
          pret \<lparr>fr_escrowId = '''', fr_txHash = tx_hash tx, fr_ledger = tx_ledger tx, fr_status = OpFailed\<rparr>)
     else pbind (run_env (en_extract env (tx_hash tx))) (\<lambda>eid.
          pbind (update_record env (pr_id r) (no_update\<lparr>pu_escrowId := Some eid, pu_status := Some PFunded,
                   pu_fundTxHash := Some (Some (tx_hash tx)), pu_failureReason := Some None\<rparr>)) (\<lambda>r'.
          pbind (emitStatusEvent env ChFunded r' (Some (tx_hash tx)) None) (\<lambda>_.
          pbind (release_funding_lock acq holder) (\<lambda>_.
          pret \<lparr>fr_escrowId = eid, fr_txHash = tx_hash tx, fr_ledger = tx_ledger tx, fr_status = OpFunded\<rparr>)))))"

definition fundEscrow :: "'w escrow_env \<Rightarrow> FundEscrowParams \<Rightarrow> ('w, FundEscrowResult) escrow_prog" where
  "fundEscrow env p =
     pbind (pgets (\<lambda>w. findPaymentRecordByOrderId (fp_orderId p) (ew_table w))) (\<lambda>existing.
     case existing of
       Some r \<Rightarrow> pret (toFundResult r 0)
     | None \<Rightarrow>
         pbind (ask_env (en_paused env (fp_buyerAddress p))) (\<lambda>paused.
         if paused then pret \<lparr>fr_escrowId = '''', fr_txHash = '''', fr_ledger = 0, fr_status = OpFailed\<rparr>
         else (let holder = ''fund:'' @ fp_orderId p in
           pbind (acquire_funding_lock (fp_orderId p) holder) (\<lambda>acq.
           pbind (ask_env (en_newId env)) (\<lambda>rid.
           pbind (ask_env (en_now env)) (\<lambda>t.
           pbind (run_table (createPaymentRecord (en_accepts env) rid t (create_input p))) (\<lambda>r.
           pcatch (fund_body env p acq holder r)
             (\<lambda>e. pbind (mark_failed env (pr_id r) (escrow_message e) None (escrow_message e)) (\<lambda>r'.
                  pbind (release_funding_lock acq holder) (\<lambda>_.
                  pret \<lparr>fr_escrowId = or_empty (pr_escrowId r'), fr_txHash = or_empty (pr_fundTxHash r'),
                        fr_ledger = 0, fr_status = OpFailed\<rparr>))))))))))"

section \<open>Release, refund and dispute\<close>

record EscrowCallParams =
  ep_escrowId :: string
  ep_escrowContractId :: string
  ep_callerAddress :: string

record ReleaseResult =
  rl_txHash :: string
  rl_ledger :: int
  rl_status :: escrow_op_status
  rl_sellerAddress :: string
  rl_amount :: int

record RefundResult =
  rf_txHash :: string
  rf_ledger :: int
  rf_status :: escrow_op_status
  rf_buyerAddress :: string
  rf_amount :: int

record DisputeResult =
  ds_txHash :: string
  ds_ledger :: int
  ds_status :: escrow_op_status
  ds_disputedBy :: string

definition require_record :: "string \<Rightarrow> ('w, PaymentRecord) escrow_prog" where
  "require_record eid =
     pbind (pgets (\<lambda>w. findPaymentRecordByEscrowId eid (ew_table w))) (\<lambda>found.
     case found of None \<Rightarrow> pthrow (NoRecord eid) | Some r \<Rightarrow> pret r)"

definition clear_failure :: "'w escrow_env \<Rightarrow> string \<Rightarrow> ('w, PaymentRecord) escrow_prog" where
  "clear_failure env rid = update_record env rid (no_update\<lparr>pu_failureReason := Some None\<rparr>)"

text \<open>The contract call of an operation on an escrow: the id is parsed, then the call is submitted.\<close>

definition invoke ::
  "'w escrow_env \<Rightarrow> EscrowCallParams \<Rightarrow> string \<Rightarrow> contract_arg list \<Rightarrow> string \<Rightarrow> ('w, TransactionResult) escrow_prog" where
  "invoke env p meth extra memo =
     pbind (parseEscrowId (ep_escrowId p)) (\<lambda>n.
     submit env \<lparr>tr_sourceAddress = ep_callerAddress p, tr_contractId = ep_escrowContractId p, tr_method = meth,
       tr_args = ArgInt n # ArgAddress (ep_callerAddress p) # extra, tr_memo = memo, tr_amountStroops = None\<rparr>)"

definition releaseEscrow :: "'w escrow_env \<Rightarrow> EscrowCallParams \<Rightarrow> ('w, ReleaseResult) escrow_prog" where
  "releaseEscrow env p =
     pbind (require_record (ep_escrowId p)) (\<lambda>record.
     let result = (\<lambda>h l s. \<lparr>rl_txHash = h, rl_ledger = l, rl_status = s, rl_sellerAddress = pr_sellerAddress record,
                            rl_amount = pr_amount record\<rparr>) in
     if pr_status record = PReleased \<and> truthy (pr_releaseTxHash record)
     then pret (result (or_empty (pr_releaseTxHash record)) 0 OpReleased)
     else
       pbind (clear_failure env (pr_id record)) (\<lambda>_.
       pcatch
         (pbind (invoke env p ''release'' [] (''Release escrow '' @ ep_escrowId p)) (\<lambda>tx.
          if \<not> tx_success tx
          then pbind (mark_failed env (pr_id record) ''Release transaction failed on-chain'' (Some (tx_hash tx))
                        ''Release transaction failed on-chain'') (\<lambda>_. pret (result (tx_hash tx) (tx_ledger tx) OpFailed))
          else pbind (update_record env (pr_id record) (no_update\<lparr>pu_status := Some PReleased,
                        pu_releaseTxHash := Some (Some (tx_hash tx)), pu_failureReason := Some None\<rparr>)) (\<lambda>r.
               pbind (emitStatusEvent env ChReleased r (Some (tx_hash tx)) None) (\<lambda>_.
               pret (result (tx_hash tx) (tx_ledger tx) OpReleased)))))
         (\<lambda>e. pbind (mark_failed env (pr_id record) (escrow_message e) None (escrow_message e)) (\<lambda>_.
              pret (result (or_empty (pr_releaseTxHash record)) 0 OpFailed)))))"

definition refundEscrow :: "'w escrow_env \<Rightarrow> EscrowCallParams \<Rightarrow> string \<Rightarrow> ('w, RefundResult) escrow_prog" where
  "refundEscrow env p reason =
     pbind (require_record (ep_escrowId p)) (\<lambda>record.
     let result = (\<lambda>h l s. \<lparr>rf_txHash = h, rf_ledger = l, rf_status = s, rf_buyerAddress = pr_buyerAddress record,
                            rf_amount = pr_amount record\<rparr>) in
     if pr_status record = PRefunded \<and> truthy (pr_refundTxHash record)
     then pret (result (or_empty (pr_refundTxHash record)) 0 OpRefunded)
     else
       pbind (clear_failure env (pr_id record)) (\<lambda>_.
       pcatch
         (pbind (invoke env p ''refund'' [] (''Refund escrow '' @ ep_escrowId p @ '' ('' @ reason @ '')'')) (\<lambda>tx.
          if \<not> tx_success tx
          then pbind (mark_failed env (pr_id record) ''Refund transaction failed on-chain'' (Some (tx_hash tx))
                        (''Refund transaction failed on-chain ('' @ reason @ '')'')) (\<lambda>_.
               pret (result (tx_hash tx) (tx_ledger tx) OpFailed))
          else pbind (update_record env (pr_id record) (no_update\<lparr>pu_status := Some PRefunded,
                        pu_refundTxHash := Some (Some (tx_hash tx)), pu_failureReason := Some None\<rparr>)) (\<lambda>r.
               pbind (emitStatusEvent env ChRefunded r (Some (tx_hash tx)) None) (\<lambda>_.
               pret (result (tx_hash tx) (tx_ledger tx) OpRefunded)))))
         (\<lambda>e. pbind (mark_failed env (pr_id record) (escrow_message e) None (escrow_message e)) (\<lambda>_.
              pret (result (or_empty (pr_refundTxHash record)) 0 OpFailed)))))"

definition disputeEscrow :: "'w escrow_env \<Rightarrow> EscrowCallParams \<Rightarrow> ('w, DisputeResult) escrow_prog" where
  "disputeEscrow env p =
     pbind (require_record (ep_escrowId p)) (\<lambda>record.
     let result = (\<lambda>h l s. \<lparr>ds_txHash = h, ds_ledger = l, ds_status = s, ds_disputedBy = ep_callerAddress p\<rparr>) in
     if pr_status record = PDisputed \<and> truthy (pr_disputeTxHash record)
     then pret (result (or_empty (pr_disputeTxHash record)) 0 OpDisputed)
     else
       pbind (clear_failure env (pr_id record)) (\<lambda>_.
       pcatch
         (pbind (invoke env p ''dispute'' [] (''Dispute escrow '' @ ep_escrowId p)) (\<lambda>tx.
          if \<not> tx_success tx
          then pbind (mark_failed env (pr_id record) ''Dispute transaction failed on-chain'' (Some (tx_hash tx))
                        ''Dispute transaction failed on-chain'') (\<lambda>_. pret (result (tx_hash tx) (tx_ledger tx) OpFailed))
          else pbind (update_record env (pr_id record) (no_update\<lparr>pu_status := Some PDisputed,
                        pu_disputeTxHash := Some (Some (tx_hash tx)), pu_failureReason := Some None\<rparr>)) (\<lambda>r.
               pbind (emitStatusEvent env ChDisputed r (Some (tx_hash tx)) None) (\<lambda>_.
               pret (result (tx_hash tx) (tx_ledger tx) OpDisputed)))))
         (\<lambda>e. pbind (mark_failed env (pr_id record) (escrow_message e) None (escrow_message e)) (\<lambda>_.
              pret (result (or_empty (pr_disputeTxHash record)) 0 OpFailed)))))"

section \<open>Partial refunds and releases\<close>

definition computeRemaining :: "PaymentRecord \<Rightarrow> int" where
  "computeRemaining r = pr_amount r - pr_released r - pr_refunded r"

record PartialResult =
  pt_txHash :: string
  pt_ledger :: int
  pt_status :: escrow_op_status
  pt_address :: string         \<comment> \<open>the buyer's for a refund, the seller's for a release\<close>
  pt_movedAmount :: int        \<comment> \<open>\<^verbatim>\<open>refundedAmount\<close> or \<^verbatim>\<open>releasedAmount\<close>\<close>
  pt_remainingAmount :: int

definition increment_record :: "'w escrow_env \<Rightarrow> string \<Rightarrow> PaymentRecordAmountDelta \<Rightarrow> ('w, PaymentRecord) escrow_prog" where
  "increment_record env rid d = pbind (ask_env (en_now env)) (\<lambda>t. run_table (incrementPaymentRecordAmounts t rid d))"

definition partialRefundEscrow ::
  "'w escrow_env \<Rightarrow> EscrowCallParams \<Rightarrow> stroop_text \<Rightarrow> string \<Rightarrow> ('w, PartialResult) escrow_prog" where
  "partialRefundEscrow env p amountStroops reason =
     pbind (require_record (ep_escrowId p)) (\<lambda>record.
     let remaining = computeRemaining record in
     case amountStroops of
       None \<Rightarrow> pthrow NotAnInteger
     | Some requested \<Rightarrow>
     if requested \<le> 0 \<or> requested > remaining
     then pthrow (InsufficientEscrowBalance (ep_escrowId p) remaining requested)
     else
       (let result = (\<lambda>h l s moved rem. \<lparr>pt_txHash = h, pt_ledger = l, pt_status = s, pt_address = pr_buyerAddress record,
                                        pt_movedAmount = moved, pt_remainingAmount = rem\<rparr>) in
       pbind (clear_failure env (pr_id record)) (\<lambda>_.
       pcatch
         (pbind (invoke env p ''partial_refund'' [ArgAmount amountStroops]
                   (''Partial refund escrow '' @ ep_escrowId p @ '' ('' @ reason @ '')'')) (\<lambda>tx.
          if \<not> tx_success tx
          then pbind (mark_failed env (pr_id record) ''Partial refund transaction failed on-chain'' (Some (tx_hash tx))
                        (''Partial refund transaction failed on-chain ('' @ reason @ '')'')) (\<lambda>_.
               pret (result (tx_hash tx) (tx_ledger tx) OpFailed 0 remaining))
          else
            (let newRemaining = remaining - requested in
             pbind (increment_record env (pr_id record) \<lparr>ad_releasedDelta = None, ad_refundedDelta = Some requested,
                      ad_status = (if newRemaining = 0 \<and> pr_released record = 0 then Some PRefunded else None)\<rparr>) (\<lambda>r.
             pbind (emitStatusEvent env ChPartialRefunded r (Some (tx_hash tx)) (Some reason)) (\<lambda>_.
             pret (result (tx_hash tx) (tx_ledger tx) OpPartialRefunded requested newRemaining))))))
         (\<lambda>e. case e of
                InsufficientEscrowBalance _ _ _ \<Rightarrow> pthrow e
              | _ \<Rightarrow> pbind (mark_failed env (pr_id record) (escrow_message e) None (escrow_message e)) (\<lambda>_.
                     pret (result '''' 0 OpFailed 0 remaining))))))"

text \<open>The same operation in two segments: up to the first \<^verbatim>\<open>await\<close> after the balance was compared, and from there on. Other calls may
  run in between.\<close>

definition refund_check :: "EscrowCallParams \<Rightarrow> stroop_text \<Rightarrow> ('w, PaymentRecord \<times> int) escrow_prog" where
  "refund_check p amountStroops =
     pbind (require_record (ep_escrowId p)) (\<lambda>record.
     let remaining = computeRemaining record in
     case amountStroops of
       None \<Rightarrow> pthrow NotAnInteger
     | Some requested \<Rightarrow>
     if requested \<le> 0 \<or> requested > remaining
     then pthrow (InsufficientEscrowBalance (ep_escrowId p) remaining requested)
     else pret (record, requested))"

definition refund_from ::
  "'w escrow_env \<Rightarrow> EscrowCallParams \<Rightarrow> string \<Rightarrow> PaymentRecord \<times> int \<Rightarrow> ('w, PartialResult) escrow_prog" where
  "refund_from env p reason checked =
     (case checked of (record, requested) \<Rightarrow>
      let remaining = computeRemaining record;
          result = (\<lambda>h l s moved rem. \<lparr>pt_txHash = h, pt_ledger = l, pt_status = s, pt_address = pr_buyerAddress record,
                                        pt_movedAmount = moved, pt_remainingAmount = rem\<rparr>) in
       pbind (clear_failure env (pr_id record)) (\<lambda>_.
       pcatch
         (pbind (invoke env p ''partial_refund'' [ArgAmount (Some requested)]
                   (''Partial refund escrow '' @ ep_escrowId p @ '' ('' @ reason @ '')'')) (\<lambda>tx.
          if \<not> tx_success tx
          then pbind (mark_failed env (pr_id record) ''Partial refund transaction failed on-chain'' (Some (tx_hash tx))
                        (''Partial refund transaction failed on-chain ('' @ reason @ '')'')) (\<lambda>_.
               pret (result (tx_hash tx) (tx_ledger tx) OpFailed 0 remaining))
          else
            (let newRemaining = remaining - requested in
             pbind (increment_record env (pr_id record) \<lparr>ad_releasedDelta = None, ad_refundedDelta = Some requested,
                      ad_status = (if newRemaining = 0 \<and> pr_released record = 0 then Some PRefunded else None)\<rparr>) (\<lambda>r.
             pbind (emitStatusEvent env ChPartialRefunded r (Some (tx_hash tx)) (Some reason)) (\<lambda>_.
             pret (result (tx_hash tx) (tx_ledger tx) OpPartialRefunded requested newRemaining))))))
         (\<lambda>e. case e of
                InsufficientEscrowBalance _ _ _ \<Rightarrow> pthrow e
              | _ \<Rightarrow> pbind (mark_failed env (pr_id record) (escrow_message e) None (escrow_message e)) (\<lambda>_.
                     pret (result '''' 0 OpFailed 0 remaining)))))"

definition partialReleaseEscrow ::
  "'w escrow_env \<Rightarrow> EscrowCallParams \<Rightarrow> stroop_text \<Rightarrow> string option \<Rightarrow> ('w, PartialResult) escrow_prog" where
  "partialReleaseEscrow env p amountStroops memo =
     pbind (require_record (ep_escrowId p)) (\<lambda>record.
     let remaining = computeRemaining record in
     case amountStroops of
       None \<Rightarrow> pthrow NotAnInteger
     | Some requested \<Rightarrow>
     if requested \<le> 0 \<or> requested > remaining
     then pthrow (InsufficientEscrowBalance (ep_escrowId p) remaining requested)
     else
       (let result = (\<lambda>h l s moved rem. \<lparr>pt_txHash = h, pt_ledger = l, pt_status = s, pt_address = pr_sellerAddress record,
                                        pt_movedAmount = moved, pt_remainingAmount = rem\<rparr>) in
       pbind (clear_failure env (pr_id record)) (\<lambda>_.
       pcatch
         (pbind (invoke env p ''partial_release'' [ArgAmount amountStroops]
                   (case memo of None \<Rightarrow> ''Partial release escrow '' @ ep_escrowId p | Some m \<Rightarrow> m)) (\<lambda>tx.
          if \<not> tx_success tx
          then pbind (mark_failed env (pr_id record) ''Partial release transaction failed on-chain'' (Some (tx_hash tx))
                        ''Partial release transaction failed on-chain'') (\<lambda>_.
               pret (result (tx_hash tx) (tx_ledger tx) OpFailed 0 remaining))
          else
            (let newRemaining = remaining - requested in
             pbind (increment_record env (pr_id record) \<lparr>ad_releasedDelta = Some requested, ad_refundedDelta = None,
                      ad_status = (if newRemaining = 0 \<and> pr_refunded record = 0 then Some PReleased else None)\<rparr>) (\<lambda>r.
             pbind (emitStatusEvent env ChPartialReleased r (Some (tx_hash tx)) None) (\<lambda>_.
             pret (result (tx_hash tx) (tx_ledger tx) OpPartialReleased requested newRemaining))))))
         (\<lambda>e. case e of
                InsufficientEscrowBalance _ _ _ \<Rightarrow> pthrow e
              | _ \<Rightarrow> pbind (mark_failed env (pr_id record) (escrow_message e) None (escrow_message e)) (\<lambda>_.
                     pret (result '''' 0 OpFailed 0 remaining))))))"

section \<open>Queries\<close>

record RemainingBalance =
  rb_escrowId :: string
  rb_orderId :: string
  rb_buyerAddress :: string
  rb_sellerAddress :: string
  rb_totalAmount :: int
  rb_releasedAmount :: int
  rb_refundedAmount :: int
  rb_remainingAmount :: int

definition getRemainingBalance :: "string \<Rightarrow> ('w, RemainingBalance) escrow_prog" where
  "getRemainingBalance eid =
     pbind (require_record eid) (\<lambda>r.
     pret \<lparr>rb_escrowId = eid, rb_orderId = pr_orderId r, rb_buyerAddress = pr_buyerAddress r,
           rb_sellerAddress = pr_sellerAddress r, rb_totalAmount = pr_amount r, rb_releasedAmount = pr_released r,
           rb_refundedAmount = pr_refunded r, rb_remainingAmount = computeRemaining r\<rparr>)"

datatype EscrowStatus = EsFunded | EsReleased | EsRefunded | EsDisputed

record EscrowStatusResult =
  es_escrowId :: string
  es_buyer :: string
  es_seller :: string
  es_amount :: int
  es_status :: EscrowStatus
  es_createdAt :: int

fun mapRecordStatusToEscrowStatus :: "PaymentRecordStatus \<Rightarrow> EscrowStatus option" where
  "mapRecordStatusToEscrowStatus PFunded = Some EsFunded"
| "mapRecordStatusToEscrowStatus PReleased = Some EsReleased"
| "mapRecordStatusToEscrowStatus PRefunded = Some EsRefunded"
| "mapRecordStatusToEscrowStatus PDisputed = Some EsDisputed"
| "mapRecordStatusToEscrowStatus _ = None"

definition mapChainEscrowStatus :: "string \<Rightarrow> EscrowStatus" where
  "mapChainEscrowStatus status =
     (let raw = js_lower status in
      if js_includes raw ''release'' then EsReleased
      else if js_includes raw ''refund'' then EsRefunded
      else if js_includes raw ''disput'' then EsDisputed else EsFunded)"

definition getEscrowStatus :: "'w escrow_env \<Rightarrow> string \<Rightarrow> ('w, EscrowStatusResult) escrow_prog" where
  "getEscrowStatus env eid =
     pbind (pgets (\<lambda>w. findPaymentRecordByEscrowId eid (ew_table w))) (\<lambda>found.
     case (found, Option.bind found (mapRecordStatusToEscrowStatus \<circ> pr_status)) of
       (Some r, Some st) \<Rightarrow>
         pret \<lparr>es_escrowId = eid, es_buyer = pr_buyerAddress r, es_seller = pr_sellerAddress r, es_amount = pr_amount r,
               es_status = st, es_createdAt = pr_createdAt r div 1000\<rparr>
     | _ \<Rightarrow>
         (case (case found of Some r \<Rightarrow> Some (pr_escrowContractId r) | None \<Rightarrow> en_ESCROW_CONTRACT_ID env) of
            None \<Rightarrow> pthrow (NotConfigured ''ESCROW_CONTRACT_ID'')
          | Some contractId \<Rightarrow>
              if contractId = [] then pthrow (NotConfigured ''ESCROW_CONTRACT_ID'')
              else (case (case en_readSource env of Some s \<Rightarrow> Some s | None \<Rightarrow> map_option pr_buyerAddress found) of
                 None \<Rightarrow> pthrow (NotConfigured ''ESCROW_READ_SOURCE_ADDRESS'')
               | Some src \<Rightarrow>
                   if src = [] then pthrow (NotConfigured ''ESCROW_READ_SOURCE_ADDRESS'')
                   else pbind (run_env (en_readEscrow env contractId eid src)) (\<lambda>oc.
                        pret \<lparr>es_escrowId = show_int (oc_escrow_id oc), es_buyer = oc_buyer oc, es_seller = oc_seller oc,
                              es_amount = oc_amount oc, es_status = mapChainEscrowStatus (oc_status oc),
                              es_createdAt = oc_created_at oc\<rparr>))))"

end
