(* ===== verification/Escrow_Properties.thy ===== *)
theory Escrow_Properties
  imports Escrow_Coordinator
begin

text \<open>
  What the escrow coordinator guarantees in every environment: the balances stay within the escrowed amount,
  a repeated request is answered from the stored record, the exact effect of partial refunds; and what it
  does not: a publisher failure turns a settled payment into a failed one, and a full release or refund is
  not counted in the balance.
\<close>

section \<open>The balance invariant\<close>

definition bal_ok :: "PaymentRecord \<Rightarrow> bool" where
  "bal_ok r \<longleftrightarrow> 0 \<le> pr_released r \<and> 0 \<le> pr_refunded r \<and> pr_released r + pr_refunded r \<le> pr_amount r"

definition tables_ok :: "payment_table \<Rightarrow> bool" where
  "tables_ok rows \<longleftrightarrow> table_ok rows \<and> rows_in row_ok rows \<and> rows_in bal_ok rows"

text \<open>The table still has the amounts of \<open>rec\<close>, a record read before.\<close>

definition still :: "PaymentRecord \<Rightarrow> payment_table \<Rightarrow> bool" where
  "still rec rows \<longleftrightarrow> tables_ok rows \<and>
     (\<exists>r \<in> set rows. pr_id r = pr_id rec \<and> pr_amount r = pr_amount rec \<and> pr_released r = pr_released rec \<and>
        pr_refunded r = pr_refunded rec)"

definition tab :: "(payment_table \<Rightarrow> bool) \<Rightarrow> 'w escrow_world \<Rightarrow> bool" where
  "tab P w \<longleftrightarrow> P (ew_table w)"

lemma tab_env [keeps_rules]: "keeps (tab P) (run_env f)" "keeps (tab P) (ask_env g)"
  by (auto intro!: keepsI simp: run_env_def ask_env_def tab_def split: prod.splits sum.splits)

lemma tab_locks [keeps_rules]:
  "keeps (tab P) (acquire_funding_lock e h)" "keeps (tab P) (release_funding_lock a h)"
  by (auto intro!: keepsI simp: acquire_funding_lock_def release_funding_lock_def tab_def split: prod.splits option.splits)

lemma tab_table: "(\<And>rows. P rows \<Longrightarrow> P (snd (op rows))) \<Longrightarrow> keeps (tab P) (run_table op)"
  by (auto intro!: keepsI simp: run_table_def tab_def split: prod.splits sum.splits) (metis snd_conv)+

lemma bal_ok_update [simp]: "bal_ok (apply_update u t r) = bal_ok r"
  by (simp add: bal_ok_def)

lemma tables_ok_update: "tables_ok rows \<Longrightarrow> tables_ok (snd (updatePaymentRecord t rid u rows))"
  unfolding tables_ok_def
  by (auto simp: update_keeps) (simp add: updatePaymentRecord_def update_row_rows_in)

lemma still_update: "still rec rows \<Longrightarrow> still rec (snd (updatePaymentRecord t rid u rows))"
proof -
  assume st: "still rec rows"
  then obtain r where r: "r \<in> set rows" "pr_id r = pr_id rec" "pr_amount r = pr_amount rec"
    "pr_released r = pr_released rec" "pr_refunded r = pr_refunded rec"
    by (auto simp: still_def)
  have "\<exists>x \<in> set (snd (updatePaymentRecord t rid u rows)). pr_id x = pr_id rec \<and> pr_amount x = pr_amount rec \<and>
        pr_released x = pr_released rec \<and> pr_refunded x = pr_refunded rec"
  proof (cases "u \<noteq> no_update \<and> (\<exists>x. find (\<lambda>r. pr_id r = rid) rows = Some x)")
    case True
    then have "(if pr_id r = rid then apply_update u t r else r) \<in> set (snd (updatePaymentRecord t rid u rows))"
      using r(1) by (auto simp: updatePaymentRecord_def update_row_def)
    with r show ?thesis by (intro bexI) auto
  next
    case False
    then have "r \<in> set (snd (updatePaymentRecord t rid u rows))"
      using r(1) by (auto simp: updatePaymentRecord_def update_row_def split: option.splits)
    with r show ?thesis by blast
  qed
  with st tables_ok_update show ?thesis by (simp add: still_def)
qed

lemma tables_ok_create:
  "tables_ok rows \<Longrightarrow> tables_ok (snd (createPaymentRecord acc rid t (create_input p) rows))"
proof -
  assume ok: "tables_ok rows"
  obtain res rows' where run: "createPaymentRecord acc rid t (create_input p) rows = (res, rows')" by force
  from create_keeps [OF _ _ _ run] ok have "table_ok rows'" "rows_in row_ok rows'"
    by (auto simp: tables_ok_def create_input_def)
  moreover from run have "rows_in bal_ok rows'"
  proof (cases rule: create_cases)
    case refused
    with ok show ?thesis by (simp add: tables_ok_def)
  next
    case (inserted amount sub tax rate)
    then have "bal_ok (new_row (create_input p) rid t amount sub tax rate)"
      by (simp add: bal_ok_def new_row_def create_input_def)
    with inserted ok show ?thesis by (simp add: rows_in_def tables_ok_def)
  qed
  ultimately show ?thesis using run by (simp add: tables_ok_def)
qed

text \<open>Moving at most the remaining balance keeps the balances in order, and stays within \<^verbatim>\<open>BIGINT\<close>.\<close>

lemma still_increment:
  assumes "still rec rows"
    and "0 \<le> x" "0 \<le> y" "x + y \<le> computeRemaining rec"
    and "d = \<lparr>ad_releasedDelta = (if rel then Some x else None), ad_refundedDelta = (if rel then None else Some y), ad_status = st\<rparr>"
  shows "tables_ok (snd (incrementPaymentRecordAmounts t (pr_id rec) d rows))"
proof -
  have ok: "tables_ok rows" using assms(1) by (simp add: still_def)
  have keep: "bal_ok (add_delta d t z)" if "z \<in> set rows" "pr_id z = pr_id rec" for z
  proof -
    from assms(1) obtain r where r: "r \<in> set rows" "pr_id r = pr_id rec" "pr_amount r = pr_amount rec"
      "pr_released r = pr_released rec" "pr_refunded r = pr_refunded rec"
      by (auto simp: still_def)
    have "inj_on pr_id (set rows)" using ok by (simp add: tables_ok_def table_ok_def distinct_map)
    with that r have "z = r" by (metis inj_onD)
    with r ok assms show ?thesis
      by (auto simp: bal_ok_def add_delta_def computeRemaining_def tables_ok_def rows_in_def)
  qed
  have "rows_in bal_ok (snd (update_row (pr_id rec) (add_delta d t) rows))"
    using ok keep by (auto simp: rows_in_def update_row_def tables_ok_def split: option.splits)
  then have "rows_in bal_ok (snd (incrementPaymentRecordAmounts t (pr_id rec) d rows))"
    using ok by (auto simp: incrementPaymentRecordAmounts_def tables_ok_def update_row_rows_in split: option.splits)
  then show ?thesis using ok by (simp add: tables_ok_def increment_keeps)
qed

lemma keeps_update [keeps_rules]:
  "keeps (tab tables_ok) (update_record env rid u)" "keeps (tab (still rec)) (update_record env rid u)"
  unfolding update_record_def by (intro keeps_rules tab_table tables_ok_update still_update; assumption)+

lemma keeps_submit [keeps_rules]: "keeps (tab P) (submit env req)"
  unfolding submit_def by (intro keeps_rules)

lemma keeps_emit [keeps_rules]: "keeps (tab P) (emitStatusEvent env ch r h x)"
  unfolding emitStatusEvent_def by (intro keeps_rules)

lemma keeps_parse [keeps_rules]: "keeps (tab P) (parseEscrowId e)"
  unfolding parseEscrowId_def by (intro keeps_rules)

lemma keeps_require [keeps_rules]: "keeps (tab P) (require_record e)"
  unfolding require_record_def by (intro keeps_rules)

lemma keeps_invoke [keeps_rules]: "keeps (tab P) (invoke env p me ex memo)"
  unfolding invoke_def by (intro keeps_rules)

lemma keeps_mark [keeps_rules]: "keeps (tab tables_ok) (mark_failed env rid f h x)"
  unfolding mark_failed_def by (intro keeps_rules)

lemma keeps_clear [keeps_rules]:
  "keeps (tab tables_ok) (clear_failure env rid)" "keeps (tab (still rec)) (clear_failure env rid)"
  unfolding clear_failure_def by (intro keeps_rules)+

lemma fund_keeps: "keeps (tab tables_ok) (fundEscrow env p)"
  unfolding fundEscrow_def fund_body_def Let_def
  by (intro keeps_rules tab_table tables_ok_create)

lemma full_ops_keep:
  "keeps (tab tables_ok) (releaseEscrow env p)" "keeps (tab tables_ok) (refundEscrow env p reason)"
  "keeps (tab tables_ok) (disputeEscrow env p)"
  unfolding releaseEscrow_def refundEscrow_def disputeEscrow_def Let_def by (intro keeps_rules)+

lemma find_still: "tables_ok rows \<Longrightarrow> findPaymentRecordByEscrowId e rows = Some r \<Longrightarrow> still r rows"
  by (auto simp: still_def findPaymentRecordByEscrowId_def dest!: find_SomeD)

text \<open>An operation that starts by reading the record of an escrow.\<close>

lemma keeps_from_record:
  assumes "\<And>r. establishes (tab (still r)) (tab tables_ok) (f r)"
  shows "keeps (tab tables_ok) (pbind (require_record e) f)"
proof (rule keepsI)
  fix w :: "'a escrow_world" assume ok: "tab tables_ok w"
  show "tab tables_ok (snd (pbind (require_record e) f w))"
  proof (cases "findPaymentRecordByEscrowId e (ew_table w)")
    case None
    with ok show ?thesis by (simp add: require_record_def prog_simps)
  next
    case (Some r)
    with ok find_still have "tab (still r) w" by (auto simp: tab_def)
    with assms [of r] Some show ?thesis by (simp add: require_record_def prog_simps establishes_def)
  qed
qed

lemma still_tables: "tab (still r) w \<Longrightarrow> tab tables_ok w"
  by (simp add: tab_def still_def)

lemma establishes_increment:
  assumes "0 \<le> q" "q \<le> computeRemaining r"
  shows "establishes (tab (still r)) (tab tables_ok) (increment_record env (pr_id r)
           \<lparr>ad_releasedDelta = Some q, ad_refundedDelta = None, ad_status = st\<rparr>)"
    and "establishes (tab (still r)) (tab tables_ok) (increment_record env (pr_id r)
           \<lparr>ad_releasedDelta = None, ad_refundedDelta = Some q, ad_status = st\<rparr>)"
proof -
  have run: "establishes (tab (still r)) (tab tables_ok) (run_table (incrementPaymentRecordAmounts t (pr_id r) d))"
    if "\<And>rows. still r rows \<Longrightarrow> tables_ok (snd (incrementPaymentRecordAmounts t (pr_id r) d rows))" for t d
    using that by (auto simp: establishes_def tab_def run_table_def split: prod.splits sum.splits) (metis snd_conv)+
  show "establishes (tab (still r)) (tab tables_ok) (increment_record env (pr_id r)
           \<lparr>ad_releasedDelta = Some q, ad_refundedDelta = None, ad_status = st\<rparr>)"
    unfolding increment_record_def
    by (intro establishes_pbind keeps_rules still_tables run still_increment [where x = q and y = 0 and rel = True and st = st])
      (use assms in simp_all)
  show "establishes (tab (still r)) (tab tables_ok) (increment_record env (pr_id r)
           \<lparr>ad_releasedDelta = None, ad_refundedDelta = Some q, ad_status = st\<rparr>)"
    unfolding increment_record_def
    by (intro establishes_pbind keeps_rules still_tables run still_increment [where x = 0 and y = q and rel = False and st = st])
      (use assms in simp_all)
qed

lemma establishes_case_option:
  assumes "x = None \<Longrightarrow> establishes J I m" and "\<And>y. x = Some y \<Longrightarrow> establishes J I (f y)"
  shows "establishes J I (case x of None \<Rightarrow> m | Some y \<Rightarrow> f y)"
  using assms by (cases x) auto

lemma partial_handler_keeps:
  assumes "keeps I m"
  shows "keeps I (case e of InsufficientEscrowBalance a b c \<Rightarrow> pthrow e | _ \<Rightarrow> m)"
  using assms by (cases e) (auto intro: keeps_rules)

text \<open>The rules for the body of a partial operation, from the record it has read.\<close>

lemma from_still:
  "establishes (tab (still r)) (tab tables_ok) (pthrow e)"
  "(\<And>x. establishes (tab (still r)) (tab tables_ok) (f x)) \<Longrightarrow>
     establishes (tab (still r)) (tab tables_ok) (pbind (clear_failure env rid) f)"
  "(\<And>tx. establishes (tab (still r)) (tab tables_ok) (g tx)) \<Longrightarrow>
     establishes (tab (still r)) (tab tables_ok) (pbind (invoke env p me ex memo) g)"
  "(\<And>x. keeps (tab tables_ok) (f x)) \<Longrightarrow>
     establishes (tab (still r)) (tab tables_ok) (pbind (mark_failed env rid a h b) f)"
  by (auto intro!: establishes_keeps [OF keeps_pthrow] establishes_pbind [OF keeps_clear(2)] establishes_pbind [OF keeps_invoke]
      establishes_keeps [OF keeps_pbind [OF keeps_mark]] still_tables)

lemma partial_refund_keeps: "keeps (tab tables_ok) (partialRefundEscrow env p amount reason)"
  unfolding partialRefundEscrow_def Let_def
  by (intro keeps_from_record establishes_case_option establishes_if from_still establishes_pcatch partial_handler_keeps
      establishes_first [OF establishes_increment(2)] keeps_rules) simp_all

lemma partial_release_keeps: "keeps (tab tables_ok) (partialReleaseEscrow env p amount memo)"
  unfolding partialReleaseEscrow_def Let_def
  by (intro keeps_from_record establishes_case_option establishes_if from_still establishes_pcatch partial_handler_keeps
      establishes_first [OF establishes_increment(1)] keeps_rules) simp_all

text \<open>C2: Calls of the coordinator that run one after the other, in every environment, whatever the wallet service, the chain, the
  publisher or the fraud check do, and on every path, errors included, keep the payment table in order: one record per order, and
  for each record the amounts released and refunded are non-negative and together never exceed the escrowed amount. Calls that
  overlap are not covered: two partial refunds that read the record before either is booked exceed the amount, as shown below.\<close>

theorem escrow_balance_invariant:
  assumes "tables_ok (ew_table w)"
    and "w' \<in> {snd (fundEscrow env fp w), snd (releaseEscrow env p w), snd (refundEscrow env p reason w),
              snd (disputeEscrow env p w), snd (partialRefundEscrow env p amount reason w),
              snd (partialReleaseEscrow env p amount memo w)}"
  shows "tables_ok (ew_table w')"
proof -
  have *: "tables_ok (ew_table (snd (m w)))" if "keeps (tab tables_ok) m" for m :: "('a, 'b) escrow_prog"
    using keepsD [OF that, of w] assms(1) by (simp add: tab_def)
  show ?thesis
    using assms(2) * [OF fund_keeps] * [OF full_ops_keep(1)] * [OF full_ops_keep(2)] * [OF full_ops_keep(3)]
      * [OF partial_refund_keeps] * [OF partial_release_keeps] by auto
qed

section \<open>Effects on the current record\<close>

text \<open>\<open>r\<close> is the record that a lookup of escrow \<open>e\<close> finds, in a table that is in order.\<close>

definition current :: "string \<Rightarrow> 'w escrow_world \<Rightarrow> PaymentRecord \<Rightarrow> bool" where
  "current e w r \<longleftrightarrow> tables_ok (ew_table w) \<and> findPaymentRecordByEscrowId e (ew_table w) = Some r"

text \<open>An environment in which the wallet service accepts every call and every call succeeds on chain.\<close>

definition chain_ok :: "'w escrow_env \<Rightarrow> bool" where
  "chain_ok env \<longleftrightarrow> (\<forall>req x. \<exists>tx x'. en_submit env req x = (Inr tx, x') \<and> tx_success tx)"

definition publishes :: "'w escrow_env \<Rightarrow> PaymentStatusChannel \<Rightarrow> bool" where
  "publishes env ch \<longleftrightarrow> (\<forall>ev x. ev_channel ev = ch \<longrightarrow> (\<exists>x'. en_publish env ev x = (Inr (), x')))"

definition publish_fails :: "'w escrow_env \<Rightarrow> PaymentStatusChannel \<Rightarrow> string \<Rightarrow> bool" where
  "publish_fails env ch m \<longleftrightarrow> (\<forall>ev x. ev_channel ev = ch \<longrightarrow> (\<exists>x'. en_publish env ev x = (Inl m, x')))"

lemma current_ext [simp]: "current e (w\<lparr>ew_ext := x\<rparr>) r = current e w r"
  by (simp add: current_def)

lemma ask_run: "\<exists>a x. ask_env f w = (Inr a, w\<lparr>ew_ext := x\<rparr>)"
  by (auto simp: ask_env_def split: prod.splits)

lemma submit_run:
  assumes "chain_ok env"
  shows "\<exists>tx x. submit env req w = (Inr tx, w\<lparr>ew_ext := x\<rparr>) \<and> tx_success tx"
proof -
  obtain tx x' where "en_submit env req (ew_ext w) = (Inr tx, x')" "tx_success tx"
    using assms unfolding chain_ok_def by blast
  then show ?thesis
    by (auto simp: submit_def run_env_def submitContractInvocationWithRetry_def retryWithBackoff_def
        DEFAULT_MAX_RETRIES_def numeral_nat retry_loop.simps(2))
qed

lemma emit_run: "publishes env ch \<Longrightarrow> \<exists>x. emitStatusEvent env ch r h reason w = (Inr (), w\<lparr>ew_ext := x\<rparr>)"
  by (auto simp: emitStatusEvent_def prog_simps ask_env_def run_env_def publishes_def split: prod.splits sum.splits)
    (metis PaymentStatusEventPayload.select_convs(1) prod.inject sum.distinct(1))

lemma emit_fails:
  "publish_fails env ch m \<Longrightarrow> \<exists>x. emitStatusEvent env ch r h reason w = (Inl (ExternalError m), w\<lparr>ew_ext := x\<rparr>)"
  by (auto simp: emitStatusEvent_def prog_simps ask_env_def run_env_def publish_fails_def split: prod.splits sum.splits)
    (metis PaymentStatusEventPayload.select_convs(1) prod.inject sum.inject(1) sum.distinct(1))+

lemma find_map_row:
  assumes "\<And>x. pr_escrowId (f x) = pr_escrowId x"
  shows "findPaymentRecordByEscrowId e (map (\<lambda>x. if pr_id x = rid then f x else x) rows) =
     map_option (\<lambda>x. if pr_id x = rid then f x else x) (findPaymentRecordByEscrowId e rows)"
  unfolding findPaymentRecordByEscrowId_def by (induction rows) (auto simp: assms)

lemma current_update_row:
  assumes "current e w r" and "tables_ok (snd (update_row (pr_id r) f (ew_table w)))"
    and "\<And>x. pr_escrowId (f x) = pr_escrowId x"
  shows "\<exists>w'. run_table (update_row (pr_id r) f) w = (Inr (f r), w') \<and> current e w' (f r)"
proof -
  have r: "r \<in> set (ew_table w)" "findPaymentRecordByEscrowId e (ew_table w) = Some r" "table_ok (ew_table w)"
    using assms(1) by (auto simp: current_def findPaymentRecordByEscrowId_def tables_ok_def dest: find_SomeD)
  then have "update_row (pr_id r) f (ew_table w) =
      (Inr (f r), map (\<lambda>x. if pr_id x = pr_id r then f x else x) (ew_table w))"
    by (simp add: update_row_found)
  with assms(2,3) r(2) show ?thesis by (simp add: run_table_def current_def find_map_row)
qed

lemma update_current:
  assumes "current e w r" and "pu_escrowId u = None" and "u \<noteq> no_update"
  shows "\<exists>t w'. update_record env (pr_id r) u w = (Inr (apply_update u t r), w') \<and> current e w' (apply_update u t r)"
proof -
  obtain t x where ask: "ask_env (en_now env) w = (Inr t, w\<lparr>ew_ext := x\<rparr>)" using ask_run [of "en_now env" w] by blast
  have "tables_ok (snd (update_row (pr_id r) (apply_update u t) (ew_table w)))"
    using tables_ok_update [of "ew_table w" t "pr_id r" u] assms(1,3) by (simp add: current_def updatePaymentRecord_def)
  moreover have "pr_escrowId (apply_update u t y) = pr_escrowId y" for y
    using assms(2) by (simp add: apply_update_def)
  ultimately have "\<exists>w'. run_table (update_row (pr_id r) (apply_update u t)) (w\<lparr>ew_ext := x\<rparr>) = (Inr (apply_update u t r), w') \<and>
      current e w' (apply_update u t r)"
    using current_update_row [of e "w\<lparr>ew_ext := x\<rparr>" r "apply_update u t"] assms(1) by simp
  then show ?thesis using ask assms(3) by (auto simp: update_record_def pbind_apply updatePaymentRecord_def)
qed

lemma increment_current:
  assumes "current e w r" and "0 \<le> q" "q \<le> computeRemaining r"
    and "d = \<lparr>ad_releasedDelta = (if rel then Some q else None), ad_refundedDelta = (if rel then None else Some q), ad_status = st\<rparr>"
  shows "\<exists>t w'. increment_record env (pr_id r) d w = (Inr (add_delta d t r), w') \<and> current e w' (add_delta d t r)"
proof -
  obtain t x where ask: "ask_env (en_now env) w = (Inr t, w\<lparr>ew_ext := x\<rparr>)" using ask_run [of "en_now env" w] by blast
  have r: "r \<in> set (ew_table w)" "tables_ok (ew_table w)" "still r (ew_table w)"
    using assms(1) find_still by (auto simp: current_def findPaymentRecordByEscrowId_def dest: find_SomeD)
  have "row_ok r" "bal_ok r" using r(1,2) by (auto simp: tables_ok_def rows_in_def)
  then have fits: "bigint_ok (pr_released (add_delta d t r))" "bigint_ok (pr_refunded (add_delta d t r))"
    using assms(2-4) by (auto simp: row_ok_def bal_ok_def bigint_ok_def add_delta_def computeRemaining_def)
  have found: "find (\<lambda>y. pr_id y = pr_id r) (ew_table w) = Some r"
    using r find_unique_key by (auto simp: tables_ok_def table_ok_def)
  have op: "incrementPaymentRecordAmounts t (pr_id r) d (ew_table w) = update_row (pr_id r) (add_delta d t) (ew_table w)"
    using fits found assms(4) by (simp add: incrementPaymentRecordAmounts_def no_delta_def)
  have "tables_ok (snd (update_row (pr_id r) (add_delta d t) (ew_table w)))"
    unfolding op [symmetric]
    by (rule still_increment [OF r(3), of "if rel then q else 0" "if rel then 0 else q" d rel st])
      (use assms(2-4) in simp_all)
  then have "\<exists>w'. run_table (update_row (pr_id r) (add_delta d t)) (w\<lparr>ew_ext := x\<rparr>) = (Inr (add_delta d t r), w') \<and>
      current e w' (add_delta d t r)"
    using current_update_row [of e "w\<lparr>ew_ext := x\<rparr>" r "add_delta d t"] assms(1) by simp
  then show ?thesis using ask op by (auto simp: increment_record_def pbind_apply run_table_def)
qed

lemma require_current: "current e w r \<Longrightarrow> require_record e w = (Inr r, w)"
  by (simp add: require_record_def prog_simps current_def)

lemma invoke_run:
  assumes "chain_ok env" and "js_integer (ep_escrowId p) = Some n" and "0 \<le> n"
  shows "\<exists>tx x. invoke env p me ex memo w = (Inr tx, w\<lparr>ew_ext := x\<rparr>) \<and> tx_success tx"
  using submit_run [OF assms(1)] assms(2,3) by (simp add: invoke_def parseEscrowId_def)

lemma clear_current:
  "current e w r \<Longrightarrow> \<exists>t w'. clear_failure env (pr_id r) w = (Inr (apply_update (no_update\<lparr>pu_failureReason := Some None\<rparr>) t r), w') \<and>
     current e w' (apply_update (no_update\<lparr>pu_failureReason := Some None\<rparr>) t r)"
  unfolding clear_failure_def by (rule update_current) (simp_all add: no_update_def)

section \<open>Partial refunds and releases\<close>

lemma remaining_update [simp]: "computeRemaining (apply_update u t r) = computeRemaining r"
  by (simp add: computeRemaining_def)

lemma apply_clear [simp]:
  "pr_status (apply_update (no_update\<lparr>pu_failureReason := x\<rparr>) t r) = pr_status r"
  by (simp add: apply_update_def no_update_def keep_def)

lemma partial_refund_run:
  assumes "current (ep_escrowId p) w r" and "0 < q" and "q \<le> computeRemaining r"
    and "chain_ok env" and "js_integer (ep_escrowId p) = Some n" "0 \<le> n" and "publishes env ChPartialRefunded"
  shows "\<exists>res w' r'. partialRefundEscrow env p (Some q) reason w = (Inr res, w') \<and>
    pt_status res = OpPartialRefunded \<and> pt_movedAmount res = q \<and> pt_remainingAmount res = computeRemaining r - q \<and>
    current (ep_escrowId p) w' r' \<and> pr_refunded r' = pr_refunded r + q \<and> pr_released r' = pr_released r \<and>
    pr_amount r' = pr_amount r \<and>
    pr_status r' = (if computeRemaining r = q \<and> pr_released r = 0 then PRefunded else pr_status r)"
proof -
  define u where "u = no_update\<lparr>pu_failureReason := Some None\<rparr>"
  define d where "d = \<lparr>ad_releasedDelta = None, ad_refundedDelta = Some q,
      ad_status = (if computeRemaining r - q = 0 \<and> pr_released r = 0 then Some PRefunded else None)\<rparr>"
  obtain t w1 where c: "clear_failure env (pr_id r) w = (Inr (apply_update u t r), w1)"
    "current (ep_escrowId p) w1 (apply_update u t r)"
    using clear_current [OF assms(1), of env] unfolding u_def by blast
  obtain tx x where i: "invoke env p ''partial_refund'' [ArgAmount (Some q)]
      (''Partial refund escrow '' @ ep_escrowId p @ '' ('' @ reason @ '')'') w1 = (Inr tx, w1\<lparr>ew_ext := x\<rparr>)" "tx_success tx"
    using invoke_run [OF assms(4-6)] by blast
  define r2 where "r2 = (\<lambda>t'. add_delta d t' (apply_update u t r))"
  have "\<exists>t' w2. increment_record env (pr_id (apply_update u t r)) d (w1\<lparr>ew_ext := x\<rparr>) = (Inr (r2 t'), w2) \<and>
      current (ep_escrowId p) w2 (r2 t')"
    unfolding r2_def by (rule increment_current [where rel = False and q = q]) (use c(2) assms(2,3) in \<open>simp_all add: d_def\<close>)
  then obtain t' w2 where inc: "increment_record env (pr_id r) d (w1\<lparr>ew_ext := x\<rparr>) = (Inr (r2 t'), w2)"
    "current (ep_escrowId p) w2 (r2 t')" by auto
  obtain y where em: "emitStatusEvent env ChPartialRefunded (r2 t') (Some (tx_hash tx)) (Some reason) w2 =
      (Inr (), w2\<lparr>ew_ext := y\<rparr>)"
    using emit_run [OF assms(7)] by blast
  define res where "res = \<lparr>pt_txHash = tx_hash tx, pt_ledger = tx_ledger tx, pt_status = OpPartialRefunded,
      pt_address = pr_buyerAddress r, pt_movedAmount = q, pt_remainingAmount = computeRemaining r - q\<rparr>"
  have "partialRefundEscrow env p (Some q) reason w = (Inr res, w2\<lparr>ew_ext := y\<rparr>)"
    unfolding partialRefundEscrow_def Let_def res_def
    using require_current [OF assms(1)] assms(2,3) c(1) i inc(1) em
    by (simp add: d_def pbind_apply pcatch_apply pret_apply split del: if_split)
  moreover have "current (ep_escrowId p) (w2\<lparr>ew_ext := y\<rparr>) (r2 t')" using inc(2) by simp
  moreover have "pr_refunded (r2 t') = pr_refunded r + q" "pr_released (r2 t') = pr_released r" "pr_amount (r2 t') = pr_amount r"
    "pr_status (r2 t') = (if computeRemaining r = q \<and> pr_released r = 0 then PRefunded else pr_status r)"
    by (simp_all add: r2_def add_delta_def d_def keep_def u_def)
  moreover have "pt_status res = OpPartialRefunded" "pt_movedAmount res = q" "pt_remainingAmount res = computeRemaining r - q"
    by (simp_all add: res_def)
  ultimately show ?thesis by blast
qed

lemma partial_release_run:
  assumes "current (ep_escrowId p) w r" and "0 < q" and "q \<le> computeRemaining r"
    and "chain_ok env" and "js_integer (ep_escrowId p) = Some n" "0 \<le> n" and "publishes env ChPartialReleased"
  shows "\<exists>res w' r'. partialReleaseEscrow env p (Some q) memo w = (Inr res, w') \<and>
    pt_status res = OpPartialReleased \<and> pt_movedAmount res = q \<and> pt_remainingAmount res = computeRemaining r - q \<and>
    current (ep_escrowId p) w' r' \<and> pr_released r' = pr_released r + q \<and> pr_refunded r' = pr_refunded r \<and>
    pr_amount r' = pr_amount r \<and>
    pr_status r' = (if computeRemaining r = q \<and> pr_refunded r = 0 then PReleased else pr_status r)"
proof -
  define u where "u = no_update\<lparr>pu_failureReason := Some None\<rparr>"
  define d where "d = \<lparr>ad_releasedDelta = Some q, ad_refundedDelta = None,
      ad_status = (if computeRemaining r - q = 0 \<and> pr_refunded r = 0 then Some PReleased else None)\<rparr>"
  obtain t w1 where c: "clear_failure env (pr_id r) w = (Inr (apply_update u t r), w1)"
    "current (ep_escrowId p) w1 (apply_update u t r)"
    using clear_current [OF assms(1), of env] unfolding u_def by blast
  obtain tx x where i: "invoke env p ''partial_release'' [ArgAmount (Some q)]
      (case memo of None \<Rightarrow> ''Partial release escrow '' @ ep_escrowId p | Some m \<Rightarrow> m) w1 = (Inr tx, w1\<lparr>ew_ext := x\<rparr>)" "tx_success tx"
    using invoke_run [OF assms(4-6)] by blast
  define r2 where "r2 = (\<lambda>t'. add_delta d t' (apply_update u t r))"
  have "\<exists>t' w2. increment_record env (pr_id (apply_update u t r)) d (w1\<lparr>ew_ext := x\<rparr>) = (Inr (r2 t'), w2) \<and>
      current (ep_escrowId p) w2 (r2 t')"
    unfolding r2_def by (rule increment_current [where rel = True and q = q]) (use c(2) assms(2,3) in \<open>simp_all add: d_def\<close>)
  then obtain t' w2 where inc: "increment_record env (pr_id r) d (w1\<lparr>ew_ext := x\<rparr>) = (Inr (r2 t'), w2)"
    "current (ep_escrowId p) w2 (r2 t')" by auto
  obtain y where em: "emitStatusEvent env ChPartialReleased (r2 t') (Some (tx_hash tx)) None w2 =
      (Inr (), w2\<lparr>ew_ext := y\<rparr>)"
    using emit_run [OF assms(7)] by blast
  define res where "res = \<lparr>pt_txHash = tx_hash tx, pt_ledger = tx_ledger tx, pt_status = OpPartialReleased,
      pt_address = pr_sellerAddress r, pt_movedAmount = q, pt_remainingAmount = computeRemaining r - q\<rparr>"
  have "partialReleaseEscrow env p (Some q) memo w = (Inr res, w2\<lparr>ew_ext := y\<rparr>)"
    unfolding partialReleaseEscrow_def Let_def res_def
    using require_current [OF assms(1)] assms(2,3) c(1) i inc(1) em
    by (simp add: d_def pbind_apply pcatch_apply pret_apply split del: if_split)
  moreover have "current (ep_escrowId p) (w2\<lparr>ew_ext := y\<rparr>) (r2 t')" using inc(2) by simp
  moreover have "pr_released (r2 t') = pr_released r + q" "pr_refunded (r2 t') = pr_refunded r" "pr_amount (r2 t') = pr_amount r"
    "pr_status (r2 t') = (if computeRemaining r = q \<and> pr_refunded r = 0 then PReleased else pr_status r)"
    by (simp_all add: r2_def add_delta_def d_def keep_def u_def)
  moreover have "pt_status res = OpPartialReleased" "pt_movedAmount res = q" "pt_remainingAmount res = computeRemaining r - q"
    by (simp_all add: res_def)
  ultimately show ?thesis by blast
qed

text \<open>C27: A partial refund or release of an amount within the remaining balance, on a chain that accepts it and with
  a working publisher, moves exactly that amount: the answer and the stored record agree on the new
  balance, the other total is unchanged, and the status becomes refunded (released) exactly when nothing
  is left and nothing was ever released (refunded). An amount that is not positive or exceeds the
  balance is refused with the balance error, without a contract call and without any change.\<close>

theorem partial_operations_effect:
  assumes "current (ep_escrowId p) w r" and "chain_ok env" and "js_integer (ep_escrowId p) = Some n" "0 \<le> n"
    and "publishes env ChPartialRefunded" and "publishes env ChPartialReleased"
  shows "(0 < q \<and> q \<le> computeRemaining r \<longrightarrow>
      (\<exists>res w' r'. partialRefundEscrow env p (Some q) reason w = (Inr res, w') \<and>
         pt_status res = OpPartialRefunded \<and> pt_movedAmount res = q \<and> pt_remainingAmount res = computeRemaining r - q \<and>
         current (ep_escrowId p) w' r' \<and> pr_refunded r' = pr_refunded r + q \<and> pr_released r' = pr_released r \<and>
         pr_amount r' = pr_amount r \<and>
         pr_status r' = (if computeRemaining r = q \<and> pr_released r = 0 then PRefunded else pr_status r)) \<and>
      (\<exists>res w' r'. partialReleaseEscrow env p (Some q) memo w = (Inr res, w') \<and>
         pt_status res = OpPartialReleased \<and> pt_movedAmount res = q \<and> pt_remainingAmount res = computeRemaining r - q \<and>
         current (ep_escrowId p) w' r' \<and> pr_released r' = pr_released r + q \<and> pr_refunded r' = pr_refunded r \<and>
         pr_amount r' = pr_amount r \<and>
         pr_status r' = (if computeRemaining r = q \<and> pr_refunded r = 0 then PReleased else pr_status r))) \<and>
    (\<not> (0 < q \<and> q \<le> computeRemaining r) \<longrightarrow>
      partialRefundEscrow env p (Some q) reason w =
        (Inl (InsufficientEscrowBalance (ep_escrowId p) (computeRemaining r) q), w) \<and>
      partialReleaseEscrow env p (Some q) memo w =
        (Inl (InsufficientEscrowBalance (ep_escrowId p) (computeRemaining r) q), w))"
proof (intro conjI impI)
  assume q: "0 < q \<and> q \<le> computeRemaining r"
  show "\<exists>res w' r'. partialRefundEscrow env p (Some q) reason w = (Inr res, w') \<and>
         pt_status res = OpPartialRefunded \<and> pt_movedAmount res = q \<and> pt_remainingAmount res = computeRemaining r - q \<and>
         current (ep_escrowId p) w' r' \<and> pr_refunded r' = pr_refunded r + q \<and> pr_released r' = pr_released r \<and>
         pr_amount r' = pr_amount r \<and>
         pr_status r' = (if computeRemaining r = q \<and> pr_released r = 0 then PRefunded else pr_status r)"
    using partial_refund_run [OF assms(1) _ _ assms(2-5)] q by blast
  show "\<exists>res w' r'. partialReleaseEscrow env p (Some q) memo w = (Inr res, w') \<and>
         pt_status res = OpPartialReleased \<and> pt_movedAmount res = q \<and> pt_remainingAmount res = computeRemaining r - q \<and>
         current (ep_escrowId p) w' r' \<and> pr_released r' = pr_released r + q \<and> pr_refunded r' = pr_refunded r \<and>
         pr_amount r' = pr_amount r \<and>
         pr_status r' = (if computeRemaining r = q \<and> pr_refunded r = 0 then PReleased else pr_status r)"
    using partial_release_run [OF assms(1) _ _ assms(2-4,6)] q by blast
next
  assume "\<not> (0 < q \<and> q \<le> computeRemaining r)"
  then have q: "q \<le> 0 \<or> computeRemaining r < q" by auto
  show "partialRefundEscrow env p (Some q) reason w = (Inl (InsufficientEscrowBalance (ep_escrowId p) (computeRemaining r) q), w)"
    using require_current [OF assms(1)] q by (simp add: partialRefundEscrow_def pbind_apply pthrow_apply)
  show "partialReleaseEscrow env p (Some q) memo w = (Inl (InsufficientEscrowBalance (ep_escrowId p) (computeRemaining r) q), w)"
    using require_current [OF assms(1)] q by (simp add: partialReleaseEscrow_def pbind_apply pthrow_apply)
qed

text \<open>An environment in which everything works, and a world with one funded escrow.\<close>

definition demo_env :: "unit escrow_env" where
  "demo_env = \<lparr>en_submit = (\<lambda>req x. (Inr \<lparr>tx_hash = ''h'', tx_ledger = 9, tx_success = True\<rparr>, x)), en_sleep = (\<lambda>d x. x),
     en_extract = (\<lambda>h x. (Inr ''7'', x)), en_readEscrow = (\<lambda>a b c x. (Inl ''no chain'', x)),
     en_publish = (\<lambda>ev x. (Inr (), x)), en_paused = (\<lambda>a x. (False, x)), en_newId = (\<lambda>x. (''p2'', x)), en_now = (\<lambda>x. (77, x)),
     en_accepts = (\<lambda>_. True), en_orderBytes = (\<lambda>_. []), en_ESCROW_CONTRACT_ID = None, en_readSource = None\<rparr>"

definition demo_escrow_world :: "unit escrow_world" where
  "demo_escrow_world = \<lparr>ew_table = [demo_row], ew_locks = new_manager DEFAULT_LOCK_CONFIG demo_clock (\<lambda>_ ts. ts), ew_ext = ()\<rparr>"

definition demo_call :: EscrowCallParams where
  "demo_call = \<lparr>ep_escrowId = ''7'', ep_escrowContractId = ''C'', ep_callerAddress = ''B''\<rparr>"

lemma demo_current: "current (ep_escrowId demo_call) demo_escrow_world demo_row"
  by (simp add: current_def demo_call_def demo_escrow_world_def tables_ok_def table_ok_def rows_in_def row_ok_def bal_ok_def
      bigint_ok_def demo_row_def new_row_def demo_input_def findPaymentRecordByEscrowId_def)

lemma demo_env_works: "chain_ok demo_env" "publishes demo_env ch" "js_integer (ep_escrowId demo_call) = Some 7"
  by (simp_all add: chain_ok_def publishes_def demo_env_def demo_call_def js_integer_def js_trim_def js_space_def
      digit_def digits_value_def)

lemma demo_remaining: "computeRemaining demo_row = 1000"
  by (simp add: computeRemaining_def demo_row_def new_row_def)

theorem partial_operations_effect_witness:
  "\<exists>res w'. partialRefundEscrow demo_env demo_call (Some 400) ''late'' demo_escrow_world = (Inr res, w') \<and>
     pt_remainingAmount res = 600"
  using partial_operations_effect [OF demo_current demo_env_works(1,3) _ demo_env_works(2) demo_env_works(2), of 400 "''late''" None]
    demo_remaining by auto

section \<open>Full releases\<close>

abbreviation released_update :: "string \<Rightarrow> PaymentRecordUpdate" where
  "released_update h \<equiv> no_update\<lparr>pu_status := Some PReleased, pu_releaseTxHash := Some (Some h), pu_failureReason := Some None\<rparr>"

text \<open>The part of a release that every environment with a working chain shares: up to the event.\<close>

lemma release_until_event:
  assumes "current (ep_escrowId p) w r" and "pr_status r \<noteq> PReleased"
    and "chain_ok env" and "js_integer (ep_escrowId p) = Some n" "0 \<le> n"
  obtains tx t t' w1 w2 w3 where
    "clear_failure env (pr_id r) w = (Inr (apply_update (no_update\<lparr>pu_failureReason := Some None\<rparr>) t r), w1)"
    "invoke env p ''release'' [] (''Release escrow '' @ ep_escrowId p) w1 = (Inr tx, w2)" "tx_success tx"
    "update_record env (pr_id r) (released_update (tx_hash tx)) w2 =
       (Inr (apply_update (released_update (tx_hash tx)) t' (apply_update (no_update\<lparr>pu_failureReason := Some None\<rparr>) t r)), w3)"
    "current (ep_escrowId p) w3
       (apply_update (released_update (tx_hash tx)) t' (apply_update (no_update\<lparr>pu_failureReason := Some None\<rparr>) t r))"
proof -
  define u where "u = no_update\<lparr>pu_failureReason := Some None\<rparr>"
  obtain t w1 where c: "clear_failure env (pr_id r) w = (Inr (apply_update u t r), w1)"
    "current (ep_escrowId p) w1 (apply_update u t r)"
    using clear_current [OF assms(1), of env] unfolding u_def by blast
  obtain tx x where i: "invoke env p ''release'' [] (''Release escrow '' @ ep_escrowId p) w1 = (Inr tx, w1\<lparr>ew_ext := x\<rparr>)"
    "tx_success tx"
    using invoke_run [OF assms(3-5)] by blast
  have "\<exists>t' w3. update_record env (pr_id (apply_update u t r)) (released_update (tx_hash tx)) (w1\<lparr>ew_ext := x\<rparr>) =
      (Inr (apply_update (released_update (tx_hash tx)) t' (apply_update u t r)), w3) \<and>
      current (ep_escrowId p) w3 (apply_update (released_update (tx_hash tx)) t' (apply_update u t r))"
    by (rule update_current) (use c(2) in \<open>simp_all add: no_update_def\<close>)
  with c(1) i that show ?thesis unfolding u_def by fastforce
qed

lemma released_fields [simp]:
  "pr_status (apply_update (released_update h) t r) = PReleased"
  "pr_releaseTxHash (apply_update (released_update h) t r) = Some h"
  by (simp_all add: apply_update_def no_update_def keep_def)

lemma release_run:
  assumes "current (ep_escrowId p) w r" and "pr_status r \<noteq> PReleased"
    and "chain_ok env" and "js_integer (ep_escrowId p) = Some n" "0 \<le> n" and "publishes env ChReleased"
  shows "\<exists>res w' r'. releaseEscrow env p w = (Inr res, w') \<and> rl_status res = OpReleased \<and>
     current (ep_escrowId p) w' r' \<and> pr_status r' = PReleased \<and> pr_releaseTxHash r' = Some (rl_txHash res) \<and>
     pr_amount r' = pr_amount r \<and> pr_released r' = pr_released r \<and> pr_refunded r' = pr_refunded r"
proof -
  obtain tx t t' w1 w2 w3 where run:
    "clear_failure env (pr_id r) w = (Inr (apply_update (no_update\<lparr>pu_failureReason := Some None\<rparr>) t r), w1)"
    "invoke env p ''release'' [] (''Release escrow '' @ ep_escrowId p) w1 = (Inr tx, w2)" "tx_success tx"
    "update_record env (pr_id r) (released_update (tx_hash tx)) w2 =
       (Inr (apply_update (released_update (tx_hash tx)) t' (apply_update (no_update\<lparr>pu_failureReason := Some None\<rparr>) t r)), w3)"
    and cur: "current (ep_escrowId p) w3
       (apply_update (released_update (tx_hash tx)) t' (apply_update (no_update\<lparr>pu_failureReason := Some None\<rparr>) t r))"
    by (rule release_until_event [OF assms(1-5)])
  let ?r3 = "apply_update (released_update (tx_hash tx)) t' (apply_update (no_update\<lparr>pu_failureReason := Some None\<rparr>) t r)"
  obtain y where em: "emitStatusEvent env ChReleased ?r3 (Some (tx_hash tx)) None w3 = (Inr (), w3\<lparr>ew_ext := y\<rparr>)"
    using emit_run [OF assms(6)] by blast
  have "releaseEscrow env p w = (Inr \<lparr>rl_txHash = tx_hash tx, rl_ledger = tx_ledger tx, rl_status = OpReleased,
      rl_sellerAddress = pr_sellerAddress r, rl_amount = pr_amount r\<rparr>, w3\<lparr>ew_ext := y\<rparr>)"
    unfolding releaseEscrow_def Let_def
    using require_current [OF assms(1)] assms(2) run em by (simp add: pbind_apply pcatch_apply pret_apply)
  with cur show ?thesis by (intro exI [of _ "\<lparr>rl_txHash = tx_hash tx, rl_ledger = tx_ledger tx, rl_status = OpReleased,
      rl_sellerAddress = pr_sellerAddress r, rl_amount = pr_amount r\<rparr>"] exI [of _ "w3\<lparr>ew_ext := y\<rparr>"] exI [of _ ?r3]) simp
qed

text \<open>A full release sets the status but not the released amount: afterwards the remaining balance is
  reported as before, and a partial refund of it is accepted, submitted to the chain and recorded.\<close>

theorem release_leaves_balance:
  assumes "current (ep_escrowId p) w r" and "pr_status r \<noteq> PReleased"
    and "chain_ok env" and "js_integer (ep_escrowId p) = Some n" "0 \<le> n"
    and "publishes env ChReleased" and "publishes env ChPartialRefunded" and "0 < q" and "q \<le> computeRemaining r"
  shows "\<exists>res w' b pres w''. releaseEscrow env p w = (Inr res, w') \<and> rl_status res = OpReleased \<and>
     getRemainingBalance (ep_escrowId p) w' = (Inr b, w') \<and> rb_remainingAmount b = computeRemaining r \<and>
     partialRefundEscrow env p (Some q) reason w' = (Inr pres, w'') \<and> pt_status pres = OpPartialRefunded"
proof -
  obtain res w' r' where rel: "releaseEscrow env p w = (Inr res, w')" "rl_status res = OpReleased"
    "current (ep_escrowId p) w' r'" "pr_amount r' = pr_amount r" "pr_released r' = pr_released r" "pr_refunded r' = pr_refunded r"
    using release_run [OF assms(1-6)] by blast
  have rem: "computeRemaining r' = computeRemaining r" using rel by (simp add: computeRemaining_def)
  obtain pres w'' where "partialRefundEscrow env p (Some q) reason w' = (Inr pres, w'')" "pt_status pres = OpPartialRefunded"
    using partial_refund_run [OF rel(3) assms(8) _ assms(3-5,7)] rem assms(9) by metis
  moreover obtain b where "getRemainingBalance (ep_escrowId p) w' = (Inr b, w')" "rb_remainingAmount b = computeRemaining r'"
    using require_current [OF rel(3)] by (simp add: getRemainingBalance_def pbind_apply pret_apply)
  ultimately show ?thesis using rel(1,2) rem by auto
qed

theorem release_leaves_balance_witness:
  "\<exists>res w' pres w''. releaseEscrow demo_env demo_call demo_escrow_world = (Inr res, w') \<and> rl_status res = OpReleased \<and>
     partialRefundEscrow demo_env demo_call (Some 1000) ''again'' w' = (Inr pres, w'') \<and> pt_status pres = OpPartialRefunded"
proof -
  have "pr_status demo_row \<noteq> PReleased" by (simp add: demo_row_def)
  from release_leaves_balance [OF demo_current this demo_env_works(1,3) _ demo_env_works(2) demo_env_works(2), of 1000 "''again''"]
    demo_remaining show ?thesis by auto
qed

text \<open>A publisher failure undoes the bookkeeping of a release that succeeded: with the contract call accepted and
  successful, the release stored with its transaction hash, and the released event not published, the
  record's status is overwritten with failed and the caller is told the release failed.\<close>

theorem publisher_failure_marks_failed:
  assumes "current (ep_escrowId p) w r" and "pr_status r \<noteq> PReleased"
    and "chain_ok env" and "js_integer (ep_escrowId p) = Some n" "0 \<le> n"
    and "publish_fails env ChReleased m" and "publishes env ChFailed"
  shows "\<exists>res w' r' h. releaseEscrow env p w = (Inr res, w') \<and> rl_status res = OpFailed \<and>
     current (ep_escrowId p) w' r' \<and> pr_status r' = PFailed \<and> pr_releaseTxHash r' = Some h \<and> pr_failureReason r' = Some m"
proof -
  obtain tx t t' w1 w2 w3 where run:
    "clear_failure env (pr_id r) w = (Inr (apply_update (no_update\<lparr>pu_failureReason := Some None\<rparr>) t r), w1)"
    "invoke env p ''release'' [] (''Release escrow '' @ ep_escrowId p) w1 = (Inr tx, w2)" "tx_success tx"
    "update_record env (pr_id r) (released_update (tx_hash tx)) w2 =
       (Inr (apply_update (released_update (tx_hash tx)) t' (apply_update (no_update\<lparr>pu_failureReason := Some None\<rparr>) t r)), w3)"
    and cur: "current (ep_escrowId p) w3
       (apply_update (released_update (tx_hash tx)) t' (apply_update (no_update\<lparr>pu_failureReason := Some None\<rparr>) t r))"
    by (rule release_until_event [OF assms(1-5)])
  define r3 where "r3 = apply_update (released_update (tx_hash tx)) t' (apply_update (no_update\<lparr>pu_failureReason := Some None\<rparr>) t r)"
  define u where "u = no_update\<lparr>pu_status := Some PFailed, pu_failureReason := Some (Some m)\<rparr>"
  obtain y where em: "emitStatusEvent env ChReleased r3 (Some (tx_hash tx)) None w3 = (Inl (ExternalError m), w3\<lparr>ew_ext := y\<rparr>)"
    using emit_fails [OF assms(6)] by blast
  have "\<exists>t4 w4. update_record env (pr_id r3) u (w3\<lparr>ew_ext := y\<rparr>) = (Inr (apply_update u t4 r3), w4) \<and>
      current (ep_escrowId p) w4 (apply_update u t4 r3)"
    by (rule update_current) (use cur in \<open>simp_all add: r3_def u_def no_update_def\<close>)
  then obtain t4 w4 where up: "update_record env (pr_id r) u (w3\<lparr>ew_ext := y\<rparr>) = (Inr (apply_update u t4 r3), w4)"
    "current (ep_escrowId p) w4 (apply_update u t4 r3)" by (auto simp: r3_def)
  obtain z where em2: "emitStatusEvent env ChFailed (apply_update u t4 r3) None (Some m) w4 = (Inr (), w4\<lparr>ew_ext := z\<rparr>)"
    using emit_run [OF assms(7)] by blast
  have "releaseEscrow env p w = (Inr \<lparr>rl_txHash = or_empty (pr_releaseTxHash r), rl_ledger = 0, rl_status = OpFailed,
      rl_sellerAddress = pr_sellerAddress r, rl_amount = pr_amount r\<rparr>, w4\<lparr>ew_ext := z\<rparr>)"
    unfolding releaseEscrow_def Let_def mark_failed_def
    using require_current [OF assms(1)] assms(2) run em up(1) em2
    by (simp add: pbind_apply pcatch_apply pret_apply r3_def u_def)
  moreover have "pr_status (apply_update u t4 r3) = PFailed" "pr_releaseTxHash (apply_update u t4 r3) = Some (tx_hash tx)"
    "pr_failureReason (apply_update u t4 r3) = Some m"
    by (simp_all add: u_def r3_def apply_update_def no_update_def keep_def)
  ultimately show ?thesis using up(2) by fastforce
qed

theorem publisher_failure_marks_failed_witness:
  "\<exists>res w'. releaseEscrow (demo_env\<lparr>en_publish := (\<lambda>ev x. (if ev_channel ev = ChReleased then Inl ''redis down'' else Inr (), x))\<rparr>)
     demo_call demo_escrow_world = (Inr res, w') \<and> rl_status res = OpFailed"
proof -
  define env where "env = demo_env\<lparr>en_publish := (\<lambda>ev x. (if ev_channel ev = ChReleased then Inl ''redis down'' else Inr (), x))\<rparr>"
  have "chain_ok env" "publish_fails env ChReleased ''redis down''" "publishes env ChFailed" "pr_status demo_row \<noteq> PReleased"
    by (simp_all add: env_def chain_ok_def publish_fails_def publishes_def demo_env_def demo_row_def)
  from publisher_failure_marks_failed [OF demo_current this(4) this(1) demo_env_works(3) _ this(2,3)]
  show ?thesis unfolding env_def by auto
qed

section \<open>Repeated requests\<close>

text \<open>A release that has succeeded is not repeated: asking again returns the same transaction hash without a
  contract call, an event or any change of the world. The same holds of refunds and disputes, whose
  record carries the status and a hash, and of funding, for an order that has a payment record.\<close>

theorem repeated_requests_change_nothing:
  assumes "current (ep_escrowId p) w r"
  shows "(pr_status r = PReleased \<and> truthy (pr_releaseTxHash r) \<longrightarrow>
           (\<exists>res. releaseEscrow env p w = (Inr res, w) \<and> rl_status res = OpReleased \<and> Some (rl_txHash res) = pr_releaseTxHash r)) \<and>
         (pr_status r = PRefunded \<and> truthy (pr_refundTxHash r) \<longrightarrow>
           (\<exists>res. refundEscrow env p reason w = (Inr res, w) \<and> rf_status res = OpRefunded \<and> Some (rf_txHash res) = pr_refundTxHash r)) \<and>
         (pr_status r = PDisputed \<and> truthy (pr_disputeTxHash r) \<longrightarrow>
           (\<exists>res. disputeEscrow env p w = (Inr res, w) \<and> ds_status res = OpDisputed \<and> Some (ds_txHash res) = pr_disputeTxHash r)) \<and>
         (fp_orderId fp = pr_orderId r \<longrightarrow> fundEscrow env fp w = (Inr (toFundResult r 0), w))"
proof (intro conjI impI)
  note run = require_current [OF assms] pbind_apply pret_apply or_empty_def truthy_def
  show "\<exists>res. releaseEscrow env p w = (Inr res, w) \<and> rl_status res = OpReleased \<and> Some (rl_txHash res) = pr_releaseTxHash r"
    if "pr_status r = PReleased \<and> truthy (pr_releaseTxHash r)"
    using that by (auto simp: releaseEscrow_def run split: option.splits)
  show "\<exists>res. refundEscrow env p reason w = (Inr res, w) \<and> rf_status res = OpRefunded \<and> Some (rf_txHash res) = pr_refundTxHash r"
    if "pr_status r = PRefunded \<and> truthy (pr_refundTxHash r)"
    using that by (auto simp: refundEscrow_def run split: option.splits)
  show "\<exists>res. disputeEscrow env p w = (Inr res, w) \<and> ds_status res = OpDisputed \<and> Some (ds_txHash res) = pr_disputeTxHash r"
    if "pr_status r = PDisputed \<and> truthy (pr_disputeTxHash r)"
    using that by (auto simp: disputeEscrow_def run split: option.splits)
  show "fundEscrow env fp w = (Inr (toFundResult r 0), w)" if "fp_orderId fp = pr_orderId r"
  proof -
    have "r \<in> set (ew_table w)" "distinct (map pr_orderId (ew_table w))"
      using assms by (auto simp: current_def findPaymentRecordByEscrowId_def tables_ok_def table_ok_def dest: find_SomeD)
    then have "find (\<lambda>x. pr_orderId x = pr_orderId r) (ew_table w) = Some r"
      using find_unique_key [of pr_orderId] by blast
    with that show ?thesis by (simp add: fundEscrow_def prog_simps findPaymentRecordByOrderId_def)
  qed
qed

theorem repeated_requests_change_nothing_witness:
  "fundEscrow demo_env \<lparr>fp_orderId = ''o1'', fp_buyerAddress = ''B'', fp_sellerAddress = ''S'', fp_tokenContractId = ''T'',
     fp_amountStroops = Some 5, fp_escrowContractId = ''C'', fp_timeoutLedgers = 10\<rparr> demo_escrow_world =
   (Inr (toFundResult demo_row 0), demo_escrow_world)"
  using repeated_requests_change_nothing [OF demo_current, of demo_env "''x''"
      "\<lparr>fp_orderId = ''o1'', fp_buyerAddress = ''B'', fp_sellerAddress = ''S'', fp_tokenContractId = ''T'',
     fp_amountStroops = Some 5, fp_escrowContractId = ''C'', fp_timeoutLedgers = 10\<rparr>"]
  by (simp add: demo_row_def new_row_def demo_input_def)

section \<open>Funding\<close>

lemma create_ok:
  assumes "findPaymentRecordByOrderId (ci_orderId inp) rows = None" and "rid \<notin> pr_id ` set rows" and "acc inp"
    and "ci_amountStroops inp = Some a" "0 \<le> a" "a < 2 ^ 63"
    and "ci_subtotalStroops inp = None" "ci_taxAmountStroops inp = None" "ci_taxRateBasisPoints inp = None"
  shows "createPaymentRecord acc rid t inp rows = (Inr (new_row inp rid t a a 0 0), rows @ [new_row inp rid t a a 0 0])"
  using assms by (simp add: createPaymentRecord_def tax_problem_def bigint_ok_def numeric20_ok_def Let_def)

text \<open>The contract call of a fresh record: the last row of the table becomes the funded record.\<close>

lemma fund_body_run:
  assumes "chain_ok env" and "\<And>h x. \<exists>eid x'. en_extract env h x = (Inr eid, x')" and "publishes env ChFunded"
    and "ew_table w = rows @ [r0]" and "pr_id r0 \<notin> pr_id ` set rows"
  shows "\<exists>res w' r. fund_body env fp acq h r0 w = (Inr res, w') \<and> fr_status res = OpFunded \<and> ew_table w' = rows @ [r] \<and>
     pr_orderId r = pr_orderId r0 \<and> pr_status r = PFunded \<and> pr_escrowId r = Some (fr_escrowId res) \<and>
     pr_fundTxHash r = Some (fr_txHash res) \<and> pr_amount r = pr_amount r0"
proof -
  obtain tx x6 where s: "submit env (deposit_request env fp) w = (Inr tx, w\<lparr>ew_ext := x6\<rparr>)" "tx_success tx"
    using submit_run [OF assms(1)] by blast
  obtain eid x7 where e: "run_env (en_extract env (tx_hash tx)) (w\<lparr>ew_ext := x6\<rparr>) = (Inr eid, w\<lparr>ew_ext := x7\<rparr>)"
    using assms(2) [of "tx_hash tx" x6] by (auto simp: run_env_def)
  define u where "u = no_update\<lparr>pu_escrowId := Some eid, pu_status := Some PFunded, pu_fundTxHash := Some (Some (tx_hash tx)),
      pu_failureReason := Some None\<rparr>"
  obtain t8 x8 where n8: "ask_env (en_now env) (w\<lparr>ew_ext := x7\<rparr>) = (Inr t8, w\<lparr>ew_ext := x8\<rparr>)"
    using ask_run [of "en_now env" "w\<lparr>ew_ext := x7\<rparr>"] by auto
  define r1 where "r1 = apply_update u t8 r0"
  define w9 where "w9 = w\<lparr>ew_ext := x8, ew_table := rows @ [r1]\<rparr>"
  have other: "pr_id x \<noteq> pr_id r0" if "x \<in> set rows" for x using assms(5) that by (metis imageI)
  then have "find (\<lambda>r. pr_id r = pr_id r0) rows = None" by (simp add: find_NoneD)
  moreover have "map (\<lambda>x. if pr_id x = pr_id r0 then apply_update u t8 x else x) rows = rows"
    using other by (simp add: map_idI)
  ultimately have "update_row (pr_id r0) (apply_update u t8) (rows @ [r0]) = (Inr r1, rows @ [r1])"
    by (simp add: update_row_def find_append_fresh r1_def)
  then have up: "update_record env (pr_id r0) u (w\<lparr>ew_ext := x7\<rparr>) = (Inr r1, w9)"
    by (simp add: update_record_def pbind_apply n8 run_table_def updatePaymentRecord_def u_def no_update_def w9_def assms(4))
  obtain y where em: "emitStatusEvent env ChFunded r1 (Some (tx_hash tx)) None w9 = (Inr (), w9\<lparr>ew_ext := y\<rparr>)"
    using emit_run [OF assms(3)] by blast
  obtain w10 where rl: "release_funding_lock acq h (w9\<lparr>ew_ext := y\<rparr>) = (Inr (), w10)" "ew_table w10 = rows @ [r1]"
    by (cases acq) (simp_all add: release_funding_lock_def w9_def)
  define res where "res = \<lparr>fr_escrowId = eid, fr_txHash = tx_hash tx, fr_ledger = tx_ledger tx, fr_status = OpFunded\<rparr>"
  have "fund_body env fp acq h r0 w = (Inr res, w10)"
    using s e up em rl(1) by (simp add: fund_body_def pbind_apply pret_apply u_def res_def)
  with rl(2) show ?thesis
    by (intro exI [of _ res] exI [of _ w10] exI [of _ r1])
      (simp add: res_def r1_def u_def apply_update_def keep_def no_update_def)
qed

text \<open>C28: Funding a new order, with a buyer who is not paused, an amount within range, and a database, chain and
  publisher that accept it, stores exactly one funded record for the order, with the escrow id and the
  transaction hash that the answer carries; funding the same order again then answers the same escrow id
  and hash and changes nothing.\<close>

theorem fund_once:
  assumes "tables_ok (ew_table w)" and "findPaymentRecordByOrderId (fp_orderId fp) (ew_table w) = None"
    and "\<And>a x. \<exists>x'. en_paused env a x = (False, x')" and "\<And>x. fst (en_newId env x) \<notin> pr_id ` set (ew_table w)"
    and "en_accepts env (create_input fp)" and "fp_amountStroops fp = Some a" "0 \<le> a" "a < 2 ^ 63"
    and "chain_ok env" and "\<And>h x. \<exists>eid x'. en_extract env h x = (Inr eid, x')" and "publishes env ChFunded"
  shows "\<exists>res w' r. fundEscrow env fp w = (Inr res, w') \<and> fr_status res = OpFunded \<and>
     ew_table w' = ew_table w @ [r] \<and> pr_orderId r = fp_orderId fp \<and> pr_status r = PFunded \<and>
     pr_escrowId r = Some (fr_escrowId res) \<and> pr_fundTxHash r = Some (fr_txHash res) \<and> pr_amount r = a \<and>
     (\<exists>res2. fundEscrow env fp w' = (Inr res2, w') \<and> fr_escrowId res2 = fr_escrowId res \<and> fr_txHash res2 = fr_txHash res \<and>
        fr_status res2 = OpFunded)"
proof -
  define h where "h = ''fund:'' @ fp_orderId fp"
  obtain x1 where p: "ask_env (en_paused env (fp_buyerAddress fp)) w = (Inr False, w\<lparr>ew_ext := x1\<rparr>)"
    using assms(3) [of "fp_buyerAddress fp" "ew_ext w"] by (auto simp: ask_env_def)
  obtain acq lm where l: "acquire_funding_lock (fp_orderId fp) h (w\<lparr>ew_ext := x1\<rparr>) = (Inr acq, w\<lparr>ew_ext := x1, ew_locks := lm\<rparr>)"
    by (cases "acquireLock (fp_orderId fp) h None (ew_locks w)") (simp add: acquire_funding_lock_def)
  define w2 where "w2 = w\<lparr>ew_ext := x1, ew_locks := lm\<rparr>"
  obtain rid x3 where i: "ask_env (en_newId env) w2 = (Inr rid, w2\<lparr>ew_ext := x3\<rparr>)" "rid \<notin> pr_id ` set (ew_table w)"
    using assms(4) [of "ew_ext w2"] by (cases "en_newId env (ew_ext w2)") (simp add: ask_env_def)
  obtain t x4 where n: "ask_env (en_now env) (w2\<lparr>ew_ext := x3\<rparr>) = (Inr t, w2\<lparr>ew_ext := x4\<rparr>)"
    using ask_run [of "en_now env" "w2\<lparr>ew_ext := x3\<rparr>"] by auto
  define r0 where "r0 = new_row (create_input fp) rid t a a 0 0"
  define w5 where "w5 = w2\<lparr>ew_ext := x4, ew_table := ew_table w @ [r0]\<rparr>"
  have cr: "run_table (createPaymentRecord (en_accepts env) rid t (create_input fp)) (w2\<lparr>ew_ext := x4\<rparr>) = (Inr r0, w5)"
    using create_ok [of "create_input fp" "ew_table w" rid "en_accepts env" a t] assms(2,5-8) i(2)
    by (simp add: run_table_def w2_def w5_def r0_def create_input_def)
  have "ew_table w5 = ew_table w @ [r0]" "pr_id r0 \<notin> pr_id ` set (ew_table w)"
    using i(2) by (simp_all add: w5_def r0_def new_row_def)
  from fund_body_run [OF assms(9-11) this, of fp acq h] obtain res w' r where
    body: "fund_body env fp acq h r0 w5 = (Inr res, w')" "fr_status res = OpFunded" "ew_table w' = ew_table w @ [r]"
      "pr_orderId r = pr_orderId r0" "pr_status r = PFunded" "pr_escrowId r = Some (fr_escrowId res)"
      "pr_fundTxHash r = Some (fr_txHash res)" "pr_amount r = pr_amount r0" by blast
  have fund: "fundEscrow env fp w = (Inr res, w')"
    unfolding fundEscrow_def Let_def h_def [symmetric]
    using assms(2) p l i(1) n cr body(1) by (simp add: pbind_apply pgets_apply pcatch_apply w2_def [symmetric])
  have r: "pr_orderId r = fp_orderId fp" "pr_amount r = a"
    using body(4,8) by (simp_all add: r0_def new_row_def create_input_def)
  have "findPaymentRecordByOrderId (fp_orderId fp) (ew_table w') = Some r"
    using assms(2) r(1) body(3) by (simp add: findPaymentRecordByOrderId_def find_append_fresh)
  then have "fundEscrow env fp w' = (Inr (toFundResult r 0), w')"
    by (simp add: fundEscrow_def prog_simps)
  with fund body r show ?thesis
    by (intro exI [of _ res] exI [of _ w'] exI [of _ r]) (simp add: toFundResult_def or_empty_def)
qed

theorem fund_once_witness:
  "\<exists>res w'. fundEscrow demo_env \<lparr>fp_orderId = ''o2'', fp_buyerAddress = ''B'', fp_sellerAddress = ''S'',
     fp_tokenContractId = ''T'', fp_amountStroops = Some 5, fp_escrowContractId = ''C'', fp_timeoutLedgers = 10\<rparr>
     demo_escrow_world = (Inr res, w') \<and> fr_status res = OpFunded"
proof -
  define fp where "fp = \<lparr>fp_orderId = ''o2'', fp_buyerAddress = ''B'', fp_sellerAddress = ''S'',
     fp_tokenContractId = ''T'', fp_amountStroops = Some 5, fp_escrowContractId = ''C'', fp_timeoutLedgers = 10\<rparr>"
  have "tables_ok (ew_table demo_escrow_world)" using demo_current by (simp add: current_def)
  moreover have "findPaymentRecordByOrderId (fp_orderId fp) (ew_table demo_escrow_world) = None"
    by (simp add: fp_def demo_escrow_world_def findPaymentRecordByOrderId_def demo_row_def new_row_def demo_input_def)
  moreover have "\<exists>x'. en_paused demo_env a x = (False, x')" "fst (en_newId demo_env x) \<notin> pr_id ` set (ew_table demo_escrow_world)"
    "\<exists>eid x'. en_extract demo_env h x = (Inr eid, x')" for a x h
    by (simp_all add: demo_env_def demo_escrow_world_def demo_row_def new_row_def)
  moreover have "en_accepts demo_env (create_input fp)" "fp_amountStroops fp = Some 5" by (simp_all add: demo_env_def fp_def)
  ultimately show ?thesis
    using fund_once [of demo_escrow_world fp demo_env 5] demo_env_works(1) demo_env_works(2) [of ChFunded] unfolding fp_def by auto
qed

theorem escrow_balance_invariant_witness:
  "tables_ok (ew_table (snd (partialRefundEscrow demo_env demo_call (Some 400) ''late'' demo_escrow_world)))"
  by (rule escrow_balance_invariant [of demo_escrow_world _ demo_env undefined demo_call "''late''" "Some 400" None])
    (use demo_current in \<open>simp_all add: current_def\<close>)

section \<open>Overlapping calls\<close>

lemma partialRefund_segments:
  "partialRefundEscrow env p amount reason = pbind (refund_check p amount) (refund_from env p reason)"
proof (cases amount)
  case None
  then show ?thesis by (simp add: partialRefundEscrow_def refund_check_def pbind_assoc Let_def)
next
  case (Some q)
  show ?thesis unfolding partialRefundEscrow_def refund_check_def pbind_assoc Some
    by (rule arg_cong [of _ _ "pbind _"], rule ext) (simp add: refund_from_def Let_def)
qed

text \<open>Two refunds of 600 from an escrow of 1000: both compare their amount with the whole balance before either is booked, both
  succeed, and 1200 are refunded.\<close>

theorem overlapping_refunds_exceed:
  "(case pbind (refund_check demo_call (Some 600)) (\<lambda>a.
         pbind (refund_check demo_call (Some 600)) (\<lambda>b.
         pbind (refund_from demo_env demo_call ''first'' a) (\<lambda>r1.
         pbind (refund_from demo_env demo_call ''second'' b) (\<lambda>r2.
         pret (pt_status r1, pt_status r2))))) demo_escrow_world of
     (r, w) \<Rightarrow> (r, map (\<lambda>row. (pr_amount row, pr_refunded row)) (ew_table w))) =
   (Inr (OpPartialRefunded, OpPartialRefunded), [(1000, 1200)])"
  by code_simp

end
