(* ===== verification/Circuit_Breaker.thy ===== *)
theory Circuit_Breaker
  imports Delego_Prelude
begin

text \<open>
  The circuit breaker in front of the Soroban calls (payments/escrow/circuitBreaker.ts). The class instance
  is the record \<open>breaker\<close> beside its configuration. \<^verbatim>\<open>Date.now()\<close> is an argument: one reading per synchronous
  stretch of code. \<^verbatim>\<open>execute\<close> awaits the protected call, so other calls may run between its two halves; the
  halves are \<open>admit\<close> and \<open>onSuccess\<close>/\<open>onFailure\<close>, and the safety theorem is about their arbitrary
  interleavings. \<open>execute\<close> itself is the composition for one caller.
\<close>

section \<open>State\<close>

datatype CircuitState = Closed | Open | HalfOpen

record CircuitBreakerConfig =
  failureThreshold :: int
  recoveryTimeoutMs :: int
  halfOpenSuccessThreshold :: int
  failureWindowMs :: int

record PartialCircuitBreakerConfig =
  o_failureThreshold :: "int option"
  o_recoveryTimeoutMs :: "int option"
  o_halfOpenSuccessThreshold :: "int option"
  o_failureWindowMs :: "int option"

record breaker =
  cb_state :: CircuitState
  cb_failureCount :: int
  cb_successCount :: int
  cb_lastFailureAt :: "ms option"
  cb_lastSuccessAt :: "ms option"
  cb_lastStateChange :: ms
  cb_totalRequests :: int
  cb_totalFailures :: int
  cb_totalRejections :: int
  cb_config :: CircuitBreakerConfig

definition or_default :: "'a option \<Rightarrow> 'a \<Rightarrow> 'a" where
  "or_default v d = (case v of None \<Rightarrow> d | Some x \<Rightarrow> x)"

definition new_breaker :: "PartialCircuitBreakerConfig \<Rightarrow> ms \<Rightarrow> breaker" where
  "new_breaker c now =
     \<lparr>cb_state = Closed, cb_failureCount = 0, cb_successCount = 0, cb_lastFailureAt = None, cb_lastSuccessAt = None,
      cb_lastStateChange = now, cb_totalRequests = 0, cb_totalFailures = 0, cb_totalRejections = 0,
      cb_config = \<lparr>failureThreshold = or_default (o_failureThreshold c) 5,
                   recoveryTimeoutMs = or_default (o_recoveryTimeoutMs c) 30000,
                   halfOpenSuccessThreshold = or_default (o_halfOpenSuccessThreshold c) 2,
                   failureWindowMs = or_default (o_failureWindowMs c) 60000\<rparr>\<rparr>"

section \<open>Operations\<close>

definition transitionTo :: "CircuitState \<Rightarrow> ms \<Rightarrow> breaker \<Rightarrow> breaker" where
  "transitionTo st now b =
     (let b' = b\<lparr>cb_state := st, cb_lastStateChange := now\<rparr>
      in if st = Closed then b'\<lparr>cb_failureCount := 0, cb_successCount := 0\<rparr>
         else if st = HalfOpen then b'\<lparr>cb_successCount := 0\<rparr>
         else b')"

text \<open>\<^verbatim>\<open>getState\<close> returns the state and may move an open breaker on to half-open.\<close>

definition getState :: "ms \<Rightarrow> breaker \<Rightarrow> CircuitState \<times> breaker" where
  "getState now b =
     (let b' = (if cb_state b = Open \<and> now - cb_lastStateChange b \<ge> recoveryTimeoutMs (cb_config b)
                then transitionTo HalfOpen now b else b)
      in (cb_state b', b'))"

text \<open>The part of \<^verbatim>\<open>execute\<close> before the protected call: whether the call goes ahead.\<close>

definition admit :: "ms \<Rightarrow> breaker \<Rightarrow> bool \<times> breaker" where
  "admit now b =
     (case getState now b of (st, b1) \<Rightarrow>
        let b2 = b1\<lparr>cb_totalRequests := cb_totalRequests b1 + 1\<rparr>
        in if st = Open then (False, b2\<lparr>cb_totalRejections := cb_totalRejections b2 + 1\<rparr>) else (True, b2))"

definition onSuccess :: "ms \<Rightarrow> breaker \<Rightarrow> breaker" where
  "onSuccess now b =
     (let b1 = b\<lparr>cb_successCount := cb_successCount b + 1, cb_lastSuccessAt := Some now\<rparr>
      in case cb_state b1 of
           HalfOpen \<Rightarrow> if cb_successCount b1 \<ge> halfOpenSuccessThreshold (cb_config b1)
                       then transitionTo Closed now b1 else b1
         | Closed \<Rightarrow> b1\<lparr>cb_failureCount := 0\<rparr>
         | Open \<Rightarrow> b1)"

definition onFailure :: "ms \<Rightarrow> breaker \<Rightarrow> breaker" where
  "onFailure now b =
     (let b1 = b\<lparr>cb_failureCount := cb_failureCount b + 1, cb_totalFailures := cb_totalFailures b + 1,
                 cb_lastFailureAt := Some now\<rparr>
      in case cb_state b1 of
           HalfOpen \<Rightarrow> transitionTo Open now b1
         | Closed \<Rightarrow> if cb_failureCount b1 \<ge> failureThreshold (cb_config b1) then transitionTo Open now b1 else b1
         | Open \<Rightarrow> b1)"

definition reset_breaker :: "ms \<Rightarrow> breaker \<Rightarrow> breaker" where
  "reset_breaker now b = transitionTo Closed now b"

record CircuitBreakerStats =
  cs_state :: CircuitState
  cs_failureCount :: int
  cs_successCount :: int
  cs_lastFailureAt :: "ms option"
  cs_lastSuccessAt :: "ms option"
  cs_lastStateChange :: ms
  cs_totalRequests :: int
  cs_totalFailures :: int
  cs_totalRejections :: int

definition getStats :: "ms \<Rightarrow> breaker \<Rightarrow> CircuitBreakerStats \<times> breaker" where
  "getStats now b =
     (case getState now b of (st, b') \<Rightarrow>
        (\<lparr>cs_state = st, cs_failureCount = cb_failureCount b', cs_successCount = cb_successCount b',
          cs_lastFailureAt = cb_lastFailureAt b', cs_lastSuccessAt = cb_lastSuccessAt b',
          cs_lastStateChange = cb_lastStateChange b', cs_totalRequests = cb_totalRequests b',
          cs_totalFailures = cb_totalFailures b', cs_totalRejections = cb_totalRejections b'\<rparr>, b'))"

text \<open>\<^verbatim>\<open>execute\<close> for one caller: the state is the breaker and the world \<open>'x\<close> of the protected call, in which the
  clock is read; the error of an open breaker is \<open>opened\<close>.\<close>

definition execute ::
  "('x \<Rightarrow> ms \<times> 'x) \<Rightarrow> 'e \<Rightarrow> ('x, 'e, 'a) prog \<Rightarrow> (breaker \<times> 'x, 'e, 'a) prog" where
  "execute clock opened fn s =
     (case s of (b, x) \<Rightarrow>
      case clock x of (t1, x1) \<Rightarrow>
      case admit t1 b of (ok, b1) \<Rightarrow>
        if \<not> ok then (Inl opened, (b1, x1))
        else case fn x1 of (res, x2) \<Rightarrow>
             case clock x2 of (t2, x3) \<Rightarrow>
             (case res of Inr a \<Rightarrow> (Inr a, (onSuccess t2 b1, x3)) | Inl e \<Rightarrow> (Inl e, (onFailure t2 b1, x3))))"

section \<open>Interleaved calls\<close>

datatype breaker_event = Arrive ms | Succeed ms | Fail ms | Inspect ms

fun event_time :: "breaker_event \<Rightarrow> ms" where
  "event_time (Arrive t) = t" | "event_time (Succeed t) = t" | "event_time (Fail t) = t" | "event_time (Inspect t) = t"

text \<open>One event of an interleaving, with whether it let a call through.\<close>

fun breaker_step :: "breaker_event \<Rightarrow> breaker \<Rightarrow> bool \<times> breaker" where
  "breaker_step (Arrive t) b = admit t b"
| "breaker_step (Succeed t) b = (False, onSuccess t b)"
| "breaker_step (Fail t) b = (False, onFailure t b)"
| "breaker_step (Inspect t) b = (False, snd (getState t b))"

fun breaker_run :: "breaker_event list \<Rightarrow> breaker \<Rightarrow> nat \<times> breaker" where
  "breaker_run [] b = (0, b)"
| "breaker_run (e # es) b =
     (case breaker_step e b of (ok, b1) \<Rightarrow> case breaker_run es b1 of (n, b2) \<Rightarrow> ((if ok then 1 else 0) + n, b2))"

text \<open>A closed breaker is below its failure threshold, a half-open one below its success threshold.\<close>

definition breaker_ok :: "breaker \<Rightarrow> bool" where
  "breaker_ok b \<longleftrightarrow> 0 < failureThreshold (cb_config b) \<and> 0 < halfOpenSuccessThreshold (cb_config b) \<and>
     0 \<le> cb_failureCount b \<and> 0 \<le> cb_successCount b \<and>
     (cb_state b = Closed \<longrightarrow> cb_failureCount b < failureThreshold (cb_config b)) \<and>
     (cb_state b = HalfOpen \<longrightarrow> cb_successCount b < halfOpenSuccessThreshold (cb_config b))"

lemmas breaker_defs = transitionTo_def getState_def admit_def onSuccess_def onFailure_def Let_def

lemma breaker_step_config: "cb_config (snd (breaker_step e b)) = cb_config b"
  by (cases e) (auto simp: breaker_defs split: CircuitState.splits)

lemma breaker_step_ok: "breaker_ok b \<Longrightarrow> breaker_ok (snd (breaker_step e b))"
  by (cases e) (auto simp: breaker_defs breaker_ok_def split: CircuitState.splits)

lemma breaker_run_ok: "breaker_ok b \<Longrightarrow> breaker_ok (snd (breaker_run es b))"
proof (induction es arbitrary: b)
  case (Cons e es)
  from Cons.IH [OF breaker_step_ok [OF Cons.prems, of e]] show ?case by (auto split: prod.splits)
qed simp

lemma open_step:
  assumes "cb_state b = Open" and "event_time e < cb_lastStateChange b + recoveryTimeoutMs (cb_config b)"
  shows "\<not> fst (breaker_step e b) \<and> cb_state (snd (breaker_step e b)) = Open \<and>
    cb_lastStateChange (snd (breaker_step e b)) = cb_lastStateChange b"
  using assms by (cases e) (auto simp: breaker_defs)

lemma open_run:
  assumes "cb_state b = Open" and "\<forall>e \<in> set es. event_time e < cb_lastStateChange b + recoveryTimeoutMs (cb_config b)"
  shows "fst (breaker_run es b) = 0 \<and> cb_state (snd (breaker_run es b)) = Open"
  using assms
proof (induction es arbitrary: b)
  case (Cons e es)
  from Cons.prems have step: "\<not> fst (breaker_step e b)" "cb_state (snd (breaker_step e b)) = Open"
    "cb_lastStateChange (snd (breaker_step e b)) = cb_lastStateChange b"
    using open_step [of b e] by simp_all
  with Cons.IH [of "snd (breaker_step e b)"] Cons.prems(2) show ?case
    by (auto simp: breaker_step_config split: prod.splits)
qed simp

text \<open>C10: Whatever calls arrive, succeed, fail or read the state in whatever order, a breaker that started with
  positive thresholds keeps its counters in range (closed below the failure threshold, half-open below the
  success threshold), and once it is open it lets no call through until the recovery timeout has passed.\<close>

theorem open_breaker_rejects:
  assumes "0 < failureThreshold (cb_config (new_breaker c t0))"
    and "0 < halfOpenSuccessThreshold (cb_config (new_breaker c t0))"
    and "b = snd (breaker_run es (new_breaker c t0))"
  shows "breaker_ok b \<and>
    (cb_state b = Open \<longrightarrow>
      (\<forall>es'. (\<forall>e \<in> set es'. event_time e < cb_lastStateChange b + recoveryTimeoutMs (cb_config b)) \<longrightarrow>
        fst (breaker_run es' b) = 0 \<and> cb_state (snd (breaker_run es' b)) = Open))"
proof -
  have "breaker_ok (new_breaker c t0)"
    using assms(1,2) by (simp add: breaker_ok_def new_breaker_def)
  then have "breaker_ok b" by (simp add: assms(3) breaker_run_ok)
  then show ?thesis by (intro conjI impI allI) (simp_all add: open_run)
qed

definition default_config :: PartialCircuitBreakerConfig where
  "default_config = \<lparr>o_failureThreshold = None, o_recoveryTimeoutMs = None, o_halfOpenSuccessThreshold = None,
     o_failureWindowMs = None\<rparr>"

definition touchy_config :: PartialCircuitBreakerConfig where
  "touchy_config = default_config\<lparr>o_failureThreshold := Some 1\<rparr>"

lemma touchy_opens:
  "snd (breaker_run [Fail 1] (new_breaker touchy_config 0)) =
     (new_breaker touchy_config 0)\<lparr>cb_state := Open, cb_lastStateChange := 1, cb_failureCount := 1, cb_totalFailures := 1,
       cb_lastFailureAt := Some 1\<rparr>"
  by (simp add: new_breaker_def touchy_config_def default_config_def or_default_def onFailure_def transitionTo_def Let_def)

theorem open_breaker_rejects_witness:
  "fst (breaker_run [Arrive 10, Succeed 20, Arrive 29999]
     (snd (breaker_run [Fail 1] (new_breaker touchy_config 0)))) = 0"
  using open_breaker_rejects [of touchy_config 0 _ "[Fail 1]", OF _ _ refl]
  unfolding touchy_opens
  by (simp add: new_breaker_def touchy_config_def default_config_def or_default_def del: breaker_run.simps)

lemma fails_open:
  assumes "cb_state b = Open"
  shows "cb_state (snd (breaker_run (map Fail ts) b)) = Open"
  using assms
proof (induction ts arbitrary: b)
  case (Cons t ts)
  then have "cb_state (onFailure t b) = Open" by (simp add: onFailure_def Let_def)
  from Cons.IH [OF this] show ?case by (auto split: prod.splits)
qed simp

lemma fails_closed:
  assumes "cb_state b = Closed" and "cb_failureCount b < failureThreshold (cb_config b)"
  shows "cb_state (snd (breaker_run (map Fail ts) b)) = Open \<longleftrightarrow>
    cb_failureCount b + int (length ts) \<ge> failureThreshold (cb_config b)"
  using assms
proof (induction ts arbitrary: b)
  case (Cons t ts)
  show ?case
  proof (cases "cb_failureCount b + 1 \<ge> failureThreshold (cb_config b)")
    case True
    with Cons.prems have "cb_state (onFailure t b) = Open" by (simp add: breaker_defs)
    from fails_open [OF this, of ts] True show ?thesis by (auto split: prod.splits)
  next
    case False
    with Cons.prems have f: "cb_state (onFailure t b) = Closed" "cb_failureCount (onFailure t b) = cb_failureCount b + 1"
      "cb_config (onFailure t b) = cb_config b" by (simp_all add: breaker_defs)
    from Cons.IH [of "onFailure t b"] f False show ?thesis by (auto split: prod.splits)
  qed
qed simp

lemma successes_closed:
  assumes "cb_state b = Closed"
  shows "cb_state (snd (breaker_run (map Succeed ts) b)) = Closed"
  using assms
proof (induction ts arbitrary: b)
  case (Cons t ts)
  then have "cb_state (onSuccess t b) = Closed" by (simp add: onSuccess_def Let_def)
  from Cons.IH [OF this] show ?case by (auto split: prod.splits)
qed simp

lemma successes_half_open:
  assumes "cb_state b = HalfOpen" and "cb_successCount b < halfOpenSuccessThreshold (cb_config b)"
  shows "cb_state (snd (breaker_run (map Succeed ts) b)) = Closed \<longleftrightarrow>
    cb_successCount b + int (length ts) \<ge> halfOpenSuccessThreshold (cb_config b)"
  using assms
proof (induction ts arbitrary: b)
  case (Cons t ts)
  show ?case
  proof (cases "cb_successCount b + 1 \<ge> halfOpenSuccessThreshold (cb_config b)")
    case True
    with Cons.prems have "cb_state (onSuccess t b) = Closed" by (simp add: breaker_defs)
    from successes_closed [OF this, of ts] True show ?thesis by (auto split: prod.splits)
  next
    case False
    with Cons.prems have f: "cb_state (onSuccess t b) = HalfOpen" "cb_successCount (onSuccess t b) = cb_successCount b + 1"
      "cb_config (onSuccess t b) = cb_config b" by (simp_all add: breaker_defs)
    from Cons.IH [of "onSuccess t b"] f False show ?thesis by (auto split: prod.splits)
  qed
qed simp

text \<open>The cycle of the breaker. Closed: a run of failures opens it exactly when their number reaches what is
  left to the failure threshold, however far apart in time they are, and one success starts the count
  again. Open: the first call after the recovery timeout is let through in the half-open state. Half-open:
  every arriving call is let through, a run of successes closes it exactly when the success threshold is
  reached, and one failure opens it again from the time of that failure.\<close>

theorem breaker_cycle:
  assumes "breaker_ok b"
  shows "(cb_state b = Closed \<longrightarrow>
      (cb_state (snd (breaker_run (map Fail ts) b)) = Open \<longleftrightarrow>
        cb_failureCount b + int (length ts) \<ge> failureThreshold (cb_config b)) \<and> cb_failureCount (onSuccess t b) = 0) \<and>
    (cb_state b = Open \<and> t \<ge> cb_lastStateChange b + recoveryTimeoutMs (cb_config b) \<longrightarrow>
      fst (admit t b) \<and> cb_state (snd (admit t b)) = HalfOpen \<and> cb_successCount (snd (admit t b)) = 0) \<and>
    (cb_state b = HalfOpen \<longrightarrow>
      fst (admit t b) \<and>
      (cb_state (snd (breaker_run (map Succeed ts) b)) = Closed \<longleftrightarrow>
        cb_successCount b + int (length ts) \<ge> halfOpenSuccessThreshold (cb_config b)) \<and>
      cb_state (onFailure t b) = Open \<and> cb_lastStateChange (onFailure t b) = t)"
proof (intro conjI impI)
  assume "cb_state b = Closed"
  with assms show "cb_state (snd (breaker_run (map Fail ts) b)) = Open \<longleftrightarrow>
      cb_failureCount b + int (length ts) \<ge> failureThreshold (cb_config b)"
    by (intro fails_closed) (simp_all add: breaker_ok_def)
next
  assume "cb_state b = HalfOpen"
  with assms show "cb_state (snd (breaker_run (map Succeed ts) b)) = Closed \<longleftrightarrow>
      cb_successCount b + int (length ts) \<ge> halfOpenSuccessThreshold (cb_config b)"
    by (intro successes_half_open) (simp_all add: breaker_ok_def)
qed (auto simp: breaker_defs)

theorem breaker_cycle_witness:
  "cb_state (snd (breaker_run [Fail 1, Fail 100000, Fail 200000, Fail 300000, Fail 400000] (new_breaker default_config 0))) = Open"
  using breaker_cycle [of "new_breaker default_config 0" "[1, 100000, 200000, 300000, 400000]" 0]
  by (simp add: breaker_ok_def new_breaker_def default_config_def or_default_def)

end
