(* ===== verification/Fee_Estimator.thy ===== *)
theory Fee_Estimator
  imports Delego_Prelude
begin

text \<open>
  The network fee estimate with its cache (payments/escrow/feeEstimator.ts). Horizon is a parameter: the
  answer of \<^verbatim>\<open>feeStats()\<close> is an untyped value, which the code validates. The cache is the component's state,
  and the clock an argument.
\<close>

section \<open>Data\<close>

datatype percentile = P50 | P95 | P99

datatype fee_source = FromHorizon | FromFallback

record FeeEstimate =
  fe_source :: fee_source
  fe_baseFeeStroops :: int
  fe_recommendedFeeStroops :: int
  fe_p50 :: int
  fe_p95 :: int
  fe_p99 :: int
  fe_percentile :: percentile
  fe_fetchedAt :: ms

record CacheEntry =
  ce_estimate :: FeeEstimate
  ce_expiresAt :: ms

definition DEFAULT_FALLBACK_FEE :: int where "DEFAULT_FALLBACK_FEE = 100"

definition CACHE_TTL_MS :: int where "CACHE_TTL_MS = 30 * 1000"

section \<open>Validation of the answer\<close>

fun js_is_num :: "jsval \<Rightarrow> bool" where
  "js_is_num (JNum _) = True"
| "js_is_num _ = False"

fun js_num :: "jsval \<Rightarrow> int" where
  "js_num (JNum n) = n"
| "js_num _ = 0"

text \<open>A property of a value of any type: primitive values and arrays have none of the names that are read here.\<close>

fun js_prop :: "jsval \<Rightarrow> string \<Rightarrow> jsval" where
  "js_prop (JObj ob) k = js_get ob k"
| "js_prop _ k = JUndefined"

fun js_is_object :: "jsval \<Rightarrow> bool" where
  "js_is_object (JObj _) = True"
| "js_is_object (JArr _) = True"
| "js_is_object _ = False"

definition isValidFeeStats :: "jsval \<Rightarrow> bool" where
  "isValidFeeStats st \<longleftrightarrow>
     js_is_object st \<and>
     js_is_num (js_prop st ''last_ledger'') \<and> js_is_num (js_prop st ''last_ledger_base_fee'') \<and>
     js_is_num (js_prop st ''ledger_capacity_usage'') \<and>
     js_prop st ''max_fee'' \<noteq> JUndefined \<and> js_prop st ''max_fee'' \<noteq> JNull \<and>
     js_is_num (js_prop (js_prop st ''max_fee'') ''p50'') \<and> js_is_num (js_prop (js_prop st ''max_fee'') ''p95'') \<and>
     js_is_num (js_prop (js_prop st ''max_fee'') ''p99'')"

fun percentile_name :: "percentile \<Rightarrow> string" where
  "percentile_name P50 = ''p50''" | "percentile_name P95 = ''p95''" | "percentile_name P99 = ''p99''"

text \<open>\<^verbatim>\<open>stats.fee_charged?.p ?? d\<close>, where the statistics carry numbers.\<close>

definition charged :: "jsval \<Rightarrow> string \<Rightarrow> int \<Rightarrow> int" where
  "charged st p d = (let v = js_prop (js_prop st ''fee_charged'') p in if v = JUndefined \<or> v = JNull then d else js_num v)"

section \<open>The estimate\<close>

definition createFallbackEstimate :: "percentile \<Rightarrow> ms \<Rightarrow> FeeEstimate" where
  "createFallbackEstimate p now =
     \<lparr>fe_source = FromFallback, fe_baseFeeStroops = DEFAULT_FALLBACK_FEE, fe_recommendedFeeStroops = DEFAULT_FALLBACK_FEE,
      fe_p50 = DEFAULT_FALLBACK_FEE, fe_p95 = DEFAULT_FALLBACK_FEE, fe_p99 = DEFAULT_FALLBACK_FEE,
      fe_percentile = p, fe_fetchedAt = now\<rparr>"

definition horizon_estimate :: "jsval \<Rightarrow> percentile \<Rightarrow> ms \<Rightarrow> FeeEstimate" where
  "horizon_estimate st p now =
     (let safe = max (js_num (js_prop (js_prop st ''max_fee'') (percentile_name p))) DEFAULT_FALLBACK_FEE
      in \<lparr>fe_source = FromHorizon, fe_baseFeeStroops = js_num (js_prop st ''last_ledger_base_fee''),
          fe_recommendedFeeStroops = safe, fe_p50 = charged st ''p50'' safe, fe_p95 = charged st ''p90'' safe,
          fe_p99 = charged st ''p99'' safe, fe_percentile = p, fe_fetchedAt = now\<rparr>)"

text \<open>\<open>feeStats\<close> is the answer of Horizon, \<open>Inl\<close> when the request throws; \<open>now\<close> is read before and
  \<open>later\<close> after the request.\<close>

definition estimateTransactionFeeWithServer ::
  "string + jsval \<Rightarrow> ms \<Rightarrow> ms \<Rightarrow> percentile \<Rightarrow> CacheEntry option \<Rightarrow> FeeEstimate \<times> CacheEntry option" where
  "estimateTransactionFeeWithServer feeStats now later p cache =
     (let fetch = (case feeStats of
            Inl _ \<Rightarrow> (createFallbackEstimate p later, cache)
          | Inr st \<Rightarrow>
              if \<not> isValidFeeStats st then (createFallbackEstimate p later, cache)
              else (let e = horizon_estimate st p later
                    in (e, Some \<lparr>ce_estimate = e, ce_expiresAt = later + CACHE_TTL_MS\<rparr>)))
      in case cache of
           Some c \<Rightarrow> if ce_expiresAt c > now then (ce_estimate c, cache) else fetch
         | None \<Rightarrow> fetch)"

definition clearFeeCache :: "CacheEntry option \<Rightarrow> CacheEntry option" where
  "clearFeeCache cache = None"

definition getCachedFeeEstimate :: "ms \<Rightarrow> CacheEntry option \<Rightarrow> FeeEstimate option" where
  "getCachedFeeEstimate now cache =
     (case cache of None \<Rightarrow> None | Some c \<Rightarrow> if ce_expiresAt c > now then Some (ce_estimate c) else None)"

section \<open>Correctness\<close>

definition cache_ok :: "CacheEntry option \<Rightarrow> bool" where
  "cache_ok cache \<longleftrightarrow> (case cache of None \<Rightarrow> True
     | Some c \<Rightarrow> fe_recommendedFeeStroops (ce_estimate c) \<ge> DEFAULT_FALLBACK_FEE \<and>
         fe_source (ce_estimate c) = FromHorizon \<and> ce_expiresAt c = fe_fetchedAt (ce_estimate c) + CACHE_TTL_MS)"

text \<open>An estimate is always produced, whatever Horizon answers, and recommends at least the fallback fee. It is
  the cached one exactly while the cache entry lives (thirty seconds from its request), also when that
  entry was made for another percentile than the one asked for; otherwise it is for the percentile asked
  for, and only an estimate from Horizon's own figures enters the cache, never a fallback.\<close>

theorem fee_estimate_outcome:
  assumes "cache_ok cache"
    and "estimateTransactionFeeWithServer feeStats now later p cache = (e, cache')"
  shows "fe_recommendedFeeStroops e \<ge> 100 \<and> cache_ok cache' \<and>
    (case getCachedFeeEstimate now cache of
       Some old \<Rightarrow> e = old \<and> cache' = cache
     | None \<Rightarrow> fe_percentile e = p \<and>
         (if \<exists>st. feeStats = Inr st \<and> isValidFeeStats st
          then fe_source e = FromHorizon \<and> getCachedFeeEstimate later cache' = Some e
          else e = createFallbackEstimate p later \<and> cache' = cache))"
  using assms
  by (auto simp: estimateTransactionFeeWithServer_def getCachedFeeEstimate_def cache_ok_def horizon_estimate_def
      createFallbackEstimate_def DEFAULT_FALLBACK_FEE_def CACHE_TTL_MS_def Let_def split: option.splits sum.splits if_splits)

definition demo_stats :: jsval where
  "demo_stats = JObj [(''last_ledger'', JNum 1), (''last_ledger_base_fee'', JNum 100), (''ledger_capacity_usage'', JNum 0),
     (''max_fee'', JObj [(''p50'', JNum 10), (''p95'', JNum 250), (''p99'', JNum 900)])]"

theorem fee_estimate_outcome_witness:
  "fe_recommendedFeeStroops (fst (estimateTransactionFeeWithServer (Inr demo_stats) 0 5 P95 None)) \<ge> 100 \<and>
   fe_percentile (fst (estimateTransactionFeeWithServer (Inr demo_stats) 7 9 P99
     (snd (estimateTransactionFeeWithServer (Inr demo_stats) 0 5 P95 None)))) = P95"
  using fee_estimate_outcome [of None "Inr demo_stats" 0 5 P95, OF _ prod.collapse [symmetric]]
  by (simp add: cache_ok_def getCachedFeeEstimate_def estimateTransactionFeeWithServer_def isValidFeeStats_def demo_stats_def
      js_get_def horizon_estimate_def CACHE_TTL_MS_def Let_def)

end
