(* ===== verification/Escrow_Service.thy ===== *)
theory Escrow_Service
  imports Escrow_Coordinator Circuit_Breaker Fee_Estimator
begin

text \<open>
  The order-independent escrow client of the payments service: the error classification
  (payments/escrow/errors.ts), the HTTP client of the wallet service (payments/escrow/wallet-client.ts) and the
  four contract operations behind the circuit breaker (payments/escrow/index.ts). The wallet service and
  Horizon answer over HTTP and are fields of the environment \<open>service_env\<close>, as are the clock, the event stream,
  the reachability of the database and the environment variables. The requests that are posted to the wallet
  service are logged in the world, because what the theorems bound is how often money is moved.
\<close>

section \<open>Errors\<close>

datatype js_error =
    PlainError string
  | ContractInvocationError string string bool
  | CircuitBreakerOpenError string
  | NotAnError

text \<open>\<^verbatim>\<open>err instanceof Error ? err.message : d\<close>.\<close>

fun error_message :: "string \<Rightarrow> js_error \<Rightarrow> string" where
  "error_message d (PlainError m) = m"
| "error_message d (ContractInvocationError m c r) = m"
| "error_message d (CircuitBreakerOpenError m) = m"
| "error_message d NotAnError = d"

definition classify_message :: "string \<Rightarrow> js_error" where
  "classify_message m =
     (if js_includes (js_lower m) ''simulation failed'' then ContractInvocationError m ''CONTRACT_SIMULATION_FAILED'' False
      else if js_includes m ''Submission failed'' \<or> js_includes m ''tx_bad_seq'' \<or> js_includes m ''bad_seq''
      then ContractInvocationError m ''CONTRACT_SUBMISSION_FAILED'' True
      else if js_includes m ''Transaction failed'' then ContractInvocationError m ''CONTRACT_EXECUTION_FAILED'' False
      else if js_includes m ''Wallet service unavailable'' then ContractInvocationError m ''WALLET_SERVICE_UNAVAILABLE'' True
      else ContractInvocationError m ''WALLET_SERVICE_ERROR'' False)"

fun normalizeContractError :: "js_error \<Rightarrow> js_error" where
  "normalizeContractError (ContractInvocationError m c r) = ContractInvocationError m c r"
| "normalizeContractError (PlainError m) = classify_message m"
| "normalizeContractError (CircuitBreakerOpenError m) = classify_message m"
| "normalizeContractError NotAnError =
     ContractInvocationError ''An unknown contract invocation error occurred'' ''CONTRACT_INVOCATION_FAILED'' False"

section \<open>Environment and world\<close>

record ServiceRequest = TransactionRequest +
  sr_userId :: "string option"

text \<open>The outcome of the POST to the wallet service: no connection, a body that cannot be read or is not JSON, or
  the object that the body denotes.\<close>

record wallet_body =
  wb_error :: "string option option"
  wb_data :: "TransactionResult option"

datatype wallet_reply = Unreachable js_error | BodyLost js_error | NotJson int | Reply int bool wallet_body

record payment_event =
  pe_type :: string
  pe_orderId :: string
  pe_payload :: "(string \<times> string) list"
  pe_occurredAt :: ms

record 'x service_env =
  sv_clock :: "'x \<Rightarrow> ms \<times> 'x"
  sv_horizon :: "string \<Rightarrow> string + unit"
  sv_feeStats :: "'x \<Rightarrow> (string + jsval) \<times> 'x"
  sv_post :: "ServiceRequest \<Rightarrow> FeeEstimate \<Rightarrow> 'x \<Rightarrow> wallet_reply \<times> 'x"
  sv_publish :: "payment_event \<Rightarrow> 'x \<Rightarrow> (js_error + unit) \<times> 'x"
  sv_dbUp :: "'x \<Rightarrow> bool \<times> 'x"
  sv_STELLAR_NETWORK :: "string option"
  sv_STELLAR_HORIZON_URL :: "string option"
  sv_PAYMENTS_WALLET_SERVICE_TOKEN :: "string option"
  sv_ESCROW_CONTRACT_ID :: "string option"
  sv_SETTLEMENT_SOURCE_ADDRESS :: "string option"
  sv_SETTLEMENT_RELEASE_ADDRESS :: "string option"

record 'x service_world =
  sw_table :: payment_table
  sw_breaker :: breaker
  sw_feeCache :: "CacheEntry option"
  sw_posted :: "ServiceRequest list"
  sw_ext :: 'x

type_synonym ('x, 'a) service_prog = "('x service_world, js_error, 'a) prog"

definition ask :: "('x \<Rightarrow> 'a \<times> 'x) \<Rightarrow> ('x, 'a) service_prog" where
  "ask f w = (case f (sw_ext w) of (a, x) \<Rightarrow> (Inr a, w\<lparr>sw_ext := x\<rparr>))"

section \<open>The wallet client\<close>

definition getHorizonUrl :: "'x service_env \<Rightarrow> string" where
  "getHorizonUrl env =
     (let network = js_lower (or_default (sv_STELLAR_NETWORK env) ''testnet'')
      in if network = ''mainnet'' then or_default (sv_STELLAR_HORIZON_URL env) ''https://horizon.stellar.org''
         else if network = ''futurenet'' then or_default (sv_STELLAR_HORIZON_URL env) ''https://horizon-futurenet.stellar.org''
         else or_default (sv_STELLAR_HORIZON_URL env) ''https://horizon-testnet.stellar.org'')"

text \<open>Making the Horizon client may throw; the request itself falls back.\<close>

definition getTransactionFeeEstimate :: "'x service_env \<Rightarrow> ('x, FeeEstimate) service_prog" where
  "getTransactionFeeEstimate env =
     (case sv_horizon env (getHorizonUrl env) of
        Inl m \<Rightarrow> pthrow (PlainError m)
      | Inr _ \<Rightarrow>
          pbind (ask (sv_clock env)) (\<lambda>now.
          pbind (pgets sw_feeCache) (\<lambda>cache.
          pbind (if getCachedFeeEstimate now cache = None then ask (sv_feeStats env) else pret (Inl '''')) (\<lambda>stats.
          pbind (ask (sv_clock env)) (\<lambda>later.
          case estimateTransactionFeeWithServer stats now later P95 cache of (e, cache') \<Rightarrow>
            pbind (pmodify (\<lambda>w. w\<lparr>sw_feeCache := cache'\<rparr>)) (\<lambda>_. pret e))))))"

definition post_wallet :: "'x service_env \<Rightarrow> ServiceRequest \<Rightarrow> FeeEstimate \<Rightarrow> ('x, wallet_reply) service_prog" where
  "post_wallet env req fee w =
     (case sv_post env req fee (sw_ext w) of (r, x) \<Rightarrow> (Inr r, w\<lparr>sw_posted := sw_posted w @ [req], sw_ext := x\<rparr>))"

definition submitContractCall :: "'x service_env \<Rightarrow> ServiceRequest \<Rightarrow> ('x, TransactionResult) service_prog" where
  "submitContractCall env req =
     (if js_trim (or_empty (sv_PAYMENTS_WALLET_SERVICE_TOKEN env)) = []
      then pthrow (normalizeContractError (PlainError ''PAYMENTS_WALLET_SERVICE_TOKEN is not configured''))
      else pbind (getTransactionFeeEstimate env) (\<lambda>fee.
           pbind (post_wallet env req fee) (\<lambda>reply.
           case reply of
             Unreachable e \<Rightarrow>
               pthrow (normalizeContractError
                 (PlainError (''Wallet service unavailable: '' @ error_message ''Failed to reach wallet service'' e)))
           | BodyLost e \<Rightarrow> pthrow e
           | NotJson st \<Rightarrow>
               pthrow (normalizeContractError
                 (PlainError (''Wallet service returned invalid response (status '' @ show_int st @ '')'')))
           | Reply st ok body \<Rightarrow>
               if \<not> ok \<or> wb_error body \<noteq> None
               then pthrow (normalizeContractError (PlainError (case wb_error body of
                        Some (Some m) \<Rightarrow> m
                      | _ \<Rightarrow> ''Wallet service returned status '' @ show_int st)))
               else (case wb_data body of
                       None \<Rightarrow> pthrow (normalizeContractError (PlainError ''Wallet service returned empty transaction result''))
                     | Some d \<Rightarrow> pret d))))"

section \<open>The contract operations\<close>

record EscrowOperationResult =
  eo_txHash :: string
  eo_ledger :: int
  eo_success :: bool
  eo_escrowId :: "string option"

definition toEscrowResult :: "TransactionResult \<Rightarrow> string option \<Rightarrow> EscrowOperationResult" where
  "toEscrowResult tx eid = \<lparr>eo_txHash = tx_hash tx, eo_ledger = tx_ledger tx, eo_success = tx_success tx, eo_escrowId = eid\<rparr>"

definition service_parseEscrowId :: "string \<Rightarrow> ('x, int) service_prog" where
  "service_parseEscrowId eid = (case js_integer eid of
       None \<Rightarrow> pthrow (PlainError (''Invalid escrow ID: '' @ eid))
     | Some n \<Rightarrow> if n < 0 then pthrow (PlainError (''Invalid escrow ID: '' @ eid)) else pret n)"

definition getEscrowContractId :: "'x service_env \<Rightarrow> ('x, string) service_prog" where
  "getEscrowContractId env =
     (if truthy (sv_ESCROW_CONTRACT_ID env) then pret (or_empty (sv_ESCROW_CONTRACT_ID env))
      else pthrow (PlainError ''ESCROW_CONTRACT_ID environment variable is not configured''))"

text \<open>The error of an open breaker, with its timeout in the message.\<close>

definition breaker_open_error :: "breaker \<Rightarrow> js_error" where
  "breaker_open_error b = CircuitBreakerOpenError
     (''Circuit breaker is open. Retry after '' @ show_int (recoveryTimeoutMs (cb_config b)) @ ''ms.'')"

text \<open>\<^verbatim>\<open>breaker.execute(...)\<close> on the world's breaker.\<close>

definition through_breaker :: "'x service_env \<Rightarrow> ('x, 'a) service_prog \<Rightarrow> ('x, 'a) service_prog" where
  "through_breaker env fn w =
     (case execute (\<lambda>w. case sv_clock env (sw_ext w) of (t, x) \<Rightarrow> (t, w\<lparr>sw_ext := x\<rparr>))
             (breaker_open_error (sw_breaker w)) fn (sw_breaker w, w) of
        (r, (b, w')) \<Rightarrow> (r, w'\<lparr>sw_breaker := b\<rparr>))"

definition guarded_call :: "'x service_env \<Rightarrow> ServiceRequest \<Rightarrow> ('x, TransactionResult) service_prog" where
  "guarded_call env req =
     pcatch (through_breaker env (submitContractCall env req)) (\<lambda>e. pthrow (normalizeContractError e))"

definition contract_request ::
  "string \<Rightarrow> string \<Rightarrow> string \<Rightarrow> contract_arg list \<Rightarrow> string \<Rightarrow> string option \<Rightarrow> ServiceRequest" where
  "contract_request src cid method args memo user =
     \<lparr>tr_sourceAddress = src, tr_contractId = cid, tr_method = method, tr_args = args, tr_memo = memo, tr_amountStroops = None,
       sr_userId = user\<rparr>"

definition initialize_escrow :: "'x service_env \<Rightarrow> string \<Rightarrow> string \<Rightarrow> ('x, EscrowOperationResult) service_prog" where
  "initialize_escrow env src admin =
     pbind (getEscrowContractId env) (\<lambda>cid.
     pbind (guarded_call env (contract_request src cid ''initialize'' [ArgAddress admin] ''Initialize escrow contract'' None))
       (\<lambda>tx. pret (toEscrowResult tx None)))"

definition deposit_escrow ::
  "'x service_env \<Rightarrow> string \<Rightarrow> string \<Rightarrow> string \<Rightarrow> string option \<Rightarrow> string option \<Rightarrow> ('x, EscrowOperationResult) service_prog" where
  "deposit_escrow env src buyer seller orderId user =
     pbind (getEscrowContractId env) (\<lambda>cid.
     pbind (guarded_call env (contract_request src cid ''create_escrow'' [ArgAddress buyer, ArgAddress seller]
              (if truthy orderId then ''Deposit escrow for order '' @ or_empty orderId else ''Deposit escrow funds'') user))
       (\<lambda>tx. pret (toEscrowResult tx None)))"

definition release_escrow :: "'x service_env \<Rightarrow> string \<Rightarrow> string \<Rightarrow> ('x, EscrowOperationResult) service_prog" where
  "release_escrow env src eid =
     pbind (getEscrowContractId env) (\<lambda>cid.
     pbind (service_parseEscrowId eid) (\<lambda>n.
     pbind (guarded_call env (contract_request src cid ''release'' [ArgInt n] (''Release escrow '' @ eid) None))
       (\<lambda>tx. pret (toEscrowResult tx (Some eid)))))"

datatype RefundReasonCode = RTimeout | RBuyerCancelled | RMerchantCancelled | RDisputeBuyer | RSystemError

fun reason_text :: "RefundReasonCode \<Rightarrow> string" where
  "reason_text RTimeout = ''timeout''"
| "reason_text RBuyerCancelled = ''buyer_cancelled''"
| "reason_text RMerchantCancelled = ''merchant_cancelled''"
| "reason_text RDisputeBuyer = ''dispute_buyer''"
| "reason_text RSystemError = ''system_error''"

definition refund_escrow :: "'x service_env \<Rightarrow> string \<Rightarrow> string \<Rightarrow> RefundReasonCode \<Rightarrow> ('x, EscrowOperationResult) service_prog" where
  "refund_escrow env src eid code =
     pbind (getEscrowContractId env) (\<lambda>cid.
     pbind (service_parseEscrowId eid) (\<lambda>n.
     pbind (guarded_call env (contract_request src cid ''refund'' [ArgInt n]
              (''Refund escrow '' @ eid @ '' ('' @ reason_text code @ '')'') None))
       (\<lambda>tx. pret (toEscrowResult tx (Some eid)))))"

section \<open>One guarded call\<close>

lemma js_includes_chars: "js_includes s p \<Longrightarrow> set p \<subseteq> set s"
  by (auto simp: js_includes_iff)

fun is_invocation_error :: "js_error \<Rightarrow> bool" where
  "is_invocation_error (ContractInvocationError m c r) = True"
| "is_invocation_error _ = False"

lemma normalize_is_invocation: "is_invocation_error (normalizeContractError e)"
  by (cases e) (simp_all add: classify_message_def)

lemma classify_other:
  assumes "CHR ''l'' \<notin> set m" and "CHR ''L'' \<notin> set m" and "CHR ''_'' \<notin> set m"
  shows "classify_message m = ContractInvocationError m ''WALLET_SERVICE_ERROR'' False"
proof -
  have "js_lower_char c = CHR ''l'' \<Longrightarrow> c \<in> {CHR ''l'', CHR ''L''}" for c
  proof -
    assume *: "js_lower_char c = CHR ''l''"
    show ?thesis
    proof (cases "of_char c \<in> {65..90 :: nat}")
      case True
      with * have "of_char (char_of (of_char c + 32 :: nat)) = (108 :: nat)" by (simp add: js_lower_char_def)
      with True have "of_char c = (76 :: nat)" by simp
      then have "of_char c = (of_char (CHR ''L'') :: nat)" by simp
      then show ?thesis by (metis char_of_char insertI1 insertI2)
    next
      case False
      with * show ?thesis unfolding js_lower_char_def by (simp only: if_False) simp
    qed
  qed
  with assms have "CHR ''l'' \<notin> set (js_lower m)" by (fastforce simp: js_lower_def)
  then have "\<not> js_includes (js_lower m) ''simulation failed''" using js_includes_chars by fastforce
  moreover have "\<not> js_includes m ''Submission failed''" "\<not> js_includes m ''Transaction failed''"
    "\<not> js_includes m ''Wallet service unavailable''" "\<not> js_includes m ''tx_bad_seq''" "\<not> js_includes m ''bad_seq''"
    using js_includes_chars assms by fastforce+
  ultimately show ?thesis by (simp add: classify_message_def)
qed

lemma normalize_breaker_open:
  "\<exists>m. normalizeContractError (breaker_open_error b) = ContractInvocationError m ''WALLET_SERVICE_ERROR'' False"
  by (simp add: breaker_open_error_def) (subst classify_other, simp_all add: show_int_no_char)

text \<open>What one program may do to the world: leave the payment records alone and post a known list of requests.\<close>

definition posts :: "'x service_world \<Rightarrow> ServiceRequest list \<Rightarrow> 'x service_world \<Rightarrow> bool" where
  "posts w reqs w' \<longleftrightarrow> sw_table w' = sw_table w \<and> sw_posted w' = sw_posted w @ reqs"

lemma posts_refl [simp]: "posts w [] w"
  by (simp add: posts_def)

lemma posts_trans: "posts w p w' \<Longrightarrow> posts w' q w'' \<Longrightarrow> posts w (p @ q) w''"
  by (simp add: posts_def)

lemma posts_fields [simp]:
  "posts w reqs (w'\<lparr>sw_ext := x\<rparr>) = posts w reqs w'" "posts w reqs (w'\<lparr>sw_breaker := b\<rparr>) = posts w reqs w'"
  "posts w reqs (w'\<lparr>sw_feeCache := c\<rparr>) = posts w reqs w'" "posts (w\<lparr>sw_ext := x\<rparr>) reqs w' = posts w reqs w'"
  by (simp_all add: posts_def)

lemma fee_posts: "getTransactionFeeEstimate env w = (r, w') \<Longrightarrow> posts w [] w'"
  unfolding getTransactionFeeEstimate_def
  by (auto simp: prog_simps ask_def posts_def split: sum.splits prod.splits if_splits)

lemma submit_posts:
  assumes "submitContractCall env req w = (r, w')"
  obtains (none) e where "posts w [] w'" "r = Inl e" | (one) "posts w [req] w'"
proof (cases "js_trim (or_empty (sv_PAYMENTS_WALLET_SERVICE_TOKEN env)) = []")
  case True
  with assms none show ?thesis by (auto simp: submitContractCall_def prog_simps)
next
  case False
  obtain rf wf where f: "getTransactionFeeEstimate env w = (rf, wf)" by (cases "getTransactionFeeEstimate env w")
  show ?thesis
  proof (cases rf)
    case (Inl e)
    with assms f False fee_posts [OF f] none show ?thesis by (auto simp: submitContractCall_def prog_simps)
  next
    case (Inr fee)
    obtain reply x where p: "sv_post env req fee (sw_ext wf) = (reply, x)" by (cases "sv_post env req fee (sw_ext wf)")
    have "w' = wf\<lparr>sw_posted := sw_posted wf @ [req], sw_ext := x\<rparr>"
      using assms f Inr False p
      by (simp add: submitContractCall_def post_wallet_def prog_simps split: wallet_reply.splits if_splits option.splits)
    with fee_posts [OF f] one show ?thesis by (simp add: posts_def)
  qed
qed

lemma through_breaker_posts:
  assumes "through_breaker env fn w = (r, w')"
  obtains (rejected) "posts w [] w'" "r = Inl (breaker_open_error (sw_breaker w))"
  | (called) wa wb where "posts w [] wa" "fn wa = (r, wb)" "\<And>p. posts wa p wb \<Longrightarrow> posts wa p w'"
proof -
  obtain t x where c: "sv_clock env (sw_ext w) = (t, x)" by (cases "sv_clock env (sw_ext w)")
  obtain ok b where a: "admit t (sw_breaker w) = (ok, b)" by (cases "admit t (sw_breaker w)")
  show ?thesis
  proof (cases ok)
    case False
    with assms c a rejected show ?thesis by (auto simp: through_breaker_def execute_def)
  next
    case True
    obtain r1 wb where f: "fn (w\<lparr>sw_ext := x\<rparr>) = (r1, wb)" by (cases "fn (w\<lparr>sw_ext := x\<rparr>)")
    from True assms c a f have "r = r1" "\<exists>x' b'. w' = wb\<lparr>sw_ext := x', sw_breaker := b'\<rparr>"
      by (auto simp: through_breaker_def execute_def split: prod.splits sum.splits)
    with f called [of "w\<lparr>sw_ext := x\<rparr>" wb] show ?thesis by auto
  qed
qed

lemma guarded_call_posts:
  assumes "guarded_call env req w = (r, w')"
  shows "(\<exists>e. r = Inl e \<and> is_invocation_error e \<and> posts w [] w') \<or>
    posts w [req] w' \<and> (\<forall>e. r = Inl e \<longrightarrow> is_invocation_error e)"
proof -
  obtain r1 where t: "through_breaker env (submitContractCall env req) w = (r1, w')"
    and r: "r = (case r1 of Inl e \<Rightarrow> Inl (normalizeContractError e) | Inr a \<Rightarrow> Inr a)"
    using assms by (auto simp: guarded_call_def prog_simps split: prod.splits sum.splits)
  have err: "\<forall>e. r = Inl e \<longrightarrow> is_invocation_error e"
    using r normalize_is_invocation by (auto split: sum.splits)
  from t show ?thesis
  proof (cases rule: through_breaker_posts)
    case rejected
    with r err show ?thesis by simp
  next
    case (called wa wb)
    show ?thesis
      using called(2)
    proof (cases rule: submit_posts)
      case (none e)
      with called posts_trans [of w "[]" wa "[]" w'] r err show ?thesis by simp
    next
      case one
      with called posts_trans [of w "[]" wa "[req]" w'] err show ?thesis by simp
    qed
  qed
qed

lemma through_breaker_rejects:
  assumes "\<not> fst (admit (fst (sv_clock env (sw_ext w))) (sw_breaker w))"
    and "through_breaker env fn w = (r, w')"
  shows "posts w [] w' \<and> r = Inl (breaker_open_error (sw_breaker w))"
  using assms by (auto simp: through_breaker_def execute_def split: prod.splits)

text \<open>A contract call of the escrow client leaves the payment records alone and posts its request to the wallet
  service at most once, exactly once when it returns. Every error that leaves it is a classified
  contract invocation error. When the breaker rejects the call, nothing is posted, and the error is
  classified as permanent (\<^verbatim>\<open>WALLET_SERVICE_ERROR\<close>, not retryable).\<close>

theorem contract_call_outcome:
  assumes "guarded_call env req w = (r, w')"
  shows "sw_table w' = sw_table w \<and>
    (sw_posted w' = sw_posted w @ [req] \<or> sw_posted w' = sw_posted w \<and> (\<exists>e. r = Inl e)) \<and>
    (\<forall>e. r = Inl e \<longrightarrow> is_invocation_error e) \<and>
    (\<not> fst (admit (fst (sv_clock env (sw_ext w))) (sw_breaker w)) \<longrightarrow>
      sw_posted w' = sw_posted w \<and> (\<exists>m. r = Inl (ContractInvocationError m ''WALLET_SERVICE_ERROR'' False)))"
proof (intro conjI impI)
  note outcome = guarded_call_posts [OF assms]
  then show "sw_table w' = sw_table w"
    "sw_posted w' = sw_posted w @ [req] \<or> sw_posted w' = sw_posted w \<and> (\<exists>e. r = Inl e)"
    "\<forall>e. r = Inl e \<longrightarrow> is_invocation_error e" by (auto simp: posts_def)
  assume rej: "\<not> fst (admit (fst (sv_clock env (sw_ext w))) (sw_breaker w))"
  obtain r1 w1 where t: "through_breaker env (submitContractCall env req) w = (r1, w1)"
    by (cases "through_breaker env (submitContractCall env req) w")
  from through_breaker_rejects [OF rej t] have r1: "posts w [] w1" "r1 = Inl (breaker_open_error (sw_breaker w))" by simp_all
  with assms t have "w' = w1" "r = Inl (normalizeContractError (breaker_open_error (sw_breaker w)))"
    by (simp_all add: guarded_call_def prog_simps)
  then show "sw_posted w' = sw_posted w" "\<exists>m. r = Inl (ContractInvocationError m ''WALLET_SERVICE_ERROR'' False)"
    using r1(1) normalize_breaker_open by (auto simp: posts_def)
qed

text \<open>A concrete environment: a clock that counts, a wallet that accepts everything, a database that is up
  as long as the second component of the world lasts.\<close>

definition demo_service :: "(int \<times> bool list) service_env" where
  "demo_service =
     \<lparr>sv_clock = (\<lambda>(t, d). (t, (t + 1, d))), sv_horizon = (\<lambda>_. Inr ()), sv_feeStats = (\<lambda>x. (Inl ''offline'', x)),
      sv_post = (\<lambda>req fee x. (Reply 200 True \<lparr>wb_error = None,
         wb_data = Some \<lparr>tx_hash = ''h'', tx_ledger = 9, tx_success = True\<rparr>\<rparr>, x)),
      sv_publish = (\<lambda>e x. (Inr (), x)),
      sv_dbUp = (\<lambda>(t, d). case d of [] \<Rightarrow> (True, (t, [])) | b # bs \<Rightarrow> (b, (t, bs))),
      sv_STELLAR_NETWORK = None, sv_STELLAR_HORIZON_URL = None, sv_PAYMENTS_WALLET_SERVICE_TOKEN = Some ''tok'',
      sv_ESCROW_CONTRACT_ID = Some ''C1'', sv_SETTLEMENT_SOURCE_ADDRESS = Some ''G1'', sv_SETTLEMENT_RELEASE_ADDRESS = None\<rparr>"

definition demo_service_world :: "bool list \<Rightarrow> (int \<times> bool list) service_world" where
  "demo_service_world d =
     \<lparr>sw_table = [demo_row], sw_breaker = new_breaker default_config 0, sw_feeCache = None, sw_posted = [], sw_ext = (1, d)\<rparr>"

definition demo_request :: ServiceRequest where
  "demo_request = contract_request ''G1'' ''C1'' ''release'' [ArgInt 7] ''Release escrow 7'' None"

theorem contract_call_outcome_witness:
  "sw_table (snd (guarded_call demo_service demo_request (demo_service_world []))) = [demo_row]"
  using contract_call_outcome [of demo_service demo_request "demo_service_world []", OF prod.collapse [symmetric]]
  by (simp add: demo_service_world_def)

end
