(* ===== verification/Settlement.thy ===== *)
theory Settlement
  imports Escrow_Service
begin

text \<open>
  Order-level settlement (payments/settlement/index.ts) over the escrow client and the payment records: dry
  run, release, refund and the older coordination path. Every statement against the database may find it
  unreachable (\<open>sv_dbUp\<close>), because what a retry does after such a failure is what the idempotency is for.
\<close>

section \<open>Data\<close>

record SettlementCommand =
  sc_orderId :: "string option"
  sc_escrowId :: "string option"
  sc_releaseTo :: "string option"
  sc_amountStroops :: "string option"

datatype dry_run_input = ByOrderId string | ByCommand SettlementCommand

record SettlementDryRunResult =
  dr_orderId :: string
  dr_canSettle :: bool
  dr_simulationFee :: "string option"
  dr_reason :: "string option"

datatype SettlementOutcomeStatus = SReleased | SRefunded | SFailed | SNoEscrow

record SettlementOutcome =
  so_orderId :: string
  so_escrowId :: "string option"
  so_status :: SettlementOutcomeStatus
  so_txHash :: "string option"
  so_alreadySettled :: bool
  so_reason :: "string option"

section \<open>Database calls\<close>

fun store_message :: "store_error \<Rightarrow> string" where
  "store_message (RecordNotFound i) = ''Payment record not found: '' @ i"
| "store_message (InvalidTax m) = m"
| "store_message (DbError m) = m"

definition db :: "'x service_env \<Rightarrow> 'a store_op \<Rightarrow> ('x, 'a) service_prog" where
  "db env op =
     pbind (ask (sv_dbUp env)) (\<lambda>up.
     if \<not> up then pthrow (PlainError ''database unavailable'')
     else (\<lambda>w. case op (sw_table w) of
            (Inl e, tb) \<Rightarrow> (Inl (PlainError (store_message e)), w\<lparr>sw_table := tb\<rparr>)
          | (Inr a, tb) \<Rightarrow> (Inr a, w\<lparr>sw_table := tb\<rparr>)))"

definition loadPaymentRecordForCompensation :: "'x service_env \<Rightarrow> string \<Rightarrow> ('x, PaymentRecord option) service_prog" where
  "loadPaymentRecordForCompensation env oid = db env (\<lambda>tb. (Inr (findPaymentRecordByOrderId oid tb), tb))"

definition db_update :: "'x service_env \<Rightarrow> string \<Rightarrow> PaymentRecordUpdate \<Rightarrow> ('x, PaymentRecord) service_prog" where
  "db_update env rid u = pbind (ask (sv_clock env)) (\<lambda>t. db env (updatePaymentRecord t rid u))"

definition failed_update :: "string \<Rightarrow> PaymentRecordUpdate" where
  "failed_update m = no_update\<lparr>pu_status := Some PFailed, pu_failureReason := Some (Some m)\<rparr>"

text \<open>\<^verbatim>\<open>m.catch(...)\<close> with a handler that only logs.\<close>

definition swallow :: "('x, 'a) service_prog \<Rightarrow> ('x, unit) service_prog" where
  "swallow m = pcatch (pbind m (\<lambda>_. pret ())) (\<lambda>_. pret ())"

definition publish_event :: "'x service_env \<Rightarrow> string \<Rightarrow> string \<Rightarrow> (string \<times> string) list \<Rightarrow> ('x, unit) service_prog" where
  "publish_event env ty oid payload =
     pbind (ask (sv_clock env)) (\<lambda>t w.
       case sv_publish env \<lparr>pe_type = ty, pe_orderId = oid, pe_payload = payload, pe_occurredAt = t\<rparr> (sw_ext w) of
         (r, x) \<Rightarrow> (r, w\<lparr>sw_ext := x\<rparr>))"

section \<open>Dry run\<close>

definition resolveEscrowForOrder :: "string \<Rightarrow> string" where
  "resolveEscrowForOrder oid = oid"

definition resolveReleaseAddress :: "'x service_env \<Rightarrow> string \<Rightarrow> string" where
  "resolveReleaseAddress env oid = or_default (sv_SETTLEMENT_RELEASE_ADDRESS env) oid"

definition resolveSettlementAmount :: "string \<Rightarrow> string" where
  "resolveSettlementAmount oid = ''0''"

definition refuse_dry_run :: "string \<Rightarrow> string \<Rightarrow> SettlementDryRunResult" where
  "refuse_dry_run oid why = \<lparr>dr_orderId = oid, dr_canSettle = False, dr_simulationFee = None, dr_reason = Some why\<rparr>"

text \<open>\<^verbatim>\<open>releaseTo\<close> and \<^verbatim>\<open>amountStroops\<close> are only logged by the dry run.\<close>

definition dryRunSettlement :: "'x service_env \<Rightarrow> dry_run_input \<Rightarrow> ('x, SettlementDryRunResult) service_prog" where
  "dryRunSettlement env inp =
     (let oid = (case inp of ByOrderId s \<Rightarrow> js_trim s | ByCommand c \<Rightarrow> js_trim (or_empty (sc_orderId c)))
      in if oid = [] then pret (refuse_dry_run '''' ''Invalid or missing order ID'')
         else if \<not> truthy (sv_SETTLEMENT_SOURCE_ADDRESS env)
         then pret (refuse_dry_run oid ''SETTLEMENT_SOURCE_ADDRESS environment variable is not configured'')
         else (let eid = (case inp of
                    ByCommand c \<Rightarrow> if truthy (sc_escrowId c) then or_empty (sc_escrowId c) else resolveEscrowForOrder oid
                  | ByOrderId _ \<Rightarrow> resolveEscrowForOrder oid)
               in if js_trim eid = [] then pret (refuse_dry_run oid ''Invalid or missing escrow ID'')
                  else pcatch (pbind (getTransactionFeeEstimate env) (\<lambda>fee.
                         pret \<lparr>dr_orderId = oid, dr_canSettle = True,
                               dr_simulationFee = Some (show_int (fe_recommendedFeeStroops fee)), dr_reason = None\<rparr>))
                       (\<lambda>e. pret (refuse_dry_run oid (error_message ''unknown'' e)))))"

section \<open>Release and refund by order\<close>

definition outcome ::
  "string \<Rightarrow> string option \<Rightarrow> SettlementOutcomeStatus \<Rightarrow> string option \<Rightarrow> bool \<Rightarrow> string option \<Rightarrow> SettlementOutcome" where
  "outcome oid eid st tx already why =
     \<lparr>so_orderId = oid, so_escrowId = eid, so_status = st, so_txHash = tx, so_alreadySettled = already, so_reason = why\<rparr>"

text \<open>The \<^verbatim>\<open>try\<close> block that both operations share: the contract call, the record of a transaction that failed
  on chain, the record and the event of one that went through, and the handler.\<close>

definition attempt_settlement ::
  "'x service_env \<Rightarrow> string \<Rightarrow> PaymentRecord \<Rightarrow> ('x, EscrowOperationResult) service_prog \<Rightarrow> SettlementOutcomeStatus \<Rightarrow>
   (string \<Rightarrow> PaymentRecordUpdate) \<Rightarrow> string \<Rightarrow> (string \<times> string) list \<Rightarrow> string \<Rightarrow> string \<Rightarrow> ('x, SettlementOutcome) service_prog" where
  "attempt_settlement env oid r call st upd ty extra failed_text unknown_text =
     pcatch
       (pbind call (\<lambda>res.
        if \<not> eo_success res
        then pbind (db_update env (pr_id r) (failed_update failed_text)) (\<lambda>_.
             pret (outcome oid (pr_escrowId r) SFailed (Some (eo_txHash res)) False (Some failed_text)))
        else pbind (db_update env (pr_id r) (upd (eo_txHash res))) (\<lambda>_.
             pbind (swallow (publish_event env ty oid
                      ([(''escrowId'', or_empty (pr_escrowId r)), (''txHash'', eo_txHash res)] @ extra))) (\<lambda>_.
             pret (outcome oid (pr_escrowId r) st (Some (eo_txHash res)) False None)))))
       (\<lambda>e. let m = error_message unknown_text e in
            pbind (swallow (db_update env (pr_id r) (failed_update m))) (\<lambda>_.
            pret (outcome oid (pr_escrowId r) SFailed None False (Some m))))"

definition released_update :: "string \<Rightarrow> PaymentRecordUpdate" where
  "released_update h = no_update\<lparr>pu_status := Some PReleased, pu_releaseTxHash := Some (Some h), pu_failureReason := Some None\<rparr>"

definition refunded_update :: "string \<Rightarrow> PaymentRecordUpdate" where
  "refunded_update h = no_update\<lparr>pu_status := Some PRefunded, pu_refundTxHash := Some (Some h), pu_failureReason := Some None\<rparr>"

definition source_address :: "'x service_env \<Rightarrow> ('x, string) service_prog" where
  "source_address env =
     (if truthy (sv_SETTLEMENT_SOURCE_ADDRESS env) then pret (or_empty (sv_SETTLEMENT_SOURCE_ADDRESS env))
      else pthrow (PlainError ''SETTLEMENT_SOURCE_ADDRESS environment variable is not configured''))"

definition no_escrow_outcome :: "string \<Rightarrow> PaymentRecord option \<Rightarrow> SettlementOutcome" where
  "no_escrow_outcome oid r =
     outcome oid (case r of None \<Rightarrow> None | Some x \<Rightarrow> pr_escrowId x) SNoEscrow None False (Some ''No funded escrow found for order'')"

definition settleOrder :: "'x service_env \<Rightarrow> string \<Rightarrow> ('x, SettlementOutcome) service_prog" where
  "settleOrder env orderId =
     (let oid = js_trim orderId in
      if oid = [] then pthrow (PlainError ''orderId is required'')
      else pbind (loadPaymentRecordForCompensation env oid) (\<lambda>rec.
        case rec of
          None \<Rightarrow> pret (no_escrow_outcome oid rec)
        | Some r \<Rightarrow>
            if \<not> truthy (pr_escrowId r) then pret (no_escrow_outcome oid rec)
            else if pr_status r = PReleased
            then pret (outcome oid (pr_escrowId r) SReleased (pr_releaseTxHash r) True None)
            else if pr_status r = PRefunded
            then pret (outcome oid (pr_escrowId r) SFailed None False
                   (Some (''Cannot release order '' @ oid @ '': escrow was already refunded'')))
            else pbind (source_address env) (\<lambda>src.
                 attempt_settlement env oid r (release_escrow env src (or_empty (pr_escrowId r))) SReleased released_update
                   ''escrow_released'' [] ''Release transaction failed on-chain'' ''Unknown release error'')))"

definition refundOrder :: "'x service_env \<Rightarrow> string \<Rightarrow> RefundReasonCode \<Rightarrow> ('x, SettlementOutcome) service_prog" where
  "refundOrder env orderId code =
     (let oid = js_trim orderId in
      if oid = [] then pthrow (PlainError ''orderId is required'')
      else pbind (loadPaymentRecordForCompensation env oid) (\<lambda>rec.
        case rec of
          None \<Rightarrow> pret (no_escrow_outcome oid rec)
        | Some r \<Rightarrow>
            if \<not> truthy (pr_escrowId r) then pret (no_escrow_outcome oid rec)
            else if pr_status r = PRefunded
            then pret (outcome oid (pr_escrowId r) SRefunded (pr_refundTxHash r) True None)
            else if pr_status r = PReleased
            then pret (outcome oid (pr_escrowId r) SFailed None False
                   (Some (''Cannot refund order '' @ oid @ '': escrow was already released'')))
            else pbind (source_address env) (\<lambda>src.
                 attempt_settlement env oid r (refund_escrow env src (or_empty (pr_escrowId r)) code) SRefunded refunded_update
                   ''escrow_refunded'' [(''reasonCode'', reason_text code)] ''Refund transaction failed on-chain''
                   ''Unknown refund error'')))"

section \<open>The older coordination path\<close>

text \<open>The events are published without being awaited; their errors are logged. An error after the release cannot
  occur, so the handler's test on \<^verbatim>\<open>ledgerResult\<close> always finds it unset.\<close>

definition coordinateSettlement :: "'x service_env \<Rightarrow> string \<Rightarrow> ('x, unit) service_prog" where
  "coordinateSettlement env oid =
     (let eid = resolveEscrowForOrder oid; releaseTo = resolveReleaseAddress env oid; amount = resolveSettlementAmount oid in
      pbind (ptry (pbind (source_address env) (\<lambda>src. release_escrow env src eid))) (\<lambda>res.
      case res of
        Inr led \<Rightarrow>
          swallow (publish_event env ''settlement_complete'' oid
            [(''escrowId'', eid), (''releaseTo'', releaseTo), (''amountStroops'', amount), (''txHash'', eo_txHash led)])
      | Inl e \<Rightarrow>
          pbind (swallow (publish_event env ''settlement_complete'' oid
            [(''error'', error_message ''Unknown error'' e), (''status'', ''failed'')])) (\<lambda>_. pthrow e)))"

section \<open>What one settlement may change\<close>

definition write_row :: "string \<Rightarrow> (PaymentRecord \<Rightarrow> PaymentRecord) \<Rightarrow> payment_table \<Rightarrow> payment_table" where
  "write_row rid f rows = map (\<lambda>x. if pr_id x = rid then f x else x) rows"

lemma no_update_distinct [simp]: "failed_update m \<noteq> no_update" "released_update h \<noteq> no_update" "refunded_update h \<noteq> no_update"
  by (simp_all add: failed_update_def released_update_def refunded_update_def no_update_def)

lemma db_update_cases:
  assumes "db_update env (pr_id r) u w = (res, w')" and "table_ok (sw_table w)" and "r \<in> set (sw_table w)"
    and "u \<noteq> no_update"
  obtains (down) e where "res = Inl e" "posts w [] w'"
  | (written) t r' where "res = Inr r'" "sw_table w' = write_row (pr_id r) (apply_update u t) (sw_table w)"
      "sw_posted w' = sw_posted w"
proof -
  obtain t x where t: "sv_clock env (sw_ext w) = (t, x)" by (cases "sv_clock env (sw_ext w)")
  obtain up y where up: "sv_dbUp env x = (up, y)" by (cases "sv_dbUp env x")
  show ?thesis
  proof (cases up)
    case False
    with assms(1) t up down show ?thesis
      by (auto simp: db_update_def db_def ask_def prog_simps posts_def)
  next
    case True
    with assms t up show ?thesis
      using written [of "apply_update u t r" t] update_row_found [of "sw_table w" r "apply_update u t"]
      by (auto simp: db_update_def db_def ask_def prog_simps updatePaymentRecord_def write_row_def)
  qed
qed

lemma publish_posts: "publish_event env ty oid p w = (res, w') \<Longrightarrow> posts w [] w'"
  by (auto simp: publish_event_def ask_def prog_simps posts_def split: prod.splits)

lemma swallow_run: "swallow m w = (Inr (), snd (m w))"
  by (auto simp: swallow_def prog_simps split: prod.splits sum.splits)

lemma swallow_publish: "\<exists>w'. swallow (publish_event env ty oid p) w = (Inr (), w') \<and> posts w [] w'"
  using publish_posts [of env ty oid p w "fst (publish_event env ty oid p w)" "snd (publish_event env ty oid p w)"]
  by (simp add: swallow_run)

text \<open>A contract call that goes through the breaker leaves the table alone.\<close>

definition calls :: "('x, 'a) service_prog \<Rightarrow> bool" where
  "calls m \<longleftrightarrow> (\<forall>w r w'. m w = (r, w') \<longrightarrow> sw_table w' = sw_table w \<and>
     (sw_posted w' = sw_posted w \<and> (\<exists>e. r = Inl e) \<or> (\<exists>req. sw_posted w' = sw_posted w @ [req])))"

lemma guarded_call_calls:
  assumes "\<And>x. f x = pret (g x)"
  shows "calls (pbind (guarded_call env req) f)"
  unfolding calls_def
proof (intro allI impI)
  fix w r w'
  assume run: "pbind (guarded_call env req) f w = (r, w')"
  obtain r1 w1 where g: "guarded_call env req w = (r1, w1)" by (cases "guarded_call env req w")
  from run g assms have "w' = w1" "(\<exists>e. r1 = Inl e) \<longrightarrow> (\<exists>e. r = Inl e)"
    by (auto simp: prog_simps split: sum.splits)
  with guarded_call_posts [OF g]
  show "sw_table w' = sw_table w \<and> (sw_posted w' = sw_posted w \<and> (\<exists>e. r = Inl e) \<or> (\<exists>req. sw_posted w' = sw_posted w @ [req]))"
    by (auto simp: posts_def)
qed

lemma calls_pthrow: "calls (pthrow e)"
  by (simp add: calls_def prog_simps)

lemma parse_calls: "(\<And>n. calls (f n)) \<Longrightarrow> calls (pbind (service_parseEscrowId eid) f)"
  by (cases "js_integer eid") (simp_all add: service_parseEscrowId_def calls_pthrow)

lemma contract_id_calls: "(\<And>n. calls (f n)) \<Longrightarrow> calls (pbind (getEscrowContractId env) f)"
  by (simp add: getEscrowContractId_def calls_pthrow)

lemma release_calls: "calls (release_escrow env src eid)"
  unfolding release_escrow_def by (intro contract_id_calls parse_calls guarded_call_calls) simp

lemma refund_calls: "calls (refund_escrow env src eid code)"
  unfolding refund_escrow_def by (intro contract_id_calls parse_calls guarded_call_calls) simp

lemma outcome_simps [simp]:
  "so_status (outcome oid eid st tx al why) = st" "so_txHash (outcome oid eid st tx al why) = tx"
  "so_alreadySettled (outcome oid eid st tx al why) = al"
  by (simp_all add: outcome_def)

lemma attempt_handler:
  assumes "swallow (db_update env (pr_id r) (failed_update m)) w = (Inr (), w')" and "table_ok (sw_table w)" and "r \<in> set (sw_table w)"
  shows "sw_posted w' = sw_posted w \<and>
    (sw_table w' = sw_table w \<or> (\<exists>t. sw_table w' = write_row (pr_id r) (apply_update (failed_update m) t) (sw_table w)))"
proof -
  obtain res wu where u: "db_update env (pr_id r) (failed_update m) w = (res, wu)"
    by (cases "db_update env (pr_id r) (failed_update m) w")
  with assms(1) have "w' = wu" by (simp add: swallow_run)
  from u assms(2,3) show ?thesis
    by (cases rule: db_update_cases) (auto simp: posts_def \<open>w' = wu\<close>)
qed

text \<open>The block never throws; it records the payment with its hash, or answers \<^verbatim>\<open>failed\<close> and at most marks the
  row as failed.\<close>

lemma attempt_cases:
  assumes "attempt_settlement env oid r call st upd ty extra ft ut w = (res, w')"
    and "calls call" and ok: "table_ok (sw_table w)" "r \<in> set (sw_table w)" and upd: "\<And>h. upd h \<noteq> no_update"
  obtains (paid) h t req where "res = Inr (outcome oid (pr_escrowId r) st (Some h) False None)"
      "sw_table w' = write_row (pr_id r) (apply_update (upd h) t) (sw_table w)" "sw_posted w' = sw_posted w @ [req]"
  | (failed) out where "res = Inr out" "so_status out = SFailed"
      "sw_table w' = sw_table w \<or> (\<exists>m t. sw_table w' = write_row (pr_id r) (apply_update (failed_update m) t) (sw_table w))"
proof -
  define handler where "handler = (\<lambda>e. let m = error_message ut e in
      pbind (swallow (db_update env (pr_id r) (failed_update m))) (\<lambda>_.
      pret (outcome oid (pr_escrowId r) SFailed None False (Some m))))"
  have handled: thesis if "handler e wh = (res, w')" "sw_table wh = sw_table w" for e wh
  proof -
    obtain wu where s: "swallow (db_update env (pr_id r) (failed_update (error_message ut e))) wh = (Inr (), wu)"
      by (simp add: swallow_run)
    with that(1) have "res = Inr (outcome oid (pr_escrowId r) SFailed None False (Some (error_message ut e)))" "w' = wu"
      by (auto simp: handler_def Let_def prog_simps)
    with attempt_handler [OF s] that(2) ok show thesis by (intro failed) auto
  qed
  obtain rc wc where c: "call w = (rc, wc)" by (cases "call w")
  with assms(2) have tc: "sw_table wc = sw_table w" by (simp add: calls_def)
  note unfold = attempt_settlement_def handler_def [symmetric] pcatch_apply
  show thesis
  proof (cases rc)
    case (Inl e)
    with assms(1) c show thesis by (intro handled [of e wc, OF _ tc]) (simp add: unfold prog_simps)
  next
    case (Inr er)
    define u where "u = (if eo_success er then upd (eo_txHash er) else failed_update ft)"
    have u0: "u \<noteq> no_update" by (simp add: u_def upd)
    obtain ru wu where du: "db_update env (pr_id r) u wc = (ru, wu)" by (cases "db_update env (pr_id r) u wc")
    show thesis
      using du ok [folded tc] u0
    proof (cases rule: db_update_cases)
      case (down e)
      with assms(1) c Inr du have "handler e wu = (res, w')"
        by (cases "eo_success er") (simp_all add: unfold prog_simps u_def)
      then show thesis by (rule handled) (use down tc in \<open>simp add: posts_def\<close>)
    next
      case (written t r')
      show thesis
      proof (cases "eo_success er")
        case False
        with assms(1) c Inr du written have "res = Inr (outcome oid (pr_escrowId r) SFailed (Some (eo_txHash er)) False (Some ft))"
          "w' = wu" by (simp_all add: unfold prog_simps u_def)
        with written tc False show thesis by (intro failed) (auto simp: u_def)
      next
        case True
        obtain wp where p: "swallow (publish_event env ty oid
            ([(''escrowId'', or_empty (pr_escrowId r)), (''txHash'', eo_txHash er)] @ extra)) wu = (Inr (), wp)" "posts wu [] wp"
          using swallow_publish by blast
        from assms(1) c Inr du written True p(1) have
          "res = Inr (outcome oid (pr_escrowId r) st (Some (eo_txHash er)) False None)" "w' = wp"
          by (simp_all add: unfold prog_simps u_def)
        moreover obtain req where "sw_posted wc = sw_posted w @ [req]"
          using assms(2) c Inr unfolding calls_def by (metis Inl_Inr_False)
        ultimately show thesis using written p(2) tc True by (intro paid) (auto simp: u_def posts_def)
      qed
    qed
  qed
qed

text \<open>The part before the \<^verbatim>\<open>try\<close> block that both operations share: \<open>ans\<close> is the answer from the record alone.\<close>

definition by_order ::
  "'x service_env \<Rightarrow> string \<Rightarrow> (string \<Rightarrow> PaymentRecord \<Rightarrow> SettlementOutcome option) \<Rightarrow>
   (string \<Rightarrow> PaymentRecord \<Rightarrow> string \<Rightarrow> ('x, SettlementOutcome) service_prog) \<Rightarrow> ('x, SettlementOutcome) service_prog" where
  "by_order env orderId ans go =
     (let oid = js_trim orderId in
      if oid = [] then pthrow (PlainError ''orderId is required'')
      else pbind (loadPaymentRecordForCompensation env oid) (\<lambda>rec.
        case rec of
          None \<Rightarrow> pret (no_escrow_outcome oid rec)
        | Some r \<Rightarrow> if \<not> truthy (pr_escrowId r) then pret (no_escrow_outcome oid rec)
            else (case ans oid r of Some out \<Rightarrow> pret out | None \<Rightarrow> pbind (source_address env) (go oid r))))"

definition settle_answer :: "string \<Rightarrow> PaymentRecord \<Rightarrow> SettlementOutcome option" where
  "settle_answer oid r =
     (if pr_status r = PReleased then Some (outcome oid (pr_escrowId r) SReleased (pr_releaseTxHash r) True None)
      else if pr_status r = PRefunded then Some (outcome oid (pr_escrowId r) SFailed None False
             (Some (''Cannot release order '' @ oid @ '': escrow was already refunded'')))
      else None)"

definition refund_answer :: "string \<Rightarrow> PaymentRecord \<Rightarrow> SettlementOutcome option" where
  "refund_answer oid r =
     (if pr_status r = PRefunded then Some (outcome oid (pr_escrowId r) SRefunded (pr_refundTxHash r) True None)
      else if pr_status r = PReleased then Some (outcome oid (pr_escrowId r) SFailed None False
             (Some (''Cannot refund order '' @ oid @ '': escrow was already released'')))
      else None)"

lemma settleOrder_by_order:
  "settleOrder env orderId = by_order env orderId settle_answer (\<lambda>oid r src.
     attempt_settlement env oid r (release_escrow env src (or_empty (pr_escrowId r))) SReleased released_update
       ''escrow_released'' [] ''Release transaction failed on-chain'' ''Unknown release error'')"
  unfolding settleOrder_def by_order_def Let_def settle_answer_def
  by (intro if_cong arg_cong2 [where f = pbind] ext refl) (simp split: option.split)

lemma refundOrder_by_order:
  "refundOrder env orderId code = by_order env orderId refund_answer (\<lambda>oid r src.
     attempt_settlement env oid r (refund_escrow env src (or_empty (pr_escrowId r)) code) SRefunded refunded_update
       ''escrow_refunded'' [(''reasonCode'', reason_text code)] ''Refund transaction failed on-chain'' ''Unknown refund error'')"
  unfolding refundOrder_def by_order_def Let_def refund_answer_def
  by (intro if_cong arg_cong2 [where f = pbind] ext refl) (simp split: option.split)

lemma load_cases:
  assumes "loadPaymentRecordForCompensation env oid w = (res, w')"
  shows "posts w [] w' \<and> (res = Inl (PlainError ''database unavailable'') \<or> res = Inr (findPaymentRecordByOrderId oid (sw_table w)))"
  using assms by (auto simp: loadPaymentRecordForCompensation_def db_def ask_def prog_simps posts_def split: prod.splits if_splits)

lemma by_order_cases:
  assumes "by_order env orderId ans go w = (res, w')"
  obtains (stopped) e where "res = Inl e" "posts w [] w'"
  | (no_escrow) out where "res = Inr out" "so_status out = SNoEscrow" "posts w [] w'"
      "\<And>r. findPaymentRecordByOrderId (js_trim orderId) (sw_table w) = Some r \<Longrightarrow> \<not> truthy (pr_escrowId r)"
  | (answered) r out where "findPaymentRecordByOrderId (js_trim orderId) (sw_table w) = Some r" "truthy (pr_escrowId r)"
      "ans (js_trim orderId) r = Some out" "res = Inr out" "posts w [] w'"
  | (attempted) r src w1 where "findPaymentRecordByOrderId (js_trim orderId) (sw_table w) = Some r" "truthy (pr_escrowId r)"
      "ans (js_trim orderId) r = None" "posts w [] w1" "go (js_trim orderId) r src w1 = (res, w')"
proof (cases "js_trim orderId = []")
  case True
  with assms stopped show ?thesis by (auto simp: by_order_def Let_def prog_simps)
next
  case False
  obtain rl wl where l: "loadPaymentRecordForCompensation env (js_trim orderId) w = (rl, wl)"
    by (cases "loadPaymentRecordForCompensation env (js_trim orderId) w")
  note load = load_cases [OF l]
  show ?thesis
  proof (cases rl)
    case (Inl e)
    with assms l False load stopped show ?thesis by (auto simp: by_order_def Let_def prog_simps)
  next
    case (Inr rec)
    with load have rec: "rec = findPaymentRecordByOrderId (js_trim orderId) (sw_table w)" "posts w [] wl" by auto
    show ?thesis
    proof (cases "\<exists>r. rec = Some r \<and> truthy (pr_escrowId r)")
      case False
      with assms l \<open>js_trim orderId \<noteq> []\<close> Inr have "res = Inr (no_escrow_outcome (js_trim orderId) rec)" "w' = wl"
        by (auto simp: by_order_def Let_def prog_simps split: option.splits)
      with rec False show ?thesis by (intro no_escrow) (auto simp: no_escrow_outcome_def)
    next
      case True
      then obtain r where r: "rec = Some r" "truthy (pr_escrowId r)" by blast
      show ?thesis
      proof (cases "ans (js_trim orderId) r")
        case (Some out)
        with assms l \<open>js_trim orderId \<noteq> []\<close> Inr r rec answered show ?thesis by (auto simp: by_order_def Let_def prog_simps)
      next
        case None
        show ?thesis
        proof (cases "truthy (sv_SETTLEMENT_SOURCE_ADDRESS env)")
          case True
          with None assms l \<open>js_trim orderId \<noteq> []\<close> Inr r rec attempted show ?thesis
            by (auto simp: by_order_def Let_def prog_simps source_address_def)
        next
          case False
          with None assms l \<open>js_trim orderId \<noteq> []\<close> Inr r rec stopped show ?thesis
            by (auto simp: by_order_def Let_def prog_simps source_address_def)
        qed
      qed
    qed
  qed
qed

section \<open>Settlement is final\<close>

text \<open>The order has been paid out: its record is terminal and carries the transaction hash \<open>h\<close>.\<close>

definition paid_out :: "string \<Rightarrow> PaymentRecordStatus \<Rightarrow> string option \<Rightarrow> payment_table \<Rightarrow> bool" where
  "paid_out oid st h rows \<longleftrightarrow> table_ok rows \<and> st \<in> {PReleased, PRefunded} \<and>
     (\<exists>r \<in> set rows. pr_orderId r = oid \<and> truthy (pr_escrowId r) \<and> pr_status r = st \<and>
        (if st = PReleased then pr_releaseTxHash r else pr_refundTxHash r) = h)"

lemma paid_outI:
  assumes "table_ok rows" and "r \<in> set rows" and "st \<in> {PReleased, PRefunded}" and "pr_orderId r = oid"
    and "truthy (pr_escrowId r)" and "pr_status r = st"
    and "(if st = PReleased then pr_releaseTxHash r else pr_refundTxHash r) = h"
  shows "paid_out oid st h rows"
  unfolding paid_out_def using assms by (intro conjI bexI [of _ r]) simp_all

text \<open>A table that one settlement leaves behind.\<close>

definition settled_from :: "payment_table \<Rightarrow> payment_table \<Rightarrow> bool" where
  "settled_from rows rows' \<longleftrightarrow> rows' = rows \<or>
     (\<exists>r u t. r \<in> set rows \<and> pr_status r \<notin> {PReleased, PRefunded} \<and> rows' = write_row (pr_id r) (apply_update u t) rows)"

lemma write_row_ok: "table_ok rows \<Longrightarrow> table_ok (write_row rid (apply_update u t) rows)"
proof -
  assume "table_ok rows"
  moreover have "pr_id \<circ> (\<lambda>x. if pr_id x = rid then apply_update u t x else x) = pr_id"
    "pr_orderId \<circ> (\<lambda>x. if pr_id x = rid then apply_update u t x else x) = pr_orderId" by (auto simp: fun_eq_iff)
  ultimately show ?thesis by (simp add: table_ok_def write_row_def)
qed

lemma settled_from_ok: "settled_from rows rows' \<Longrightarrow> table_ok rows \<Longrightarrow> table_ok rows'"
  by (auto simp: settled_from_def write_row_ok)

lemma settled_from_paid:
  assumes s: "settled_from rows rows'" and p: "paid_out oid st h rows"
  shows "paid_out oid st h rows'"
proof -
  from p have "table_ok rows" by (simp add: paid_out_def)
  with s have ok: "table_ok rows'" by (rule settled_from_ok)
  from p obtain r where r: "r \<in> set rows" "pr_orderId r = oid" "truthy (pr_escrowId r)" "pr_status r = st"
    "(if st = PReleased then pr_releaseTxHash r else pr_refundTxHash r) = h" and st: "st \<in> {PReleased, PRefunded}"
    unfolding paid_out_def by (elim conjE bexE)
  have "r \<in> set rows'"
  proof (cases "rows' = rows")
    case False
    with s obtain q u t where q: "q \<in> set rows" "pr_status q \<notin> {PReleased, PRefunded}"
      "rows' = write_row (pr_id q) (apply_update u t) rows" unfolding settled_from_def by (elim disjE exE conjE) simp
    have "r = q" if "pr_id r = pr_id q"
    proof -
      have d: "distinct (map pr_id rows)" using \<open>table_ok rows\<close> by (simp add: table_ok_def)
      from find_unique_key [OF d r(1)] find_unique_key [OF d q(1)] have "Some r = Some q" unfolding that by (rule trans [OF sym])
      then show ?thesis by simp
    qed
    with r(4) st q(2) have "pr_id r \<noteq> pr_id q" by (cases "pr_id r = pr_id q") simp_all
    then have "(if pr_id r = pr_id q then apply_update u t r else r) = r" by simp
    then show ?thesis unfolding q(3) write_row_def set_map using r(1) by (rule image_eqI [OF sym])
  qed (use r(1) in simp)
  then show ?thesis using st r(2-5) by (rule paid_outI [OF ok])
qed

lemma found_row:
  assumes "table_ok rows" and "findPaymentRecordByOrderId oid rows = Some r"
  shows "r \<in> set rows \<and> pr_orderId r = oid"
  using find_SomeD [of "\<lambda>r. pr_orderId r = oid" rows r] assms(2) by (simp add: findPaymentRecordByOrderId_def)

lemma paid_out_found:
  assumes "paid_out oid st h rows"
  obtains r where "findPaymentRecordByOrderId oid rows = Some r" "truthy (pr_escrowId r)" "pr_status r = st"
    "(if st = PReleased then pr_releaseTxHash r else pr_refundTxHash r) = h"
proof -
  from assms obtain r where "r \<in> set rows" "pr_orderId r = oid" "truthy (pr_escrowId r)" "pr_status r = st"
    "(if st = PReleased then pr_releaseTxHash r else pr_refundTxHash r) = h" "table_ok rows" by (auto simp: paid_out_def)
  with find_unique_key [of pr_orderId rows r] that show ?thesis
    by (simp add: findPaymentRecordByOrderId_def table_ok_def)
qed

lemma posts_table: "posts w p w' \<Longrightarrow> sw_table w' = sw_table w"
  by (simp add: posts_def)

lemma answer_None:
  "settle_answer oid r = None \<longleftrightarrow> pr_status r \<notin> {PReleased, PRefunded}"
  "refund_answer oid r = None \<longleftrightarrow> pr_status r \<notin> {PReleased, PRefunded}"
  by (simp_all add: settle_answer_def refund_answer_def)

lemma paid_by_write:
  assumes "table_ok rows" and "r \<in> set rows" and "truthy (pr_escrowId r)"
  shows "paid_out (pr_orderId r) PReleased (Some h) (write_row (pr_id r) (apply_update (released_update h) t) rows)"
    and "paid_out (pr_orderId r) PRefunded (Some h) (write_row (pr_id r) (apply_update (refunded_update h) t) rows)"
proof -
  have row: "apply_update u t r \<in> set (write_row (pr_id r) (apply_update u t) rows)" for u
    using assms(2) by (force simp: write_row_def)
  have fields: "truthy (pr_escrowId (apply_update (released_update h) t r))" "pr_status (apply_update (released_update h) t r) = PReleased"
    "pr_releaseTxHash (apply_update (released_update h) t r) = Some h"
    "truthy (pr_escrowId (apply_update (refunded_update h) t r))" "pr_status (apply_update (refunded_update h) t r) = PRefunded"
    "pr_refundTxHash (apply_update (refunded_update h) t r) = Some h"
    using assms(3) by (simp_all add: apply_update_def released_update_def refunded_update_def no_update_def keep_def)
  show "paid_out (pr_orderId r) PReleased (Some h) (write_row (pr_id r) (apply_update (released_update h) t) rows)"
    by (rule paid_outI [OF write_row_ok [OF assms(1)] row [of "released_update h"]]) (simp_all add: fields)
  show "paid_out (pr_orderId r) PRefunded (Some h) (write_row (pr_id r) (apply_update (refunded_update h) t) rows)"
    by (rule paid_outI [OF write_row_ok [OF assms(1)] row [of "refunded_update h"]]) (simp_all add: fields)
qed

text \<open>One lemma for both operations: what an attempt on a row that is not terminal does to the table.\<close>

lemma attempt_settles:
  assumes "attempt_settlement env oid r call st upd ty extra ft ut w = (res, w')"
    and "calls call" and "table_ok (sw_table w)" "r \<in> set (sw_table w)" and "\<And>h. upd h \<noteq> no_update"
    and "pr_status r \<notin> {PReleased, PRefunded}"
  shows "settled_from (sw_table w) (sw_table w') \<and>
    (\<forall>out. res = Inr out \<and> so_status out \<noteq> SFailed \<longrightarrow>
       (\<exists>h t. out = outcome oid (pr_escrowId r) st (Some h) False None \<and>
          sw_table w' = write_row (pr_id r) (apply_update (upd h) t) (sw_table w)))"
  using assms(1-5)
proof (cases rule: attempt_cases)
  case (paid h t req)
  with assms(4,6) show ?thesis by (auto simp: settled_from_def)
next
  case (failed out)
  with assms(4,6) show ?thesis by (auto simp: settled_from_def)
qed

lemma by_order_settles:
  assumes "by_order env orderId ans (\<lambda>oid r src. attempt_settlement env oid r (call oid r src) st upd ty extra ft ut) w = (res, w')"
    and "\<And>oid r src. calls (call oid r src)" and "table_ok (sw_table w)" and "\<And>h. upd h \<noteq> no_update"
    and "\<And>oid r. ans oid r = None \<longleftrightarrow> pr_status r \<notin> {PReleased, PRefunded}"
  shows "settled_from (sw_table w) (sw_table w') \<and>
    (\<forall>out. res = Inr out \<and> so_status out = st \<and> st \<notin> {SFailed, SNoEscrow} \<longrightarrow>
      (\<exists>r. findPaymentRecordByOrderId (js_trim orderId) (sw_table w) = Some r \<and> truthy (pr_escrowId r) \<and>
         (ans (js_trim orderId) r = Some out \<and> sw_table w' = sw_table w \<or>
          (\<exists>h t. so_txHash out = Some h \<and> sw_table w' = write_row (pr_id r) (apply_update (upd h) t) (sw_table w)))))"
  using assms(1)
proof (cases rule: by_order_cases)
  case (attempted r src w1)
  have row: "r \<in> set (sw_table w1)" "table_ok (sw_table w1)" "sw_table w1 = sw_table w"
    using found_row [OF assms(3) attempted(1)] assms(3) posts_table [OF attempted(4)] by simp_all
  note a = attempt_settles [OF attempted(5) assms(2) row(2,1) assms(4) attempted(3) [unfolded assms(5)]]
  show ?thesis
  proof (intro conjI allI impI)
    show "settled_from (sw_table w) (sw_table w')" using a row(3) by simp
    fix out
    assume out: "res = Inr out \<and> so_status out = st \<and> st \<notin> {SFailed, SNoEscrow}"
    with a obtain h t where "out = outcome (js_trim orderId) (pr_escrowId r) st (Some h) False None"
      "sw_table w' = write_row (pr_id r) (apply_update (upd h) t) (sw_table w1)" by auto
    then have "so_txHash out = Some h \<and> sw_table w' = write_row (pr_id r) (apply_update (upd h) t) (sw_table w)"
      by (simp add: row(3))
    then show "\<exists>r. findPaymentRecordByOrderId (js_trim orderId) (sw_table w) = Some r \<and> truthy (pr_escrowId r) \<and>
         (ans (js_trim orderId) r = Some out \<and> sw_table w' = sw_table w \<or>
          (\<exists>h t. so_txHash out = Some h \<and> sw_table w' = write_row (pr_id r) (apply_update (upd h) t) (sw_table w)))"
      by (intro exI [of _ r] conjI attempted(1,2) disjI2 exI [of _ h] exI [of _ t]) simp_all
  qed
qed (auto simp: settled_from_def posts_table)

lemma settle_settles:
  assumes "settleOrder env orderId w = (res, w')" and "table_ok (sw_table w)"
  shows "settled_from (sw_table w) (sw_table w') \<and>
    (\<forall>out. res = Inr out \<and> so_status out = SReleased \<longrightarrow> paid_out (js_trim orderId) PReleased (so_txHash out) (sw_table w'))"
proof -
  note * = by_order_settles [OF assms(1) [unfolded settleOrder_by_order] release_calls assms(2) no_update_distinct(2) answer_None(1)]
  have "paid_out (js_trim orderId) PReleased (so_txHash out) (sw_table w')" if out: "res = Inr out" "so_status out = SReleased" for out
  proof -
    from * out obtain r where r: "findPaymentRecordByOrderId (js_trim orderId) (sw_table w) = Some r" "truthy (pr_escrowId r)"
      "settle_answer (js_trim orderId) r = Some out \<and> sw_table w' = sw_table w \<or>
       (\<exists>h t. so_txHash out = Some h \<and> sw_table w' = write_row (pr_id r) (apply_update (released_update h) t) (sw_table w))"
      by auto
    note row = found_row [OF assms(2) r(1)]
    from r(3) show ?thesis
    proof (elim disjE exE conjE)
      assume a: "settle_answer (js_trim orderId) r = Some out" and t: "sw_table w' = sw_table w"
      from a out(2) have "pr_status r = PReleased" "so_txHash out = pr_releaseTxHash r"
        by (auto simp: settle_answer_def split: if_splits)
      with row r(2) show ?thesis unfolding t by (intro paid_outI [OF assms(2), of r]) simp_all
    next
      fix h t
      assume "so_txHash out = Some h" "sw_table w' = write_row (pr_id r) (apply_update (released_update h) t) (sw_table w)"
      with paid_by_write(1) [OF assms(2), of r h t] row r(2) show ?thesis by simp
    qed
  qed
  with * show ?thesis by simp
qed

lemma refund_settles:
  assumes "refundOrder env orderId code w = (res, w')" and "table_ok (sw_table w)"
  shows "settled_from (sw_table w) (sw_table w') \<and>
    (\<forall>out. res = Inr out \<and> so_status out = SRefunded \<longrightarrow> paid_out (js_trim orderId) PRefunded (so_txHash out) (sw_table w'))"
proof -
  note * = by_order_settles [OF assms(1) [unfolded refundOrder_by_order] refund_calls assms(2) no_update_distinct(3) answer_None(2)]
  have "paid_out (js_trim orderId) PRefunded (so_txHash out) (sw_table w')" if out: "res = Inr out" "so_status out = SRefunded" for out
  proof -
    from * out obtain r where r: "findPaymentRecordByOrderId (js_trim orderId) (sw_table w) = Some r" "truthy (pr_escrowId r)"
      "refund_answer (js_trim orderId) r = Some out \<and> sw_table w' = sw_table w \<or>
       (\<exists>h t. so_txHash out = Some h \<and> sw_table w' = write_row (pr_id r) (apply_update (refunded_update h) t) (sw_table w))"
      by auto
    note row = found_row [OF assms(2) r(1)]
    from r(3) show ?thesis
    proof (elim disjE exE conjE)
      assume a: "refund_answer (js_trim orderId) r = Some out" and t: "sw_table w' = sw_table w"
      from a out(2) have "pr_status r = PRefunded" "so_txHash out = pr_refundTxHash r"
        by (auto simp: refund_answer_def split: if_splits)
      with row r(2) show ?thesis unfolding t by (intro paid_outI [OF assms(2), of r]) simp_all
    next
      fix h t
      assume "so_txHash out = Some h" "sw_table w' = write_row (pr_id r) (apply_update (refunded_update h) t) (sw_table w)"
      with paid_by_write(2) [OF assms(2), of r h t] row r(2) show ?thesis by simp
    qed
  qed
  with * show ?thesis by simp
qed

text \<open>On an order that has been paid out, both operations answer from the record.\<close>

lemma settle_paid_out:
  assumes "paid_out (js_trim orderId) st h (sw_table w)" and "settleOrder env orderId w = (res, w')"
  shows "posts w [] w' \<and> (\<forall>out. res = Inr out \<longrightarrow>
    (if st = PReleased then so_status out = SReleased \<and> so_alreadySettled out \<and> so_txHash out = h else so_status out = SFailed))"
proof -
  from assms(1) have st: "st \<in> {PReleased, PRefunded}" by (simp add: paid_out_def)
  obtain r where r: "findPaymentRecordByOrderId (js_trim orderId) (sw_table w) = Some r" "truthy (pr_escrowId r)" "pr_status r = st"
    "(if st = PReleased then pr_releaseTxHash r else pr_refundTxHash r) = h" using assms(1) by (rule paid_out_found)
  from assms(2) [unfolded settleOrder_by_order] show ?thesis
    by (cases rule: by_order_cases) (use r st in \<open>auto simp: settle_answer_def\<close>)
qed

lemma refund_paid_out:
  assumes "paid_out (js_trim orderId) st h (sw_table w)" and "refundOrder env orderId code w = (res, w')"
  shows "posts w [] w' \<and> (\<forall>out. res = Inr out \<longrightarrow>
    (if st = PRefunded then so_status out = SRefunded \<and> so_alreadySettled out \<and> so_txHash out = h else so_status out = SFailed))"
proof -
  from assms(1) have st: "st \<in> {PReleased, PRefunded}" by (simp add: paid_out_def)
  obtain r where r: "findPaymentRecordByOrderId (js_trim orderId) (sw_table w) = Some r" "truthy (pr_escrowId r)" "pr_status r = st"
    "(if st = PReleased then pr_releaseTxHash r else pr_refundTxHash r) = h" using assms(1) by (rule paid_out_found)
  from assms(2) [unfolded refundOrder_by_order] show ?thesis
    by (cases rule: by_order_cases) (use r st in \<open>auto simp: refund_answer_def\<close>)
qed

lemma dry_run_posts: "dryRunSettlement env inp w = (res, w') \<Longrightarrow> posts w [] w'"
  unfolding dryRunSettlement_def Let_def
  by (auto simp: prog_simps split: if_splits prod.splits sum.splits dest: fee_posts)

lemma coordinate_table: "coordinateSettlement env oid w = (res, w') \<Longrightarrow> sw_table w' = sw_table w"
proof -
  assume run: "coordinateSettlement env oid w = (res, w')"
  define m where "m = pbind (source_address env) (\<lambda>src. release_escrow env src (resolveEscrowForOrder oid))"
  have "calls m" unfolding m_def source_address_def
    by (cases "truthy (sv_SETTLEMENT_SOURCE_ADDRESS env)") (simp_all add: release_calls calls_pthrow)
  moreover obtain rm wm where mw: "m w = (rm, wm)" by (cases "m w")
  ultimately have "sw_table wm = sw_table w" unfolding calls_def by blast
  moreover have "sw_table (snd (swallow (publish_event env ty o' p) wm)) = sw_table wm" for ty o' p
    using swallow_publish [of env ty o' p wm] by (auto simp: posts_def)
  ultimately show ?thesis using run mw
    by (cases rm) (auto simp: coordinateSettlement_def Let_def m_def [symmetric] prog_simps swallow_run)
qed

text \<open>Any sequence of calls of the settlement module, each on any order; errors are the caller's.\<close>

datatype settlement_call =
  Settle string | Refund string RefundReasonCode | DryRun dry_run_input | Coordinate string

fun settlement_step :: "'x service_env \<Rightarrow> settlement_call \<Rightarrow> 'x service_world \<Rightarrow> 'x service_world" where
  "settlement_step env (Settle o') w = snd (settleOrder env o' w)"
| "settlement_step env (Refund o' c) w = snd (refundOrder env o' c w)"
| "settlement_step env (DryRun i) w = snd (dryRunSettlement env i w)"
| "settlement_step env (Coordinate o') w = snd (coordinateSettlement env o' w)"

definition settlement_run :: "'x service_env \<Rightarrow> settlement_call list \<Rightarrow> 'x service_world \<Rightarrow> 'x service_world" where
  "settlement_run env cs w = fold (settlement_step env) cs w"

lemma step_settled: "table_ok (sw_table w) \<Longrightarrow> settled_from (sw_table w) (sw_table (settlement_step env c w))"
proof (cases c)
  case (Settle o')
  then show "table_ok (sw_table w) \<Longrightarrow> ?thesis"
    using settle_settles [of env o' w "fst (settleOrder env o' w)" "snd (settleOrder env o' w)"] by simp
next
  case (Refund o' code)
  then show "table_ok (sw_table w) \<Longrightarrow> ?thesis"
    using refund_settles [of env o' code w "fst (refundOrder env o' code w)" "snd (refundOrder env o' code w)"] by simp
next
  case (DryRun i)
  then show "table_ok (sw_table w) \<Longrightarrow> ?thesis"
    using posts_table [OF dry_run_posts [of env i w, OF prod.collapse [symmetric]]] by (simp add: settled_from_def)
next
  case (Coordinate o')
  then show "table_ok (sw_table w) \<Longrightarrow> ?thesis"
    using coordinate_table [of env o' w, OF prod.collapse [symmetric]] by (simp add: settled_from_def)
qed

lemma run_paid_out: "paid_out oid st h (sw_table w) \<Longrightarrow> paid_out oid st h (sw_table (settlement_run env cs w))"
proof (induction cs arbitrary: w)
  case (Cons c cs)
  from Cons.prems have "table_ok (sw_table w)" by (simp add: paid_out_def)
  from Cons.IH [OF settled_from_paid [OF step_settled [OF this] Cons.prems]] show ?case
    by (simp add: settlement_run_def)
qed (simp add: settlement_run_def)

text \<open>C4: Once \<^verbatim>\<open>settleOrder\<close> or \<^verbatim>\<open>refundOrder\<close> has reported a release or a refund of an order, the order is settled for good for
  these two operations: after any further sequence of settlement calls on any orders, one after the other, with the wallet, the
  event stream and the database failing in any way, another \<^verbatim>\<open>settleOrder\<close> or \<^verbatim>\<open>refundOrder\<close> of that order posts nothing to the wallet service and changes no
  record; if it answers at all, the repeated operation reports the recorded transaction hash as already
  settled and the opposite operation is refused. (\<^verbatim>\<open>coordinateSettlement\<close>, which ignores the payment records, releases
  whenever it is called, as shown below.)\<close>

theorem settlement_final:
  assumes "table_ok (sw_table w)"
    and "settleOrder env orderId w = (Inr out, w1) \<and> so_status out = SReleased \<and> st = PReleased \<or>
         refundOrder env orderId code w = (Inr out, w1) \<and> so_status out = SRefunded \<and> st = PRefunded"
    and "w2 = settlement_run env cs w1"
    and "settleOrder env orderId w2 = (res_s, w3)" and "refundOrder env orderId code' w2 = (res_r, w4)"
  shows "sw_posted w3 = sw_posted w2 \<and> sw_table w3 = sw_table w2 \<and>
    sw_posted w4 = sw_posted w2 \<and> sw_table w4 = sw_table w2 \<and>
    (\<forall>o1. res_s = Inr o1 \<longrightarrow> (if st = PReleased
       then so_status o1 = SReleased \<and> so_alreadySettled o1 \<and> so_txHash o1 = so_txHash out else so_status o1 = SFailed)) \<and>
    (\<forall>o2. res_r = Inr o2 \<longrightarrow> (if st = PRefunded
       then so_status o2 = SRefunded \<and> so_alreadySettled o2 \<and> so_txHash o2 = so_txHash out else so_status o2 = SFailed))"
proof -
  have "paid_out (js_trim orderId) st (so_txHash out) (sw_table w1)"
    using assms(1,2) settle_settles [of env orderId w _ w1] refund_settles [of env orderId code w _ w1] by auto
  then have p: "paid_out (js_trim orderId) st (so_txHash out) (sw_table w2)" unfolding assms(3) by (rule run_paid_out)
  from settle_paid_out [OF p assms(4)] refund_paid_out [OF p assms(5)] show ?thesis by (simp add: posts_def)
qed

theorem settlement_final_witness:
  "\<exists>w1. settleOrder demo_service ''o1'' (demo_service_world []) =
        (Inr (outcome ''o1'' (Some ''7'') SReleased (Some ''h'') False None), w1) \<and>
     sw_posted (snd (refundOrder demo_service ''o1'' RTimeout w1)) = sw_posted w1"
proof -
  have run: "fst (settleOrder demo_service ''o1'' (demo_service_world [])) = Inr (outcome ''o1'' (Some ''7'') SReleased (Some ''h'') False None)"
    by code_simp
  define w1 where "w1 = snd (settleOrder demo_service ''o1'' (demo_service_world []))"
  have s: "settleOrder demo_service ''o1'' (demo_service_world []) = (Inr (outcome ''o1'' (Some ''7'') SReleased (Some ''h'') False None), w1)"
    unfolding w1_def run [symmetric] by simp
  have "table_ok (sw_table (demo_service_world []))" by (simp add: demo_service_world_def table_ok_def)
  from settlement_final [OF this, where cs = "[]", OF disjI1 [OF conjI [OF s]] refl prod.collapse [symmetric] prod.collapse [symmetric],
    of PReleased RTimeout] s show ?thesis by (simp add: settlement_run_def)
qed

text \<open>A retry may release twice. When the wallet has carried out the release but the database is down for the
  statement that records it, the operation answers \<^verbatim>\<open>failed\<close> and (the database being up again) marks the
  record as failed; the retried operation posts the same release a second time and reports it as new.\<close>

theorem outage_repeats_release:
  "(let (r1, w1) = settleOrder demo_service ''o1'' (demo_service_world [True, False]);
        (r2, w2) = settleOrder demo_service ''o1'' w1
    in r1 = Inr (outcome ''o1'' (Some ''7'') SFailed None False (Some ''database unavailable'')) \<and>
       map pr_status (sw_table w1) = [PFailed] \<and>
       r2 = Inr (outcome ''o1'' (Some ''7'') SReleased (Some ''h'') False None) \<and>
       sw_posted w2 = [demo_request, demo_request])"
  by code_simp

text \<open>The older coordination path does not look at whether the release went through: with a wallet that answers
  a transaction that failed on chain it returns normally. It takes the order id for the escrow id, leaves the
  payment records alone, and posts a release every time it is called.\<close>

theorem coordinate_ignores_failure:
  "(let env = demo_service\<lparr>sv_post := (\<lambda>req fee x. (Reply 200 True \<lparr>wb_error = None,
                 wb_data = Some \<lparr>tx_hash = ''bad'', tx_ledger = 9, tx_success = False\<rparr>\<rparr>, x))\<rparr>;
        (r1, w1) = coordinateSettlement env ''7'' (demo_service_world []);
        (r2, w2) = coordinateSettlement env ''7'' w1
    in r1 = Inr () \<and> r2 = Inr () \<and> sw_posted w2 = [demo_request, demo_request] \<and> sw_table w2 = [demo_row])"
  by code_simp

end
