(* ===== verification/Disbursement.thy ===== *)
theory Disbursement
  imports Escrow_Coordinator
begin

text \<open>
  Approval of enterprise disbursements by a quorum of officers (payments/src/disbursementApproval.ts). The
  module keeps mutable objects in a \<^verbatim>\<open>Map\<close>, and a broadcast holds on to its object while it awaits the wallet
  service, so the model has a heap of objects, the map from ids to addresses, and the broadcasts that are
  under way. Key parsing, signature verification and the hash (Stellar SDK, node crypto) are parameters;
  the clock and the wallet's replies are arguments. The requests sent to the wallet service are logged.

  The route hands the request body over unchecked, so \<^verbatim>\<open>requiredSignatures\<close> need not be a number. It is only
  ever compared: the outer option is a missing value, the inner one a value that compares as \<^verbatim>\<open>NaN\<close>; a number
  may be fractional.
\<close>

section \<open>Data\<close>

datatype DisbursementStatus = DPending | DCollecting | DQuorumMet | DBroadcasting | DBroadcast | DFailed | DExpired

record OfficerSignature =
  os_officer :: string
  os_signature :: string
  os_signedAt :: ms
  os_signedPayloadHash :: string

record DisbursementState =
  ds_disbursementId :: string
  ds_transactionXdr :: string
  ds_officers :: "string list"
  ds_requiredSignatures :: "rat option"
  ds_collectedSignatures :: "OfficerSignature list"
  ds_status :: DisbursementStatus
  ds_createdAt :: ms
  ds_updatedAt :: ms
  ds_broadcastResult :: "jsval option"
  ds_failureReason :: "string option"

record CreateDisbursementApprovalInput =
  ca_disbursementId :: string
  ca_transactionXdr :: string
  ca_officers :: "string list"
  ca_requiredSignatures :: "rat option option"

record SubmitOfficerSignatureInput =
  sg_disbursementId :: string
  sg_officer :: string
  sg_signature :: string

datatype disbursement_error =
    InvalidInput string
  | DisbursementNotFound string
  | OfficerNotAuthorized string string
  | DuplicateSignature string string
  | InvalidSignature string string
  | DisbursementClosed string DisbursementStatus
  | QuorumNotMet int "rat option"
  | BroadcastError string

datatype wallet_answer = Accepted jsval | Refused int string | Lost string

record disb_env =
  db_validKey :: "string \<Rightarrow> bool"
  db_verify :: "string \<Rightarrow> string \<Rightarrow> string \<Rightarrow> bool"
  db_hash :: "string \<Rightarrow> string"

record broadcast_request =
  br_xdr :: string
  br_signatures :: "(string \<times> string) list"

record disb_world =
  dw_heap :: "DisbursementState list"
  dw_ids :: "(string \<times> nat) list"
  dw_pending :: "nat list"
  dw_sent :: "broadcast_request list"

definition empty_world :: disb_world where
  "empty_world = \<lparr>dw_heap = [], dw_ids = [], dw_pending = [], dw_sent = []\<rparr>"

definition DEFAULT_REQUIRED_SIGNATURES :: int where "DEFAULT_REQUIRED_SIGNATURES = 2"

definition SIGNATURE_TTL_MS :: int where "SIGNATURE_TTL_MS = 30 * 60 * 1000"

section \<open>Operations\<close>

text \<open>Comparisons with a value that may be \<^verbatim>\<open>NaN\<close>.\<close>

definition below :: "rat option \<Rightarrow> int \<Rightarrow> bool" where
  "below r n = (case r of None \<Rightarrow> False | Some m \<Rightarrow> m < of_int n)"

definition above :: "rat option \<Rightarrow> int \<Rightarrow> bool" where
  "above r n = (case r of None \<Rightarrow> False | Some m \<Rightarrow> m > of_int n)"

definition reached :: "rat option \<Rightarrow> int \<Rightarrow> bool" where
  "reached r n = (case r of None \<Rightarrow> False | Some m \<Rightarrow> of_int n \<ge> m)"

definition computePayloadHash :: "disb_env \<Rightarrow> string \<Rightarrow> string \<Rightarrow> string \<Rightarrow> string" where
  "computePayloadHash env i off sig = db_hash env (i @ '':'' @ off @ '':'' @ sig)"

definition payload :: "string \<Rightarrow> string \<Rightarrow> string" where
  "payload i xdr = i @ '':'' @ xdr"

definition new_disbursement :: "CreateDisbursementApprovalInput \<Rightarrow> string list \<Rightarrow> rat option \<Rightarrow> ms \<Rightarrow> DisbursementState" where
  "new_disbursement inp officers req now =
     \<lparr>ds_disbursementId = ca_disbursementId inp, ds_transactionXdr = ca_transactionXdr inp, ds_officers = officers,
      ds_requiredSignatures = req, ds_collectedSignatures = [], ds_status = DCollecting, ds_createdAt = now,
      ds_updatedAt = now, ds_broadcastResult = None, ds_failureReason = None\<rparr>"

definition createDisbursementApproval ::
  "disb_env \<Rightarrow> ms \<Rightarrow> CreateDisbursementApprovalInput \<Rightarrow> (disb_world, disbursement_error, DisbursementState) prog" where
  "createDisbursementApproval env now inp w =
     (if js_trim (ca_disbursementId inp) = [] then (Inl (InvalidInput ''disbursementId is required''), w)
      else if js_trim (ca_transactionXdr inp) = [] then (Inl (InvalidInput ''transactionXdr is required''), w)
      else if length (ca_officers inp) < 2 then (Inl (InvalidInput ''At least 2 officers are required''), w)
      else if length (ca_officers inp) > 10 then (Inl (InvalidInput ''Maximum 10 officers allowed''), w)
      else let unique = js_unique (filter (\<lambda>s. s \<noteq> []) (map js_trim (ca_officers inp))) in
        if length unique \<noteq> length (ca_officers inp)
        then (Inl (InvalidInput ''Duplicate officer public keys are not allowed''), w)
        else (case find (\<lambda>k. \<not> db_validKey env k) unique of
            Some k \<Rightarrow> (Inl (InvalidInput (''Invalid Stellar public key for officer: '' @ k)), w)
          | None \<Rightarrow>
              let req = (case ca_requiredSignatures inp of
                    Some r \<Rightarrow> r
                  | None \<Rightarrow> Some (of_int (min DEFAULT_REQUIRED_SIGNATURES (int (length unique)))))
              in if below req 1 \<or> above req (int (length unique))
                 then (Inl (InvalidInput (''requiredSignatures must be between 1 and '' @ show_nat (length unique) @
                        '' (number of officers)'')), w)
                 else let s = new_disbursement inp unique req now
                      in (Inr s, w\<lparr>dw_heap := dw_heap w @ [s],
                                   dw_ids := jm_set (ca_disbursementId inp) (length (dw_heap w)) (dw_ids w)\<rparr>)))"

definition put_object :: "nat \<Rightarrow> DisbursementState \<Rightarrow> disb_world \<Rightarrow> disb_world" where
  "put_object a s w = w\<lparr>dw_heap := (dw_heap w)[a := s]\<rparr>"

definition lookup_object :: "string \<Rightarrow> disb_world \<Rightarrow> (nat \<times> DisbursementState) option" where
  "lookup_object i w = (case map_of (dw_ids w) i of
       None \<Rightarrow> None | Some a \<Rightarrow> if a < length (dw_heap w) then Some (a, dw_heap w ! a) else None)"

text \<open>\<^verbatim>\<open>broadcastDisbursement\<close> up to its await: the request leaves with the signatures collected so far.\<close>

definition start_broadcast :: "ms \<Rightarrow> nat \<Rightarrow> DisbursementState \<Rightarrow> disb_world \<Rightarrow> disb_world" where
  "start_broadcast now a s w =
     (put_object a (s\<lparr>ds_status := DBroadcasting, ds_updatedAt := now\<rparr>) w)
       \<lparr>dw_pending := a # dw_pending w,
        dw_sent := dw_sent w @ [\<lparr>br_xdr = ds_transactionXdr s,
          br_signatures = map (\<lambda>g. (os_officer g, os_signature g)) (ds_collectedSignatures s)\<rparr>]\<rparr>"

text \<open>The rest of it, once the wallet service has answered, on the object that the broadcast holds.\<close>

definition finish_broadcast :: "ms \<Rightarrow> wallet_answer \<Rightarrow> nat \<Rightarrow> (disb_world, disbursement_error, unit) prog" where
  "finish_broadcast now ans a w =
     (let w' = w\<lparr>dw_pending := remove1 a (dw_pending w)\<rparr>; s = dw_heap w ! a;
          failed = (\<lambda>m. (Inl (BroadcastError m),
             put_object a (s\<lparr>ds_status := DFailed, ds_failureReason := Some m, ds_updatedAt := now\<rparr>) w'))
      in case ans of
           Accepted r \<Rightarrow> (Inr (), put_object a (s\<lparr>ds_broadcastResult := Some r, ds_status := DBroadcast, ds_updatedAt := now\<rparr>) w')
         | Refused st body \<Rightarrow> failed (''Wallet service error: '' @ show_int st @ '' '' @ body)
         | Lost m \<Rightarrow> failed m)"

text \<open>\<^verbatim>\<open>collectOfficerSignature\<close> up to its await: the address of the object, and whether a broadcast was started.\<close>

definition sign_disbursement ::
  "disb_env \<Rightarrow> ms \<Rightarrow> SubmitOfficerSignatureInput \<Rightarrow> (disb_world, disbursement_error, nat \<times> bool) prog" where
  "sign_disbursement env now inp w =
     (if sg_disbursementId inp = [] \<or> sg_officer inp = [] \<or> sg_signature inp = []
      then (Inl (InvalidInput ''disbursementId, officer, and signature are required''), w)
      else case lookup_object (sg_disbursementId inp) w of
        None \<Rightarrow> (Inl (DisbursementNotFound (sg_disbursementId inp)), w)
      | Some (a, s) \<Rightarrow>
          if ds_status s \<noteq> DCollecting \<and> ds_status s \<noteq> DPending
          then (Inl (DisbursementClosed (sg_disbursementId inp) (ds_status s)), w)
          else if sg_officer inp \<notin> set (ds_officers s)
          then (Inl (OfficerNotAuthorized (sg_officer inp) (sg_disbursementId inp)), w)
          else if \<exists>g \<in> set (ds_collectedSignatures s). os_officer g = sg_officer inp
          then (Inl (DuplicateSignature (sg_officer inp) (sg_disbursementId inp)), w)
          else if \<not> db_verify env (sg_officer inp) (sg_signature inp) (payload (sg_disbursementId inp) (ds_transactionXdr s))
          then (Inl (InvalidSignature (sg_officer inp) ''Signature verification failed''), w)
          else (let g = \<lparr>os_officer = sg_officer inp, os_signature = sg_signature inp, os_signedAt = now,
                         os_signedPayloadHash = computePayloadHash env (sg_disbursementId inp) (sg_officer inp) (sg_signature inp)\<rparr>;
                    s1 = s\<lparr>ds_collectedSignatures := ds_collectedSignatures s @ [g], ds_updatedAt := now\<rparr>
                in if reached (ds_requiredSignatures s1) (int (length (ds_collectedSignatures s1)))
                   then (Inr (a, True), start_broadcast now a (s1\<lparr>ds_status := DQuorumMet\<rparr>) w)
                   else (Inr (a, False), put_object a s1 w)))"

definition read_object :: "nat \<Rightarrow> (disb_world, disbursement_error, DisbursementState) prog" where
  "read_object a = pgets (\<lambda>w. dw_heap w ! a)"

text \<open>The whole operation for one caller, with the wallet's answer.\<close>

definition collectOfficerSignature ::
  "disb_env \<Rightarrow> ms \<Rightarrow> wallet_answer \<Rightarrow> ms \<Rightarrow> SubmitOfficerSignatureInput \<Rightarrow> (disb_world, disbursement_error, DisbursementState) prog" where
  "collectOfficerSignature env now ans later inp =
     pbind (sign_disbursement env now inp) (\<lambda>(a, sent).
     pbind (if sent then finish_broadcast later ans a else pret ()) (\<lambda>_. read_object a))"

definition getDisbursementState :: "string \<Rightarrow> disb_world \<Rightarrow> DisbursementState option" where
  "getDisbursementState i w = map_option snd (lookup_object i w)"

text \<open>\<^verbatim>\<open>submitDisbursementApproval\<close> up to its await.\<close>

definition request_broadcast :: "ms \<Rightarrow> string \<Rightarrow> (disb_world, disbursement_error, nat \<times> bool) prog" where
  "request_broadcast now i w =
     (case lookup_object i w of
        None \<Rightarrow> (Inl (DisbursementNotFound i), w)
      | Some (a, s) \<Rightarrow>
          if ds_status s = DBroadcast then (Inr (a, False), w)
          else if above (ds_requiredSignatures s) (int (length (ds_collectedSignatures s)))
          then (Inl (QuorumNotMet (int (length (ds_collectedSignatures s))) (ds_requiredSignatures s)), w)
          else (Inr (a, True), start_broadcast now a s w))"

definition submitDisbursementApproval ::
  "ms \<Rightarrow> wallet_answer \<Rightarrow> ms \<Rightarrow> string \<Rightarrow> (disb_world, disbursement_error, DisbursementState) prog" where
  "submitDisbursementApproval now ans later i =
     pbind (request_broadcast now i) (\<lambda>(a, sent).
     pbind (if sent then finish_broadcast later ans a else pret ()) (\<lambda>_. read_object a))"

definition listDisbursements :: "disb_world \<Rightarrow> DisbursementState list" where
  "listDisbursements w = sort_key (\<lambda>s. - ds_createdAt s) (map (\<lambda>(i, a). dw_heap w ! a) (dw_ids w))"

definition is_stale :: "ms \<Rightarrow> DisbursementState \<Rightarrow> bool" where
  "is_stale now s \<longleftrightarrow> (ds_status s = DCollecting \<or> ds_status s = DPending) \<and> now - ds_createdAt s > SIGNATURE_TTL_MS"

definition expireStaleDisbursements :: "ms \<Rightarrow> disb_world \<Rightarrow> nat \<times> disb_world" where
  "expireStaleDisbursements now w =
     fold (\<lambda>(i, a) (n, w). if a < length (dw_heap w) \<and> is_stale now (dw_heap w ! a)
             then (n + 1, put_object a ((dw_heap w ! a)\<lparr>ds_status := DExpired, ds_updatedAt := now\<rparr>) w) else (n, w))
          (dw_ids w) (0, w)"

definition resetDisbursementStore :: "disb_world \<Rightarrow> disb_world" where
  "resetDisbursementStore w = w\<lparr>dw_ids := []\<rparr>"

section \<open>Interleaved operation\<close>

text \<open>The states that any interleaving of the operations reaches; a broadcast that is under way finishes at any
  later time with any answer.\<close>

inductive reachable :: "disb_env \<Rightarrow> disb_world \<Rightarrow> bool" for env where
  start: "reachable env empty_world"
| create: "reachable env w \<Longrightarrow> reachable env (snd (createDisbursementApproval env now inp w))"
| sign: "reachable env w \<Longrightarrow> reachable env (snd (sign_disbursement env now inp' w))"
| submit: "reachable env w \<Longrightarrow> reachable env (snd (request_broadcast now i w))"
| finish: "reachable env w \<Longrightarrow> a \<in> set (dw_pending w) \<Longrightarrow> reachable env (snd (finish_broadcast now ans a w))"
| expire: "reachable env w \<Longrightarrow> reachable env (snd (expireStaleDisbursements now w))"
| reset: "reachable env w \<Longrightarrow> reachable env (resetDisbursementStore w)"

section \<open>The quorum invariant\<close>

definition officers_signed :: "disb_env \<Rightarrow> DisbursementState \<Rightarrow> bool" where
  "officers_signed env s \<longleftrightarrow> distinct (map os_officer (ds_collectedSignatures s)) \<and>
     (\<forall>g \<in> set (ds_collectedSignatures s). os_officer g \<in> set (ds_officers s) \<and>
        db_verify env (os_officer g) (os_signature g) (payload (ds_disbursementId s) (ds_transactionXdr s)))"

definition is_open :: "DisbursementState \<Rightarrow> bool" where
  "is_open s \<longleftrightarrow> ds_status s \<in> {DCollecting, DPending, DExpired}"

definition object_ok :: "disb_env \<Rightarrow> DisbursementState \<Rightarrow> bool" where
  "object_ok env s \<longleftrightarrow> distinct (ds_officers s) \<and> officers_signed env s \<and>
     (\<forall>n. ds_requiredSignatures s = Some n \<longrightarrow> 1 \<le> n \<and> n \<le> of_nat (length (ds_officers s))) \<and>
     (is_open s \<longrightarrow> \<not> reached (ds_requiredSignatures s) (int (length (ds_collectedSignatures s))))"

definition sent_by :: "broadcast_request \<Rightarrow> DisbursementState \<Rightarrow> bool" where
  "sent_by b s \<longleftrightarrow> br_xdr b = ds_transactionXdr s \<and>
     br_signatures b = map (\<lambda>g. (os_officer g, os_signature g)) (ds_collectedSignatures s) \<and>
     \<not> above (ds_requiredSignatures s) (int (length (ds_collectedSignatures s))) \<and> \<not> is_open s"

definition world_ok :: "disb_env \<Rightarrow> disb_world \<Rightarrow> bool" where
  "world_ok env w \<longleftrightarrow> (\<forall>s \<in> set (dw_heap w). object_ok env s) \<and>
     (\<forall>(i, a) \<in> set (dw_ids w). a < length (dw_heap w) \<and> ds_disbursementId (dw_heap w ! a) = i) \<and>
     (\<forall>a \<in> set (dw_pending w). a < length (dw_heap w) \<and> \<not> is_open (dw_heap w ! a)) \<and>
     (\<forall>b \<in> set (dw_sent w). \<exists>s \<in> set (dw_heap w). sent_by b s)"

lemma jm_set_in: "(i, a) \<in> set (jm_set k v kvs) \<Longrightarrow> (i, a) = (k, v) \<or> (i, a) \<in> set kvs"
  by (induction kvs) (auto split: if_splits)

text \<open>Writing one object: it stays in order, keeps its id, and what was sent from it is still what it says.\<close>

lemma put_object_ok:
  assumes "world_ok env w" and "a < length (dw_heap w)" and "object_ok env s'"
    and "ds_disbursementId s' = ds_disbursementId (dw_heap w ! a)"
    and "\<And>b. sent_by b (dw_heap w ! a) \<Longrightarrow> sent_by b s'" and "\<not> is_open (dw_heap w ! a) \<Longrightarrow> \<not> is_open s'"
  shows "world_ok env (put_object a s' w)"
proof -
  have "\<exists>s \<in> set ((dw_heap w)[a := s']). sent_by b s" if "b \<in> set (dw_sent w)" for b
  proof -
    from assms(1) that obtain s where "s \<in> set (dw_heap w)" "sent_by b s" unfolding world_ok_def by blast
    then obtain k where k: "k < length (dw_heap w)" "s = dw_heap w ! k" by (auto simp: in_set_conv_nth)
    have "sent_by b ((dw_heap w)[a := s'] ! k)" using k \<open>sent_by b s\<close> assms(5) by (cases "k = a") auto
    with k(1) show ?thesis by (metis length_list_update nth_mem)
  qed
  moreover have "\<forall>s \<in> set ((dw_heap w)[a := s']). object_ok env s"
    using assms(1,3) set_update_subset_insert [of "dw_heap w" a s'] by (auto simp: world_ok_def)
  moreover have "k < length (dw_heap w) \<and> ds_disbursementId ((dw_heap w)[a := s'] ! k) = i" if "(i, k) \<in> set (dw_ids w)" for i k
    using assms(1,2,4) that by (cases "k = a") (auto simp: world_ok_def)
  moreover have "k < length (dw_heap w) \<and> \<not> is_open ((dw_heap w)[a := s'] ! k)" if "k \<in> set (dw_pending w)" for k
    using assms(1,2,6) that by (cases "k = a") (auto simp: world_ok_def)
  ultimately show ?thesis by (auto simp: world_ok_def put_object_def)
qed

lemma lookup_objectD:
  assumes "lookup_object i w = Some (a, s)" and "world_ok env w"
  shows "a < length (dw_heap w) \<and> s = dw_heap w ! a \<and> ds_disbursementId s = i \<and> object_ok env s"
proof -
  from assms(1) have m: "map_of (dw_ids w) i = Some a" "a < length (dw_heap w)" "s = dw_heap w ! a"
    by (auto simp: lookup_object_def split: option.splits if_splits)
  from map_of_SomeD [OF m(1)] assms(2) have "ds_disbursementId (dw_heap w ! a) = i" by (auto simp: world_ok_def)
  with m assms(2) show ?thesis by (auto simp: world_ok_def)
qed

lemma disbursement_created_ok:
  assumes "world_ok env w"
  shows "world_ok env (snd (createDisbursementApproval env now inp w))"
proof (cases "fst (createDisbursementApproval env now inp w)")
  case (Inl e)
  then have "snd (createDisbursementApproval env now inp w) = w"
    by (auto simp: createDisbursementApproval_def Let_def split: if_splits option.splits)
  with assms show ?thesis by simp
next
  case (Inr s)
  define unique where "unique = js_unique (filter (\<lambda>s. s \<noteq> []) (map js_trim (ca_officers inp)))"
  from Inr obtain req where s: "s = new_disbursement inp unique req now" "\<not> below req 1" "\<not> above req (int (length unique))"
    "snd (createDisbursementApproval env now inp w) = w\<lparr>dw_heap := dw_heap w @ [s],
       dw_ids := jm_set (ca_disbursementId inp) (length (dw_heap w)) (dw_ids w)\<rparr>"
    unfolding createDisbursementApproval_def unique_def [symmetric]
    by (auto simp: Let_def split: if_splits option.splits)
  have "object_ok env s"
    using s(2,3) js_unique_distinct by (auto simp: s(1) object_ok_def officers_signed_def new_disbursement_def unique_def
        below_def above_def reached_def split: option.splits)
  moreover have "ds_disbursementId s = ca_disbursementId inp" by (simp add: s(1) new_disbursement_def)
  ultimately show ?thesis
    using assms unfolding s(4) world_ok_def
    by (auto simp: nth_append less_Suc_eq dest!: jm_set_in)
qed

lemma start_broadcast_ok:
  assumes "world_ok env w" and "a < length (dw_heap w)" and "object_ok env s"
    and "ds_disbursementId s = ds_disbursementId (dw_heap w ! a)"
    and "\<And>b. sent_by b (dw_heap w ! a) \<Longrightarrow> ds_transactionXdr s = br_xdr b \<and> ds_collectedSignatures s = ds_collectedSignatures (dw_heap w ! a)"
    and "\<not> above (ds_requiredSignatures s) (int (length (ds_collectedSignatures s)))"
  shows "world_ok env (start_broadcast now a s w)"
proof -
  define s' where "s' = s\<lparr>ds_status := DBroadcasting, ds_updatedAt := now\<rparr>"
  have ok': "object_ok env s'" using assms(3) by (simp add: s'_def object_ok_def officers_signed_def is_open_def)
  have closed: "\<not> is_open s'" by (simp add: s'_def is_open_def)
  have "world_ok env (put_object a s' w)"
    using assms(1,2) ok'
  proof (rule put_object_ok)
    show "sent_by b s'" if "sent_by b (dw_heap w ! a)" for b
      using assms(5) [OF that] that assms(6) by (simp add: sent_by_def s'_def is_open_def)
  qed (use assms(4) closed in \<open>simp_all add: s'_def\<close>)
  moreover have "sent_by \<lparr>br_xdr = ds_transactionXdr s,
      br_signatures = map (\<lambda>g. (os_officer g, os_signature g)) (ds_collectedSignatures s)\<rparr> s'"
    using assms(6) closed by (simp add: sent_by_def s'_def)
  moreover have "s' \<in> set (dw_heap (put_object a s' w))" using assms(2) by (simp add: put_object_def set_update_memI)
  ultimately show ?thesis
    using assms(2) closed by (auto simp: start_broadcast_def s'_def [symmetric] world_ok_def put_object_def)
qed

lemma sign_ok:
  assumes "world_ok env w"
  shows "world_ok env (snd (sign_disbursement env now inp w))"
proof (cases "fst (sign_disbursement env now inp w)")
  case (Inl e)
  then have "snd (sign_disbursement env now inp w) = w"
    by (auto simp: sign_disbursement_def Let_def split: if_splits option.splits)
  with assms show ?thesis by simp
next
  case (Inr r)
  define g where "g = \<lparr>os_officer = sg_officer inp, os_signature = sg_signature inp, os_signedAt = now,
      os_signedPayloadHash = computePayloadHash env (sg_disbursementId inp) (sg_officer inp) (sg_signature inp)\<rparr>"
  from Inr obtain a s where l: "lookup_object (sg_disbursementId inp) w = Some (a, s)"
    by (auto simp: sign_disbursement_def split: if_splits option.splits)
  note obj = lookup_objectD [OF l assms]
  define s1 where "s1 = s\<lparr>ds_collectedSignatures := ds_collectedSignatures s @ [g], ds_updatedAt := now\<rparr>"
  from Inr l have guards: "ds_status s = DCollecting \<or> ds_status s = DPending" "sg_officer inp \<in> set (ds_officers s)"
    "\<forall>h \<in> set (ds_collectedSignatures s). os_officer h \<noteq> sg_officer inp"
    "db_verify env (sg_officer inp) (sg_signature inp) (payload (sg_disbursementId inp) (ds_transactionXdr s))"
    by (auto simp: sign_disbursement_def Let_def split: if_splits)
  have run: "snd (sign_disbursement env now inp w) =
      (if reached (ds_requiredSignatures s1) (int (length (ds_collectedSignatures s1)))
       then start_broadcast now a (s1\<lparr>ds_status := DQuorumMet\<rparr>) w else put_object a s1 w)"
    using Inr l by (auto simp: sign_disbursement_def Let_def s1_def g_def split: if_splits)
  have unsent: "\<not> sent_by b (dw_heap w ! a)" for b using obj guards(1) by (auto simp: sent_by_def is_open_def)
  have signed: "officers_signed env s1"
    using obj guards by (auto simp: object_ok_def officers_signed_def s1_def g_def)
  show ?thesis
  proof (cases "reached (ds_requiredSignatures s1) (int (length (ds_collectedSignatures s1)))")
    case True
    have "world_ok env (start_broadcast now a (s1\<lparr>ds_status := DQuorumMet\<rparr>) w)"
    proof (rule start_broadcast_ok [OF assms])
      show "object_ok env (s1\<lparr>ds_status := DQuorumMet\<rparr>)"
        using obj signed by (auto simp: object_ok_def officers_signed_def s1_def is_open_def)
      show "\<not> above (ds_requiredSignatures (s1\<lparr>ds_status := DQuorumMet\<rparr>)) (int (length (ds_collectedSignatures (s1\<lparr>ds_status := DQuorumMet\<rparr>))))"
        using True by (auto simp: reached_def above_def split: option.splits)
    qed (use obj unsent in \<open>auto simp: s1_def\<close>)
    with True run show ?thesis by simp
  next
    case False
    have "world_ok env (put_object a s1 w)"
    proof (rule put_object_ok [OF assms])
      show "object_ok env s1" using obj signed False by (auto simp: object_ok_def s1_def)
    qed (use obj unsent guards(1) in \<open>auto simp: s1_def is_open_def\<close>)
    with False run show ?thesis by simp
  qed
qed

lemma submit_ok:
  assumes "world_ok env w"
  shows "world_ok env (snd (request_broadcast now i w))"
proof (cases "\<exists>a s. lookup_object i w = Some (a, s) \<and> ds_status s \<noteq> DBroadcast \<and>
    \<not> above (ds_requiredSignatures s) (int (length (ds_collectedSignatures s)))")
  case True
  then obtain a s where l: "lookup_object i w = Some (a, s)" and c: "ds_status s \<noteq> DBroadcast"
    "\<not> above (ds_requiredSignatures s) (int (length (ds_collectedSignatures s)))" by blast
  note obj = lookup_objectD [OF l assms]
  have "world_ok env (start_broadcast now a s w)"
    by (rule start_broadcast_ok [OF assms]) (use obj c in \<open>auto simp: sent_by_def\<close>)
  with l c show ?thesis by (simp add: request_broadcast_def)
next
  case False
  then have "snd (request_broadcast now i w) = w"
    by (auto simp: request_broadcast_def split: option.splits)
  with assms show ?thesis by simp
qed

lemma pending_irrelevant: "world_ok env w \<Longrightarrow> set p \<subseteq> set (dw_pending w) \<Longrightarrow> world_ok env (w\<lparr>dw_pending := p\<rparr>)"
  unfolding world_ok_def by auto

lemma finish_ok:
  assumes "world_ok env w" and "a \<in> set (dw_pending w)"
  shows "world_ok env (snd (finish_broadcast now ans a w))"
proof -
  define w' where "w' = w\<lparr>dw_pending := remove1 a (dw_pending w)\<rparr>"
  have w': "world_ok env w'" unfolding w'_def using assms(1) set_remove1_subset by (rule pending_irrelevant)
  from assms have a: "a < length (dw_heap w')" "\<not> is_open (dw_heap w' ! a)" by (auto simp: world_ok_def w'_def)
  with w' have ok: "object_ok env (dw_heap w' ! a)" by (simp add: world_ok_def)
  have "world_ok env (put_object a (f (dw_heap w' ! a)) w')"
    if f: "\<And>s. ds_disbursementId (f s) = ds_disbursementId s" "\<And>s. ds_transactionXdr (f s) = ds_transactionXdr s"
      "\<And>s. ds_officers (f s) = ds_officers s" "\<And>s. ds_requiredSignatures (f s) = ds_requiredSignatures s"
      "\<And>s. ds_collectedSignatures (f s) = ds_collectedSignatures s" "\<And>s. ds_status (f s) \<in> {DBroadcast, DFailed}" for f
  proof -
    have closed: "\<not> is_open (f s)" for s using f(6) [of s] by (auto simp: is_open_def)
    show ?thesis
      by (rule put_object_ok [OF w' a(1)]) (use ok closed in \<open>simp_all add: f object_ok_def officers_signed_def sent_by_def\<close>)
  qed
  note put = this
  show ?thesis unfolding finish_broadcast_def Let_def w'_def [symmetric]
    using put [of "\<lambda>s. s\<lparr>ds_broadcastResult := Some r, ds_status := DBroadcast, ds_updatedAt := now\<rparr>" for r]
      put [of "\<lambda>s. s\<lparr>ds_status := DFailed, ds_failureReason := Some m, ds_updatedAt := now\<rparr>" for m]
    by (simp add: w'_def split: wallet_answer.split)
qed

lemma expire_ok:
  assumes "world_ok env w"
  shows "world_ok env (snd (expireStaleDisbursements now w))"
proof -
  have "world_ok env (snd (fold (\<lambda>(i, a) (n, w). if a < length (dw_heap w) \<and> is_stale now (dw_heap w ! a)
             then (n + 1, put_object a ((dw_heap w ! a)\<lparr>ds_status := DExpired, ds_updatedAt := now\<rparr>) w) else (n, w)) ids (n, v)))"
    if "world_ok env v" for ids n v
    using that
  proof (induction ids arbitrary: n v)
    case (Cons p ids)
    obtain i a where p: "p = (i, a)" by (cases p)
    show ?case
    proof (cases "a < length (dw_heap v) \<and> is_stale now (dw_heap v ! a)")
      case True
      then have ok: "object_ok env (dw_heap v ! a)" "ds_status (dw_heap v ! a) \<in> {DCollecting, DPending}"
        using Cons.prems by (auto simp: world_ok_def is_stale_def)
      have "world_ok env (put_object a ((dw_heap v ! a)\<lparr>ds_status := DExpired, ds_updatedAt := now\<rparr>) v)"
        by (rule put_object_ok [OF Cons.prems]) (use True ok in \<open>auto simp: object_ok_def officers_signed_def sent_by_def is_open_def\<close>)
      from Cons.IH [OF this] True show ?thesis by (simp add: p)
    qed (use Cons in \<open>auto simp: p\<close>)
  qed simp
  with assms show ?thesis by (simp add: expireStaleDisbursements_def)
qed

lemma reachable_ok: "reachable env w \<Longrightarrow> world_ok env w"
proof (induction rule: reachable.induct)
  case start
  then show ?case by (simp add: world_ok_def empty_world_def)
next
  case (reset w)
  then show ?case by (auto simp: world_ok_def resetDisbursementStore_def)
qed (simp_all add: disbursement_created_ok sign_ok submit_ok finish_ok expire_ok)

text \<open>C3: However the operations interleave, every transaction that was sent to the wallet service belongs to an
  approval whose officers are distinct, and carries signatures of distinct officers of that approval, each
  of which verifies under its officer's key for that approval's id and transaction; when the approval's
  number of required signatures is a number at all, it lies between one and the number of officers and at
  least that many signatures were sent.\<close>

theorem quorum_before_broadcast:
  assumes "reachable env w" and "b \<in> set (dw_sent w)"
  shows "\<exists>s \<in> set (dw_heap w). br_xdr b = ds_transactionXdr s \<and> distinct (ds_officers s) \<and>
    distinct (map fst (br_signatures b)) \<and>
    (\<forall>(k, sig) \<in> set (br_signatures b). k \<in> set (ds_officers s) \<and>
       db_verify env k sig (payload (ds_disbursementId s) (br_xdr b))) \<and>
    (\<forall>n. ds_requiredSignatures s = Some n \<longrightarrow>
       1 \<le> n \<and> n \<le> of_nat (length (ds_officers s)) \<and> n \<le> of_nat (length (br_signatures b)))"
proof -
  from reachable_ok [OF assms(1)] assms(2) obtain s where s: "s \<in> set (dw_heap w)" "object_ok env s" "sent_by b s"
    unfolding world_ok_def by blast
  from s(3) have b: "br_xdr b = ds_transactionXdr s" "length (br_signatures b) = length (ds_collectedSignatures s)"
    "map fst (br_signatures b) = map os_officer (ds_collectedSignatures s)" by (auto simp: sent_by_def)
  have "\<forall>(k, sig) \<in> set (br_signatures b). k \<in> set (ds_officers s) \<and>
      db_verify env k sig (payload (ds_disbursementId s) (br_xdr b))"
    using s(2,3) by (auto simp: sent_by_def object_ok_def officers_signed_def)
  moreover have "n \<le> of_nat (length (br_signatures b))" if "ds_requiredSignatures s = Some n" for n
    using s(3) that b(2) by (simp add: sent_by_def above_def)
  ultimately show ?thesis using s(1,2) b by (intro bexI [of _ s]) (auto simp: object_ok_def officers_signed_def)
qed

definition demo_disb :: disb_env where
  "demo_disb = \<lparr>db_validKey = (\<lambda>k. k \<in> {''GA'', ''GB'', ''GC''}), db_verify = (\<lambda>k sig p. sig = k), db_hash = (\<lambda>s. s)\<rparr>"

definition demo_approval :: "rat option option \<Rightarrow> CreateDisbursementApprovalInput" where
  "demo_approval req = \<lparr>ca_disbursementId = ''d1'', ca_transactionXdr = ''XDR'', ca_officers = [''GA'', ''GB'', ''GC''],
     ca_requiredSignatures = req\<rparr>"

definition demo_sign :: "string \<Rightarrow> SubmitOfficerSignatureInput" where
  "demo_sign k = \<lparr>sg_disbursementId = ''d1'', sg_officer = k, sg_signature = k\<rparr>"

definition demo_approved :: disb_world where
  "demo_approved = snd (sign_disbursement demo_disb 3 (demo_sign ''GC'') (snd (sign_disbursement demo_disb 2 (demo_sign ''GA'')
     (snd (createDisbursementApproval demo_disb 1 (demo_approval None) empty_world)))))"

theorem quorum_before_broadcast_witness:
  "\<exists>s \<in> set (dw_heap demo_approved). ds_transactionXdr s = ''XDR'' \<and> ds_requiredSignatures s = Some 2 \<and>
     (\<forall>n. ds_requiredSignatures s = Some n \<longrightarrow> n \<le> of_nat (length [(''GA'', ''GA''), (''GC'', ''GC'')]))"
proof -
  have "reachable demo_disb demo_approved"
    unfolding demo_approved_def by (intro reachable.sign reachable.create reachable.start)
  moreover have "dw_sent demo_approved = [\<lparr>br_xdr = ''XDR'', br_signatures = [(''GA'', ''GA''), (''GC'', ''GC'')]\<rparr>]"
    "map ds_requiredSignatures (dw_heap demo_approved) = [Some 2]"
    unfolding demo_approved_def by code_simp+
  ultimately show ?thesis
    using quorum_before_broadcast [of demo_disb demo_approved "\<lparr>br_xdr = ''XDR'', br_signatures = [(''GA'', ''GA''), (''GC'', ''GC'')]\<rparr>"]
    by fastforce
qed

text \<open>The quorum can be bypassed. A creation request whose required number of signatures does not compare as a
  number (the route checks nothing about it) is accepted, because both range tests are false; submitting the
  approval then sends the transaction without a single signature.\<close>

theorem unnumbered_quorum_bypassed:
  "(let (r1, w1) = createDisbursementApproval demo_disb 1 (demo_approval (Some None)) empty_world;
        (r2, w2) = submitDisbursementApproval 2 (Accepted JNull) 3 ''d1'' w1
    in (\<exists>s. r1 = Inr s) \<and> map_sum (\<lambda>_. ()) ds_status r2 = Inr DBroadcast \<and>
       dw_sent w2 = [\<lparr>br_xdr = ''XDR'', br_signatures = []\<rparr>])"
  by (simp add: createDisbursementApproval_def submitDisbursementApproval_def request_broadcast_def demo_approval_def
      demo_disb_def empty_world_def js_trim_def js_space_def js_unique_def below_def above_def new_disbursement_def
      lookup_object_def start_broadcast_def finish_broadcast_def put_object_def read_object_def Let_def prog_simps)

text \<open>A transaction can be sent twice. While the broadcast that the second signature started is still under
  way, submitting the same approval sends the transaction again; so does submitting it after the wallet
  service has refused it once.\<close>

theorem broadcast_repeated:
  "map br_xdr (dw_sent (snd (request_broadcast 4 ''d1'' demo_approved))) = [''XDR'', ''XDR''] \<and>
   map br_xdr (dw_sent (snd (request_broadcast 5 ''d1'' (snd (finish_broadcast 4 (Lost ''timeout'') 0 demo_approved))))) = [''XDR'', ''XDR'']"
  unfolding demo_approved_def by code_simp

end
