(* ===== verification/Workflow_Timeout.thy ===== *)
theory Workflow_Timeout
  imports Saga_Store "HOL-Library.Multiset"
begin

text \<open>
  Stuck workflows and the dead letter queue (orchestrator/workflows/timeout.ts) over the saga store. The queue is
  the list of its entries; the compensation callback is an argument that may throw.
\<close>

section \<open>Data\<close>

definition DEFAULT_TIMEOUT_MS :: int where "DEFAULT_TIMEOUT_MS = 30 * 60 * 1000"

record 'c DeadLetterEntry =
  dl_sagaId :: string
  dl_orderId :: string
  dl_reason :: string
  dl_originalStatus :: SagaStatus
  dl_movedAt :: ms
  dl_context :: 'c

record StuckWorkflow =
  sk_sagaId :: string
  sk_orderId :: string
  sk_status :: SagaStatus
  sk_stuckSinceMs :: int

section \<open>Operations\<close>

definition findStuckWorkflows :: "ms \<Rightarrow> int \<Rightarrow> 'c saga_rows \<Rightarrow> StuckWorkflow list" where
  "findStuckWorkflows now timeoutMs rows =
     map (\<lambda>r. \<lparr>sk_sagaId = sr_sagaId r, sk_orderId = sr_orderId r, sk_status = sr_status r,
               sk_stuckSinceMs = now - sr_updatedAt r\<rparr>)
       (filter (\<lambda>r. now - sr_updatedAt r \<ge> timeoutMs) (listIncomplete rows))"

definition moveToDeadLetter :: "ms \<Rightarrow> 'c SagaRecord \<Rightarrow> string \<Rightarrow> 'c DeadLetterEntry list \<Rightarrow> 'c DeadLetterEntry \<times> 'c DeadLetterEntry list" where
  "moveToDeadLetter now r reason dlq =
     (let e = \<lparr>dl_sagaId = sr_sagaId r, dl_orderId = sr_orderId r, dl_reason = reason, dl_originalStatus = sr_status r,
               dl_movedAt = now, dl_context = sr_context r\<rparr> in (e, dlq @ [e]))"

definition listDeadLetterEntries :: "'c DeadLetterEntry list \<Rightarrow> 'c DeadLetterEntry list" where
  "listDeadLetterEntries dlq = dlq"

text \<open>\<open>Math.round(ms / 1000)\<close>, rounding halves up.\<close>

definition round_seconds :: "int \<Rightarrow> int" where
  "round_seconds t = (t + 500) div 1000"

record TimeoutProcessorResult =
  tp_compensated :: "string list"
  tp_movedToDlq :: "string list"

record ('c, 'x) timeout_world =
  tw_rows :: "'c saga_rows"
  tw_dlq :: "'c DeadLetterEntry list"
  tw_ext :: 'x

text \<open>\<open>show_seconds\<close> spells a number; the callback works on the store and may throw. The dash in the source's
  message is a hyphen here.\<close>

definition process_stuck ::
  "(int \<Rightarrow> string) \<Rightarrow> ms \<Rightarrow> (string \<Rightarrow> (('c, 'x) timeout_world, string, bool) prog) option \<Rightarrow> StuckWorkflow \<Rightarrow>
   TimeoutProcessorResult \<Rightarrow> (('c, 'x) timeout_world, string, TimeoutProcessorResult) prog" where
  "process_stuck show_seconds now tryCompensate item acc =
     pbind (case tryCompensate of None \<Rightarrow> pret False | Some f \<Rightarrow> pcatch (f (sk_sagaId item)) (\<lambda>_. pret False)) (\<lambda>ok.
     if ok then pret (acc\<lparr>tp_compensated := tp_compensated acc @ [sk_sagaId item]\<rparr>)
     else pbind (pmodify (\<lambda>w. case saga_get (tw_rows w) (sk_sagaId item) of
              None \<Rightarrow> w
            | Some r \<Rightarrow> w\<lparr>tw_dlq := snd (moveToDeadLetter now r
                (''Workflow stuck for '' @ show_seconds (round_seconds (sk_stuckSinceMs item)) @ ''s - automatic compensation unavailable'')
                (tw_dlq w))\<rparr>))
          (\<lambda>_. pret (acc\<lparr>tp_movedToDlq := tp_movedToDlq acc @ [sk_sagaId item]\<rparr>)))"

definition processTimedOutWorkflows ::
  "(int \<Rightarrow> string) \<Rightarrow> ms \<Rightarrow> (string \<Rightarrow> (('c, 'x) timeout_world, string, bool) prog) option \<Rightarrow> int \<Rightarrow>
   (('c, 'x) timeout_world, string, TimeoutProcessorResult) prog" where
  "processTimedOutWorkflows show_seconds now tryCompensate timeoutMs =
     pbind (pgets (\<lambda>w. findStuckWorkflows now timeoutMs (tw_rows w))) (\<lambda>stuck.
     pfor stuck \<lparr>tp_compensated = [], tp_movedToDlq = []\<rparr> (process_stuck show_seconds now tryCompensate))"

section \<open>Correctness\<close>

text \<open>The sagas that a scan finds: not finished, and idle for at least the timeout.\<close>

definition stuck_ids :: "ms \<Rightarrow> int \<Rightarrow> 'c saga_rows \<Rightarrow> string list" where
  "stuck_ids now timeoutMs rows = map sk_sagaId (findStuckWorkflows now timeoutMs rows)"

lemma stuck_iff:
  "s \<in> set (stuck_ids now tmo rows) \<longleftrightarrow>
     (\<exists>r \<in> snd ` set rows. sr_sagaId r = s \<and> sr_status r \<in> {SRunning, SCompensating} \<and> now - sr_updatedAt r \<ge> tmo)"
  by (force simp: stuck_ids_def findStuckWorkflows_def listIncomplete_def)

lemma process_run:
  "\<exists>w' yes no. pfor items acc (process_stuck sh now f) w =
     (Inr \<lparr>tp_compensated = tp_compensated acc @ yes, tp_movedToDlq = tp_movedToDlq acc @ no\<rparr>, w') \<and>
     mset (yes @ no) = mset (map sk_sagaId items)"
  for acc :: TimeoutProcessorResult
proof (induction items arbitrary: acc w)
  case Nil
  then show ?case by (simp add: prog_simps)
next
  case (Cons x items)
  obtain ok w1 where t: "(case f of None \<Rightarrow> pret False | Some g \<Rightarrow> pcatch (g (sk_sagaId x)) (\<lambda>_. pret False)) w = (Inr ok :: string + bool, w1)"
  proof (cases f)
    case (Some g)
    obtain r w1 where "g (sk_sagaId x) w = (r, w1)" by (cases "g (sk_sagaId x) w")
    with Some that [of False w1] that show ?thesis by (cases r) (simp_all add: prog_simps)
  qed (use that [of False w] in \<open>simp add: prog_simps\<close>)
  show ?case
  proof (cases ok)
    case True
    from Cons.IH [of "acc\<lparr>tp_compensated := tp_compensated acc @ [sk_sagaId x]\<rparr>" w1] obtain w' yes no where
      r: "pfor items (acc\<lparr>tp_compensated := tp_compensated acc @ [sk_sagaId x]\<rparr>) (process_stuck sh now f) w1 =
        (Inr \<lparr>tp_compensated = tp_compensated acc @ [sk_sagaId x] @ yes, tp_movedToDlq = tp_movedToDlq acc @ no\<rparr>, w')"
      "mset (yes @ no) = mset (map sk_sagaId items)" by auto
    have "process_stuck sh now f x acc w = (Inr (acc\<lparr>tp_compensated := tp_compensated acc @ [sk_sagaId x]\<rparr>), w1)"
      using t True by (simp add: process_stuck_def prog_simps)
    with r show ?thesis
      by (rule_tac exI [of _ w'], rule_tac exI [of _ "sk_sagaId x # yes"], rule_tac exI [of _ no]) (simp add: pbind_apply)
  next
    case False
    define w2 where "w2 = snd (pmodify (\<lambda>w. case saga_get (tw_rows w) (sk_sagaId x) of
              None \<Rightarrow> w
            | Some r \<Rightarrow> w\<lparr>tw_dlq := snd (moveToDeadLetter now r
                (''Workflow stuck for '' @ sh (round_seconds (sk_stuckSinceMs x)) @ ''s - automatic compensation unavailable'')
                (tw_dlq w))\<rparr>) w1 :: (string + unit) \<times> _)"
    from Cons.IH [of "acc\<lparr>tp_movedToDlq := tp_movedToDlq acc @ [sk_sagaId x]\<rparr>" w2] obtain w' yes no where
      r: "pfor items (acc\<lparr>tp_movedToDlq := tp_movedToDlq acc @ [sk_sagaId x]\<rparr>) (process_stuck sh now f) w2 =
        (Inr \<lparr>tp_compensated = tp_compensated acc @ yes, tp_movedToDlq = tp_movedToDlq acc @ [sk_sagaId x] @ no\<rparr>, w')"
      "mset (yes @ no) = mset (map sk_sagaId items)" by auto
    have "process_stuck sh now f x acc w = (Inr (acc\<lparr>tp_movedToDlq := tp_movedToDlq acc @ [sk_sagaId x]\<rparr>), w2)"
      using t False by (simp add: process_stuck_def w2_def prog_simps)
    with r show ?thesis
      by (rule_tac exI [of _ w'], rule_tac exI [of _ yes], rule_tac exI [of _ "sk_sagaId x # no"]) (simp add: pbind_apply)
  qed
qed

lemma process_run_none:
  assumes "\<And>i. i \<in> set items \<Longrightarrow> \<exists>r. saga_get (tw_rows w) (sk_sagaId i) = Some r \<and> sr_sagaId r = sk_sagaId i"
  shows "tw_rows (snd (pfor items acc (process_stuck sh now None) w)) = tw_rows w \<and>
    map dl_sagaId (tw_dlq (snd (pfor items acc (process_stuck sh now None) w))) = map dl_sagaId (tw_dlq w) @ map sk_sagaId items"
  using assms
proof (induction items arbitrary: acc w)
  case (Cons x items)
  from Cons.prems [of x] obtain r where r: "saga_get (tw_rows w) (sk_sagaId x) = Some r" "sr_sagaId r = sk_sagaId x" by auto
  define w1 where "w1 = w\<lparr>tw_dlq := snd (moveToDeadLetter now r
      (''Workflow stuck for '' @ sh (round_seconds (sk_stuckSinceMs x)) @ ''s - automatic compensation unavailable'') (tw_dlq w))\<rparr>"
  have s: "process_stuck sh now None x acc w = (Inr (acc\<lparr>tp_movedToDlq := tp_movedToDlq acc @ [sk_sagaId x]\<rparr>), w1)"
    using r by (simp add: process_stuck_def prog_simps w1_def)
  have d: "map dl_sagaId (tw_dlq w1) = map dl_sagaId (tw_dlq w) @ [sk_sagaId x]"
    by (simp add: w1_def moveToDeadLetter_def Let_def r(2))
  have "tw_rows w1 = tw_rows w" by (simp add: w1_def)
  with Cons.IH [of w1 "acc\<lparr>tp_movedToDlq := tp_movedToDlq acc @ [sk_sagaId x]\<rparr>"] Cons.prems s d show ?case
    by (auto simp: pbind_apply)
qed (simp add: prog_simps)

text \<open>Every row is stored under its own id, each id once.\<close>

definition rows_keyed :: "'c saga_rows \<Rightarrow> bool" where
  "rows_keyed rows \<longleftrightarrow> distinct (map fst rows) \<and> (\<forall>(k, r) \<in> set rows. sr_sagaId r = k)"

lemma stuck_item_row:
  assumes "rows_keyed rows" and "i \<in> set (findStuckWorkflows now tmo rows)"
  shows "\<exists>r. saga_get rows (sk_sagaId i) = Some r \<and> sr_sagaId r = sk_sagaId i"
proof -
  from assms(2) obtain k r where "(k, r) \<in> set rows" "sk_sagaId i = sr_sagaId r"
    by (auto simp: findStuckWorkflows_def listIncomplete_def)
  with assms(1) show ?thesis by (auto simp: rows_keyed_def saga_get_def)
qed


definition demo_saga :: "unit SagaRecord" where
  "demo_saga = \<lparr>sr_sagaId = ''s1'', sr_orderId = ''o1'', sr_workflowType = WfPurchase, sr_status = SRunning, sr_currentStep = None,
     sr_completedSteps = [], sr_context = (), sr_version = 0, sr_correlationId = '''', sr_error = None, sr_expiresAt = None,
     sr_claimExpiresAt = None, sr_createdAt = 0, sr_updatedAt = 0\<rparr>"


end
