(* ===== verification/Compensation.thy ===== *)
theory Compensation
  imports Workflow_Types Workflow_Timeout Settlement
begin

text \<open>
  Compensation of a failed purchase (orchestrator/workflows/purchase/compensation.ts) with the stores it writes
  (state/workflow-transition-audit.ts, state/compensation-outcome.ts), the two HTTP clients it uses and the routes
  of the payments service behind one of them. The stores can be swapped for database-backed ones, so each
  write may find its store down; an in-memory store is the case in which it never does. The world of the
  compensation steps themselves is a parameter \<open>'w\<close>; the composition with the settlement module takes that
  module's world for it.
\<close>

section \<open>Stores\<close>

record WorkflowTransitionAuditRecord =
  wa_id :: string
  wa_orderId :: string
  wa_fromState :: "string option"
  wa_toState :: string
  wa_eventType :: string
  wa_createdAt :: ms

record InsertWorkflowTransitionAuditInput =
  ia_orderId :: string
  ia_fromState :: "string option"
  ia_toState :: string
  ia_eventType :: string

datatype CompensationStatus = CSuccess | CPartialFailure | CEscrowStuck

record UpsertCompensationOutcomeInput =
  uo_workflowId :: string
  uo_status :: CompensationStatus
  uo_compensatedSteps :: "string list"
  uo_failedSteps :: "(string \<times> string) list"
  uo_cause :: string

record CompensationOutcomeRecord =
  co_workflowId :: string
  co_status :: CompensationStatus
  co_compensatedSteps :: "string list"
  co_failedSteps :: "(string \<times> string) list"
  co_cause :: string
  co_attempts :: nat
  co_createdAt :: ms
  co_updatedAt :: ms

record 'w comp_env =
  ce_clock :: "'w \<Rightarrow> ms \<times> 'w"
  ce_newId :: "'w \<Rightarrow> string \<times> 'w"
  ce_auditUp :: "'w \<Rightarrow> bool \<times> 'w"
  ce_outcomeUp :: "'w \<Rightarrow> bool \<times> 'w"
  ce_dlqUp :: "'w \<Rightarrow> bool \<times> 'w"

record 'w comp_world =
  cm_audit :: "WorkflowTransitionAuditRecord list"
  cm_outcomes :: "(string \<times> CompensationOutcomeRecord) list"
  cm_dlq :: "PurchaseContext DeadLetterEntry list"
  cm_ext :: 'w

type_synonym ('w, 'a) comp_prog = "('w comp_world, string, 'a) prog"

definition ask_ext :: "('w \<Rightarrow> 'a \<times> 'w) \<Rightarrow> ('w, 'a) comp_prog" where
  "ask_ext f w = (case f (cm_ext w) of (a, x) \<Rightarrow> (Inr a, w\<lparr>cm_ext := x\<rparr>))"

definition blank :: "string \<Rightarrow> bool" where
  "blank s \<longleftrightarrow> js_trim s = []"

definition insertWorkflowTransitionAudit ::
  "'w comp_env \<Rightarrow> InsertWorkflowTransitionAuditInput \<Rightarrow> ('w, WorkflowTransitionAuditRecord) comp_prog" where
  "insertWorkflowTransitionAudit env inp =
     (if blank (ia_orderId inp) then pthrow ''orderId is required''
      else if blank (ia_toState inp) then pthrow ''toState is required''
      else if blank (ia_eventType inp) then pthrow ''eventType is required''
      else pbind (ask_ext (ce_auditUp env)) (\<lambda>up.
           if \<not> up then pthrow ''audit store unavailable''
           else pbind (ask_ext (ce_newId env)) (\<lambda>i.
                pbind (ask_ext (ce_clock env)) (\<lambda>t.
                let r = \<lparr>wa_id = i, wa_orderId = ia_orderId inp, wa_fromState = ia_fromState inp, wa_toState = ia_toState inp,
                         wa_eventType = ia_eventType inp, wa_createdAt = t\<rparr>
                in pbind (pmodify (\<lambda>w. w\<lparr>cm_audit := cm_audit w @ [r]\<rparr>)) (\<lambda>_. pret r)))))"

definition upsert_row :: "UpsertCompensationOutcomeInput \<Rightarrow> ms \<Rightarrow> CompensationOutcomeRecord option \<Rightarrow> CompensationOutcomeRecord" where
  "upsert_row inp now existing =
     \<lparr>co_workflowId = uo_workflowId inp, co_status = uo_status inp, co_compensatedSteps = uo_compensatedSteps inp,
      co_failedSteps = uo_failedSteps inp, co_cause = uo_cause inp,
      co_attempts = (case existing of None \<Rightarrow> 0 | Some r \<Rightarrow> co_attempts r) + 1,
      co_createdAt = (case existing of None \<Rightarrow> now | Some r \<Rightarrow> co_createdAt r), co_updatedAt = now\<rparr>"

definition upsertCompensationOutcome ::
  "'w comp_env \<Rightarrow> UpsertCompensationOutcomeInput \<Rightarrow> ('w, CompensationOutcomeRecord) comp_prog" where
  "upsertCompensationOutcome env inp =
     (if blank (uo_workflowId inp) then pthrow ''workflowId is required''
      else pbind (ask_ext (ce_outcomeUp env)) (\<lambda>up.
           if \<not> up then pthrow ''outcome store unavailable''
           else pbind (ask_ext (ce_clock env)) (\<lambda>t.
                pbind (pgets (\<lambda>w. upsert_row inp t (jm_get (cm_outcomes w) (uo_workflowId inp)))) (\<lambda>r.
                pbind (pmodify (\<lambda>w. w\<lparr>cm_outcomes := jm_set (uo_workflowId inp) r (cm_outcomes w)\<rparr>)) (\<lambda>_. pret r)))))"

definition getCompensationOutcome :: "string \<Rightarrow> 'w comp_world \<Rightarrow> CompensationOutcomeRecord option" where
  "getCompensationOutcome wid w = jm_get (cm_outcomes w) wid"

section \<open>The compensator\<close>

record 'w CompensationStep =
  cp_name :: string
  cp_compensate :: "PurchaseContext \<Rightarrow> string \<Rightarrow> ('w, string, PurchaseContext) prog"

record CompensationResult =
  cr_status :: CompensationStatus
  cr_compensatedSteps :: "string list"
  cr_failedSteps :: "(string \<times> string) list"
  cr_finalContext :: PurchaseContext
  cr_escrowStuck :: bool

definition ESCROW_CRITICAL_STEPS :: "string list" where
  "ESCROW_CRITICAL_STEPS = [''fundEscrow'', ''settleEscrow'']"

text \<open>The loop-carried variables.\<close>

record comp_vars =
  cv_compensatedSteps :: "string list"
  cv_failedSteps :: "(string \<times> string) list"
  cv_currentContext :: PurchaseContext
  cv_escrowStuck :: bool

definition run_step :: "('w, string, 'a) prog \<Rightarrow> ('w, 'a) comp_prog" where
  "run_step m = pzoom cm_ext (\<lambda>x w. w\<lparr>cm_ext := x\<rparr>) m"

text \<open>\<^verbatim>\<open>new Map(allSteps.map(s => [s.name, s]))\<close>: of two steps with one name the later counts.\<close>

definition stepMap :: "'w CompensationStep list \<Rightarrow> string \<Rightarrow> 'w CompensationStep option" where
  "stepMap steps = map_of (rev (map (\<lambda>s. (cp_name s, s)) steps))"

definition swallow_comp :: "('w, 'a) comp_prog \<Rightarrow> ('w, unit) comp_prog" where
  "swallow_comp m = pcatch (pbind m (\<lambda>_. pret ())) (\<lambda>_. pret ())"

text \<open>One turn of the loop. The context is assigned as soon as the step returns, before the audit row is written.\<close>

definition compensate_one ::
  "'w comp_env \<Rightarrow> string \<Rightarrow> string \<Rightarrow> 'w CompensationStep list \<Rightarrow> string \<Rightarrow> comp_vars \<Rightarrow> ('w, comp_vars) comp_prog" where
  "compensate_one env wid cause steps name v =
     (case stepMap steps name of
        None \<Rightarrow> pret (v\<lparr>cv_failedSteps := cv_failedSteps v @ [(name, ''No compensator registered'')]\<rparr>)
      | Some st \<Rightarrow>
          pbind (ptry (run_step (cp_compensate st (cv_currentContext v) cause))) (\<lambda>res.
          let v1 = (case res of Inr ctx \<Rightarrow> v\<lparr>cv_currentContext := ctx\<rparr> | Inl _ \<Rightarrow> v) in
          pbind (ptry (case res of
              Inl e \<Rightarrow> pthrow e
            | Inr _ \<Rightarrow> insertWorkflowTransitionAudit env \<lparr>ia_orderId = wid, ia_fromState = Some name,
                 ia_toState = name @ ''_compensated'', ia_eventType = ''COMPENSATION''\<rparr>)) (\<lambda>done.
          case done of
            Inr _ \<Rightarrow> pret (v1\<lparr>cv_compensatedSteps := cv_compensatedSteps v1 @ [name]\<rparr>)
          | Inl e \<Rightarrow>
              pbind (swallow_comp (insertWorkflowTransitionAudit env \<lparr>ia_orderId = wid, ia_fromState = Some name,
                 ia_toState = name @ ''_compensation_failed'', ia_eventType = ''COMPENSATION_FAILED''\<rparr>)) (\<lambda>_.
              pret (v1\<lparr>cv_failedSteps := cv_failedSteps v1 @ [(name, e)],
                      cv_escrowStuck := cv_escrowStuck v1 \<or> name \<in> set ESCROW_CRITICAL_STEPS\<rparr>)))))"

text \<open>The record handed to the dead letter queue. Its steps' outputs, empty objects in the source, stand for
  any value of the context type; the queue keeps only the ids, the status and the context.\<close>

definition dlq_record :: "string \<Rightarrow> string \<Rightarrow> comp_vars \<Rightarrow> ms \<Rightarrow> PurchaseContext SagaRecord" where
  "dlq_record wid cause v t =
     (let stuck = find (\<lambda>(s, e). s \<in> set ESCROW_CRITICAL_STEPS) (cv_failedSteps v)
      in \<lparr>sr_sagaId = wid, sr_orderId = wid, sr_workflowType = WfPurchase, sr_status = SagaStatus.SFailed,
          sr_currentStep = map_option fst stuck,
          sr_completedSteps = map (\<lambda>s. \<lparr>cs_stepName = s, cs_status = StepCompensated, cs_output = cv_currentContext v,
             cs_completedAt = t, cs_compensationAction = None\<rparr>) (cv_compensatedSteps v),
          sr_context = cv_currentContext v, sr_version = 0, sr_correlationId = '''',
          sr_error = Some (case stuck of None \<Rightarrow> cause | Some (s, e) \<Rightarrow> e), sr_expiresAt = None, sr_claimExpiresAt = None,
          sr_createdAt = t, sr_updatedAt = t\<rparr>)"

definition push_dlq :: "'w comp_env \<Rightarrow> string \<Rightarrow> string \<Rightarrow> comp_vars \<Rightarrow> ('w, unit) comp_prog" where
  "push_dlq env wid cause v =
     (let stuck = find (\<lambda>(s, e). s \<in> set ESCROW_CRITICAL_STEPS) (cv_failedSteps v);
          reason = ''Escrow compensation stuck: '' @ (case stuck of None \<Rightarrow> ''unknown step'' | Some (s, e) \<Rightarrow> s) @ '' - '' @
                   (case stuck of None \<Rightarrow> cause | Some (s, e) \<Rightarrow> e)
      in pbind (ask_ext (ce_clock env)) (\<lambda>t.
         pbind (ask_ext (ce_dlqUp env)) (\<lambda>up.
         if \<not> up then pthrow ''dead letter store unavailable''
         else pmodify (\<lambda>w. w\<lparr>cm_dlq := snd (moveToDeadLetter t (dlq_record wid cause v t) reason (cm_dlq w))\<rparr>))))"

definition runCompensation ::
  "'w comp_env \<Rightarrow> string \<Rightarrow> string list \<Rightarrow> PurchaseContext \<Rightarrow> string \<Rightarrow> 'w CompensationStep list \<Rightarrow> ('w, CompensationResult) comp_prog" where
  "runCompensation env wid completed ctx cause steps =
     pbind (pfor (rev completed) \<lparr>cv_compensatedSteps = [], cv_failedSteps = [], cv_currentContext = ctx, cv_escrowStuck = False\<rparr>
              (compensate_one env wid cause steps)) (\<lambda>v.
     let status = (if cv_failedSteps v = [] then CSuccess else CPartialFailure) in
     pbind (swallow_comp (upsertCompensationOutcome env \<lparr>uo_workflowId = wid,
              uo_status = (if cv_escrowStuck v then CEscrowStuck else status), uo_compensatedSteps = cv_compensatedSteps v,
              uo_failedSteps = cv_failedSteps v, uo_cause = cause\<rparr>)) (\<lambda>_.
     pbind (if cv_escrowStuck v then swallow_comp (push_dlq env wid cause v) else pret ()) (\<lambda>_.
     pret \<lparr>cr_status = status, cr_compensatedSteps = cv_compensatedSteps v, cr_failedSteps = cv_failedSteps v,
           cr_finalContext = cv_currentContext v, cr_escrowStuck = cv_escrowStuck v\<rparr>)))"

section \<open>The steps of the purchase saga\<close>

datatype MerchantCancellationStatus = MCancelled | MAlreadyCancelled | MNotCancellable | MFailed

record MerchantCancellationOutcome =
  mo_merchantOrderId :: string
  mo_status :: MerchantCancellationStatus
  mo_reason :: "string option"

record 'w CompensationDependencies =
  cd_release :: "string \<Rightarrow> ('w, string, SettlementOutcome) prog"
  cd_refund :: "string \<Rightarrow> RefundReasonCode \<Rightarrow> ('w, string, SettlementOutcome) prog"
  cd_cancel :: "string \<Rightarrow> string \<Rightarrow> ('w, string, MerchantCancellationOutcome) prog"

definition compensate_fundEscrow :: "'w CompensationDependencies \<Rightarrow> PurchaseContext \<Rightarrow> ('w, string, PurchaseContext) prog" where
  "compensate_fundEscrow deps ctx =
     (if \<not> truthy (pc_escrowContractId ctx) then pret ctx
      else pbind (cd_release deps (pc_workflowId ctx)) (\<lambda>out.
           if so_status out = SettlementOutcomeStatus.SFailed then pthrow (or_default (so_reason out) ''Escrow release failed'')
           else pret (ctx\<lparr>pc_escrowContractId := None\<rparr>)))"

definition compensate_confirmPurchase :: "'w CompensationDependencies \<Rightarrow> PurchaseContext \<Rightarrow> ('w, string, PurchaseContext) prog" where
  "compensate_confirmPurchase deps ctx =
     pcatch (pbind (cd_cancel deps (pc_workflowId ctx) ''system_error'') (\<lambda>out.
             if mo_status out = MFailed then pthrow (or_default (mo_reason out) ''Merchant cancellation failed'') else pret ctx))
       (\<lambda>e. if js_includes (js_lower e) ''not configured'' then pret ctx else pthrow e)"

definition compensate_settleEscrow :: "'w CompensationDependencies \<Rightarrow> PurchaseContext \<Rightarrow> ('w, string, PurchaseContext) prog" where
  "compensate_settleEscrow deps ctx =
     pbind (cd_refund deps (pc_workflowId ctx) RSystemError) (\<lambda>out.
     if so_status out = SettlementOutcomeStatus.SFailed then pthrow (or_default (so_reason out) ''Escrow refund failed'') else pret ctx)"

definition createDefaultPurchaseCompensationSteps :: "'w CompensationDependencies \<Rightarrow> 'w CompensationStep list" where
  "createDefaultPurchaseCompensationSteps deps =
     [\<lparr>cp_name = ''fundEscrow'', cp_compensate = (\<lambda>ctx cause. compensate_fundEscrow deps ctx)\<rparr>,
      \<lparr>cp_name = ''confirmPurchase'', cp_compensate = (\<lambda>ctx cause. compensate_confirmPurchase deps ctx)\<rparr>,
      \<lparr>cp_name = ''settleEscrow'', cp_compensate = (\<lambda>ctx cause. compensate_settleEscrow deps ctx)\<rparr>]"

section \<open>The clients and the routes behind them\<close>

record route_reply =
  rr_ok :: bool
  rr_status :: int
  rr_errorMessage :: "string option"
  rr_data :: "SettlementOutcome option"

definition outcome_reply :: "string \<Rightarrow> js_error + SettlementOutcome \<Rightarrow> route_reply" where
  "outcome_reply dflt res = (case res of
       Inl e \<Rightarrow> \<lparr>rr_ok = False, rr_status = 400, rr_errorMessage = Some (error_message ''Unknown error'' e), rr_data = None\<rparr>
     | Inr out \<Rightarrow>
         if so_status out = SettlementOutcomeStatus.SFailed
         then \<lparr>rr_ok = False, rr_status = 502, rr_errorMessage = Some (or_default (so_reason out) dflt), rr_data = Some out\<rparr>
         else \<lparr>rr_ok = True, rr_status = 200, rr_errorMessage = None, rr_data = Some out\<rparr>)"

definition release_route :: "'x service_env \<Rightarrow> string \<Rightarrow> 'x service_world \<Rightarrow> route_reply \<times> 'x service_world" where
  "release_route env oid w = (case settleOrder env oid w of (res, w') \<Rightarrow> (outcome_reply ''Release failed'' res, w'))"

definition refund_route :: "'x service_env \<Rightarrow> string \<Rightarrow> RefundReasonCode \<Rightarrow> 'x service_world \<Rightarrow> route_reply \<times> 'x service_world" where
  "refund_route env oid code w = (case refundOrder env oid code w of (res, w') \<Rightarrow> (outcome_reply ''Refund failed'' res, w'))"

text \<open>What the network does to one request: carries it and its reply, loses the request, or loses the reply or
  spoils it after the request was served.\<close>

datatype link_state = LinkUp | NoConnection string | ReplyLost string

definition postJson ::
  "('x \<Rightarrow> link_state \<times> 'x) \<Rightarrow> ('x service_world \<Rightarrow> route_reply \<times> 'x service_world) \<Rightarrow> ('x service_world, string, SettlementOutcome) prog" where
  "postJson link handler w =
     (case link (sw_ext w) of (l, x) \<Rightarrow>
        let w0 = w\<lparr>sw_ext := x\<rparr> in
        case l of
          NoConnection m \<Rightarrow> (Inl (''Payments service unavailable: '' @ m), w0)
        | ReplyLost m \<Rightarrow> (Inl m, snd (handler w0))
        | LinkUp \<Rightarrow>
            (case handler w0 of (r, w1) \<Rightarrow>
               if \<not> rr_ok r \<or> rr_errorMessage r \<noteq> None
               then (Inl (or_default (rr_errorMessage r) (''Payments service returned status '' @ show_int (rr_status r))), w1)
               else (case rr_data r of
                       None \<Rightarrow> (Inl ''Payments service returned an empty compensation result'', w1)
                     | Some d \<Rightarrow> (Inr d, w1))))"

definition defaultMerchantCancellationClient :: "string \<Rightarrow> string \<Rightarrow> ('w, string, MerchantCancellationOutcome) prog" where
  "defaultMerchantCancellationClient oid reason = pthrow ''MerchantCancellationClient not configured''"

definition default_dependencies :: "('x \<Rightarrow> link_state \<times> 'x) \<Rightarrow> 'x service_env \<Rightarrow> 'x service_world CompensationDependencies" where
  "default_dependencies link env =
     \<lparr>cd_release = (\<lambda>oid. postJson link (release_route env oid)),
      cd_refund = (\<lambda>oid code. postJson link (refund_route env oid code)),
      cd_cancel = defaultMerchantCancellationClient\<rparr>"

definition DEFAULT_PURCHASE_COMPENSATION_STEPS ::
  "('x \<Rightarrow> link_state \<times> 'x) \<Rightarrow> 'x service_env \<Rightarrow> 'x service_world CompensationStep list" where
  "DEFAULT_PURCHASE_COMPENSATION_STEPS link env = createDefaultPurchaseCompensationSteps (default_dependencies link env)"

section \<open>Retries within a lease budget\<close>

text \<open>The loop of \<^verbatim>\<open>retryWithLeaseBudget\<close>; \<open>now\<close> reads the clock of the world, \<open>nr\<close> recognises a
  \<^verbatim>\<open>NonRetryableError\<close>. The result \<open>None\<close> is a loop that never ends.\<close>

partial_function (option) lease_loop ::
  "('w \<Rightarrow> ('e + 'a) \<times> 'w) \<Rightarrow> (int \<Rightarrow> 'w \<Rightarrow> 'w) \<Rightarrow> ('w \<Rightarrow> ms) \<Rightarrow> ('e \<Rightarrow> bool) \<Rightarrow> int \<Rightarrow> int \<Rightarrow> int \<Rightarrow> ms \<Rightarrow> nat \<Rightarrow> 'w \<Rightarrow>
   (('e + 'a) \<times> 'w) option" where
  "lease_loop fn slp now nr base mx deadline start attempt w =
     (case fn w of (res, w1) \<Rightarrow>
      case res of
        Inr v \<Rightarrow> Some (Inr v, w1)
      | Inl e \<Rightarrow>
          if nr e then Some (Inl e, w1)
          else if now w1 - start + min (base * 2 ^ (attempt - 1)) mx \<ge> deadline then Some (Inl e, w1)
          else lease_loop fn slp now nr base mx deadline start (attempt + 1) (slp (min (base * 2 ^ (attempt - 1)) mx) w1))"

record LeaseOptions =
  lo_deadlineMs :: int
  lo_baseDelayMs :: "int option"
  lo_maxDelayMs :: "int option"

definition retryWithLeaseBudget ::
  "('w \<Rightarrow> ('e + 'a) \<times> 'w) \<Rightarrow> LeaseOptions \<Rightarrow> (int \<Rightarrow> 'w \<Rightarrow> 'w) \<Rightarrow> ('w \<Rightarrow> ms) \<Rightarrow> ('e \<Rightarrow> bool) \<Rightarrow> 'w \<Rightarrow> (('e + 'a) \<times> 'w) option" where
  "retryWithLeaseBudget fn opts slp now nr w =
     lease_loop fn slp now nr (or_default (lo_baseDelayMs opts) 200) (or_default (lo_maxDelayMs opts) 5000)
       (lo_deadlineMs opts) (now w) 1 w"

section \<open>The budgeted retry ends\<close>

text \<open>\<open>j\<close> completed sleeps of at least \<open>m\<close> each fit into the deadline; the loop makes \<open>j\<close> more of them.\<close>

lemma lease_loop_returns:
  assumes "\<And>w. now (snd (fn w)) \<ge> now w" and "\<And>d w. now (slp d w) \<ge> now w + d"
    and "\<And>w. cnt (snd (fn w)) = cnt w + (1 :: nat)" and "\<And>d w. cnt (slp d w) = cnt w"
    and "0 < m" and "m \<le> mx" and "m \<le> base"
    and "nat (deadline - (now w - start)) \<le> n"
  shows "\<exists>r w' j. lease_loop fn slp now nr base mx deadline start attempt w = Some (r, w') \<and>
    cnt w' = cnt w + j + 1 \<and> (j = 0 \<or> int j * m < deadline - (now w - start))"
  using assms(8)
proof (induction n arbitrary: attempt w rule: less_induct)
  case (less n)
  obtain res w1 where f: "fn w = (res, w1)" by (cases "fn w")
  with assms(1,3) have w1: "now w1 \<ge> now w" "cnt w1 = cnt w + 1" by (metis snd_conv)+
  define d where "d = min (base * 2 ^ (attempt - 1)) mx"
  have "base \<le> base * 2 ^ (attempt - 1)" using assms(5,7) by (simp add: self_le_ge2_pow)
  with assms(6,7) have d: "m \<le> d" by (simp add: d_def)
  note step = lease_loop.simps [of fn slp now nr base mx deadline start attempt w, folded d_def]
  show ?case
  proof (cases "\<exists>e. res = Inl e \<and> \<not> nr e \<and> now w1 - start + d < deadline")
    case False
    then have "lease_loop fn slp now nr base mx deadline start attempt w = Some (res, w1)"
      by (subst step) (auto simp: f split: sum.splits)
    with w1 show ?thesis by (intro exI [of _ res] exI [of _ w1] exI [of _ 0]) simp
  next
    case True
    then obtain e where e: "res = Inl e" "\<not> nr e" "now w1 - start + d < deadline" by blast
    define w2 where "w2 = slp d w1"
    have w2: "now w2 \<ge> now w + d" "cnt w2 = cnt w + 1" using assms(2) [of w1 d] assms(4) w1 by (simp_all add: w2_def)
    with d assms(5) e(3) w1(1) less.prems have "nat (deadline - (now w2 - start)) < n" by linarith
    from less.IH [OF this order_refl, of "attempt + 1"] obtain r w' j where
      r: "lease_loop fn slp now nr base mx deadline start (attempt + 1) w2 = Some (r, w')"
      "cnt w' = cnt w2 + j + 1" "j = 0 \<or> int j * m < deadline - (now w2 - start)" by blast
    have "lease_loop fn slp now nr base mx deadline start attempt w = Some (r, w')"
      using r(1) e by (subst step) (simp add: f w2_def)
    moreover have "int (j + 1) * m < deadline - (now w - start)"
    proof (cases "j = 0")
      case True
      with d e(3) w1(1) show ?thesis by simp
    next
      case False
      with r(3) w2(1) d show ?thesis by (simp add: distrib_right)
    qed
    ultimately show ?thesis using r(2) w2(2) by (intro exI [of _ r] exI [of _ w'] exI [of _ "j + 1"]) simp
  qed
qed

text \<open>C32: The budgeted retry of a compensation step always ends, provided a sleep lasts at least as long as asked
  for and the clock never goes back: it calls the operation at least once, and the number of further
  attempts times the smaller of the base and the maximal delay stays below the deadline. With the default
  delays (200 and 5000 ms) a budget of 20 seconds allows at most a hundred attempts.\<close>

theorem lease_budget_ends:
  assumes "\<And>w. now (snd (fn w)) \<ge> now w" and "\<And>d w. now (slp d w) \<ge> now w + d"
    and "\<And>w. cnt (snd (fn w)) = cnt w + (1 :: nat)" and "\<And>d w. cnt (slp d w) = cnt w"
    and "m = min (or_default (lo_baseDelayMs opts) 200) (or_default (lo_maxDelayMs opts) 5000)" and "0 < m"
  shows "\<exists>r w' j. retryWithLeaseBudget fn opts slp now nr w = Some (r, w') \<and> cnt w' = cnt w + j + 1 \<and>
    (j = 0 \<or> int j * m < lo_deadlineMs opts)"
  using lease_loop_returns [of now fn slp cnt m "or_default (lo_maxDelayMs opts) 5000" "or_default (lo_baseDelayMs opts) 200"
      "lo_deadlineMs opts" w "now w" "nat (lo_deadlineMs opts)" nr 1] assms
  by (simp add: retryWithLeaseBudget_def)

theorem lease_budget_ends_witness:
  "\<exists>r w' j. retryWithLeaseBudget (\<lambda>(t, n). (Inl () :: unit + unit, (t + 1, n + 1)))
       \<lparr>lo_deadlineMs = 20000, lo_baseDelayMs = None, lo_maxDelayMs = None\<rparr> (\<lambda>d (t, n). (t + d, n)) fst (\<lambda>_. False) (0, 0) = Some (r, w') \<and>
     snd w' = 0 + j + (1 :: nat) \<and> (j = 0 \<or> int j * 200 < 20000)"
  using lease_budget_ends [of fst "\<lambda>(t, n). (Inl () :: unit + unit, (t + 1, n + 1))" "\<lambda>d (t, n). (t + d, n)" snd 200
      "\<lparr>lo_deadlineMs = 20000, lo_baseDelayMs = None, lo_maxDelayMs = None\<rparr>" "\<lambda>_. False" "(0, 0)"]
  by (auto simp: or_default_def split: prod.splits)

section \<open>What a compensation run does\<close>

definition all_up :: "'w comp_env \<Rightarrow> bool" where
  "all_up env \<longleftrightarrow> (\<forall>x. fst (ce_auditUp env x) \<and> fst (ce_outcomeUp env x) \<and> fst (ce_dlqUp env x))"

definition audit_keys :: "'w comp_world \<Rightarrow> (string option \<times> string) list" where
  "audit_keys w = map (\<lambda>r. (wa_fromState r, wa_eventType r)) (cm_audit w)"

text \<open>\<open>w'\<close> differs from \<open>w\<close> in the audit trail, by \<open>ks\<close>, and in the steps' world only.\<close>

definition audits :: "'w comp_world \<Rightarrow> (string option \<times> string) list \<Rightarrow> 'w comp_world \<Rightarrow> bool" where
  "audits w ks w' \<longleftrightarrow> audit_keys w' = audit_keys w @ ks \<and> cm_outcomes w' = cm_outcomes w \<and> cm_dlq w' = cm_dlq w"

lemma audits_refl [simp]: "audits w [] w" "audits w [] (w\<lparr>cm_ext := x\<rparr>)"
  by (simp_all add: audits_def audit_keys_def)

lemma audits_trans: "audits w ks w1 \<Longrightarrow> audits w1 ls w2 \<Longrightarrow> audits w (ks @ ls) w2"
  by (simp add: audits_def)

lemma insert_audit_cases:
  assumes "insertWorkflowTransitionAudit env inp w = (r, w')"
  obtains (refused) e where "r = Inl e" "audits w [] w'"
      "\<not> (all_up env \<and> \<not> blank (ia_orderId inp) \<and> \<not> blank (ia_toState inp) \<and> \<not> blank (ia_eventType inp))"
  | (written) row where "r = Inr row" "audits w [(ia_fromState inp, ia_eventType inp)] w'"
proof (cases "blank (ia_orderId inp) \<or> blank (ia_toState inp) \<or> blank (ia_eventType inp)")
  case True
  with assms refused show ?thesis by (auto simp: insertWorkflowTransitionAudit_def prog_simps split: if_splits)
next
  case False
  obtain up x where up: "ce_auditUp env (cm_ext w) = (up, x)" by (cases "ce_auditUp env (cm_ext w)")
  show ?thesis
  proof (cases up)
    case False
    with up have "\<not> all_up env" unfolding all_up_def by (metis fst_conv)
    with assms \<open>\<not> (blank _ \<or> blank _ \<or> blank _)\<close> up False refused show ?thesis
      by (auto simp: insertWorkflowTransitionAudit_def ask_ext_def prog_simps)
  next
    case True
    with assms \<open>\<not> (blank _ \<or> blank _ \<or> blank _)\<close> up written show ?thesis
      by (auto simp: insertWorkflowTransitionAudit_def ask_ext_def prog_simps audits_def audit_keys_def Let_def split: prod.splits)
  qed
qed

lemma not_blank_suffix: "c \<in> set s \<Longrightarrow> \<not> js_space c \<Longrightarrow> \<not> blank (n @ s)"
  by (auto simp: blank_def js_trim_all_space)

lemma suffixes_not_blank: "\<not> blank (n @ ''_compensated'')" "\<not> blank (n @ ''_compensation_failed'')"
  "\<not> blank ''COMPENSATION''" "\<not> blank ''COMPENSATION_FAILED''"
  using not_blank_suffix [of "CHR ''_''" "''_compensated''" n] not_blank_suffix [of "CHR ''_''" "''_compensation_failed''" n]
    not_blank_suffix [of "CHR ''C''" "''COMPENSATION''" "[]"] not_blank_suffix [of "CHR ''C''" "''COMPENSATION_FAILED''" "[]"]
  by (simp_all add: js_space_def)

lemma swallow_comp_run: "swallow_comp m w = (Inr (), snd (m w))"
  by (auto simp: swallow_comp_def prog_simps split: prod.splits sum.splits)

text \<open>What becomes of one step, told without the loop's variables: the step's compensator runs on the context; if
  it throws, that is the step's error, and if it returns, the error is the one of the audit write, if any.
  Only a compensator that returned hands on a new context. \<open>note_ext\<close> is the world after an audit write.\<close>

definition note_ext :: "'w comp_env \<Rightarrow> string \<Rightarrow> 'w \<Rightarrow> string option \<times> 'w" where
  "note_ext env wid x =
     (if blank wid then (Some ''orderId is required'', x)
      else case ce_auditUp env x of (up, y) \<Rightarrow>
        if up then (None, snd (ce_clock env (snd (ce_newId env y)))) else (Some ''audit store unavailable'', y))"

definition undo_step ::
  "'w comp_env \<Rightarrow> string \<Rightarrow> string \<Rightarrow> 'w CompensationStep list \<Rightarrow> string \<Rightarrow> PurchaseContext \<Rightarrow> 'w \<Rightarrow> string option \<times> PurchaseContext \<times> 'w" where
  "undo_step env wid cause steps name ctx x =
     (case stepMap steps name of
        None \<Rightarrow> (Some ''No compensator registered'', ctx, x)
      | Some st \<Rightarrow> (case cp_compensate st ctx cause x of
            (Inl e, y) \<Rightarrow> (Some e, ctx, snd (note_ext env wid y))
          | (Inr c, y) \<Rightarrow> (case note_ext env wid y of
                (None, z) \<Rightarrow> (None, c, z)
              | (Some e, z) \<Rightarrow> (Some e, c, snd (note_ext env wid z)))))"

primrec undo_all ::
  "'w comp_env \<Rightarrow> string \<Rightarrow> string \<Rightarrow> 'w CompensationStep list \<Rightarrow> string list \<Rightarrow> PurchaseContext \<Rightarrow> 'w \<Rightarrow>
    (string \<times> string option) list \<times> PurchaseContext \<times> 'w" where
  "undo_all env wid cause steps [] ctx x = ([], ctx, x)"
| "undo_all env wid cause steps (n # ns) ctx x =
     (case undo_step env wid cause steps n ctx x of (r, c, y) \<Rightarrow>
      case undo_all env wid cause steps ns c y of (rs, c', z) \<Rightarrow> ((n, r) # rs, c', z))"

definition oks :: "(string \<times> string option) list \<Rightarrow> string list" where
  "oks rs = map fst (filter (\<lambda>(n, r). r = None) rs)"

definition bads :: "(string \<times> string option) list \<Rightarrow> (string \<times> string) list" where
  "bads rs = map (\<lambda>(n, r). (n, the r)) (filter (\<lambda>(n, r). r \<noteq> None) rs)"

lemma undo_all_names: "map fst (fst (undo_all env wid cause steps names ctx x)) = names"
proof (induction names arbitrary: ctx x)
  case (Cons n names)
  obtain r c y where u: "undo_step env wid cause steps n ctx x = (r, c, y)" by (cases "undo_step env wid cause steps n ctx x")
  obtain rs c' z where v: "undo_all env wid cause steps names c y = (rs, c', z)" by (cases "undo_all env wid cause steps names c y")
  from Cons.IH [of c y] u v show ?case by simp
qed simp

lemma oks_bads_append:
  "oks [] = []" "bads [] = []" "oks ((n, r) # rs) = oks [(n, r)] @ oks rs" "bads ((n, r) # rs) = bads [(n, r)] @ bads rs"
  by (simp_all add: oks_def bads_def)

text \<open>The variables after a turn of the loop that ended well or, with an error, badly.\<close>

definition turn :: "bool \<Rightarrow> string \<Rightarrow> string option \<Rightarrow> PurchaseContext \<Rightarrow> comp_vars \<Rightarrow> comp_vars" where
  "turn reg name r ctx v =
     (case r of
        None \<Rightarrow> v\<lparr>cv_currentContext := ctx, cv_compensatedSteps := cv_compensatedSteps v @ [name]\<rparr>
      | Some e \<Rightarrow> v\<lparr>cv_currentContext := ctx, cv_failedSteps := cv_failedSteps v @ [(name, e)],
             cv_escrowStuck := cv_escrowStuck v \<or> reg \<and> name \<in> set ESCROW_CRITICAL_STEPS\<rparr>)"

definition turn_key :: "string \<Rightarrow> string option \<Rightarrow> string option \<times> string" where
  "turn_key name r = (Some name, if r = None then ''COMPENSATION'' else ''COMPENSATION_FAILED'')"

lemma insert_audit_note:
  assumes "insertWorkflowTransitionAudit env inp w = (r, w')" and "\<not> blank (ia_toState inp)" and "\<not> blank (ia_eventType inp)"
  shows "note_ext env (ia_orderId inp) (cm_ext w) = (case r of Inl e \<Rightarrow> Some e | Inr _ \<Rightarrow> None, cm_ext w')"
  using assms
  by (auto simp: insertWorkflowTransitionAudit_def note_ext_def ask_ext_def prog_simps Let_def split: if_splits prod.splits)

lemma failed_audit:
  fixes env wid name w1
  defines "w2 \<equiv> snd (insertWorkflowTransitionAudit env \<lparr>ia_orderId = wid, ia_fromState = Some name,
      ia_toState = name @ ''_compensation_failed'', ia_eventType = ''COMPENSATION_FAILED''\<rparr> w1)"
  shows "cm_ext w2 = snd (note_ext env wid (cm_ext w1))"
    and "\<exists>ks. audits w1 ks w2 \<and> (all_up env \<and> \<not> blank wid \<longrightarrow> ks = [turn_key name (Some e)])"
proof -
  define inp where "inp = \<lparr>ia_orderId = wid, ia_fromState = Some name,
      ia_toState = name @ ''_compensation_failed'', ia_eventType = ''COMPENSATION_FAILED''\<rparr>"
  obtain r where i: "insertWorkflowTransitionAudit env inp w1 = (r, w2)"
    unfolding w2_def inp_def by (metis prod.collapse)
  from insert_audit_note [OF i] suffixes_not_blank show "cm_ext w2 = snd (note_ext env wid (cm_ext w1))"
    by (simp add: inp_def)
  from i show "\<exists>ks. audits w1 ks w2 \<and> (all_up env \<and> \<not> blank wid \<longrightarrow> ks = [turn_key name (Some e)])"
    by (cases rule: insert_audit_cases)
      (use suffixes_not_blank in \<open>auto simp: inp_def turn_key_def\<close>)
qed

lemma compensate_one_run:
  assumes "undo_step env wid cause steps name (cv_currentContext v) (cm_ext w) = (r, ctx, x)"
  shows "\<exists>w' ks. compensate_one env wid cause steps name v w = (Inr (turn (stepMap steps name \<noteq> None) name r ctx v), w') \<and>
     cm_ext w' = x \<and> audits w ks w' \<and>
     (stepMap steps name = None \<longrightarrow> r \<noteq> None \<and> ks = []) \<and>
     (stepMap steps name \<noteq> None \<and> all_up env \<and> \<not> blank wid \<longrightarrow> ks = [turn_key name r])"
proof (cases "stepMap steps name")
  case None
  with assms show ?thesis
    by (intro exI [of _ w] exI [of _ "[]"]) (auto simp: compensate_one_def turn_def prog_simps undo_step_def)
next
  case (Some st)
  obtain r0 y where s: "cp_compensate st (cv_currentContext v) cause (cm_ext w) = (r0, y)"
    by (cases "cp_compensate st (cv_currentContext v) cause (cm_ext w)")
  define w0 where "w0 = w\<lparr>cm_ext := y\<rparr>"
  have run: "run_step (cp_compensate st (cv_currentContext v) cause) w = (r0, w0)"
    using s by (simp add: run_step_def prog_simps w0_def)
  have aw0: "audits w [] w0" and ext0: "cm_ext w0 = y" by (simp_all add: w0_def)
  define fail where "fail w1 = snd (insertWorkflowTransitionAudit env \<lparr>ia_orderId = wid, ia_fromState = Some name,
      ia_toState = name @ ''_compensation_failed'', ia_eventType = ''COMPENSATION_FAILED''\<rparr> w1)" for w1
  note bad = failed_audit [where env = env and wid = wid and name = name, folded fail_def]
  show ?thesis
  proof (cases r0)
    case (Inl e)
    from bad(2) [of w0 e] obtain ks where ks: "audits w0 ks (fail w0)"
      "all_up env \<and> \<not> blank wid \<longrightarrow> ks = [turn_key name (Some e)]" by blast
    have u: "r = Some e" "ctx = cv_currentContext v" "x = snd (note_ext env wid y)"
      using assms Some s Inl by (simp_all add: undo_step_def)
    have "compensate_one env wid cause steps name v w = (Inr (turn True name r ctx v), fail w0)"
      using Some run Inl u by (simp add: compensate_one_def Let_def prog_simps swallow_comp_run fail_def turn_def)
    with ks audits_trans [OF aw0 ks(1)] Some u bad(1) [of w0] ext0 show ?thesis
      by (intro exI [of _ "fail w0"] exI [of _ ks]) simp
  next
    case (Inr c)
    define ok_in where "ok_in = \<lparr>ia_orderId = wid, ia_fromState = Some name,
        ia_toState = name @ ''_compensated'', ia_eventType = ''COMPENSATION''\<rparr>"
    obtain r1 w1 where i: "insertWorkflowTransitionAudit env ok_in w0 = (r1, w1)" by (cases "insertWorkflowTransitionAudit env ok_in w0")
    have noted: "note_ext env wid y = (case r1 of Inl e \<Rightarrow> Some e | Inr _ \<Rightarrow> None, cm_ext w1)"
      using insert_audit_note [OF i] suffixes_not_blank ext0 by (simp add: ok_in_def)
    from i show ?thesis
    proof (cases rule: insert_audit_cases)
      case (written row)
      have u: "r = None" "ctx = c" "x = cm_ext w1" using assms Some s Inr noted written by (simp_all add: undo_step_def)
      have "compensate_one env wid cause steps name v w = (Inr (turn True name r ctx v), w1)"
        using Some run Inr i written u by (simp add: compensate_one_def Let_def prog_simps ok_in_def turn_def)
      with written audits_trans [OF aw0 written(2)] Some u show ?thesis
        by (intro exI [of _ w1] exI [of _ "[turn_key name r]"]) (simp add: ok_in_def turn_key_def)
    next
      case (refused e)
      from bad(2) [of w1 e] obtain ks where ks: "audits w1 ks (fail w1)"
        "all_up env \<and> \<not> blank wid \<longrightarrow> ks = [turn_key name (Some e)]" by blast
      have u: "r = Some e" "ctx = c" "x = snd (note_ext env wid (cm_ext w1))"
        using assms Some s Inr noted refused by (simp_all add: undo_step_def)
      have "compensate_one env wid cause steps name v w = (Inr (turn True name r ctx v), fail w1)"
        using Some run Inr i refused u by (simp add: compensate_one_def Let_def prog_simps swallow_comp_run ok_in_def fail_def turn_def)
      with ks audits_trans [OF audits_trans [OF aw0 refused(2)] ks(1)] Some u bad(1) [of w1] show ?thesis
        by (intro exI [of _ "fail w1"] exI [of _ ks]) simp
    qed
  qed
qed

definition registered :: "'w CompensationStep list \<Rightarrow> string \<Rightarrow> bool" where
  "registered steps n \<longleftrightarrow> n \<in> cp_name ` set steps"

lemma stepMap_registered: "stepMap steps n \<noteq> None \<longleftrightarrow> registered steps n"
  by (auto simp: stepMap_def registered_def map_of_eq_None_iff image_image)

lemma stepMap_unregistered: "stepMap steps n = None \<longleftrightarrow> \<not> registered steps n"
  using stepMap_registered by blast

text \<open>The audit rows of a list of results, and whether they leave the escrow stuck.\<close>

definition audit_rows :: "'w CompensationStep list \<Rightarrow> (string \<times> string option) list \<Rightarrow> (string option \<times> string) list" where
  "audit_rows steps rs = map (\<lambda>(n, r). turn_key n r) (filter (\<lambda>(n, r). registered steps n) rs)"

definition stuck_in :: "'w CompensationStep list \<Rightarrow> (string \<times> string) list \<Rightarrow> bool" where
  "stuck_in steps fs \<longleftrightarrow> (\<exists>n \<in> fst ` set fs. registered steps n \<and> n \<in> {''fundEscrow'', ''settleEscrow''})"

lemma audit_rows_append: "audit_rows steps [] = []" "audit_rows steps (p # rs) = audit_rows steps [p] @ audit_rows steps rs"
  by (simp_all add: audit_rows_def)

lemma stuck_in_append: "\<not> stuck_in steps []" "stuck_in steps (fs @ gs) \<longleftrightarrow> stuck_in steps fs \<or> stuck_in steps gs"
  by (auto simp: stuck_in_def)

lemma turn_vars:
  "cv_compensatedSteps (turn (registered steps n) n r c v) = cv_compensatedSteps v @ oks [(n, r)]"
  "cv_failedSteps (turn (registered steps n) n r c v) = cv_failedSteps v @ bads [(n, r)]"
  "cv_escrowStuck (turn (registered steps n) n r c v) \<longleftrightarrow> cv_escrowStuck v \<or> stuck_in steps (bads [(n, r)])"
  "cv_currentContext (turn (registered steps n) n r c v) = c"
  by (auto simp: turn_def oks_def bads_def stuck_in_def ESCROW_CRITICAL_STEPS_def split: option.splits)

lemma compensate_loop:
  assumes "undo_all env wid cause steps names (cv_currentContext v) (cm_ext w) = (rs, ctx, x)"
  shows "\<exists>v' w' ks. pfor names v (compensate_one env wid cause steps) w = (Inr v', w') \<and>
     cv_compensatedSteps v' = cv_compensatedSteps v @ oks rs \<and> cv_failedSteps v' = cv_failedSteps v @ bads rs \<and>
     (cv_escrowStuck v' \<longleftrightarrow> cv_escrowStuck v \<or> stuck_in steps (bads rs)) \<and> cv_currentContext v' = ctx \<and> cm_ext w' = x \<and>
     audits w ks w' \<and> (all_up env \<and> \<not> blank wid \<longrightarrow> ks = audit_rows steps rs)"
  using assms
proof (induction names arbitrary: v w rs)
  case Nil
  then show ?case
    by (intro exI [of _ v] exI [of _ w] exI [of _ "[]"]) (simp add: prog_simps oks_bads_append audit_rows_append stuck_in_append)
next
  case (Cons n names)
  obtain r c y where one: "undo_step env wid cause steps n (cv_currentContext v) (cm_ext w) = (r, c, y)"
    by (cases "undo_step env wid cause steps n (cv_currentContext v) (cm_ext w)")
  with Cons.prems obtain rs' where rest: "undo_all env wid cause steps names c y = (rs', ctx, x)" "rs = (n, r) # rs'"
    by (auto split: prod.splits)
  define v1 where "v1 = turn (registered steps n) n r c v"
  from compensate_one_run [OF one] obtain w1 ks where run: "compensate_one env wid cause steps n v w = (Inr v1, w1)" "cm_ext w1 = y"
    "audits w ks w1" "\<not> registered steps n \<longrightarrow> ks = []" "registered steps n \<and> all_up env \<and> \<not> blank wid \<longrightarrow> ks = [turn_key n r]"
    unfolding stepMap_unregistered not_not v1_def by blast
  have "undo_all env wid cause steps names (cv_currentContext v1) (cm_ext w1) = (rs', ctx, x)"
    using rest(1) run(2) by (simp add: v1_def turn_vars)
  from Cons.IH [OF this] obtain v' w' ls where ih:
    "pfor names v1 (compensate_one env wid cause steps) w1 = (Inr v', w')"
    "cv_compensatedSteps v' = cv_compensatedSteps v1 @ oks rs'" "cv_failedSteps v' = cv_failedSteps v1 @ bads rs'"
    "cv_escrowStuck v' \<longleftrightarrow> cv_escrowStuck v1 \<or> stuck_in steps (bads rs')" "cv_currentContext v' = ctx" "cm_ext w' = x"
    "audits w1 ls w'" "all_up env \<and> \<not> blank wid \<longrightarrow> ls = audit_rows steps rs'"
    by (elim exE conjE)
  have parts: "oks rs = oks [(n, r)] @ oks rs'" "bads rs = bads [(n, r)] @ bads rs'"
    "audit_rows steps rs = audit_rows steps [(n, r)] @ audit_rows steps rs'"
    unfolding rest(2) by (rule oks_bads_append audit_rows_append)+
  show ?case
  proof (intro exI [of _ v'] exI [of _ w'] exI [of _ "ks @ ls"] conjI)
    show "pfor (n # names) v (compensate_one env wid cause steps) w = (Inr v', w')"
      using run(1) ih(1) by (simp add: pbind_apply)
    show "audits w (ks @ ls) w'" using run(3) ih(7) by (rule audits_trans)
    show "all_up env \<and> \<not> blank wid \<longrightarrow> ks @ ls = audit_rows steps rs"
      using run(4,5) ih(8) unfolding parts by (auto simp: audit_rows_def)
    show "cv_escrowStuck v' \<longleftrightarrow> cv_escrowStuck v \<or> stuck_in steps (bads rs)"
      unfolding ih(4) parts(2) stuck_in_append v1_def turn_vars by blast
  qed (simp_all add: ih(2,3,5,6) parts v1_def turn_vars)
qed

lemma upsert_run:
  assumes "upsertCompensationOutcome env inp w = (r, w')"
  shows "audit_keys w' = audit_keys w \<and> cm_dlq w' = cm_dlq w \<and>
    (all_up env \<and> \<not> blank (uo_workflowId inp) \<longrightarrow> cm_ext w' = snd (ce_clock env (snd (ce_outcomeUp env (cm_ext w)))) \<and>
      (\<exists>t. jm_get (cm_outcomes w') (uo_workflowId inp) = Some (upsert_row inp t (jm_get (cm_outcomes w) (uo_workflowId inp)))))"
proof (cases "blank (uo_workflowId inp)")
  case True
  with assms show ?thesis by (simp add: upsertCompensationOutcome_def prog_simps)
next
  case False
  obtain up x where up: "ce_outcomeUp env (cm_ext w) = (up, x)" by (cases "ce_outcomeUp env (cm_ext w)")
  then have "all_up env \<Longrightarrow> up" unfolding all_up_def by (metis fst_conv)
  with assms False up show ?thesis
    by (cases up; cases "ce_clock env x")
      (auto simp: upsertCompensationOutcome_def ask_ext_def prog_simps audit_keys_def jm_get_set intro!: exI [of _ "fst (ce_clock env x)"])
qed

lemma push_dlq_run:
  assumes "push_dlq env wid cause v w = (r, w')"
  shows "audit_keys w' = audit_keys w \<and> cm_outcomes w' = cm_outcomes w \<and>
    (all_up env \<longrightarrow> cm_ext w' = snd (ce_dlqUp env (snd (ce_clock env (cm_ext w)))) \<and>
      (\<exists>d. cm_dlq w' = cm_dlq w @ [d] \<and> dl_sagaId d = wid \<and> dl_context d = cv_currentContext v))"
proof -
  obtain t x where t: "ce_clock env (cm_ext w) = (t, x)" by (cases "ce_clock env (cm_ext w)")
  obtain up y where up: "ce_dlqUp env x = (up, y)" by (cases "ce_dlqUp env x")
  then have "all_up env \<Longrightarrow> up" unfolding all_up_def by (metis fst_conv)
  with assms t up show ?thesis
    by (cases up) (auto simp: push_dlq_def ask_ext_def prog_simps audit_keys_def moveToDeadLetter_def dlq_record_def Let_def)
qed

text \<open>The steps' world after the outcome has been written and, with stuck escrow, the dead letter.\<close>

definition recorded_ext :: "'w comp_env \<Rightarrow> bool \<Rightarrow> 'w \<Rightarrow> 'w" where
  "recorded_ext env stuck x =
     (let y = snd (ce_clock env (snd (ce_outcomeUp env x))) in if stuck then snd (ce_dlqUp env (snd (ce_clock env y))) else y)"

text \<open>With the stores up: the audit rows \<open>ks\<close>, the outcome row and the dead letters of a run with answer \<open>out\<close>,
  from \<open>w\<close> to \<open>w'\<close>.\<close>

definition run_recorded ::
  "string \<Rightarrow> CompensationResult \<Rightarrow> (string option \<times> string) list \<Rightarrow> 'w comp_world \<Rightarrow> 'w comp_world \<Rightarrow> bool" where
  "run_recorded wid out ks w w' \<longleftrightarrow> audit_keys w' = audit_keys w @ ks \<and>
     (\<exists>row. getCompensationOutcome wid w' = Some row \<and> co_compensatedSteps row = cr_compensatedSteps out \<and>
        co_failedSteps row = cr_failedSteps out \<and> (co_status row = CEscrowStuck \<longleftrightarrow> cr_escrowStuck out) \<and>
        co_attempts row = (case getCompensationOutcome wid w of None \<Rightarrow> 0 | Some r \<Rightarrow> co_attempts r) + 1) \<and>
     (\<exists>ds. cm_dlq w' = cm_dlq w @ ds \<and> map dl_sagaId ds = (if cr_escrowStuck out then [wid] else []))"

lemma run_parts:
  assumes "runCompensation env wid completed ctx cause steps w = (res, w')"
    and "undo_all env wid cause steps (rev completed) ctx (cm_ext w) = (rs, ctx', x)"
  obtains out where "res = Inr out" "cr_compensatedSteps out = oks rs" "cr_failedSteps out = bads rs" "cr_finalContext out = ctx'"
    "cr_status out = (if bads rs = [] then CSuccess else CPartialFailure)" "cr_escrowStuck out \<longleftrightarrow> stuck_in steps (bads rs)"
    "all_up env \<and> \<not> blank wid \<longrightarrow>
       cm_ext w' = recorded_ext env (cr_escrowStuck out) x \<and> run_recorded wid out (audit_rows steps rs) w w'"
proof -
  define v0 where "v0 = \<lparr>cv_compensatedSteps = [], cv_failedSteps = [], cv_currentContext = ctx, cv_escrowStuck = False\<rparr>"
  have "undo_all env wid cause steps (rev completed) (cv_currentContext v0) (cm_ext w) = (rs, ctx', x)"
    using assms(2) by (simp add: v0_def)
  from compensate_loop [OF this] obtain v w1 ks where l:
    "pfor (rev completed) v0 (compensate_one env wid cause steps) w = (Inr v, w1)"
    "cv_compensatedSteps v = oks rs" "cv_failedSteps v = bads rs" "cv_escrowStuck v \<longleftrightarrow> stuck_in steps (bads rs)"
    "cv_currentContext v = ctx'" "cm_ext w1 = x" "audits w ks w1" "all_up env \<and> \<not> blank wid \<longrightarrow> ks = audit_rows steps rs"
    by (auto simp: v0_def)
  define status where "status = (if cv_failedSteps v = [] then CSuccess else CPartialFailure)"
  define inp where "inp = \<lparr>uo_workflowId = wid, uo_status = (if cv_escrowStuck v then CEscrowStuck else status),
      uo_compensatedSteps = cv_compensatedSteps v, uo_failedSteps = cv_failedSteps v, uo_cause = cause\<rparr>"
  obtain ru w2 where u: "upsertCompensationOutcome env inp w1 = (ru, w2)" by (cases "upsertCompensationOutcome env inp w1")
  obtain rd w3 where d: "push_dlq env wid cause v w2 = (rd, w3)" by (cases "push_dlq env wid cause v w2")
  define out where "out = \<lparr>cr_status = status, cr_compensatedSteps = cv_compensatedSteps v, cr_failedSteps = cv_failedSteps v,
      cr_finalContext = cv_currentContext v, cr_escrowStuck = cv_escrowStuck v\<rparr>"
  have run: "res = Inr out" "w' = (if cv_escrowStuck v then w3 else w2)"
    using assms(1) l(1) u d
    by (auto simp: runCompensation_def v0_def [symmetric] Let_def inp_def status_def out_def prog_simps swallow_comp_run split: if_splits)
  note up = upsert_run [OF u] and dl = push_dlq_run [OF d]
  have "cm_ext w' = recorded_ext env (cr_escrowStuck out) x \<and> run_recorded wid out (audit_rows steps rs) w w'"
    if good: "all_up env" "\<not> blank wid"
  proof
    show "cm_ext w' = recorded_ext env (cr_escrowStuck out) x"
      using up dl good run(2) l(6) by (simp add: recorded_ext_def out_def inp_def Let_def)
    from up good obtain t where "jm_get (cm_outcomes w2) wid = Some (upsert_row inp t (jm_get (cm_outcomes w1) wid))"
      by (auto simp: inp_def)
    moreover have "cm_outcomes w1 = cm_outcomes w" "cm_outcomes w' = cm_outcomes w2" using l(7) dl run(2) by (auto simp: audits_def)
    moreover have "audit_keys w' = audit_keys w @ audit_rows steps rs" using l(7,8) good up dl run(2) by (simp add: audits_def)
    moreover have "\<exists>ds. cm_dlq w' = cm_dlq w @ ds \<and> map dl_sagaId ds = (if cr_escrowStuck out then [wid] else [])"
      using l(7) up dl good run(2) by (auto simp: audits_def out_def)
    ultimately show "run_recorded wid out (audit_rows steps rs) w w'"
      by (simp add: run_recorded_def getCompensationOutcome_def upsert_row_def inp_def out_def status_def)
  qed
  with run(1) l(2-5) show thesis by (intro that [of out]) (simp_all add: out_def status_def)
qed


definition demo_comp_env :: "'w comp_env" where
  "demo_comp_env = \<lparr>ce_clock = (\<lambda>w. (0, w)), ce_newId = (\<lambda>w. (''id'', w)), ce_auditUp = (\<lambda>w. (True, w)),
     ce_outcomeUp = (\<lambda>w. (True, w)), ce_dlqUp = (\<lambda>w. (True, w))\<rparr>"

definition demo_context :: PurchaseContext where
  "demo_context = \<lparr>pc_workflowId = ''o1'', pc_delegationId = ''d'', pc_userId = ''u'', pc_productId = None, pc_merchantId = None,
     pc_totalStroops = None, pc_escrowContractId = Some ''C'', pc_rejectionReason = None, pc_createdAt = 0, pc_updatedAt = 0\<rparr>"

definition demo_comp_world :: "'w \<Rightarrow> 'w comp_world" where
  "demo_comp_world x = \<lparr>cm_audit = [], cm_outcomes = [], cm_dlq = [], cm_ext = x\<rparr>"

text \<open>A reservation that is undone, counting its calls, and an escrow step that always throws.\<close>

definition demo_comp_steps :: "nat CompensationStep list" where
  "demo_comp_steps =
     [\<lparr>cp_name = ''reserve'', cp_compensate = (\<lambda>ctx cause n. (Inr (ctx\<lparr>pc_productId := None\<rparr>), n + 1))\<rparr>,
      \<lparr>cp_name = ''fundEscrow'', cp_compensate = (\<lambda>ctx cause n. (Inl ''offline'', n))\<rparr>]"


section \<open>Compensating a settled purchase\<close>

text \<open>The orchestrator's own stores leave the payments service alone.\<close>

definition own_stores :: "('w \<Rightarrow> 'k) \<Rightarrow> 'w comp_env \<Rightarrow> bool" where
  "own_stores obs env \<longleftrightarrow> (\<forall>x. obs (snd (ce_clock env x)) = obs x \<and> obs (snd (ce_newId env x)) = obs x \<and>
     obs (snd (ce_auditUp env x)) = obs x)"

lemma insert_audit_obs:
  assumes "own_stores obs env" and "insertWorkflowTransitionAudit env inp w = (r, w')"
  shows "obs (cm_ext w') = obs (cm_ext w)"
proof -
  from assms(1) have o: "obs (snd (ce_clock env x)) = obs x" "obs (snd (ce_newId env x)) = obs x" "obs (snd (ce_auditUp env x)) = obs x" for x
    by (simp_all add: own_stores_def)
  show ?thesis
    using assms(2) o(3) [of "cm_ext w"] o(2) [of "snd (ce_auditUp env (cm_ext w))"]
      o(1) [of "snd (ce_newId env (snd (ce_auditUp env (cm_ext w))))"]
    by (auto simp: insertWorkflowTransitionAudit_def ask_ext_def prog_simps Let_def split: if_splits prod.splits)
qed

lemma compensate_one_step:
  assumes "own_stores obs env" and "stepMap steps name = Some st"
    and "cp_compensate st (cv_currentContext v) cause (cm_ext w) = (r0, x)"
  obtains v' w' where "compensate_one env wid cause steps name v w = (Inr v', w')" "obs (cm_ext w') = obs x"
    "cv_escrowStuck v \<Longrightarrow> cv_escrowStuck v'" "\<And>c. r0 = Inr c \<Longrightarrow> cv_currentContext v' = c"
    "\<And>e. r0 = Inl e \<Longrightarrow> name \<in> set ESCROW_CRITICAL_STEPS \<Longrightarrow> cv_escrowStuck v'"
proof -
  define w0 where "w0 = w\<lparr>cm_ext := x\<rparr>"
  have run: "run_step (cp_compensate st (cv_currentContext v) cause) w = (r0, w0)"
    using assms(3) by (simp add: run_step_def prog_simps w0_def)
  define bad_in where "bad_in = \<lparr>ia_orderId = wid, ia_fromState = Some name, ia_toState = name @ ''_compensation_failed'',
      ia_eventType = ''COMPENSATION_FAILED''\<rparr>"
  define ok_in where "ok_in = \<lparr>ia_orderId = wid, ia_fromState = Some name, ia_toState = name @ ''_compensated'', ia_eventType = ''COMPENSATION''\<rparr>"
  have bad: "obs (cm_ext (snd (insertWorkflowTransitionAudit env bad_in w1))) = obs (cm_ext w1)" for w1
    by (rule insert_audit_obs [OF assms(1) prod.collapse [symmetric]])
  show thesis
  proof (cases r0)
    case (Inl e)
    show thesis
      by (rule that [of "turn True name (Some e) (cv_currentContext v) v" "snd (insertWorkflowTransitionAudit env bad_in w0)"])
        (use assms(2) run Inl bad [of w0] in
          \<open>simp_all add: compensate_one_def Let_def prog_simps swallow_comp_run bad_in_def turn_def w0_def\<close>)
  next
    case (Inr c)
    obtain r1 w1 where i: "insertWorkflowTransitionAudit env ok_in w0 = (r1, w1)" by (cases "insertWorkflowTransitionAudit env ok_in w0")
    have w1: "obs (cm_ext w1) = obs x" using insert_audit_obs [OF assms(1) i] by (simp add: w0_def)
    show thesis
    proof (cases r1)
      case (Inl e)
      show thesis
        by (rule that [of "turn True name (Some e) c v" "snd (insertWorkflowTransitionAudit env bad_in w1)"])
          (use assms(2) run Inr Inl i bad [of w1] w1 in
            \<open>simp_all add: compensate_one_def Let_def prog_simps swallow_comp_run bad_in_def ok_in_def turn_def\<close>)
    next
      case (Inr row)
      show thesis
        by (rule that [of "turn True name None c v" w1])
          (use assms(2) run \<open>r0 = Inr c\<close> Inr i w1 in \<open>simp_all add: compensate_one_def Let_def prog_simps ok_in_def turn_def\<close>)
    qed
  qed
qed

lemma postJson_ok:
  assumes "postJson link h w = (Inr out, w')" and "\<And>v. h v = (case m v of (res, v') \<Rightarrow> (outcome_reply d res, v'))"
  shows "\<exists>x. m (w\<lparr>sw_ext := x\<rparr>) = (Inr out, w') \<and> so_status out \<noteq> SettlementOutcomeStatus.SFailed"
proof -
  obtain l x where l: "link (sw_ext w) = (l, x)" by (cases "link (sw_ext w)")
  obtain res v where m: "m (w\<lparr>sw_ext := x\<rparr>) = (res, v)" by (cases "m (w\<lparr>sw_ext := x\<rparr>)")
  from assms(1) l have "l = LinkUp" by (auto simp: postJson_def Let_def split: link_state.splits)
  with assms l m have "res = Inr out \<and> v = w' \<and> so_status out \<noteq> SettlementOutcomeStatus.SFailed"
    by (auto simp: postJson_def outcome_reply_def Let_def split: sum.splits if_splits)
  with m show ?thesis by blast
qed

lemma postJson_world:
  assumes "postJson link h w = (r, w')" and "\<And>v. h v = (case m v of (res, v') \<Rightarrow> (outcome_reply d res, v'))"
  shows "\<exists>x. w' = w\<lparr>sw_ext := x\<rparr> \<or> w' = snd (m (w\<lparr>sw_ext := x\<rparr>))"
proof -
  obtain l x where l: "link (sw_ext w) = (l, x)" by (cases "link (sw_ext w)")
  with assms have "w' = w\<lparr>sw_ext := x\<rparr> \<or> w' = snd (m (w\<lparr>sw_ext := x\<rparr>))"
    by (auto simp: postJson_def Let_def split: link_state.splits prod.splits if_splits option.splits)
  then show ?thesis by blast
qed

lemma refund_status:
  assumes "refundOrder env orderId code w = (Inr out, w')" and "table_ok (sw_table w)"
    and "findPaymentRecordByOrderId (js_trim orderId) (sw_table w) = Some r" and "truthy (pr_escrowId r)"
  shows "so_status out \<in> {SRefunded, SettlementOutcomeStatus.SFailed}"
  using assms(1) [unfolded refundOrder_by_order]
proof (cases rule: by_order_cases)
  case (no_escrow out')
  with assms(3,4) show ?thesis by blast
next
  case (answered r' out')
  then show ?thesis by (auto simp: refund_answer_def split: if_splits)
next
  case (attempted r' src w1)
  have row: "r' \<in> set (sw_table w1)" "table_ok (sw_table w1)"
    using found_row [OF assms(2) attempted(1)] assms(2) posts_table [OF attempted(4)] by simp_all
  from attempted(5) refund_calls row(2,1) no_update_distinct(3) show ?thesis
    by (cases rule: attempt_cases) auto
qed simp

text \<open>The payments service has an escrow on record for the order.\<close>

definition has_escrow :: "string \<Rightarrow> payment_table \<Rightarrow> bool" where
  "has_escrow oid rows \<longleftrightarrow> table_ok rows \<and> (\<exists>r. findPaymentRecordByOrderId oid rows = Some r \<and> truthy (pr_escrowId r))"

lemma refund_step:
  assumes "compensate_settleEscrow (default_dependencies link env) ctx w = (Inr c, w')"
    and "has_escrow (js_trim (pc_workflowId ctx)) (sw_table w)"
  shows "c = ctx \<and> (\<exists>h. paid_out (js_trim (pc_workflowId ctx)) PRefunded h (sw_table w'))"
proof -
  from assms(1) obtain out where p: "postJson link (refund_route env (pc_workflowId ctx) RSystemError) w = (Inr out, w')" "c = ctx"
    by (auto simp: compensate_settleEscrow_def default_dependencies_def prog_simps split: prod.splits sum.splits if_splits)
  from postJson_ok [OF p(1), where m = "refundOrder env (pc_workflowId ctx) RSystemError" and d = "''Refund failed''"] obtain x where
    r: "refundOrder env (pc_workflowId ctx) RSystemError (w\<lparr>sw_ext := x\<rparr>) = (Inr out, w')" "so_status out \<noteq> SettlementOutcomeStatus.SFailed"
    by (auto simp: refund_route_def)
  from assms(2) have "so_status out \<in> {SRefunded, SettlementOutcomeStatus.SFailed}"
    using refund_status [OF r(1)] by (auto simp: has_escrow_def)
  with r(2) refund_settles [OF r(1)] assms(2) p(2) show ?thesis by (auto simp: has_escrow_def)
qed

lemma release_step_fails:
  assumes "compensate_fundEscrow (default_dependencies link env) ctx w = (r0, w')"
    and "paid_out (js_trim (pc_workflowId ctx)) PRefunded h (sw_table w)" and "truthy (pc_escrowContractId ctx)"
  shows "\<exists>e. r0 = Inl e"
proof (cases "fst (postJson link (release_route env (pc_workflowId ctx)) w)")
  case (Inl e)
  with assms(1,3) show ?thesis
    by (cases "postJson link (release_route env (pc_workflowId ctx)) w")
      (auto simp: compensate_fundEscrow_def default_dependencies_def prog_simps)
next
  case (Inr out)
  then obtain w1 where "postJson link (release_route env (pc_workflowId ctx)) w = (Inr out, w1)" by (metis prod.collapse)
  from postJson_ok [OF this, where m = "settleOrder env (pc_workflowId ctx)" and d = "''Release failed''"] obtain x where
    r: "settleOrder env (pc_workflowId ctx) (w\<lparr>sw_ext := x\<rparr>) = (Inr out, w1)" "so_status out \<noteq> SettlementOutcomeStatus.SFailed"
    by (auto simp: release_route_def)
  from settle_paid_out [OF _ r(1)] assms(2) r(2) show ?thesis by auto
qed

lemma default_steps:
  "stepMap (DEFAULT_PURCHASE_COMPENSATION_STEPS link env) ''settleEscrow'' = Some \<lparr>cp_name = ''settleEscrow'',
     cp_compensate = (\<lambda>ctx cause. compensate_settleEscrow (default_dependencies link env) ctx)\<rparr>"
  "stepMap (DEFAULT_PURCHASE_COMPENSATION_STEPS link env) ''confirmPurchase'' = Some \<lparr>cp_name = ''confirmPurchase'',
     cp_compensate = (\<lambda>ctx cause. compensate_confirmPurchase (default_dependencies link env) ctx)\<rparr>"
  "stepMap (DEFAULT_PURCHASE_COMPENSATION_STEPS link env) ''fundEscrow'' = Some \<lparr>cp_name = ''fundEscrow'',
     cp_compensate = (\<lambda>ctx cause. compensate_fundEscrow (default_dependencies link env) ctx)\<rparr>"
  by (simp_all add: stepMap_def DEFAULT_PURCHASE_COMPENSATION_STEPS_def createDefaultPurchaseCompensationSteps_def)

lemma confirm_step: "compensate_confirmPurchase (default_dependencies link env) ctx w = (Inr ctx, w)"
  by (simp add: compensate_confirmPurchase_def default_dependencies_def defaultMerchantCancellationClient_def prog_simps
      js_lower_def js_lower_char_def)

definition refunded_or_stuck :: "PurchaseContext \<Rightarrow> comp_vars \<Rightarrow> 'x service_world comp_world \<Rightarrow> bool" where
  "refunded_or_stuck ctx v w \<longleftrightarrow> cv_escrowStuck v \<or>
     cv_currentContext v = ctx \<and> (\<exists>h. paid_out (js_trim (pc_workflowId ctx)) PRefunded h (sw_table (cm_ext w)))"

lemma compensation_outcome_stuck:
  assumes "runCompensation env wid completed ctx cause steps w = (Inr out, w')" and "cr_escrowStuck out"
  shows "cr_status out = CPartialFailure"
proof -
  obtain rs ctx' x where "undo_all env wid cause steps (rev completed) ctx (cm_ext w) = (rs, ctx', x)"
    by (cases "undo_all env wid cause steps (rev completed) ctx (cm_ext w)")
  from assms(1) this assms(2) show ?thesis by (elim run_parts) (auto simp: stuck_in_def split: if_splits)
qed

lemma settle_turn:
  assumes "own_stores sw_table cenv" and "has_escrow (js_trim (pc_workflowId ctx)) (sw_table (cm_ext w))" and "cv_currentContext v = ctx"
  shows "\<exists>v' w'. compensate_one cenv wid cause (DEFAULT_PURCHASE_COMPENSATION_STEPS link env) ''settleEscrow'' v w = (Inr v', w') \<and>
    refunded_or_stuck ctx v' w'"
proof -
  obtain r x where c: "compensate_settleEscrow (default_dependencies link env) ctx (cm_ext w) = (r, x)"
    by (cases "compensate_settleEscrow (default_dependencies link env) ctx (cm_ext w)")
  then have c': "cp_compensate \<lparr>cp_name = ''settleEscrow'', cp_compensate = (\<lambda>ctx cause. compensate_settleEscrow (default_dependencies link env) ctx)\<rparr>
      (cv_currentContext v) cause (cm_ext w) = (r, x)" by (simp add: assms(3))
  show ?thesis
  proof (rule compensate_one_step [OF assms(1) default_steps(1) c', of wid], goal_cases)
    case (1 v' w')
    have "refunded_or_stuck ctx v' w'"
    proof (cases r)
      case (Inl e)
      with 1(5) show ?thesis by (simp add: refunded_or_stuck_def ESCROW_CRITICAL_STEPS_def)
    next
      case (Inr d)
      with 1(2,4) refund_step [of link env ctx "cm_ext w" d x] c assms(2) show ?thesis by (simp add: refunded_or_stuck_def)
    qed
    with 1(1) show ?case by blast
  qed
qed

lemma confirm_turn:
  assumes "own_stores sw_table cenv" and "refunded_or_stuck ctx v w"
  shows "\<exists>v' w'. compensate_one cenv wid cause (DEFAULT_PURCHASE_COMPENSATION_STEPS link env) ''confirmPurchase'' v w = (Inr v', w') \<and>
    refunded_or_stuck ctx v' w'"
proof -
  have c: "cp_compensate \<lparr>cp_name = ''confirmPurchase'', cp_compensate = (\<lambda>ctx cause. compensate_confirmPurchase (default_dependencies link env) ctx)\<rparr>
      (cv_currentContext v) cause (cm_ext w) = (Inr (cv_currentContext v), cm_ext w)" by (simp add: confirm_step)
  show ?thesis
  proof (rule compensate_one_step [OF assms(1) default_steps(2) c, of wid], goal_cases)
    case (1 v' w')
    from assms(2) 1(2,3) 1(4) [OF refl] have "refunded_or_stuck ctx v' w'" unfolding refunded_or_stuck_def by auto
    with 1(1) show ?case by blast
  qed
qed

lemma fund_turn:
  assumes "own_stores sw_table cenv" and "refunded_or_stuck ctx v w" and "truthy (pc_escrowContractId ctx)"
  shows "\<exists>v' w'. compensate_one cenv wid cause (DEFAULT_PURCHASE_COMPENSATION_STEPS link env) ''fundEscrow'' v w = (Inr v', w') \<and>
    cv_escrowStuck v'"
proof -
  obtain r x where c: "compensate_fundEscrow (default_dependencies link env) (cv_currentContext v) (cm_ext w) = (r, x)"
    by (cases "compensate_fundEscrow (default_dependencies link env) (cv_currentContext v) (cm_ext w)")
  then have c': "cp_compensate \<lparr>cp_name = ''fundEscrow'', cp_compensate = (\<lambda>ctx cause. compensate_fundEscrow (default_dependencies link env) ctx)\<rparr>
      (cv_currentContext v) cause (cm_ext w) = (r, x)" by simp
  show ?thesis
  proof (rule compensate_one_step [OF assms(1) default_steps(3) c', of wid], goal_cases)
    case (1 v' w')
    have "cv_escrowStuck v'"
      using assms(2,3) 1(3,5) release_step_fails [of link env ctx "cm_ext w" r x] c
      by (auto simp: refunded_or_stuck_def ESCROW_CRITICAL_STEPS_def)
    with 1(1) show ?case by blast
  qed
qed

text \<open>C38: Compensating a purchase whose three steps all completed always ends with stuck escrow and a partial failure, however the
  wallet, the payments database, the network and the stores fail: the settlement step is undone first, by a refund, and
  then the funding step by a release, which the settlement module refuses for a refunded order. This is for an
  order whose escrow is on record in the payments service and in the purchase's context, with no other call on
  the order meanwhile; the orchestrator's clock, ids and audit store do not touch the payments database.\<close>

theorem full_compensation_stuck:
  assumes "has_escrow (js_trim (pc_workflowId ctx)) (sw_table (cm_ext w))" and "truthy (pc_escrowContractId ctx)"
    and "own_stores sw_table cenv"
    and "runCompensation cenv wid [''fundEscrow'', ''confirmPurchase'', ''settleEscrow''] ctx cause
           (DEFAULT_PURCHASE_COMPENSATION_STEPS link env) w = (res, w')"
  shows "\<exists>out. res = Inr out \<and> cr_escrowStuck out \<and> cr_status out = CPartialFailure"
proof -
  let ?steps = "DEFAULT_PURCHASE_COMPENSATION_STEPS link env"
  define v0 where "v0 = \<lparr>cv_compensatedSteps = [], cv_failedSteps = [], cv_currentContext = ctx, cv_escrowStuck = False\<rparr>"
  have "cv_currentContext v0 = ctx" by (simp add: v0_def)
  from settle_turn [OF assms(3,1) this, of wid cause link env] obtain v1 w1 where
    s1: "compensate_one cenv wid cause ?steps ''settleEscrow'' v0 w = (Inr v1, w1)" "refunded_or_stuck ctx v1 w1" by blast
  from confirm_turn [OF assms(3) s1(2), of wid cause link env] obtain v2 w2 where
    s2: "compensate_one cenv wid cause ?steps ''confirmPurchase'' v1 w1 = (Inr v2, w2)" "refunded_or_stuck ctx v2 w2" by blast
  from fund_turn [OF assms(3) s2(2) assms(2), of wid cause link env] obtain v3 w3 where
    s3: "compensate_one cenv wid cause ?steps ''fundEscrow'' v2 w2 = (Inr v3, w3)" "cv_escrowStuck v3" by blast
  have loop: "pfor [''settleEscrow'', ''confirmPurchase'', ''fundEscrow''] v0 (compensate_one cenv wid cause ?steps) w = (Inr v3, w3)"
    using s1(1) s2(1) s3(1) by (simp add: pbind_apply pret_apply)
  have "rev [''fundEscrow'', ''confirmPurchase'', ''settleEscrow''] = [''settleEscrow'', ''confirmPurchase'', ''fundEscrow'']" by simp
  with assms(4) loop have "\<exists>out. res = Inr out \<and> cr_escrowStuck out = cv_escrowStuck v3"
    unfolding runCompensation_def v0_def [symmetric]
    by (auto simp: pbind_apply swallow_comp_run pret_apply Let_def simp del: pfor.simps split: if_splits)
  with s3(2) obtain out where out: "res = Inr out" "cr_escrowStuck out" by blast
  from compensation_outcome_stuck [OF assms(4) [unfolded out(1)] out(2)] out show ?thesis by blast
qed

theorem full_compensation_stuck_witness:
  "\<exists>out. fst (runCompensation demo_comp_env ''o1'' [''fundEscrow'', ''confirmPurchase'', ''settleEscrow''] demo_context ''boom''
       (DEFAULT_PURCHASE_COMPENSATION_STEPS (\<lambda>x. (LinkUp, x)) demo_service) (demo_comp_world (demo_service_world []))) = Inr out \<and>
     cr_escrowStuck out"
proof -
  have "has_escrow (js_trim (pc_workflowId demo_context)) (sw_table (cm_ext (demo_comp_world (demo_service_world []))))"
    by (simp add: has_escrow_def demo_context_def demo_comp_world_def demo_service_world_def table_ok_def demo_row_def
        new_row_def demo_input_def js_trim_def js_space_def findPaymentRecordByOrderId_def truthy_def)
  moreover have "truthy (pc_escrowContractId demo_context)" by (simp add: demo_context_def truthy_def)
  moreover have "own_stores sw_table demo_comp_env" by (simp add: own_stores_def demo_comp_env_def)
  ultimately show ?thesis
    using full_compensation_stuck [OF _ _ _ prod.collapse [symmetric], of demo_context "demo_comp_world (demo_service_world [])"
        demo_comp_env "''o1''" "''boom''" "\<lambda>x. (LinkUp, x)" demo_service] by blast
qed

text \<open>Compensating a purchase of which only the funding step completed pays the seller: the compensation of the
  funding step is a release, so with every service up the run succeeds, posts a release of the escrow to the
  wallet service, leaves the payment record as released, and the buyer's refund is refused from then on.\<close>

theorem funding_compensation_pays_seller:
  "(let (res, w') = runCompensation demo_comp_env ''o1'' [''fundEscrow''] demo_context ''merchant declined''
           (DEFAULT_PURCHASE_COMPENSATION_STEPS (\<lambda>x. (LinkUp, x)) demo_service) (demo_comp_world (demo_service_world []))
    in map_sum id cr_status res = Inr CSuccess \<and> sw_posted (cm_ext w') = [demo_request] \<and>
       map pr_status (sw_table (cm_ext w')) = [PReleased] \<and>
       map_sum id so_status (fst (refundOrder demo_service ''o1'' RSystemError (cm_ext w'))) = Inr SettlementOutcomeStatus.SFailed)"
  by code_simp

end
