(* ===== verification/Calendar.thy ===== *)
theory Calendar
  imports Funding_Lock
begin

text \<open>
  The UTC fields of a JavaScript \<^verbatim>\<open>Date\<close> (part of the language): days are counted from 1970-01-01 in the proleptic
  Gregorian calendar, and \<open>civil_from_days\<close> gives the year, the month from 1 and the day of the month of a day number.
  It is shown to be the inverse of \<open>days_from_civil\<close>, which is what \<^verbatim>\<open>Date.UTC\<close> computes from four-digit years,
  so different days have different dates.
\<close>

section \<open>Fields\<close>

definition day_ms :: int where "day_ms = 24 * 60 * 60 * 1000"

text \<open>Year, month and day of a day number of the Gregorian calendar, counting from 1970-01-01.\<close>

definition year_of_era :: "int \<Rightarrow> int" where
  "year_of_era doe = (doe - doe div 1460 + doe div 36524 - doe div 146096) div 365"

definition civil_from_days :: "int \<Rightarrow> int \<times> int \<times> int" where
  "civil_from_days days =
     (let z = days + 719468; era = z div 146097; doe = z - era * 146097;
          yoe = year_of_era doe;
          doy = doe - (365 * yoe + yoe div 4 - yoe div 100); mp = (5 * doy + 2) div 153;
          d = doy - (153 * mp + 2) div 5 + 1; m = (if mp < 10 then mp + 3 else mp - 9)
      in (yoe + era * 400 + (if m \<le> 2 then 1 else 0), m, d))"

text \<open>The day number on which the year that starts in March begins, and the day number of a date.\<close>

definition march_year :: "int \<Rightarrow> int" where
  "march_year y = 365 * y + y div 4 - y div 100 + y div 400 - 719468"

definition days_from_civil :: "int \<Rightarrow> int \<Rightarrow> int \<Rightarrow> int" where
  "days_from_civil y m d = march_year (if m \<le> 2 then y - 1 else y) + (153 * (if m \<le> 2 then m + 9 else m - 3) + 2) div 5 + d - 1"

definition getUTCFullYear :: "ms \<Rightarrow> int" where
  "getUTCFullYear t = fst (civil_from_days (t div day_ms))"

definition getUTCMonth :: "ms \<Rightarrow> int" where
  "getUTCMonth t = fst (snd (civil_from_days (t div day_ms))) - 1"

definition getUTCDate :: "ms \<Rightarrow> int" where
  "getUTCDate t = snd (snd (civil_from_days (t div day_ms)))"

text \<open>Sunday is 0; 1970-01-01 was a Thursday.\<close>

definition getUTCDay :: "ms \<Rightarrow> int" where
  "getUTCDay t = (t div day_ms + 4) mod 7"

text \<open>\<^verbatim>\<open>Date.UTC(y, m, d)\<close> with the month from 0.\<close>

definition date_UTC :: "int \<Rightarrow> int \<Rightarrow> int \<Rightarrow> ms" where
  "date_UTC y m d = days_from_civil y (m + 1) d * day_ms"

definition pad :: "nat \<Rightarrow> int \<Rightarrow> string" where
  "pad n x = (let s = show_nat (nat x) in replicate (n - length s) (CHR ''0'') @ s)"

text \<open>\<^verbatim>\<open>toISOString()\<close> for years of four digits, and its first ten characters.\<close>

definition iso_date :: "ms \<Rightarrow> string" where
  "iso_date t = (case civil_from_days (t div day_ms) of (y, m, d) \<Rightarrow> pad 4 y @ ''-'' @ pad 2 m @ ''-'' @ pad 2 d)"

definition toISOString :: "ms \<Rightarrow> string" where
  "toISOString t = (let r = t mod day_ms in
     iso_date t @ ''T'' @ pad 2 (r div 3600000) @ '':'' @ pad 2 (r div 60000 mod 60) @ '':'' @ pad 2 (r div 1000 mod 60) @
     ''.'' @ pad 3 (r mod 1000) @ ''Z'')"

section \<open>Dates and day numbers\<close>

text \<open>Within an era of 400 years, the year is the one that contains the day.\<close>

lemma century_year:
  fixes r b :: int
  assumes r: "0 \<le> r" "r < 36524" and b: "0 \<le> b" "b < 4"
  defines "yy \<equiv> (r - (24 * b + r) div 1460) div 365"
  shows "0 \<le> yy" "yy < 100" "365 * yy + yy div 4 \<le> r" "r \<le> 365 * yy + yy div 4 + 365"
proof -
  define q where "q = (24 * b + r) div 1460"
  define k where "k = yy div 4"
  define j where "j = yy mod 4"
  have q: "1460 * q \<le> 24 * b + r" "24 * b + r < 1460 * q + 1460" "0 \<le> q" unfolding q_def using r b by linarith+
  have y: "365 * yy \<le> r - q" "r - q < 365 * yy + 365" unfolding yy_def q_def [symmetric] by linarith+
  have kj: "yy = 4 * k + j" "0 \<le> j" "j \<le> 3" unfolding k_def j_def by simp_all
  show "0 \<le> yy" "yy < 100" using q y r b by linarith+
  then have k: "0 \<le> k" "k \<le> 24" unfolding k_def by linarith+
  show "365 * yy + yy div 4 \<le> r" unfolding k_def [symmetric] using q y kj k b by linarith
  have "q \<le> k + 1" using q y kj k b by linarith
  then show "r \<le> 365 * yy + yy div 4 + 365" unfolding k_def [symmetric] using y by linarith
qed

lemma year_of_era:
  assumes "0 \<le> doe" "doe < 146097"
  defines "yoe \<equiv> year_of_era doe"
  shows "0 \<le> yoe" "yoe < 400" "365 * yoe + yoe div 4 - yoe div 100 \<le> doe" "doe \<le> 365 * yoe + yoe div 4 - yoe div 100 + 365"
proof -
  have "0 \<le> yoe \<and> yoe < 400 \<and> 365 * yoe + yoe div 4 - yoe div 100 \<le> doe \<and> doe \<le> 365 * yoe + yoe div 4 - yoe div 100 + 365"
  proof (cases "doe = 146096")
    case True
    then show ?thesis by (simp add: yoe_def year_of_era_def)
  next
    case False
    define b where "b = doe div 36524"
    define r where "r = doe mod 36524"
    have d: "doe = 36524 * b + r" "0 \<le> r" "r < 36524" unfolding b_def r_def by simp_all
    have b: "0 \<le> b" "b < 4" using d assms False unfolding b_def by linarith+
    define yy where "yy = (r - (24 * b + r) div 1460) div 365"
    have "doe div 1460 = 25 * b + (24 * b + r) div 1460" unfolding d(1) by linarith
    moreover have "doe div 146096 = 0" using assms False by simp
    ultimately have "yoe = 100 * b + yy" unfolding yoe_def year_of_era_def b_def [symmetric] yy_def using d(1) by linarith
    moreover note century_year [OF d(2,3) b, folded yy_def]
    moreover have "(100 * b + yy) div 4 = 25 * b + yy div 4" by linarith
    moreover have "(100 * b + yy) div 100 = b" using calculation(2,3) by linarith
    ultimately show ?thesis using b d(1) by (intro conjI) (simp_all, linarith?)
  qed
  then show "0 \<le> yoe" "yoe < 400" "365 * yoe + yoe div 4 - yoe div 100 \<le> doe" "doe \<le> 365 * yoe + yoe div 4 - yoe div 100 + 365" by simp_all
qed

lemma march_year_era:
  assumes "0 \<le> yoe" "yoe < 400"
  shows "march_year (yoe + era * 400) = era * 146097 + (365 * yoe + yoe div 4 - yoe div 100) - 719468"
proof -
  have "(yoe + era * 400) div 4 = yoe div 4 + era * 100" "(yoe + era * 400) div 100 = yoe div 100 + era * 4"
    "(yoe + era * 400) div 400 = era" using assms by linarith+
  then show ?thesis by (simp add: march_year_def)
qed

lemma march_year_grows: "march_year (y - 1) + 364 \<le> march_year y"
proof -
  have "(y - 1) div 4 \<le> y div 4" "(y - 1) div 400 \<le> y div 400" by (simp_all add: zdiv_mono1)
  moreover have "y div 100 \<le> (y - 1) div 100 + 1" by linarith
  ultimately show ?thesis by (simp add: march_year_def)
qed

text \<open>The date of a day number, its ranges, and the first of January of its year.\<close>

lemma civil_from_days:
  assumes "civil_from_days days = (y, m, d)"
  shows "1 \<le> m" "m \<le> 12" "1 \<le> d" "d \<le> 31" "days_from_civil y m d = days" "days_from_civil y 1 1 \<le> days"
proof -
  define era where "era = (days + 719468) div 146097"
  define doe where "doe = (days + 719468) - era * 146097"
  define yoe where "yoe = year_of_era doe"
  define doy where "doy = doe - (365 * yoe + yoe div 4 - yoe div 100)"
  define mp where "mp = (5 * doy + 2) div 153"
  have doe: "0 \<le> doe" "doe < 146097" unfolding doe_def era_def by linarith+
  note yoe = year_of_era [OF doe, folded yoe_def]
  have doy: "0 \<le> doy" "doy \<le> 365" unfolding doy_def using yoe by linarith+
  have mp: "0 \<le> mp" "mp \<le> 11" "153 * mp \<le> 5 * doy + 2" "5 * doy + 2 < 153 * mp + 153" unfolding mp_def using doy by linarith+
  have "(y, m, d) = (yoe + era * 400 + (if (if mp < 10 then mp + 3 else mp - 9) \<le> 2 then 1 else 0),
      if mp < 10 then mp + 3 else mp - 9, doy - (153 * mp + 2) div 5 + 1)"
    unfolding assms [symmetric] by (simp only: civil_from_days_def Let_def era_def doe_def yoe_def doy_def mp_def)
  then have m: "m = (if mp < 10 then mp + 3 else mp - 9)" and d: "d = doy - (153 * mp + 2) div 5 + 1"
    and y: "y = yoe + era * 400 + (if m \<le> 2 then 1 else 0)" by blast+
  show "1 \<le> m" "m \<le> 12" unfolding m using mp(1,2) by simp_all
  define e where "e = (153 * mp + 2) div 5"
  have e: "5 * e \<le> 153 * mp + 2" "153 * mp + 2 < 5 * e + 5" unfolding e_def by linarith+
  show "1 \<le> d" "d \<le> 31" unfolding d e_def [symmetric] using e mp by linarith+
  have start: "march_year (yoe + era * 400) + doy = days"
    unfolding march_year_era [OF yoe(1,2)] doy_def doe_def by simp
  show "days_from_civil y m d = days"
  proof (cases "mp < 10")
    case True
    then have "m = mp + 3" "\<not> m \<le> 2" using m mp(1) by simp_all
    then show ?thesis using start d y by (simp add: days_from_civil_def)
  next
    case False
    then have "m = mp - 9" "m \<le> 2" using m mp(2) by simp_all
    then show ?thesis using start d y by (simp add: days_from_civil_def)
  qed
  show "days_from_civil y 1 1 \<le> days"
  proof (cases "m \<le> 2")
    case True
    then have "mp \<ge> 10" using m mp(1) by (simp split: if_splits)
    then have "306 \<le> doy" using mp by linarith
    then show ?thesis using start True y by (simp add: days_from_civil_def)
  next
    case False
    have "march_year (yoe + era * 400 - 1) + 364 \<le> march_year (yoe + era * 400)" by (rule march_year_grows)
    then show ?thesis using start doy False y by (simp add: days_from_civil_def)
  qed
qed

lemma civil_from_days_inj: "civil_from_days a = civil_from_days b \<Longrightarrow> a = b"
  by (metis civil_from_days(5) prod_cases3)


section \<open>Decimal spellings\<close>

text \<open>The value of a string of digits, which gives back the number that was spelled.\<close>

definition digits_value :: "string \<Rightarrow> nat" where
  "digits_value s = foldl (\<lambda>v c. 10 * v + (of_char c - 48)) 0 s"

lemma digits_value_snoc: "digits_value (s @ [c]) = 10 * digits_value s + (of_char c - 48)"
  by (simp add: digits_value_def)

lemma digits_value_show_nat [simp]: "digits_value (show_nat n) = n"
proof (induction n rule: show_nat.induct)
  case (1 n)
  show ?case
  proof (cases "n < 10")
    case True
    then show ?thesis by (subst show_nat.simps) (simp add: digits_value_def)
  next
    case False
    with 1 show ?thesis by (subst show_nat.simps) (simp add: digits_value_snoc)
  qed
qed

lemma digits_value_zeros: "digits_value (replicate k (CHR ''0'') @ s) = digits_value s"
  by (induction k) (simp_all add: digits_value_def)

lemma digits_value_pad: "digits_value (pad k x) = nat x"
  by (simp add: pad_def Let_def digits_value_zeros)

lemma pad_inj: "pad k x = pad k y \<Longrightarrow> 0 \<le> x \<Longrightarrow> 0 \<le> y \<Longrightarrow> x = y"
  using digits_value_pad [of k x] digits_value_pad [of k y] by simp

lemma length_show_nat: "n < 100 \<Longrightarrow> length (show_nat n) \<le> 2"
  by (subst show_nat.simps, subst show_nat.simps) auto

lemma length_pad_2: "x < 100 \<Longrightarrow> length (pad 2 x) = 2"
  using length_show_nat [of "nat x"] by (simp add: pad_def Let_def)

lemma show_nat_inj: "show_nat m = show_nat n \<Longrightarrow> m = n"
  using digits_value_show_nat by metis

lemma show_nat_no_minus: "show_nat n \<noteq> CHR ''-'' # s"
proof
  assume "show_nat n = CHR ''-'' # s"
  then have "CHR ''-'' \<in> set (show_nat n)" by simp
  then obtain d where "d < 10" "CHR ''-'' = char_of (48 + d :: nat)" using show_nat_digits by blast
  then have "of_char (CHR ''-'') = (48 + d :: nat)" using digit_not_letter [of d] by simp
  then show False by simp
qed

lemma show_int_inj: "show_int x = show_int y \<Longrightarrow> x = y"
  using show_nat_inj [of "nat x" "nat y"] show_nat_inj [of "nat (- x)" "nat (- y)"] show_nat_no_minus [of "nat x"]
    show_nat_no_minus [of "nat y"]
  by (auto simp: show_int_def split: if_splits dest: sym)

end
