(* ===== verification/Batch_Settlement.thy ===== *)
theory Batch_Settlement
  imports Fee_Estimator Calendar "HOL-Library.Multiset" "HOL-Library.Char_ord" "HOL-Library.List_Lexorder"
begin

text \<open>
  Daily settlement of merchants (payments/settlement/batch.ts): grouping of completed orders, fees, and the export
  as comma-separated values. A \<^verbatim>\<open>Date\<close> is its number of milliseconds, of which the export needs the UTC calendar
  date; \<^verbatim>\<open>localeCompare\<close> is given by the collation key \<open>coll\<close>, a parameter, since it depends on the host's locale;
  \<^verbatim>\<open>sort()\<close> on strings compares character codes.
\<close>

section \<open>Data\<close>

record CompletedMerchantOrder =
  mo_orderId :: string
  mo_merchantId :: string
  mo_payoutAddress :: string
  mo_grossAmount :: int
  mo_completedAt :: ms
  mo_completed :: bool

record MerchantBatchSettlement =
  ms_settlementId :: string
  ms_merchantId :: string
  ms_payoutAddress :: string
  ms_periodStart :: ms
  ms_periodEnd :: ms
  ms_totalGrossAmount :: int
  ms_platformFees :: int
  ms_netDisbursement :: int
  ms_orderCount :: nat
  ms_orderIds :: "string list"

record DailySettlementWindow =
  dw_merchantId :: string
  dw_startUtc :: ms
  dw_endUtc :: ms
  dw_totalGrossStroops :: int
  dw_totalFeeStroops :: int
  dw_netPayoutStroops :: int

datatype batch_error = BadPeriod | BadFee | NegativeGross string

section \<open>Dates\<close>

text \<open>The UTC midnight that starts the day, for years from 100 on (below, \<^verbatim>\<open>Date.UTC\<close> shifts the year).\<close>

definition getUtcDailySettlementWindow :: "ms \<Rightarrow> ms \<times> ms" where
  "getUtcDailySettlementWindow t = (let s = t div day_ms * day_ms in (s, s + day_ms))"

section \<open>Settlements\<close>

definition eligible :: "ms \<Rightarrow> ms \<Rightarrow> CompletedMerchantOrder \<Rightarrow> bool" where
  "eligible a b o' \<longleftrightarrow> mo_completed o' \<and> \<not> mo_completedAt o' < a \<and> \<not> mo_completedAt o' \<ge> b"

definition group_key :: "CompletedMerchantOrder \<Rightarrow> string" where
  "group_key o' = mo_merchantId o' @ [CHR 0x00] @ mo_payoutAddress o'"

type_synonym order_groups = "(string \<times> CompletedMerchantOrder list) list"

fun group_orders :: "ms \<Rightarrow> ms \<Rightarrow> CompletedMerchantOrder list \<Rightarrow> order_groups \<Rightarrow> batch_error + order_groups" where
  "group_orders a b [] gs = Inr gs"
| "group_orders a b (o' # os) gs =
     (if \<not> eligible a b o' then group_orders a b os gs
      else if mo_grossAmount o' < 0 then Inl (NegativeGross (mo_orderId o'))
      else group_orders a b os (jm_set (group_key o') ((case jm_get gs (group_key o') of None \<Rightarrow> [] | Some g \<Rightarrow> g) @ [o']) gs))"

definition settle_group :: "ms \<Rightarrow> ms \<Rightarrow> int \<Rightarrow> CompletedMerchantOrder list \<Rightarrow> MerchantBatchSettlement" where
  "settle_group a b bps g =
     (let total = foldl (\<lambda>sum o'. sum + mo_grossAmount o') 0 g; fees = total * bps div 10000
      in \<lparr>ms_settlementId = ''settlement-'' @ mo_merchantId (hd g) @ ''-'' @ take 10 (toISOString a),
          ms_merchantId = mo_merchantId (hd g), ms_payoutAddress = mo_payoutAddress (hd g), ms_periodStart = a, ms_periodEnd = b,
          ms_totalGrossAmount = total, ms_platformFees = fees, ms_netDisbursement = total - fees, ms_orderCount = length g,
          ms_orderIds = sort (map mo_orderId g)\<rparr>)"

definition calculateMerchantSettlements ::
  "(string \<Rightarrow> 'k::linorder) \<Rightarrow> CompletedMerchantOrder list \<Rightarrow> ms \<Rightarrow> ms \<Rightarrow> int \<Rightarrow> batch_error + MerchantBatchSettlement list" where
  "calculateMerchantSettlements coll os a b bps =
     (if a \<ge> b then Inl BadPeriod
      else if bps < 0 \<or> bps > 10000 then Inl BadFee
      else case group_orders a b os [] of
        Inl e \<Rightarrow> Inl e
      | Inr gs \<Rightarrow> Inr (map (settle_group a b bps) (sort_key (\<lambda>g. coll (mo_merchantId (hd g))) (map snd gs))))"

definition toDailySettlementWindows :: "MerchantBatchSettlement list \<Rightarrow> DailySettlementWindow list" where
  "toDailySettlementWindows ss = map (\<lambda>s. \<lparr>dw_merchantId = ms_merchantId s, dw_startUtc = ms_periodStart s, dw_endUtc = ms_periodEnd s,
     dw_totalGrossStroops = ms_totalGrossAmount s, dw_totalFeeStroops = ms_platformFees s,
     dw_netPayoutStroops = ms_netDisbursement s\<rparr>) ss"

definition quote :: char where "quote = CHR 0x22"

definition newline :: char where "newline = CHR 0x0A"

definition csvCell :: "string \<Rightarrow> string" where
  "csvCell v = (if quote \<in> set v \<or> CHR '','' \<in> set v \<or> newline \<in> set v
     then [quote] @ concat (map (\<lambda>c. if c = quote then [quote, quote] else [c]) v) @ [quote] else v)"

fun join :: "string \<Rightarrow> string list \<Rightarrow> string" where
  "join sep [] = []"
| "join sep [x] = x"
| "join sep (x # y # xs) = x @ sep @ join sep (y # xs)"

definition csv_cells :: "MerchantBatchSettlement \<Rightarrow> string list" where
  "csv_cells s = [ms_settlementId s, ms_merchantId s, ms_payoutAddress s, toISOString (ms_periodStart s), toISOString (ms_periodEnd s),
     show_int (ms_totalGrossAmount s), show_int (ms_platformFees s), show_int (ms_netDisbursement s),
     show_nat (ms_orderCount s), join ''|'' (ms_orderIds s)]"

definition csv_header :: string where
  "csv_header = ''settlementId,merchantId,payoutAddress,periodStart,periodEnd,totalGrossAmount,platformFees,netDisbursement,orderCount,orderIds''"

definition settlementCsv :: "MerchantBatchSettlement list \<Rightarrow> string" where
  "settlementCsv ss = join [newline] (csv_header # map (\<lambda>s. join '','' (map csvCell (csv_cells s))) ss) @ [newline]"

section \<open>Grouping\<close>

text \<open>The reference: one group per merchant and address, in the order of their first orders.\<close>

definition reference_groups :: "CompletedMerchantOrder list \<Rightarrow> order_groups" where
  "reference_groups os = map (\<lambda>k. (k, filter (\<lambda>o'. group_key o' = k) os)) (js_unique (map group_key os))"

lemma update_mapped:
  assumes "distinct ks"
  shows "jm_set k v (map (\<lambda>k'. (k', f k')) ks) = map (\<lambda>k'. (k', if k' = k then v else f k')) (if k \<in> set ks then ks else ks @ [k])"
  using assms by (induction ks) auto

lemma reference_lookup:
  "jm_get (reference_groups os) k = (if k \<in> set (map group_key os) then Some (filter (\<lambda>o'. group_key o' = k) os) else None)"
  unfolding reference_groups_def by (simp add: map_of_map_restrict restrict_map_def)

lemma reference_snoc:
  "reference_groups (os @ [o']) =
     jm_set (group_key o') ((case jm_get (reference_groups os) (group_key o') of None \<Rightarrow> [] | Some g \<Rightarrow> g) @ [o']) (reference_groups os)"
proof -
  have "(case jm_get (reference_groups os) (group_key o') of None \<Rightarrow> [] | Some g \<Rightarrow> g) = filter (\<lambda>x. group_key x = group_key o') os"
    by (auto simp: reference_lookup image_iff intro!: filter_False [symmetric])
  moreover have "jm_set (group_key o') (filter (\<lambda>x. group_key x = group_key o') os @ [o']) (reference_groups os) =
      map (\<lambda>k. (k, if k = group_key o' then filter (\<lambda>x. group_key x = group_key o') os @ [o'] else filter (\<lambda>x. group_key x = k) os))
        (if group_key o' \<in> set (js_unique (map group_key os)) then js_unique (map group_key os) else js_unique (map group_key os) @ [group_key o'])"
    unfolding reference_groups_def by (rule update_mapped [OF js_unique_distinct])
  ultimately show ?thesis
    unfolding reference_groups_def [of "os @ [o']"] by (auto simp: js_unique_snoc)
qed

lemma group_orders_reference:
  "group_orders a b os (reference_groups done) =
     (case find (\<lambda>o'. eligible a b o' \<and> mo_grossAmount o' < 0) os of
        Some o' \<Rightarrow> Inl (NegativeGross (mo_orderId o'))
      | None \<Rightarrow> Inr (reference_groups (done @ filter (eligible a b) os)))"
proof (induction os arbitrary: "done")
  case (Cons o' os)
  from Cons.IH [of "done @ [o']"] have "group_orders a b os (reference_groups (done @ [o'])) =
      (case find (\<lambda>o'. eligible a b o' \<and> mo_grossAmount o' < 0) os of
        Some o' \<Rightarrow> Inl (NegativeGross (mo_orderId o'))
      | None \<Rightarrow> Inr (reference_groups (done @ o' # filter (eligible a b) os)))"
    unfolding append_assoc append_Cons append_Nil .
  with Cons.IH [of "done"] show ?case
    by (cases "eligible a b o'"; cases "mo_grossAmount o' < 0") (simp_all add: reference_snoc cong: option.case_cong)
qed simp

lemma sum_foldl: "foldl (\<lambda>s o'. s + mo_grossAmount o') (n :: int) g = n + sum_list (map mo_grossAmount g)"
  by (induction g arbitrary: n) auto

lemma sum_single: "distinct ks \<Longrightarrow> c \<in> set ks \<Longrightarrow> (\<Sum>k\<leftarrow>ks. if c = k then v else (0 :: int)) = v"
proof (induction ks)
  case (Cons k ks)
  have "(\<Sum>k\<leftarrow>ks. if c = k then v else 0) = 0" if "c \<notin> set ks" using that by (induction ks) auto
  with Cons show ?case by auto
qed simp

lemma partition_sum:
  assumes "distinct ks" and "key ` set os \<subseteq> set ks"
  shows "(\<Sum>k\<leftarrow>ks. sum_list (map f (filter (\<lambda>x. key x = k) os))) = (sum_list (map f os) :: int)"
  using assms(2)
proof (induction os)
  case (Cons x os)
  have "(\<Sum>k\<leftarrow>ks. sum_list (map f (filter (\<lambda>y. key y = k) (x # os)))) =
      (\<Sum>k\<leftarrow>ks. (if key x = k then f x else 0) + sum_list (map f (filter (\<lambda>y. key y = k) os)))"
    by (rule arg_cong [where f = sum_list], rule map_cong) auto
  also have "\<dots> = f x + sum_list (map f os)"
    using Cons sum_single [OF assms(1), of "key x" "f x"] by (simp add: sum_list_addf)
  finally show ?case by simp
qed simp

lemma group_sum: "(\<Sum>g\<leftarrow>reference_groups os. sum_list (map mo_grossAmount (snd g))) = sum_list (map mo_grossAmount os)"
  using partition_sum [OF js_unique_distinct, of group_key os "map group_key os" mo_grossAmount]
  by (simp add: reference_groups_def o_def)

lemma group_key_inj:
  assumes "CHR 0x00 \<notin> set (mo_merchantId x)" and "CHR 0x00 \<notin> set (mo_merchantId y)"
  shows "group_key x = group_key y \<longleftrightarrow> mo_merchantId x = mo_merchantId y \<and> mo_payoutAddress x = mo_payoutAddress y"
proof
  assume eq: "group_key x = group_key y"
  have "takeWhile (\<lambda>c. c \<noteq> CHR 0x00) (group_key z) = mo_merchantId z" if "CHR 0x00 \<notin> set (mo_merchantId z)" for z
    using that by (simp add: group_key_def takeWhile_append)
  with assms eq have "mo_merchantId x = mo_merchantId y" by metis
  with eq show "mo_merchantId x = mo_merchantId y \<and> mo_payoutAddress x = mo_payoutAddress y" by (simp add: group_key_def)
qed (simp add: group_key_def)

lemma calculate_iff:
  "calculateMerchantSettlements coll os a b bps = Inr ss \<longleftrightarrow>
     a < b \<and> 0 \<le> bps \<and> bps \<le> 10000 \<and> (\<forall>o' \<in> set os. eligible a b o' \<longrightarrow> 0 \<le> mo_grossAmount o') \<and>
     ss = map (settle_group a b bps) (sort_key (\<lambda>g. coll (mo_merchantId (hd g))) (map snd (reference_groups (filter (eligible a b) os))))"
proof -
  have r: "reference_groups [] = []" by (simp add: reference_groups_def js_unique_def)
  have "find (\<lambda>o'. eligible a b o' \<and> mo_grossAmount o' < 0) os = None \<longleftrightarrow> (\<forall>o' \<in> set os. eligible a b o' \<longrightarrow> 0 \<le> mo_grossAmount o')"
    by (auto simp: find_None_iff not_less)
  with group_orders_reference [of a b os "[]"] show ?thesis
    by (auto simp: calculateMerchantSettlements_def r split: option.splits)
qed

lemma reference_group_nonempty:
  assumes "g \<in> set (map snd (reference_groups os))"
  shows "g \<noteq> [] \<and> g = filter (\<lambda>x. group_key x = group_key (hd g)) os \<and> hd g \<in> set os"
proof -
  from assms obtain o' where o': "o' \<in> set os" "g = filter (\<lambda>x. group_key x = group_key o') os"
    by (auto simp: reference_groups_def)
  then have g: "g \<noteq> []" by (auto simp: filter_empty_conv)
  then have "hd g \<in> set g" by simp
  with o' have "group_key (hd g) = group_key o'" "hd g \<in> set os" by auto
  with o'(2) g show ?thesis by simp
qed

lemma settle_group_amounts:
  assumes "0 \<le> bps" and "bps \<le> 10000" and "\<forall>x \<in> set g. 0 \<le> mo_grossAmount x"
  shows "0 \<le> ms_platformFees (settle_group a b bps g) \<and> 0 \<le> ms_netDisbursement (settle_group a b bps g) \<and>
    ms_platformFees (settle_group a b bps g) + ms_netDisbursement (settle_group a b bps g) = ms_totalGrossAmount (settle_group a b bps g)"
proof -
  let ?t = "sum_list (map mo_grossAmount g)"
  have t: "0 \<le> ?t" using assms(3) by (intro sum_list_nonneg) auto
  have "?t * bps \<le> ?t * 10000" using t assms(2) by (rule mult_left_mono [rotated])
  then have "?t * bps div 10000 \<le> ?t" using zdiv_mono1 [of "?t * bps" "?t * 10000" 10000] by simp
  moreover have "0 \<le> ?t * bps div 10000" using t assms(1) by (simp add: pos_imp_zdiv_nonneg_iff)
  ultimately show ?thesis by (simp add: settle_group_def sum_foldl Let_def)
qed

lemma sum_sort_key: "sum_list (map h (sort_key f xs)) = sum_list (map h xs)"
  for h :: "'a \<Rightarrow> 'b::comm_monoid_add" and f :: "'a \<Rightarrow> 'k::linorder"
proof -
  have "mset (map h (sort_key f xs)) = mset (map h xs)" by simp
  then have "sum_mset (mset (map h (sort_key f xs))) = sum_mset (mset (map h xs))" by (rule arg_cong)
  then show ?thesis by (simp only: sum_mset_sum_list)
qed

lemma settled_ids:
  "mset (concat (map ms_orderIds (map (settle_group a b bps) (sort_key f hs)))) = mset (concat (map (map mo_orderId) hs))"
  for f :: "CompletedMerchantOrder list \<Rightarrow> 'k::linorder"
proof -
  have g: "mset (ms_orderIds (settle_group a b bps g)) = mset (map mo_orderId g)" for g
    by (simp add: settle_group_def Let_def del: mset_map)
  have "mset (concat (map ms_orderIds (map (settle_group a b bps) (sort_key f hs)))) = (\<Sum>g\<leftarrow>sort_key f hs. mset (map mo_orderId g))"
    unfolding mset_concat map_map o_def g ..
  also have "\<dots> = (\<Sum>g\<leftarrow>hs. mset (map mo_orderId g))" by (rule sum_sort_key)
  finally show ?thesis unfolding mset_concat map_map o_def .
qed

lemma settled_gross:
  "sum_list (map ms_totalGrossAmount (map (settle_group a b bps) (sort_key f hs))) = sum_list (map (\<lambda>g. sum_list (map mo_grossAmount g)) hs)"
  for f :: "CompletedMerchantOrder list \<Rightarrow> 'k::linorder"
proof -
  have g: "ms_totalGrossAmount (settle_group a b bps g) = sum_list (map mo_grossAmount g)" for g
    by (simp add: settle_group_def sum_foldl Let_def)
  show ?thesis unfolding map_map o_def g by (rule sum_sort_key)
qed

lemma mset_concat_partition:
  assumes "distinct ks" and "key ` set os \<subseteq> set ks"
  shows "mset (concat (map (\<lambda>k. map f (filter (\<lambda>x. key x = k) os)) ks)) = mset (map f os)"
  using assms
proof (induction os)
  case Nil
  then show ?case by (induction ks) auto
next
  case (Cons x os)
  have "mset (concat (map (\<lambda>k. map f (filter (\<lambda>y. key y = k) (x # os))) ks)) =
      mset (concat (map (\<lambda>k. map f (filter (\<lambda>y. key y = k) os)) ks)) + (if key x \<in> set ks then {#f x#} else {#})"
    if "distinct ks" for ks
    using that by (induction ks) auto
  with Cons show ?case by simp
qed


definition demo_order :: "string \<Rightarrow> string \<Rightarrow> int \<Rightarrow> CompletedMerchantOrder" where
  "demo_order i addr amount = \<lparr>mo_orderId = i, mo_merchantId = ''m1'', mo_payoutAddress = addr, mo_grossAmount = amount,
     mo_completedAt = 1704067200000, mo_completed = True\<rparr>"

definition demo_orders :: "CompletedMerchantOrder list" where
  "demo_orders = [demo_order ''o1'' ''A'' 1000, demo_order ''o2'' ''B'' 500, demo_order ''o3'' ''A'' 99]"


text \<open>A merchant that is paid at two addresses gets two settlements with the same settlement id: the id is made of
  the merchant and the date only.\<close>

theorem settlement_ids_collide:
  "map_sum id (map ms_settlementId) (calculateMerchantSettlements (\<lambda>s. s) demo_orders 1704067200000 1704153600000 250) =
     Inr [''settlement-m1-2024-01-01'', ''settlement-m1-2024-01-01'']"
  by code_simp

section \<open>The daily window\<close>

lemma daily_window:
  "case getUtcDailySettlementWindow t of (s, e) \<Rightarrow> s \<le> t \<and> t < e \<and> s mod day_ms = 0 \<and> e = s + day_ms"
proof -
  have t: "t div day_ms * day_ms + t mod day_ms = t" by (rule div_mult_mod_eq)
  have "0 \<le> t mod day_ms" "t mod day_ms < day_ms" by (simp_all add: day_ms_def)
  with t have "t div day_ms * day_ms \<le> t" "t < t div day_ms * day_ms + day_ms" by linarith+
  then show ?thesis by (simp add: getUtcDailySettlementWindow_def Let_def)
qed

section \<open>The export\<close>

text \<open>A reader of a whole file of comma-separated values. A newline outside quotes ends a record, a comma outside
  quotes a field, and within quotes a doubled quote stands for one; \<open>q\<close> is whether a quoted part is open, \<open>acc\<close>
  the field and \<open>fs\<close> the record read so far. The newline after the last record starts no further one.\<close>

fun csv_read :: "bool \<Rightarrow> string \<Rightarrow> string list \<Rightarrow> string \<Rightarrow> string list list" where
  "csv_read q acc fs [] = (if \<not> q \<and> acc = [] \<and> fs = [] then [] else [fs @ [acc]])"
| "csv_read False acc fs (c # cs) =
     (if c = CHR '','' then csv_read False [] (fs @ [acc]) cs
      else if c = newline then (fs @ [acc]) # csv_read False [] [] cs
      else if c = quote then csv_read True acc fs cs else csv_read False (acc @ [c]) fs cs)"
| "csv_read True acc fs [c] = (if c = quote then [fs @ [acc]] else [fs @ [acc @ [c]]])"
| "csv_read True acc fs (c # d # cs) =
     (if c = quote then (if d = quote then csv_read True (acc @ [quote]) fs cs else csv_read False acc fs (d # cs))
      else csv_read True (acc @ [c]) fs (d # cs))"

lemma csv_chars: "quote \<noteq> CHR '',''" "newline \<noteq> CHR '',''" "quote \<noteq> newline"
  by (simp_all add: quote_def newline_def)

lemma csv_read_True_char: "c \<noteq> quote \<Longrightarrow> rest \<noteq> [] \<Longrightarrow> csv_read True acc fs (c # rest) = csv_read True (acc @ [c]) fs rest"
  by (cases rest) auto

lemma csv_read_escaped:
  assumes "d \<noteq> quote"
  shows "csv_read True acc fs (concat (map (\<lambda>c. if c = quote then [quote, quote] else [c]) s) @ quote # d # rest) =
    csv_read False (acc @ s) fs (d # rest)"
proof (induction s arbitrary: acc)
  case Nil
  with assms show ?case by simp
next
  case (Cons c s)
  show ?case
  proof (cases "c = quote")
    case True
    with Cons show ?thesis by simp
  next
    case False
    with Cons csv_read_True_char [of c] show ?thesis by simp
  qed
qed

lemma csv_read_plain:
  assumes "quote \<notin> set s" and "CHR '','' \<notin> set s" and "newline \<notin> set s"
  shows "csv_read False acc fs (s @ rest) = csv_read False (acc @ s) fs rest"
  using assms by (induction s arbitrary: acc) auto

lemma csv_read_cell:
  assumes "d \<noteq> quote"
  shows "csv_read False [] fs (csvCell s @ d # rest) = csv_read False s fs (d # rest)"
proof (cases "quote \<in> set s \<or> CHR '','' \<in> set s \<or> newline \<in> set s")
  case True
  with csv_read_escaped [OF assms, of "[]" fs s] csv_chars show ?thesis by (simp add: csvCell_def)
next
  case False
  with csv_read_plain [of s "[]" fs "d # rest"] show ?thesis by (simp add: csvCell_def)
qed

lemma csv_read_record:
  "csv_read False [] fs (join '','' (map csvCell (c # cs)) @ newline # rest) = (fs @ c # cs) # csv_read False [] [] rest"
proof (induction cs arbitrary: c fs)
  case Nil
  then show ?case using csv_read_cell [of newline fs c rest] csv_chars by simp
next
  case (Cons d cs)
  have "csv_read False [] fs (join '','' (map csvCell (c # d # cs)) @ newline # rest) =
      csv_read False c fs (CHR '','' # join '','' (map csvCell (d # cs)) @ newline # rest)"
    using csv_read_cell [of "CHR '',''" fs c] csv_chars by simp
  with Cons.IH [of "fs @ [c]" d] show ?case by simp
qed

lemma join_lines: "join [newline] (l # ls) @ [newline] = concat (map (\<lambda>l. l @ [newline]) (l # ls))"
  by (induction ls arbitrary: l) simp_all

definition csv_fields :: "string list" where
  "csv_fields = [''settlementId'', ''merchantId'', ''payoutAddress'', ''periodStart'', ''periodEnd'', ''totalGrossAmount'',
     ''platformFees'', ''netDisbursement'', ''orderCount'', ''orderIds'']"

lemma csv_header_record: "csv_header = join '','' (map csvCell csv_fields)"
  by (simp add: csv_header_def csv_fields_def csvCell_def quote_def newline_def)

text \<open>C35: The export loses nothing: reading back the whole CSV file, with the usual rules for commas, newlines and
  quoted cells, gives the ten column names and then, for each settlement in order, exactly its ten columns,
  whatever characters the merchant ids, addresses and order ids contain, commas, quotes and newlines included.
  (The order ids are one column, joined by bars.)\<close>

theorem settlement_csv_roundtrip:
  "csv_read False [] [] (settlementCsv ss) =
     [''settlementId'', ''merchantId'', ''payoutAddress'', ''periodStart'', ''periodEnd'', ''totalGrossAmount'',
      ''platformFees'', ''netDisbursement'', ''orderCount'', ''orderIds''] #
     map (\<lambda>s. [ms_settlementId s, ms_merchantId s, ms_payoutAddress s, toISOString (ms_periodStart s), toISOString (ms_periodEnd s),
       show_int (ms_totalGrossAmount s), show_int (ms_platformFees s), show_int (ms_netDisbursement s),
       show_nat (ms_orderCount s), join ''|'' (ms_orderIds s)]) ss"
proof -
  have rows: "csv_read False [] [] (concat (map (\<lambda>l. l @ [newline]) (map (\<lambda>s. join '','' (map csvCell (csv_cells s))) ss))) =
      map csv_cells ss"
  proof (induction ss)
    case (Cons s ss)
    obtain c cs where "csv_cells s = c # cs" by (simp add: csv_cells_def)
    with Cons.IH csv_read_record [of "[]" c cs] show ?case by simp
  qed simp
  have "settlementCsv ss = csv_header @ newline # concat (map (\<lambda>l. l @ [newline]) (map (\<lambda>s. join '','' (map csvCell (csv_cells s))) ss))"
    unfolding settlementCsv_def join_lines by simp
  with rows csv_read_record [of "[]" "hd csv_fields" "tl csv_fields"] show ?thesis
    by (simp add: csv_header_record csv_fields_def csv_cells_def)
qed

end
