(* ===== verification/Dispute_Store.thy ===== *)
theory Dispute_Store
  imports Escrow_Properties
begin

text \<open>
  The data of the dispute workflow (payments/src/disputes): the status machine (stateMachine.ts), the dispute
  store, the audit log and the reputation counters in their in-memory form (disputeStore.ts, auditLog.ts,
  reputationStore.ts), and the notifications (notifications.ts). The escrow coordinator is the one of
  \<^verbatim>\<open>Escrow_Coordinator\<close>, on its own part of the state. The PostgreSQL back ends are not modelled.
  Instants are their milliseconds, as everywhere.
\<close>

section \<open>Disputes\<close>

datatype DisputeStatus = DOpen | DEvidence | DNegotiation | DMerchantResponded | DDecided | DResolved

datatype DisputeTier = Tier1 | Senior

datatype ResolutionType = FullRefund | PartialRefundTo | ReleaseToSeller | SplitBetween

record DisputeEvidenceEntry =
  de_party :: string
  de_description :: string
  de_files :: "string list"
  de_submittedAt :: ms

record DisputeResolution =
  rs_type :: ResolutionType
  rs_buyerAmount :: string
  rs_sellerAmount :: string
  rs_decidedBy :: string
  rs_decidedAt :: ms

record Dispute =
  dp_id :: string
  dp_escrowId :: string
  dp_initiatedBy :: string
  dp_reason :: string
  dp_evidence :: "DisputeEvidenceEntry list"
  dp_mediator :: "string option"
  dp_status :: DisputeStatus
  dp_createdAt :: ms
  dp_updatedAt :: ms
  dp_slaDeadline :: ms
  dp_escalationTier :: "DisputeTier option"
  dp_escalationEscalatedAt :: "ms option"
  dp_resolution :: "DisputeResolution option"

record MediationDecision =
  md_disputeId :: string
  md_decision :: ResolutionType
  md_buyerAmount :: string
  md_sellerAmount :: string
  md_reasoning :: string
  md_mediator :: string

datatype dispute_error =
    DisputeNotFoundError string
  | DisputeAlreadyResolvedError string
  | InvalidStateTransitionError DisputeStatus DisputeStatus
  | InvalidResolutionAmountsError string
  | InvalidPartialRefundAmountError string
  | DisputeRangeError
  | DisputeFailure string
  | EscrowFailure escrow_error

section \<open>The status machine\<close>

definition ORDER :: "DisputeStatus list" where
  "ORDER = [DOpen, DEvidence, DNegotiation, DMerchantResponded, DDecided, DResolved]"

fun ALLOWED_TRANSITIONS :: "DisputeStatus \<Rightarrow> DisputeStatus list" where
  "ALLOWED_TRANSITIONS DOpen = [DOpen, DEvidence]"
| "ALLOWED_TRANSITIONS DEvidence = [DEvidence, DNegotiation]"
| "ALLOWED_TRANSITIONS DNegotiation = [DNegotiation, DMerchantResponded, DDecided]"
| "ALLOWED_TRANSITIONS DMerchantResponded = [DMerchantResponded, DDecided]"
| "ALLOWED_TRANSITIONS DDecided = [DDecided, DResolved]"
| "ALLOWED_TRANSITIONS DResolved = [DResolved]"

definition isNoOpTransition :: "DisputeStatus \<Rightarrow> DisputeStatus \<Rightarrow> bool" where
  "isNoOpTransition from to \<longleftrightarrow> from = to"

definition canTransition :: "DisputeStatus \<Rightarrow> DisputeStatus \<Rightarrow> bool" where
  "canTransition from to \<longleftrightarrow> to \<in> set (ALLOWED_TRANSITIONS from)"

definition assertTransition :: "DisputeStatus \<Rightarrow> DisputeStatus \<Rightarrow> ('s, dispute_error, unit) prog" where
  "assertTransition from to = (if \<not> canTransition from to then pthrow (InvalidStateTransitionError from to) else pret ())"

definition isTerminal :: "DisputeStatus \<Rightarrow> bool" where
  "isTerminal st \<longleftrightarrow> st = DResolved"

definition stageIndex :: "DisputeStatus \<Rightarrow> nat" where
  "stageIndex st = length (takeWhile (\<lambda>x. x \<noteq> st) ORDER)"

definition planAdvance :: "DisputeStatus \<Rightarrow> DisputeStatus \<Rightarrow> ('s, dispute_error, (DisputeStatus \<times> DisputeStatus) list) prog" where
  "planAdvance from to =
     (if stageIndex to < stageIndex from then pthrow (InvalidStateTransitionError from to)
      else pfor [stageIndex from ..< stageIndex to] [] (\<lambda>i steps.
             pbind (assertTransition (ORDER ! i) (ORDER ! (i + 1))) (\<lambda>_. pret (steps @ [(ORDER ! i, ORDER ! (i + 1))]))))"

section \<open>State and environment\<close>

record DisputeReputationRecord =
  dr_disputesInitiated :: nat
  dr_disputesInvolved :: nat
  dr_disputesResolvedFavorably :: nat
  dr_disputesResolvedUnfavorably :: nat
  dr_lastDisputeAt :: "ms option"

record AuditLogEntry =
  al_disputeId :: "string option"
  al_escrowId :: string
  al_eventType :: string
  al_actor :: "string option"
  al_details :: "(string \<times> jsval) list"
  al_createdAt :: ms

record DisputeEvent =
  dv_type :: string
  dv_orderId :: string
  dv_paymentId :: string
  dv_payload :: "(string \<times> jsval) list"
  dv_occurredAt :: ms

text \<open>\<^verbatim>\<open>escalated\<close> is the store's set of escalated ids, \<^verbatim>\<open>cursor\<close> the round-robin index of the mediator pool.\<close>

record 'w dispute_world =
  dw_escrow :: "'w escrow_world"
  dw_disputes :: "(string \<times> Dispute) list"
  dw_escalated :: "string set"
  dw_audit :: "AuditLogEntry list"
  dw_reputation :: "(string \<times> DisputeReputationRecord) list"
  dw_cursor :: nat

text \<open>The environment: that of the coordinator, fresh ids, the event publisher (which may fail), and the two
  environment variables of the pool and of the contract.\<close>

record 'w dispute_env =
  dn_escrow :: "'w escrow_env"
  dn_randomUUID :: "'w \<Rightarrow> string \<times> 'w"
  dn_publishPaymentEvent :: "DisputeEvent \<Rightarrow> 'w \<Rightarrow> (string + unit) \<times> 'w"
  dn_DISPUTE_MEDIATOR_POOL :: "string option"

type_synonym ('w, 'a) dispute_prog = "('w dispute_world, dispute_error, 'a) prog"

text \<open>A call of the escrow coordinator.\<close>

definition coordinator :: "('w, 'a) escrow_prog \<Rightarrow> ('w, 'a) dispute_prog" where
  "coordinator m w = (case m (dw_escrow w) of
       (Inl e, x) \<Rightarrow> (Inl (EscrowFailure e), w\<lparr>dw_escrow := x\<rparr>)
     | (Inr a, x) \<Rightarrow> (Inr a, w\<lparr>dw_escrow := x\<rparr>))"

definition date_now :: "'w dispute_env \<Rightarrow> ('w, ms) dispute_prog" where
  "date_now env = coordinator (ask_env (en_now (dn_escrow env)))"

definition contract_id :: "'w dispute_env \<Rightarrow> ('w, string) dispute_prog" where
  "contract_id env = (if truthy (en_ESCROW_CONTRACT_ID (dn_escrow env)) then pret (or_empty (en_ESCROW_CONTRACT_ID (dn_escrow env)))
     else pthrow (DisputeFailure ''ESCROW_CONTRACT_ID environment variable is not configured''))"

section \<open>The in-memory dispute store\<close>

record DisputeUpdate =
  du_status :: "DisputeStatus option"
  du_mediator :: "string option"
  du_resolution :: "DisputeResolution option"
  du_resolutionError :: "string option option"
  du_escalatedAt :: "ms option"
  du_escalationTier :: "DisputeTier option"
  du_escalationEscalatedAt :: "ms option"

definition no_change :: DisputeUpdate where
  "no_change = \<lparr>du_status = None, du_mediator = None, du_resolution = None, du_resolutionError = None, du_escalatedAt = None,
     du_escalationTier = None, du_escalationEscalatedAt = None\<rparr>"

text \<open>The operator \<^verbatim>\<open>??\<close>.\<close>

definition otherwise :: "'a option \<Rightarrow> 'a option \<Rightarrow> 'a option" where
  "otherwise a b = (case a of None \<Rightarrow> b | Some x \<Rightarrow> Some x)"

definition store_create ::
  "'w dispute_env \<Rightarrow> string \<Rightarrow> string \<Rightarrow> string \<Rightarrow> ms \<Rightarrow> ('w, Dispute) dispute_prog" where
  "store_create env escrowId initiatedBy reason slaDeadline =
     pbind (date_now env) (\<lambda>now.
     pbind (coordinator (ask_env (dn_randomUUID env))) (\<lambda>i.
     let d = \<lparr>dp_id = i, dp_escrowId = escrowId, dp_initiatedBy = initiatedBy, dp_reason = reason, dp_evidence = [],
              dp_mediator = None, dp_status = DOpen, dp_createdAt = now, dp_updatedAt = now, dp_slaDeadline = slaDeadline,
              dp_escalationTier = None, dp_escalationEscalatedAt = None, dp_resolution = None\<rparr> in
     pbind (pmodify (\<lambda>w. w\<lparr>dw_disputes := jm_set i d (dw_disputes w)\<rparr>)) (\<lambda>_. pret d)))"

definition store_findById :: "string \<Rightarrow> ('w, Dispute option) dispute_prog" where
  "store_findById i = pgets (\<lambda>w. jm_get (dw_disputes w) i)"

definition store_findByEscrowId :: "string \<Rightarrow> ('w, Dispute list) dispute_prog" where
  "store_findByEscrowId e = pgets (\<lambda>w. filter (\<lambda>d. dp_escrowId d = e) (map snd (dw_disputes w)))"

definition updated_dispute :: "DisputeUpdate \<Rightarrow> ms \<Rightarrow> Dispute \<Rightarrow> Dispute" where
  "updated_dispute u now d = d\<lparr>dp_status := (case du_status u of None \<Rightarrow> dp_status d | Some s \<Rightarrow> s),
     dp_mediator := otherwise (du_mediator u) (dp_mediator d), dp_resolution := otherwise (du_resolution u) (dp_resolution d),
     dp_escalationTier := otherwise (du_escalationTier u) (dp_escalationTier d),
     dp_escalationEscalatedAt := otherwise (du_escalationEscalatedAt u) (dp_escalationEscalatedAt d), dp_updatedAt := now\<rparr>"

definition store_update :: "'w dispute_env \<Rightarrow> string \<Rightarrow> DisputeUpdate \<Rightarrow> ('w, Dispute) dispute_prog" where
  "store_update env i u =
     pbind (store_findById i) (\<lambda>found. case found of
       None \<Rightarrow> pthrow (DisputeFailure (''Dispute not found: '' @ i))
     | Some d \<Rightarrow>
         pbind (date_now env) (\<lambda>now.
         pbind (pmodify (\<lambda>w. w\<lparr>dw_disputes := jm_set i (updated_dispute u now d) (dw_disputes w),
                  dw_escalated := (if du_escalatedAt u = None then dw_escalated w else insert i (dw_escalated w))\<rparr>))
           (\<lambda>_. pret (updated_dispute u now d))))"

definition store_addEvidence :: "'w dispute_env \<Rightarrow> string \<Rightarrow> DisputeEvidenceEntry \<Rightarrow> ('w, Dispute) dispute_prog" where
  "store_addEvidence env i entry =
     pbind (store_findById i) (\<lambda>found. case found of
       None \<Rightarrow> pthrow (DisputeFailure (''Dispute not found: '' @ i))
     | Some d \<Rightarrow>
         pbind (date_now env) (\<lambda>now.
         let d' = d\<lparr>dp_evidence := dp_evidence d @ [entry], dp_updatedAt := now\<rparr> in
         pbind (pmodify (\<lambda>w. w\<lparr>dw_disputes := jm_set i d' (dw_disputes w)\<rparr>)) (\<lambda>_. pret d')))"

definition active :: "Dispute \<Rightarrow> bool" where
  "active d \<longleftrightarrow> dp_status d \<noteq> DDecided \<and> dp_status d \<noteq> DResolved"

definition store_findBreached :: "ms \<Rightarrow> ('w, Dispute list) dispute_prog" where
  "store_findBreached now = pgets (\<lambda>w. filter (\<lambda>d. active d \<and> dp_slaDeadline d \<le> now \<and> dp_id d \<notin> dw_escalated w)
     (map snd (dw_disputes w)))"

definition store_findStalled :: "ms \<Rightarrow> int \<Rightarrow> ('w, Dispute list) dispute_prog" where
  "store_findStalled now stalledHours = pgets (\<lambda>w. filter (\<lambda>d. active d \<and> dp_createdAt d \<le> now - stalledHours * 60 * 60 * 1000 \<and>
     (dp_escalationTier d = None \<or> dp_escalationTier d = Some Tier1)) (map snd (dw_disputes w)))"

section \<open>Audit log, notifications and reputation\<close>

definition recordAuditEvent ::
  "'w dispute_env \<Rightarrow> string option \<Rightarrow> string \<Rightarrow> string \<Rightarrow> string option \<Rightarrow> (string \<times> jsval) list \<Rightarrow> ('w, unit) dispute_prog" where
  "recordAuditEvent env did eid ty actor details =
     pbind (date_now env) (\<lambda>now.
     pmodify (\<lambda>w. w\<lparr>dw_audit := dw_audit w @ [\<lparr>al_disputeId = did, al_escrowId = eid, al_eventType = ty, al_actor = actor,
       al_details = details, al_createdAt = now\<rparr>]\<rparr>))"

definition listAuditLogForDispute :: "string \<Rightarrow> ('w, AuditLogEntry list) dispute_prog" where
  "listAuditLogForDispute i = pgets (\<lambda>w. filter (\<lambda>e. al_disputeId e = Some i) (dw_audit w))"

fun status_text :: "DisputeStatus \<Rightarrow> string" where
  "status_text DOpen = ''open''"
| "status_text DEvidence = ''evidence_collection''"
| "status_text DNegotiation = ''negotiation''"
| "status_text DMerchantResponded = ''merchant_responded''"
| "status_text DDecided = ''decided''"
| "status_text DResolved = ''resolved''"

definition js_optional :: "string option \<Rightarrow> jsval" where
  "js_optional s = (case s of None \<Rightarrow> JUndefined | Some t \<Rightarrow> JStr t)"

text \<open>A failing publisher is logged and ignored.\<close>

definition emit :: "'w dispute_env \<Rightarrow> string \<Rightarrow> string \<Rightarrow> string \<Rightarrow> (string \<times> jsval) list \<Rightarrow> ('w, unit) dispute_prog" where
  "emit env ty orderId escrowId payload =
     pbind (date_now env) (\<lambda>now.
     pcatch (coordinator (run_env (dn_publishPaymentEvent env \<lparr>dv_type = ty, dv_orderId = orderId, dv_paymentId = escrowId,
               dv_payload = payload, dv_occurredAt = now\<rparr>)))
       (\<lambda>_. pret ()))"

text \<open>The spread of \<^verbatim>\<open>extra\<close> may override the four properties, keeping their places.\<close>

definition js_spread :: "(string \<times> jsval) list \<Rightarrow> (string \<times> jsval) list \<Rightarrow> (string \<times> jsval) list" where
  "js_spread ob extra = foldl (\<lambda>o' kv. jm_set (fst kv) (snd kv) o') ob extra"

definition notifyDisputeParties ::
  "'w dispute_env \<Rightarrow> string \<Rightarrow> string \<Rightarrow> Dispute \<Rightarrow> (string \<times> jsval) list \<Rightarrow> ('w, unit) dispute_prog" where
  "notifyDisputeParties env ty orderId d extra = emit env ty orderId (dp_escrowId d)
     (js_spread [(''disputeId'', JStr (dp_id d)), (''escrowId'', JStr (dp_escrowId d)), (''status'', JStr (status_text (dp_status d))),
       (''mediator'', js_optional (dp_mediator d))] extra)"

definition notifyPartialRefundExecuted ::
  "'w dispute_env \<Rightarrow> string \<Rightarrow> string \<Rightarrow> (string \<times> jsval) list \<Rightarrow> ('w, unit) dispute_prog" where
  "notifyPartialRefundExecuted env orderId eid payload = emit env ''partial_refund_executed'' orderId eid
     (js_spread [(''disputeId'', JStr ''''), (''escrowId'', JStr eid)] payload)"

datatype ResolutionOutcome = Favorable | Unfavorable | Neutral

definition emptyRecord :: DisputeReputationRecord where
  "emptyRecord = \<lparr>dr_disputesInitiated = 0, dr_disputesInvolved = 0, dr_disputesResolvedFavorably = 0,
     dr_disputesResolvedUnfavorably = 0, dr_lastDisputeAt = None\<rparr>"

definition change_reputation :: "string \<Rightarrow> (DisputeReputationRecord \<Rightarrow> DisputeReputationRecord) \<Rightarrow> ('w, unit) dispute_prog" where
  "change_reputation a f = pmodify (\<lambda>w. w\<lparr>dw_reputation :=
     jm_set a (f (case jm_get (dw_reputation w) a of None \<Rightarrow> emptyRecord | Some r \<Rightarrow> r)) (dw_reputation w)\<rparr>)"

definition recordDisputeInitiated :: "'w dispute_env \<Rightarrow> string \<Rightarrow> ('w, unit) dispute_prog" where
  "recordDisputeInitiated env a = pbind (date_now env) (\<lambda>now.
     change_reputation a (\<lambda>r. r\<lparr>dr_disputesInitiated := dr_disputesInitiated r + 1, dr_lastDisputeAt := Some now\<rparr>))"

definition recordDisputeInvolved :: "'w dispute_env \<Rightarrow> string \<Rightarrow> ('w, unit) dispute_prog" where
  "recordDisputeInvolved env a = pbind (date_now env) (\<lambda>now.
     change_reputation a (\<lambda>r. r\<lparr>dr_disputesInvolved := dr_disputesInvolved r + 1, dr_lastDisputeAt := Some now\<rparr>))"

definition recordOutcome :: "string \<Rightarrow> ResolutionOutcome \<Rightarrow> ('w, unit) dispute_prog" where
  "recordOutcome a oc = change_reputation a (\<lambda>r. case oc of
       Favorable \<Rightarrow> r\<lparr>dr_disputesResolvedFavorably := dr_disputesResolvedFavorably r + 1\<rparr>
     | Unfavorable \<Rightarrow> r\<lparr>dr_disputesResolvedUnfavorably := dr_disputesResolvedUnfavorably r + 1\<rparr>
     | Neutral \<Rightarrow> r)"

definition getDisputeReputation :: "string \<Rightarrow> ('w, DisputeReputationRecord option) dispute_prog" where
  "getDisputeReputation a = pgets (\<lambda>w. jm_get (dw_reputation w) a)"

definition bigint :: "string \<Rightarrow> ('w, int) dispute_prog" where
  "bigint s = (case js_BigInt s of None \<Rightarrow> pthrow (DisputeFailure (''Cannot convert '' @ s @ '' to a BigInt'')) | Some n \<Rightarrow> pret n)"

definition classifyOutcome :: "int \<Rightarrow> int \<Rightarrow> ResolutionOutcome" where
  "classifyOutcome mine other = (if mine > other then Favorable else if mine < other then Unfavorable else Neutral)"

definition recordDisputeOutcome :: "string \<Rightarrow> string \<Rightarrow> string \<Rightarrow> string \<Rightarrow> ('w, unit) dispute_prog" where
  "recordDisputeOutcome buyer seller buyerAmount sellerAmount =
     pbind (bigint buyerAmount) (\<lambda>b. pbind (bigint sellerAmount) (\<lambda>s.
     pbind (recordOutcome buyer (classifyOutcome b s)) (\<lambda>_. recordOutcome seller (classifyOutcome s b))))"

end
