(* ===== verification/Dispute_Mediation.thy ===== *)
theory Dispute_Mediation
  imports Complex_Main Dispute_Store
begin

text \<open>
  The dispute workflow: opening, evidence, mediator assignment, merchant response, decision and its execution
  (mediation.ts), the partial refund request (partialRefund.ts), the two escalation scans (slaEscalation.ts,
  escalationWorker.ts) and the rule-based mediator (mediator.ts).
\<close>

section \<open>Helpers\<close>

fun dispute_message :: "dispute_error \<Rightarrow> string" where
  "dispute_message (DisputeNotFoundError i) = ''Dispute '' @ i @ '' not found''"
| "dispute_message (DisputeAlreadyResolvedError i) = ''Dispute '' @ i @ '' is already resolved''"
| "dispute_message (InvalidStateTransitionError a b) =
     ''Cannot transition dispute from '' @ [CHR 0x22] @ status_text a @ [CHR 0x22] @ '' to '' @ [CHR 0x22] @ status_text b @ [CHR 0x22]"
| "dispute_message (InvalidResolutionAmountsError m) = m"
| "dispute_message (InvalidPartialRefundAmountError a) =
     ''Partial refund amount must be a positive integer (stroops); received '' @ [CHR 0x22] @ a @ [CHR 0x22]"
| "dispute_message DisputeRangeError = ''Invalid time value''"
| "dispute_message (DisputeFailure m) = m"
| "dispute_message (EscrowFailure e) = escrow_message e"

definition require_dispute :: "string \<Rightarrow> ('w, Dispute) dispute_prog" where
  "require_dispute i = pbind (store_findById i) (\<lambda>found. case found of
     None \<Rightarrow> pthrow (DisputeNotFoundError i) | Some d \<Rightarrow> pret d)"

definition safeGetBalance :: "string \<Rightarrow> ('w, RemainingBalance option) dispute_prog" where
  "safeGetBalance eid = pcatch (pbind (coordinator (getRemainingBalance eid)) (\<lambda>b. pret (Some b))) (\<lambda>_. pret None)"

text \<open>\<^verbatim>\<open>toISOString\<close> of an instant more than 8640000000000000 milliseconds away from 1970 throws.\<close>

definition iso_checked :: "ms \<Rightarrow> ('w, ms) dispute_prog" where
  "iso_checked t = (if \<bar>t\<bar> > 8640000000000000 then pthrow DisputeRangeError else pret t)"

section \<open>Opening a dispute\<close>

definition DEFAULT_SLA_DAYS :: int where "DEFAULT_SLA_DAYS = 14"

record OpenDisputeParams =
  od_escrowId :: string
  od_initiatedBy :: string
  od_reason :: string
  od_slaDays :: "int option"

definition openDispute :: "'w dispute_env \<Rightarrow> OpenDisputeParams \<Rightarrow> ('w, Dispute) dispute_prog" where
  "openDispute env p =
     pbind (coordinator (getRemainingBalance (od_escrowId p))) (\<lambda>balance.
     pbind (date_now env) (\<lambda>now.
     pbind (iso_checked (now + (case od_slaDays p of None \<Rightarrow> DEFAULT_SLA_DAYS | Some n \<Rightarrow> n) * 24 * 60 * 60 * 1000)) (\<lambda>slaDeadline.
     pbind (store_create env (od_escrowId p) (od_initiatedBy p) (od_reason p) slaDeadline) (\<lambda>dispute.
     pbind (pcatch
         (pbind (contract_id env) (\<lambda>cid.
          pbind (coordinator (disputeEscrow (dn_escrow env)
                   \<lparr>ep_escrowId = od_escrowId p, ep_escrowContractId = cid, ep_callerAddress = od_initiatedBy p\<rparr>)) (\<lambda>_. pret ())))
         (\<lambda>e. recordAuditEvent env (Some (dp_id dispute)) (od_escrowId p) ''dispute_onchain_flag_failed'' (Some (od_initiatedBy p))
                [(''error'', JStr (dispute_message e))])) (\<lambda>_.
     let other = (if od_initiatedBy p = rb_buyerAddress balance then rb_sellerAddress balance else rb_buyerAddress balance) in
     pbind (recordDisputeInitiated env (od_initiatedBy p)) (\<lambda>_.
     pbind (recordDisputeInvolved env other) (\<lambda>_.
     pbind (recordAuditEvent env (Some (dp_id dispute)) (od_escrowId p) ''dispute_opened'' (Some (od_initiatedBy p))
              [(''reason'', JStr (od_reason p)), (''slaDeadline'', JNum slaDeadline)]) (\<lambda>_.
     pbind (notifyDisputeParties env ''dispute_opened'' (rb_orderId balance) dispute []) (\<lambda>_.
     pret dispute)))))))))"

section \<open>Evidence, mediators and the merchant's response\<close>

definition js_strings :: "string list \<Rightarrow> jsval" where
  "js_strings xs = JArr (map JStr xs)"

definition submitEvidence ::
  "'w dispute_env \<Rightarrow> string \<Rightarrow> string \<Rightarrow> string \<Rightarrow> string list \<Rightarrow> ('w, Dispute) dispute_prog" where
  "submitEvidence env disputeId party description files =
     pbind (require_dispute disputeId) (\<lambda>dispute.
     if dp_status dispute \<noteq> DOpen \<and> dp_status dispute \<noteq> DEvidence
     then pthrow (InvalidStateTransitionError (dp_status dispute) DEvidence)
     else
       pbind (date_now env) (\<lambda>now.
       pbind (store_addEvidence env disputeId
                \<lparr>de_party = party, de_description = description, de_files = files, de_submittedAt = now\<rparr>) (\<lambda>updated.
       pbind (if dp_status updated = DOpen
              then pbind (assertTransition DOpen DEvidence) (\<lambda>_.
                   store_update env disputeId (no_change\<lparr>du_status := Some DEvidence\<rparr>))
              else pret updated) (\<lambda>updated.
       pbind (recordAuditEvent env (Some disputeId) (dp_escrowId dispute) ''dispute_evidence_submitted'' (Some party)
                [(''description'', JStr description), (''files'', js_strings files)]) (\<lambda>_.
       pbind (safeGetBalance (dp_escrowId dispute)) (\<lambda>balance.
       pbind (case balance of None \<Rightarrow> pret ()
              | Some b \<Rightarrow> notifyDisputeParties env ''dispute_evidence_submitted'' (rb_orderId b) updated [(''party'', JStr party)]) (\<lambda>_.
       pret updated)))))))"

definition assignMediator :: "'w dispute_env \<Rightarrow> string \<Rightarrow> string \<Rightarrow> string option \<Rightarrow> ('w, Dispute) dispute_prog" where
  "assignMediator env disputeId mediator assignedBy =
     pbind (require_dispute disputeId) (\<lambda>dispute.
     if dp_status dispute = DDecided \<or> dp_status dispute = DResolved
     then pthrow (InvalidStateTransitionError (dp_status dispute) DNegotiation)
     else
       pbind (planAdvance (dp_status dispute) DNegotiation) (\<lambda>_.
       pbind (store_update env disputeId (no_change\<lparr>du_status := Some DNegotiation, du_mediator := Some mediator\<rparr>)) (\<lambda>updated.
       pbind (recordAuditEvent env (Some disputeId) (dp_escrowId dispute) ''dispute_mediator_assigned''
                (Some (case assignedBy of None \<Rightarrow> mediator | Some a \<Rightarrow> a)) [(''mediator'', JStr mediator)]) (\<lambda>_.
       pbind (safeGetBalance (dp_escrowId dispute)) (\<lambda>balance.
       pbind (case balance of None \<Rightarrow> pret ()
              | Some b \<Rightarrow> notifyDisputeParties env ''dispute_mediator_assigned'' (rb_orderId b) updated []) (\<lambda>_.
       pret updated))))))"

text \<open>\<^verbatim>\<open>s.split(",")\<close>.\<close>

fun split_at :: "char \<Rightarrow> string \<Rightarrow> string list" where
  "split_at sep [] = [[]]"
| "split_at sep (c # cs) = (if c = sep then [] # split_at sep cs
     else (case split_at sep cs of [] \<Rightarrow> [[c]] | x # xs \<Rightarrow> (c # x) # xs))"

definition mediator_pool :: "'w dispute_env \<Rightarrow> string list" where
  "mediator_pool env = filter (\<lambda>s. s \<noteq> []) (map js_trim (split_at (CHR '','') (or_empty (dn_DISPUTE_MEDIATOR_POOL env))))"

definition autoAssignMediator :: "'w dispute_env \<Rightarrow> string \<Rightarrow> ('w, Dispute) dispute_prog" where
  "autoAssignMediator env disputeId =
     (let pool = mediator_pool env in
      if pool = [] then pthrow (DisputeFailure ''DISPUTE_MEDIATOR_POOL is not configured; assign a mediator explicitly'')
      else
        pbind (pgets dw_cursor) (\<lambda>cursor.
        pbind (pmodify (\<lambda>w. w\<lparr>dw_cursor := dw_cursor w + 1\<rparr>)) (\<lambda>_.
        assignMediator env disputeId (pool ! (cursor mod length pool)) (Some ''auto-assignment''))))"

text \<open>The regular expression \<^verbatim>\<open>/^[0-9]+$/\<close>.\<close>

definition all_digits :: "string \<Rightarrow> bool" where
  "all_digits s \<longleftrightarrow> s \<noteq> [] \<and> list_all digit s"

definition parseRefundAmount :: "string \<Rightarrow> ('w, int) dispute_prog" where
  "parseRefundAmount amount =
     (if \<not> all_digits amount then pthrow (DisputeFailure (''Invalid amount format: '' @ amount))
      else pbind (bigint amount) (\<lambda>v.
           if v \<le> 0 then pthrow (DisputeFailure (''Amount must be positive: '' @ amount)) else pret v))"

definition submitMerchantResponse ::
  "'w dispute_env \<Rightarrow> string \<Rightarrow> string \<Rightarrow> string \<Rightarrow> string list option \<Rightarrow> string option \<Rightarrow> ('w, Dispute) dispute_prog" where
  "submitMerchantResponse env disputeId party statement files offer =
     pbind (require_dispute disputeId) (\<lambda>dispute.
     if dp_status dispute \<noteq> DNegotiation then pthrow (InvalidStateTransitionError (dp_status dispute) DMerchantResponded)
     else
       pbind (safeGetBalance (dp_escrowId dispute)) (\<lambda>found. case found of
         None \<Rightarrow> pthrow (DisputeFailure ''Unable to retrieve escrow balance'')
       | Some balance \<Rightarrow>
       if party \<noteq> rb_sellerAddress balance then pthrow (DisputeFailure ''Only the merchant can submit a merchant response'')
       else
         pbind (if truthy offer
                then pbind (parseRefundAmount (or_empty offer)) (\<lambda>requested.
                     if requested > rb_remainingAmount balance
                     then pthrow (DisputeFailure (''Partial refund amount '' @ or_empty offer @ '' exceeds remaining balance '' @
                            show_int (rb_remainingAmount balance)))
                     else pret ())
                else pret ()) (\<lambda>_.
         pbind (date_now env) (\<lambda>now.
         pbind (store_addEvidence env disputeId \<lparr>de_party = party, de_description = statement,
                  de_files = (case files of None \<Rightarrow> [] | Some fs \<Rightarrow> fs), de_submittedAt = now\<rparr>) (\<lambda>updated.
         pbind (if dp_status updated = DNegotiation
                then pbind (assertTransition DNegotiation DMerchantResponded) (\<lambda>_.
                     store_update env disputeId (no_change\<lparr>du_status := Some DMerchantResponded\<rparr>))
                else pret updated) (\<lambda>updated.
         let details = [(''responseStatement'', JStr statement),
                        (''evidenceFiles'', case files of None \<Rightarrow> JUndefined | Some fs \<Rightarrow> js_strings fs),
                        (''partialRefundAmountStroops'', js_optional offer)] in
         pbind (recordAuditEvent env (Some disputeId) (dp_escrowId dispute) ''dispute_merchant_response_submitted'' (Some party) details) (\<lambda>_.
         pbind (notifyDisputeParties env ''dispute_merchant_response_submitted'' (rb_orderId balance) updated
                  ((''party'', JStr party) # details)) (\<lambda>_.
         pret updated))))))))"

section \<open>The decision and its execution\<close>

definition validateResolutionAmounts :: "MediationDecision \<Rightarrow> int \<Rightarrow> ('w, unit) dispute_prog" where
  "validateResolutionAmounts decision remaining =
     (case (js_BigInt (md_buyerAmount decision), js_BigInt (md_sellerAmount decision)) of
        (Some buyerAmount, Some sellerAmount) \<Rightarrow>
          if buyerAmount < 0 \<or> sellerAmount < 0
          then pthrow (InvalidResolutionAmountsError ''buyerAmount and sellerAmount must not be negative'')
          else if buyerAmount + sellerAmount \<noteq> remaining
          then pthrow (InvalidResolutionAmountsError (''buyerAmount + sellerAmount ('' @ show_int (buyerAmount + sellerAmount) @
                 '') must equal the remaining escrow balance ('' @ show_int remaining @ '')''))
          else if md_decision decision = FullRefund \<and> sellerAmount \<noteq> 0
          then pthrow (InvalidResolutionAmountsError (''full_refund resolutions must set sellerAmount to '' @ [CHR 0x22, CHR ''0'', CHR 0x22]))
          else if md_decision decision = ReleaseToSeller \<and> buyerAmount \<noteq> 0
          then pthrow (InvalidResolutionAmountsError (''release_to_seller resolutions must set buyerAmount to '' @ [CHR 0x22, CHR ''0'', CHR 0x22]))
          else pret ()
      | _ \<Rightarrow> pthrow (InvalidResolutionAmountsError ''buyerAmount and sellerAmount must be integer stroops strings''))"

text \<open>The two transfers of a resolution: the hashes they produced, or the error and the hashes produced before it.\<close>

definition transfer_call :: "Dispute \<Rightarrow> DisputeResolution \<Rightarrow> string \<Rightarrow> EscrowCallParams" where
  "transfer_call dispute resolution cid =
     \<lparr>ep_escrowId = dp_escrowId dispute, ep_escrowContractId = cid, ep_callerAddress = rs_decidedBy resolution\<rparr>"

definition buyer_transfer ::
  "'w dispute_env \<Rightarrow> Dispute \<Rightarrow> DisputeResolution \<Rightarrow> string \<Rightarrow> int \<Rightarrow> ('w, string option) dispute_prog" where
  "buyer_transfer env dispute resolution cid buyerAmount =
     (if buyerAmount > 0
      then pbind (coordinator (partialRefundEscrow (dn_escrow env) (transfer_call dispute resolution cid)
                    (js_BigInt (rs_buyerAmount resolution)) (''dispute_resolution:'' @ dp_id dispute))) (\<lambda>refund.
           if pt_status refund \<noteq> OpPartialRefunded
           then pthrow (DisputeFailure ''Buyer-side dispute resolution transfer failed on-chain'')
           else pret (Some (pt_txHash refund)))
      else pret None)"

definition seller_transfer ::
  "'w dispute_env \<Rightarrow> Dispute \<Rightarrow> DisputeResolution \<Rightarrow> string \<Rightarrow> int \<Rightarrow> ('w, string option) dispute_prog" where
  "seller_transfer env dispute resolution cid sellerAmount =
     (if sellerAmount > 0
      then pbind (coordinator (partialReleaseEscrow (dn_escrow env) (transfer_call dispute resolution cid)
                    (js_BigInt (rs_sellerAmount resolution)) (Some (''Dispute '' @ dp_id dispute @ '' resolution: release to seller'')))) (\<lambda>release.
           if pt_status release \<noteq> OpPartialReleased
           then pthrow (DisputeFailure ''Seller-side dispute resolution transfer failed on-chain'')
           else pret (Some (pt_txHash release)))
      else pret None)"

definition resolution_text :: "ResolutionType \<Rightarrow> string" where
  "resolution_text t = (case t of FullRefund \<Rightarrow> ''full_refund'' | PartialRefundTo \<Rightarrow> ''partial_refund''
     | ReleaseToSeller \<Rightarrow> ''release_to_seller'' | SplitBetween \<Rightarrow> ''split'')"

definition resolution_object :: "DisputeResolution \<Rightarrow> (string \<times> jsval) list" where
  "resolution_object r = [(''type'', JStr (resolution_text (rs_type r))), (''buyerAmount'', JStr (rs_buyerAmount r)),
     (''sellerAmount'', JStr (rs_sellerAmount r)), (''decidedBy'', JStr (rs_decidedBy r)), (''decidedAt'', JNum (rs_decidedAt r))]"

text \<open>What follows a failed transfer: the dispute stays decided.\<close>

definition execution_failed ::
  "'w dispute_env \<Rightarrow> Dispute \<Rightarrow> RemainingBalance \<Rightarrow> string \<Rightarrow> string option \<Rightarrow> ('w, Dispute) dispute_prog" where
  "execution_failed env dispute balance message buyerTx =
     pbind (store_update env (dp_id dispute) (no_change\<lparr>du_resolutionError := Some (Some message)\<rparr>)) (\<lambda>_.
     pbind (recordAuditEvent env (Some (dp_id dispute)) (dp_escrowId dispute) ''dispute_resolution_failed'' None
              [(''error'', JStr message), (''buyerTx'', js_optional buyerTx), (''sellerTx'', JUndefined)]) (\<lambda>_.
     pbind (notifyDisputeParties env ''dispute_status_changed'' (rb_orderId balance) dispute [(''error'', JStr message)]) (\<lambda>_.
     pret dispute)))"

definition execution_done ::
  "'w dispute_env \<Rightarrow> Dispute \<Rightarrow> DisputeResolution \<Rightarrow> RemainingBalance \<Rightarrow> string option \<Rightarrow> string option \<Rightarrow> ('w, Dispute) dispute_prog" where
  "execution_done env dispute resolution balance buyerTx sellerTx =
     pbind (store_update env (dp_id dispute) (no_change\<lparr>du_status := Some DResolved, du_resolutionError := Some None\<rparr>)) (\<lambda>resolved.
     pbind (recordAuditEvent env (Some (dp_id dispute)) (dp_escrowId dispute) ''dispute_resolved'' None
              [(''buyerTx'', js_optional buyerTx), (''sellerTx'', js_optional sellerTx), (''resolution'', JObj (resolution_object resolution))]) (\<lambda>_.
     pbind (notifyDisputeParties env ''dispute_resolved'' (rb_orderId balance) resolved
              [(''buyerTx'', js_optional buyerTx), (''sellerTx'', js_optional sellerTx)]) (\<lambda>_.
     pbind (recordDisputeOutcome (rb_buyerAddress balance) (rb_sellerAddress balance)
              (rs_buyerAmount resolution) (rs_sellerAmount resolution)) (\<lambda>_.
     pret resolved))))"

definition executeDecision :: "'w dispute_env \<Rightarrow> string \<Rightarrow> ('w, Dispute) dispute_prog" where
  "executeDecision env disputeId =
     pbind (require_dispute disputeId) (\<lambda>dispute.
     if dp_status dispute = DResolved then pret dispute
     else case (if dp_status dispute \<noteq> DDecided then None else dp_resolution dispute) of
       None \<Rightarrow> pthrow (InvalidStateTransitionError (dp_status dispute) DResolved)
     | Some resolution \<Rightarrow>
       pbind (coordinator (getRemainingBalance (dp_escrowId dispute))) (\<lambda>balance.
       pbind (contract_id env) (\<lambda>cid.
       pbind (bigint (rs_buyerAmount resolution)) (\<lambda>buyerAmount.
       pbind (bigint (rs_sellerAmount resolution)) (\<lambda>sellerAmount.
       pbind (ptry (buyer_transfer env dispute resolution cid buyerAmount)) (\<lambda>first. case first of
         Inl e \<Rightarrow> execution_failed env dispute balance (dispute_message e) None
       | Inr buyerTx \<Rightarrow>
           pbind (ptry (seller_transfer env dispute resolution cid sellerAmount)) (\<lambda>second. case second of
             Inl e \<Rightarrow> execution_failed env dispute balance (dispute_message e) buyerTx
           | Inr sellerTx \<Rightarrow> execution_done env dispute resolution balance buyerTx sellerTx)))))))"

definition submitMediationDecision :: "'w dispute_env \<Rightarrow> MediationDecision \<Rightarrow> ('w, Dispute) dispute_prog" where
  "submitMediationDecision env decision =
     pbind (require_dispute (md_disputeId decision)) (\<lambda>dispute.
     if dp_status dispute = DResolved then pthrow (DisputeAlreadyResolvedError (dp_id dispute))
     else
       pbind (assertTransition (dp_status dispute) DDecided) (\<lambda>_.
       pbind (coordinator (getRemainingBalance (dp_escrowId dispute))) (\<lambda>balance.
       pbind (validateResolutionAmounts decision (rb_remainingAmount balance)) (\<lambda>_.
       pbind (date_now env) (\<lambda>now.
       let resolution = \<lparr>rs_type = md_decision decision, rs_buyerAmount = md_buyerAmount decision,
             rs_sellerAmount = md_sellerAmount decision, rs_decidedBy = md_mediator decision, rs_decidedAt = now\<rparr> in
       pbind (store_update env (dp_id dispute) (no_change\<lparr>du_status := Some DDecided, du_resolution := Some resolution\<rparr>)) (\<lambda>updated.
       pbind (recordAuditEvent env (Some (dp_id dispute)) (dp_escrowId dispute) ''dispute_decided'' (Some (md_mediator decision))
                (resolution_object resolution @ [(''reasoning'', JStr (md_reasoning decision))])) (\<lambda>_.
       pbind (notifyDisputeParties env ''dispute_decided'' (rb_orderId balance) updated [(''reasoning'', JStr (md_reasoning decision))]) (\<lambda>_.
       executeDecision env (dp_id updated)))))))))"

section \<open>Partial refunds on request\<close>

record PartialRefundRequest =
  pq_escrowId :: string
  pq_amount :: string
  pq_reason :: string
  pq_requestedBy :: string
  pq_evidence :: "string list option"

record PartialRefundOutcome =
  po_escrowId :: string
  po_success :: bool
  po_transactionHash :: "string option"
  po_refundedAmount :: int
  po_remainingAmount :: int
  po_error :: "string option"

definition parseAmount :: "string \<Rightarrow> ('w, int) dispute_prog" where
  "parseAmount amount =
     (if \<not> all_digits amount then pthrow (InvalidPartialRefundAmountError amount)
      else pbind (bigint amount) (\<lambda>v. if v \<le> 0 then pthrow (InvalidPartialRefundAmountError amount) else pret v))"

definition outcome_object :: "PartialRefundOutcome \<Rightarrow> (string \<times> jsval) list" where
  "outcome_object oc = [(''escrowId'', JStr (po_escrowId oc)), (''success'', JBool (po_success oc)),
     (''transactionHash'', js_optional (po_transactionHash oc)), (''refundedAmount'', JStr (show_int (po_refundedAmount oc))),
     (''remainingAmount'', JStr (show_int (po_remainingAmount oc))), (''error'', js_optional (po_error oc))]"

definition executePartialRefund :: "'w dispute_env \<Rightarrow> PartialRefundRequest \<Rightarrow> ('w, PartialRefundOutcome) dispute_prog" where
  "executePartialRefund env request =
     pbind (parseAmount (pq_amount request)) (\<lambda>requested.
     pbind (coordinator (getRemainingBalance (pq_escrowId request))) (\<lambda>balance.
     pbind (contract_id env) (\<lambda>cid.
     if requested > rb_remainingAmount balance
     then pthrow (EscrowFailure (InsufficientEscrowBalance (pq_escrowId request) (rb_remainingAmount balance) requested))
     else
       pbind (recordAuditEvent env None (pq_escrowId request) ''partial_refund_requested'' (Some (pq_requestedBy request))
                [(''amount'', JStr (pq_amount request)), (''reason'', JStr (pq_reason request)),
                 (''evidence'', js_strings (case pq_evidence request of None \<Rightarrow> [] | Some xs \<Rightarrow> xs))]) (\<lambda>_.
       pbind (coordinator (partialRefundEscrow (dn_escrow env)
                \<lparr>ep_escrowId = pq_escrowId request, ep_escrowContractId = cid, ep_callerAddress = pq_requestedBy request\<rparr>
                (js_BigInt (pq_amount request)) (pq_reason request))) (\<lambda>result.
       let outcome = \<lparr>po_escrowId = pq_escrowId request, po_success = (pt_status result = OpPartialRefunded),
             po_transactionHash = (if pt_status result = OpPartialRefunded then Some (pt_txHash result) else None),
             po_refundedAmount = pt_movedAmount result, po_remainingAmount = pt_remainingAmount result,
             po_error = (if pt_status result = OpFailed then Some ''Partial refund transaction failed on-chain'' else None)\<rparr> in
       pbind (recordAuditEvent env None (pq_escrowId request)
                (if po_success outcome then ''partial_refund_executed'' else ''partial_refund_failed'') (Some (pq_requestedBy request))
                (outcome_object outcome)) (\<lambda>_.
       pbind (notifyPartialRefundExecuted env (rb_orderId balance) (pq_escrowId request)
                (js_spread [(''requestedBy'', JStr (pq_requestedBy request)), (''reason'', JStr (pq_reason request))] (outcome_object outcome))) (\<lambda>_.
       pret outcome)))))))"

section \<open>Escalation scans\<close>

definition safeGetOrderId :: "string \<Rightarrow> ('w, string option) dispute_prog" where
  "safeGetOrderId eid = pcatch (pbind (coordinator (getRemainingBalance eid)) (\<lambda>b. pret (Some (rb_orderId b)))) (\<lambda>_. pret None)"

text \<open>\<^verbatim>\<open>try { body } catch { log }\<close> around the body of a loop: the loop-carried value is unchanged by a failed turn.\<close>

definition logged :: "'a \<Rightarrow> ('w, 'a) dispute_prog \<Rightarrow> ('w, 'a) dispute_prog" where
  "logged a m = pcatch m (\<lambda>_. pret a)"

record SlaEscalationResult =
  sl_scanned :: nat
  sl_escalated :: "Dispute list"

definition escalate_breached :: "'w dispute_env \<Rightarrow> ms \<Rightarrow> Dispute \<Rightarrow> Dispute list \<Rightarrow> ('w, Dispute list) dispute_prog" where
  "escalate_breached env now dispute escalated = logged escalated
     (pbind (iso_checked now) (\<lambda>escalatedAt.
      pbind (store_update env (dp_id dispute) (no_change\<lparr>du_escalatedAt := Some escalatedAt\<rparr>)) (\<lambda>updated.
      pbind (recordAuditEvent env (Some (dp_id dispute)) (dp_escrowId dispute) ''dispute_sla_breached'' None
               [(''slaDeadline'', JNum (dp_slaDeadline dispute)), (''escalatedAt'', JNum escalatedAt), (''mediator'', js_optional (dp_mediator dispute))]) (\<lambda>_.
      pbind (safeGetOrderId (dp_escrowId dispute)) (\<lambda>orderId.
      pbind (if truthy orderId
             then notifyDisputeParties env ''dispute_sla_breached'' (or_empty orderId) updated [(''slaDeadline'', JNum (dp_slaDeadline dispute))]
             else pret ()) (\<lambda>_.
      pret (escalated @ [updated])))))))"

definition findAndEscalateBreachedDisputes :: "'w dispute_env \<Rightarrow> ms \<Rightarrow> ('w, SlaEscalationResult) dispute_prog" where
  "findAndEscalateBreachedDisputes env now =
     pbind (store_findBreached now) (\<lambda>breached.
     pbind (pfor breached [] (escalate_breached env now)) (\<lambda>escalated.
     pret \<lparr>sl_scanned = length breached, sl_escalated = escalated\<rparr>))"

definition DEFAULT_STALLED_HOURS :: int where "DEFAULT_STALLED_HOURS = 72"

record DisputeEscalationRule =
  er_disputeId :: string
  er_stalledHours :: int
  er_assignedTier :: DisputeTier

fun tier_text :: "DisputeTier \<Rightarrow> string" where
  "tier_text Tier1 = ''tier1''"
| "tier_text Senior = ''senior''"

definition notifySeniorArbitrators :: "'w dispute_env \<Rightarrow> Dispute \<Rightarrow> DisputeEscalationRule \<Rightarrow> ('w, unit) dispute_prog" where
  "notifySeniorArbitrators env dispute rule =
     pbind (safeGetOrderId (dp_escrowId dispute)) (\<lambda>orderId.
     if \<not> truthy orderId then pret ()
     else notifyDisputeParties env ''dispute_escalated'' (or_empty orderId) dispute
            [(''assignedTier'', JStr (tier_text (er_assignedTier rule))), (''stalledHours'', JNum (er_stalledHours rule))])"

definition escalate_stalled ::
  "'w dispute_env \<Rightarrow> ms \<Rightarrow> int \<Rightarrow> Dispute \<Rightarrow> DisputeEscalationRule list \<Rightarrow> ('w, DisputeEscalationRule list) dispute_prog" where
  "escalate_stalled env now hours dispute escalated =
     (let rule = \<lparr>er_disputeId = dp_id dispute, er_stalledHours = hours, er_assignedTier = Senior\<rparr> in
      logged escalated
        (pbind (iso_checked now) (\<lambda>escalatedAt.
         pbind (store_update env (dp_id dispute) (no_change\<lparr>du_escalationTier := Some (er_assignedTier rule), du_escalationEscalatedAt := Some escalatedAt\<rparr>)) (\<lambda>updated.
         pbind (recordAuditEvent env (Some (dp_id dispute)) (dp_escrowId dispute) ''dispute_escalated'' None
                  [(''stalledHours'', JNum hours), (''assignedTier'', JStr (tier_text (er_assignedTier rule))),
                   (''previousTier'', JStr (case dp_escalationTier dispute of None \<Rightarrow> ''tier1'' | Some t \<Rightarrow> tier_text t)),
                   (''escalatedAt'', JNum escalatedAt)]) (\<lambda>_.
         pbind (notifySeniorArbitrators env updated rule) (\<lambda>_.
         pret (escalated @ [rule])))))))"

definition findAndEscalateStalledDisputes ::
  "'w dispute_env \<Rightarrow> ms \<Rightarrow> int \<Rightarrow> ('w, nat \<times> DisputeEscalationRule list) dispute_prog" where
  "findAndEscalateStalledDisputes env now hours =
     pbind (store_findStalled now hours) (\<lambda>stalled.
     pbind (pfor stalled [] (escalate_stalled env now hours)) (\<lambda>escalated.
     pret (length stalled, escalated)))"

section \<open>Rule-based mediation\<close>

text \<open>Confidences are in hundredths.\<close>

datatype verdict = RefundBuyer | PayoutMerchant | EscalateHuman

record DisputeMediationDecision =
  dm_disputeId :: string
  dm_verdict :: verdict
  dm_confidence :: int
  dm_reasoning :: string

datatype carrier_status = Delivered | ReturnToSender | InTransit | OutForDelivery | FailedDelivery | UnknownStatus

fun carrier_text :: "carrier_status \<Rightarrow> string" where
  "carrier_text Delivered = ''delivered''"
| "carrier_text ReturnToSender = ''return_to_sender''"
| "carrier_text InTransit = ''in_transit''"
| "carrier_text OutForDelivery = ''out_for_delivery''"
| "carrier_text FailedDelivery = ''failed_delivery''"
| "carrier_text UnknownStatus = ''unknown''"

definition joined_text :: "DisputeEvidenceEntry list \<Rightarrow> string" where
  "joined_text es = concat (case map (js_lower \<circ> de_description) es of [] \<Rightarrow> [] | t # ts \<Rightarrow> t # map (\<lambda>x. '' '' @ x) ts)"

definition analyzeEvidence :: "DisputeEvidenceEntry list \<Rightarrow> (verdict \<times> int \<times> string) option" where
  "analyzeEvidence es =
     (let allText = joined_text es in
      if js_includes allText ''returned to sender'' \<or> js_includes allText ''return to sender'' \<or>
         js_includes allText ''not received'' \<or> js_includes allText ''package lost''
      then Some (RefundBuyer, 75, ''Evidence descriptions contain clear indicators that goods were not received '' @
             ''or were returned. Refunding buyer based on evidence analysis.'')
      else if js_includes allText ''proof of delivery'' \<or> js_includes allText ''signed for'' \<or>
         js_includes allText ''delivered successfully'' \<or> js_includes allText ''confirmed delivery''
      then Some (PayoutMerchant, 75, ''Evidence contains proof-of-delivery indicators. Releasing funds to merchant '' @
             ''based on evidence analysis.'')
      else None)"

text \<open>The tracking information is used for its carrier status only, the offer for its amount only. The dash of the last
  message but one is written as a hyphen.\<close>

definition evaluateDisputeRules :: "Dispute \<Rightarrow> carrier_status option \<Rightarrow> string option \<Rightarrow> DisputeMediationDecision" where
  "evaluateDisputeRules dispute tracking offer =
     (let decide = (\<lambda>v c r. \<lparr>dm_disputeId = dp_id dispute, dm_verdict = v, dm_confidence = c, dm_reasoning = r\<rparr>) in
      if tracking = Some ReturnToSender
      then decide RefundBuyer 95 (''Carrier tracking confirms the package was returned to sender. '' @
             ''Buyer is entitled to a full refund per return-to-sender policy.'')
      else if tracking = Some Delivered
      then decide PayoutMerchant 90 (''Carrier tracking confirms the package was delivered successfully. '' @
             ''Funds will be released to the merchant.'')
      else case offer of
        Some amount \<Rightarrow> decide RefundBuyer 85 (''Merchant accepted a partial refund offer of '' @ amount @ '' stroops. '' @
             ''The agreed partial refund will be executed and remaining funds released to the merchant.'')
      | None \<Rightarrow>
          if tracking = Some FailedDelivery
          then decide RefundBuyer 80 (''Carrier tracking indicates a failed delivery attempt. '' @
                 ''Buyer will be refunded as the item was not delivered.'')
          else case analyzeEvidence (dp_evidence dispute) of
            Some (v, c, r) \<Rightarrow> decide v c r
          | None \<Rightarrow> decide EscalateHuman 100 (case tracking of
                Some t \<Rightarrow> ''Carrier status is '' @ [CHR 0x22] @ carrier_text t @ [CHR 0x22] @ '' - insufficient evidence for automated resolution.''
              | None \<Rightarrow> ''No carrier tracking data available and evidence is ambiguous.''))"

definition verdict_text :: "verdict \<Rightarrow> string" where
  "verdict_text v = (case v of RefundBuyer \<Rightarrow> ''refund_buyer'' | PayoutMerchant \<Rightarrow> ''payout_merchant'' | EscalateHuman \<Rightarrow> ''escalate_human'')"

definition decision_object :: "DisputeMediationDecision \<Rightarrow> (string \<times> jsval) list" where
  "decision_object d = [(''disputeId'', JStr (dm_disputeId d)), (''verdict'', JStr (verdict_text (dm_verdict d))),
     (''confidence'', JNum (dm_confidence d)), (''reasoning'', JStr (dm_reasoning d))]"

definition automated_decision ::
  "Dispute \<Rightarrow> DisputeMediationDecision \<Rightarrow> string option \<Rightarrow> int \<Rightarrow> ('w, MediationDecision) dispute_prog" where
  "automated_decision dispute decision offer remaining =
     (let make = (\<lambda>ty b s. \<lparr>md_disputeId = dp_id dispute, md_decision = ty, md_buyerAmount = b, md_sellerAmount = s,
                            md_reasoning = dm_reasoning decision, md_mediator = ''auto-mediator''\<rparr>) in
      if dm_verdict decision = RefundBuyer
      then (case offer of
              Some amount \<Rightarrow> pbind (bigint amount) (\<lambda>n. pret (make PartialRefundTo amount (show_int (remaining - n))))
            | None \<Rightarrow> pret (make FullRefund (show_int remaining) ''0''))
      else pret (make ReleaseToSeller ''0'' (show_int remaining)))"

definition executeAutomatedVerdict ::
  "'w dispute_env \<Rightarrow> Dispute \<Rightarrow> DisputeMediationDecision \<Rightarrow> string option \<Rightarrow> ('w, unit) dispute_prog" where
  "executeAutomatedVerdict env dispute decision offer =
     pbind (coordinator (getRemainingBalance (dp_escrowId dispute))) (\<lambda>balance.
     pbind (contract_id env) (\<lambda>_.
     pbind (automated_decision dispute decision offer (rb_remainingAmount balance)) (\<lambda>mediationDecision.
     pcatch (pbind (submitMediationDecision env mediationDecision) (\<lambda>_. pret ()))
       (\<lambda>e. pbind (recordAuditEvent env (Some (dp_id dispute)) (dp_escrowId dispute) ''dispute_auto_mediation_failed'' None
                     [(''error'', JStr (dispute_message e)), (''decision'', JObj (decision_object decision))]) (\<lambda>_.
            pthrow e)))))"

text \<open>The threshold is \<^verbatim>\<open>parseFloat\<close> of an environment variable: \<open>None\<close> for NaN, below which nothing lies.\<close>

definition below_threshold :: "int \<Rightarrow> rat option \<Rightarrow> bool" where
  "below_threshold confidence threshold = (case threshold of None \<Rightarrow> False | Some t \<Rightarrow> of_int confidence / 100 < t)"

definition runAutoMediation ::
  "'w dispute_env \<Rightarrow> rat option \<Rightarrow> string \<Rightarrow> carrier_status option \<Rightarrow> string option \<Rightarrow> ('w, DisputeMediationDecision) dispute_prog" where
  "runAutoMediation env threshold disputeId tracking offer =
     pbind (require_dispute disputeId) (\<lambda>dispute.
     if dp_status dispute = DResolved \<or> dp_status dispute = DDecided
     then pret \<lparr>dm_disputeId = disputeId, dm_verdict = EscalateHuman, dm_confidence = 100,
                dm_reasoning = ''Dispute is already in status '' @ [CHR 0x22] @ status_text (dp_status dispute) @ [CHR 0x22] @ ''; no auto-mediation needed.''\<rparr>
     else
       (let decision = evaluateDisputeRules dispute tracking offer in
        pbind (recordAuditEvent env (Some (dp_id dispute)) (dp_escrowId dispute) ''dispute_auto_mediation_evaluated'' None
                 [(''decision'', JObj (decision_object decision))]) (\<lambda>_.
        if dm_verdict decision = EscalateHuman \<or> below_threshold (dm_confidence decision) threshold
        then pbind (logged () (pbind (autoAssignMediator env (dp_id dispute)) (\<lambda>_. pret ()))) (\<lambda>_.
             pbind (recordAuditEvent env (Some (dp_id dispute)) (dp_escrowId dispute) ''dispute_escalated_to_human'' None
                      [(''reasoning'', JStr (dm_reasoning decision)), (''confidence'', JNum (dm_confidence decision))]) (\<lambda>_.
             pret decision))
        else pbind (executeAutomatedVerdict env dispute decision offer) (\<lambda>_. pret decision))))"

record sweep_result =
  sw_processed :: nat
  sw_escalated :: nat
  sw_resolved :: nat

text \<open>\<open>fetchTracking\<close> is the caller's carrier lookup, which may throw.\<close>

definition sweep_one ::
  "'w dispute_env \<Rightarrow> rat option \<Rightarrow> (string \<Rightarrow> 'w \<Rightarrow> (string + carrier_status option) \<times> 'w) option \<Rightarrow> Dispute \<Rightarrow> sweep_result \<Rightarrow> ('w, sweep_result) dispute_prog" where
  "sweep_one env threshold fetchTracking dispute acc =
     (let counted = acc\<lparr>sw_processed := sw_processed acc + 1\<rparr> in
      logged acc
        (pbind (case fetchTracking of None \<Rightarrow> pret None | Some f \<Rightarrow> coordinator (run_env (f (dp_escrowId dispute)))) (\<lambda>tracking.
         pbind (runAutoMediation env threshold (dp_id dispute) tracking None) (\<lambda>result.
         pret (if dm_verdict result = EscalateHuman then counted\<lparr>sw_escalated := sw_escalated acc + 1\<rparr>
               else counted\<lparr>sw_resolved := sw_resolved acc + 1\<rparr>)))))"

definition sweepAutoMediation ::
  "'w dispute_env \<Rightarrow> rat option \<Rightarrow> (string \<Rightarrow> 'w \<Rightarrow> (string + carrier_status option) \<times> 'w) option \<Rightarrow> ('w, sweep_result) dispute_prog" where
  "sweepAutoMediation env threshold fetchTracking =
     pbind (date_now env) (\<lambda>now.
     pbind (store_findBreached now) (\<lambda>breached.
     pfor breached \<lparr>sw_processed = 0, sw_escalated = 0, sw_resolved = 0\<rparr> (sweep_one env threshold fetchTracking)))"

end
