(* ===== verification/Dispute_Properties.thy ===== *)
theory Dispute_Properties
  imports Dispute_Mediation
begin

text \<open>
  What the dispute workflow guarantees: whatever operation runs, every dispute only moves forward along the
  edges of the status machine, its evidence and the audit log only grow and a resolved dispute is frozen; a
  decision that is carried out pays out exactly the remaining balance; the escalation scans are idempotent.
\<close>

section \<open>The status machine only moves forward\<close>

text \<open>The hops other than the self loops.\<close>

definition hop :: "DisputeStatus \<Rightarrow> DisputeStatus \<Rightarrow> DisputeStatus option" where
  "hop from to = (if canTransition from to \<and> \<not> isNoOpTransition from to then Some to else None)"

lemma stage_simps [simp]:
  "stageIndex DOpen = 0" "stageIndex DEvidence = 1" "stageIndex DNegotiation = 2" "stageIndex DMerchantResponded = 3"
  "stageIndex DDecided = 4" "stageIndex DResolved = 5"
  by (simp_all add: stageIndex_def ORDER_def)

interpretation dispute_stages: ranked_machine hop stageIndex 5
proof unfold_locales
  show "hop s e = Some s' \<Longrightarrow> stageIndex s < stageIndex s'" for s e s'
    by (cases s) (auto simp: hop_def canTransition_def isNoOpTransition_def split: if_splits)
  show "stageIndex s \<le> 5" for s by (cases s) simp_all
qed

definition leads_to :: "DisputeStatus \<Rightarrow> DisputeStatus \<Rightarrow> bool" where
  "leads_to from to \<longleftrightarrow> (\<exists>hops. run_steps hop from hops = Some to)"

lemma leads_refl [simp]: "leads_to s s"
  unfolding leads_to_def by (rule exI [of _ "[]"]) simp

lemma leads_trans: "leads_to a b \<Longrightarrow> leads_to b c \<Longrightarrow> leads_to a c"
  unfolding leads_to_def by (metis option.simps(5) run_steps_append)

lemma leads_can: "canTransition a b \<Longrightarrow> leads_to a b"
proof (cases "a = b")
  case False
  assume "canTransition a b"
  with False have "run_steps hop a [b] = Some b" by (simp add: hop_def isNoOpTransition_def)
  then show ?thesis unfolding leads_to_def by blast
qed simp

lemma leads_resolved [simp]: "leads_to DResolved s \<longleftrightarrow> s = DResolved"
proof
  assume "leads_to DResolved s"
  then obtain hs where h: "run_steps hop DResolved hs = Some s" unfolding leads_to_def by blast
  from dispute_stages.run_bounded [OF h] have "hs = []" by simp
  with h show "s = DResolved" by simp
qed simp

lemma leads_index: "leads_to a b \<Longrightarrow> stageIndex a \<le> stageIndex b"
  unfolding leads_to_def using dispute_stages.run_rank by (metis add_leE)

text \<open>A plan that is accepted is a walk along legal hops.\<close>

lemma plan_negotiation:
  "planAdvance s DNegotiation w =
     (if s = DOpen then (Inr [(DOpen, DEvidence), (DEvidence, DNegotiation)], w)
      else if s = DEvidence then (Inr [(DEvidence, DNegotiation)], w)
      else if s = DNegotiation then (Inr [], w) else (Inl (InvalidStateTransitionError s DNegotiation), w))"
  by (cases s) (simp_all add: planAdvance_def upt_rec prog_simps assertTransition_def canTransition_def ORDER_def)

lemma leads_negotiation: "s \<in> {DOpen, DEvidence, DNegotiation} \<Longrightarrow> leads_to s DNegotiation"
  using leads_trans [OF leads_can leads_can, of DOpen DEvidence DNegotiation]
  by (auto intro: leads_can simp: canTransition_def)

section \<open>How a dispute may change\<close>

definition dispute_ok :: "string \<Rightarrow> Dispute \<Rightarrow> bool" where
  "dispute_ok i d \<longleftrightarrow> dp_id d = i \<and>
     (stageIndex (dp_status d) \<ge> stageIndex DNegotiation \<longrightarrow> dp_mediator d \<noteq> None) \<and>
     (stageIndex (dp_status d) \<ge> stageIndex DDecided \<longrightarrow>
        (\<exists>r b s. dp_resolution d = Some r \<and> js_BigInt (rs_buyerAmount r) = Some b \<and> js_BigInt (rs_sellerAmount r) = Some s \<and>
           0 \<le> b \<and> 0 \<le> s))"

definition advances :: "Dispute \<Rightarrow> Dispute \<Rightarrow> bool" where
  "advances d d' \<longleftrightarrow> dp_id d' = dp_id d \<and> dp_escrowId d' = dp_escrowId d \<and> dp_initiatedBy d' = dp_initiatedBy d \<and>
     dp_reason d' = dp_reason d \<and> dp_createdAt d' = dp_createdAt d \<and> dp_slaDeadline d' = dp_slaDeadline d \<and>
     (\<exists>more. dp_evidence d' = dp_evidence d @ more) \<and> leads_to (dp_status d) (dp_status d') \<and>
     (dp_status d = DResolved \<longrightarrow> dp_resolution d' = dp_resolution d \<and> dp_mediator d' = dp_mediator d \<and> dp_evidence d' = dp_evidence d)"

definition disputes_ok :: "'w dispute_world \<Rightarrow> bool" where
  "disputes_ok w \<longleftrightarrow> (\<forall>i d. jm_get (dw_disputes w) i = Some d \<longrightarrow> dispute_ok i d)"

definition evolves :: "'w dispute_world \<Rightarrow> 'w dispute_world \<Rightarrow> bool" where
  "evolves w w' \<longleftrightarrow> (\<forall>i d. jm_get (dw_disputes w) i = Some d \<longrightarrow> (\<exists>d'. jm_get (dw_disputes w') i = Some d' \<and> advances d d')) \<and>
     (\<exists>more. dw_audit w' = dw_audit w @ more) \<and> dw_escalated w \<subseteq> dw_escalated w'"

lemma advances_refl [simp]: "advances d d"
  by (simp add: advances_def)

lemma advances_trans:
  assumes a: "advances a b" and b: "advances b c"
  shows "advances a c"
proof -
  from a b have "leads_to (dp_status a) (dp_status c)" by (meson advances_def leads_trans)
  moreover have "dp_status a = DResolved \<Longrightarrow> dp_status b = DResolved" using a by (simp add: advances_def)
  ultimately show ?thesis using a b unfolding advances_def by auto
qed

lemma evolves_refl [simp]: "evolves w w"
  by (auto simp: evolves_def)

lemma evolves_trans:
  assumes a: "evolves a b" and b: "evolves b c"
  shows "evolves a c"
proof -
  have "\<exists>d'. jm_get (dw_disputes c) i = Some d' \<and> advances d d'" if i: "jm_get (dw_disputes a) i = Some d" for i d
  proof -
    from a i obtain d1 where d1: "jm_get (dw_disputes b) i = Some d1" "advances d d1" unfolding evolves_def by blast
    from b d1(1) obtain d2 where d2: "jm_get (dw_disputes c) i = Some d2" "advances d1 d2" unfolding evolves_def by blast
    from advances_trans [OF d1(2) d2(2)] d2(1) show ?thesis by blast
  qed
  moreover have "\<exists>more. dw_audit c = dw_audit a @ more"
    using a b unfolding evolves_def by (metis append.assoc)
  moreover have "dw_escalated a \<subseteq> dw_escalated c" using a b unfolding evolves_def by (metis order_trans)
  ultimately show ?thesis unfolding evolves_def by blast
qed

section \<open>Calls that leave the disputes alone\<close>

definition alike :: "'w dispute_world \<Rightarrow> 'w dispute_world \<Rightarrow> bool" where
  "alike w0 w \<longleftrightarrow> dw_disputes w = dw_disputes w0 \<and> dw_escalated w = dw_escalated w0 \<and> (\<exists>more. dw_audit w = dw_audit w0 @ more)"

definition quiet :: "('w, 'a) dispute_prog \<Rightarrow> bool" where
  "quiet m \<longleftrightarrow> (\<forall>w0. keeps (alike w0) m)"

named_theorems quiet_rules "calls that leave the disputes alone"

lemma quiet_combinators [quiet_rules]:
  "quiet (pret x)" "quiet (pthrow e)" "quiet (pgets g)"
  "quiet m \<Longrightarrow> (\<And>x. quiet (f x)) \<Longrightarrow> quiet (pbind m f)"
  "quiet m \<Longrightarrow> (\<And>e. quiet (h e)) \<Longrightarrow> quiet (pcatch m h)"
  "quiet m \<Longrightarrow> quiet m' \<Longrightarrow> quiet (if b then m else m')"
  "quiet m \<Longrightarrow> (\<And>y. quiet (k y)) \<Longrightarrow> quiet (case z of None \<Rightarrow> m | Some y \<Rightarrow> k y)"
  by (auto simp: quiet_def intro: keeps_rules)

lemma quiet_modify: "(\<And>w. alike w (c w)) \<Longrightarrow> quiet (pmodify c)"
  by (auto simp: quiet_def keeps_def prog_simps alike_def) (metis append.assoc)

lemma quiet_coordinator [quiet_rules]: "quiet (coordinator m)"
  by (auto simp: quiet_def keeps_def coordinator_def alike_def split: prod.splits sum.splits)

lemma quiet_calls [quiet_rules]:
  "quiet (date_now env)" "quiet (contract_id env)" "quiet (recordAuditEvent env did eid ty actor details)"
  "quiet (emit env ty oid eid payload)" "quiet (bigint s)" "quiet (iso_checked t)"
  by (auto simp: date_now_def contract_id_def recordAuditEvent_def emit_def bigint_def iso_checked_def alike_def
      intro!: quiet_rules quiet_modify)

lemma quiet_calls' [quiet_rules]:
  "quiet (notifyDisputeParties env ty oid d extra)" "quiet (notifyPartialRefundExecuted env oid eid pl)"
  "quiet (change_reputation a c)" "quiet (safeGetBalance eid)" "quiet (safeGetOrderId eid)" "quiet (assertTransition st st2)"
  "quiet (store_findById i)" "quiet (store_findBreached now)" "quiet (store_findStalled now h)"
  by (auto simp: notifyDisputeParties_def notifyPartialRefundExecuted_def change_reputation_def safeGetBalance_def
      safeGetOrderId_def assertTransition_def store_findById_def store_findBreached_def store_findStalled_def alike_def
      intro!: quiet_rules quiet_modify)

lemma quiet_records [quiet_rules]:
  "quiet (recordDisputeInitiated env a)" "quiet (recordDisputeInvolved env a)" "quiet (recordOutcome a oc)"
  "quiet (recordDisputeOutcome buyer seller x y)" "quiet (parseRefundAmount s)" "quiet (parseAmount s)"
  "quiet (notifySeniorArbitrators env d rule)"
  unfolding recordDisputeInitiated_def recordDisputeInvolved_def recordOutcome_def recordDisputeOutcome_def parseRefundAmount_def
    parseAmount_def notifySeniorArbitrators_def
  by (intro quiet_rules)+

lemma quiet_transfers [quiet_rules]:
  "quiet (buyer_transfer env d r cid b)" "quiet (seller_transfer env d r cid b)" "quiet (validateResolutionAmounts dec rem)"
  by (auto simp: buyer_transfer_def seller_transfer_def validateResolutionAmounts_def intro!: quiet_rules split: option.splits)

section \<open>Programs over a dispute\<close>

text \<open>\<open>onward w0\<close>: a state that follows from \<open>w0\<close>; \<open>holding w0 i d\<close>: one in which \<open>i\<close> moreover is the dispute \<open>d\<close>.\<close>

definition onward :: "'w dispute_world \<Rightarrow> 'w dispute_world \<Rightarrow> bool" where
  "onward w0 w \<longleftrightarrow> disputes_ok w \<and> evolves w0 w"

definition holding :: "'w dispute_world \<Rightarrow> string \<Rightarrow> Dispute \<Rightarrow> 'w dispute_world \<Rightarrow> bool" where
  "holding w0 i d w \<longleftrightarrow> onward w0 w \<and> jm_get (dw_disputes w) i = Some d"

lemma holding_onward: "holding w0 i d w \<Longrightarrow> onward w0 w"
  by (simp add: holding_def)

lemma onward_alike: "onward w0 w \<Longrightarrow> alike w w' \<Longrightarrow> onward w0 w'"
  unfolding onward_def
proof (intro conjI)
  assume o: "disputes_ok w \<and> evolves w0 w" and a: "alike w w'"
  from o a show "disputes_ok w'" by (simp add: disputes_ok_def alike_def)
  have "evolves w w'" using a by (auto simp: evolves_def alike_def)
  with o show "evolves w0 w'" by (blast intro: evolves_trans)
qed

lemma alike_refl: "alike w w"
  by (simp add: alike_def)

lemma quiet_alike: "quiet m \<Longrightarrow> alike w (snd (m w))"
  using alike_refl by (auto simp: quiet_def keeps_def)

lemma quiet_onward [keeps_rules]: "quiet m \<Longrightarrow> keeps (onward w0) m"
  by (rule keepsI) (blast intro: onward_alike quiet_alike)

lemma quiet_holding: "quiet m \<Longrightarrow> keeps (holding w0 i d) m"
proof (rule keepsI)
  fix w assume q: "quiet m" and h: "holding w0 i d w"
  from quiet_alike [OF q, of w] h onward_alike [of w0 w] show "holding w0 i d (snd (m w))"
    by (auto simp: holding_def alike_def)
qed

abbreviation from_dispute :: "'w dispute_world \<Rightarrow> string \<Rightarrow> Dispute \<Rightarrow> ('w, 'a) dispute_prog \<Rightarrow> bool" where
  "from_dispute w0 i d m \<equiv> establishes (holding w0 i d) (onward w0) m"

lemma quiet_then: "quiet m \<Longrightarrow> (\<And>x. from_dispute w0 i d (f x)) \<Longrightarrow> from_dispute w0 i d (pbind m f)"
  by (rule establishes_pbind) (auto intro: quiet_holding holding_onward)

lemma from_onward: "keeps (onward w0) m \<Longrightarrow> from_dispute w0 i d m"
  by (rule establishes_keeps) (auto intro: holding_onward)

lemma require_then:
  assumes "\<And>d. dispute_ok i d \<Longrightarrow> from_dispute w0 i d (f d)"
  shows "keeps (onward w0) (pbind (require_dispute i) f)"
proof (rule keepsI)
  fix w assume o: "onward w0 w"
  show "onward w0 (snd (pbind (require_dispute i) f w))"
  proof (cases "jm_get (dw_disputes w) i")
    case None
    with o show ?thesis by (simp add: require_dispute_def store_findById_def prog_simps)
  next
    case (Some d)
    with o have "dispute_ok i d" "holding w0 i d w" by (auto simp: onward_def disputes_ok_def holding_def)
    with assms Some show ?thesis
      by (auto simp: require_dispute_def store_findById_def prog_simps establishes_def)
  qed
qed

lemma put_dispute_holding:
  assumes h: "holding w0 i d w" and a: "advances d d'" and ok: "dispute_ok i d'"
    and w': "dw_disputes w' = jm_set i d' (dw_disputes w)" "dw_audit w' = dw_audit w" "dw_escalated w \<subseteq> dw_escalated w'"
  shows "holding w0 i d' w'"
proof -
  have "disputes_ok w'" using h ok w'(1) by (auto simp: holding_def onward_def disputes_ok_def jm_get_set)
  moreover have "evolves w w'" using h a w' by (auto simp: holding_def evolves_def jm_get_set)
  ultimately show ?thesis using h w'(1) by (auto simp: holding_def onward_def jm_get_set intro: evolves_trans)
qed

lemma date_now_run: "\<exists>t x. date_now env w = (Inr t, w\<lparr>dw_escrow := x\<rparr>)"
  by (auto simp: date_now_def coordinator_def ask_env_def split: prod.splits)

lemma update_then:
  assumes "\<And>t. advances d (updated_dispute u t d)" "\<And>t. dispute_ok i (updated_dispute u t d)"
    and "\<And>t. from_dispute w0 i (updated_dispute u t d) (f (updated_dispute u t d))"
  shows "from_dispute w0 i d (pbind (store_update env i u) f)"
  unfolding establishes_def
proof (intro allI impI)
  fix w assume h: "holding w0 i d w"
  obtain t x where n: "date_now env w = (Inr t, w\<lparr>dw_escrow := x\<rparr>)" using date_now_run by blast
  define w1 where "w1 = w\<lparr>dw_escrow := x, dw_disputes := jm_set i (updated_dispute u t d) (dw_disputes w),
    dw_escalated := (if du_escalatedAt u = None then dw_escalated w else insert i (dw_escalated w))\<rparr>"
  have "store_update env i u w = (Inr (updated_dispute u t d), w1)"
    using h n by (simp add: store_update_def store_findById_def prog_simps holding_def w1_def)
  moreover have "holding w0 i (updated_dispute u t d) w1"
    by (rule put_dispute_holding [OF h assms(1,2)]) (auto simp: w1_def)
  ultimately show "onward w0 (snd (pbind (store_update env i u) f w))"
    using assms(3) [of t] by (simp add: prog_simps establishes_def)
qed

lemma evidence_then:
  assumes "\<And>t. advances d (d\<lparr>dp_evidence := dp_evidence d @ [e], dp_updatedAt := t\<rparr>)" and "dispute_ok i d"
    and "\<And>t. from_dispute w0 i (d\<lparr>dp_evidence := dp_evidence d @ [e], dp_updatedAt := t\<rparr>)
                (f (d\<lparr>dp_evidence := dp_evidence d @ [e], dp_updatedAt := t\<rparr>))"
  shows "from_dispute w0 i d (pbind (store_addEvidence env i e) f)"
  unfolding establishes_def
proof (intro allI impI)
  fix w assume h: "holding w0 i d w"
  obtain t x where n: "date_now env w = (Inr t, w\<lparr>dw_escrow := x\<rparr>)" using date_now_run by blast
  define d' where "d' = d\<lparr>dp_evidence := dp_evidence d @ [e], dp_updatedAt := t\<rparr>"
  define w1 where "w1 = w\<lparr>dw_escrow := x, dw_disputes := jm_set i d' (dw_disputes w)\<rparr>"
  have "store_addEvidence env i e w = (Inr d', w1)"
    using h n by (simp add: store_addEvidence_def store_findById_def prog_simps holding_def w1_def d'_def Let_def)
  moreover have "holding w0 i d' w1"
    by (rule put_dispute_holding [OF h]) (use assms(1,2) in \<open>auto simp: w1_def d'_def dispute_ok_def\<close>)
  ultimately show "onward w0 (snd (pbind (store_addEvidence env i e) f w))"
    using assms(3) [of t] by (simp add: prog_simps establishes_def d'_def)
qed

lemma no_change_simps [simp]:
  "du_status no_change = None" "du_mediator no_change = None" "du_resolution no_change = None"
  "du_escalatedAt no_change = None" "du_escalationTier no_change = None" "du_escalationEscalatedAt no_change = None"
  by (simp_all add: no_change_def)

lemma updated_simps [simp]:
  "dp_id (updated_dispute u t d) = dp_id d" "dp_escrowId (updated_dispute u t d) = dp_escrowId d"
  "dp_evidence (updated_dispute u t d) = dp_evidence d"
  "dp_status (updated_dispute u t d) = (case du_status u of None \<Rightarrow> dp_status d | Some s \<Rightarrow> s)"
  "dp_mediator (updated_dispute u t d) = otherwise (du_mediator u) (dp_mediator d)"
  "dp_resolution (updated_dispute u t d) = otherwise (du_resolution u) (dp_resolution d)"
  by (simp_all add: updated_dispute_def)

lemma otherwise_simps [simp]: "otherwise None b = b" "otherwise (Some x) b = Some x"
  by (simp_all add: otherwise_def)

lemma advances_update:
  assumes "leads_to (dp_status d) (case du_status u of None \<Rightarrow> dp_status d | Some s \<Rightarrow> s)"
    and "dp_status d = DResolved \<Longrightarrow> du_mediator u = None \<and> du_resolution u = None"
  shows "advances d (updated_dispute u t d)"
  using assms by (auto simp: advances_def updated_dispute_def)

section \<open>Every operation moves disputes forward\<close>

lemma if_then:
  "(b \<Longrightarrow> from_dispute w0 i d (pbind m f)) \<Longrightarrow> (\<not> b \<Longrightarrow> from_dispute w0 i d (pbind m' f)) \<Longrightarrow>
   from_dispute w0 i d (pbind (if b then m else m') f)"
  by simp

lemma option_then:
  "(z = None \<Longrightarrow> from_dispute w0 i d (pbind m f)) \<Longrightarrow> (\<And>y. z = Some y \<Longrightarrow> from_dispute w0 i d (pbind (k y) f)) \<Longrightarrow>
   from_dispute w0 i d (pbind (case z of None \<Rightarrow> m | Some y \<Rightarrow> k y) f)"
  by (cases z) simp_all

lemma from_quiet: "quiet m \<Longrightarrow> from_dispute w0 i d m"
  by (intro from_onward quiet_onward)

lemma from_option:
  "(z = None \<Longrightarrow> from_dispute w0 i d m) \<Longrightarrow> (\<And>y. z = Some y \<Longrightarrow> from_dispute w0 i d (k y)) \<Longrightarrow>
   from_dispute w0 i d (case z of None \<Rightarrow> m | Some y \<Rightarrow> k y)"
  by (cases z) simp_all

lemma try_then:
  assumes "quiet m" and "\<And>e. from_dispute w0 i d (f (Inl e))" and "\<And>x. from_dispute w0 i d (f (Inr x))"
  shows "from_dispute w0 i d (pbind (ptry m) f)"
proof (rule establishes_pbind)
  show "keeps (holding w0 i d) (ptry m)" using assms(1) by (intro keeps_ptry quiet_holding)
  show "from_dispute w0 i d (f r)" for r using assms(2,3) by (cases r) auto
qed (rule holding_onward)

lemma assoc_then:
  "from_dispute w0 i d (pbind m (\<lambda>x. pbind (g x) f)) \<Longrightarrow> from_dispute w0 i d (pbind (pbind m g) f)"
  "from_dispute w0 i d (f x) \<Longrightarrow> from_dispute w0 i d (pbind (pret x) f)"
  "from_dispute w0 i d (pbind (pthrow e) f)"
  by (simp_all add: pbind_assoc from_quiet quiet_rules)

lemmas flow_rules = assoc_then require_then establishes_if evidence_then update_then if_then option_then from_option try_then
  quiet_calls [THEN quiet_then] quiet_calls' [THEN quiet_then] quiet_records [THEN quiet_then] quiet_transfers [THEN quiet_then]
  quiet_coordinator [THEN quiet_then] quiet_combinators(1,2) [THEN from_quiet]

lemma advances_evidence:
  "dp_status d \<noteq> DResolved \<Longrightarrow> advances d (d\<lparr>dp_evidence := dp_evidence d @ [e], dp_updatedAt := t\<rparr>)"
  by (auto simp: advances_def)

lemma submitEvidence_onward: "keeps (onward w0) (submitEvidence env i party desc files)"
  unfolding submitEvidence_def pbind_assoc pbind_pret
  by (intro flow_rules) (auto intro!: advances_evidence advances_update leads_can flow_rules simp: dispute_ok_def canTransition_def)

lemma plan_then:
  assumes "dp_status d \<in> {DOpen, DEvidence, DNegotiation} \<Longrightarrow> (\<And>x. from_dispute w0 i d (f x))"
  shows "from_dispute w0 i d (pbind (planAdvance (dp_status d) DNegotiation) f)"
  using assms by (auto simp: establishes_def prog_simps plan_negotiation holding_def)

lemma assignMediator_onward: "keeps (onward w0) (assignMediator env i mediator who)"
  unfolding assignMediator_def pbind_assoc pbind_pret
  by (intro flow_rules plan_then) (auto intro!: advances_update leads_negotiation flow_rules simp: dispute_ok_def)

lemma autoAssignMediator_onward: "keeps (onward w0) (autoAssignMediator env i)"
  unfolding autoAssignMediator_def Let_def
  by (intro keeps_rules assignMediator_onward quiet_rules quiet_modify) (simp add: alike_def)

lemma submitMerchantResponse_onward: "keeps (onward w0) (submitMerchantResponse env i party st files offer)"
  unfolding submitMerchantResponse_def Let_def pbind_assoc pbind_pret pbind_pthrow
  by (intro flow_rules) (auto intro!: advances_evidence advances_update leads_can flow_rules simp: dispute_ok_def canTransition_def)

lemma execution_failed_onward:
  assumes "dispute_ok i d" "dp_status d = DDecided"
  shows "from_dispute w0 i d (execution_failed env d balance m tx)"
proof -
  have i: "dp_id d = i" using assms(1) by (simp add: dispute_ok_def)
  show ?thesis unfolding execution_failed_def i
    by (intro flow_rules) (use assms in \<open>auto intro!: advances_update simp: dispute_ok_def\<close>)
qed

lemma execution_done_onward:
  assumes "dispute_ok i d" "dp_status d = DDecided"
  shows "from_dispute w0 i d (execution_done env d res balance tx tx')"
proof -
  have i: "dp_id d = i" using assms(1) by (simp add: dispute_ok_def)
  show ?thesis unfolding execution_done_def i
    by (intro flow_rules) (use assms in \<open>auto intro!: advances_update leads_can simp: dispute_ok_def canTransition_def\<close>)
qed

lemma from_sum:
  "(\<And>e. x = Inl e \<Longrightarrow> from_dispute w0 i d (f e)) \<Longrightarrow> (\<And>y. x = Inr y \<Longrightarrow> from_dispute w0 i d (g y)) \<Longrightarrow>
   from_dispute w0 i d (case x of Inl e \<Rightarrow> f e | Inr y \<Rightarrow> g y)"
  by (cases x) simp_all

lemma executeDecision_onward: "keeps (onward w0) (executeDecision env i)"
  unfolding executeDecision_def
proof (rule require_then)
  fix d assume ok: "dispute_ok i d"
  let ?run = "\<lambda>resolution. pbind (coordinator (getRemainingBalance (dp_escrowId d))) (\<lambda>balance.
       pbind (contract_id env) (\<lambda>cid.
       pbind (bigint (rs_buyerAmount resolution)) (\<lambda>buyerAmount.
       pbind (bigint (rs_sellerAmount resolution)) (\<lambda>sellerAmount.
       pbind (ptry (buyer_transfer env d resolution cid buyerAmount)) (\<lambda>first. case first of
         Inl e \<Rightarrow> execution_failed env d balance (dispute_message e) None
       | Inr buyerTx \<Rightarrow>
           pbind (ptry (seller_transfer env d resolution cid sellerAmount)) (\<lambda>second. case second of
             Inl e \<Rightarrow> execution_failed env d balance (dispute_message e) buyerTx
           | Inr sellerTx \<Rightarrow> execution_done env d resolution balance buyerTx sellerTx))))))"
  have "from_dispute w0 i d (?run r)" if "dp_status d = DDecided" for r
    by (intro from_sum execution_failed_onward [OF ok that] execution_done_onward [OF ok that] quiet_then try_then quiet_transfers
        quiet_calls quiet_coordinator; simp add: execution_failed_onward [OF ok that] execution_done_onward [OF ok that])
  then show "from_dispute w0 i d (if dp_status d = DResolved then pret d
     else case (if dp_status d \<noteq> DDecided then None else dp_resolution d) of
       None \<Rightarrow> pthrow (InvalidStateTransitionError (dp_status d) DResolved)
     | Some r \<Rightarrow> ?run r)"
    by (intro establishes_if from_option quiet_combinators(1,2) [THEN from_quiet]) (auto split: if_splits)
qed

lemma validate_then:
  assumes "\<And>b s. js_BigInt (md_buyerAmount dec) = Some b \<Longrightarrow> js_BigInt (md_sellerAmount dec) = Some s \<Longrightarrow> 0 \<le> b \<Longrightarrow> 0 \<le> s \<Longrightarrow>
    b + s = rem \<Longrightarrow> from_dispute w0 i d (f ())"
  shows "from_dispute w0 i d (pbind (validateResolutionAmounts dec rem) f)"
  using assms
  by (auto simp: validateResolutionAmounts_def establishes_def prog_simps holding_def split: option.splits)

lemma assert_then:
  assumes "canTransition st st' \<Longrightarrow> from_dispute w0 i d (f ())"
  shows "from_dispute w0 i d (pbind (assertTransition st st') f)"
  using assms by (auto simp: assertTransition_def establishes_def prog_simps holding_def)

lemma submitMediationDecision_onward: "keeps (onward w0) (submitMediationDecision env dec)"
  unfolding submitMediationDecision_def Let_def
proof (rule require_then)
  fix d assume ok: "dispute_ok (md_disputeId dec) d"
  then have i: "dp_id d = md_disputeId dec" by (simp add: dispute_ok_def)
  show "from_dispute w0 (md_disputeId dec) d (if dp_status d = DResolved then pthrow (DisputeAlreadyResolvedError (dp_id d))
     else
       pbind (assertTransition (dp_status d) DDecided) (\<lambda>_.
       pbind (coordinator (getRemainingBalance (dp_escrowId d))) (\<lambda>balance.
       pbind (validateResolutionAmounts dec (rb_remainingAmount balance)) (\<lambda>_.
       pbind (date_now env) (\<lambda>now.
       pbind (store_update env (dp_id d) (no_change\<lparr>du_status := Some DDecided, du_resolution :=
          Some \<lparr>rs_type = md_decision dec, rs_buyerAmount = md_buyerAmount dec,
             rs_sellerAmount = md_sellerAmount dec, rs_decidedBy = md_mediator dec, rs_decidedAt = now\<rparr>\<rparr>)) (\<lambda>updated.
       pbind (recordAuditEvent env (Some (dp_id d)) (dp_escrowId d) ''dispute_decided'' (Some (md_mediator dec))
                (resolution_object \<lparr>rs_type = md_decision dec, rs_buyerAmount = md_buyerAmount dec,
             rs_sellerAmount = md_sellerAmount dec, rs_decidedBy = md_mediator dec, rs_decidedAt = now\<rparr> @ [(''reasoning'', JStr (md_reasoning dec))])) (\<lambda>_.
       pbind (notifyDisputeParties env ''dispute_decided'' (rb_orderId balance) updated [(''reasoning'', JStr (md_reasoning dec))]) (\<lambda>_.
       executeDecision env (dp_id updated)))))))))"
    unfolding i
    by (intro establishes_if assert_then validate_then update_then from_onward [OF executeDecision_onward] flow_rules)
      (use ok in \<open>cases "dp_status d"; auto intro!: advances_update leads_can simp: dispute_ok_def canTransition_def\<close>)+
qed

subsection \<open>Scans, requests and opening\<close>

lemma mark_onward:
  assumes "du_status u = None" "du_mediator u = None" "du_resolution u = None"
  shows "keeps (onward w0) (store_update env i u)"
proof -
  have "from_dispute w0 i d (store_update env i u)" if "dispute_ok i d" for d
  proof -
    have "from_dispute w0 i d (pbind (store_update env i u) pret)"
      by (intro update_then advances_update quiet_combinators(1) [THEN from_quiet]) (use that assms in \<open>simp_all add: dispute_ok_def\<close>)
    moreover have "pbind m pret = m" for m :: "('a, Dispute) dispute_prog"
      by (rule ext) (simp add: prog_simps split: prod.splits sum.splits)
    ultimately show ?thesis by simp
  qed
  then have "onward w0 (snd (store_update env i u w))" if "onward w0 w" for w
  proof (cases "jm_get (dw_disputes w) i")
    case (Some d)
    with that have "dispute_ok i d" "holding w0 i d w" by (auto simp: holding_def onward_def disputes_ok_def)
    with \<open>\<And>d. dispute_ok i d \<Longrightarrow> from_dispute w0 i d (store_update env i u)\<close> show ?thesis by (auto simp: establishes_def)
  qed (use that in \<open>simp add: store_update_def store_findById_def prog_simps\<close>)
  then show ?thesis by (rule keepsI)
qed

lemma scans_onward:
  "keeps (onward w0) (findAndEscalateBreachedDisputes env now)"
  "keeps (onward w0) (findAndEscalateStalledDisputes env now hours)"
  unfolding findAndEscalateBreachedDisputes_def findAndEscalateStalledDisputes_def escalate_breached_def escalate_stalled_def
    Let_def logged_def
  by (intro keeps_pbind keeps_pfor keeps_pcatch mark_onward quiet_onward quiet_rules; simp)+

lemma executePartialRefund_quiet: "quiet (executePartialRefund env req)"
  unfolding executePartialRefund_def Let_def by (intro quiet_rules)

lemma automated_decision_quiet: "quiet (automated_decision d dec offer rem)"
  unfolding automated_decision_def Let_def by (intro quiet_rules)

lemma runAutoMediation_onward: "keeps (onward w0) (runAutoMediation env th i tracking offer)"
proof -
  have 1: "keeps (onward w0) (executeAutomatedVerdict env d dec offer)" for d dec
    unfolding executeAutomatedVerdict_def
    by (intro keeps_pbind keeps_pcatch submitMediationDecision_onward quiet_onward quiet_rules automated_decision_quiet)
  show ?thesis unfolding runAutoMediation_def Let_def logged_def
    by (intro require_then from_onward keeps_if keeps_pbind keeps_pcatch 1 autoAssignMediator_onward quiet_onward quiet_rules)
qed

lemma sweep_onward: "keeps (onward w0) (sweepAutoMediation env th fetch)"
  unfolding sweepAutoMediation_def sweep_one_def logged_def Let_def
  by (intro keeps_pbind keeps_pfor keeps_pcatch runAutoMediation_onward quiet_onward quiet_rules)

text \<open>Opening needs the new id to be unused.\<close>

definition unused :: "'w dispute_env \<Rightarrow> 'w dispute_world \<Rightarrow> bool" where
  "unused env w \<longleftrightarrow> (\<forall>x. jm_get (dw_disputes w) (fst (dn_randomUUID env x)) = None)"

lemma create_onward:
  assumes "\<And>d. keeps (onward w0) (f d)"
  shows "establishes (\<lambda>w. onward w0 w \<and> unused env w) (onward w0) (pbind (store_create env eid who why sla) f)"
  unfolding establishes_def
proof (intro allI impI)
  fix w assume h: "onward w0 w \<and> unused env w"
  obtain t x where n: "date_now env w = (Inr t, w\<lparr>dw_escrow := x\<rparr>)" using date_now_run by blast
  obtain i y where u: "dn_randomUUID env (ew_ext x) = (i, y)" by fastforce
  have new: "jm_get (dw_disputes w) i = None" using h u unfolding unused_def by (metis fst_conv)
  define d where "d = \<lparr>dp_id = i, dp_escrowId = eid, dp_initiatedBy = who, dp_reason = why, dp_evidence = [],
              dp_mediator = None, dp_status = DOpen, dp_createdAt = t, dp_updatedAt = t, dp_slaDeadline = sla,
              dp_escalationTier = None, dp_escalationEscalatedAt = None, dp_resolution = None\<rparr>"
  define w1 where "w1 = w\<lparr>dw_escrow := x\<lparr>ew_ext := y\<rparr>, dw_disputes := jm_set i d (dw_disputes w)\<rparr>"
  have run: "store_create env eid who why sla w = (Inr d, w1)"
    using n u by (simp add: store_create_def prog_simps coordinator_def ask_env_def Let_def d_def w1_def)
  have "evolves w w1" using new by (auto simp: evolves_def w1_def jm_get_set)
  moreover have "disputes_ok w1" using h by (auto simp: disputes_ok_def onward_def w1_def jm_get_set dispute_ok_def d_def)
  ultimately have "onward w0 w1" using h by (auto simp: onward_def intro: evolves_trans)
  with assms [of d] run show "onward w0 (snd (pbind (store_create env eid who why sla) f w))"
    by (simp add: prog_simps keeps_def)
qed

lemma quiet_room: "quiet m \<Longrightarrow> keeps (\<lambda>w. onward w0 w \<and> unused env w) m"
  by (rule keepsI) (auto intro: onward_alike quiet_alike dest!: quiet_alike simp: unused_def alike_def)

lemma openDispute_onward: "establishes (\<lambda>w. onward w0 w \<and> unused env w) (onward w0) (openDispute env p)"
  unfolding openDispute_def Let_def
  by (intro establishes_pbind [OF quiet_room] create_onward keeps_pbind keeps_pcatch quiet_onward quiet_rules) simp_all

text \<open>C5: Whatever operation of the dispute workflow runs, on whatever dispute and however it ends: every dispute keeps
  its identity, its status only moves along the edges of the status machine, evidence, audit log and set of escalated
  disputes only grow, a resolved dispute keeps its status, resolution, mediator and evidence; and disputes in negotiation
  or later have a mediator, decided ones a resolution with two amounts that are not negative.\<close>

theorem dispute_lifecycle:
  assumes "disputes_ok w" and "unused env w"
    and "w' \<in> {snd (openDispute env p w), snd (submitEvidence env i party desc files w), snd (assignMediator env i mediator who w),
         snd (autoAssignMediator env i w), snd (submitMerchantResponse env i party desc attachments offer w),
         snd (submitMediationDecision env decision w), snd (executeDecision env i w), snd (executePartialRefund env request w),
         snd (findAndEscalateBreachedDisputes env now w), snd (findAndEscalateStalledDisputes env now hours w),
         snd (runAutoMediation env threshold i tracking offer w), snd (sweepAutoMediation env threshold fetch w)}"
  shows "disputes_ok w' \<and> evolves w w'"
proof -
  have w: "onward w w" using assms(1) by (simp add: onward_def)
  with assms(2) openDispute_onward [of w env p] have opened: "onward w (snd (openDispute env p w))"
    by (simp add: establishes_def)
  note ops = submitEvidence_onward assignMediator_onward autoAssignMediator_onward submitMerchantResponse_onward
    submitMediationDecision_onward executeDecision_onward executePartialRefund_quiet [THEN quiet_onward] scans_onward
    runAutoMediation_onward sweep_onward
  from assms(3) have "onward w w'"
    by (elim insertE emptyE; hypsubst) (rule opened ops [THEN keepsD, OF w])+
  then show ?thesis by (simp add: onward_def)
qed

section \<open>A decision pays out the remaining balance\<close>

text \<open>\<open>calm\<close>: neither a dispute nor a payment record changes.\<close>

definition calm :: "'w dispute_world \<Rightarrow> 'w dispute_world \<Rightarrow> bool" where
  "calm w w' \<longleftrightarrow> dw_disputes w' = dw_disputes w \<and> ew_table (dw_escrow w') = ew_table (dw_escrow w)"

lemma date_calm: "\<exists>t w'. date_now env w = (Inr t, w') \<and> calm w w'"
  by (auto simp: date_now_def coordinator_def ask_env_def calm_def split: prod.splits)

lemma audit_calm: "\<exists>w'. recordAuditEvent env did eid ty actor details w = (Inr (), w') \<and> calm w w'"
  using date_calm [of env w] by (auto simp: recordAuditEvent_def prog_simps calm_def)

lemma emit_calm: "\<exists>w'. emit env ty oid eid payload w = (Inr (), w') \<and> calm w w'"
  using date_calm [of env w]
  by (auto simp: emit_def prog_simps calm_def coordinator_def run_env_def split: prod.splits sum.splits)

lemma notify_calm: "\<exists>w'. notifyDisputeParties env ty oid d extra w = (Inr (), w') \<and> calm w w'"
  unfolding notifyDisputeParties_def by (rule emit_calm)

lemma outcome_calm:
  "js_BigInt x = Some b \<Longrightarrow> js_BigInt y = Some s \<Longrightarrow> \<exists>w'. recordDisputeOutcome buyer seller x y w = (Inr (), w') \<and> calm w w'"
  by (auto simp: recordDisputeOutcome_def bigint_def recordOutcome_def change_reputation_def prog_simps calm_def)

lemma update_found:
  assumes "jm_get (dw_disputes w) i = Some d"
  shows "\<exists>t w'. store_update env i u w = (Inr (updated_dispute u t d), w') \<and>
    dw_disputes w' = jm_set i (updated_dispute u t d) (dw_disputes w) \<and> ew_table (dw_escrow w') = ew_table (dw_escrow w)"
  using date_calm [of env w] assms by (auto simp: store_update_def store_findById_def prog_simps calm_def)

lemma calm_trans: "calm a b \<Longrightarrow> calm b c \<Longrightarrow> calm a c"
  by (simp add: calm_def)

lemma current_calm: "ew_table x' = ew_table x \<Longrightarrow> current e x' r = current e x r"
  by (simp add: current_def)

lemma coordinator_ok: "m (dw_escrow w) = (Inr a, x) \<Longrightarrow> coordinator m w = (Inr a, w\<lparr>dw_escrow := x\<rparr>)"
  by (simp add: coordinator_def)

lemma balance_run: "current e (dw_escrow w) r \<Longrightarrow> \<exists>b. coordinator (getRemainingBalance e) w = (Inr b, w) \<and>
    rb_remainingAmount b = computeRemaining r"
  by (simp add: coordinator_def getRemainingBalance_def prog_simps require_current)

text \<open>The escrow side of a resolution: the chain accepts the calls, the events of the coordinator go out.\<close>

definition chain_works :: "'w dispute_env \<Rightarrow> string \<Rightarrow> bool" where
  "chain_works env e \<longleftrightarrow> chain_ok (dn_escrow env) \<and> publishes (dn_escrow env) ChPartialRefunded \<and>
     publishes (dn_escrow env) ChPartialReleased \<and> truthy (en_ESCROW_CONTRACT_ID (dn_escrow env)) \<and>
     (\<exists>n. js_integer e = Some n \<and> 0 \<le> n)"

lemma buyer_transfer_run:
  assumes c: "current (dp_escrowId d) (dw_escrow w) r" and ok: "chain_works env (dp_escrowId d)"
    and b: "js_BigInt (rs_buyerAmount res) = Some b" "0 \<le> b" "b \<le> computeRemaining r"
  shows "\<exists>tx x r'. buyer_transfer env d res cid b w = (Inr tx, w\<lparr>dw_escrow := x\<rparr>) \<and> current (dp_escrowId d) x r' \<and>
    pr_refunded r' = pr_refunded r + b \<and> pr_released r' = pr_released r \<and> pr_amount r' = pr_amount r"
proof (cases "b = 0")
  case True
  have "buyer_transfer env d res cid b w = (Inr None, w\<lparr>dw_escrow := dw_escrow w\<rparr>)"
    using True by (simp add: buyer_transfer_def prog_simps)
  moreover have "pr_refunded r = pr_refunded r + b" using True by simp
  ultimately show ?thesis using c by blast
next
  case False
  from ok obtain n where n: "js_integer (dp_escrowId d) = Some n" "0 \<le> n" by (auto simp: chain_works_def)
  let ?p = "transfer_call d res cid"
  have e: "ep_escrowId ?p = dp_escrowId d" by (simp add: transfer_call_def)
  obtain pr x r' where run: "partialRefundEscrow (dn_escrow env) ?p (Some b) (''dispute_resolution:'' @ dp_id d) (dw_escrow w) = (Inr pr, x)"
    "pt_status pr = OpPartialRefunded" "current (dp_escrowId d) x r'" "pr_refunded r' = pr_refunded r + b"
    "pr_released r' = pr_released r" "pr_amount r' = pr_amount r"
    using partial_refund_run [of ?p "dw_escrow w" r b "dn_escrow env" n "''dispute_resolution:'' @ dp_id d"] c b False ok n
    unfolding e chain_works_def by auto
  have "buyer_transfer env d res cid b w = (Inr (Some (pt_txHash pr)), w\<lparr>dw_escrow := x\<rparr>)"
    using run(1,2) b False by (simp add: buyer_transfer_def prog_simps coordinator_def)
  with run show ?thesis by blast
qed

lemma seller_transfer_run:
  assumes c: "current (dp_escrowId d) (dw_escrow w) r" and ok: "chain_works env (dp_escrowId d)"
    and b: "js_BigInt (rs_sellerAmount res) = Some s" "0 \<le> s" "s \<le> computeRemaining r"
  shows "\<exists>tx x r'. seller_transfer env d res cid s w = (Inr tx, w\<lparr>dw_escrow := x\<rparr>) \<and> current (dp_escrowId d) x r' \<and>
    pr_released r' = pr_released r + s \<and> pr_refunded r' = pr_refunded r \<and> pr_amount r' = pr_amount r"
proof (cases "s = 0")
  case True
  have "seller_transfer env d res cid s w = (Inr None, w\<lparr>dw_escrow := dw_escrow w\<rparr>)"
    using True by (simp add: seller_transfer_def prog_simps)
  moreover have "pr_released r = pr_released r + s" using True by simp
  ultimately show ?thesis using c by blast
next
  case False
  from ok obtain n where n: "js_integer (dp_escrowId d) = Some n" "0 \<le> n" by (auto simp: chain_works_def)
  let ?p = "transfer_call d res cid" and ?memo = "Some (''Dispute '' @ dp_id d @ '' resolution: release to seller'')"
  have e: "ep_escrowId ?p = dp_escrowId d" by (simp add: transfer_call_def)
  obtain pr x r' where run: "partialReleaseEscrow (dn_escrow env) ?p (Some s) ?memo (dw_escrow w) = (Inr pr, x)"
    "pt_status pr = OpPartialReleased" "current (dp_escrowId d) x r'" "pr_released r' = pr_released r + s"
    "pr_refunded r' = pr_refunded r" "pr_amount r' = pr_amount r"
    using partial_release_run [of ?p "dw_escrow w" r s "dn_escrow env" n ?memo] c b False ok n
    unfolding e chain_works_def by auto
  have "seller_transfer env d res cid s w = (Inr (Some (pt_txHash pr)), w\<lparr>dw_escrow := x\<rparr>)"
    using run(1,2) b False by (simp add: seller_transfer_def prog_simps coordinator_def)
  with run show ?thesis by blast
qed

lemma execution_done_run:
  assumes "jm_get (dw_disputes w) (dp_id d) = Some d" "js_BigInt (rs_buyerAmount res) = Some b" "js_BigInt (rs_sellerAmount res) = Some s"
  shows "\<exists>d' w'. execution_done env d res balance tx tx' w = (Inr d', w') \<and> jm_get (dw_disputes w') (dp_id d) = Some d' \<and>
    dp_status d' = DResolved \<and> dp_resolution d' = dp_resolution d \<and> ew_table (dw_escrow w') = ew_table (dw_escrow w)"
proof -
  define u where "u = no_change\<lparr>du_status := Some DResolved, du_resolutionError := Some None\<rparr>"
  obtain t w1 where 1: "store_update env (dp_id d) u w = (Inr (updated_dispute u t d), w1)"
    "dw_disputes w1 = jm_set (dp_id d) (updated_dispute u t d) (dw_disputes w)" "ew_table (dw_escrow w1) = ew_table (dw_escrow w)"
    using update_found [OF assms(1)] by blast
  obtain w2 where 2: "recordAuditEvent env (Some (dp_id d)) (dp_escrowId d) ''dispute_resolved'' None
      [(''buyerTx'', js_optional tx), (''sellerTx'', js_optional tx'), (''resolution'', JObj (resolution_object res))] w1 = (Inr (), w2)"
    "calm w1 w2" using audit_calm by blast
  obtain w3 where 3: "notifyDisputeParties env ''dispute_resolved'' (rb_orderId balance) (updated_dispute u t d)
      [(''buyerTx'', js_optional tx), (''sellerTx'', js_optional tx')] w2 = (Inr (), w3)" "calm w2 w3" using notify_calm by blast
  obtain w4 where 4: "recordDisputeOutcome (rb_buyerAddress balance) (rb_sellerAddress balance) (rs_buyerAmount res) (rs_sellerAmount res) w3
      = (Inr (), w4)" "calm w3 w4" using outcome_calm [OF assms(2,3)] by blast
  have "execution_done env d res balance tx tx' w = (Inr (updated_dispute u t d), w4)"
    unfolding execution_done_def u_def [symmetric] by (simp add: prog_simps 1 2 3 4)
  moreover have "calm w1 w4" using 2(2) 3(2) 4(2) by (blast intro: calm_trans)
  ultimately show ?thesis using 1 by (auto simp: calm_def jm_get_set u_def)
qed

lemma execute_pays:
  assumes d: "jm_get (dw_disputes w) (dp_id d) = Some d" "dp_status d = DDecided" "dp_resolution d = Some res"
    and c: "current (dp_escrowId d) (dw_escrow w) r" and ok: "chain_works env (dp_escrowId d)"
    and a: "js_BigInt (rs_buyerAmount res) = Some b" "js_BigInt (rs_sellerAmount res) = Some s" "0 \<le> b" "0 \<le> s" "b + s \<le> computeRemaining r"
  shows "\<exists>d' w' r'. executeDecision env (dp_id d) w = (Inr d', w') \<and> jm_get (dw_disputes w') (dp_id d) = Some d' \<and>
    dp_status d' = DResolved \<and> dp_resolution d' = Some res \<and> current (dp_escrowId d) (dw_escrow w') r' \<and>
    pr_refunded r' = pr_refunded r + b \<and> pr_released r' = pr_released r + s \<and> pr_amount r' = pr_amount r"
proof -
  define cid where "cid = or_empty (en_ESCROW_CONTRACT_ID (dn_escrow env))"
  obtain bal where bal: "coordinator (getRemainingBalance (dp_escrowId d)) w = (Inr bal, w)" using balance_run [OF c] by blast
  obtain tx x r1 where 1: "buyer_transfer env d res cid b w = (Inr tx, w\<lparr>dw_escrow := x\<rparr>)" "current (dp_escrowId d) x r1"
    "pr_refunded r1 = pr_refunded r + b" "pr_released r1 = pr_released r" "pr_amount r1 = pr_amount r"
    using buyer_transfer_run [OF c ok a(1,3), of cid] a by auto
  have s: "s \<le> computeRemaining r1" using a 1 by (simp add: computeRemaining_def)
  define w1 where "w1 = w\<lparr>dw_escrow := x\<rparr>"
  have c1: "current (dp_escrowId d) (dw_escrow w1) r1" using 1 by (simp add: w1_def)
  obtain tx' y r2 where 2: "seller_transfer env d res cid s w1 = (Inr tx', w1\<lparr>dw_escrow := y\<rparr>)" "current (dp_escrowId d) y r2"
    "pr_released r2 = pr_released r1 + s" "pr_refunded r2 = pr_refunded r1" "pr_amount r2 = pr_amount r1"
    using seller_transfer_run [OF c1 ok a(2,4) s] by blast
  define w2 where "w2 = w1\<lparr>dw_escrow := y\<rparr>"
  have d2: "jm_get (dw_disputes w2) (dp_id d) = Some d" using d by (simp add: w2_def w1_def)
  obtain d' w' where 3: "execution_done env d res bal tx tx' w2 = (Inr d', w')" "jm_get (dw_disputes w') (dp_id d) = Some d'"
    "dp_status d' = DResolved" "dp_resolution d' = dp_resolution d" "ew_table (dw_escrow w') = ew_table (dw_escrow w2)"
    using execution_done_run [OF d2 a(1,2)] by blast
  have "executeDecision env (dp_id d) w = (Inr d', w')"
    unfolding executeDecision_def require_dispute_def store_findById_def contract_id_def bigint_def
    using d ok bal a 1(1) 2(1) 3(1) by (simp add: prog_simps chain_works_def cid_def [symmetric] w1_def [symmetric] w2_def [symmetric])
  moreover have "current (dp_escrowId d) (dw_escrow w') r2"
    using 2(2) 3(5) by (simp add: current_calm w2_def current_def)
  moreover have "pr_refunded r2 = pr_refunded r + b" "pr_released r2 = pr_released r + s" "pr_amount r2 = pr_amount r"
    using 1 2 by simp_all
  ultimately show ?thesis using 3(2-4) d(3) by metis
qed

definition fair_decision :: "MediationDecision \<Rightarrow> int \<Rightarrow> int \<Rightarrow> int \<Rightarrow> bool" where
  "fair_decision dec rem b s \<longleftrightarrow> js_BigInt (md_buyerAmount dec) = Some b \<and> js_BigInt (md_sellerAmount dec) = Some s \<and>
     0 \<le> b \<and> 0 \<le> s \<and> b + s = rem \<and> (md_decision dec = FullRefund \<longrightarrow> s = 0) \<and> (md_decision dec = ReleaseToSeller \<longrightarrow> b = 0)"

lemma validate_fair: "fair_decision dec rem b s \<Longrightarrow> validateResolutionAmounts dec rem w = (Inr (), w)"
  by (auto simp: fair_decision_def validateResolutionAmounts_def prog_simps)

lemma validate_unfair:
  assumes "\<And>b s. \<not> fair_decision dec rem b s"
  shows "\<exists>m. validateResolutionAmounts dec rem w = (Inl (InvalidResolutionAmountsError m), w)"
proof (cases "js_BigInt (md_buyerAmount dec)"; cases "js_BigInt (md_sellerAmount dec)")
  fix b s assume "js_BigInt (md_buyerAmount dec) = Some b" "js_BigInt (md_sellerAmount dec) = Some s"
  with assms [of b s] show ?thesis by (simp add: fair_decision_def validateResolutionAmounts_def prog_simps) fastforce
qed (simp_all add: validateResolutionAmounts_def prog_simps)

text \<open>C6: On a dispute in negotiation (also after the merchant's response, or decided before), with the chain working,
  the mediator's decision is accepted exactly when its two amounts are integers that are not negative and together make
  up the remaining balance of the escrow, with nothing for the seller on a full refund and nothing for the buyer on a
  release. An accepted decision is carried out at once: the buyer's share is refunded, the seller's released, nothing
  remains in the escrow and the dispute is resolved. A refused one changes nothing.\<close>

theorem decision_pays_out:
  assumes d: "jm_get (dw_disputes w) (md_disputeId dec) = Some d" "dp_id d = md_disputeId dec"
    and st: "dp_status d \<in> {DNegotiation, DMerchantResponded, DDecided}"
    and c: "current (dp_escrowId d) (dw_escrow w) r" and ok: "chain_works env (dp_escrowId d)"
  shows "(\<forall>b s. fair_decision dec (computeRemaining r) b s \<longrightarrow>
      (\<exists>d' w' r'. submitMediationDecision env dec w = (Inr d', w') \<and> jm_get (dw_disputes w') (dp_id d) = Some d' \<and>
         dp_status d' = DResolved \<and> current (dp_escrowId d) (dw_escrow w') r' \<and> pr_refunded r' = pr_refunded r + b \<and>
         pr_released r' = pr_released r + s \<and> computeRemaining r' = 0)) \<and>
    ((\<forall>b s. \<not> fair_decision dec (computeRemaining r) b s) \<longrightarrow>
      (\<exists>m. submitMediationDecision env dec w = (Inl (InvalidResolutionAmountsError m), w)))"
proof (intro conjI allI impI)
  obtain bal where bal: "coordinator (getRemainingBalance (dp_escrowId d)) w = (Inr bal, w)"
    "rb_remainingAmount bal = computeRemaining r" using balance_run [OF c] by blast
  have start: "assertTransition (dp_status d) DDecided w = (Inr (), w)" "dp_status d \<noteq> DResolved"
    using st by (auto simp: assertTransition_def canTransition_def prog_simps)
  note open_run = submitMediationDecision_def require_dispute_def store_findById_def
  { assume "\<forall>b s. \<not> fair_decision dec (computeRemaining r) b s"
    then obtain m where "validateResolutionAmounts dec (computeRemaining r) w = (Inl (InvalidResolutionAmountsError m), w)"
      using validate_unfair by blast
    then show "\<exists>m. submitMediationDecision env dec w = (Inl (InvalidResolutionAmountsError m), w)"
      using start bal d by (auto simp: open_run prog_simps) }
  fix b s assume f: "fair_decision dec (computeRemaining r) b s"
  note v = validate_fair [OF f, of w]
  obtain t w1 where 1: "date_now env w = (Inr t, w1)" "calm w w1" using date_calm by blast
  define res where "res = \<lparr>rs_type = md_decision dec, rs_buyerAmount = md_buyerAmount dec, rs_sellerAmount = md_sellerAmount dec,
    rs_decidedBy = md_mediator dec, rs_decidedAt = t\<rparr>"
  define u where "u = no_change\<lparr>du_status := Some DDecided, du_resolution := Some res\<rparr>"
  have "jm_get (dw_disputes w1) (dp_id d) = Some d" using d 1(2) by (simp add: calm_def)
  then obtain t' w2 where 2: "store_update env (dp_id d) u w1 = (Inr (updated_dispute u t' d), w2)"
    "dw_disputes w2 = jm_set (dp_id d) (updated_dispute u t' d) (dw_disputes w1)" "ew_table (dw_escrow w2) = ew_table (dw_escrow w1)"
    using update_found by blast
  define d1 where "d1 = updated_dispute u t' d"
  obtain w3 where 3: "recordAuditEvent env (Some (dp_id d)) (dp_escrowId d) ''dispute_decided'' (Some (md_mediator dec))
      (resolution_object res @ [(''reasoning'', JStr (md_reasoning dec))]) w2 = (Inr (), w3)" "calm w2 w3" using audit_calm by blast
  obtain w4 where 4: "notifyDisputeParties env ''dispute_decided'' (rb_orderId bal) d1 [(''reasoning'', JStr (md_reasoning dec))] w3
      = (Inr (), w4)" "calm w3 w4" using notify_calm by blast
  have run: "submitMediationDecision env dec w = executeDecision env (dp_id d1) w4"
    using start bal d v 1 2 3 4 by (simp add: open_run prog_simps Let_def res_def u_def d1_def)
  have d1: "jm_get (dw_disputes w4) (dp_id d1) = Some d1" "dp_status d1 = DDecided" "dp_resolution d1 = Some res"
    "dp_id d1 = dp_id d" "dp_escrowId d1 = dp_escrowId d"
    using 2 3(2) 4(2) by (simp_all add: calm_def jm_get_set d1_def u_def)
  have c4: "current (dp_escrowId d1) (dw_escrow w4) r"
    using c 1(2) 2(3) 3(2) 4(2) d1(5) by (simp add: calm_def current_def)
  have "chain_works env (dp_escrowId d1)" using ok d1(5) by simp
  from execute_pays [OF d1(1-3) c4 this, of b s] f
  obtain d' w' r' where e: "executeDecision env (dp_id d1) w4 = (Inr d', w')" "jm_get (dw_disputes w') (dp_id d1) = Some d'"
    "dp_status d' = DResolved" "current (dp_escrowId d1) (dw_escrow w') r'" "pr_refunded r' = pr_refunded r + b"
    "pr_released r' = pr_released r + s" "pr_amount r' = pr_amount r"
    by (auto simp: fair_decision_def res_def)
  moreover have "computeRemaining r' = 0" using e f by (simp add: computeRemaining_def fair_decision_def)
  ultimately show "\<exists>d' w' r'. submitMediationDecision env dec w = (Inr d', w') \<and> jm_get (dw_disputes w') (dp_id d) = Some d' \<and>
     dp_status d' = DResolved \<and> current (dp_escrowId d) (dw_escrow w') r' \<and> pr_refunded r' = pr_refunded r + b \<and>
     pr_released r' = pr_released r + s \<and> computeRemaining r' = 0"
    using run d1(4,5) by metis
qed

text \<open>A dispute on the escrow of \<^const>\<open>demo_escrow_world\<close>, in negotiation.\<close>

definition demo_dispute :: Dispute where
  "demo_dispute = \<lparr>dp_id = ''d1'', dp_escrowId = ''7'', dp_initiatedBy = ''B'', dp_reason = ''late'', dp_evidence = [],
     dp_mediator = Some ''M'', dp_status = DNegotiation, dp_createdAt = 1, dp_updatedAt = 2, dp_slaDeadline = 50,
     dp_escalationTier = None, dp_escalationEscalatedAt = None, dp_resolution = None\<rparr>"

definition demo_dispute_world :: "unit dispute_world" where
  "demo_dispute_world = \<lparr>dw_escrow = demo_escrow_world, dw_disputes = [(''d1'', demo_dispute)], dw_escalated = {}, dw_audit = [],
     dw_reputation = [], dw_cursor = 0\<rparr>"

definition demo_dispute_env :: "unit dispute_env" where
  "demo_dispute_env = \<lparr>dn_escrow = demo_env\<lparr>en_ESCROW_CONTRACT_ID := Some ''C''\<rparr>, dn_randomUUID = (\<lambda>x. (''d2'', x)),
     dn_publishPaymentEvent = (\<lambda>e x. (Inr (), x)), dn_DISPUTE_MEDIATOR_POOL = Some ''M, N''\<rparr>"

definition demo_decision :: MediationDecision where
  "demo_decision = \<lparr>md_disputeId = ''d1'', md_decision = SplitBetween, md_buyerAmount = ''400'', md_sellerAmount = ''600'',
     md_reasoning = ''half'', md_mediator = ''M''\<rparr>"

lemma demo_fair: "fair_decision demo_decision 1000 400 600"
  by code_simp

lemma demo_chain: "chain_works demo_dispute_env (dp_escrowId demo_dispute)"
  using demo_env_works
  by (simp add: chain_works_def demo_dispute_env_def demo_dispute_def truthy_def demo_call_def chain_ok_def publishes_def)

lemma demo_dispute_current: "current (dp_escrowId demo_dispute) (dw_escrow demo_dispute_world) demo_row"
  using demo_current by (simp add: demo_dispute_world_def demo_dispute_def demo_call_def)

lemma demo_disputes_ok: "disputes_ok demo_dispute_world" "unused demo_dispute_env demo_dispute_world"
  by (auto simp: disputes_ok_def unused_def demo_dispute_world_def demo_dispute_env_def demo_dispute_def dispute_ok_def)

theorem decision_pays_out_witness:
  "\<exists>d' w'. submitMediationDecision demo_dispute_env demo_decision demo_dispute_world = (Inr d', w') \<and> dp_status d' = DResolved"
proof -
  have "jm_get (dw_disputes demo_dispute_world) (md_disputeId demo_decision) = Some demo_dispute" "dp_id demo_dispute = md_disputeId demo_decision"
    "dp_status demo_dispute \<in> {DNegotiation, DMerchantResponded, DDecided}"
    by (simp_all add: demo_dispute_world_def demo_decision_def demo_dispute_def)
  from decision_pays_out [OF this demo_dispute_current demo_chain] demo_fair show ?thesis
    unfolding demo_remaining by blast
qed

theorem dispute_lifecycle_witness:
  "disputes_ok (snd (submitMediationDecision demo_dispute_env demo_decision demo_dispute_world)) \<and>
   evolves demo_dispute_world (snd (submitMediationDecision demo_dispute_env demo_decision demo_dispute_world))"
  by (rule dispute_lifecycle [OF demo_disputes_ok,
        where decision = demo_decision and p = undefined and i = "[]" and party = "[]" and desc = "[]" and files = "[]" and
          mediator = "[]" and who = None and attachments = None and offer = None and request = undefined and now = 0 and hours = 0 and
          threshold = None and tracking = None and fetch = None]) simp

section \<open>Retrying a half executed decision\<close>

definition half_env :: "unit dispute_env" where
  "half_env = demo_dispute_env\<lparr>dn_escrow := (dn_escrow demo_dispute_env)\<lparr>en_submit := (\<lambda>req x.
     (Inr \<lparr>tx_hash = ''h'', tx_ledger = 9, tx_success = (tr_method req \<noteq> ''partial_release'')\<rparr>, x))\<rparr>\<rparr>"

definition escrow_row :: "'w dispute_world \<Rightarrow> string \<Rightarrow> PaymentRecord option" where
  "escrow_row w e = findPaymentRecordByEscrowId e (ew_table (dw_escrow w))"

text \<open>The decision awards 400 of 1000 to the buyer and 600 to the seller, and the chain refuses the seller's transfer.
  The dispute stays decided with 400 refunded; the retry that the code offers refunds another 400, twice the award, and
  leaves 200 for a share of 600.\<close>

theorem retry_refunds_again:
  "let (res, w1) = submitMediationDecision half_env demo_decision demo_dispute_world;
       (res', w2) = executeDecision half_env ''d1'' w1
   in map_option pr_refunded (escrow_row w1 ''7'') = Some 400 \<and> map_option pr_refunded (escrow_row w2 ''7'') = Some 800 \<and>
      map_option computeRemaining (escrow_row w2 ''7'') = Some 200 \<and>
      map_option dp_status (jm_get (dw_disputes w2) ''d1'') = Some DDecided"
  by code_simp

section \<open>The breach scan\<close>

definition breached :: "ms \<Rightarrow> 'w dispute_world \<Rightarrow> Dispute list" where
  "breached now w = filter (\<lambda>d. active d \<and> dp_slaDeadline d \<le> now \<and> dp_id d \<notin> dw_escalated w) (map snd (dw_disputes w))"

abbreviation escalate_update :: "ms \<Rightarrow> DisputeUpdate" where
  "escalate_update now \<equiv> no_change\<lparr>du_escalatedAt := Some now\<rparr>"

lemma update_escalates:
  assumes "jm_get (dw_disputes w) i = Some d"
  shows "\<exists>t w'. store_update env i (escalate_update now) w = (Inr (updated_dispute (escalate_update now) t d), w') \<and>
    dw_disputes w' = jm_set i (updated_dispute (escalate_update now) t d) (dw_disputes w) \<and> dw_escalated w' = insert i (dw_escalated w)"
proof -
  obtain t x where n: "date_now env w = (Inr t, w\<lparr>dw_escrow := x\<rparr>)" using date_now_run by blast
  show ?thesis using n assms by (auto simp: store_update_def store_findById_def prog_simps)
qed

lemma quiet_fields: "quiet m \<Longrightarrow> m w = (x, w') \<Longrightarrow> dw_disputes w' = dw_disputes w \<and> dw_escalated w' = dw_escalated w"
  using quiet_alike [of m w] by (simp add: alike_def)

lemma order_run: "\<exists>oid. safeGetOrderId e w = (Inr oid, w)"
  by (auto simp: safeGetOrderId_def prog_simps coordinator_def getRemainingBalance_def require_record_def split: option.splits)

lemma escalate_turn:
  assumes f: "jm_get (dw_disputes w) (dp_id d) = Some d0" and now: "\<bar>now\<bar> \<le> 8640000000000000"
  shows "\<exists>t w'. escalate_breached env now d acc w = (Inr (acc @ [updated_dispute (escalate_update now) t d0]), w') \<and>
    dw_disputes w' = jm_set (dp_id d) (updated_dispute (escalate_update now) t d0) (dw_disputes w) \<and>
    dw_escalated w' = insert (dp_id d) (dw_escalated w)"
proof -
  obtain t w1 where 1: "store_update env (dp_id d) (escalate_update now) w = (Inr (updated_dispute (escalate_update now) t d0), w1)"
    "dw_disputes w1 = jm_set (dp_id d) (updated_dispute (escalate_update now) t d0) (dw_disputes w)"
    "dw_escalated w1 = insert (dp_id d) (dw_escalated w)" using update_escalates [OF f] by blast
  obtain w2 where 2: "recordAuditEvent env (Some (dp_id d)) (dp_escrowId d) ''dispute_sla_breached'' None
     [(''slaDeadline'', JNum (dp_slaDeadline d)), (''escalatedAt'', JNum now), (''mediator'', js_optional (dp_mediator d))] w1 = (Inr (), w2)"
    using audit_calm by blast
  obtain oid where 3: "safeGetOrderId (dp_escrowId d) w2 = (Inr oid, w2)" using order_run by blast
  define m where "m = (if truthy oid then notifyDisputeParties env ''dispute_sla_breached'' (or_empty oid)
     (updated_dispute (escalate_update now) t d0) [(''slaDeadline'', JNum (dp_slaDeadline d))] else pret ())"
  have "\<exists>w3. m w2 = (Inr (), w3)"
  proof (cases "truthy oid")
    case True
    then show ?thesis unfolding m_def using notify_calm by (simp only: if_True) blast
  qed (simp add: m_def prog_simps)
  then obtain w3 where 4: "m w2 = (Inr (), w3)" by blast
  have q: "quiet m" unfolding m_def by (intro quiet_rules)
  have "escalate_breached env now d acc w = (Inr (acc @ [updated_dispute (escalate_update now) t d0]), w3)"
    using now 1(1) 2 3 4 by (simp add: escalate_breached_def logged_def iso_checked_def prog_simps m_def)
  then show ?thesis using 1(2,3) quiet_fields [OF q 4] quiet_fields [OF quiet_calls(3) 2] by auto
qed

lemma keys_update: "jm_get al k = Some v \<Longrightarrow> map fst (jm_set k v' al) = map fst al"
  by (induction al) auto

lemma escalate_loop:
  assumes "\<And>d. d \<in> set ds \<Longrightarrow> dp_id d \<in> set (map fst (dw_disputes w))" and "disputes_ok w" and "\<bar>now\<bar> \<le> 8640000000000000"
  shows "\<exists>res w'. pfor ds acc (escalate_breached env now) w = (Inr (acc @ res), w') \<and> map dp_id res = map dp_id ds \<and>
    dw_escalated w' = dw_escalated w \<union> dp_id ` set ds \<and> map fst (dw_disputes w') = map fst (dw_disputes w)"
  using assms(1,2)
proof (induction ds arbitrary: w acc)
  case Nil
  then show ?case by (simp add: prog_simps)
next
  case (Cons d ds)
  from Cons.prems(1) [of d] obtain d0 where f: "jm_get (dw_disputes w) (dp_id d) = Some d0"
    by (metis list.set_intros(1) map_of_eq_None_iff not_None_eq set_map)
  then have d0: "dp_id d0 = dp_id d" using Cons.prems(2) by (simp add: disputes_ok_def dispute_ok_def)
  obtain t w1 where 1: "escalate_breached env now d acc w = (Inr (acc @ [updated_dispute (escalate_update now) t d0]), w1)"
    "dw_disputes w1 = jm_set (dp_id d) (updated_dispute (escalate_update now) t d0) (dw_disputes w)"
    "dw_escalated w1 = insert (dp_id d) (dw_escalated w)" using escalate_turn [OF f assms(3)] by blast
  have keys: "map fst (dw_disputes w1) = map fst (dw_disputes w)" using 1(2) keys_update [OF f] by simp
  have "disputes_ok w1"
    using Cons.prems(2) 1(2) f by (auto simp: disputes_ok_def dispute_ok_def jm_get_set)
  then obtain res w' where 2: "pfor ds (acc @ [updated_dispute (escalate_update now) t d0]) (escalate_breached env now) w1 =
      (Inr ((acc @ [updated_dispute (escalate_update now) t d0]) @ res), w')" "map dp_id res = map dp_id ds"
    "dw_escalated w' = dw_escalated w1 \<union> dp_id ` set ds" "map fst (dw_disputes w') = map fst (dw_disputes w1)"
    using Cons.IH [of w1] Cons.prems(1) keys by (metis list.set_intros(2))
  have "pfor (d # ds) acc (escalate_breached env now) w = (Inr (acc @ (updated_dispute (escalate_update now) t d0 # res)), w')"
    using 1(1) 2(1) by (simp add: prog_simps)
  moreover have "dw_escalated w' = dw_escalated w \<union> dp_id ` set (d # ds)" using 1(3) 2(3) by auto
  moreover have "map dp_id (updated_dispute (escalate_update now) t d0 # res) = map dp_id (d # ds)" using 2(2) d0 by simp
  moreover have "map fst (dw_disputes w') = map fst (dw_disputes w)" using 2(4) keys by simp
  ultimately show ?case by blast
qed

text \<open>C34: A scan for breached deadlines never fails: it escalates every active dispute whose deadline has passed and that
  was not escalated before, in store order, and a dispute it escalated is not found by any later scan, in particular not
  by one at the same instant.\<close>

theorem sla_scan_once:
  assumes ok: "disputes_ok w" and dist: "distinct (map fst (dw_disputes w))" and now: "\<bar>now\<bar> \<le> 8640000000000000"
  shows "\<exists>res w'. findAndEscalateBreachedDisputes env now w = (Inr res, w') \<and> sl_scanned res = length (breached now w) \<and>
    map dp_id (sl_escalated res) = map dp_id (breached now w) \<and> breached now w' = [] \<and>
    (\<forall>later. dp_id ` set (breached later w') \<inter> dp_id ` set (breached now w) = {})"
proof -
  have known: "dp_id d \<in> set (map fst (dw_disputes w))" "jm_get (dw_disputes w) (dp_id d) = Some d" if "d \<in> set (map snd (dw_disputes w))" for d
  proof -
    from that obtain i where i: "(i, d) \<in> set (dw_disputes w)" by auto
    then have g: "jm_get (dw_disputes w) i = Some d" using dist by simp
    then have "dp_id d = i" using ok by (simp add: disputes_ok_def dispute_ok_def)
    with g i show "dp_id d \<in> set (map fst (dw_disputes w))" "jm_get (dw_disputes w) (dp_id d) = Some d" by force+
  qed
  then have "\<And>d. d \<in> set (breached now w) \<Longrightarrow> dp_id d \<in> set (map fst (dw_disputes w))" by (simp add: breached_def)
  from escalate_loop [where ds = "breached now w" and acc = "[]" and env = env, OF this ok now]
  obtain res w' where loop: "pfor (breached now w) [] (escalate_breached env now) w = (Inr res, w')" "map dp_id res = map dp_id (breached now w)"
    "dw_escalated w' = dw_escalated w \<union> dp_id ` set (breached now w)" "map fst (dw_disputes w') = map fst (dw_disputes w)" by auto
  have run: "findAndEscalateBreachedDisputes env now w = (Inr \<lparr>sl_scanned = length (breached now w), sl_escalated = res\<rparr>, w')"
    using loop(1) by (simp add: findAndEscalateBreachedDisputes_def store_findBreached_def prog_simps breached_def)
  have "onward w w'" using keepsD' [OF scans_onward(1) _ run, of w] ok by (simp add: onward_def)
  then have ok': "disputes_ok w'" and ev: "evolves w w'" by (simp_all add: onward_def)
  have later: "dp_id ` set (breached t w') \<inter> dp_id ` set (breached now w) = {}" for t
    using loop(3) by (auto simp: breached_def [of t])
  have "d \<notin> set (breached now w')" for d
  proof
    assume d: "d \<in> set (breached now w')"
    then obtain i where i: "(i, d) \<in> set (dw_disputes w')" by (auto simp: breached_def)
    then have g: "jm_get (dw_disputes w') i = Some d" using dist loop(4) by simp
    from i loop(4) have "i \<in> set (map fst (dw_disputes w))" by (metis fst_conv image_eqI set_map)
    then obtain d0 where d0: "jm_get (dw_disputes w) i = Some d0" by (metis map_of_eq_None_iff not_None_eq set_map)
    with ev g have a: "advances d0 d" unfolding evolves_def by fastforce
    then have "stageIndex (dp_status d0) \<le> stageIndex (dp_status d)" by (simp add: advances_def leads_index)
    with d have "active d0" by (cases "dp_status d0"; cases "dp_status d") (auto simp: active_def breached_def)
    moreover have "dp_slaDeadline d0 \<le> now" "dp_id d0 = dp_id d" "dp_id d0 \<notin> dw_escalated w"
      using d a loop(3) by (auto simp: breached_def advances_def)
    ultimately have "d0 \<in> set (breached now w)" using map_of_SomeD [OF d0] by (force simp: breached_def)
    then have "dp_id d \<in> dw_escalated w'" using loop(3) \<open>dp_id d0 = dp_id d\<close> by (metis UnI2 image_eqI)
    with d show False by (auto simp: breached_def [of now w'])
  qed
  then have "breached now w' = []" by (metis list.set_intros(1) neq_Nil_conv)
  with run loop(2) later show ?thesis by (metis SlaEscalationResult.select_convs)
qed

theorem sla_scan_once_witness:
  "\<exists>res w'. findAndEscalateBreachedDisputes demo_dispute_env 60 demo_dispute_world = (Inr res, w') \<and> sl_scanned res = 1 \<and> breached 60 w' = []"
proof -
  have "distinct (map fst (dw_disputes demo_dispute_world))" "length (breached 60 demo_dispute_world) = 1"
    by (simp_all add: demo_dispute_world_def breached_def active_def demo_dispute_def)
  with sla_scan_once [OF demo_disputes_ok(1) this(1), of 60 demo_dispute_env] show ?thesis by auto
qed

section \<open>Automated verdicts\<close>

text \<open>An automated verdict can only be carried out on a dispute in negotiation: for one that is still open or collecting
  evidence, which is what the sweep over breached deadlines meets first, the verdict is refused after it has been reached,
  and the dispute and the escrow are as before.\<close>

theorem early_verdict_refused:
  assumes d: "jm_get (dw_disputes w) i = Some d" "dp_id d = i" and st: "dp_status d \<in> {DOpen, DEvidence}"
    and v: "dm_verdict (evaluateDisputeRules d tracking None) \<noteq> EscalateHuman"
      "\<not> below_threshold (dm_confidence (evaluateDisputeRules d tracking None)) threshold"
    and c: "current (dp_escrowId d) (dw_escrow w) r" and cid: "truthy (en_ESCROW_CONTRACT_ID (dn_escrow env))"
  shows "\<exists>w'. runAutoMediation env threshold i tracking None w = (Inl (InvalidStateTransitionError (dp_status d) DDecided), w') \<and> calm w w'"
proof -
  define dec where "dec = evaluateDisputeRules d tracking None"
  obtain w1 where 1: "recordAuditEvent env (Some i) (dp_escrowId d) ''dispute_auto_mediation_evaluated'' None
     [(''decision'', JObj (decision_object dec))] w = (Inr (), w1)" "calm w w1" using audit_calm by blast
  have c1: "current (dp_escrowId d) (dw_escrow w1) r" using c 1(2) by (simp add: calm_def current_def)
  obtain bal where 2: "coordinator (getRemainingBalance (dp_escrowId d)) w1 = (Inr bal, w1)" using balance_run [OF c1] by blast
  obtain md where 3: "automated_decision d dec None (rb_remainingAmount bal) w1 = (Inr md, w1)" "md_disputeId md = i"
    using d(2) by (cases "dm_verdict dec = RefundBuyer") (simp_all add: automated_decision_def Let_def prog_simps)
  have 4: "submitMediationDecision env md w1 = (Inl (InvalidStateTransitionError (dp_status d) DDecided), w1)"
    using d st 3(2) 1(2) by (auto simp: submitMediationDecision_def require_dispute_def store_findById_def prog_simps calm_def
        assertTransition_def canTransition_def)
  obtain w2 where 5: "recordAuditEvent env (Some i) (dp_escrowId d) ''dispute_auto_mediation_failed'' None
     [(''error'', JStr (dispute_message (InvalidStateTransitionError (dp_status d) DDecided))), (''decision'', JObj (decision_object dec))] w1
     = (Inr (), w2)" "calm w1 w2" using audit_calm by blast
  have "executeAutomatedVerdict env d dec None w1 = (Inl (InvalidStateTransitionError (dp_status d) DDecided), w2)"
    using 2 3(1) 4 5(1) cid d(2) by (simp add: executeAutomatedVerdict_def contract_id_def prog_simps)
  then have "runAutoMediation env threshold i tracking None w = (Inl (InvalidStateTransitionError (dp_status d) DDecided), w2)"
    using d st v 1(1) unfolding runAutoMediation_def Let_def dec_def [symmetric]
    by (auto simp: require_dispute_def store_findById_def prog_simps dec_def [symmetric])
  with 1(2) 5(2) show ?thesis by (blast intro: calm_trans)
qed

definition open_world :: "unit dispute_world" where
  "open_world = demo_dispute_world\<lparr>dw_disputes := [(''d1'', demo_dispute\<lparr>dp_status := DOpen, dp_mediator := None\<rparr>)]\<rparr>"

theorem early_verdict_refused_witness:
  "\<exists>w'. runAutoMediation demo_dispute_env (Some (8 / 10)) ''d1'' (Some Delivered) None open_world =
     (Inl (InvalidStateTransitionError DOpen DDecided), w')"
proof -
  let ?d = "demo_dispute\<lparr>dp_status := DOpen, dp_mediator := None\<rparr>"
  have "jm_get (dw_disputes open_world) ''d1'' = Some ?d" "dp_id ?d = ''d1''" "dp_status ?d \<in> {DOpen, DEvidence}"
    "dm_verdict (evaluateDisputeRules ?d (Some Delivered) None) \<noteq> EscalateHuman"
    "\<not> below_threshold (dm_confidence (evaluateDisputeRules ?d (Some Delivered) None)) (Some (8 / 10))"
    "current (dp_escrowId ?d) (dw_escrow open_world) demo_row" "truthy (en_ESCROW_CONTRACT_ID (dn_escrow demo_dispute_env))"
    using demo_dispute_current
    by (simp_all add: open_world_def demo_dispute_def evaluateDisputeRules_def below_threshold_def demo_dispute_env_def truthy_def
        demo_dispute_world_def)
  from early_verdict_refused [OF this] show ?thesis by auto
qed

text \<open>A returned package entitles the buyer to the full refund, says the rule; when the merchant had offered part of it, the
  verdict carries out the offer.\<close>

lemma returned_package_split:
  assumes "js_BigInt amount = Some n"
  shows "dm_confidence (evaluateDisputeRules d (Some ReturnToSender) (Some amount)) = 95 \<and>
    (\<exists>md. automated_decision d (evaluateDisputeRules d (Some ReturnToSender) (Some amount)) (Some amount) rem w = (Inr md, w) \<and>
       md_decision md = PartialRefundTo \<and> md_buyerAmount md = amount)"
  using assms by (simp add: evaluateDisputeRules_def automated_decision_def Let_def bigint_def prog_simps)

text \<open>A verdict reached with too little confidence goes to a human, and the sweep counts it as resolved.\<close>

lemma sweep_counts_unresolved:
  "(let lost = demo_dispute\<lparr>dp_evidence := [\<lparr>de_party = ''B'', de_description = ''not received'', de_files = [], de_submittedAt = 3\<rparr>]\<rparr>;
        (res, w) = sweepAutoMediation demo_dispute_env (Some (8 / 10)) None (demo_dispute_world\<lparr>dw_disputes := [(''d1'', lost)]\<rparr>)
    in (case res of Inl _ \<Rightarrow> False | Inr c \<Rightarrow> sw_resolved c = 1 \<and> sw_escalated c = 0) \<and>
       map_option dp_status (jm_get (dw_disputes w) ''d1'') = Some DNegotiation)"
  by code_simp

end
