(* ===== verification/Transactions.thy ===== *)
theory Transactions
  imports Delego_Prelude
begin

text \<open>
  Programs over a PostgreSQL database: the state is the database and the rest of the world, a statement is a function of
  the database that may violate a constraint, any statement may fail (\<open>fails\<close>, a parameter that consults the rest of
  the world) and then has no effect, and what a failed transaction wrote is gone. That includes \<^verbatim>\<open>COMMIT\<close>: one that
  fails is one the database refused, so its writes are undone; that the connection is lost after the database has carried
  out the \<^verbatim>\<open>COMMIT\<close>, so that the client sees an error for a transaction that took effect, is not modelled. The services that work this way lock the
  rows they read inside their transaction, so that their transactions follow one another.
\<close>

record ('d, 'w) tx_world =
  iw_db :: 'd
  iw_ext :: 'w

type_synonym ('d, 'w, 'e, 'a) tx_prog = "(('d, 'w) tx_world, 'e, 'a) prog"

type_synonym ('w, 'e) outages = "'w \<Rightarrow> 'e option \<times> 'w"

definition db_query :: "('w, 'e) outages \<Rightarrow> ('d \<Rightarrow> 'e + ('a \<times> 'd)) \<Rightarrow> ('d, 'w, 'e, 'a) tx_prog" where
  "db_query fails f w = (case fails (iw_ext w) of
       (Some e, x) \<Rightarrow> (Inl e, w\<lparr>iw_ext := x\<rparr>)
     | (None, x) \<Rightarrow> (case f (iw_db w) of
           Inl e \<Rightarrow> (Inl e, w\<lparr>iw_ext := x\<rparr>)
         | Inr (a, db) \<Rightarrow> (Inr a, w\<lparr>iw_db := db, iw_ext := x\<rparr>)))"

definition db_select :: "('w, 'e) outages \<Rightarrow> ('d \<Rightarrow> 'a) \<Rightarrow> ('d, 'w, 'e, 'a) tx_prog" where
  "db_select fails f = db_query fails (\<lambda>db. Inr (f db, db))"

text \<open>Connecting, \<^verbatim>\<open>BEGIN\<close>, \<^verbatim>\<open>COMMIT\<close> and \<^verbatim>\<open>ROLLBACK\<close>.\<close>

abbreviation db_statement :: "('w, 'e) outages \<Rightarrow> ('d, 'w, 'e, unit) tx_prog" where
  "db_statement fails \<equiv> db_select fails (\<lambda>_. ())"

definition outside :: "('w \<Rightarrow> 'a \<times> 'w) \<Rightarrow> ('d, 'w, 'e, 'a) tx_prog" where
  "outside f w = (case f (iw_ext w) of (a, x) \<Rightarrow> (Inr a, w\<lparr>iw_ext := x\<rparr>))"

text \<open>A transaction ends with \<^verbatim>\<open>COMMIT\<close>, or with a \<^verbatim>\<open>ROLLBACK\<close> of its own where it changed nothing. An error
  inside it undoes its writes, sends \<^verbatim>\<open>ROLLBACK\<close> (whose own error is swallowed or takes its place) and is thrown on.\<close>

definition db_transaction :: "('w, 'e) outages \<Rightarrow> bool \<Rightarrow> ('d, 'w, 'e, 'a) tx_prog \<Rightarrow> ('d, 'w, 'e, 'a) tx_prog" where
  "db_transaction fails swallow body =
     pbind (db_statement fails) (\<lambda>_ w.
     case pbind (db_statement fails) (\<lambda>_. pbind body (\<lambda>a. pbind (db_statement fails) (\<lambda>_. pret a))) w of
       (Inr a, w') \<Rightarrow> (Inr a, w')
     | (Inl e, w') \<Rightarrow>
         pbind (if swallow then pcatch (db_statement fails) (\<lambda>_. pret ()) else db_statement fails) (\<lambda>_. pthrow e) (w'\<lparr>iw_db := iw_db w\<rparr>))"

lemma db_statement_db: "db_statement fails w = (r, w') \<Longrightarrow> iw_db w' = iw_db w"
  by (auto simp: db_select_def db_query_def split: prod.splits option.splits)

lemma outside_db: "outside f w = (r, w') \<Longrightarrow> iw_db w' = iw_db w"
  by (auto simp: outside_def split: prod.splits)

lemma outside_returns: "\<exists>a w'. outside f w = (Inr a, w')"
  by (auto simp: outside_def split: prod.splits)

lemma db_transaction_cases:
  obtains (connect) e w1 where "db_statement fails w = (Inl e, w1)" "db_transaction fails sw body w = (Inl e, w1)"
  | (finished) w1 a w2 where "db_statement fails w = (Inr (), w1)"
      "pbind (db_statement fails) (\<lambda>_. pbind body (\<lambda>a. pbind (db_statement fails) (\<lambda>_. pret a))) w1 = (Inr a, w2)"
      "db_transaction fails sw body w = (Inr a, w2)"
  | (undone) w1 e w2 where "db_statement fails w = (Inr (), w1)"
      "db_transaction fails sw body w =
        pbind (if sw then pcatch (db_statement fails) (\<lambda>_. pret ()) else db_statement fails) (\<lambda>_. pthrow e) (w2\<lparr>iw_db := iw_db w1\<rparr>)"
proof (cases "db_statement fails w")
  case (Pair res w1)
  show ?thesis
  proof (cases res)
    case (Inl e)
    with Pair show ?thesis using connect by (simp add: db_transaction_def pbind_apply)
  next
    case (Inr u)
    let ?m = "pbind (db_statement fails) (\<lambda>_. pbind body (\<lambda>a. pbind (db_statement fails) (\<lambda>_. pret a)))"
    show ?thesis
    proof (cases "?m w1")
      case (Pair r2 w2)
      with Inr \<open>db_statement fails w = (res, w1)\<close> show ?thesis
        using finished [of w1 _ w2] undone [of w1 _ w2] by (cases r2) (simp_all add: db_transaction_def pbind_apply [of "db_statement fails" _ w])
    qed
  qed
qed

text \<open>An invariant of the database alone: statements outside the tables keep it, a transaction keeps it if its body does.\<close>

definition of_db :: "('d \<Rightarrow> bool) \<Rightarrow> ('d, 'w) tx_world \<Rightarrow> bool" where
  "of_db I w \<longleftrightarrow> I (iw_db w)"

lemma of_db_simps [simp]: "of_db I (w\<lparr>iw_ext := x\<rparr>) \<longleftrightarrow> of_db I w" "of_db I (w\<lparr>iw_db := d\<rparr>) \<longleftrightarrow> I d"
  by (simp_all add: of_db_def)

lemma db_query_keeps:
  assumes "\<And>d a d'. I d \<Longrightarrow> f d = Inr (a, d') \<Longrightarrow> I d'"
  shows "keeps (of_db I) (db_query fails f)"
  using assms by (auto simp: keeps_def db_query_def of_db_def split: prod.splits option.splits sum.splits)

lemma db_select_keeps [keeps_rules]: "keeps (of_db I) (db_select fails f)"
  unfolding db_select_def by (rule db_query_keeps) simp

lemma outside_keeps [keeps_rules]: "keeps (of_db I) (outside f)"
  by (auto simp: keeps_def outside_def of_db_def split: prod.splits)

lemma db_transaction_establishes:
  assumes body: "establishes J (of_db I) body" and j: "keeps J (db_statement fails)" and sub: "\<And>w. J w \<Longrightarrow> of_db I w"
  shows "establishes J (of_db I) (db_transaction fails sw body)"
  unfolding establishes_def
proof (intro allI impI)
  fix w assume "J w"
  with j have j1: "J w1" if "db_statement fails w = (r, w1)" for r w1 using that by (rule keepsD')
  have m: "establishes J (of_db I) (pbind (db_statement fails) (\<lambda>_. pbind body (\<lambda>a. pbind (db_statement fails) (\<lambda>_. pret a))))"
    by (intro establishes_pbind body j sub establishes_first keeps_rules)
  show "of_db I (snd (db_transaction fails sw body w))"
  proof (rule db_transaction_cases [of fails w sw body])
    fix e w1 assume "db_statement fails w = (Inl e, w1)" "db_transaction fails sw body w = (Inl e, w1)"
    with sub [OF j1] show ?thesis by simp
  next
    fix w1 a w2 assume *: "db_statement fails w = (Inr (), w1)" "db_transaction fails sw body w = (Inr a, w2)"
      "pbind (db_statement fails) (\<lambda>_. pbind body (\<lambda>a. pbind (db_statement fails) (\<lambda>_. pret a))) w1 = (Inr a, w2)"
    with m j1 [OF *(1)] show ?thesis unfolding establishes_def by (metis snd_conv)
  next
    fix w1 e w2 assume *: "db_statement fails w = (Inr (), w1)" "db_transaction fails sw body w =
        pbind (if sw then pcatch (db_statement fails) (\<lambda>_. pret ()) else db_statement fails) (\<lambda>_. pthrow e) (w2\<lparr>iw_db := iw_db w1\<rparr>)"
    have "keeps (of_db I) (pbind (if sw then pcatch (db_statement fails) (\<lambda>_. pret ()) else db_statement fails) (\<lambda>_. pthrow e))"
      by (intro keeps_rules)
    moreover have "of_db I (w2\<lparr>iw_db := iw_db w1\<rparr>)" using sub [OF j1 [OF *(1)]] by (simp add: of_db_def)
    ultimately show ?thesis unfolding *(2) by (rule keepsD)
  qed
qed

lemma db_transaction_keeps:
  assumes "keeps (of_db I) body"
  shows "keeps (of_db I) (db_transaction fails sw body)"
proof -
  have "establishes (of_db I) (of_db I) (db_transaction fails sw body)"
    by (rule db_transaction_establishes [OF _ db_select_keeps]) (use assms in \<open>simp_all add: keeps_def establishes_def\<close>)
  then show ?thesis by (simp add: keeps_def establishes_def)
qed

text \<open>A transaction that throws has changed nothing.\<close>

lemma rollback_db:
  "pbind (if sw then pcatch (db_statement fails) (\<lambda>_. pret ()) else db_statement fails) (\<lambda>_. pthrow e) w = (r, w') \<Longrightarrow>
     iw_db w' = iw_db w \<and> (\<exists>e'. r = Inl e')"
  by (auto simp: prog_simps dest: db_statement_db split: prod.splits sum.splits if_splits)

lemma db_transaction_throws:
  assumes "db_transaction fails sw body w = (Inl e, w')"
  shows "iw_db w' = iw_db w"
proof (rule db_transaction_cases [of fails w sw body])
  fix e1 w1 assume "db_statement fails w = (Inl e1, w1)" "db_transaction fails sw body w = (Inl e1, w1)"
  with assms show ?thesis using db_statement_db by fastforce
next
  fix w1 a w2 assume "db_transaction fails sw body w = (Inr a, w2)"
  with assms show ?thesis by simp
next
  fix w1 e1 w2 assume "db_statement fails w = (Inr (), w1)" "db_transaction fails sw body w =
    pbind (if sw then pcatch (db_statement fails) (\<lambda>_. pret ()) else db_statement fails) (\<lambda>_. pthrow e1) (w2\<lparr>iw_db := iw_db w1\<rparr>)"
  with assms rollback_db [of sw fails e1 "w2\<lparr>iw_db := iw_db w1\<rparr>"] db_statement_db show ?thesis by fastforce
qed

lemma db_transaction_then:
  assumes run: "pbind (db_transaction fails sw body) f w = (Inl e, w')" and f: "\<And>a w1. \<exists>b w2. f a w1 = (Inr b, w2)"
  shows "iw_db w' = iw_db w"
proof (cases "db_transaction fails sw body w")
  case (Pair r w1)
  show ?thesis
  proof (cases r)
    case (Inl e')
    with Pair run show ?thesis using db_transaction_throws by (fastforce simp: pbind_apply)
  next
    case (Inr a)
    with Pair run f [of a w1] show ?thesis by (auto simp: pbind_apply)
  qed
qed

text \<open>What a program that returned did to the database, with the rest of the world abstracted away: one rule per combinator.\<close>

definition yields :: "('d, 'w, 'e, 'a) tx_prog \<Rightarrow> 'd \<Rightarrow> 'a \<Rightarrow> 'd \<Rightarrow> bool" where
  "yields m d a d' \<longleftrightarrow> (\<exists>w w'. iw_db w = d \<and> m w = (Inr a, w') \<and> iw_db w' = d')"

named_theorems yields_dests "what a program that returned normally did to the database"

lemma yieldsI: "m w = (Inr a, w') \<Longrightarrow> yields m (iw_db w) a (iw_db w')"
  by (auto simp: yields_def)

lemma pbind_returned:
  assumes "pbind m f w = (Inr b, w'')"
  obtains a w' where "m w = (Inr a, w')" "f a w' = (Inr b, w'')"
  using assms by (auto simp: pbind_apply split: prod.splits sum.splits)

lemma yields_pbind [yields_dests]: "yields (pbind m f) d b d'' \<Longrightarrow> \<exists>a d'. yields m d a d' \<and> yields (f a) d' b d''"
  unfolding yields_def by (blast elim: pbind_returned)

lemma yields_pret [yields_dests]: "yields (pret x) d a d' \<Longrightarrow> a = x \<and> d' = d"
  by (auto simp: yields_def pret_apply)

lemma yields_pthrow [yields_dests]: "yields (pthrow e) d a d' \<Longrightarrow> False"
  by (auto simp: yields_def pthrow_apply)

lemma db_query_returned: "db_query fails f w = (Inr a, w') \<Longrightarrow> f (iw_db w) = Inr (a, iw_db w')"
  by (auto simp: db_query_def split: prod.splits option.splits sum.splits)

lemma yields_query [yields_dests]: "yields (db_query fails f) d a d' \<Longrightarrow> f d = Inr (a, d')"
  unfolding yields_def by (auto dest: db_query_returned)

lemma yields_select [yields_dests]: "yields (db_select fails f) d a d' \<Longrightarrow> a = f d \<and> d' = d"
  unfolding db_select_def by (drule yields_query) auto

lemma yields_outside [yields_dests]: "yields (outside f) d a d' \<Longrightarrow> d' = d"
  by (auto simp: yields_def dest: outside_db)

lemma db_transaction_returned:
  assumes "db_transaction fails sw body w = (Inr a, w')"
  obtains w1 w2 where "iw_db w1 = iw_db w" "body w1 = (Inr a, w2)" "iw_db w' = iw_db w2"
proof (rule db_transaction_cases [of fails w sw body])
  fix e w1 assume "db_transaction fails sw body w = (Inl e, w1)"
  with assms show ?thesis by simp
next
  fix w1 b w2 assume *: "db_statement fails w = (Inr (), w1)"
    "pbind (db_statement fails) (\<lambda>_. pbind body (\<lambda>a. pbind (db_statement fails) (\<lambda>_. pret a))) w1 = (Inr b, w2)"
    "db_transaction fails sw body w = (Inr b, w2)"
  from *(2) obtain u w3 c w4 v w5 where 3: "db_statement fails w1 = (Inr u, w3)" "body w3 = (Inr c, w4)"
    and 5: "db_statement fails w4 = (Inr v, w5)" "c = b" "w5 = w2" by (elim pbind_returned) (auto simp: pret_apply)
  show ?thesis using that [of w3 w4] db_statement_db [OF *(1)] db_statement_db [OF 3(1)] db_statement_db [OF 5(1)] 3(2) 5(2,3) *(3) assms by simp
next
  fix w1 e w2 assume "db_transaction fails sw body w =
    pbind (if sw then pcatch (db_statement fails) (\<lambda>_. pret ()) else db_statement fails) (\<lambda>_. pthrow e) (w2\<lparr>iw_db := iw_db w1\<rparr>)"
  with assms rollback_db [of sw fails e "w2\<lparr>iw_db := iw_db w1\<rparr>" "Inr a" w'] show ?thesis by auto
qed

lemma yields_transaction [yields_dests]: "yields (db_transaction fails sw body) d a d' \<Longrightarrow> yields body d a d'"
  unfolding yields_def by (metis db_transaction_returned)

text \<open>
  Programs outside a transaction, which may stop after any of their statements: \<open>ends d Q m\<close> says that a run of \<open>m\<close> from the
  database \<open>d\<close> leaves a database with \<open>Q\<close>, however the run ends. One rule per combinator, applied from the first statement on.
\<close>

definition ends :: "'d \<Rightarrow> ('d \<Rightarrow> bool) \<Rightarrow> ('d, 'w, 'e, 'a) tx_prog \<Rightarrow> bool" where
  "ends d Q m \<longleftrightarrow> (\<forall>w. iw_db w = d \<longrightarrow> Q (iw_db (snd (m w))))"

definition mem_update :: "('d \<Rightarrow> 'd) \<Rightarrow> ('d, 'w, 'e, unit) tx_prog" where
  "mem_update f w = (Inr (), w\<lparr>iw_db := f (iw_db w)\<rparr>)"

named_theorems ends_rules "final databases, one rule per program combinator"

lemma endsD: "ends (iw_db w) Q m \<Longrightarrow> Q (iw_db (snd (m w)))"
  by (simp add: ends_def)

lemma ends_pret [ends_rules]: "Q d \<Longrightarrow> ends d Q (pret a)"
  by (simp add: ends_def pret_apply)

lemma ends_pthrow [ends_rules]: "Q d \<Longrightarrow> ends d Q (pthrow e)"
  by (simp add: ends_def pthrow_apply)

lemma ends_query [ends_rules]:
  assumes "Q d" and "\<And>a d'. f d = Inr (a, d') \<Longrightarrow> ends d' Q (k a)"
  shows "ends d Q (pbind (db_query fails f) k)"
  using assms by (auto simp: ends_def pbind_apply db_query_def split: prod.splits option.splits sum.splits)

lemma ends_query_last [ends_rules]:
  assumes "Q d" and "\<And>a d'. f d = Inr (a, d') \<Longrightarrow> Q d'"
  shows "ends d Q (db_query fails f)"
  using assms by (auto simp: ends_def db_query_def split: prod.splits option.splits sum.splits)

lemma ends_select [ends_rules]:
  assumes "Q d" and "ends d Q (k (f d))"
  shows "ends d Q (pbind (db_select fails f) k)"
  unfolding db_select_def by (rule ends_query) (use assms in auto)

lemma ends_select_last [ends_rules]: "Q d \<Longrightarrow> ends d Q (db_select fails f)"
  unfolding db_select_def by (rule ends_query_last) auto

lemma ends_outside [ends_rules]: "(\<And>a. ends d Q (k a)) \<Longrightarrow> ends d Q (pbind (outside f) k)"
  by (auto simp: ends_def pbind_apply outside_def split: prod.splits)

lemma ends_update [ends_rules]: "ends (f d) Q (k ()) \<Longrightarrow> ends d Q (pbind (mem_update f) k)"
  by (auto simp: ends_def pbind_apply mem_update_def)

lemma ends_update_last [ends_rules]: "Q (f d) \<Longrightarrow> ends d Q (mem_update f)"
  by (auto simp: ends_def mem_update_def)

lemma ends_assoc [ends_rules]: "ends d Q (pbind m (\<lambda>x. pbind (f x) g)) \<Longrightarrow> ends d Q (pbind (pbind m f) g)"
  by (simp add: pbind_assoc)

lemma ends_if [ends_rules]: "(b \<Longrightarrow> ends d Q m) \<Longrightarrow> (\<not> b \<Longrightarrow> ends d Q m') \<Longrightarrow> ends d Q (if b then m else m')"
  by simp

lemma ends_option [ends_rules]:
  "(x = None \<Longrightarrow> ends d Q m) \<Longrightarrow> (\<And>y. x = Some y \<Longrightarrow> ends d Q (f y)) \<Longrightarrow> ends d Q (case x of None \<Rightarrow> m | Some y \<Rightarrow> f y)"
  by (cases x) auto

lemma ends_sum [ends_rules]:
  "(\<And>e. x = Inl e \<Longrightarrow> ends d Q (g e)) \<Longrightarrow> (\<And>y. x = Inr y \<Longrightarrow> ends d Q (f y)) \<Longrightarrow> ends d Q (case x of Inl e \<Rightarrow> g e | Inr y \<Rightarrow> f y)"
  by (cases x) auto

lemma ends_if_bind [ends_rules]:
  "(b \<Longrightarrow> ends d Q (pbind m k)) \<Longrightarrow> (\<not> b \<Longrightarrow> ends d Q (pbind m' k)) \<Longrightarrow> ends d Q (pbind (if b then m else m') k)"
  by simp

lemma ends_option_bind [ends_rules]:
  "(x = None \<Longrightarrow> ends d Q (pbind m k)) \<Longrightarrow> (\<And>y. x = Some y \<Longrightarrow> ends d Q (pbind (f y) k)) \<Longrightarrow>
     ends d Q (pbind (case x of None \<Rightarrow> m | Some y \<Rightarrow> f y) k)"
  by (cases x) auto

lemma ends_pret_bind [ends_rules]: "ends d Q (k a) \<Longrightarrow> ends d Q (pbind (pret a) k)"
  by simp

lemma ends_pthrow_bind [ends_rules]: "Q d \<Longrightarrow> ends d Q (pbind (pthrow e) k)"
  by (simp add: ends_pthrow)

lemma ends_discard: "ends d Q m \<Longrightarrow> ends d Q (pbind m (\<lambda>_. pret ()))"
  by (auto simp: ends_def pbind_apply pret_apply split: prod.splits sum.splits)

text \<open>A loop keeps what each of its turns keeps.\<close>

lemma ends_pfor:
  fixes body :: "'x \<Rightarrow> 'a \<Rightarrow> ('d, 'w, 'e, 'a) tx_prog"
  assumes "Q d" and "\<And>x a d'. x \<in> set xs \<Longrightarrow> Q d' \<Longrightarrow> ends d' Q (body x a)"
  shows "ends d Q (pfor xs a body)"
  using assms
proof (induction xs arbitrary: d a)
  case (Cons x xs)
  have 1: "Q (iw_db (snd (body x a w)))" if "iw_db w = d" for w :: "('d, 'w) tx_world" using Cons.prems(1) Cons.prems(2) [of x d a] that by (simp add: ends_def)
  have 2: "Q (iw_db (snd (pfor xs b body w)))" if "Q (iw_db w)" for b and w :: "('d, 'w) tx_world"
    using endsD [OF Cons.IH [OF that Cons.prems(2)]] by simp
  show ?case unfolding ends_def
  proof (intro allI impI)
    fix w :: "('d, 'w) tx_world" assume w: "iw_db w = d"
    show "Q (iw_db (snd (pfor (x # xs) a body w)))"
    proof (cases "body x a w")
      case (Pair r w')
      then show ?thesis using 1 [OF w] 2 [of w'] by (cases r) (simp_all add: pbind_apply)
    qed
  qed
qed (simp add: ends_pret)

text \<open>A database that does not fail.\<close>

definition reliable :: "('w, 'e) outages \<Rightarrow> bool" where
  "reliable fails \<longleftrightarrow> (\<forall>x. fst (fails x) = None)"

lemma reliable_query:
  "reliable fails \<Longrightarrow> f (iw_db w) = Inr (a, db) \<Longrightarrow> \<exists>x. db_query fails f w = (Inr a, w\<lparr>iw_db := db, iw_ext := x\<rparr>)"
  unfolding reliable_def db_query_def
  by (cases "fails (iw_ext w)") (metis (no_types, lifting) case_prod_conv fst_conv old.sum.simps(6) option.simps(4))

lemma reliable_select: "reliable fails \<Longrightarrow> \<exists>x. db_select fails h w = (Inr (h (iw_db w)), w\<lparr>iw_ext := x\<rparr>)"
  using reliable_query [of fails "\<lambda>db. Inr (h db, db)" w] unfolding db_select_def by fastforce

lemma reliable_transaction:
  assumes r: "reliable fails" and body: "\<And>x. \<exists>a y. Q a \<and> body (w\<lparr>iw_ext := x\<rparr>) = (Inr a, w\<lparr>iw_db := db, iw_ext := y\<rparr>)"
  shows "\<exists>a y. Q a \<and> db_transaction fails sw body w = (Inr a, w\<lparr>iw_db := db, iw_ext := y\<rparr>)"
proof -
  obtain x1 where 1: "db_statement fails w = (Inr (), w\<lparr>iw_ext := x1\<rparr>)" using reliable_select [OF r] by blast
  obtain x2 where 2: "db_statement fails (w\<lparr>iw_ext := x1\<rparr>) = (Inr (), w\<lparr>iw_ext := x2\<rparr>)"
    using reliable_select [OF r, of "\<lambda>_. ()" "w\<lparr>iw_ext := x1\<rparr>"] by auto
  obtain a y where 3: "Q a" "body (w\<lparr>iw_ext := x2\<rparr>) = (Inr a, w\<lparr>iw_db := db, iw_ext := y\<rparr>)" using body by blast
  obtain z where 4: "db_statement fails (w\<lparr>iw_db := db, iw_ext := y\<rparr>) = (Inr (), w\<lparr>iw_db := db, iw_ext := z\<rparr>)"
    using reliable_select [OF r, of "\<lambda>_. ()" "w\<lparr>iw_db := db, iw_ext := y\<rparr>"] by auto
  show ?thesis by (intro exI [of _ a] exI [of _ z]) (simp add: db_transaction_def pbind_apply pret_apply 1 2 3 4)
qed

end
