(* ===== verification/Inventory.thy ===== *)
theory Inventory
  imports Escrow_Coordinator Transactions
begin

text \<open>
  The stock of the merchants: the tables \<^verbatim>\<open>merchant_inventory\<close> and \<^verbatim>\<open>merchant_inventory_reservations\<close>
  (database/migrations/057 and 045, with their CHECK and UNIQUE constraints and the range of INTEGER) and the three
  clients that change them: the reservation service of the orchestrator (inventory/reservation.ts), its bulk allocation
  (inventory/allocateInventory.ts) and the reservation engine of the payments service (payments/src/inventory). Each
  works in one transaction that locks the rows it reads, so operations follow one another. Any query may throw, and then
  had no effect (a \<^verbatim>\<open>COMMIT\<close> whose answer is lost is not modelled). New ids, the product table, Redlock, the low-stock observer and
  the Redis stream are the environment. A JavaScript number is an integer or, as \<open>None\<close>, not one.
\<close>

section \<open>Tables\<close>

record inv_row =
  ir_id :: string
  ir_merchant :: string
  ir_product :: string
  ir_available :: int
  ir_reserved :: int
  ir_threshold :: "int option"

datatype reservation_status = RvReserved | RvReleased

record inv_reservation =
  rv_id :: string
  rv_merchant :: string
  rv_order :: string
  rv_product :: string
  rv_quantity :: int
  rv_status :: reservation_status

record inv_db =
  ib_rows :: "inv_row list"
  ib_reservations :: "inv_reservation list"

datatype inv_error =
    InsufficientStockError string
  | DuplicateReservationError string string
  | ReservationNotFoundError string
  | InventoryFailure string
  | UniqueViolation
  | CheckViolation
  | DatabaseDown string

definition int4_max :: int where "int4_max = 2147483647"

definition row_fits :: "inv_row \<Rightarrow> bool" where
  "row_fits r \<longleftrightarrow> 0 \<le> ir_available r \<and> ir_available r \<le> int4_max \<and> 0 \<le> ir_reserved r \<and> ir_reserved r \<le> int4_max"

text \<open>The statements of the clients, as functions of the database.\<close>

definition update_rows :: "(inv_row \<Rightarrow> bool) \<Rightarrow> (inv_row \<Rightarrow> inv_row) \<Rightarrow> inv_db \<Rightarrow> inv_error + (unit \<times> inv_db)" where
  "update_rows p f db =
     (if \<exists>r \<in> set (ib_rows db). p r \<and> \<not> row_fits (f r) then Inl CheckViolation
      else Inr ((), db\<lparr>ib_rows := map (\<lambda>r. if p r then f r else r) (ib_rows db)\<rparr>))"

definition move_stock :: "int \<Rightarrow> inv_row \<Rightarrow> inv_row" where
  "move_stock q r = r\<lparr>ir_available := ir_available r - q, ir_reserved := ir_reserved r + q\<rparr>"

definition insert_reservation :: "inv_reservation \<Rightarrow> inv_db \<Rightarrow> inv_error + (string \<times> inv_db)" where
  "insert_reservation v db =
     (if rv_quantity v \<le> 0 then Inl CheckViolation
      else if \<exists>o' \<in> set (ib_reservations db). rv_merchant o' = rv_merchant v \<and> rv_order o' = rv_order v \<and> rv_product o' = rv_product v
      then Inl UniqueViolation
      else Inr (rv_id v, db\<lparr>ib_reservations := ib_reservations db @ [v]\<rparr>))"

definition release_rows :: "(inv_reservation \<Rightarrow> bool) \<Rightarrow> inv_db \<Rightarrow> inv_error + (unit \<times> inv_db)" where
  "release_rows p db = Inr ((), db\<lparr>ib_reservations :=
     map (\<lambda>v. if p v then v\<lparr>rv_status := RvReleased\<rparr> else v) (ib_reservations db)\<rparr>)"

section \<open>State, environment and transactions\<close>

record InventoryLevel =
  lv_merchantId :: string
  lv_productId :: string
  lv_availableStock :: int
  lv_lowStockThreshold :: "int option"

record StockDeductionEvent =
  sd_orderId :: string
  sd_productId :: string
  sd_deductedQuantity :: int
  sd_remainingStock :: int
  sd_occurredAt :: ms

type_synonym 'w inv_world = "(inv_db, 'w) tx_world"

record 'w inv_env =
  ie_fails :: "('w, inv_error) outages"
  ie_uuid :: "'w \<Rightarrow> string \<times> 'w"
  ie_merchantOf :: "string \<Rightarrow> string option"
  ie_redlock_acquire :: "string list \<Rightarrow> 'w \<Rightarrow> (string + unit) \<times> 'w"
  ie_redlock_release :: "'w \<Rightarrow> (string + unit) \<times> 'w"
  ie_observer :: "(InventoryLevel list \<Rightarrow> 'w \<Rightarrow> 'w) option"
  ie_xadd :: "StockDeductionEvent \<Rightarrow> 'w \<Rightarrow> (string + unit) \<times> 'w"
  ie_now :: "'w \<Rightarrow> ms \<times> 'w"

type_synonym ('w, 'a) inv_prog = "('w inv_world, inv_error, 'a) prog"

abbreviation query :: "'w inv_env \<Rightarrow> (inv_db \<Rightarrow> inv_error + ('a \<times> inv_db)) \<Rightarrow> ('w, 'a) inv_prog" where
  "query env \<equiv> db_query (ie_fails env)"

abbreviation select :: "'w inv_env \<Rightarrow> (inv_db \<Rightarrow> 'a) \<Rightarrow> ('w, 'a) inv_prog" where
  "select env \<equiv> db_select (ie_fails env)"

abbreviation transaction :: "'w inv_env \<Rightarrow> bool \<Rightarrow> ('w, 'a) inv_prog \<Rightarrow> ('w, 'a) inv_prog" where
  "transaction env \<equiv> db_transaction (ie_fails env)"

definition outside_throws :: "('w \<Rightarrow> (string + 'a) \<times> 'w) \<Rightarrow> ('w, 'a) inv_prog" where
  "outside_throws f w = (case f (iw_ext w) of
       (Inl m, x) \<Rightarrow> (Inl (InventoryFailure m), w\<lparr>iw_ext := x\<rparr>) | (Inr a, x) \<Rightarrow> (Inr a, w\<lparr>iw_ext := x\<rparr>))"

section \<open>The reservation service of the orchestrator\<close>

record InventoryReservationItem =
  it_merchantId :: string
  it_productId :: string
  it_quantity :: "int option"
  it_orderId :: "string option"

datatype stock_operation = Reserve | Release

definition good_quantity :: "int option \<Rightarrow> bool" where
  "good_quantity q = (case q of None \<Rightarrow> False | Some n \<Rightarrow> n > 0)"

definition quantity :: "InventoryReservationItem \<Rightarrow> int" where
  "quantity i = (case it_quantity i of None \<Rightarrow> 0 | Some n \<Rightarrow> n)"

definition item_key :: "InventoryReservationItem \<Rightarrow> string" where
  "item_key i = it_merchantId i @ '':'' @ it_productId i"

definition record_reservation :: "'w inv_env \<Rightarrow> string \<Rightarrow> string \<Rightarrow> string \<Rightarrow> int \<Rightarrow> ('w, string) inv_prog" where
  "record_reservation env merchant order product q =
     pbind (outside (ie_uuid env)) (\<lambda>i.
     query env (insert_reservation \<lparr>rv_id = i, rv_merchant = merchant, rv_order = order, rv_product = product, rv_quantity = q,
       rv_status = RvReserved\<rparr>))"

definition reservation_row ::
  "'w inv_env \<Rightarrow> stock_operation \<Rightarrow> InventoryReservationItem \<Rightarrow> ('w, unit) inv_prog" where
  "reservation_row env op i =
     (if \<not> truthy (it_orderId i) then pret ()
      else if op = Reserve
      then pbind (record_reservation env (it_merchantId i) (or_empty (it_orderId i)) (it_productId i) (quantity i)) (\<lambda>_. pret ())
      else query env (release_rows (\<lambda>v. rv_merchant v = it_merchantId i \<and> rv_order v = or_empty (it_orderId i) \<and>
             rv_product v = it_productId i \<and> rv_status v = RvReserved)))"

definition stock_level ::
  "stock_operation \<Rightarrow> InventoryReservationItem \<Rightarrow> inv_row \<Rightarrow> (string \<times> InventoryLevel) list \<Rightarrow> InventoryLevel" where
  "stock_level op i inventory levels =
     (let before = (case jm_get levels (item_key i) of Some l \<Rightarrow> lv_availableStock l | None \<Rightarrow> ir_available inventory) in
      \<lparr>lv_merchantId = it_merchantId i, lv_productId = it_productId i,
       lv_availableStock = (if op = Reserve then before - quantity i else before + quantity i),
       lv_lowStockThreshold = ir_threshold inventory\<rparr>)"

definition reserve_item ::
  "'w inv_env \<Rightarrow> stock_operation \<Rightarrow> InventoryReservationItem \<Rightarrow> (string \<times> InventoryLevel) list \<Rightarrow> ('w, (string \<times> InventoryLevel) list) inv_prog" where
  "reserve_item env op i levels =
     pbind (select env (\<lambda>db. find (\<lambda>r. ir_merchant r = it_merchantId i \<and> ir_product r = it_productId i) (ib_rows db))) (\<lambda>found.
     case found of
       None \<Rightarrow> pthrow (InsufficientStockError (it_productId i))
     | Some inventory \<Rightarrow>
         if op = Reserve \<and> ir_available inventory < quantity i then pthrow (InsufficientStockError (it_productId i))
         else if op = Release \<and> ir_reserved inventory < quantity i
         then pthrow (InventoryFailure (''Cannot release more than the reserved stock for product '' @ it_productId i))
         else
           pbind (query env (update_rows
                    (\<lambda>r. ir_id r = ir_id inventory \<and> (if op = Reserve then ir_available r \<ge> quantity i else ir_reserved r \<ge> quantity i))
                    (move_stock (if op = Reserve then quantity i else - quantity i)))) (\<lambda>_.
           pbind (reservation_row env op i) (\<lambda>_.
           pret (jm_set (item_key i) (stock_level op i inventory levels) levels))))"

definition updateReservation ::
  "'w inv_env \<Rightarrow> (string \<Rightarrow> 'k::linorder) \<Rightarrow> InventoryReservationItem list \<Rightarrow> stock_operation \<Rightarrow> ('w, unit) inv_prog" where
  "updateReservation env coll items op =
     (if items = [] then pret ()
      else if \<exists>i \<in> set items. \<not> good_quantity (it_quantity i)
      then pthrow (InventoryFailure ''Inventory reservation quantities must be positive integers'')
      else
        (let orderedItems = sort_key (\<lambda>i. coll (item_key i)) items in
         pbind (outside_throws (ie_redlock_acquire env (js_unique (map (\<lambda>i. ''inventory:'' @ item_key i) orderedItems)))) (\<lambda>_.
         pbind (ptry (pcatch (transaction env False (pfor orderedItems [] (reserve_item env op)))
                  (\<lambda>e. if e = UniqueViolation
                       then (case find (\<lambda>c. truthy (it_orderId c)) orderedItems of
                               Some c \<Rightarrow> pthrow (DuplicateReservationError (or_empty (it_orderId c)) (it_productId c))
                             | None \<Rightarrow> pthrow (DuplicateReservationError ''unknown'' ''unknown''))
                       else pthrow e))) (\<lambda>res.
         pbind (outside_throws (ie_redlock_release env)) (\<lambda>_.
         case res of
           Inl e \<Rightarrow> pthrow e
         | Inr levels \<Rightarrow>
             (case ie_observer env of
                None \<Rightarrow> pret ()
              | Some ob \<Rightarrow> if levels = [] then pret () else outside (\<lambda>x. ((), ob (map snd levels) x))))))))"

definition reserve :: "'w inv_env \<Rightarrow> (string \<Rightarrow> 'k::linorder) \<Rightarrow> InventoryReservationItem list \<Rightarrow> ('w, unit) inv_prog" where
  "reserve env coll items = updateReservation env coll items Reserve"

definition release :: "'w inv_env \<Rightarrow> (string \<Rightarrow> 'k::linorder) \<Rightarrow> InventoryReservationItem list \<Rightarrow> ('w, unit) inv_prog" where
  "release env coll items = updateReservation env coll items Release"

section \<open>Bulk allocation\<close>

record InventoryDeductionItem =
  dd_productId :: string
  dd_requestedQuantity :: "int option"

record InventoryDeductionResult =
  dx_success :: bool
  dx_allocatedItems :: "(string \<times> int) list"
  dx_failedProductIds :: "string list"

definition requested :: "InventoryDeductionItem \<Rightarrow> int" where
  "requested i = (case dd_requestedQuantity i of None \<Rightarrow> 0 | Some n \<Rightarrow> n)"

text \<open>\<^verbatim>\<open>new Map(rows.map(...))\<close>: the last row of a product wins.\<close>

definition rowByProductId :: "inv_row list \<Rightarrow> string \<Rightarrow> inv_row option" where
  "rowByProductId rows p = map_of (rev (map (\<lambda>r. (ir_product r, r)) rows)) p"

definition short_of_stock :: "inv_row list \<Rightarrow> InventoryDeductionItem \<Rightarrow> bool" where
  "short_of_stock rows i = (case rowByProductId rows (dd_productId i) of
     None \<Rightarrow> True | Some r \<Rightarrow> ir_available r < requested i)"

text \<open>The UPDATE of an item: the new stock is computed from the row that was read before the loop.\<close>

definition deduct_item ::
  "'w inv_env \<Rightarrow> inv_row list \<Rightarrow> InventoryDeductionItem \<Rightarrow> (string \<times> int) list \<Rightarrow> ('w, (string \<times> int) list) inv_prog" where
  "deduct_item env rows i acc =
     (case rowByProductId rows (dd_productId i) of
        None \<Rightarrow> pthrow (InventoryFailure ''Cannot read properties of undefined'')
      | Some row \<Rightarrow>
          (let newStock = ir_available row - requested i in
           pbind (query env (update_rows (\<lambda>r. ir_id r = ir_id row \<and> ir_available r \<ge> requested i)
                    (\<lambda>r. r\<lparr>ir_available := newStock, ir_reserved := ir_reserved r + requested i\<rparr>))) (\<lambda>_.
           pret (acc @ [(dd_productId i, newStock)]))))"

definition publishStockDeductionEvent :: "'w inv_env \<Rightarrow> StockDeductionEvent \<Rightarrow> ('w, unit) inv_prog" where
  "publishStockDeductionEvent env ev = pcatch (outside_throws (ie_xadd env ev)) (\<lambda>_. pret ())"

definition allocate_body :: "'w inv_env \<Rightarrow> InventoryDeductionItem list \<Rightarrow> ('w, InventoryDeductionResult) inv_prog" where
  "allocate_body env orderedItems =
     pbind (select env (\<lambda>db. filter (\<lambda>r. ir_product r \<in> set (map dd_productId orderedItems)) (ib_rows db))) (\<lambda>rows.
     let failed = map dd_productId (filter (short_of_stock rows) orderedItems) in
     if failed \<noteq> [] then pret \<lparr>dx_success = False, dx_allocatedItems = [], dx_failedProductIds = failed\<rparr>
     else pbind (pfor orderedItems [] (deduct_item env rows)) (\<lambda>allocated.
          pret \<lparr>dx_success = True, dx_allocatedItems = allocated, dx_failedProductIds = []\<rparr>))"

definition allocateInventoryWithLock ::
  "'w inv_env \<Rightarrow> (string \<Rightarrow> 'k::linorder) \<Rightarrow> string \<Rightarrow> InventoryDeductionItem list \<Rightarrow> ('w, InventoryDeductionResult) inv_prog" where
  "allocateInventoryWithLock env coll orderId items =
     (if items = [] then pret \<lparr>dx_success = True, dx_allocatedItems = [], dx_failedProductIds = []\<rparr>
      else case find (\<lambda>i. \<not> good_quantity (dd_requestedQuantity i)) items of
        Some i \<Rightarrow> pthrow (InventoryFailure (''Invalid requestedQuantity for product '' @ dd_productId i @ '': must be a positive integer''))
      | None \<Rightarrow>
        (let orderedItems = sort_key (\<lambda>i. coll (dd_productId i)) items in
         pbind (transaction env True (allocate_body env orderedItems)) (\<lambda>result.
         if \<not> dx_success result then pret result
         else
           pbind (outside (ie_now env)) (\<lambda>now.
           pbind (pfor (dx_allocatedItems result) () (\<lambda>a _. publishStockDeductionEvent env
                    \<lparr>sd_orderId = orderId, sd_productId = fst a,
                     sd_deductedQuantity = (case find (\<lambda>i. dd_productId i = fst a) orderedItems of None \<Rightarrow> 0 | Some i \<Rightarrow> requested i),
                     sd_remainingStock = snd a, sd_occurredAt = now\<rparr>)) (\<lambda>_.
           pret result)))))"

section \<open>The reservation engine of the payments service\<close>

definition DEFAULT_RESERVATION_TTL_MS :: int where "DEFAULT_RESERVATION_TTL_MS = 15 * 60 * 1000"

record StockReservation =
  sv_reservationId :: string
  sv_productId :: string
  sv_quantity :: int
  sv_orderId :: string
  sv_expiresAt :: ms

definition reserveStock :: "'w inv_env \<Rightarrow> string \<Rightarrow> int \<Rightarrow> string \<Rightarrow> int option \<Rightarrow> ('w, StockReservation) inv_prog" where
  "reserveStock env productId q orderId ttlMs =
     pbind (transaction env False
       (pbind (select env (\<lambda>_. ie_merchantOf env productId)) (\<lambda>merchant.
        if \<not> truthy merchant then pthrow (InventoryFailure (''Unknown product '' @ productId))
        else
          pbind (select env (\<lambda>db. find (\<lambda>r. ir_merchant r = or_empty merchant \<and> ir_product r = productId) (ib_rows db))) (\<lambda>found.
          case found of
            None \<Rightarrow> pthrow (InsufficientStockError productId)
          | Some row \<Rightarrow>
              if ir_available row < q then pthrow (InsufficientStockError productId)
              else
                pbind (query env (update_rows (\<lambda>r. ir_id r = ir_id row) (move_stock q))) (\<lambda>_.
                record_reservation env (or_empty merchant) orderId productId q))))) (\<lambda>rid.
     pbind (outside (ie_now env)) (\<lambda>now.
     pret \<lparr>sv_reservationId = rid, sv_productId = productId, sv_quantity = q, sv_orderId = orderId,
           sv_expiresAt = now + (case ttlMs of None \<Rightarrow> DEFAULT_RESERVATION_TTL_MS | Some t \<Rightarrow> t)\<rparr>))"

record ReleaseReservationResult =
  rz_reservationId :: string
  rz_productId :: string
  rz_quantityRestored :: int
  rz_releasedAt :: ms

definition releaseReservation :: "'w inv_env \<Rightarrow> string \<Rightarrow> bool \<Rightarrow> ('w, ReleaseReservationResult) inv_prog" where
  "releaseReservation env reservationId strict =
     pbind (transaction env False
       (pbind (select env (\<lambda>db. find (\<lambda>v. rv_id v = reservationId) (ib_reservations db))) (\<lambda>found.
        case (case found of None \<Rightarrow> None | Some v \<Rightarrow> if rv_status v \<noteq> RvReserved then None else Some v) of
          None \<Rightarrow> if strict then pthrow (ReservationNotFoundError reservationId)
                  else pret ((case found of None \<Rightarrow> '''' | Some v \<Rightarrow> rv_product v), 0)
        | Some v \<Rightarrow>
            pbind (query env (update_rows (\<lambda>r. ir_merchant r = rv_merchant v \<and> ir_product r = rv_product v)
                     (move_stock (- rv_quantity v)))) (\<lambda>_.
            pbind (query env (release_rows (\<lambda>x. rv_id x = reservationId))) (\<lambda>_.
            pret (rv_product v, rv_quantity v)))))) (\<lambda>(product, n).
     pbind (outside (ie_now env)) (\<lambda>now.
     pret \<lparr>rz_reservationId = reservationId, rz_productId = product, rz_quantityRestored = n, rz_releasedAt = now\<rparr>))"

definition getAvailableStock :: "'w inv_env \<Rightarrow> string \<Rightarrow> ('w, int) inv_prog" where
  "getAvailableStock env productId =
     pbind (select env (\<lambda>db. find (\<lambda>r. ir_product r = productId) (ib_rows db))) (\<lambda>found.
     pret (case found of None \<Rightarrow> 0 | Some r \<Rightarrow> ir_available r))"

end
