(* ===== verification/Inventory_Properties.thy ===== *)
theory Inventory_Properties
  imports Inventory
begin

text \<open>
  What the clients of the stock tables guarantee: no operation makes or loses units, an operation that throws changes
  nothing, and a bulk allocation is all or nothing, the last and, for bulk allocations, the first under the condition
  that the items name distinct products; the reserved counters agree with the reservations as long as only the
  payments engine works on them. Two concrete runs show where the orchestrator's clients break this: \<open>stock_defects\<close> is
  an allocation that names a product twice and makes units.
\<close>

section \<open>Units are neither made nor lost\<close>

definition stock_ok :: "inv_db \<Rightarrow> bool" where
  "stock_ok db \<longleftrightarrow> distinct (map ir_id (ib_rows db)) \<and> distinct (map (\<lambda>r. (ir_merchant r, ir_product r)) (ib_rows db)) \<and>
     (\<forall>r \<in> set (ib_rows db). row_fits r) \<and> (\<forall>v \<in> set (ib_reservations db). rv_quantity v > 0) \<and>
     distinct (map (\<lambda>v. (rv_merchant v, rv_order v, rv_product v)) (ib_reservations db))"

text \<open>What no operation may change of a row: its identity and the sum of its counters.\<close>

definition totals :: "inv_db \<Rightarrow> (string \<times> string \<times> string \<times> int) list" where
  "totals db = map (\<lambda>r. (ir_id r, ir_merchant r, ir_product r, ir_available r + ir_reserved r)) (ib_rows db)"

abbreviation same_stock :: "inv_db \<Rightarrow> 'w inv_world \<Rightarrow> bool" where
  "same_stock db0 \<equiv> of_db (\<lambda>db. stock_ok db \<and> totals db = totals db0)"

text \<open>An effect on the database that the invariant survives.\<close>

definition conserving :: "(inv_db \<Rightarrow> inv_error + ('a \<times> inv_db)) \<Rightarrow> bool" where
  "conserving f \<longleftrightarrow> (\<forall>db a db'. stock_ok db \<longrightarrow> f db = Inr (a, db') \<longrightarrow> stock_ok db' \<and> totals db' = totals db)"

lemma totals_keys:
  assumes "totals db' = totals db"
  shows "map ir_id (ib_rows db') = map ir_id (ib_rows db)"
    and "map (\<lambda>r. (ir_merchant r, ir_product r)) (ib_rows db') = map (\<lambda>r. (ir_merchant r, ir_product r)) (ib_rows db)"
proof -
  have "map ir_id (ib_rows x) = map fst (totals x)"
    "map (\<lambda>r. (ir_merchant r, ir_product r)) (ib_rows x) = map (\<lambda>t. (fst (snd t), fst (snd (snd t)))) (totals x)" for x
    by (simp_all add: totals_def)
  with assms show "map ir_id (ib_rows db') = map ir_id (ib_rows db)"
    "map (\<lambda>r. (ir_merchant r, ir_product r)) (ib_rows db') = map (\<lambda>r. (ir_merchant r, ir_product r)) (ib_rows db)" by simp_all
qed

lemma update_rows_ok:
  assumes ok: "stock_ok db" and u: "update_rows p f db = Inr (a, db')"
    and t: "\<And>r. r \<in> set (ib_rows db) \<Longrightarrow> p r \<Longrightarrow> ir_id (f r) = ir_id r \<and> ir_merchant (f r) = ir_merchant r \<and> ir_product (f r) = ir_product r \<and>
      ir_available (f r) + ir_reserved (f r) = ir_available r + ir_reserved r"
  shows "stock_ok db' \<and> totals db' = totals db"
proof -
  have rows: "ib_rows db' = map (\<lambda>r. if p r then f r else r) (ib_rows db)" "ib_reservations db' = ib_reservations db"
    and fits: "\<And>r. r \<in> set (ib_rows db) \<Longrightarrow> p r \<Longrightarrow> row_fits (f r)"
    using u by (auto simp: update_rows_def split: if_splits)
  have tot: "totals db' = totals db" unfolding totals_def rows using t by simp
  have "\<forall>r \<in> set (ib_rows db'). row_fits r" using ok fits unfolding rows stock_ok_def by auto
  with ok totals_keys [OF tot] have "stock_ok db'" unfolding stock_ok_def rows(2) by simp
  with tot show ?thesis by simp
qed

lemma conserving_moves: "conserving (update_rows p (move_stock q))"
  unfolding conserving_def
proof (intro allI impI)
  fix db a db' assume "stock_ok db" "update_rows p (move_stock q) db = Inr (a, db')"
  then show "stock_ok db' \<and> totals db' = totals db" by (rule update_rows_ok) (simp add: move_stock_def)
qed

lemma conserving_insert: "conserving (insert_reservation v)"
  by (auto simp: conserving_def insert_reservation_def stock_ok_def totals_def split: if_splits)

lemma conserving_release: "conserving (release_rows g)"
proof -
  have "map (\<lambda>v. (rv_merchant v, rv_order v, rv_product v)) (map (\<lambda>v. if g v then v\<lparr>rv_status := RvReleased\<rparr> else v) vs) =
      map (\<lambda>v. (rv_merchant v, rv_order v, rv_product v)) vs" for vs by simp
  then show ?thesis by (auto simp: conserving_def release_rows_def stock_ok_def totals_def simp del: map_map)
qed

lemma conserving_select: "conserving (\<lambda>db. Inr (h db, db))"
  by (simp add: conserving_def)

lemmas conserving_reservations = conserving_insert conserving_release conserving_select

lemma query_keeps: "conserving f \<Longrightarrow> keeps (same_stock db0) (query env f)"
  by (rule db_query_keeps) (auto simp: conserving_def)

lemma outside_throws_keeps [keeps_rules]: "keeps (same_stock db0) (outside_throws g)"
  by (auto simp: keeps_def outside_throws_def split: prod.splits sum.splits)

lemma record_keeps [keeps_rules]: "keeps (same_stock db0) (record_reservation env m o' p q)"
  unfolding record_reservation_def by (intro keeps_rules query_keeps conserving_reservations)

lemma reserve_item_keeps: "keeps (same_stock db0) (reserve_item env op i levels)"
  unfolding reserve_item_def reservation_row_def
  by (intro keeps_rules query_keeps conserving_moves conserving_reservations)

lemma updateReservation_keeps: "keeps (same_stock db0) (updateReservation env coll items op)"
  unfolding updateReservation_def Let_def
  by (intro keeps_rules db_transaction_keeps reserve_item_keeps)

lemma reserveStock_keeps: "keeps (same_stock db0) (reserveStock env p q o' ttl)"
  unfolding reserveStock_def
  by (intro keeps_rules db_transaction_keeps query_keeps conserving_moves)

lemma releaseReservation_keeps: "keeps (same_stock db0) (releaseReservation env i strict)"
  unfolding releaseReservation_def case_prod_beta
  by (intro keeps_rules db_transaction_keeps query_keeps conserving_moves conserving_reservations)

subsection \<open>Bulk allocation\<close>

text \<open>While the loop runs, the rows of the items still to come are as they were read.\<close>

definition unread :: "inv_db \<Rightarrow> inv_row list \<Rightarrow> InventoryDeductionItem list \<Rightarrow> 'w inv_world \<Rightarrow> bool" where
  "unread db0 rows items w \<longleftrightarrow> same_stock db0 w \<and>
     (\<forall>i \<in> set items. \<forall>row. rowByProductId rows (dd_productId i) = Some row \<longrightarrow> row \<in> set (ib_rows (iw_db w)))"

lemma rowByProductId_product: "rowByProductId rows p = Some row \<Longrightarrow> row \<in> set rows \<and> ir_product row = p"
  unfolding rowByProductId_def by (drule map_of_SomeD) auto

lemma unread_same: "unread db0 rows items w \<Longrightarrow> same_stock db0 w"
  by (simp add: unread_def)

lemma deduct_one:
  assumes u: "unread db0 rows (i # items) w" and new: "dd_productId i \<notin> dd_productId ` set items"
    and run: "query env (update_rows (\<lambda>r. ir_id r = ir_id row \<and> ir_available r \<ge> requested i)
        (\<lambda>r. r\<lparr>ir_available := ir_available row - requested i, ir_reserved := ir_reserved r + requested i\<rparr>)) w = (res, w')"
    and row: "rowByProductId rows (dd_productId i) = Some row"
  shows "unread db0 rows items w'"
proof -
  define f where "f = (\<lambda>r :: inv_row. r\<lparr>ir_available := ir_available row - requested i, ir_reserved := ir_reserved r + requested i\<rparr>)"
  define P where "P = (\<lambda>r :: inv_row. ir_id r = ir_id row \<and> ir_available r \<ge> requested i)"
  have ok: "stock_ok (iw_db w)" "totals (iw_db w) = totals db0" "row \<in> set (ib_rows (iw_db w))"
    using u row by (auto simp: unread_def of_db_def)
  have only: "r = row" if "r \<in> set (ib_rows (iw_db w))" "P r" for r
    using that ok(1,3) by (auto simp: P_def stock_ok_def distinct_map inj_on_def)
  consider (same) "iw_db w' = iw_db w" | (upd) a db' where "update_rows P f (iw_db w) = Inr (a, db')" "iw_db w' = db'"
    using run unfolding f_def [symmetric] P_def [symmetric] by (auto simp: db_query_def split: prod.splits option.splits sum.splits)
  then show ?thesis
  proof cases
    case same
    with u show ?thesis by (auto simp: unread_def of_db_def)
  next
    case upd
    have t: "ir_id (f r) = ir_id r \<and> ir_merchant (f r) = ir_merchant r \<and> ir_product (f r) = ir_product r \<and>
      ir_available (f r) + ir_reserved (f r) = ir_available r + ir_reserved r" if "r \<in> set (ib_rows (iw_db w))" "P r" for r
      using only [OF that] by (simp add: f_def)
    have "stock_ok db' \<and> totals db' = totals (iw_db w)"
      by (rule update_rows_ok [OF ok(1) upd(1)]) (rule t)
    moreover have "x \<in> set (ib_rows db')" if j: "j \<in> set items" "rowByProductId rows (dd_productId j) = Some x" for j x
    proof -
      have "x \<in> set (ib_rows (iw_db w))" using u j by (auto simp: unread_def)
      moreover have "x \<noteq> row" using new j row rowByProductId_product by (metis imageI)
      then have "\<not> P x" using only calculation by blast
      ultimately show ?thesis using upd(1) by (force simp: update_rows_def split: if_splits)
    qed
    ultimately show ?thesis using upd(2) ok(2) by (auto simp: unread_def of_db_def)
  qed
qed

lemma deduct_loop:
  assumes "distinct (map dd_productId items)"
  shows "establishes (unread db0 rows items) (same_stock db0) (pfor items acc (deduct_item env rows))"
  using assms
proof (induction items arbitrary: acc)
  case Nil
  show ?case by (simp add: establishes_def prog_simps unread_same)
next
  case (Cons i items)
  show ?case unfolding establishes_def
  proof (intro allI impI)
    fix w :: "'a inv_world" assume u: "unread db0 rows (i # items) w"
    show "same_stock db0 (snd (pfor (i # items) acc (deduct_item env rows) w))"
    proof (cases "rowByProductId rows (dd_productId i)")
      case None
      with unread_same [OF u] show ?thesis by (simp add: deduct_item_def prog_simps)
    next
      case (Some row)
      let ?q = "query env (update_rows (\<lambda>r. ir_id r = ir_id row \<and> ir_available r \<ge> requested i)
        (\<lambda>r. r\<lparr>ir_available := ir_available row - requested i, ir_reserved := ir_reserved r + requested i\<rparr>))"
      obtain res w' where q: "?q w = (res, w')" by fastforce
      have "unread db0 rows items w'" using deduct_one [OF u _ q Some] Cons.prems by simp
      with Cons.IH [of "acc @ [(dd_productId i, ir_available row - requested i)]"] Cons.prems
      have rest: "same_stock db0 (snd (pfor items (acc @ [(dd_productId i, ir_available row - requested i)]) (deduct_item env rows) w'))"
        by (simp add: establishes_def)
      have "deduct_item env rows i acc w = (case res of Inl e \<Rightarrow> (Inl e, w')
          | Inr _ \<Rightarrow> (Inr (acc @ [(dd_productId i, ir_available row - requested i)]), w'))"
        using q Some by (simp add: deduct_item_def Let_def prog_simps split: sum.splits)
      with rest unread_same [OF \<open>unread db0 rows items w'\<close>] show ?thesis
        by (simp add: pbind_apply split: sum.splits)
    qed
  qed
qed

lemma allocate_body_keeps:
  assumes "distinct (map dd_productId items)"
  shows "keeps (same_stock db0) (allocate_body env items)"
proof (rule keepsI)
  fix w :: "'a inv_world" assume s: "same_stock db0 w"
  define rows where "rows = filter (\<lambda>r. ir_product r \<in> set (map dd_productId items)) (ib_rows (iw_db w))"
  have fails: "same_stock db0 (w\<lparr>iw_ext := x\<rparr>)" "unread db0 rows items (w\<lparr>iw_ext := x\<rparr>)" for x
    using s by (auto simp: of_db_def unread_def rows_def dest!: rowByProductId_product)
  have loop: "same_stock db0 (snd (pbind (pfor items [] (deduct_item env rows)) (\<lambda>al. pret (f al)) (w\<lparr>iw_ext := x\<rparr>)))"
    for f :: "(string \<times> int) list \<Rightarrow> InventoryDeductionResult" and x
    using establishes_first [OF deduct_loop [OF assms, of db0 rows "[]" env], of "\<lambda>al. pret (f al)"] fails(2)
    by (auto simp: establishes_def intro: keeps_rules)
  show "same_stock db0 (snd (allocate_body env items w))"
    using fails(1) loop unfolding rows_def
    by (auto simp: allocate_body_def db_select_def db_query_def pbind_apply [of "\<lambda>w. _ w"] Let_def pret_apply split: prod.splits option.splits)
qed

lemma allocate_keeps:
  assumes "distinct (map dd_productId items)"
  shows "keeps (same_stock db0) (allocateInventoryWithLock env coll oid items)"
proof -
  have "distinct (map dd_productId (sort_key (\<lambda>i. coll (dd_productId i)) items))" using assms by (simp add: distinct_map)
  then show ?thesis unfolding allocateInventoryWithLock_def publishStockDeductionEvent_def Let_def
    by (intro keeps_rules db_transaction_keeps allocate_body_keeps)
qed

text \<open>The contract of a client of the stock tables, and what it is worth: no counter can exceed the units that were there.\<close>

locale stock_client =
  fixes client :: "'w inv_world \<Rightarrow> (inv_error + 'a) \<times> 'w inv_world"
  assumes conserves: "keeps (same_stock db0) client"
begin

lemma after:
  assumes "stock_ok (iw_db w)"
  shows "stock_ok (iw_db (snd (client w)))" and "totals (iw_db (snd (client w))) = totals (iw_db w)"
  using keepsD [OF conserves, of "iw_db w" w] assms by (simp_all add: of_db_def)

lemma no_units_made:
  assumes "stock_ok (iw_db w)" and r: "r \<in> set (ib_rows (iw_db (snd (client w))))"
  shows "\<exists>r0 \<in> set (ib_rows (iw_db w)). ir_id r0 = ir_id r \<and> ir_available r + ir_reserved r = ir_available r0 + ir_reserved r0 \<and>
    0 \<le> ir_available r \<and> ir_available r \<le> ir_available r0 + ir_reserved r0"
proof -
  have "(ir_id r, ir_merchant r, ir_product r, ir_available r + ir_reserved r) \<in> set (totals (iw_db (snd (client w))))"
    using r by (auto simp: totals_def)
  then obtain r0 where "r0 \<in> set (ib_rows (iw_db w))" "ir_id r0 = ir_id r"
    "ir_available r + ir_reserved r = ir_available r0 + ir_reserved r0"
    unfolding after(2) [OF assms(1)] by (auto simp: totals_def)
  moreover have "row_fits r" using after(1) [OF assms(1)] r by (simp add: stock_ok_def)
  ultimately show ?thesis by (auto simp: row_fits_def intro!: bexI [of _ r0])
qed

end

interpretation reserve_client: stock_client "reserve env coll items" for env coll items
  by unfold_locales (simp add: reserve_def updateReservation_keeps)

interpretation release_client: stock_client "release env coll items" for env coll items
  by unfold_locales (simp add: release_def updateReservation_keeps)

interpretation reserveStock_client: stock_client "reserveStock env p q o' ttl" for env p q o' ttl
  by unfold_locales (rule reserveStock_keeps)

interpretation releaseReservation_client: stock_client "releaseReservation env i strict" for env i strict
  by unfold_locales (rule releaseReservation_keeps)

text \<open>C19: Whatever the orchestrator's reservation service and the payments engine are asked to do, for whatever items, and
  whatever query, lock or publisher fails in the middle: no row of the stock table is added or removed, the sum of its
  available and reserved units is unchanged, no counter is negative or beyond the range of INTEGER, and the reservations
  keep their uniqueness. The same holds of a bulk allocation whose items name distinct products; one that names a
  product twice is outside the claim, since it does make units (\<open>stock_defects\<close>). A failing statement or
  \<^verbatim>\<open>COMMIT\<close> is one that had no effect.\<close>

theorem stock_conserved:
  assumes ok: "stock_ok (iw_db w)"
    and w': "w' \<in> {snd (reserve env coll items w), snd (release env coll items w), snd (reserveStock env p q oid ttl w),
      snd (releaseReservation env rid strict w)} \<or> distinct (map dd_productId ditems) \<and> w' = snd (allocateInventoryWithLock env coll oid ditems w)"
  shows "stock_ok (iw_db w') \<and> totals (iw_db w') = totals (iw_db w)"
  using w'
proof (elim disjE conjE insertE emptyE)
  assume "distinct (map dd_productId ditems)" "w' = snd (allocateInventoryWithLock env coll oid ditems w)"
  then show ?thesis using keepsD [OF allocate_keeps, of ditems "iw_db w" w env coll oid] ok by (simp add: of_db_def)
qed (simp_all add: ok reserve_client.after release_client.after reserveStock_client.after releaseReservation_client.after)

section \<open>A failure changes nothing\<close>

lemma outside_throws_db: "outside_throws g w = (s, w') \<Longrightarrow> iw_db w' = iw_db w"
  by (auto simp: outside_throws_def split: prod.splits sum.splits)

text \<open>What follows the transaction cannot throw.\<close>

lemma publish_returns: "\<exists>w'. publishStockDeductionEvent env ev w = (Inr (), w') \<and> iw_db w' = iw_db w"
  by (auto simp: publishStockDeductionEvent_def outside_throws_def prog_simps split: prod.splits sum.splits)

lemma publish_all: "\<exists>w'. pfor xs () (\<lambda>a _. publishStockDeductionEvent env (g a)) w = (Inr (), w') \<and> iw_db w' = iw_db w"
proof (induction xs arbitrary: w)
  case Nil
  show ?case by (simp add: prog_simps)
next
  case (Cons x xs)
  obtain w1 where 1: "publishStockDeductionEvent env (g x) w = (Inr (), w1)" "iw_db w1 = iw_db w" using publish_returns by blast
  obtain w2 where 2: "pfor xs () (\<lambda>a _. publishStockDeductionEvent env (g a)) w1 = (Inr (), w2)" "iw_db w2 = iw_db w1" using Cons.IH by blast
  show ?case using 1 2 by (simp add: prog_simps)
qed

lemma reservation_throws:
  assumes lock: "\<And>x. fst (ie_redlock_release env x) = Inr ()"
    and run: "updateReservation env coll items op w = (Inl e, w')"
  shows "iw_db w' = iw_db w"
proof -
  have no: "ie_redlock_release env x \<noteq> (Inl m, x')" for x m x' using lock [of x] by auto
  show ?thesis using run no
    by (auto simp: updateReservation_def Let_def prog_simps outside_throws_def outside_def
        dest!: db_transaction_throws split: if_splits prod.splits sum.splits option.splits)
qed

lemma publishing_returns:
  "\<exists>b w2. (if \<not> dx_success r then pret r else pbind (outside f :: ('w, 'n) inv_prog) (\<lambda>now. pbind (pfor (dx_allocatedItems r) ()
     (\<lambda>a _. publishStockDeductionEvent env (g now a))) (\<lambda>_. pret r))) w1 = (Inr b, w2)"
proof (cases "dx_success r")
  case True
  obtain now w2 where "(outside f :: ('w, 'n) inv_prog) w1 = (Inr now, w2)" using outside_returns [of f w1] by blast
  moreover obtain w3 where "pfor (dx_allocatedItems r) () (\<lambda>a _. publishStockDeductionEvent env (g now a)) w2 = (Inr (), w3)"
    using publish_all by blast
  ultimately show ?thesis using True by (simp add: pbind_apply pret_apply)
qed (simp add: pret_apply)

lemma allocation_throws:
  assumes run: "allocateInventoryWithLock env coll oid items w = (Inl e, w')"
  shows "iw_db w' = iw_db w"
proof (cases "items = [] \<or> find (\<lambda>i. \<not> good_quantity (dd_requestedQuantity i)) items \<noteq> None")
  case True
  then show ?thesis using run
    by (cases "items = []"; cases "find (\<lambda>i. \<not> good_quantity (dd_requestedQuantity i)) items")
      (simp_all add: allocateInventoryWithLock_def pret_apply pthrow_apply)
next
  case False
  then have "allocateInventoryWithLock env coll oid items =
      pbind (transaction env True (allocate_body env (sort_key (\<lambda>i. coll (dd_productId i)) items))) (\<lambda>r.
        if \<not> dx_success r then pret r else pbind (outside (ie_now env)) (\<lambda>now. pbind (pfor (dx_allocatedItems r) ()
          (\<lambda>a _. publishStockDeductionEvent env \<lparr>sd_orderId = oid, sd_productId = fst a,
             sd_deductedQuantity = (case find (\<lambda>i. dd_productId i = fst a) (sort_key (\<lambda>i. coll (dd_productId i)) items) of
               None \<Rightarrow> 0 | Some i \<Rightarrow> requested i), sd_remainingStock = snd a, sd_occurredAt = now\<rparr>)) (\<lambda>_. pret r)))"
    by (simp add: allocateInventoryWithLock_def Let_def)
  from run [unfolded this] show ?thesis by (rule db_transaction_then) (rule publishing_returns)
qed

text \<open>C21: An operation on the stock that throws has changed nothing in the tables, wherever the failure was: a query, a
  constraint, a \<^verbatim>\<open>COMMIT\<close> that the database refuses. Two failures are outside the claim. The reservation service
  releases its lock after the commit, so for it the release must not fail: when it does, the service throws although
  the stock has changed. And a connection that is lost after the database has carried out the \<^verbatim>\<open>COMMIT\<close> also
  throws with the change made; a failing \<^verbatim>\<open>COMMIT\<close> is here always one that had no effect.\<close>

theorem failed_operation_changes_nothing:
  assumes "(\<forall>x. fst (ie_redlock_release env x) = Inr ()) \<and>
      (reserve env coll items w = (Inl e, w') \<or> release env coll items w = (Inl e, w')) \<or>
    allocateInventoryWithLock env coll oid ditems w = (Inl e, w') \<or> reserveStock env p q oid ttl w = (Inl e, w') \<or>
    releaseReservation env rid strict w = (Inl e, w')"
  shows "iw_db w' = iw_db w"
  using assms
proof (elim disjE conjE)
  assume "allocateInventoryWithLock env coll oid ditems w = (Inl e, w')"
  then show ?thesis by (rule allocation_throws)
next
  assume "reserveStock env p q oid ttl w = (Inl e, w')"
  then show ?thesis unfolding reserveStock_def
    by (rule db_transaction_then) (auto simp: pbind_apply pret_apply outside_def split: prod.splits)
next
  assume "releaseReservation env rid strict w = (Inl e, w')"
  then show ?thesis unfolding releaseReservation_def
    by (rule db_transaction_then) (auto simp: pbind_apply pret_apply outside_def split: prod.splits)
next
  assume "\<forall>x. fst (ie_redlock_release env x) = Inr ()" "reserve env coll items w = (Inl e, w')"
  then show ?thesis unfolding reserve_def by (intro reservation_throws) simp_all
next
  assume "\<forall>x. fst (ie_redlock_release env x) = Inr ()" "release env coll items w = (Inl e, w')"
  then show ?thesis unfolding release_def by (intro reservation_throws) simp_all
qed

section \<open>Bulk allocation is all or nothing\<close>

definition deducted :: "InventoryDeductionItem list \<Rightarrow> inv_row \<Rightarrow> inv_row" where
  "deducted items r = (case find (\<lambda>i. dd_productId i = ir_product r) items of None \<Rightarrow> r | Some i \<Rightarrow> move_stock (requested i) r)"

definition allocatable :: "inv_db \<Rightarrow> bool" where
  "allocatable db \<longleftrightarrow> stock_ok db \<and> distinct (map ir_product (ib_rows db)) \<and> (\<forall>r \<in> set (ib_rows db). ir_available r + ir_reserved r \<le> int4_max)"

definition enough :: "inv_row list \<Rightarrow> InventoryDeductionItem \<Rightarrow> bool" where
  "enough rows i \<longleftrightarrow> (\<exists>r \<in> set rows. ir_product r = dd_productId i \<and> requested i \<le> ir_available r)"

lemma rowByProductId_row:
  assumes "distinct (map ir_product rows)" and "r \<in> set rows"
  shows "rowByProductId rows (ir_product r) = Some r"
  unfolding rowByProductId_def
  by (rule map_of_is_SomeI) (use assms in \<open>simp_all add: rev_map [symmetric] comp_def\<close>)

lemma deducted_fields [simp]: "ir_id (deducted is r) = ir_id r" "ir_merchant (deducted is r) = ir_merchant r"
  "ir_product (deducted is r) = ir_product r" "ir_available (deducted is r) + ir_reserved (deducted is r) = ir_available r + ir_reserved r"
  by (simp_all add: deducted_def move_stock_def split: option.splits)

lemma deducted_Cons:
  assumes "dd_productId i \<notin> dd_productId ` set items"
  shows "deducted items (deducted [i] r) = deducted (i # items) r"
proof (cases "dd_productId i = ir_product r")
  case True
  have p: "ir_product (move_stock (requested i) r) = ir_product r" by (simp add: move_stock_def)
  have "find (\<lambda>j. dd_productId j = ir_product r) items = None" using assms True by (force simp: find_None_iff)
  with True p show ?thesis by (simp add: deducted_def)
qed (simp add: deducted_def)

lemma deduct_step:
  assumes ok: "allocatable (iw_db w)" and r: "reliable (ie_fails env)" and row: "row \<in> set (ib_rows (iw_db w))" "ir_product row = dd_productId i"
    and q: "0 < requested i" "requested i \<le> ir_available row" and lookup: "rowByProductId rows (dd_productId i) = Some row"
  shows "\<exists>x. deduct_item env rows i acc w = (Inr (acc @ [(dd_productId i, ir_available row - requested i)]),
    w\<lparr>iw_db := (iw_db w)\<lparr>ib_rows := map (deducted [i]) (ib_rows (iw_db w))\<rparr>, iw_ext := x\<rparr>)"
proof -
  define f where "f = (\<lambda>r :: inv_row. r\<lparr>ir_available := ir_available row - requested i, ir_reserved := ir_reserved r + requested i\<rparr>)"
  define P where "P = (\<lambda>r :: inv_row. ir_id r = ir_id row \<and> ir_available r \<ge> requested i)"
  have P: "P x \<longleftrightarrow> x = row" if "x \<in> set (ib_rows (iw_db w))" for x
    using that ok row q by (auto simp: P_def allocatable_def stock_ok_def distinct_map inj_on_def)
  have prod: "ir_product x = dd_productId i \<longleftrightarrow> x = row" if "x \<in> set (ib_rows (iw_db w))" for x
    using that ok row by (auto simp: allocatable_def distinct_map inj_on_def)
  have "row_fits row" "ir_available row + ir_reserved row \<le> int4_max" using ok row by (auto simp: allocatable_def stock_ok_def)
  then have "row_fits (f row)" using q by (auto simp: f_def row_fits_def)
  moreover have "map (\<lambda>r. if P r then f r else r) (ib_rows (iw_db w)) = map (deducted [i]) (ib_rows (iw_db w))"
  proof (rule map_cong [OF refl])
    fix x assume x: "x \<in> set (ib_rows (iw_db w))"
    show "(if P x then f x else x) = deducted [i] x"
    proof (cases "x = row")
      case True
      then show ?thesis using P [OF x] row(2) by (simp add: deducted_def f_def move_stock_def)
    next
      case False
      then have "dd_productId i \<noteq> ir_product x" using prod [OF x] by auto
      then show ?thesis using False P [OF x] by (simp add: deducted_def)
    qed
  qed
  ultimately have "update_rows P f (iw_db w) = Inr ((), (iw_db w)\<lparr>ib_rows := map (deducted [i]) (ib_rows (iw_db w))\<rparr>)"
    using P by (auto simp: update_rows_def)
  then obtain x where "query env (update_rows P f) w =
      (Inr (), w\<lparr>iw_db := (iw_db w)\<lparr>ib_rows := map (deducted [i]) (ib_rows (iw_db w))\<rparr>, iw_ext := x\<rparr>)"
    using reliable_query [OF r, of "update_rows P f" w] by blast
  then show ?thesis unfolding f_def P_def
    by (intro exI [of _ x]) (simp add: deduct_item_def lookup Let_def pbind_apply pret_apply)
qed

lemma allocatable_deducted:
  assumes ok: "allocatable db" and e: "\<And>r. r \<in> set (ib_rows db) \<Longrightarrow> ir_product r = dd_productId i \<Longrightarrow> requested i \<le> ir_available r"
    and q: "0 < requested i"
  shows "allocatable (db\<lparr>ib_rows := map (deducted [i]) (ib_rows db)\<rparr>)" (is "allocatable ?db")
proof -
  have fits: "row_fits (deducted [i] r)" if "r \<in> set (ib_rows db)" for r
    using ok e [of r] that q by (auto simp: allocatable_def stock_ok_def row_fits_def deducted_def move_stock_def)
  have 1: "map ir_id (ib_rows ?db) = map ir_id (ib_rows db)" by simp
  have 2: "map (\<lambda>r. (ir_merchant r, ir_product r)) (ib_rows ?db) = map (\<lambda>r. (ir_merchant r, ir_product r)) (ib_rows db)" by simp
  have 3: "map ir_product (ib_rows ?db) = map ir_product (ib_rows db)" by simp
  have 4: "\<forall>r \<in> set (ib_rows ?db). row_fits r" "\<forall>r \<in> set (ib_rows ?db). ir_available r + ir_reserved r \<le> int4_max"
    using fits ok by (simp_all add: allocatable_def)
  have 5: "ib_reservations ?db = ib_reservations db" by simp
  show ?thesis using ok 4 unfolding allocatable_def stock_ok_def 1 2 3 5 by blast
qed

lemma deduct_all:
  assumes "allocatable (iw_db w)" and r: "reliable (ie_fails env)" and "distinct (map dd_productId items)"
    and "\<And>i. i \<in> set items \<Longrightarrow> 0 < requested i"
    and "\<And>i. i \<in> set items \<Longrightarrow> \<exists>row \<in> set (ib_rows (iw_db w)). rowByProductId rows (dd_productId i) = Some row \<and> requested i \<le> ir_available row"
  shows "\<exists>al x. pfor items acc (deduct_item env rows) w =
    (Inr al, w\<lparr>iw_db := (iw_db w)\<lparr>ib_rows := map (deducted items) (ib_rows (iw_db w))\<rparr>, iw_ext := x\<rparr>)"
  using assms(1,3-)
proof (induction items arbitrary: w acc)
  case Nil
  have "map (deducted []) (ib_rows (iw_db w)) = ib_rows (iw_db w)" by (simp add: deducted_def map_idI)
  then show ?case by (intro exI [of _ acc] exI [of _ "iw_ext w"]) (simp add: pret_apply)
next
  case (Cons i items)
  obtain row where row: "row \<in> set (ib_rows (iw_db w))" "rowByProductId rows (dd_productId i) = Some row" "requested i \<le> ir_available row"
    using Cons.prems(4) [of i] by auto
  have p: "ir_product row = dd_productId i" using rowByProductId_product [OF row(2)] by simp
  define w1 where "w1 = (\<lambda>x. w\<lparr>iw_db := (iw_db w)\<lparr>ib_rows := map (deducted [i]) (ib_rows (iw_db w))\<rparr>, iw_ext := x\<rparr>)"
  obtain x where 1: "deduct_item env rows i acc w = (Inr (acc @ [(dd_productId i, ir_available row - requested i)]), w1 x)"
    unfolding w1_def using deduct_step [OF Cons.prems(1) r row(1) p _ row(3,2)] Cons.prems(3) by auto
  have only: "ir_product z = dd_productId i \<Longrightarrow> z = row" if "z \<in> set (ib_rows (iw_db w))" for z
    using that Cons.prems(1) row(1) p by (auto simp: allocatable_def distinct_map inj_on_def)
  have "allocatable (iw_db (w1 x))"
    unfolding w1_def using allocatable_deducted [OF Cons.prems(1), of i] only row(3) Cons.prems(3) by auto
  moreover have "\<exists>row' \<in> set (ib_rows (iw_db (w1 x))). rowByProductId rows (dd_productId j) = Some row' \<and> requested j \<le> ir_available row'"
    if j: "j \<in> set items" for j
  proof -
    from Cons.prems(4) [of j] j obtain z where z: "z \<in> set (ib_rows (iw_db w))" "rowByProductId rows (dd_productId j) = Some z"
      "requested j \<le> ir_available z" by auto
    have "ir_product z \<noteq> dd_productId i" using rowByProductId_product [OF z(2)] j Cons.prems(2) by (metis distinct.simps(2) imageI list.simps(9) set_map)
    then have "deducted [i] z = z" by (simp add: deducted_def)
    with z show ?thesis by (force simp: w1_def)
  qed
  ultimately obtain al y where 2: "pfor items (acc @ [(dd_productId i, ir_available row - requested i)]) (deduct_item env rows) (w1 x) =
      (Inr al, (w1 x)\<lparr>iw_db := (iw_db (w1 x))\<lparr>ib_rows := map (deducted items) (ib_rows (iw_db (w1 x)))\<rparr>, iw_ext := y\<rparr>)"
    using Cons.IH [of "w1 x"] Cons.prems(2,3) by fastforce
  have "deducted items \<circ> deducted [i] = deducted (i # items)"
    using Cons.prems(2) by (intro ext) (simp add: deducted_Cons)
  then have "(w1 x)\<lparr>iw_db := (iw_db (w1 x))\<lparr>ib_rows := map (deducted items) (ib_rows (iw_db (w1 x)))\<rparr>, iw_ext := y\<rparr> =
      w\<lparr>iw_db := (iw_db w)\<lparr>ib_rows := map (deducted (i # items)) (ib_rows (iw_db w))\<rparr>, iw_ext := y\<rparr>"
    by (simp add: w1_def)
  with 1 2 show ?case by (intro exI [of _ al] exI [of _ y]) (simp only: pfor.simps pbind_apply prod.case sum.case)
qed

text \<open>The order of the items does not matter, since their products are distinct.\<close>

lemma find_distinct:
  assumes "distinct (map g xs)" and "x \<in> set xs"
  shows "find (\<lambda>y. g y = g x) xs = Some x"
  using assms by (induction xs) auto

lemma deducted_order:
  assumes "distinct (map dd_productId xs)" and "distinct (map dd_productId ys)" and "set xs = set ys"
  shows "deducted xs = deducted ys"
proof
  fix r :: inv_row
  have "find (\<lambda>i. dd_productId i = ir_product r) xs = find (\<lambda>i. dd_productId i = ir_product r) ys"
  proof (cases "\<exists>i \<in> set xs. dd_productId i = ir_product r")
    case True
    then obtain i where i: "i \<in> set xs" "dd_productId i = ir_product r" by blast
    then show ?thesis using find_distinct [OF assms(1) i(1)] find_distinct [OF assms(2), of i] assms(3) by simp
  next
    case False
    then have "find (\<lambda>i. dd_productId i = ir_product r) zs = None" if "set zs = set xs" for zs using that by (auto simp: find_None_iff)
    with assms(3) show ?thesis by simp
  qed
  then show "deducted xs r = deducted ys r" by (simp add: deducted_def)
qed

lemma short_iff:
  assumes "distinct (map ir_product (ib_rows db))" and "i \<in> set items"
  shows "short_of_stock (filter (\<lambda>r. ir_product r \<in> set (map dd_productId items)) (ib_rows db)) i \<longleftrightarrow> \<not> enough (ib_rows db) i"
    (is "short_of_stock ?rows i \<longleftrightarrow> _")
proof (cases "rowByProductId ?rows (dd_productId i)")
  case None
  have "\<not> enough (ib_rows db) i"
  proof
    assume "enough (ib_rows db) i"
    then obtain r where r: "r \<in> set ?rows" "ir_product r = dd_productId i" using assms(2) by (auto simp: enough_def)
    have "distinct (map ir_product ?rows)" using assms(1) by (simp add: distinct_map_filter)
    from rowByProductId_row [OF this r(1)] None r(2) show False by simp
  qed
  with None show ?thesis by (simp add: short_of_stock_def)
next
  case (Some row)
  note row = rowByProductId_product [OF Some]
  have "r = row" if "r \<in> set (ib_rows db)" "ir_product r = dd_productId i" for r
    using that row assms(1) by (auto simp: distinct_map inj_on_def)
  then have "enough (ib_rows db) i \<longleftrightarrow> requested i \<le> ir_available row" using row by (auto simp: enough_def)
  with Some show ?thesis by (auto simp: short_of_stock_def)
qed

definition allocated :: "inv_db \<Rightarrow> InventoryDeductionItem list \<Rightarrow> inv_db" where
  "allocated db items = db\<lparr>ib_rows := map (deducted items) (ib_rows db)\<rparr>"

lemma allocate_body_outcome:
  assumes ok: "allocatable (iw_db w)" and r: "reliable (ie_fails env)" and d: "distinct (map dd_productId items)"
    and q: "\<And>i. i \<in> set items \<Longrightarrow> 0 < requested i"
  shows "\<exists>al x. allocate_body env items w =
    (if \<forall>i \<in> set items. enough (ib_rows (iw_db w)) i
     then (Inr \<lparr>dx_success = True, dx_allocatedItems = al, dx_failedProductIds = []\<rparr>, w\<lparr>iw_db := allocated (iw_db w) items, iw_ext := x\<rparr>)
     else (Inr \<lparr>dx_success = False, dx_allocatedItems = [],
       dx_failedProductIds = map dd_productId (filter (\<lambda>i. \<not> enough (ib_rows (iw_db w)) i) items)\<rparr>, w\<lparr>iw_ext := x\<rparr>))"
proof -
  define rows where "rows = filter (\<lambda>r. ir_product r \<in> set (map dd_productId items)) (ib_rows (iw_db w))"
  obtain x where x: "select env (\<lambda>db. filter (\<lambda>r. ir_product r \<in> set (map dd_productId items)) (ib_rows db)) w = (Inr rows, w\<lparr>iw_ext := x\<rparr>)"
    using reliable_select [OF r] unfolding rows_def by blast
  have prods: "distinct (map ir_product (ib_rows (iw_db w)))" using ok by (simp add: allocatable_def)
  have short: "filter (short_of_stock rows) items = filter (\<lambda>i. \<not> enough (ib_rows (iw_db w)) i) items"
    unfolding rows_def by (rule filter_cong [OF refl]) (rule short_iff [OF prods])
  have red: "allocate_body env items w =
      (if map dd_productId (filter (\<lambda>i. \<not> enough (ib_rows (iw_db w)) i) items) \<noteq> []
       then pret \<lparr>dx_success = False, dx_allocatedItems = [], dx_failedProductIds = map dd_productId (filter (\<lambda>i. \<not> enough (ib_rows (iw_db w)) i) items)\<rparr>
       else pbind (pfor items [] (deduct_item env rows)) (\<lambda>allocated.
          pret \<lparr>dx_success = True, dx_allocatedItems = allocated, dx_failedProductIds = []\<rparr>)) (w\<lparr>iw_ext := x\<rparr>)"
    by (simp only: allocate_body_def pbind_apply [of "select _ _"] x prod.case sum.case Let_def short)
  show ?thesis
  proof (cases "\<forall>i \<in> set items. enough (ib_rows (iw_db w)) i")
    case False
    then have "filter (\<lambda>i. \<not> enough (ib_rows (iw_db w)) i) items \<noteq> []" by (simp add: filter_empty_conv)
    then show ?thesis unfolding red using False by (intro exI [of _ "[]"] exI [of _ x]) (simp add: pret_apply)
  next
    case True
    then have none: "filter (\<lambda>i. \<not> enough (ib_rows (iw_db w)) i) items = []" by simp
    have "\<exists>row \<in> set (ib_rows (iw_db w)). rowByProductId rows (dd_productId i) = Some row \<and> requested i \<le> ir_available row"
      if "i \<in> set items" for i
    proof -
      from True that obtain row where row: "row \<in> set (ib_rows (iw_db w))" "ir_product row = dd_productId i" "requested i \<le> ir_available row"
        by (auto simp: enough_def)
      have "distinct (map ir_product rows)" "row \<in> set rows" using prods row(1,2) that by (auto simp: rows_def distinct_map_filter)
      from rowByProductId_row [OF this] row show ?thesis by auto
    qed
    with deduct_all [of "w\<lparr>iw_ext := x\<rparr>", OF _ r d q, of rows "[]"] ok obtain al y where
      "pfor items [] (deduct_item env rows) (w\<lparr>iw_ext := x\<rparr>) = (Inr al, w\<lparr>iw_db := allocated (iw_db w) items, iw_ext := y\<rparr>)"
      by (auto simp: allocated_def)
    then show ?thesis unfolding red none using True
      by (intro exI [of _ al] exI [of _ y]) (simp add: pbind_apply pret_apply)
  qed
qed

lemma publishing_db:
  fixes w1 :: "'a inv_world"
  assumes "dx_success r"
  shows "\<exists>w2. pbind (outside (ie_now env)) (\<lambda>now. pbind (pfor (dx_allocatedItems r) ()
     (\<lambda>a _. publishStockDeductionEvent env (g now a))) (\<lambda>_. pret r)) w1 = (Inr r, w2) \<and> iw_db w2 = iw_db w1"
proof -
  obtain now w2 where 1: "(outside (ie_now env) :: ('a, ms) inv_prog) w1 = (Inr now, w2)" using outside_returns [of "ie_now env" w1] by blast
  moreover obtain w3 where "pfor (dx_allocatedItems r) () (\<lambda>a _. publishStockDeductionEvent env (g now a)) w2 = (Inr (), w3)" "iw_db w3 = iw_db w2"
    using publish_all by blast
  ultimately show ?thesis using outside_db [OF 1] by (simp add: pbind_apply pret_apply)
qed

text \<open>C20: A bulk allocation whose items name distinct products is all or nothing (one that names a product twice is not,
  \<open>stock_defects\<close>). When no query fails, every product has one row whose units fit INTEGER, and
  the items name distinct products with positive quantities: if each product has the requested units, the call succeeds
  and exactly the requested units of each product have moved from available to reserved, whatever the order of the items
  and whether or not the events could be published; otherwise the call reports exactly the products that are short of
  stock and the tables are untouched.\<close>

theorem allocation_all_or_nothing:
  assumes env: "reliable (ie_fails env)" and ok: "allocatable (iw_db w)" and items: "items \<noteq> []" "distinct (map dd_productId items)"
    and q: "\<forall>i \<in> set items. good_quantity (dd_requestedQuantity i)"
  shows "case allocateInventoryWithLock env coll oid items w of
      (Inl _, _) \<Rightarrow> False
    | (Inr result, w') \<Rightarrow>
        if \<forall>i \<in> set items. enough (ib_rows (iw_db w)) i
        then dx_success result \<and> dx_failedProductIds result = [] \<and> iw_db w' = allocated (iw_db w) items
        else \<not> dx_success result \<and> set (dx_failedProductIds result) = dd_productId ` {i \<in> set items. \<not> enough (ib_rows (iw_db w)) i} \<and>
             dx_allocatedItems result = [] \<and> iw_db w' = iw_db w"
proof -
  define ordered where "ordered = sort_key (\<lambda>i. coll (dd_productId i)) items"
  have s: "set ordered = set items" and d: "distinct (map dd_productId ordered)" using items(2) by (simp_all add: ordered_def distinct_map)
  have pos: "0 < requested i" if "i \<in> set ordered" for i
    using q that s by (auto simp: good_quantity_def requested_def split: option.splits)
  have same: "allocated (iw_db w) ordered = allocated (iw_db w) items"
    unfolding allocated_def using deducted_order [OF d items(2) s] by simp
  have good: "find (\<lambda>i. \<not> good_quantity (dd_requestedQuantity i)) items = None" using q by (auto simp: find_None_iff)
  let ?rows = "ib_rows (iw_db w)"
  have body: "\<exists>al y. allocate_body env ordered (w\<lparr>iw_ext := x\<rparr>) =
    (if \<forall>i \<in> set items. enough ?rows i
     then (Inr \<lparr>dx_success = True, dx_allocatedItems = al, dx_failedProductIds = []\<rparr>, w\<lparr>iw_db := allocated (iw_db w) items, iw_ext := y\<rparr>)
     else (Inr \<lparr>dx_success = False, dx_allocatedItems = [],
       dx_failedProductIds = map dd_productId (filter (\<lambda>i. \<not> enough ?rows i) ordered)\<rparr>, w\<lparr>iw_ext := y\<rparr>))" for x
  proof -
    obtain al y where "allocate_body env ordered (w\<lparr>iw_ext := x\<rparr>) = (if \<forall>i \<in> set ordered. enough (ib_rows (iw_db (w\<lparr>iw_ext := x\<rparr>))) i
     then (Inr \<lparr>dx_success = True, dx_allocatedItems = al, dx_failedProductIds = []\<rparr>,
       w\<lparr>iw_ext := x, iw_db := allocated (iw_db (w\<lparr>iw_ext := x\<rparr>)) ordered, iw_ext := y\<rparr>)
     else (Inr \<lparr>dx_success = False, dx_allocatedItems = [],
       dx_failedProductIds = map dd_productId (filter (\<lambda>i. \<not> enough (ib_rows (iw_db (w\<lparr>iw_ext := x\<rparr>))) i) ordered)\<rparr>, w\<lparr>iw_ext := x, iw_ext := y\<rparr>))"
      using allocate_body_outcome [OF _ env d pos, of "w\<lparr>iw_ext := x\<rparr>"] ok by auto
    then show ?thesis unfolding s by (intro exI [of _ al] exI [of _ y]) (cases "\<forall>i \<in> set items. enough ?rows i"; simp add: same)
  qed
  note run = allocateInventoryWithLock_def [of env coll oid items, folded ordered_def, unfolded Let_def good]
  show ?thesis
  proof (cases "\<forall>i \<in> set items. enough ?rows i")
    case True
    have "\<exists>r y. (dx_success r \<and> dx_failedProductIds r = []) \<and> transaction env True (allocate_body env ordered) w =
        (Inr r, w\<lparr>iw_db := allocated (iw_db w) items, iw_ext := y\<rparr>)"
      by (rule reliable_transaction [OF env], use body True in simp) (metis InventoryDeductionResult.select_convs(1,3))
    then obtain r y where r: "dx_success r" "dx_failedProductIds r = []" "transaction env True (allocate_body env ordered) w =
        (Inr r, w\<lparr>iw_db := allocated (iw_db w) items, iw_ext := y\<rparr>)" by blast
    obtain w2 where "allocateInventoryWithLock env coll oid items w = (Inr r, w2)" "iw_db w2 = allocated (iw_db w) items"
      using publishing_db [OF r(1), of env "\<lambda>now a. \<lparr>sd_orderId = oid, sd_productId = fst a,
          sd_deductedQuantity = (case find (\<lambda>i. dd_productId i = fst a) ordered of None \<Rightarrow> 0 | Some i \<Rightarrow> requested i),
          sd_remainingStock = snd a, sd_occurredAt = now\<rparr>" "w\<lparr>iw_db := allocated (iw_db w) items, iw_ext := y\<rparr>"] r items(1)
      by (auto simp: run pbind_apply [of "transaction _ _ _"])
    with True r show ?thesis by simp
  next
    case False
    have "\<exists>r y. (r = \<lparr>dx_success = False, dx_allocatedItems = [], dx_failedProductIds = map dd_productId (filter (\<lambda>i. \<not> enough ?rows i) ordered)\<rparr>) \<and>
        transaction env True (allocate_body env ordered) w = (Inr r, w\<lparr>iw_db := iw_db w, iw_ext := y\<rparr>)"
      by (rule reliable_transaction [OF env], use body False in simp)
    then obtain y where "transaction env True (allocate_body env ordered) w = (Inr \<lparr>dx_success = False, dx_allocatedItems = [],
        dx_failedProductIds = map dd_productId (filter (\<lambda>i. \<not> enough ?rows i) ordered)\<rparr>, w\<lparr>iw_ext := y\<rparr>)" by auto
    then show ?thesis using False items(1) s by (simp add: run pbind_apply pret_apply)
  qed
qed


section \<open>Concrete runs\<close>

definition calm_env :: "unit inv_env" where
  "calm_env = \<lparr>ie_fails = (\<lambda>x. (None, x)), ie_uuid = (\<lambda>x. (''r1'', x)), ie_merchantOf = (\<lambda>_. Some ''m''),
     ie_redlock_acquire = (\<lambda>_ x. (Inr (), x)), ie_redlock_release = (\<lambda>x. (Inr (), x)), ie_observer = None,
     ie_xadd = (\<lambda>_ x. (Inr (), x)), ie_now = (\<lambda>x. (0, x))\<rparr>"

definition five_units :: "unit inv_world" where
  "five_units = \<lparr>iw_db = \<lparr>ib_rows = [\<lparr>ir_id = ''i1'', ir_merchant = ''m'', ir_product = ''p'', ir_available = 5, ir_reserved = 0,
     ir_threshold = None\<rparr>], ib_reservations = []\<rparr>, iw_ext = ()\<rparr>"

definition two_of :: "string \<Rightarrow> InventoryReservationItem list" where
  "two_of order = [\<lparr>it_merchantId = ''m'', it_productId = ''p'', it_quantity = Some 2, it_orderId = Some order\<rparr>]"

abbreviation plain :: "string \<Rightarrow> nat" where "plain s \<equiv> 0"

lemma five_units_ok: "stock_ok (iw_db five_units)" "allocatable (iw_db five_units)"
  by code_simp+

theorem stock_conserved_witness:
  "stock_ok (iw_db (snd (reserve calm_env plain (two_of ''o1'') five_units))) \<and>
   totals (iw_db (snd (reserve calm_env plain (two_of ''o1'') five_units))) = totals (iw_db five_units)"
  by (rule stock_conserved [OF five_units_ok(1)]) blast

theorem failed_operation_changes_nothing_witness:
  "iw_db (snd (reserveStock calm_env ''p'' 6 ''o1'' None five_units)) = iw_db five_units"
proof -
  have run: "reserveStock calm_env ''p'' 6 ''o1'' None five_units = (Inl (InsufficientStockError ''p''), five_units)" by code_simp
  show ?thesis
    by (rule failed_operation_changes_nothing [of calm_env plain "[]" five_units "InsufficientStockError ''p''" _ "''o1''" "[]" "''p''" 6 None])
      (simp add: run)
qed

theorem allocation_all_or_nothing_witness:
  "dx_success (case allocateInventoryWithLock calm_env plain ''o1'' [\<lparr>dd_productId = ''p'', dd_requestedQuantity = Some 3\<rparr>] five_units of
     (Inr r, _) \<Rightarrow> r | (Inl _, _) \<Rightarrow> \<lparr>dx_success = False, dx_allocatedItems = [], dx_failedProductIds = []\<rparr>)"
proof -
  let ?items = "[\<lparr>dd_productId = ''p'', dd_requestedQuantity = Some 3\<rparr>]"
  have e: "reliable (ie_fails calm_env)" by (simp add: reliable_def calm_env_def)
  have "\<forall>i \<in> set ?items. enough (ib_rows (iw_db five_units)) i" by code_simp
  with allocation_all_or_nothing [OF e five_units_ok(2), of ?items plain "''o1''"]
  show ?thesis by (auto simp: good_quantity_def split: prod.splits sum.splits)
qed

text \<open>Defects of the stock clients, on a product with five units. An allocation that names the product twice (two units
  each) reports success twice with three units left, while four are reserved: a unit has been made, because the new
  stock is computed from the row read before the loop. Releasing an order's reservation twice is not refused: after two
  orders reserved two units each, releasing the first one twice frees the units of the second, whose reservation is
  still listed as reserved.\<close>

theorem stock_defects:
  shows "map (\<lambda>r. (ir_available r, ir_reserved r)) (ib_rows (iw_db (snd (allocateInventoryWithLock calm_env plain ''o1''
      [\<lparr>dd_productId = ''p'', dd_requestedQuantity = Some 2\<rparr>, \<lparr>dd_productId = ''p'', dd_requestedQuantity = Some 2\<rparr>] five_units)))) = [(3, 4)]"
    and "(case pbind (reserve calm_env plain (two_of ''o1'')) (\<lambda>_. pbind (reserve calm_env plain (two_of ''o2'')) (\<lambda>_.
        pbind (release calm_env plain (two_of ''o1'')) (\<lambda>_. release calm_env plain (two_of ''o1'')))) five_units of
      (res, w) \<Rightarrow> (res, map (\<lambda>r. (ir_available r, ir_reserved r)) (ib_rows (iw_db w)),
                   map (\<lambda>v. (rv_order v, rv_status v)) (ib_reservations (iw_db w)))) =
      (Inr (), [(5, 0)], [(''o1'', RvReleased), (''o2'', RvReserved)])"
  by code_simp+

end
