(* ===== verification/Spending_Policy.thy ===== *)
theory Spending_Policy
  imports Escrow_Coordinator
begin

text \<open>
  The spending policy of a user (orchestrator/src/policies/evaluator.ts): the rules that decide whether an agent's order
  may be placed, evaluated against the policy and the spend of the rolling windows, and the in-memory source of both.
  \<^verbatim>\<open>bigint\<close> amounts are integers, a \<^verbatim>\<open>Record\<close> of category caps is the list of its entries in the order of
  \<^verbatim>\<open>Object.keys\<close>, and what the source returns are functions of the user, the category and the time.
\<close>

section \<open>Policies\<close>

record PolicyEvaluationContext =
  px_userId :: string
  px_merchantAddress :: string
  px_category :: string
  px_orderAmountStroops :: int
  px_timestamp :: ms

record PolicyEvaluationResult =
  pv_allowed :: bool
  pv_violatedRules :: "string list"
  pv_requiresDualApproval :: bool
  pv_applicableDailyAllowanceRemainingStroops :: int

record SpendCaps =
  cp_dailyStroops :: "int option"
  cp_weeklyStroops :: "int option"

record SpendingPolicyLimits = SpendCaps +
  sp_perTransactionStroops :: "int option"
  sp_categoryCaps :: "(string \<times> SpendCaps) list option"
  sp_allowedMerchants :: "string list option"
  sp_restrictedMerchants :: "string list option"
  sp_allowedCategories :: "string list option"
  sp_restrictedCategories :: "string list option"
  sp_dualApprovalThresholdStroops :: "int option"

record SpendTotals =
  to_dailyStroops :: int
  to_weeklyStroops :: int
  to_categoryDailyStroops :: int
  to_categoryWeeklyStroops :: int

record PolicyDataSource =
  ds_getPolicy :: "string \<Rightarrow> SpendingPolicyLimits option"
  ds_getSpendTotals :: "string \<Rightarrow> string \<Rightarrow> ms \<Rightarrow> SpendTotals"

definition UNLIMITED_ALLOWANCE_STROOPS :: int where "UNLIMITED_ALLOWANCE_STROOPS = 9223372036854775807"

definition DAY_MS :: int where "DAY_MS = 24 * 60 * 60 * 1000"

definition WEEK_MS :: int where "WEEK_MS = 7 * DAY_MS"

definition normalizeCategory :: "string \<Rightarrow> string" where
  "normalizeCategory c = js_lower (js_trim c)"

abbreviation or_none :: "'a list option \<Rightarrow> 'a list" where
  "or_none xs \<equiv> (case xs of None \<Rightarrow> [] | Some ys \<Rightarrow> ys)"

definition includesCategory :: "string list option \<Rightarrow> string \<Rightarrow> bool" where
  "includesCategory xs category = list_ex (\<lambda>c. normalizeCategory c = category) (or_none xs)"

definition findCategoryCaps :: "(string \<times> SpendCaps) list option \<Rightarrow> string \<Rightarrow> SpendCaps option" where
  "findCategoryCaps caps category =
     (case caps of
        None \<Rightarrow> None
      | Some cs \<Rightarrow> (case find (\<lambda>k. normalizeCategory k = category) (map fst cs) of
            None \<Rightarrow> None | Some key \<Rightarrow> map_of cs key))"

definition violation :: "string \<Rightarrow> string \<Rightarrow> string" where
  "violation rule explanation = rule @ '': '' @ explanation"

definition remaining :: "int \<Rightarrow> int \<Rightarrow> int" where
  "remaining cap spent = (let left = cap - spent in if left > 0 then left else 0)"

section \<open>Evaluation\<close>

definition merchant_violation :: "SpendingPolicyLimits \<Rightarrow> string \<Rightarrow> string list" where
  "merchant_violation policy m =
     (if m \<in> set (or_none (sp_restrictedMerchants policy))
      then [violation ''merchant_restricted'' (''merchant '' @ m @ '' is blocked'')]
      else if or_none (sp_allowedMerchants policy) \<noteq> [] \<and> m \<notin> set (or_none (sp_allowedMerchants policy))
      then [violation ''merchant_not_allowed'' (''merchant '' @ m @ '' is not on the allowed merchant list'')]
      else [])"

definition category_violation :: "SpendingPolicyLimits \<Rightarrow> string \<Rightarrow> string list" where
  "category_violation policy category =
     (if includesCategory (sp_restrictedCategories policy) category
      then [violation ''category_restricted'' (''category \"'' @ category @ ''\" is blocked'')]
      else if or_none (sp_allowedCategories policy) \<noteq> [] \<and> \<not> includesCategory (sp_allowedCategories policy) category
      then [violation ''category_not_allowed'' (''category \"'' @ category @ ''\" is not on the allowed category list'')]
      else [])"

definition transaction_violation :: "SpendingPolicyLimits \<Rightarrow> int \<Rightarrow> string list" where
  "transaction_violation policy amount =
     (case sp_perTransactionStroops policy of
        Some cap \<Rightarrow> if amount > cap
          then [violation ''per_transaction_limit'' (''order of '' @ show_int amount @
                  '' stroops exceeds the per-transaction limit of '' @ show_int cap @ '' stroops'')]
          else []
      | None \<Rightarrow> [])"

definition checkCap :: "int \<Rightarrow> string \<Rightarrow> string \<Rightarrow> int option \<Rightarrow> int \<Rightarrow> string list" where
  "checkCap amount rule label limit alreadySpent =
     (case limit of
        None \<Rightarrow> []
      | Some cap \<Rightarrow> if alreadySpent + amount \<le> cap then []
          else [violation rule (''order of '' @ show_int amount @ '' stroops would bring '' @ label @ '' spend to '' @
                  show_int (alreadySpent + amount) @ '' stroops, over the limit of '' @ show_int cap @ '' stroops ('' @
                  show_int (remaining cap alreadySpent) @ '' stroops left)'')])"

definition caps_violation :: "SpendingPolicyLimits \<Rightarrow> SpendCaps option \<Rightarrow> SpendTotals \<Rightarrow> string \<Rightarrow> int \<Rightarrow> string list" where
  "caps_violation policy categoryCaps spent category amount =
     checkCap amount ''daily_limit'' ''24-hour'' (cp_dailyStroops policy) (to_dailyStroops spent) @
     checkCap amount ''weekly_limit'' ''7-day'' (cp_weeklyStroops policy) (to_weeklyStroops spent) @
     checkCap amount ''category_daily_limit'' (''24-hour \"'' @ category @ ''\"'')
       (Option.bind categoryCaps cp_dailyStroops) (to_categoryDailyStroops spent) @
     checkCap amount ''category_weekly_limit'' (''7-day \"'' @ category @ ''\"'')
       (Option.bind categoryCaps cp_weeklyStroops) (to_categoryWeeklyStroops spent)"

definition daily_allowances :: "SpendingPolicyLimits \<Rightarrow> SpendCaps option \<Rightarrow> SpendTotals \<Rightarrow> int list" where
  "daily_allowances policy categoryCaps spent =
     (case cp_dailyStroops policy of None \<Rightarrow> [] | Some c \<Rightarrow> [remaining c (to_dailyStroops spent)]) @
     (case Option.bind categoryCaps cp_dailyStroops of None \<Rightarrow> [] | Some c \<Rightarrow> [remaining c (to_categoryDailyStroops spent)])"

definition applicable_allowance :: "int list \<Rightarrow> int" where
  "applicable_allowance ds = (case ds of [] \<Rightarrow> UNLIMITED_ALLOWANCE_STROOPS
     | d # rest \<Rightarrow> foldl (\<lambda>least v. if v < least then v else least) d rest)"

definition evaluateSpendingPolicy :: "PolicyEvaluationContext \<Rightarrow> PolicyDataSource \<Rightarrow> PolicyEvaluationResult" where
  "evaluateSpendingPolicy context source =
     (let amount = px_orderAmountStroops context; category = normalizeCategory (px_category context);
          refused = (\<lambda>rule why. \<lparr>pv_allowed = False, pv_violatedRules = [violation rule why], pv_requiresDualApproval = False,
            pv_applicableDailyAllowanceRemainingStroops = 0\<rparr>) in
      if amount \<le> 0 then refused ''invalid_amount'' (''order amount must be positive, got '' @ show_int amount @ '' stroops'')
      else case ds_getPolicy source (px_userId context) of
        None \<Rightarrow> refused ''no_policy'' (''user '' @ px_userId context @ '' has no spending policy'')
      | Some policy \<Rightarrow>
        (let spent = ds_getSpendTotals source (px_userId context) category (px_timestamp context);
             categoryCaps = findCategoryCaps (sp_categoryCaps policy) category;
             violatedRules = merchant_violation policy (px_merchantAddress context) @ category_violation policy category @
               transaction_violation policy amount @ caps_violation policy categoryCaps spent category amount in
         \<lparr>pv_allowed = (violatedRules = []), pv_violatedRules = violatedRules,
          pv_requiresDualApproval = (case sp_dualApprovalThresholdStroops policy of None \<Rightarrow> False | Some t \<Rightarrow> amount \<ge> t),
          pv_applicableDailyAllowanceRemainingStroops = applicable_allowance (daily_allowances policy categoryCaps spent)\<rparr>))"

section \<open>The in-memory source\<close>

record RecordedSpend =
  rs_userId :: string
  rs_category :: string
  rs_amountStroops :: int
  rs_at :: ms

record policy_store =
  ps_policies :: "(string \<times> SpendingPolicyLimits) list"
  ps_spends :: "RecordedSpend list"

definition setPolicy :: "string \<Rightarrow> SpendingPolicyLimits \<Rightarrow> policy_store \<Rightarrow> policy_store" where
  "setPolicy userId policy st = st\<lparr>ps_policies := jm_set userId policy (ps_policies st)\<rparr>"

definition policy_recordSpend :: "RecordedSpend \<Rightarrow> policy_store \<Rightarrow> policy_store" where
  "policy_recordSpend spend st =
     st\<lparr>ps_spends := ps_spends st @ [spend\<lparr>rs_category := normalizeCategory (rs_category spend)\<rparr>]\<rparr>"

definition getPolicy :: "policy_store \<Rightarrow> string \<Rightarrow> SpendingPolicyLimits option" where
  "getPolicy st userId = jm_get (ps_policies st) userId"

definition add_spend :: "string \<Rightarrow> string \<Rightarrow> ms \<Rightarrow> SpendTotals \<Rightarrow> RecordedSpend \<Rightarrow> SpendTotals" where
  "add_spend userId wanted fin totals spend =
     (if rs_userId spend \<noteq> userId then totals
      else if rs_at spend > fin then totals
      else
        (let inDay = rs_at spend > fin - DAY_MS; inWeek = rs_at spend > fin - WEEK_MS; sameCategory = (rs_category spend = wanted);
             a = rs_amountStroops spend in
         \<lparr>to_dailyStroops = to_dailyStroops totals + (if inDay then a else 0),
          to_weeklyStroops = to_weeklyStroops totals + (if inWeek then a else 0),
          to_categoryDailyStroops = to_categoryDailyStroops totals + (if inDay \<and> sameCategory then a else 0),
          to_categoryWeeklyStroops = to_categoryWeeklyStroops totals + (if inWeek \<and> sameCategory then a else 0)\<rparr>))"

definition getSpendTotals :: "policy_store \<Rightarrow> string \<Rightarrow> string \<Rightarrow> ms \<Rightarrow> SpendTotals" where
  "getSpendTotals st userId category asOf =
     foldl (add_spend userId (normalizeCategory category) asOf)
       \<lparr>to_dailyStroops = 0, to_weeklyStroops = 0, to_categoryDailyStroops = 0, to_categoryWeeklyStroops = 0\<rparr> (ps_spends st)"

definition memory_source :: "policy_store \<Rightarrow> PolicyDataSource" where
  "memory_source st = \<lparr>ds_getPolicy = getPolicy st, ds_getSpendTotals = getSpendTotals st\<rparr>"

section \<open>Verdicts\<close>

text \<open>The rules, as what they permit.\<close>

definition fits_cap :: "int option \<Rightarrow> int \<Rightarrow> bool" where
  "fits_cap limit x \<longleftrightarrow> (case limit of None \<Rightarrow> True | Some c \<Rightarrow> x \<le> c)"

definition permits :: "SpendingPolicyLimits \<Rightarrow> SpendTotals \<Rightarrow> PolicyEvaluationContext \<Rightarrow> bool" where
  "permits policy spent ctx \<longleftrightarrow>
     (let m = px_merchantAddress ctx; k = normalizeCategory (px_category ctx); a = px_orderAmountStroops ctx;
          caps = findCategoryCaps (sp_categoryCaps policy) k; listed = (\<lambda>xs. k \<in> normalizeCategory ` set (or_none xs)) in
      m \<notin> set (or_none (sp_restrictedMerchants policy)) \<and>
      (set (or_none (sp_allowedMerchants policy)) = {} \<or> m \<in> set (or_none (sp_allowedMerchants policy))) \<and>
      \<not> listed (sp_restrictedCategories policy) \<and>
      (set (or_none (sp_allowedCategories policy)) = {} \<or> listed (sp_allowedCategories policy)) \<and>
      fits_cap (sp_perTransactionStroops policy) a \<and>
      fits_cap (cp_dailyStroops policy) (to_dailyStroops spent + a) \<and> fits_cap (cp_weeklyStroops policy) (to_weeklyStroops spent + a) \<and>
      fits_cap (Option.bind caps cp_dailyStroops) (to_categoryDailyStroops spent + a) \<and>
      fits_cap (Option.bind caps cp_weeklyStroops) (to_categoryWeeklyStroops spent + a))"

lemma includesCategory_iff: "includesCategory xs k \<longleftrightarrow> k \<in> normalizeCategory ` set (or_none xs)"
  by (auto simp: includesCategory_def list_ex_iff)

lemma violations_Nil:
  "merchant_violation p m = [] \<longleftrightarrow> m \<notin> set (or_none (sp_restrictedMerchants p)) \<and>
     (set (or_none (sp_allowedMerchants p)) = {} \<or> m \<in> set (or_none (sp_allowedMerchants p)))"
  "category_violation p k = [] \<longleftrightarrow> \<not> includesCategory (sp_restrictedCategories p) k \<and>
     (set (or_none (sp_allowedCategories p)) = {} \<or> includesCategory (sp_allowedCategories p) k)"
  "transaction_violation p a = [] \<longleftrightarrow> fits_cap (sp_perTransactionStroops p) a"
  "checkCap a rule label limit s = [] \<longleftrightarrow> fits_cap limit (s + a)"
  by (auto simp: merchant_violation_def category_violation_def transaction_violation_def checkCap_def fits_cap_def simp flip: set_empty split: option.splits)

text \<open>The verdict, whatever the source.\<close>

lemma allowed_iff:
  "pv_allowed (evaluateSpendingPolicy ctx source) \<longleftrightarrow> px_orderAmountStroops ctx > 0 \<and>
     (\<exists>policy. ds_getPolicy source (px_userId ctx) = Some policy \<and>
        permits policy (ds_getSpendTotals source (px_userId ctx) (normalizeCategory (px_category ctx)) (px_timestamp ctx)) ctx)"
  by (cases "ds_getPolicy source (px_userId ctx)")
    (simp_all add: evaluateSpendingPolicy_def Let_def caps_violation_def violations_Nil includesCategory_iff permits_def conj_assoc)

text \<open>The allowance that is reported agrees with the daily rules: the amount fits it exactly if neither is violated.\<close>

lemma applicable_allowance_fits:
  assumes "a > 0" and "daily_allowances p caps spent \<noteq> []"
  shows "a \<le> applicable_allowance (daily_allowances p caps spent) \<longleftrightarrow>
    fits_cap (cp_dailyStroops p) (to_dailyStroops spent + a) \<and> fits_cap (Option.bind caps cp_dailyStroops) (to_categoryDailyStroops spent + a)"
  using assms
  by (cases "cp_dailyStroops p"; cases "Option.bind caps cp_dailyStroops")
    (auto simp: daily_allowances_def applicable_allowance_def fits_cap_def remaining_def Let_def split: if_splits)

text \<open>C36: An order is allowed exactly if its amount is positive, the user has a policy, and the policy permits it: the merchant
  and the category are not blocked and are on the allow lists where there are any, the amount fits the per-transaction cap,
  and with the spend of the windows it fits the daily and weekly caps and those of its category. If a daily cap applies,
  an allowed order is within the daily allowance that is reported with the verdict, and an order beyond that allowance is
  refused.\<close>

theorem verdict_sound_and_complete:
  fixes source :: PolicyDataSource and ctx :: PolicyEvaluationContext
  defines "k \<equiv> normalizeCategory (px_category ctx)"
  shows "(pv_allowed (evaluateSpendingPolicy ctx source) \<longleftrightarrow> px_orderAmountStroops ctx > 0 \<and>
      (\<exists>policy. ds_getPolicy source (px_userId ctx) = Some policy \<and>
         permits policy (ds_getSpendTotals source (px_userId ctx) k (px_timestamp ctx)) ctx)) \<and>
    (\<forall>policy. pv_allowed (evaluateSpendingPolicy ctx source) \<and> ds_getPolicy source (px_userId ctx) = Some policy \<and>
       (cp_dailyStroops policy \<noteq> None \<or> Option.bind (findCategoryCaps (sp_categoryCaps policy) k) cp_dailyStroops \<noteq> None) \<longrightarrow>
       px_orderAmountStroops ctx \<le> pv_applicableDailyAllowanceRemainingStroops (evaluateSpendingPolicy ctx source))"
  (is "?iff \<and> (\<forall>policy. ?A policy)")
proof (intro conjI allI)
  show ?iff unfolding k_def by (rule allowed_iff)
next
  fix policy
  let ?spent = "ds_getSpendTotals source (px_userId ctx) k (px_timestamp ctx)"
  show "?A policy"
  proof (intro impI, elim conjE)
    assume a: "pv_allowed (evaluateSpendingPolicy ctx source)" and p: "ds_getPolicy source (px_userId ctx) = Some policy"
      and d: "cp_dailyStroops policy \<noteq> None \<or> Option.bind (findCategoryCaps (sp_categoryCaps policy) k) cp_dailyStroops \<noteq> None"
    have pos: "px_orderAmountStroops ctx > 0" and ok: "permits policy ?spent ctx" using a p by (auto simp: allowed_iff k_def)
    have "daily_allowances policy (findCategoryCaps (sp_categoryCaps policy) k) ?spent \<noteq> []"
      using d by (auto simp: daily_allowances_def)
    from applicable_allowance_fits [OF pos this] ok pos p
    show "px_orderAmountStroops ctx \<le> pv_applicableDailyAllowanceRemainingStroops (evaluateSpendingPolicy ctx source)"
      by (simp add: permits_def evaluateSpendingPolicy_def Let_def k_def)
  qed
qed

section \<open>Rolling windows\<close>

definition window_total :: "(RecordedSpend \<Rightarrow> bool) \<Rightarrow> ms \<Rightarrow> ms \<Rightarrow> RecordedSpend list \<Rightarrow> int" where
  "window_total Q a b xs = sum_list (map rs_amountStroops (filter (\<lambda>s. Q s \<and> a < rs_at s \<and> rs_at s \<le> b) xs))"

lemma window_total_snoc:
  "window_total Q a b (xs @ [x]) = window_total Q a b xs + (if Q x \<and> a < rs_at x \<and> rs_at x \<le> b then rs_amountStroops x else 0)"
  by (simp add: window_total_def)

lemma getSpendTotals_window:
  "getSpendTotals st u k t =
     \<lparr>to_dailyStroops = window_total (\<lambda>s. rs_userId s = u) (t - DAY_MS) t (ps_spends st),
      to_weeklyStroops = window_total (\<lambda>s. rs_userId s = u) (t - WEEK_MS) t (ps_spends st),
      to_categoryDailyStroops = window_total (\<lambda>s. rs_userId s = u \<and> rs_category s = normalizeCategory k) (t - DAY_MS) t (ps_spends st),
      to_categoryWeeklyStroops = window_total (\<lambda>s. rs_userId s = u \<and> rs_category s = normalizeCategory k) (t - WEEK_MS) t (ps_spends st)\<rparr>"
proof -
  have "foldl (add_spend u k' t) \<lparr>to_dailyStroops = 0, to_weeklyStroops = 0, to_categoryDailyStroops = 0, to_categoryWeeklyStroops = 0\<rparr> xs =
     \<lparr>to_dailyStroops = window_total (\<lambda>s. rs_userId s = u) (t - DAY_MS) t xs,
      to_weeklyStroops = window_total (\<lambda>s. rs_userId s = u) (t - WEEK_MS) t xs,
      to_categoryDailyStroops = window_total (\<lambda>s. rs_userId s = u \<and> rs_category s = k') (t - DAY_MS) t xs,
      to_categoryWeeklyStroops = window_total (\<lambda>s. rs_userId s = u \<and> rs_category s = k') (t - WEEK_MS) t xs\<rparr>" for xs k'
  proof (induction xs rule: rev_induct)
    case Nil
    show ?case by (simp add: window_total_def)
  next
    case (snoc x xs)
    then show ?case by (simp add: window_total_snoc add_spend_def Let_def)
  qed
  then show ?thesis by (simp add: getSpendTotals_def)
qed

text \<open>Spends in chronological order, each of which left the window that ends with it within the cap, leave every window within it.\<close>

definition capped :: "(RecordedSpend \<Rightarrow> bool) \<Rightarrow> int \<Rightarrow> int \<Rightarrow> RecordedSpend list \<Rightarrow> bool" where
  "capped Q width c xs \<longleftrightarrow> (\<forall>ys x zs. xs = ys @ x # zs \<longrightarrow> Q x \<longrightarrow> window_total Q (rs_at x - width) (rs_at x) (ys @ [x]) \<le> c)"

lemma capped_Nil [simp]: "capped Q width c []"
  by (simp add: capped_def)

lemma capped_snoc:
  "capped Q width c (xs @ [x]) \<longleftrightarrow> capped Q width c xs \<and> (Q x \<longrightarrow> window_total Q (rs_at x - width) (rs_at x) (xs @ [x]) \<le> c)"
proof -
  have "xs @ [x] = ys @ y # zs \<longleftrightarrow> (zs = [] \<and> ys = xs \<and> y = x) \<or> (\<exists>zs'. zs = zs' @ [x] \<and> xs = ys @ y # zs')" for ys y zs
    by (cases zs rule: rev_cases) auto
  then show ?thesis unfolding capped_def by (metis (no_types, opaque_lifting))
qed

lemma window_total_mono:
  assumes "\<forall>s \<in> set xs. rs_amountStroops s \<ge> 0" and "\<And>s. s \<in> set xs \<Longrightarrow> a < rs_at s \<Longrightarrow> rs_at s \<le> b \<Longrightarrow> a' < rs_at s \<and> rs_at s \<le> b'"
  shows "window_total Q a b xs \<le> window_total Q a' b' xs"
  using assms by (induction xs) (auto simp: window_total_def)

lemma capped_windows:
  assumes "sorted (map rs_at xs)" and "\<forall>s \<in> set xs. rs_amountStroops s \<ge> 0" and "capped Q width c xs"
  shows "window_total Q (t - width) t xs \<le> max 0 c"
  using assms
proof (induction xs rule: rev_induct)
  case Nil
  show ?case by (simp add: window_total_def)
next
  case (snoc x xs)
  then have IH: "window_total Q (t - width) t xs \<le> max 0 c" by (simp add: sorted_append capped_snoc)
  show ?case
  proof (cases "Q x \<and> t - width < rs_at x \<and> rs_at x \<le> t")
    case False
    with IH show ?thesis by (auto simp: window_total_snoc)
  next
    case True
    have before: "rs_at s \<le> rs_at x" if "s \<in> set (xs @ [x])" for s using snoc.prems(1) that by (auto simp: sorted_append)
    have "window_total Q (t - width) t (xs @ [x]) \<le> window_total Q (rs_at x - width) (rs_at x) (xs @ [x])"
      by (rule window_total_mono [OF snoc.prems(2)]) (use True before in force)
    also have "\<dots> \<le> c" using snoc.prems(3) True by (simp add: capped_snoc)
    finally show ?thesis by simp
  qed
qed


subsection \<open>Orders placed one after the other\<close>

text \<open>A caller that evaluates each order and records the spend of those that are allowed, without anything in between.\<close>

fun place_orders :: "PolicyEvaluationContext list \<Rightarrow> policy_store \<Rightarrow> policy_store" where
  "place_orders [] st = st"
| "place_orders (c # cs) st = place_orders cs
     (if pv_allowed (evaluateSpendingPolicy c (memory_source st))
      then policy_recordSpend \<lparr>rs_userId = px_userId c, rs_category = px_category c, rs_amountStroops = px_orderAmountStroops c,
             rs_at = px_timestamp c\<rparr> st
      else st)"

lemma js_lower_char_idem: "js_lower_char (js_lower_char c) = js_lower_char c"
  by (auto simp: js_lower_char_def)

lemma js_space_lower: "js_space (js_lower_char c) \<longleftrightarrow> js_space c"
  by (auto simp: js_space_def js_lower_char_def)

lemma js_trim_lower: "js_trim (js_lower s) = js_lower (js_trim s)"
  by (simp add: js_trim_def js_lower_def dropWhile_map rev_map comp_def js_space_lower)

lemma normalizeCategory_idem [simp]: "normalizeCategory (normalizeCategory c) = normalizeCategory c"
  by (simp add: normalizeCategory_def js_trim_lower) (simp add: js_lower_def js_lower_char_idem comp_def)

abbreviation of_user :: "string \<Rightarrow> RecordedSpend \<Rightarrow> bool" where
  "of_user u s \<equiv> rs_userId s = u"

abbreviation in_category :: "string \<Rightarrow> string \<Rightarrow> RecordedSpend \<Rightarrow> bool" where
  "in_category u k s \<equiv> rs_userId s = u \<and> rs_category s = k"

definition cap_kept :: "int option \<Rightarrow> (RecordedSpend \<Rightarrow> bool) \<Rightarrow> int \<Rightarrow> RecordedSpend list \<Rightarrow> bool" where
  "cap_kept limit Q width xs \<longleftrightarrow> (case limit of None \<Rightarrow> True | Some c \<Rightarrow> capped Q width c xs)"

text \<open>What holds of the recorded spends between two orders.\<close>

definition spends_ok :: "policy_store \<Rightarrow> bool" where
  "spends_ok st \<longleftrightarrow> sorted (map rs_at (ps_spends st)) \<and> (\<forall>s \<in> set (ps_spends st). rs_amountStroops s \<ge> 0) \<and>
     (\<forall>u policy. getPolicy st u = Some policy \<longrightarrow>
        cap_kept (cp_dailyStroops policy) (of_user u) DAY_MS (ps_spends st) \<and>
        cap_kept (cp_weeklyStroops policy) (of_user u) WEEK_MS (ps_spends st) \<and>
        (\<forall>k caps. findCategoryCaps (sp_categoryCaps policy) k = Some caps \<longrightarrow>
           cap_kept (cp_dailyStroops caps) (in_category u k) DAY_MS (ps_spends st) \<and>
           cap_kept (cp_weeklyStroops caps) (in_category u k) WEEK_MS (ps_spends st)))"

lemma cap_kept_snoc:
  assumes "cap_kept limit Q width xs" and "Q x \<Longrightarrow> fits_cap limit (window_total Q (rs_at x - width) (rs_at x) xs + rs_amountStroops x)" and "width > 0"
  shows "cap_kept limit Q width (xs @ [x])"
  using assms by (auto simp: cap_kept_def capped_snoc window_total_snoc fits_cap_def split: option.splits)

lemma place_keeps_spends_ok:
  assumes ok: "spends_ok st" and allowed: "pv_allowed (evaluateSpendingPolicy c (memory_source st))"
    and later: "\<forall>s \<in> set (ps_spends st). rs_at s \<le> px_timestamp c"
    and st': "st' = policy_recordSpend \<lparr>rs_userId = px_userId c, rs_category = px_category c, rs_amountStroops = px_orderAmountStroops c,
      rs_at = px_timestamp c\<rparr> st"
  shows "spends_ok st'"
proof -
  define x where "x = \<lparr>rs_userId = px_userId c, rs_category = normalizeCategory (px_category c), rs_amountStroops = px_orderAmountStroops c,
    rs_at = px_timestamp c\<rparr>"
  have spends: "ps_spends st' = ps_spends st @ [x]" and pol: "getPolicy st' = getPolicy st"
    by (auto simp: st' policy_recordSpend_def x_def getPolicy_def)
  from allowed obtain policy where p: "getPolicy st (px_userId c) = Some policy" and a: "px_orderAmountStroops c > 0"
    and ok': "permits policy (getSpendTotals st (px_userId c) (normalizeCategory (px_category c)) (px_timestamp c)) c"
    by (auto simp: allowed_iff memory_source_def)
  have w: "DAY_MS > 0" "WEEK_MS > 0" by (simp_all add: DAY_MS_def WEEK_MS_def)
  have fits: "fits_cap (cp_dailyStroops policy) (window_total (of_user (px_userId c)) (rs_at x - DAY_MS) (rs_at x) (ps_spends st) + rs_amountStroops x)"
      "fits_cap (cp_weeklyStroops policy) (window_total (of_user (px_userId c)) (rs_at x - WEEK_MS) (rs_at x) (ps_spends st) + rs_amountStroops x)"
      "findCategoryCaps (sp_categoryCaps policy) (rs_category x) = Some caps \<Longrightarrow>
        fits_cap (cp_dailyStroops caps) (window_total (in_category (px_userId c) (rs_category x)) (rs_at x - DAY_MS) (rs_at x) (ps_spends st) + rs_amountStroops x) \<and>
        fits_cap (cp_weeklyStroops caps) (window_total (in_category (px_userId c) (rs_category x)) (rs_at x - WEEK_MS) (rs_at x) (ps_spends st) + rs_amountStroops x)"
    for caps
    using ok' by (auto simp: permits_def Let_def getSpendTotals_window x_def)
  have "cap_kept (cp_dailyStroops q) (of_user u) DAY_MS (ps_spends st') \<and> cap_kept (cp_weeklyStroops q) (of_user u) WEEK_MS (ps_spends st') \<and>
        (\<forall>k caps. findCategoryCaps (sp_categoryCaps q) k = Some caps \<longrightarrow>
           cap_kept (cp_dailyStroops caps) (in_category u k) DAY_MS (ps_spends st') \<and>
           cap_kept (cp_weeklyStroops caps) (in_category u k) WEEK_MS (ps_spends st'))"
    if q: "getPolicy st' u = Some q" for u q
  proof -
    have same: "q = policy" if "u = px_userId c" using that q p pol by simp
    have user: "rs_userId x = px_userId c" by (simp add: x_def)
    note old = ok [unfolded spends_ok_def, THEN conjunct2, THEN conjunct2, rule_format, OF q [unfolded pol]]
    show ?thesis unfolding spends
      by (intro conjI allI impI cap_kept_snoc w; use old fits same user in auto)
  qed
  then show ?thesis using ok later a unfolding spends_ok_def spends
    by (auto simp: sorted_append x_def)
qed


lemma place_orders_ok:
  assumes "spends_ok st" and "sorted (map px_timestamp cs)" and "\<forall>s \<in> set (ps_spends st). \<forall>c \<in> set cs. rs_at s \<le> px_timestamp c"
  shows "spends_ok (place_orders cs st) \<and> getPolicy (place_orders cs st) = getPolicy st"
  using assms
proof (induction cs arbitrary: st)
  case (Cons c cs)
  define st' where "st' = (if pv_allowed (evaluateSpendingPolicy c (memory_source st)) then policy_recordSpend
    \<lparr>rs_userId = px_userId c, rs_category = px_category c, rs_amountStroops = px_orderAmountStroops c, rs_at = px_timestamp c\<rparr> st else st)"
  have "spends_ok st'" using place_keeps_spends_ok [OF Cons.prems(1) _ _ refl, of c] Cons.prems(1,3) by (simp add: st'_def)
  moreover have "\<forall>s \<in> set (ps_spends st'). \<forall>c \<in> set cs. rs_at s \<le> px_timestamp c"
    using Cons.prems(2,3) by (auto simp: st'_def policy_recordSpend_def)
  moreover have "getPolicy st' = getPolicy st" by (simp add: st'_def getPolicy_def policy_recordSpend_def fun_eq_iff)
  ultimately show ?case using Cons.IH [of st'] Cons.prems(2) by (simp add: st'_def)
qed simp

lemma cap_kept_windows:
  assumes "spends_ok st" and "cap_kept limit Q width (ps_spends st)" and "limit = Some c"
  shows "window_total Q (t - width) t (ps_spends st) \<le> max 0 c"
  using capped_windows [of "ps_spends st" Q width c t] assms by (simp add: spends_ok_def cap_kept_def)

text \<open>C11: Orders that are evaluated and recorded one after the other, in the order of their timestamps, never exceed the user's
  policy: in every window of 24 hours and of 7 days, wherever it ends, the recorded spend of the user is within the daily
  and weekly caps, and the recorded spend in each category with caps of its own is within those.\<close>

theorem rolling_caps_never_exceeded:
  assumes "sorted (map px_timestamp cs)" and "ps_spends st = []" and p: "getPolicy st u = Some policy"
  defines "spends \<equiv> ps_spends (place_orders cs st)"
  shows "(\<forall>c. cp_dailyStroops policy = Some c \<longrightarrow> window_total (of_user u) (t - DAY_MS) t spends \<le> max 0 c) \<and>
    (\<forall>c. cp_weeklyStroops policy = Some c \<longrightarrow> window_total (of_user u) (t - WEEK_MS) t spends \<le> max 0 c) \<and>
    (\<forall>k caps. findCategoryCaps (sp_categoryCaps policy) k = Some caps \<longrightarrow>
       (\<forall>c. cp_dailyStroops caps = Some c \<longrightarrow> window_total (in_category u k) (t - DAY_MS) t spends \<le> max 0 c) \<and>
       (\<forall>c. cp_weeklyStroops caps = Some c \<longrightarrow> window_total (in_category u k) (t - WEEK_MS) t spends \<le> max 0 c))"
proof -
  have "spends_ok st" using assms(2) by (simp add: spends_ok_def cap_kept_def split: option.splits)
  then have ok: "spends_ok (place_orders cs st)" and pol: "getPolicy (place_orders cs st) u = Some policy"
    using place_orders_ok [of st cs] assms(1,2) p by simp_all
  note kept = ok [unfolded spends_ok_def, THEN conjunct2, THEN conjunct2, rule_format, OF pol]
  show ?thesis unfolding spends_def using cap_kept_windows [OF ok] kept by blast
qed

subsection \<open>A run\<close>

definition demo_policy :: SpendingPolicyLimits where
  "demo_policy = \<lparr>cp_dailyStroops = Some 100, cp_weeklyStroops = Some 150, sp_perTransactionStroops = Some 80,
     sp_categoryCaps = Some [('' Books'', \<lparr>cp_dailyStroops = Some 60, cp_weeklyStroops = None\<rparr>)], sp_allowedMerchants = None,
     sp_restrictedMerchants = Some [''M3''], sp_allowedCategories = None, sp_restrictedCategories = None,
     sp_dualApprovalThresholdStroops = Some 70\<rparr>"

definition demo_order :: "string \<Rightarrow> int \<Rightarrow> ms \<Rightarrow> PolicyEvaluationContext" where
  "demo_order k a t = \<lparr>px_userId = ''u'', px_merchantAddress = ''M1'', px_category = k, px_orderAmountStroops = a, px_timestamp = t\<rparr>"

definition demo_store :: policy_store where
  "demo_store = setPolicy ''u'' demo_policy \<lparr>ps_policies = [], ps_spends = []\<rparr>"

definition demo_orders :: "PolicyEvaluationContext list" where
  "demo_orders = [demo_order ''books'' 50 0, demo_order ''BOOKS '' 20 1000, demo_order ''food'' 50 2000, demo_order ''food'' 1 3000,
     demo_order ''food'' 50 (DAY_MS + 2000), demo_order ''food'' 1 (DAY_MS + 3000)]"

text \<open>The second order exceeds the cap of its category, the fourth the daily and the last the weekly cap.\<close>

lemma demo_orders_run: "map rs_amountStroops (ps_spends (place_orders demo_orders demo_store)) = [50, 50, 50]"
  by code_simp

theorem rolling_caps_never_exceeded_witness:
  "window_total (of_user ''u'') (2000 - DAY_MS) 2000 (ps_spends (place_orders demo_orders demo_store)) \<le> 100"
proof -
  have "sorted (map px_timestamp demo_orders)" "ps_spends demo_store = []" "getPolicy demo_store ''u'' = Some demo_policy" by code_simp+
  from rolling_caps_never_exceeded [OF this, of 2000] show ?thesis by (simp add: demo_policy_def)
qed

theorem verdict_sound_and_complete_witness:
  "px_orderAmountStroops (demo_order ''food'' 70 0) \<le>
     pv_applicableDailyAllowanceRemainingStroops (evaluateSpendingPolicy (demo_order ''food'' 70 0) (memory_source demo_store))"
proof -
  have "pv_allowed (evaluateSpendingPolicy (demo_order ''food'' 70 0) (memory_source demo_store))"
    "ds_getPolicy (memory_source demo_store) (px_userId (demo_order ''food'' 70 0)) = Some demo_policy"
    "cp_dailyStroops demo_policy \<noteq> None" by code_simp+
  with verdict_sound_and_complete show ?thesis by blast
qed

end
