(* ===== verification/Dual_Control.thy ===== *)
theory Dual_Control
  imports Escrow_Coordinator Transactions
begin

text \<open>
  M-of-N approval of orders (orchestrator/src/dualControl/service.ts): an approval request is created for an order, team
  members sign it, and the signature that completes the quorum approves the order. The tables are those of
  database/migrations/042 and 046, with their primary keys, references and unique index; a signature is one transaction
  that locks the approval row. New ids, the clock and the table of users are the environment, and any query may throw; a
  statement or COMMIT that throws has had no effect. The id columns have type UUID: a text of a request is converted by
  PostgreSQL (\<open>de_castUuid\<close>, the canonical spelling, or \<open>None\<close> for an invalid text), and rows are read back in the canonical
  spelling, while the code compares the texts it was given.
\<close>

datatype DualControlStatus = DcPending | DcApproved

record DualControlApproval =
  da_id :: string
  da_orderId :: string
  da_requiredSignatures :: int
  da_createdByUserId :: string
  da_status :: DualControlStatus
  da_expiresAt :: "ms option"
  da_createdAt :: ms
  da_updatedAt :: ms

record DualControlSignature =
  dg_id :: string
  dg_approvalId :: string
  dg_signerUserId :: string
  dg_signedAt :: ms
  dg_signatureNote :: "string option"

record dual_db =
  dc_approvals :: "DualControlApproval list"
  dc_signatures :: "DualControlSignature list"
  dc_orders :: "(string \<times> string) list"

record CreateApprovalRequest =
  ca_orderId :: string
  ca_createdByUserId :: string
  ca_requiredSignatures :: "int option option"
  ca_expiresAt :: "ms option"

record SignApprovalRequest =
  sq_approvalId :: string
  sq_signerUserId :: string
  sq_note :: "string option"

record SignApprovalResult =
  sg_approval :: DualControlApproval
  sg_signatureCount :: int
  sg_quorumReached :: bool

datatype dual_error =
    ApprovalNotFoundError string
  | ApprovalNotPendingError string
  | SelfSignatureError string
  | DuplicateSignatureError string
  | InvalidQuorumError
  | ConstraintViolation string
  | DualDatabaseDown string

record 'w dual_env =
  de_fails :: "('w, dual_error) outages"
  de_uuid :: "'w \<Rightarrow> string \<times> 'w"
  de_now :: "'w \<Rightarrow> ms \<times> 'w"
  de_isUser :: "string \<Rightarrow> bool"
  de_castUuid :: "string \<Rightarrow> string option"

type_synonym 'w dual_world = "(dual_db, 'w) tx_world"

type_synonym ('w, 'a) dual_prog = "('w dual_world, dual_error, 'a) prog"

section \<open>Statements\<close>

text \<open>A statement with a parameter of type UUID.\<close>

definition with_uuid :: "'w dual_env \<Rightarrow> string \<Rightarrow> (string \<Rightarrow> dual_db \<Rightarrow> dual_error + 'a) \<Rightarrow> dual_db \<Rightarrow> dual_error + 'a" where
  "with_uuid env text f db = (case de_castUuid env text of None \<Rightarrow> Inl (ConstraintViolation ''uuid'') | Some u \<Rightarrow> f u db)"

text \<open>The range of the INT column, in a parameter of the statement.\<close>

definition insert_approval :: "('w dual_env) \<Rightarrow> DualControlApproval \<Rightarrow> dual_db \<Rightarrow> dual_error + (DualControlApproval \<times> dual_db)" where
  "insert_approval env a db =
     (if da_requiredSignatures a > 2147483647 then Inl (ConstraintViolation ''integer out of range'')
      else if da_id a \<in> da_id ` set (dc_approvals db) then Inl (ConstraintViolation ''dual_control_approvals_pkey'')
      else if da_orderId a \<notin> fst ` set (dc_orders db) then Inl (ConstraintViolation ''order_id'')
      else if \<not> de_isUser env (da_createdByUserId a) then Inl (ConstraintViolation ''created_by_user_id'')
      else Inr (a, db\<lparr>dc_approvals := dc_approvals db @ [a]\<rparr>))"

text \<open>\<^verbatim>\<open>ON CONFLICT (approval_id, signer_user_id) DO NOTHING RETURNING id\<close>.\<close>

definition insert_signature :: "('w dual_env) \<Rightarrow> DualControlSignature \<Rightarrow> dual_db \<Rightarrow> dual_error + (string list \<times> dual_db)" where
  "insert_signature env s db =
     (if \<exists>x \<in> set (dc_signatures db). dg_approvalId x = dg_approvalId s \<and> dg_signerUserId x = dg_signerUserId s then Inr ([], db)
      else if dg_id s \<in> dg_id ` set (dc_signatures db) then Inl (ConstraintViolation ''dual_control_signatures_pkey'')
      else if dg_approvalId s \<notin> da_id ` set (dc_approvals db) then Inl (ConstraintViolation ''approval_id'')
      else if \<not> de_isUser env (dg_signerUserId s) then Inl (ConstraintViolation ''signer_user_id'')
      else Inr ([dg_id s], db\<lparr>dc_signatures := dc_signatures db @ [s]\<rparr>))"

definition approve_row :: "string \<Rightarrow> ms \<Rightarrow> dual_db \<Rightarrow> dual_error + (DualControlApproval option \<times> dual_db)" where
  "approve_row i now db =
     (let rows = map (\<lambda>a. if da_id a = i then a\<lparr>da_status := DcApproved, da_updatedAt := now\<rparr> else a) (dc_approvals db) in
      Inr (find (\<lambda>a. da_id a = i) rows, db\<lparr>dc_approvals := rows\<rparr>))"

definition approve_order :: "string \<Rightarrow> dual_db \<Rightarrow> dual_error + (unit \<times> dual_db)" where
  "approve_order oid db = Inr ((), db\<lparr>dc_orders := map (\<lambda>(k, s). (k, if k = oid then ''approved'' else s)) (dc_orders db)\<rparr>)"

section \<open>The service\<close>

definition createApproval :: "'w dual_env \<Rightarrow> CreateApprovalRequest \<Rightarrow> ('w, DualControlApproval) dual_prog" where
  "createApproval env request =
     (case (case ca_requiredSignatures request of None \<Rightarrow> Some 2 | Some n \<Rightarrow> n) of
        None \<Rightarrow> pthrow InvalidQuorumError
      | Some required \<Rightarrow>
          if required < 1 then pthrow InvalidQuorumError
          else
            pbind (case ca_expiresAt request of
                     Some t \<Rightarrow> pret t
                   | None \<Rightarrow> pbind (outside (de_now env)) (\<lambda>now. pret (now + 24 * 60 * 60 * 1000))) (\<lambda>expiresAt.
            pbind (outside (de_uuid env)) (\<lambda>i.
            pbind (outside (de_now env)) (\<lambda>now.
            db_query (de_fails env) (with_uuid env (ca_orderId request) (\<lambda>orderId. with_uuid env (ca_createdByUserId request) (\<lambda>creator.
              insert_approval env
              \<lparr>da_id = i, da_orderId = orderId, da_requiredSignatures = required,
               da_createdByUserId = creator, da_status = DcPending, da_expiresAt = Some expiresAt,
               da_createdAt = now, da_updatedAt = now\<rparr>)))))))"

text \<open>The part of a signature's transaction after the signature is stored.\<close>

definition count_and_approve :: "'w dual_env \<Rightarrow> DualControlApproval \<Rightarrow> ('w, SignApprovalResult) dual_prog" where
  "count_and_approve env approval =
     pbind (db_select (de_fails env)
              (\<lambda>db. int (length (filter (\<lambda>s. dg_approvalId s = da_id approval) (dc_signatures db))))) (\<lambda>signatureCount.
     if signatureCount < da_requiredSignatures approval
     then pret \<lparr>sg_approval = approval, sg_signatureCount = signatureCount, sg_quorumReached = False\<rparr>
     else
       pbind (outside (de_now env)) (\<lambda>now'.
       pbind (db_query (de_fails env) (approve_row (da_id approval) now')) (\<lambda>updated.
       pbind (db_query (de_fails env) (approve_order (da_orderId approval))) (\<lambda>_.
       case updated of
         None \<Rightarrow> pthrow (DualDatabaseDown ''Cannot read properties of undefined'')
       | Some row \<Rightarrow> pret \<lparr>sg_approval = row, sg_signatureCount = signatureCount, sg_quorumReached = True\<rparr>))))"

definition signInTransaction :: "'w dual_env \<Rightarrow> SignApprovalRequest \<Rightarrow> ('w, SignApprovalResult) dual_prog" where
  "signInTransaction env request =
     pbind (db_query (de_fails env) (with_uuid env (sq_approvalId request) (\<lambda>u db. Inr (find (\<lambda>a. da_id a = u) (dc_approvals db), db)))) (\<lambda>locked.
     case locked of
       None \<Rightarrow> pthrow (ApprovalNotFoundError (sq_approvalId request))
     | Some approval \<Rightarrow>
         if da_status approval \<noteq> DcPending then pthrow (ApprovalNotPendingError (da_id approval))
         else if sq_signerUserId request = da_createdByUserId approval then pthrow (SelfSignatureError (da_id approval))
         else
           pbind (outside (de_uuid env)) (\<lambda>i.
           pbind (outside (de_now env)) (\<lambda>now.
           pbind (db_query (de_fails env) (with_uuid env (sq_signerUserId request) (\<lambda>signer. insert_signature env
                    \<lparr>dg_id = i, dg_approvalId = da_id approval, dg_signerUserId = signer, dg_signedAt = now,
                     dg_signatureNote = sq_note request\<rparr>))) (\<lambda>inserted.
           if inserted = [] then pthrow (DuplicateSignatureError (da_id approval))
           else
             count_and_approve env approval))))"

definition dual_sign :: "'w dual_env \<Rightarrow> SignApprovalRequest \<Rightarrow> ('w, SignApprovalResult) dual_prog" where
  "dual_sign env request = db_transaction (de_fails env) False (signInTransaction env request)"

definition getApproval ::
  "'w dual_env \<Rightarrow> (string \<Rightarrow> 'k::linorder) \<Rightarrow> string \<Rightarrow> ('w, (DualControlApproval \<times> DualControlSignature list) option) dual_prog" where
  "getApproval env coll approvalId =
     pbind (db_query (de_fails env) (with_uuid env approvalId (\<lambda>u db. Inr (find (\<lambda>a. da_id a = u) (dc_approvals db), db)))) (\<lambda>found.
     case found of
       None \<Rightarrow> pret None
     | Some approval \<Rightarrow>
         pbind (db_query (de_fails env) (with_uuid env approvalId (\<lambda>u db. Inr (sort_key dg_signedAt (sort_key (\<lambda>s. coll (dg_id s))
                  (filter (\<lambda>s. dg_approvalId s = u) (dc_signatures db))), db)))) (\<lambda>signatures.
         pret (Some (approval, signatures))))"

section \<open>Quorum\<close>

definition signers :: "dual_db \<Rightarrow> string \<Rightarrow> string set" where
  "signers db i = {dg_signerUserId s | s. s \<in> set (dc_signatures db) \<and> dg_approvalId s = i}"

text \<open>
  The promise of the service, for every approval request: it is approved exactly if as many users as it requires have signed
  it. Signatures belong to requests that exist, and nobody signs a request twice. That the creator has not signed is a second
  promise, which depends on how the texts of the requests are spelled.
\<close>

definition quorum_ok :: "dual_db \<Rightarrow> bool" where
  "quorum_ok db \<longleftrightarrow> distinct (map da_id (dc_approvals db)) \<and>
     distinct (map (\<lambda>s. (dg_approvalId s, dg_signerUserId s)) (dc_signatures db)) \<and>
     (\<forall>s \<in> set (dc_signatures db). dg_approvalId s \<in> da_id ` set (dc_approvals db)) \<and>
     (\<forall>a \<in> set (dc_approvals db). 1 \<le> da_requiredSignatures a \<and>
        (da_status a = DcApproved \<longleftrightarrow> da_requiredSignatures a \<le> int (card (signers db (da_id a)))))"

definition creator_excluded :: "dual_db \<Rightarrow> bool" where
  "creator_excluded db \<longleftrightarrow> (\<forall>a \<in> set (dc_approvals db). da_createdByUserId a \<notin> signers db (da_id a))"

definition order_status :: "dual_db \<Rightarrow> string \<Rightarrow> string option" where
  "order_status db = map_of (dc_orders db)"

text \<open>An order whose status changed was approved by a quorum.\<close>

definition justified :: "dual_db \<Rightarrow> dual_db \<Rightarrow> bool" where
  "justified db0 db \<longleftrightarrow> (\<forall>oid. order_status db oid \<noteq> order_status db0 oid \<longrightarrow>
     order_status db oid = Some ''approved'' \<and>
     (\<exists>a \<in> set (dc_approvals db). da_orderId a = oid \<and> da_requiredSignatures a \<le> int (card (signers db (da_id a)))))"

lemma count_signers:
  assumes "distinct (map (\<lambda>s. (dg_approvalId s, dg_signerUserId s)) (dc_signatures db))"
  shows "length (filter (\<lambda>s. dg_approvalId s = i) (dc_signatures db)) = card (signers db i)"
proof -
  let ?fs = "filter (\<lambda>s. dg_approvalId s = i) (dc_signatures db)"
  have "inj_on dg_signerUserId (set ?fs)" using assms by (auto simp: distinct_map inj_on_def)
  moreover have "distinct ?fs" using assms by (simp add: distinct_map)
  moreover have "signers db i = dg_signerUserId ` set ?fs" by (auto simp: signers_def)
  ultimately have "card (signers db i) = card (set ?fs)" by (simp only: card_image)
  also have "\<dots> = length ?fs" by (rule distinct_card) fact
  finally show ?thesis by simp
qed

lemma signers_finite [simp]: "finite (signers db i)"
proof -
  have "signers db i \<subseteq> dg_signerUserId ` set (dc_signatures db)" by (auto simp: signers_def)
  then show ?thesis using finite_subset by blast
qed

lemma signers_cong: "dc_signatures db' = dc_signatures db \<Longrightarrow> signers db' = signers db"
  by (simp add: signers_def fun_eq_iff)

lemma signers_insert:
  "dc_signatures db' = dc_signatures db @ [s] \<Longrightarrow>
     signers db' i = (if dg_approvalId s = i then insert (dg_signerUserId s) (signers db i) else signers db i)"
  by (auto simp: signers_def)

lemma insert_approval_ok:
  assumes "quorum_ok db" and "insert_approval env a db = Inr (r, db')" and "1 \<le> da_requiredSignatures a" and "da_status a = DcPending"
  shows "quorum_ok db' \<and> dc_orders db' = dc_orders db \<and> (creator_excluded db \<longrightarrow> creator_excluded db')"
proof -
  from assms(2) have db': "db' = db\<lparr>dc_approvals := dc_approvals db @ [a]\<rparr>" and new: "da_id a \<notin> da_id ` set (dc_approvals db)"
    by (auto simp: insert_approval_def split: if_splits)
  have "dg_approvalId s \<noteq> da_id a" if "s \<in> set (dc_signatures db)" for s using assms(1) new that unfolding quorum_ok_def by metis
  then have none: "signers db (da_id a) = {}" by (auto simp: signers_def)
  have "signers db' = signers db" by (rule signers_cong) (simp add: db')
  then show ?thesis using assms(1,3,4) new none by (auto simp: quorum_ok_def creator_excluded_def db')
qed

text \<open>A signature that did not complete the quorum, and one that did.\<close>

definition signed :: "DualControlSignature \<Rightarrow> dual_db \<Rightarrow> dual_db" where
  "signed s db = db\<lparr>dc_signatures := dc_signatures db @ [s]\<rparr>"

definition approved :: "DualControlApproval \<Rightarrow> ms \<Rightarrow> dual_db \<Rightarrow> dual_db" where
  "approved a now db = db\<lparr>dc_approvals := map (\<lambda>x. if da_id x = da_id a then x\<lparr>da_status := DcApproved, da_updatedAt := now\<rparr> else x) (dc_approvals db),
     dc_orders := map (\<lambda>(k, s). (k, if k = da_orderId a then ''approved'' else s)) (dc_orders db)\<rparr>"

lemma approves: "approve_row (da_id a) now db = Inr (u, db1) \<Longrightarrow> approve_order (da_orderId a) db1 = Inr (v, db2) \<Longrightarrow> db2 = approved a now db"
  by (auto simp: approve_row_def approve_order_def approved_def Let_def)

lemma count_and_approve_yields:
  assumes "yields (count_and_approve env a) db r db'"
  shows "\<exists>now. sg_quorumReached r = (da_requiredSignatures a \<le> int (length (filter (\<lambda>s. dg_approvalId s = da_id a) (dc_signatures db)))) \<and>
    db' = (if sg_quorumReached r then approved a now db else db)"
  using assms unfolding count_and_approve_def
  by (auto dest!: yields_dests split: if_splits option.splits) (metis approves)

lemma sign_yields:
  assumes "yields (signInTransaction env req) db r db'"
  obtains a s now where "a \<in> set (dc_approvals db)" "de_castUuid env (sq_approvalId req) = Some (da_id a)" "da_status a = DcPending"
    "sq_signerUserId req \<noteq> da_createdByUserId a" "dg_approvalId s = da_id a" "de_castUuid env (sq_signerUserId req) = Some (dg_signerUserId s)"
    "dg_signerUserId s \<notin> signers db (da_id a)"
    "sg_quorumReached r \<longleftrightarrow> da_requiredSignatures a \<le> int (length (filter (\<lambda>x. dg_approvalId x = da_id a) (dc_signatures (signed s db))))"
    "db' = (if sg_quorumReached r then approved a now (signed s db) else signed s db)"
proof -
  from assms obtain a i t ids db1 u v where a: "de_castUuid env (sq_approvalId req) = Some u" "find (\<lambda>a. da_id a = u) (dc_approvals db) = Some a"
    "da_status a = DcPending" "sq_signerUserId req \<noteq> da_createdByUserId a"
    and s: "de_castUuid env (sq_signerUserId req) = Some v" "insert_signature env \<lparr>dg_id = i, dg_approvalId = da_id a, dg_signerUserId = v, dg_signedAt = t,
       dg_signatureNote = sq_note req\<rparr> db = Inr (ids, db1)" "ids \<noteq> []"
    and rest: "yields (count_and_approve env a) db1 r db'"
    unfolding signInTransaction_def
    by (auto dest!: yields_dests simp: with_uuid_def split: if_splits option.splits)
  define s where "s = \<lparr>dg_id = i, dg_approvalId = da_id a, dg_signerUserId = v, dg_signedAt = t, dg_signatureNote = sq_note req\<rparr>"
  have db1: "db1 = signed s db" and new: "v \<notin> signers db (da_id a)"
    using s(2,3) by (auto simp: insert_signature_def signed_def s_def signers_def split: if_splits)
  obtain now where "sg_quorumReached r = (da_requiredSignatures a \<le> int (length (filter (\<lambda>s. dg_approvalId s = da_id a) (dc_signatures db1))))"
    "db' = (if sg_quorumReached r then approved a now db1 else db1)"
    using count_and_approve_yields [OF rest] by blast
  moreover have "a \<in> set (dc_approvals db)" "da_id a = u" using a(2) by (auto simp: find_Some_iff)
  ultimately show ?thesis using that [of a s now] a s(1) new unfolding db1 by (simp add: s_def)
qed

lemma signed_signers: "dg_approvalId s = i \<Longrightarrow> signers (signed s db) j = (if j = i then insert (dg_signerUserId s) (signers db i) else signers db j)"
  using signers_insert [of "signed s db" db s j] by (auto simp: signed_def)

lemma approved_signers [simp]: "signers (approved a now db) = signers db"
  by (rule signers_cong) (simp add: approved_def)

lemma signed_table [simp]: "dc_approvals (signed s db) = dc_approvals db" "dc_orders (signed s db) = dc_orders db"
  "dc_signatures (signed s db) = dc_signatures db @ [s]"
  by (simp_all add: signed_def)

text \<open>A new signature of a pending request.\<close>

definition new_signature :: "dual_db \<Rightarrow> DualControlApproval \<Rightarrow> DualControlSignature \<Rightarrow> bool" where
  "new_signature db a s \<longleftrightarrow> quorum_ok db \<and> a \<in> set (dc_approvals db) \<and> da_status a = DcPending \<and>
     dg_approvalId s = da_id a \<and> dg_signerUserId s \<notin> signers db (da_id a)"

lemma new_signature_facts:
  assumes "new_signature db a s"
  shows "distinct (map (\<lambda>s. (dg_approvalId s, dg_signerUserId s)) (dc_signatures (signed s db)))"
    and "\<And>x. x \<in> set (dc_approvals db) \<Longrightarrow> da_id x = da_id a \<longleftrightarrow> x = a"
    and "\<And>x. creator_excluded db \<Longrightarrow> dg_signerUserId s \<noteq> da_createdByUserId a \<Longrightarrow> x \<in> set (dc_approvals db) \<Longrightarrow>
      da_createdByUserId x \<notin> signers (signed s db) (da_id x)"
    and "\<And>x. x \<in> set (dc_approvals db) \<Longrightarrow> x \<noteq> a \<Longrightarrow>
      da_status x = DcApproved \<longleftrightarrow> da_requiredSignatures x \<le> int (card (signers (signed s db) (da_id x)))"
    and "\<forall>y \<in> set (dc_signatures (signed s db)). dg_approvalId y \<in> da_id ` set (dc_approvals db)"
proof -
  have s: "dg_approvalId s = da_id a" using assms by (simp add: new_signature_def)
  show d: "distinct (map (\<lambda>s. (dg_approvalId s, dg_signerUserId s)) (dc_signatures (signed s db)))"
    using assms by (auto simp: new_signature_def quorum_ok_def signers_def)
  show only: "da_id x = da_id a \<longleftrightarrow> x = a" if "x \<in> set (dc_approvals db)" for x
    using that assms by (auto simp: new_signature_def quorum_ok_def distinct_map inj_on_def)
  have other: "signers (signed s db) (da_id x) = (if x = a then insert (dg_signerUserId s) (signers db (da_id a)) else signers db (da_id x))"
    if "x \<in> set (dc_approvals db)" for x using only [OF that] signed_signers [OF s] by auto
  show "da_createdByUserId x \<notin> signers (signed s db) (da_id x)"
    if "creator_excluded db" "dg_signerUserId s \<noteq> da_createdByUserId a" "x \<in> set (dc_approvals db)" for x
    using assms that other by (auto simp: new_signature_def creator_excluded_def)
  show "da_status x = DcApproved \<longleftrightarrow> da_requiredSignatures x \<le> int (card (signers (signed s db) (da_id x)))"
    if "x \<in> set (dc_approvals db)" "x \<noteq> a" for x
    using assms that other by (auto simp: new_signature_def quorum_ok_def)
  show "\<forall>y \<in> set (dc_signatures (signed s db)). dg_approvalId y \<in> da_id ` set (dc_approvals db)"
    using assms by (auto simp: new_signature_def quorum_ok_def)
qed

lemma signed_ok:
  assumes "new_signature db a s" and "\<not> da_requiredSignatures a \<le> int (card (signers (signed s db) (da_id a)))"
  shows "quorum_ok (signed s db)"
proof -
  note facts = new_signature_facts [OF assms(1)]
  have ok: "quorum_ok db" and pending: "da_status a = DcPending" using assms(1) by (simp_all add: new_signature_def)
  have "(da_status x = DcApproved) = (da_requiredSignatures x \<le> int (card (signers (signed s db) (da_id x))))"
    if "x \<in> set (dc_approvals db)" for x
    using facts(4) [OF that] assms(2) pending by (cases "x = a") simp_all
  with facts(1,5) ok show ?thesis by (simp add: quorum_ok_def)
qed

lemma approved_ok:
  assumes "new_signature db a s" and "da_requiredSignatures a \<le> int (card (signers (signed s db) (da_id a)))"
  shows "quorum_ok (approved a now (signed s db))" (is "quorum_ok ?db")
proof -
  note facts = new_signature_facts [OF assms(1)]
  have ok: "quorum_ok db" using assms(1) by (simp add: new_signature_def)
  let ?g = "\<lambda>x. if da_id x = da_id a then x\<lparr>da_status := DcApproved, da_updatedAt := now\<rparr> else x"
  have tab: "dc_approvals ?db = map ?g (dc_approvals db)" "dc_signatures ?db = dc_signatures (signed s db)"
    by (simp_all add: approved_def)
  have keys: "map da_id (dc_approvals ?db) = map da_id (dc_approvals db)" unfolding tab(1) by simp
  then have "da_id ` set (dc_approvals ?db) = da_id ` set (dc_approvals db)" by (metis set_map)
  moreover have "1 \<le> da_requiredSignatures y \<and>
      (da_status y = DcApproved \<longleftrightarrow> da_requiredSignatures y \<le> int (card (signers ?db (da_id y))))" if "y \<in> set (dc_approvals ?db)" for y
  proof -
    from that obtain x where x: "x \<in> set (dc_approvals db)" "y = ?g x" unfolding tab(1) by auto
    have y: "da_requiredSignatures y = da_requiredSignatures x" "da_id y = da_id x"
      "da_status y = (if x = a then DcApproved else da_status x)" using x facts(2) by auto
    have "1 \<le> da_requiredSignatures x" using ok x by (simp add: quorum_ok_def)
    then show ?thesis unfolding y approved_signers using facts(4) [OF x(1)] assms(2) by (cases "x = a") simp_all
  qed
  ultimately show ?thesis using ok facts(1,5) unfolding quorum_ok_def tab(2) keys by simp
qed

lemma signed_creator:
  assumes "new_signature db a s" "creator_excluded db" "dg_signerUserId s \<noteq> da_createdByUserId a"
  shows "creator_excluded (signed s db) \<and> creator_excluded (approved a now (signed s db))"
proof -
  have 1: "da_createdByUserId x \<notin> signers (signed s db) (da_id x)" if "x \<in> set (dc_approvals db)" for x
    using new_signature_facts(3) [OF assms that] .
  have "\<exists>x \<in> set (dc_approvals db). da_createdByUserId y = da_createdByUserId x \<and> da_id y = da_id x"
    if "y \<in> set (dc_approvals (approved a now (signed s db)))" for y
    using that by (auto simp: approved_def)
  with 1 show ?thesis by (force simp: creator_excluded_def)
qed

lemma approved_justified:
  assumes "a \<in> set (dc_approvals db)" and "da_requiredSignatures a \<le> int (card (signers (signed s db) (da_id a)))"
  shows "justified db (approved a now (signed s db))" (is "justified db ?db")
  unfolding justified_def
proof (intro allI impI)
  fix oid assume ch: "order_status ?db oid \<noteq> order_status db oid"
  define b where "b = a\<lparr>da_status := DcApproved, da_updatedAt := now\<rparr>"
  have "map_of (map (\<lambda>(k, s). (k, if k = da_orderId a then ''approved'' else s)) ps) oid =
      map_option (\<lambda>s. if oid = da_orderId a then ''approved'' else s) (map_of ps oid)" for ps :: "(string \<times> string) list"
    by (induction ps) auto
  then have "order_status ?db oid = map_option (\<lambda>s. if oid = da_orderId a then ''approved'' else s) (order_status db oid)"
    by (simp add: order_status_def approved_def)
  with ch have "oid = da_orderId a" "order_status ?db oid = Some ''approved''" by (auto split: if_splits option.splits simp: map_option_case)
  moreover have "b \<in> set (dc_approvals ?db)" using assms(1) by (force simp: approved_def b_def)
  moreover have "da_orderId b = da_orderId a" "da_requiredSignatures b = da_requiredSignatures a" "da_id b = da_id a" by (simp_all add: b_def)
  ultimately show "order_status ?db oid = Some ''approved'' \<and>
      (\<exists>a \<in> set (dc_approvals ?db). da_orderId a = oid \<and> da_requiredSignatures a \<le> int (card (signers ?db (da_id a))))"
    using assms(2) by (intro conjI bexI [of _ b]) simp_all
qed

definition canonical_signer :: "'w dual_env \<Rightarrow> SignApprovalRequest \<Rightarrow> bool" where
  "canonical_signer env req \<longleftrightarrow> de_castUuid env (sq_signerUserId req) = Some (sq_signerUserId req)"

lemma dual_sign_ok:
  assumes ok: "quorum_ok db" and run: "yields (signInTransaction env req) db r db'"
  shows "quorum_ok db' \<and> justified db db' \<and> (canonical_signer env req \<and> creator_excluded db \<longrightarrow> creator_excluded db')"
proof -
  from run obtain a s now where a: "a \<in> set (dc_approvals db)" "da_status a = DcPending" "sq_signerUserId req \<noteq> da_createdByUserId a"
    and s: "dg_approvalId s = da_id a" "de_castUuid env (sq_signerUserId req) = Some (dg_signerUserId s)" "dg_signerUserId s \<notin> signers db (da_id a)"
    and q: "sg_quorumReached r \<longleftrightarrow> da_requiredSignatures a \<le> int (length (filter (\<lambda>x. dg_approvalId x = da_id a) (dc_signatures (signed s db))))"
    and db': "db' = (if sg_quorumReached r then approved a now (signed s db) else signed s db)"
    by (rule sign_yields)
  have new: "new_signature db a s" using ok a s by (simp add: new_signature_def)
  have q': "sg_quorumReached r \<longleftrightarrow> da_requiredSignatures a \<le> int (card (signers (signed s db) (da_id a)))"
    using q unfolding count_signers [OF new_signature_facts(1) [OF new]] .
  have cr: "canonical_signer env req \<and> creator_excluded db \<longrightarrow> creator_excluded db'"
    using signed_creator [OF new] a(3) s(2) unfolding db' canonical_signer_def by auto
  show ?thesis
  proof (cases "sg_quorumReached r")
    case True
    then show ?thesis using approved_ok [OF new] approved_justified [OF a(1)] q' db' cr by simp
  next
    case False
    then show ?thesis using signed_ok [OF new] q' db' cr by (simp add: justified_def order_status_def)
  qed
qed

lemma create_yields:
  assumes "yields (createApproval env req) db a db'" and "quorum_ok db"
  shows "quorum_ok db' \<and> dc_orders db' = dc_orders db \<and> (creator_excluded db \<longrightarrow> creator_excluded db')"
proof -
  from assms(1) obtain x where "insert_approval env x db = Inr (a, db')" "1 \<le> da_requiredSignatures x" "da_status x = DcPending"
    unfolding createApproval_def by (fastforce dest!: yields_dests simp: with_uuid_def split: option.splits if_splits)
  from insert_approval_ok [OF assms(2) this] show ?thesis .
qed

text \<open>The contract of an operation on the approvals: what it did when it returned, and nothing when it threw; \<open>canonical\<close> says that
  the text of the signer is spelled as the database spells it.\<close>

locale quorum_operation =
  fixes operation :: "('w, 'a) dual_prog" and canonical :: bool
  assumes returns: "yields operation db a db' \<Longrightarrow> quorum_ok db \<Longrightarrow>
      quorum_ok db' \<and> justified db db' \<and> (canonical \<and> creator_excluded db \<longrightarrow> creator_excluded db')"
    and throws: "operation w = (Inl e, w') \<Longrightarrow> iw_db w' = iw_db w"
begin

lemma enforced:
  assumes "quorum_ok (iw_db w)"
  shows "quorum_ok (iw_db (snd (operation w))) \<and> justified (iw_db w) (iw_db (snd (operation w))) \<and>
    (canonical \<and> creator_excluded (iw_db w) \<longrightarrow> creator_excluded (iw_db (snd (operation w))))"
proof (cases "operation w")
  case (Pair r w')
  show ?thesis
  proof (cases r)
    case (Inl e)
    with Pair throws [of w e w'] assms show ?thesis by (simp add: justified_def)
  next
    case (Inr a)
    with Pair returns [OF yieldsI, of w a w'] assms show ?thesis by simp
  qed
qed

end

interpretation sign_operation: quorum_operation "dual_sign env request" "canonical_signer env request" for env request
proof
  fix db a db' assume "yields (dual_sign env request) db a db'" "quorum_ok db"
  then show "quorum_ok db' \<and> justified db db' \<and> (canonical_signer env request \<and> creator_excluded db \<longrightarrow> creator_excluded db')"
    unfolding dual_sign_def by (intro dual_sign_ok) (auto dest: yields_transaction)
next
  fix w e w' assume "dual_sign env request w = (Inl e, w')"
  then show "iw_db w' = iw_db w" unfolding dual_sign_def by (rule db_transaction_throws)
qed

lemma create_throws: "createApproval env request w = (Inl e, w') \<Longrightarrow> iw_db w' = iw_db w"
  by (auto simp: createApproval_def prog_simps db_query_def outside_def split: option.splits if_splits prod.splits sum.splits)

interpretation create_operation: quorum_operation "createApproval env request" True for env request
proof
  fix db a db' assume "yields (createApproval env request) db a db'" "quorum_ok db"
  then show "quorum_ok db' \<and> justified db db' \<and> (True \<and> creator_excluded db \<longrightarrow> creator_excluded db')"
    using create_yields by (fastforce simp: justified_def order_status_def)
qed (rule create_throws)

text \<open>C12: Whatever requests are created and signed, by whom and in which order, and whatever query fails in the middle (a statement
  or COMMIT that fails has no effect): a request is approved exactly if at least as many different users as it requires have
  signed it, and the status of an order changes only to approved, by the signature that completes the quorum of a request for
  this order. As long as the signers' ids are spelled as the database spells them, no request is signed by its creator.\<close>

theorem dual_control_quorum:
  assumes "quorum_ok (iw_db w)" and "w' \<in> {snd (createApproval env creq w), snd (dual_sign env sreq w)}"
  shows "quorum_ok (iw_db w') \<and> justified (iw_db w) (iw_db w') \<and>
    (canonical_signer env sreq \<and> creator_excluded (iw_db w) \<longrightarrow> creator_excluded (iw_db w'))"
  using assms sign_operation.enforced create_operation.enforced by blast

definition dual_demo_env :: "nat dual_env" where
  "dual_demo_env = \<lparr>de_fails = (\<lambda>n. (None, n)), de_uuid = (\<lambda>n. (show_nat n, Suc n)), de_now = (\<lambda>n. (1000 * int n, n)), de_isUser = (\<lambda>_. True),
     de_castUuid = (\<lambda>text. Some (js_lower text))\<rparr>"

definition dual_demo_world :: "nat dual_world" where
  "dual_demo_world = \<lparr>iw_db = \<lparr>dc_approvals = [], dc_signatures = [], dc_orders = [(''order'', ''pending'')]\<rparr>, iw_ext = 1\<rparr>"

definition signature_of :: "string \<Rightarrow> SignApprovalRequest" where
  "signature_of u = \<lparr>sq_approvalId = ''1'', sq_signerUserId = u, sq_note = None\<rparr>"

definition approval_for :: "ms option \<Rightarrow> CreateApprovalRequest" where
  "approval_for t = \<lparr>ca_orderId = ''order'', ca_createdByUserId = ''alice'', ca_requiredSignatures = None, ca_expiresAt = t\<rparr>"

theorem dual_control_quorum_witness:
  "quorum_ok (iw_db (snd (createApproval dual_demo_env (approval_for None) dual_demo_world))) \<and>
   justified (iw_db dual_demo_world) (iw_db (snd (createApproval dual_demo_env (approval_for None) dual_demo_world))) \<and>
   creator_excluded (iw_db (snd (createApproval dual_demo_env (approval_for None) dual_demo_world)))"
proof -
  have "quorum_ok (iw_db dual_demo_world)" "creator_excluded (iw_db dual_demo_world)" by (simp_all add: quorum_ok_def creator_excluded_def dual_demo_world_def)
  moreover have "canonical_signer dual_demo_env (signature_of ''bob'')" by (simp add: canonical_signer_def dual_demo_env_def signature_of_def) code_simp
  ultimately show ?thesis
    using dual_control_quorum [where w = dual_demo_world and env = dual_demo_env and creq = "approval_for None" and sreq = "signature_of ''bob''"
        and w' = "snd (createApproval dual_demo_env (approval_for None) dual_demo_world)"] by blast
qed

text \<open>The creator alice is refused, and accepted under the spelling Alice: the code compares the texts, the database the ids.\<close>

theorem creator_signs_respelled:
  "(case pbind (createApproval dual_demo_env (approval_for None)) (\<lambda>_.
         pbind (ptry (dual_sign dual_demo_env (signature_of ''alice''))) (\<lambda>r1.
         pbind (dual_sign dual_demo_env (signature_of ''Alice'')) (\<lambda>r2.
         pbind (dual_sign dual_demo_env (signature_of ''bob'')) (\<lambda>r3.
         pret (r1, sg_quorumReached r3))))) dual_demo_world of
     (r, w) \<Rightarrow> (r, map dg_signerUserId (dc_signatures (iw_db w)), dc_orders (iw_db w))) =
   (Inr (Inl (SelfSignatureError ''1''), True), [''alice'', ''bob''], [(''order'', ''approved'')])"
  by code_simp

text \<open>The expiry of a request is stored and never looked at: a request that expired at the epoch is signed by two users
  later on, and its order is approved. The creator and a second signature of the same user are refused.\<close>

theorem expired_request_approved:
  "(case pbind (createApproval dual_demo_env (approval_for (Some 0))) (\<lambda>_.
         pbind (ptry (dual_sign dual_demo_env (signature_of ''alice''))) (\<lambda>r1.
         pbind (dual_sign dual_demo_env (signature_of ''bob'')) (\<lambda>r2.
         pbind (ptry (dual_sign dual_demo_env (signature_of ''bob''))) (\<lambda>r3.
         pbind (dual_sign dual_demo_env (signature_of ''carol'')) (\<lambda>r4.
         pret (r1, sg_quorumReached r2, r3, sg_quorumReached r4, da_expiresAt (sg_approval r4))))))) dual_demo_world of
     (r, w) \<Rightarrow> (r, dc_orders (iw_db w))) =
   (Inr (Inl (SelfSignatureError ''1''), False, Inl (DuplicateSignatureError ''1''), True, Some 0), [(''order'', ''approved'')])"
  by code_simp

end
