(* ===== verification/Spend_Limits.thy ===== *)
theory Spend_Limits
  imports Escrow_Coordinator Calendar Transactions
begin

text \<open>
  The spend limits of the wallet service (wallet/src/spendLimits.ts): limits in PostgreSQL, cumulative spend per UTC day,
  ISO week and lifetime in Redis counters with a time to live, which one Lua script increments. The database of this
  component is the table of limits together with the Redis keys; a counter is its value and the instant at which it
  expires. Any query may throw. The clock of the service and the clock of Redis are read separately, as the code does.
  Numbers inside a Lua script are doubles: \<open>lua\<close> is the conversion, a parameter about which nothing is assumed.
  Ids are UUIDs, so years are those of four digits and ids have no colon.
\<close>

section \<open>Keys\<close>

definition getDailyKey :: "string \<Rightarrow> string \<Rightarrow> ms \<Rightarrow> string" where
  "getDailyKey userId walletId date =
     (let yyyy = getUTCFullYear date; mm = pad 2 (getUTCMonth date + 1); dd = pad 2 (getUTCDate date) in
      ''spend:daily:'' @ userId @ '':'' @ walletId @ '':'' @ show_int yyyy @ ''-'' @ mm @ ''-'' @ dd)"

text \<open>\<^verbatim>\<open>setUTCDate(getUTCDate() + n)\<close> moves a date by \<open>n\<close> days. The quotient of the milliseconds is a number of days, and
  \<^verbatim>\<open>Math.ceil(n / 7)\<close> of an integer is \<open>(n + 6) div 7\<close>.\<close>

definition getWeeklyKey :: "string \<Rightarrow> string \<Rightarrow> ms \<Rightarrow> string" where
  "getWeeklyKey userId walletId date =
     (let d0 = date_UTC (getUTCFullYear date) (getUTCMonth date) (getUTCDate date);
          dayNum = (if getUTCDay d0 = 0 then 7 else getUTCDay d0);
          d = d0 + (4 - dayNum) * day_ms;
          yearStart = date_UTC (getUTCFullYear d) 0 1;
          weekNo = ((d - yearStart) div day_ms + 1 + 6) div 7;
          ww = pad 2 weekNo in
      ''spend:weekly:'' @ userId @ '':'' @ walletId @ '':'' @ show_int (getUTCFullYear d) @ ''-W'' @ ww)"

definition getLifetimeKey :: "string \<Rightarrow> string \<Rightarrow> string" where
  "getLifetimeKey userId walletId = ''spend:lifetime:'' @ userId @ '':'' @ walletId"

section \<open>Counters\<close>

type_synonym counter = "int \<times> ms option"

type_synonym counters = "(string \<times> counter) list"

text \<open>A key whose time is over is gone.\<close>

definition live_counter :: "ms \<Rightarrow> counter option \<Rightarrow> counter option" where
  "live_counter now c = (case c of
     None \<Rightarrow> None | Some (v, e) \<Rightarrow> (case e of None \<Rightarrow> c | Some x \<Rightarrow> if now < x then c else None))"

definition redis_get :: "ms \<Rightarrow> counters \<Rightarrow> string \<Rightarrow> int option" where
  "redis_get now cs k = map_option fst (live_counter now (jm_get cs k))"

record SpendLimit =
  sl_userId :: string
  sl_walletId :: "string option"
  sl_delegationId :: "string option"
  sl_limitPerTransaction :: "int option"
  sl_limitDaily :: "int option"
  sl_limitWeekly :: "int option"
  sl_limitLifetime :: "int option"

record spend_db =
  sb_limits :: "SpendLimit list"
  sb_counters :: counters

datatype spend_error = RedisError string | SpendDown string

record 'w spend_env =
  sv_fails :: "('w, spend_error) outages"
  sv_now :: "'w \<Rightarrow> ms \<times> 'w"
  sv_redis_now :: "'w \<Rightarrow> ms \<times> 'w"
  sv_lua :: "int \<Rightarrow> int"

type_synonym 'w spend_world = "(spend_db, 'w) tx_world"

type_synonym ('w, 'a) spend_prog = "('w spend_world, spend_error, 'a) prog"

text \<open>\<^verbatim>\<open>INCRBY\<close>, which refuses to leave the range of 64 bits, followed by the conditional \<^verbatim>\<open>EXPIRE\<close> of the script.\<close>

definition incr_expire :: "(int \<Rightarrow> int) \<Rightarrow> ms \<Rightarrow> string \<Rightarrow> int \<Rightarrow> int option \<Rightarrow> (counters, spend_error, int) prog" where
  "incr_expire lua now k amount ttl cs =
     (let old = (case live_counter now (jm_get cs k) of None \<Rightarrow> (0, None) | Some c \<Rightarrow> c); v = fst old + amount in
      if v < - (2 ^ 63) \<or> v > 2 ^ 63 - 1 then (Inl (RedisError ''increment or decrement would overflow''), cs)
      else (Inr v, jm_set k (v, case ttl of None \<Rightarrow> snd old
                                | Some t \<Rightarrow> if lua v = lua amount then Some (now + t * 1000) else snd old) cs))"

definition dailyTtl :: int where "dailyTtl = 172800"

definition weeklyTtl :: int where "weeklyTtl = 691200"

text \<open>The Lua script: what it has written when a command fails stays.\<close>

definition record_script :: "(int \<Rightarrow> int) \<Rightarrow> ms \<Rightarrow> string \<Rightarrow> string \<Rightarrow> string \<Rightarrow> int \<Rightarrow> (counters, spend_error, unit) prog" where
  "record_script lua now dailyKey weeklyKey lifetimeKey amount =
     pbind (incr_expire lua now dailyKey amount (Some dailyTtl)) (\<lambda>_.
     pbind (incr_expire lua now weeklyKey amount (Some weeklyTtl)) (\<lambda>_.
     pbind (incr_expire lua now lifetimeKey amount None) (\<lambda>_. pret ())))"

definition redis_eval :: "('w, spend_error) outages \<Rightarrow> (counters, spend_error, 'a) prog \<Rightarrow> ('w, 'a) spend_prog" where
  "redis_eval fails script w = (case fails (iw_ext w) of
       (Some e, x) \<Rightarrow> (Inl e, w\<lparr>iw_ext := x\<rparr>)
     | (None, x) \<Rightarrow> (case script (sb_counters (iw_db w)) of
           (r, cs) \<Rightarrow> (r, w\<lparr>iw_db := (iw_db w)\<lparr>sb_counters := cs\<rparr>, iw_ext := x\<rparr>)))"

definition recordSpend :: "'w spend_env \<Rightarrow> string \<Rightarrow> string \<Rightarrow> int \<Rightarrow> ('w, unit) spend_prog" where
  "recordSpend env userId walletId amountStroops =
     pbind (outside (sv_now env)) (\<lambda>t1.
     pbind (outside (sv_now env)) (\<lambda>t2.
     pbind (outside (sv_redis_now env)) (\<lambda>now.
     redis_eval (sv_fails env) (record_script (sv_lua env) now (getDailyKey userId walletId t1) (getWeeklyKey userId walletId t2)
       (getLifetimeKey userId walletId) amountStroops))))"

text \<open>\<^verbatim>\<open>redis.mget\<close> of the three keys, with \<^verbatim>\<open>"0"\<close> for the missing ones.\<close>

definition read_spend :: "'w spend_env \<Rightarrow> string \<Rightarrow> string \<Rightarrow> ('w, int \<times> int \<times> int) spend_prog" where
  "read_spend env userId walletId =
     pbind (outside (sv_now env)) (\<lambda>t1.
     pbind (outside (sv_now env)) (\<lambda>t2.
     pbind (outside (sv_redis_now env)) (\<lambda>now.
     db_select (sv_fails env) (\<lambda>db.
       let get = (\<lambda>k. case redis_get now (sb_counters db) k of None \<Rightarrow> 0 | Some v \<Rightarrow> v) in
       (get (getDailyKey userId walletId t1), get (getWeeklyKey userId walletId t2), get (getLifetimeKey userId walletId))))))"

section \<open>Checks\<close>

record SpendCheckResult =
  sc_allowed :: bool
  sc_reason :: "string option"
  sc_limit :: "string option"
  sc_currentSpend :: "string option"
  sc_requestedAmount :: "string option"

definition check_ok :: SpendCheckResult where
  "check_ok = \<lparr>sc_allowed = True, sc_reason = None, sc_limit = None, sc_currentSpend = None, sc_requestedAmount = None\<rparr>"

definition find_limit :: "'w spend_env \<Rightarrow> (SpendLimit \<Rightarrow> bool) \<Rightarrow> ('w, SpendLimit option) spend_prog" where
  "find_limit env p = db_select (sv_fails env) (\<lambda>db. find p (sb_limits db))"

text \<open>\<^verbatim>\<open>if (!config && cond) config = ...\<close>\<close>

definition or_find :: "'w spend_env \<Rightarrow> bool \<Rightarrow> (SpendLimit \<Rightarrow> bool) \<Rightarrow> SpendLimit option \<Rightarrow> ('w, SpendLimit option) spend_prog" where
  "or_find env cond p config = (if config = None \<and> cond then find_limit env p else pret config)"

definition spend_config :: "'w spend_env \<Rightarrow> string \<Rightarrow> string \<Rightarrow> string option \<Rightarrow> ('w, SpendLimit option) spend_prog" where
  "spend_config env userId walletId delegationId =
     (let falsy_none = (\<lambda>x. if truthy x then x else None) in
      pbind (find_limit env (\<lambda>l. sl_userId l = userId \<and> sl_delegationId l = falsy_none delegationId \<and>
               sl_walletId l = falsy_none (Some walletId))) (\<lambda>c1.
      pbind (or_find env (truthy delegationId) (\<lambda>l. sl_delegationId l = delegationId) c1) (\<lambda>c2.
      pbind (or_find env (walletId \<noteq> []) (\<lambda>l. sl_walletId l = Some walletId \<and> sl_delegationId l = None) c2) (\<lambda>c3.
      or_find env True (\<lambda>l. sl_userId l = userId \<and> sl_delegationId l = None \<and> sl_walletId l = None) c3))))"

definition exceeded :: "string \<Rightarrow> int \<Rightarrow> int option \<Rightarrow> int \<Rightarrow> SpendCheckResult" where
  "exceeded reason limit current requested =
     \<lparr>sc_allowed = False, sc_reason = Some reason, sc_limit = Some (show_int limit), sc_currentSpend = map_option show_int current,
      sc_requestedAmount = Some (show_int requested)\<rparr>"

definition over :: "int option \<Rightarrow> int \<Rightarrow> bool" where
  "over limit x = (case limit of None \<Rightarrow> False | Some l \<Rightarrow> x > l)"

definition checkSpendLimit :: "'w spend_env \<Rightarrow> string \<Rightarrow> string \<Rightarrow> string option \<Rightarrow> int \<Rightarrow> ('w, SpendCheckResult) spend_prog" where
  "checkSpendLimit env userId walletId delegationId amountStroops =
     pbind (spend_config env userId walletId delegationId) (\<lambda>found.
     case found of
       None \<Rightarrow> pret check_ok
     | Some config \<Rightarrow>
         if over (sl_limitPerTransaction config) amountStroops
         then pret (exceeded ''Per-transaction limit exceeded'' (the (sl_limitPerTransaction config)) None amountStroops)
         else
           pbind (read_spend env userId walletId) (\<lambda>(dailySpend, weeklySpend, lifetimeSpend).
           pret (if over (sl_limitDaily config) (dailySpend + amountStroops)
                 then exceeded ''Daily limit exceeded'' (the (sl_limitDaily config)) (Some dailySpend) amountStroops
                 else if over (sl_limitWeekly config) (weeklySpend + amountStroops)
                 then exceeded ''Weekly limit exceeded'' (the (sl_limitWeekly config)) (Some weeklySpend) amountStroops
                 else if over (sl_limitLifetime config) (lifetimeSpend + amountStroops)
                 then exceeded ''Lifetime limit exceeded'' (the (sl_limitLifetime config)) (Some lifetimeSpend) amountStroops
                 else check_ok)))"

record SpendSummary =
  su_daily :: string
  su_weekly :: string
  su_lifetime :: string

definition getSpendSummary :: "'w spend_env \<Rightarrow> string \<Rightarrow> string \<Rightarrow> ('w, SpendSummary) spend_prog" where
  "getSpendSummary env userId walletId =
     pbind (read_spend env userId walletId) (\<lambda>(d, w, l).
     pret \<lparr>su_daily = show_int d, su_weekly = show_int w, su_lifetime = show_int l\<rparr>)"

section \<open>Which instants share a key\<close>

definition utc_day :: "ms \<Rightarrow> int" where
  "utc_day t = t div day_ms"

text \<open>Weeks start on Monday; 1970-01-05 was the first Monday.\<close>

definition iso_week :: "ms \<Rightarrow> int" where
  "iso_week t = (utc_day t + 3) div 7"

lemma append_split_char:
  assumes "xs @ c # ys = xs' @ c # ys'" and "c \<notin> set xs" and "c \<notin> set xs'"
  shows "xs = xs' \<and> ys = ys'"
  using assms
proof (induction xs arbitrary: xs')
  case Nil
  then show ?case by (cases xs') auto
next
  case (Cons x xs)
  then show ?case by (cases xs') auto
qed

lemma date_UTC_fields: "date_UTC (getUTCFullYear t) (getUTCMonth t) (getUTCDate t) = utc_day t * day_ms"
proof -
  obtain y m d where c: "civil_from_days (t div day_ms) = (y, m, d)" using prod_cases3 by blast
  show ?thesis using civil_from_days(5) [OF c]
    by (simp add: date_UTC_def getUTCFullYear_def getUTCMonth_def getUTCDate_def c utc_day_def)
qed

lemma daily_key_iff:
  "getDailyKey u w t = getDailyKey u w t' \<longleftrightarrow> utc_day t = utc_day t'"
proof
  assume eq: "getDailyKey u w t = getDailyKey u w t'"
  obtain y m d where c: "civil_from_days (t div day_ms) = (y, m, d)" using prod_cases3 by blast
  obtain y' m' d' where c': "civil_from_days (t' div day_ms) = (y', m', d')" using prod_cases3 by blast
  note r = civil_from_days(1-4) [OF c] civil_from_days(1-4) [OF c']
  have len: "length (pad 2 m) = 2" "length (pad 2 d) = 2" "length (pad 2 m') = 2" "length (pad 2 d') = 2"
    using r by (simp_all add: length_pad_2)
  have "show_int y @ ''-'' @ pad 2 m @ ''-'' @ pad 2 d = show_int y' @ ''-'' @ pad 2 m' @ ''-'' @ pad 2 d'"
    using eq by (simp add: getDailyKey_def Let_def getUTCFullYear_def getUTCMonth_def getUTCDate_def c c')
  then have "show_int y = show_int y'" "pad 2 m = pad 2 m'" "pad 2 d = pad 2 d'" using len by auto
  then have "y = y'" "m = m'" "d = d'" using r show_int_inj pad_inj [of 2 m m'] pad_inj [of 2 d d'] by simp_all
  with c c' show "utc_day t = utc_day t'" unfolding utc_day_def by (intro civil_from_days_inj) simp
next
  assume "utc_day t = utc_day t'"
  then show "getDailyKey u w t = getDailyKey u w t'"
    by (simp add: utc_day_def getDailyKey_def getUTCFullYear_def getUTCMonth_def getUTCDate_def)
qed

text \<open>The weekly key is computed from the Thursday of the week.\<close>

definition week_year :: "int \<Rightarrow> int" where
  "week_year k = fst (civil_from_days (7 * k))"

definition week_number :: "int \<Rightarrow> int" where
  "week_number k = (7 * k - days_from_civil (week_year k) 1 1 + 7) div 7"

lemma getWeeklyKey_week:
  "getWeeklyKey u w t = ''spend:weekly:'' @ u @ '':'' @ w @ '':'' @ show_int (week_year (iso_week t)) @ ''-W'' @ pad 2 (week_number (iso_week t))"
proof -
  have day: "getUTCDay (utc_day t * day_ms) = (utc_day t + 4) mod 7" by (simp add: getUTCDay_def day_ms_def)
  have "utc_day t + (4 - (if (utc_day t + 4) mod 7 = 0 then 7 else (utc_day t + 4) mod 7)) = 7 * iso_week t"
    unfolding iso_week_def by presburger
  then have "utc_day t * day_ms + (4 - (if (utc_day t + 4) mod 7 = 0 then 7 else (utc_day t + 4) mod 7)) * day_ms = 7 * iso_week t * day_ms"
    by (metis distrib_right)
  moreover have "getUTCFullYear (7 * iso_week t * day_ms) = week_year (iso_week t)"
    by (simp add: getUTCFullYear_def week_year_def day_ms_def)
  moreover have "(7 * iso_week t * day_ms - date_UTC (week_year (iso_week t)) 0 1) div day_ms + 1 + 6 =
      7 * iso_week t - days_from_civil (week_year (iso_week t)) 1 1 + 7"
    unfolding date_UTC_def left_diff_distrib [symmetric] by (simp add: day_ms_def)
  ultimately show ?thesis unfolding getWeeklyKey_def Let_def date_UTC_fields day week_number_def by simp
qed

lemma week_number_pos: "0 \<le> week_number k"
proof -
  obtain y m d where c: "civil_from_days (7 * k) = (y, m, d)" using prod_cases3 by blast
  have "days_from_civil (week_year k) 1 1 \<le> 7 * k" using civil_from_days(6) [OF c] by (simp add: week_year_def c)
  then show ?thesis by (simp add: week_number_def)
qed

lemma weekly_key_iff: "getWeeklyKey u w t = getWeeklyKey u w t' \<longleftrightarrow> iso_week t = iso_week t'"
proof
  assume eq: "getWeeklyKey u w t = getWeeklyKey u w t'"
  let ?k = "iso_week t" and ?k' = "iso_week t'"
  have no: "CHR ''W'' \<notin> set (show_int y @ ''-'')" for y using show_int_no_char [of "CHR ''W''" y] by simp
  have "(show_int (week_year ?k) @ ''-'') @ CHR ''W'' # pad 2 (week_number ?k) = (show_int (week_year ?k') @ ''-'') @ CHR ''W'' # pad 2 (week_number ?k')"
    using eq unfolding getWeeklyKey_week by simp
  from append_split_char [OF this no no] have y: "week_year ?k = week_year ?k'" and n: "pad 2 (week_number ?k) = pad 2 (week_number ?k')"
    by (auto dest: show_int_inj)
  define c where "c = days_from_civil (week_year ?k') 1 1"
  have "(7 * ?k - c + 7) div 7 = (7 * ?k' - c + 7) div 7"
    using pad_inj [OF n week_number_pos week_number_pos] unfolding week_number_def y c_def .
  then show "?k = ?k'" by linarith
qed (simp add: getWeeklyKey_week)

text \<open>C37: The keys of the spend counters are the calendar's: two instants have the same daily key exactly if they are in the
  same UTC day, and the same weekly key exactly if they are in the same week from Monday to Sunday, also across the turn of
  the year. So a counter never mixes two periods and a period is never split over two counters.\<close>

theorem spend_keys_exact:
  "(getDailyKey u w t = getDailyKey u w t' \<longleftrightarrow> utc_day t = utc_day t') \<and>
   (getWeeklyKey u w t = getWeeklyKey u w t' \<longleftrightarrow> iso_week t = iso_week t')"
  by (simp add: daily_key_iff weekly_key_iff)

section \<open>What the counters count\<close>

text \<open>A recorded spend: by whom, the instants from which its keys were computed, the time of Redis, and the amount.\<close>

record spend_event =
  ev_user :: string
  ev_wallet :: string
  ev_daily :: ms
  ev_weekly :: ms
  ev_redis :: ms
  ev_amount :: int

definition record_event :: "(int \<Rightarrow> int) \<Rightarrow> spend_event \<Rightarrow> (counters, spend_error, unit) prog" where
  "record_event lua e = record_script lua (ev_redis e) (getDailyKey (ev_user e) (ev_wallet e) (ev_daily e))
     (getWeeklyKey (ev_user e) (ev_wallet e) (ev_weekly e)) (getLifetimeKey (ev_user e) (ev_wallet e)) (ev_amount e)"

definition record_events :: "(int \<Rightarrow> int) \<Rightarrow> spend_event list \<Rightarrow> (counters, spend_error, unit) prog" where
  "record_events lua es = pfor es () (\<lambda>e _. record_event lua e)"

text \<open>The keys of the three counters are different, and the keys of different wallets are.\<close>

lemma key_prefixes:
  "getDailyKey u w t \<noteq> getWeeklyKey u' w' t'" "getDailyKey u w t \<noteq> getLifetimeKey u' w'" "getWeeklyKey u w t \<noteq> getLifetimeKey u' w'"
  by (simp_all add: getDailyKey_def getWeeklyKey_def getLifetimeKey_def Let_def)

definition plain_id :: "string \<Rightarrow> bool" where
  "plain_id s \<longleftrightarrow> CHR '':'' \<notin> set s"

lemma wallet_keys:
  assumes "plain_id u" "plain_id w" "plain_id u'" "plain_id w'"
  shows "u @ CHR '':'' # w @ CHR '':'' # s = u' @ CHR '':'' # w' @ CHR '':'' # s' \<longleftrightarrow> u = u' \<and> w = w' \<and> s = s'"
    and "u @ CHR '':'' # w = u' @ CHR '':'' # w' \<longleftrightarrow> u = u' \<and> w = w'"
  using assms append_split_char unfolding plain_id_def by metis+

lemma daily_key_eq:
  assumes "plain_id u" "plain_id w" "plain_id u'" "plain_id w'"
  shows "getDailyKey u w t = getDailyKey u' w' t' \<longleftrightarrow> u = u' \<and> w = w' \<and> utc_day t = utc_day t'"
proof (cases "u = u' \<and> w = w'")
  case True
  then show ?thesis using daily_key_iff by simp
next
  case False
  then show ?thesis using wallet_keys(1) [OF assms] by (auto simp: getDailyKey_def Let_def)
qed

lemma weekly_key_eq:
  assumes "plain_id u" "plain_id w" "plain_id u'" "plain_id w'"
  shows "getWeeklyKey u w t = getWeeklyKey u' w' t' \<longleftrightarrow> u = u' \<and> w = w' \<and> iso_week t = iso_week t'"
proof (cases "u = u' \<and> w = w'")
  case True
  then show ?thesis using weekly_key_iff by simp
next
  case False
  then show ?thesis using wallet_keys(1) [OF assms] by (auto simp: getWeeklyKey_week)
qed

lemma lifetime_key_eq:
  assumes "plain_id u" "plain_id w" "plain_id u'" "plain_id w'"
  shows "getLifetimeKey u w = getLifetimeKey u' w' \<longleftrightarrow> u = u' \<and> w = w'"
  using wallet_keys(2) [OF assms] by (simp add: getLifetimeKey_def)

subsection \<open>One counter\<close>

text \<open>
  A kind of counter is given by the key of an event and its time to live. A counter holds the sum of the amounts recorded
  under its key, and lives at least its time to live after one of them; events with the same key are closer together.
\<close>

definition total :: "spend_event list \<Rightarrow> int" where
  "total es = sum_list (map ev_amount es)"

lemma total_simps [simp]: "total (es @ [e]) = total es + ev_amount e" "total [] = 0" "total [e] = ev_amount e"
  by (simp_all add: total_def)

definition counts :: "(spend_event \<Rightarrow> string) \<Rightarrow> int option \<Rightarrow> spend_event list \<Rightarrow> string \<Rightarrow> counter option \<Rightarrow> bool" where
  "counts key ttl es k c \<longleftrightarrow>
     (let mine = filter (\<lambda>e. key e = k) es in
      case c of None \<Rightarrow> mine = []
      | Some (v, x) \<Rightarrow> mine \<noteq> [] \<and> v = total mine \<and>
          (case ttl of None \<Rightarrow> x = None | Some s \<Rightarrow> (\<exists>d. x = Some d \<and> (\<exists>e \<in> set mine. ev_redis e + s * 1000 \<le> d))))"

definition together :: "(spend_event \<Rightarrow> string) \<Rightarrow> int option \<Rightarrow> spend_event list \<Rightarrow> bool" where
  "together key ttl es \<longleftrightarrow> (\<forall>s. ttl = Some s \<longrightarrow> (\<forall>e \<in> set es. \<forall>e' \<in> set es. key e = key e' \<longrightarrow> ev_redis e' < ev_redis e + s * 1000))"

lemma counts_live:
  assumes "counts key ttl es k c" and "\<And>s e. ttl = Some s \<Longrightarrow> e \<in> set es \<Longrightarrow> key e = k \<Longrightarrow> now < ev_redis e + s * 1000"
  shows "live_counter now c = c"
  using assms by (cases c; cases ttl) (force simp: counts_def live_counter_def Let_def split: prod.splits)+

lemma counts_value:
  assumes "counts key ttl es k c" and "\<And>s e. ttl = Some s \<Longrightarrow> e \<in> set es \<Longrightarrow> key e = k \<Longrightarrow> now < ev_redis e + s * 1000"
  shows "(case map_option fst (live_counter now c) of None \<Rightarrow> 0 | Some v \<Rightarrow> v) = total (filter (\<lambda>e. key e = k) es)"
proof -
  have l: "live_counter now c = c" by (rule counts_live [OF assms])
  show ?thesis using assms(1) unfolding l by (cases c) (auto simp: counts_def Let_def split: prod.splits)
qed

lemma counts_other: "key e \<noteq> k \<Longrightarrow> counts key ttl (es @ [e]) k c \<longleftrightarrow> counts key ttl es k c"
  by (simp add: counts_def)

lemma total_filter_le: "\<forall>e \<in> set es. 0 \<le> ev_amount e \<Longrightarrow> 0 \<le> total (filter P es) \<and> total (filter P es) \<le> total es"
  by (induction es) (auto simp: total_def)

lemma incr_expire_counts:
  assumes c: "counts key ttl es (key e) (jm_get cs (key e))" and near: "together key ttl (es @ [e])"
    and amounts: "\<forall>x \<in> set (es @ [e]). 0 \<le> ev_amount x" "total (es @ [e]) < 2 ^ 63"
  shows "\<exists>v c'. incr_expire lua (ev_redis e) (key e) (ev_amount e) ttl cs = (Inr v, jm_set (key e) c' cs) \<and>
    counts key ttl (es @ [e]) (key e) (Some c')"
proof -
  let ?mine = "filter (\<lambda>x. key x = key e) es"
  define old where "old = (case live_counter (ev_redis e) (jm_get cs (key e)) of None \<Rightarrow> (0, None) | Some c \<Rightarrow> c)"
  define v where "v = total ?mine + ev_amount e"
  define c' where "c' = (v, case ttl of None \<Rightarrow> snd old | Some t \<Rightarrow> if lua v = lua (ev_amount e) then Some (ev_redis e + t * 1000) else snd old)"
  have "live_counter (ev_redis e) (jm_get cs (key e)) = jm_get cs (key e)"
    by (rule counts_live [OF c]) (use near in \<open>simp add: together_def\<close>)
  then have old: "old = (case jm_get cs (key e) of None \<Rightarrow> (0, None) | Some c \<Rightarrow> c)" by (simp add: old_def)
  have "fst old + ev_amount e = v" using c by (auto simp: old counts_def Let_def v_def split: option.splits)
  moreover have "0 \<le> v" "v < 2 ^ 63" using total_filter_le [of es "\<lambda>x. key x = key e"] amounts by (auto simp: v_def)
  ultimately have run: "incr_expire lua (ev_redis e) (key e) (ev_amount e) ttl cs = (Inr v, jm_set (key e) c' cs)"
    by (simp add: incr_expire_def Let_def old_def [symmetric] c'_def cong: option.case_cong)
  have first: "lua v = lua (ev_amount e)" if "jm_get cs (key e) = None" using c that by (simp add: counts_def v_def)
  have "counts key ttl (es @ [e]) (key e) (Some c')"
    using c first by (cases ttl; cases "jm_get cs (key e)") (auto simp: counts_def Let_def c'_def v_def old split: prod.splits)
  with run show ?thesis by blast
qed


subsection \<open>All counters\<close>

abbreviation daily_key :: "spend_event \<Rightarrow> string" where
  "daily_key e \<equiv> getDailyKey (ev_user e) (ev_wallet e) (ev_daily e)"

abbreviation weekly_key :: "spend_event \<Rightarrow> string" where
  "weekly_key e \<equiv> getWeeklyKey (ev_user e) (ev_wallet e) (ev_weekly e)"

abbreviation lifetime_key :: "spend_event \<Rightarrow> string" where
  "lifetime_key e \<equiv> getLifetimeKey (ev_user e) (ev_wallet e)"

definition counters_ok :: "spend_event list \<Rightarrow> counters \<Rightarrow> bool" where
  "counters_ok es cs \<longleftrightarrow> (\<forall>u w t.
     counts daily_key (Some dailyTtl) es (getDailyKey u w t) (jm_get cs (getDailyKey u w t)) \<and>
     counts weekly_key (Some weeklyTtl) es (getWeeklyKey u w t) (jm_get cs (getWeeklyKey u w t)) \<and>
     counts lifetime_key None es (getLifetimeKey u w) (jm_get cs (getLifetimeKey u w)))"

definition events_fit :: "spend_event list \<Rightarrow> bool" where
  "events_fit es \<longleftrightarrow> (\<forall>e \<in> set es. 0 \<le> ev_amount e) \<and> total es < 2 ^ 63 \<and>
     together daily_key (Some dailyTtl) es \<and> together weekly_key (Some weeklyTtl) es"

lemma together_None [simp]: "together key None es"
  by (simp add: together_def)

lemma together_append: "together key ttl (xs @ ys) \<Longrightarrow> together key ttl xs"
  by (auto simp: together_def)

lemma events_fit_snoc: "events_fit (es @ [e]) \<Longrightarrow> events_fit es"
  unfolding events_fit_def by (auto dest: together_append)

lemma record_event_ok:
  assumes ok: "counters_ok es cs" and fit: "events_fit (es @ [e])"
  shows "\<exists>cs'. record_event lua e cs = (Inr (), cs') \<and> counters_ok (es @ [e]) cs'"
proof -
  note amounts = fit [unfolded events_fit_def, THEN conjunct1] fit [unfolded events_fit_def, THEN conjunct2, THEN conjunct1]
  note near = fit [unfolded events_fit_def, THEN conjunct2, THEN conjunct2]
  have d: "counts daily_key (Some dailyTtl) es (daily_key e) (jm_get cs (daily_key e))" using ok by (simp add: counters_ok_def)
  obtain v1 c1 where 1: "incr_expire lua (ev_redis e) (daily_key e) (ev_amount e) (Some dailyTtl) cs = (Inr v1, jm_set (daily_key e) c1 cs)"
      "counts daily_key (Some dailyTtl) (es @ [e]) (daily_key e) (Some c1)"
    using incr_expire_counts [OF d conjunct1 [OF near] amounts, of lua] by blast
  define cs1 where "cs1 = jm_set (daily_key e) c1 cs"
  have g1: "jm_get cs1 k = (if k = daily_key e then Some c1 else jm_get cs k)" for k by (simp add: cs1_def jm_get_set)
  have w: "counts weekly_key (Some weeklyTtl) es (weekly_key e) (jm_get cs1 (weekly_key e))"
    using ok by (simp add: counters_ok_def g1 key_prefixes key_prefixes [symmetric])
  obtain v2 c2 where 2: "incr_expire lua (ev_redis e) (weekly_key e) (ev_amount e) (Some weeklyTtl) cs1 = (Inr v2, jm_set (weekly_key e) c2 cs1)"
      "counts weekly_key (Some weeklyTtl) (es @ [e]) (weekly_key e) (Some c2)"
    using incr_expire_counts [OF w conjunct2 [OF near] amounts, of lua] by blast
  define cs2 where "cs2 = jm_set (weekly_key e) c2 cs1"
  have g2: "jm_get cs2 k = (if k = weekly_key e then Some c2 else jm_get cs1 k)" for k by (simp add: cs2_def jm_get_set)
  have l: "counts lifetime_key None es (lifetime_key e) (jm_get cs2 (lifetime_key e))"
    using ok by (simp add: counters_ok_def g1 g2 key_prefixes key_prefixes [symmetric])
  obtain v3 c3 where 3: "incr_expire lua (ev_redis e) (lifetime_key e) (ev_amount e) None cs2 = (Inr v3, jm_set (lifetime_key e) c3 cs2)"
      "counts lifetime_key None (es @ [e]) (lifetime_key e) (Some c3)"
    using incr_expire_counts [OF l together_None amounts, of lua] by blast
  define cs3 where "cs3 = jm_set (lifetime_key e) c3 cs2"
  have g3: "jm_get cs3 k = (if k = lifetime_key e then Some c3 else jm_get cs2 k)" for k by (simp add: cs3_def jm_get_set)
  have "record_event lua e cs = (Inr (), cs3)"
    using 1(1) 2(1) 3(1) by (simp add: record_event_def record_script_def pbind_apply pret_apply cs1_def cs2_def cs3_def)
  moreover have "counters_ok (es @ [e]) cs3" unfolding counters_ok_def
  proof (intro allI conjI)
    fix u w t
    show "counts daily_key (Some dailyTtl) (es @ [e]) (getDailyKey u w t) (jm_get cs3 (getDailyKey u w t))"
      using ok 1(2) by (cases "daily_key e = getDailyKey u w t") (auto simp: counters_ok_def g1 g2 g3 key_prefixes key_prefixes [symmetric] counts_other)
    show "counts weekly_key (Some weeklyTtl) (es @ [e]) (getWeeklyKey u w t) (jm_get cs3 (getWeeklyKey u w t))"
      using ok 2(2) by (cases "weekly_key e = getWeeklyKey u w t") (auto simp: counters_ok_def g1 g2 g3 key_prefixes key_prefixes [symmetric] counts_other)
    show "counts lifetime_key None (es @ [e]) (getLifetimeKey u w) (jm_get cs3 (getLifetimeKey u w))"
      using ok 3(2) by (cases "lifetime_key e = getLifetimeKey u w") (auto simp: counters_ok_def g1 g2 g3 key_prefixes key_prefixes [symmetric] counts_other)
  qed
  ultimately show ?thesis by blast
qed

lemma record_events_ok: "events_fit es \<Longrightarrow> \<exists>cs. record_events lua es [] = (Inr (), cs) \<and> counters_ok es cs"
proof (induction es rule: rev_induct)
  case Nil
  show ?case by (simp add: record_events_def pret_apply counters_ok_def counts_def)
next
  case (snoc e es)
  then obtain cs where 1: "record_events lua es [] = (Inr (), cs)" "counters_ok es cs" using events_fit_snoc by blast
  obtain cs' where 2: "record_event lua e cs = (Inr (), cs')" "counters_ok (es @ [e]) cs'"
    using record_event_ok [OF 1(2) snoc.prems] by blast
  show ?case using 1 2 by (simp add: record_events_def pfor_snoc pbind_apply)
qed


text \<open>Requests that take less than a day: the keys are computed before Redis runs the script, and at most a day before.\<close>

definition prompt :: "ms \<Rightarrow> ms \<Rightarrow> bool" where
  "prompt t now \<longleftrightarrow> t \<le> now \<and> now < t + day_ms"

definition prompt_event :: "spend_event \<Rightarrow> bool" where
  "prompt_event e \<longleftrightarrow> plain_id (ev_user e) \<and> plain_id (ev_wallet e) \<and> 0 \<le> ev_amount e \<and>
     prompt (ev_daily e) (ev_redis e) \<and> prompt (ev_weekly e) (ev_redis e)"

lemma same_day_near:
  assumes "utc_day t = utc_day t'" and "t \<le> now" and "now' < t' + day_ms"
  shows "now' < now + dailyTtl * 1000"
proof -
  have "t' < t + day_ms" using assms(1) by (simp add: utc_day_def day_ms_def)
  with assms(2,3) show ?thesis by (simp add: dailyTtl_def day_ms_def)
qed

lemma same_week_near:
  assumes "iso_week t = iso_week t'" and "t \<le> now" and "now' < t' + day_ms"
  shows "now' < now + weeklyTtl * 1000"
proof -
  have "utc_day t' \<le> utc_day t + 6" using assms(1) unfolding iso_week_def by linarith
  then have "t' < t + 7 * day_ms" by (simp add: utc_day_def day_ms_def)
  with assms(2,3) show ?thesis by (simp add: weeklyTtl_def day_ms_def)
qed

lemma prompt_events_fit:
  assumes "\<forall>e \<in> set es. prompt_event e" and "total es < 2 ^ 63"
  shows "events_fit es"
proof -
  have "ev_redis e' < ev_redis e + dailyTtl * 1000" if "e \<in> set es" "e' \<in> set es" "daily_key e = daily_key e'" for e e'
    using that assms(1) daily_key_eq by (intro same_day_near [of "ev_daily e" "ev_daily e'"]) (auto simp: prompt_event_def prompt_def)
  moreover have "ev_redis e' < ev_redis e + weeklyTtl * 1000" if "e \<in> set es" "e' \<in> set es" "weekly_key e = weekly_key e'" for e e'
    using that assms(1) weekly_key_eq by (intro same_week_near [of "ev_weekly e" "ev_weekly e'"]) (auto simp: prompt_event_def prompt_def)
  ultimately show ?thesis using assms by (simp add: events_fit_def together_def prompt_event_def)
qed

text \<open>C13: The spend counters are exact. Record any spends, of any users and wallets, in any order of time, as long as each request
  reaches Redis within a day and the total fits 64 bits: every increment succeeds, and whoever then reads the counters of
  a wallet within a day of computing the keys finds the sum of the amounts this wallet spent in the same UTC day, in the
  same ISO week and ever. So no counter expires too early, none counts a spend of another wallet or period, and none
  misses one; this does not depend on how the script's numbers are rounded.\<close>

theorem spend_counters_exact:
  assumes es: "\<forall>e \<in> set es. prompt_event e" and fit: "total es < 2 ^ 63" and ids: "plain_id u" "plain_id w"
    and now: "now < td + day_ms" "now < tw + day_ms"
  shows "\<exists>cs. record_events lua es [] = (Inr (), cs) \<and>
    (let reads = (\<lambda>k. case redis_get now cs k of None \<Rightarrow> 0 | Some v \<Rightarrow> v); own = filter (\<lambda>e. ev_user e = u \<and> ev_wallet e = w) es in
     reads (getDailyKey u w td) = total (filter (\<lambda>e. utc_day (ev_daily e) = utc_day td) own) \<and>
     reads (getWeeklyKey u w tw) = total (filter (\<lambda>e. iso_week (ev_weekly e) = iso_week tw) own) \<and>
     reads (getLifetimeKey u w) = total own)"
proof -
  obtain cs where run: "record_events lua es [] = (Inr (), cs)" and ok: "counters_ok es cs"
    using record_events_ok [OF prompt_events_fit [OF es fit]] by blast
  let ?reads = "\<lambda>k. case redis_get now cs k of None \<Rightarrow> 0 | Some v \<Rightarrow> v"
  have "?reads (getDailyKey u w td) = total (filter (\<lambda>e. daily_key e = getDailyKey u w td) es)"
    unfolding redis_get_def
  proof (rule counts_value)
    fix s e assume "Some dailyTtl = Some s" "e \<in> set es" "daily_key e = getDailyKey u w td"
    then show "now < ev_redis e + s * 1000" using es ids now daily_key_eq
      by (auto simp: prompt_event_def prompt_def intro!: same_day_near [of "ev_daily e" td])
  qed (use ok in \<open>simp add: counters_ok_def\<close>)
  moreover have "?reads (getWeeklyKey u w tw) = total (filter (\<lambda>e. weekly_key e = getWeeklyKey u w tw) es)"
    unfolding redis_get_def
  proof (rule counts_value)
    fix s e assume "Some weeklyTtl = Some s" "e \<in> set es" "weekly_key e = getWeeklyKey u w tw"
    then show "now < ev_redis e + s * 1000" using es ids now weekly_key_eq
      by (auto simp: prompt_event_def prompt_def intro!: same_week_near [of "ev_weekly e" tw])
  qed (use ok in \<open>simp add: counters_ok_def\<close>)
  moreover have "?reads (getLifetimeKey u w) = total (filter (\<lambda>e. lifetime_key e = getLifetimeKey u w) es)"
    unfolding redis_get_def by (rule counts_value [where ttl = None]) (use ok in \<open>simp_all add: counters_ok_def\<close>)
  moreover have "filter (\<lambda>e. daily_key e = getDailyKey u w td) es =
      filter (\<lambda>e. ev_user e = u \<and> ev_wallet e = w \<and> utc_day (ev_daily e) = utc_day td) es"
    "filter (\<lambda>e. weekly_key e = getWeeklyKey u w tw) es =
      filter (\<lambda>e. ev_user e = u \<and> ev_wallet e = w \<and> iso_week (ev_weekly e) = iso_week tw) es"
    "filter (\<lambda>e. lifetime_key e = getLifetimeKey u w) es = filter (\<lambda>e. ev_user e = u \<and> ev_wallet e = w) es"
    using es ids by (auto simp: prompt_event_def daily_key_eq weekly_key_eq lifetime_key_eq intro!: filter_cong)
  ultimately show ?thesis using run by (simp add: Let_def)
qed


subsection \<open>Runs\<close>

text \<open>A clock that is the state of the world, in seconds.\<close>

definition calm_spend :: "int spend_env" where
  "calm_spend = \<lparr>sv_fails = (\<lambda>n. (None, n)), sv_now = (\<lambda>n. (1000 * n, n + 1)), sv_redis_now = (\<lambda>n. (1000 * n, n + 1)), sv_lua = id\<rparr>"

definition spent_world :: "counters \<Rightarrow> int \<Rightarrow> int spend_world" where
  "spent_world cs n = \<lparr>iw_db = \<lparr>sb_limits = [\<lparr>sl_userId = ''u'', sl_walletId = None, sl_delegationId = None, sl_limitPerTransaction = None,
     sl_limitDaily = Some 100, sl_limitWeekly = None, sl_limitLifetime = None\<rparr>], sb_counters = cs\<rparr>, iw_ext = n\<rparr>"

definition demo_events :: "spend_event list" where
  "demo_events = [\<lparr>ev_user = ''u'', ev_wallet = ''w'', ev_daily = 1767225599999, ev_weekly = 1767225599999, ev_redis = 1767225600001, ev_amount = 7\<rparr>,
     \<lparr>ev_user = ''u'', ev_wallet = ''w'', ev_daily = 1767225600000, ev_weekly = 1767225600000, ev_redis = 1767225600002, ev_amount = 5\<rparr>]"

theorem spend_counters_exact_witness:
  "\<exists>cs. record_events id demo_events [] = (Inr (), cs) \<and>
    (case redis_get 1767225600003 cs (getDailyKey ''u'' ''w'' 1767225600000) of None \<Rightarrow> 0 | Some v \<Rightarrow> v) = 5 \<and>
    (case redis_get 1767225600003 cs (getWeeklyKey ''u'' ''w'' 1767225600000) of None \<Rightarrow> 0 | Some v \<Rightarrow> v) = 12"
proof -
  have "\<forall>e \<in> set demo_events. prompt_event e" "total demo_events < 2 ^ 63" "plain_id ''u''" "plain_id ''w''"
    "(1767225600003 :: int) < 1767225600000 + day_ms" by code_simp+
  note f = spend_counters_exact [OF this(1-4) this(5) this(5), of id]
  have "total (filter (\<lambda>e. utc_day (ev_daily e) = utc_day 1767225600000) (filter (\<lambda>e. ev_user e = ''u'' \<and> ev_wallet e = ''w'') demo_events)) = 5"
    "total (filter (\<lambda>e. iso_week (ev_weekly e) = iso_week 1767225600000) (filter (\<lambda>e. ev_user e = ''u'' \<and> ev_wallet e = ''w'') demo_events)) = 12"
    by code_simp+
  then show ?thesis using f unfolding Let_def by (elim exE conjE) (intro exI conjI, assumption, simp_all only:)
qed

lemma first_day_keys:
  assumes "0 < t" and "t < day_ms"
  shows "getDailyKey u w t = getDailyKey u w 0" and "getWeeklyKey u w t = getWeeklyKey u w 0"
proof -
  have "utc_day t = utc_day 0" using assms by (simp add: utc_day_def)
  then show "getDailyKey u w t = getDailyKey u w 0" "getWeeklyKey u w t = getWeeklyKey u w 0"
    by (simp_all add: daily_key_iff weekly_key_iff iso_week_def)
qed

definition value_at :: "int \<Rightarrow> counters \<Rightarrow> string \<Rightarrow> int" where
  "value_at n cs k = (case redis_get (1000 * n) cs k of None \<Rightarrow> 0 | Some v \<Rightarrow> v)"

lemma read_at:
  assumes "0 < n" "n < 80000"
  shows "read_spend calm_spend u w (spent_world cs n) =
    (Inr (value_at (n + 2) cs (getDailyKey u w 0), value_at (n + 2) cs (getWeeklyKey u w 0), value_at (n + 2) cs (getLifetimeKey u w)), spent_world cs (n + 3))"
proof -
  have keys: "getDailyKey u w (1000 * n) = getDailyKey u w 0" "getWeeklyKey u w (1000 * (n + 1)) = getWeeklyKey u w 0"
    using assms by (auto intro!: first_day_keys simp: day_ms_def)
  show ?thesis
    by (simp add: read_spend_def pbind_apply outside_def calm_spend_def spent_world_def db_select_def db_query_def value_at_def Let_def
        keys [simplified]) (simp add: add.commute)
qed

lemma record_at:
  assumes "0 < n" "n < 80000"
  shows "recordSpend calm_spend u w a (spent_world cs n) =
    (case record_script id (1000 * (n + 2)) (getDailyKey u w 0) (getWeeklyKey u w 0) (getLifetimeKey u w) a cs of
       (r, cs') \<Rightarrow> (r, spent_world cs' (n + 3)))"
proof -
  have keys: "getDailyKey u w (1000 * n) = getDailyKey u w 0" "getWeeklyKey u w (1000 * (n + 1)) = getWeeklyKey u w 0"
    using assms by (auto intro!: first_day_keys simp: day_ms_def)
  show ?thesis
    by (simp add: recordSpend_def pbind_apply outside_def calm_spend_def spent_world_def redis_eval_def keys [simplified])
      (simp add: add.commute)
qed

lemma script_run:
  "record_script id now (getDailyKey u w t) (getWeeklyKey u w t) (getLifetimeKey u w) 60 [] =
    (Inr (), [(getDailyKey u w t, 60, Some (now + 172800000)), (getWeeklyKey u w t, 60, Some (now + 691200000)), (getLifetimeKey u w, 60, None)])"
  by (simp add: record_script_def incr_expire_def live_counter_def prog_simps Let_def key_prefixes key_prefixes [symmetric] dailyTtl_def weeklyTtl_def)

lemma script_again:
  assumes "now < x" "now < y"
  shows "record_script id now (getDailyKey u w t) (getWeeklyKey u w t) (getLifetimeKey u w) 60
      [(getDailyKey u w t, 60, Some x), (getWeeklyKey u w t, 60, Some y), (getLifetimeKey u w, 60, None)] =
    (Inr (), [(getDailyKey u w t, 120, Some x), (getWeeklyKey u w t, 120, Some y), (getLifetimeKey u w, 120, None)])"
  using assms
  by (simp add: record_script_def incr_expire_def live_counter_def prog_simps Let_def key_prefixes key_prefixes [symmetric] dailyTtl_def weeklyTtl_def)

lemma check_at:
  assumes "0 < n" "n < 80000"
  shows "checkSpendLimit calm_spend ''u'' ''w'' None a (spent_world cs n) =
    (Inr (if value_at (n + 2) cs (getDailyKey ''u'' ''w'' 0) + a > 100
          then exceeded ''Daily limit exceeded'' 100 (Some (value_at (n + 2) cs (getDailyKey ''u'' ''w'' 0))) a else check_ok), spent_world cs (n + 3))"
proof -
  have "spend_config calm_spend ''u'' ''w'' None (spent_world cs n) = (Inr (Some (hd (sb_limits (iw_db (spent_world [] 0))))), spent_world cs n)"
    by (simp add: spend_config_def find_limit_def or_find_def pbind_apply pret_apply db_select_def db_query_def calm_spend_def spent_world_def
        truthy_def Let_def)
  then show ?thesis by (simp add: checkSpendLimit_def pbind_apply read_at [OF assms] pret_apply over_def) (simp add: spent_world_def over_def pret_apply pbind_apply)
qed


text \<open>The limit is checked when a transaction is queued and the spend recorded once it is confirmed, so a limit does not
  hold across transactions in flight: with a daily limit of 100, two transactions of 60 are both allowed before either is
  recorded, and the day ends at 120. Recorded in between, the second one is refused.\<close>

theorem limit_races:
  "fst (pbind (checkSpendLimit calm_spend ''u'' ''w'' None 60) (\<lambda>r1. pbind (checkSpendLimit calm_spend ''u'' ''w'' None 60) (\<lambda>r2.
      pbind (recordSpend calm_spend ''u'' ''w'' 60) (\<lambda>_. pbind (recordSpend calm_spend ''u'' ''w'' 60) (\<lambda>_.
      pbind (read_spend calm_spend ''u'' ''w'') (\<lambda>s. pret (sc_allowed r1, sc_allowed r2, fst s)))))) (spent_world [] 1)) = Inr (True, True, 120) \<and>
   fst (pbind (checkSpendLimit calm_spend ''u'' ''w'' None 60) (\<lambda>r1. pbind (recordSpend calm_spend ''u'' ''w'' 60) (\<lambda>_.
      pbind (checkSpendLimit calm_spend ''u'' ''w'' None 60) (\<lambda>r2. pret (sc_allowed r1, sc_allowed r2, sc_reason r2)))) (spent_world [] 1)) =
   Inr (True, False, Some ''Daily limit exceeded'')"
  by (simp add: pbind_apply pret_apply check_at record_at read_at script_run script_again value_at_def redis_get_def live_counter_def
      check_ok_def exceeded_def)

end
