(* ===== verification/Multisig.thy ===== *)
theory Multisig
  imports Escrow_Coordinator Transactions
begin

text \<open>
  Multi-signature wallets (wallet/src/multisig/service.ts): wallets with weighted signers, proposals that collect signatures
  until the threshold is met, execution, changes of the signers, pausing and the expiry sweep. The state is the three tables;
  each statement may throw and then has no effect, and what was written before stays, since the service uses no
  transactions. Operations follow one another. Weights are JavaScript numbers, kept as rational numbers; thresholds and
  nonces are INTEGER columns. The derived address, the execution hash, new ids and the clock are the environment; of the
  audit log's payload the proposal is kept. \<open>me_sees_in_place\<close> says whether the database library writes a JSON column whose
  objects were changed in place, as a new weight is; if not, the update leaves the stored signers. A date given as text is its instant, or \<open>None\<close> when it is not a date.
\<close>

section \<open>Tables\<close>

record MultiSigSigner =
  sn_address :: string
  sn_weight :: rat
  sn_addedAt :: ms

record MultiSigWallet =
  mw_id :: string
  mw_address :: string
  mw_signers :: "MultiSigSigner list"
  mw_threshold :: int
  mw_nonce :: int
  mw_createdAt :: ms
  mw_paused :: bool

record ProposalTransaction =
  tp_contractId :: string
  tp_method :: string
  tp_args :: "jsval list"
  tp_memo :: string

record ProposalSignature =
  pg_signer :: string
  pg_signature :: string
  pg_signedAt :: ms

datatype ProposalStatus = MpPending | MpSigned | MpExecuted | MpExpired | MpCancelled

record MultiSigProposal =
  mp_id :: string
  mp_walletId :: string
  mp_proposer :: string
  mp_transaction :: ProposalTransaction
  mp_signatures :: "ProposalSignature list"
  mp_status :: ProposalStatus
  mp_createdAt :: ms
  mp_expiresAt :: ms
  mp_executedAt :: "ms option"
  mp_executionHash :: "string option"

record ms_audit =
  ma_walletId :: string
  ma_eventType :: string
  ma_proposalId :: "string option"
  ma_performedBy :: string

record ms_db =
  mb_wallets :: "MultiSigWallet list"
  mb_proposals :: "MultiSigProposal list"
  mb_audit :: "ms_audit list"

datatype ms_error =
    BadSigners string
  | BadThreshold
  | MsWalletNotFound string
  | MsProposalNotFound string
  | WalletPaused
  | WalletNotPaused
  | NotASigner string
  | BadExpiry
  | ProposalExpired
  | BadProposalStatus ProposalStatus
  | AlreadySigned string
  | InsufficientWeight
  | MsConstraint string
  | MsDown string

record 'w ms_env =
  me_fails :: "('w, ms_error) outages"
  me_uuid :: "'w \<Rightarrow> string \<times> 'w"
  me_now :: "'w \<Rightarrow> ms \<times> 'w"
  me_address :: "(string \<times> rat) list \<Rightarrow> int \<Rightarrow> string"
  me_executionHash :: "ProposalTransaction \<Rightarrow> 'w \<Rightarrow> string \<times> 'w"
  me_sees_in_place :: bool

type_synonym 'w ms_world = "(ms_db, 'w) tx_world"

type_synonym ('w, 'a) ms_prog = "('w ms_world, ms_error, 'a) prog"

definition DEFAULT_EXPIRY_DAYS :: int where "DEFAULT_EXPIRY_DAYS = 7"

definition MIN_SIGNERS :: nat where "MIN_SIGNERS = 2"

definition MAX_SIGNERS :: nat where "MAX_SIGNERS = 10"

section \<open>Statements\<close>

definition insert_wallet :: "MultiSigWallet \<Rightarrow> ms_db \<Rightarrow> ms_error + (MultiSigWallet \<times> ms_db)" where
  "insert_wallet x db =
     (if mw_id x \<in> mw_id ` set (mb_wallets db) \<or> mw_address x \<in> mw_address ` set (mb_wallets db) then Inl (MsConstraint ''unique'')
      else Inr (x, db\<lparr>mb_wallets := mb_wallets db @ [x]\<rparr>))"

definition insert_proposal :: "MultiSigProposal \<Rightarrow> ms_db \<Rightarrow> ms_error + (MultiSigProposal \<times> ms_db)" where
  "insert_proposal p db =
     (if mp_id p \<in> mp_id ` set (mb_proposals db) then Inl (MsConstraint ''unique'')
      else Inr (p, db\<lparr>mb_proposals := mb_proposals db @ [p]\<rparr>))"

definition update_wallet :: "string \<Rightarrow> (MultiSigWallet \<Rightarrow> MultiSigWallet) \<Rightarrow> ms_db \<Rightarrow> ms_error + (unit \<times> ms_db)" where
  "update_wallet i f db = Inr ((), db\<lparr>mb_wallets := map (\<lambda>x. if mw_id x = i then f x else x) (mb_wallets db)\<rparr>)"

definition update_proposal :: "string \<Rightarrow> (MultiSigProposal \<Rightarrow> MultiSigProposal) \<Rightarrow> ms_db \<Rightarrow> ms_error + (unit \<times> ms_db)" where
  "update_proposal i f db = Inr ((), db\<lparr>mb_proposals := map (\<lambda>x. if mp_id x = i then f x else x) (mb_proposals db)\<rparr>)"

definition find_wallet :: "string \<Rightarrow> ms_db \<Rightarrow> MultiSigWallet option" where
  "find_wallet i db = find (\<lambda>x. mw_id x = i) (mb_wallets db)"

definition find_proposal :: "string \<Rightarrow> string \<Rightarrow> ms_db \<Rightarrow> MultiSigProposal option" where
  "find_proposal wid pid db = find (\<lambda>p. mp_id p = pid \<and> mp_walletId p = wid) (mb_proposals db)"

definition addAuditLog :: "'w ms_env \<Rightarrow> string \<Rightarrow> string \<Rightarrow> string option \<Rightarrow> string \<Rightarrow> ('w, unit) ms_prog" where
  "addAuditLog env walletId eventType proposalId performedBy =
     db_query (me_fails env) (\<lambda>db. Inr ((), db\<lparr>mb_audit := mb_audit db @
       [\<lparr>ma_walletId = walletId, ma_eventType = eventType, ma_proposalId = proposalId, ma_performedBy = performedBy\<rparr>]\<rparr>))"

text \<open>\<^verbatim>\<open>findByPk\<close> and the error for a missing row; \<^verbatim>\<open>reload()\<close> reads the row again.\<close>

definition with_wallet :: "'w ms_env \<Rightarrow> string \<Rightarrow> (MultiSigWallet \<Rightarrow> ('w, 'a) ms_prog) \<Rightarrow> ('w, 'a) ms_prog" where
  "with_wallet env i k = pbind (db_select (me_fails env) (find_wallet i)) (\<lambda>found.
     case found of None \<Rightarrow> pthrow (MsWalletNotFound i) | Some x \<Rightarrow> k x)"

definition with_proposal :: "'w ms_env \<Rightarrow> string \<Rightarrow> string \<Rightarrow> (MultiSigProposal \<Rightarrow> ('w, 'a) ms_prog) \<Rightarrow> ('w, 'a) ms_prog" where
  "with_proposal env wid pid k = pbind (db_select (me_fails env) (find_proposal wid pid)) (\<lambda>found.
     case found of None \<Rightarrow> pthrow (MsProposalNotFound pid) | Some p \<Rightarrow> k p)"

section \<open>Wallets and proposals\<close>

record CreateMultiSigWalletRequest =
  cw_signers :: "(string \<times> rat) list"
  cw_threshold :: int

definition total_weight :: "MultiSigSigner list \<Rightarrow> rat" where
  "total_weight ss = foldl (\<lambda>sum s. sum + sn_weight s) 0 ss"

definition createMultiSigWallet :: "'w ms_env \<Rightarrow> CreateMultiSigWalletRequest \<Rightarrow> ('w, MultiSigWallet) ms_prog" where
  "createMultiSigWallet env req =
     (if length (cw_signers req) < MIN_SIGNERS \<or> length (cw_signers req) > MAX_SIGNERS then pthrow (BadSigners ''count'')
      else if \<exists>s \<in> set (cw_signers req). fst s = [] \<or> snd s < 1 then pthrow (BadSigners ''address or weight'')
      else if cw_threshold req < 1 \<or> of_int (cw_threshold req) > foldl (\<lambda>sum s. sum + snd s) 0 (cw_signers req) then pthrow BadThreshold
      else
        pbind (outside (me_now env)) (\<lambda>now.
        pbind (outside (me_uuid env)) (\<lambda>i.
        pbind (outside (me_now env)) (\<lambda>created.
        pbind (db_query (me_fails env) (insert_wallet
           \<lparr>mw_id = i, mw_address = me_address env (cw_signers req) (cw_threshold req),
            mw_signers = map (\<lambda>s. \<lparr>sn_address = fst s, sn_weight = snd s, sn_addedAt = now\<rparr>) (cw_signers req),
            mw_threshold = cw_threshold req, mw_nonce = 0, mw_createdAt = created, mw_paused = False\<rparr>)) (\<lambda>x.
        pbind (addAuditLog env (mw_id x) ''WALLET_CREATED'' None (fst (hd (cw_signers req)))) (\<lambda>_.
        pret x))))))"

record CreateProposalRequest =
  cp_proposer :: string
  cp_transaction :: ProposalTransaction
  cp_expiresAt :: "ms option option"

definition is_signer :: "string \<Rightarrow> MultiSigWallet \<Rightarrow> bool" where
  "is_signer a x \<longleftrightarrow> find (\<lambda>s. sn_address s = a) (mw_signers x) \<noteq> None"

definition createProposal :: "'w ms_env \<Rightarrow> string \<Rightarrow> CreateProposalRequest \<Rightarrow> ('w, MultiSigProposal) ms_prog" where
  "createProposal env walletId req =
     with_wallet env walletId (\<lambda>x.
     if mw_paused x then pthrow WalletPaused
     else if \<not> is_signer (cp_proposer req) x then pthrow (NotASigner (cp_proposer req))
     else
       pbind (case cp_expiresAt req of
                Some d \<Rightarrow> pret d
              | None \<Rightarrow> pbind (outside (me_now env)) (\<lambda>now. pret (Some (now + DEFAULT_EXPIRY_DAYS * 24 * 60 * 60 * 1000)))) (\<lambda>expiresAt.
       pbind (outside (me_now env)) (\<lambda>now.
       case expiresAt of
         None \<Rightarrow> pthrow (MsConstraint ''invalid date'')
       | Some t \<Rightarrow>
           if t \<le> now then pthrow BadExpiry
           else
             pbind (outside (me_uuid env)) (\<lambda>i.
             pbind (outside (me_now env)) (\<lambda>created.
             pbind (db_query (me_fails env) (insert_proposal
               \<lparr>mp_id = i, mp_walletId = walletId, mp_proposer = cp_proposer req, mp_transaction = cp_transaction req,
                mp_signatures = [], mp_status = MpPending, mp_createdAt = created, mp_expiresAt = t, mp_executedAt = None,
                mp_executionHash = None\<rparr>)) (\<lambda>p.
             pbind (addAuditLog env walletId ''PROPOSAL_CREATED'' (Some (mp_id p)) (cp_proposer req)) (\<lambda>_.
             pret p)))))))"

definition signer_weight :: "MultiSigSigner list \<Rightarrow> string \<Rightarrow> rat" where
  "signer_weight ss a = (case find (\<lambda>s. sn_address s = a) ss of None \<Rightarrow> 0 | Some s \<Rightarrow> sn_weight s)"

definition accumulated_weight :: "MultiSigWallet \<Rightarrow> ProposalSignature list \<Rightarrow> rat" where
  "accumulated_weight x sigs = foldl (\<lambda>sum g. sum + signer_weight (mw_signers x) (pg_signer g)) 0 sigs"

definition submitSignature :: "'w ms_env \<Rightarrow> string \<Rightarrow> string \<Rightarrow> string \<Rightarrow> string \<Rightarrow> ('w, MultiSigProposal) ms_prog" where
  "submitSignature env walletId proposalId signer signature =
     with_wallet env walletId (\<lambda>x.
     with_proposal env walletId proposalId (\<lambda>p.
     pbind (outside (me_now env)) (\<lambda>now.
     if mp_expiresAt p \<le> now
     then pbind (db_query (me_fails env) (update_proposal proposalId (\<lambda>q. q\<lparr>mp_status := MpExpired\<rparr>))) (\<lambda>_.
          pbind (addAuditLog env walletId ''PROPOSAL_EXPIRED'' (Some proposalId) ''system'') (\<lambda>_.
          pthrow ProposalExpired))
     else if mp_status p \<noteq> MpPending then pthrow (BadProposalStatus (mp_status p))
     else if \<not> is_signer signer x then pthrow (NotASigner signer)
     else if \<exists>g \<in> set (mp_signatures p). pg_signer g = signer then pthrow (AlreadySigned signer)
     else
       pbind (outside (me_now env)) (\<lambda>signedAt.
       let updated = mp_signatures p @ [\<lparr>pg_signer = signer, pg_signature = signature, pg_signedAt = signedAt\<rparr>];
           newStatus = (if accumulated_weight x updated \<ge> of_int (mw_threshold x) then MpSigned else MpPending) in
       pbind (db_query (me_fails env) (update_proposal proposalId (\<lambda>q. q\<lparr>mp_signatures := updated, mp_status := newStatus\<rparr>))) (\<lambda>_.
       pbind (addAuditLog env walletId ''SIGNATURE_SUBMITTED'' (Some proposalId) signer) (\<lambda>_.
       with_proposal env walletId proposalId pret))))))"

definition executeProposal :: "'w ms_env \<Rightarrow> string \<Rightarrow> string \<Rightarrow> string \<Rightarrow> ('w, MultiSigProposal) ms_prog" where
  "executeProposal env walletId proposalId executor =
     with_wallet env walletId (\<lambda>x.
     if mw_paused x then pthrow WalletPaused
     else
       with_proposal env walletId proposalId (\<lambda>p.
       pbind (outside (me_now env)) (\<lambda>now.
       if mp_expiresAt p \<le> now
       then pbind (db_query (me_fails env) (update_proposal proposalId (\<lambda>q. q\<lparr>mp_status := MpExpired\<rparr>))) (\<lambda>_. pthrow ProposalExpired)
       else if mp_status p \<noteq> MpSigned then pthrow (BadProposalStatus (mp_status p))
       else if accumulated_weight x (mp_signatures p) < of_int (mw_threshold x) then pthrow InsufficientWeight
       else
         pbind (outside (me_executionHash env (mp_transaction p))) (\<lambda>hash.
         pbind (outside (me_now env)) (\<lambda>executedAt.
         pbind (db_query (me_fails env) (update_proposal proposalId (\<lambda>q. q\<lparr>mp_status := MpExecuted, mp_executedAt := Some executedAt,
                  mp_executionHash := Some hash\<rparr>))) (\<lambda>_.
         pbind (db_query (me_fails env) (update_wallet walletId (\<lambda>y. y\<lparr>mw_nonce := mw_nonce x + 1\<rparr>))) (\<lambda>_.
         pbind (addAuditLog env walletId ''PROPOSAL_EXECUTED'' (Some proposalId) executor) (\<lambda>_.
         with_proposal env walletId proposalId pret))))))))"

section \<open>Signers, pausing and expiry\<close>

datatype SignerUpdateAction = AddSigner | RemoveSigner | UpdateWeight

fun set_weight :: "string \<Rightarrow> rat \<Rightarrow> MultiSigSigner list \<Rightarrow> MultiSigSigner list" where
  "set_weight a v [] = []"
| "set_weight a v (s # ss) = (if sn_address s = a then s\<lparr>sn_weight := v\<rparr> # ss else s # set_weight a v ss)"

definition changed_signers :: "SignerUpdateAction \<Rightarrow> string \<Rightarrow> rat \<Rightarrow> ms \<Rightarrow> MultiSigSigner list \<Rightarrow> ms_error + MultiSigSigner list" where
  "changed_signers action a v now ss =
     (case action of
        AddSigner \<Rightarrow>
          if length ss \<ge> MAX_SIGNERS then Inl (BadSigners ''too many'')
          else if \<exists>s \<in> set ss. sn_address s = a then Inl (BadSigners ''already exists'')
          else Inr (ss @ [\<lparr>sn_address = a, sn_weight = v, sn_addedAt = now\<rparr>])
      | RemoveSigner \<Rightarrow>
          if find (\<lambda>s. sn_address s = a) ss = None then Inl (BadSigners ''not found'')
          else (let rest = filter (\<lambda>s. sn_address s \<noteq> a) ss in
                if length rest < MIN_SIGNERS then Inl (BadSigners ''too few'') else Inr rest)
      | UpdateWeight \<Rightarrow>
          if find (\<lambda>s. sn_address s = a) ss = None then Inl (BadSigners ''not found'') else Inr (set_weight a v ss))"

definition updateSigner :: "'w ms_env \<Rightarrow> string \<Rightarrow> SignerUpdateAction \<Rightarrow> string \<Rightarrow> rat \<Rightarrow> string \<Rightarrow> ('w, MultiSigWallet) ms_prog" where
  "updateSigner env walletId action a v proposedBy =
     with_wallet env walletId (\<lambda>x.
     pbind (outside (me_now env)) (\<lambda>now.
     case changed_signers action a v now (mw_signers x) of
       Inl e \<Rightarrow> pthrow e
     | Inr signers \<Rightarrow>
         if of_int (mw_threshold x) > total_weight signers then pthrow BadThreshold
         else
           pbind (db_query (me_fails env) (update_wallet walletId (\<lambda>y.
              if action = UpdateWeight \<and> \<not> me_sees_in_place env then y else y\<lparr>mw_signers := signers\<rparr>))) (\<lambda>_.
           pbind (addAuditLog env walletId ''SIGNER_UPDATED'' None proposedBy) (\<lambda>_.
           with_wallet env walletId pret))))"

definition pauseWallet :: "'w ms_env \<Rightarrow> string \<Rightarrow> string \<Rightarrow> ('w, MultiSigWallet) ms_prog" where
  "pauseWallet env walletId performedBy =
     with_wallet env walletId (\<lambda>x.
     if mw_paused x then pthrow WalletPaused
     else
       pbind (db_query (me_fails env) (update_wallet walletId (\<lambda>y. y\<lparr>mw_paused := True\<rparr>))) (\<lambda>_.
       pbind (addAuditLog env walletId ''WALLET_PAUSED'' None performedBy) (\<lambda>_.
       with_wallet env walletId pret)))"

definition unpauseWallet :: "'w ms_env \<Rightarrow> string \<Rightarrow> string \<Rightarrow> ('w, MultiSigWallet) ms_prog" where
  "unpauseWallet env walletId performedBy =
     with_wallet env walletId (\<lambda>x.
     if \<not> mw_paused x then pthrow WalletNotPaused
     else
       pbind (db_query (me_fails env) (update_wallet walletId (\<lambda>y. y\<lparr>mw_paused := False\<rparr>))) (\<lambda>_.
       pbind (addAuditLog env walletId ''WALLET_UNPAUSED'' None performedBy) (\<lambda>_.
       with_wallet env walletId pret)))"

definition expire_stale :: "'w ms_env \<Rightarrow> ms \<Rightarrow> MultiSigProposal \<Rightarrow> nat \<Rightarrow> ('w, nat) ms_prog" where
  "expire_stale env now p expired =
     (if mp_expiresAt p \<le> now
      then pbind (db_query (me_fails env) (update_proposal (mp_id p) (\<lambda>q. q\<lparr>mp_status := MpExpired\<rparr>))) (\<lambda>_.
           pbind (addAuditLog env (mp_walletId p) ''PROPOSAL_EXPIRED'' (Some (mp_id p)) ''system'') (\<lambda>_.
           pret (expired + 1)))
      else pret expired)"

definition expireStaleProposals :: "'w ms_env \<Rightarrow> ('w, nat) ms_prog" where
  "expireStaleProposals env =
     pbind (db_select (me_fails env) (\<lambda>db. filter (\<lambda>p. mp_status p = MpPending) (mb_proposals db))) (\<lambda>stale.
     pbind (outside (me_now env)) (\<lambda>now.
     pfor stale 0 (expire_stale env now)))"

section \<open>Reads\<close>

definition getWallet :: "'w ms_env \<Rightarrow> string \<Rightarrow> ('w, MultiSigWallet) ms_prog" where
  "getWallet env walletId = with_wallet env walletId pret"

definition listProposals :: "'w ms_env \<Rightarrow> string \<Rightarrow> ('w, MultiSigProposal list) ms_prog" where
  "listProposals env walletId = db_select (me_fails env)
     (\<lambda>db. sort_key (\<lambda>p. - mp_createdAt p) (filter (\<lambda>p. mp_walletId p = walletId) (mb_proposals db)))"

definition getProposal :: "'w ms_env \<Rightarrow> string \<Rightarrow> string \<Rightarrow> ('w, MultiSigProposal) ms_prog" where
  "getProposal env walletId proposalId = with_proposal env walletId proposalId pret"

end
