(* ===== verification/Multisig_Properties.thy ===== *)
theory Multisig_Properties
  imports Multisig "HOL-Library.Sublist"
begin

text \<open>
  What the operations on multi-signature wallets guarantee together: how a proposal may change, when it may be executed, and
  the runs in which the code does not do what it means to.
\<close>

section \<open>Operations as one step\<close>

datatype ms_op =
    OpCreateWallet CreateMultiSigWalletRequest
  | OpCreateProposal string CreateProposalRequest
  | OpSign string string string string
  | OpExecute string string string
  | OpUpdateSigner string SignerUpdateAction string rat string
  | OpPause string string
  | OpUnpause string string
  | OpExpireStale

definition ms_apply :: "'w ms_env \<Rightarrow> ms_op \<Rightarrow> ('w, unit) ms_prog" where
  "ms_apply env op =
     (case op of
        OpCreateWallet req \<Rightarrow> pbind (createMultiSigWallet env req) (\<lambda>_. pret ())
      | OpCreateProposal wid req \<Rightarrow> pbind (createProposal env wid req) (\<lambda>_. pret ())
      | OpSign wid pid a g \<Rightarrow> pbind (submitSignature env wid pid a g) (\<lambda>_. pret ())
      | OpExecute wid pid a \<Rightarrow> pbind (executeProposal env wid pid a) (\<lambda>_. pret ())
      | OpUpdateSigner wid action a v by_ \<Rightarrow> pbind (updateSigner env wid action a v by_) (\<lambda>_. pret ())
      | OpPause wid a \<Rightarrow> pbind (pauseWallet env wid a) (\<lambda>_. pret ())
      | OpUnpause wid a \<Rightarrow> pbind (unpauseWallet env wid a) (\<lambda>_. pret ())
      | OpExpireStale \<Rightarrow> pbind (expireStaleProposals env) (\<lambda>_. pret ()))"

fun ms_run :: "'w ms_env \<Rightarrow> ms_op list \<Rightarrow> 'w ms_world \<Rightarrow> 'w ms_world" where
  "ms_run env [] w = w"
| "ms_run env (op # ops) w = ms_run env ops (snd (ms_apply env op w))"

section \<open>What every operation keeps\<close>

definition proposal_ok :: "MultiSigProposal \<Rightarrow> bool" where
  "proposal_ok p \<longleftrightarrow> distinct (map pg_signer (mp_signatures p)) \<and> (mp_status p \<in> {MpPending, MpSigned} \<longrightarrow> mp_executionHash p = None)"

definition ms_inv :: "ms_db \<Rightarrow> bool" where
  "ms_inv db \<longleftrightarrow> distinct (map mp_id (mb_proposals db)) \<and> (\<forall>p \<in> set (mb_proposals db). proposal_ok p)"

fun status_step :: "ProposalStatus \<Rightarrow> ProposalStatus \<Rightarrow> bool" where
  "status_step s MpExpired = True"
| "status_step MpPending MpSigned = True"
| "status_step MpSigned MpExecuted = True"
| "status_step s s' = (s = s')"

text \<open>The signatures of a proposal carry an execution: the wallet is not paused and the distinct signers weigh enough.\<close>

definition may_execute :: "ms_db \<Rightarrow> MultiSigProposal \<Rightarrow> bool" where
  "may_execute db p \<longleftrightarrow> (\<exists>x \<in> set (mb_wallets db). mw_id x = mp_walletId p \<and> \<not> mw_paused x \<and>
     mp_status p = MpSigned \<and> of_int (mw_threshold x) \<le> accumulated_weight x (mp_signatures p))"

definition proposal_step :: "ms_db \<Rightarrow> MultiSigProposal \<Rightarrow> MultiSigProposal \<Rightarrow> bool" where
  "proposal_step db p p' \<longleftrightarrow>
     mp_id p' = mp_id p \<and> mp_walletId p' = mp_walletId p \<and> mp_proposer p' = mp_proposer p \<and>
     mp_transaction p' = mp_transaction p \<and> mp_expiresAt p' = mp_expiresAt p \<and>
     prefix (mp_signatures p) (mp_signatures p') \<and> status_step (mp_status p) (mp_status p') \<and>
     (mp_executionHash p' = mp_executionHash p \<or> mp_executionHash p = None \<and> may_execute db p)"

definition ms_step_ok :: "ms_db \<Rightarrow> ms_db \<Rightarrow> bool" where
  "ms_step_ok db db' \<longleftrightarrow> ms_inv db' \<and> (\<forall>p \<in> set (mb_proposals db). \<exists>p' \<in> set (mb_proposals db'). proposal_step db p p')"

lemma status_step_refl [simp]: "status_step s s"
  by (cases s) auto

lemma proposal_step_refl [simp]: "proposal_step db p p"
  by (simp add: proposal_step_def)

lemma ms_step_refl [intro]: "ms_inv db \<Longrightarrow> ms_step_ok db db"
  unfolding ms_step_ok_def using proposal_step_refl by blast

lemma ms_step_same: "mb_proposals db'' = mb_proposals db' \<Longrightarrow> ms_step_ok db db' \<Longrightarrow> ms_step_ok db db''"
  by (simp add: ms_step_ok_def ms_inv_def)

lemma ms_step_insert:
  "ms_step_ok db db' \<Longrightarrow> insert_proposal p db' = Inr (q, db'') \<Longrightarrow> proposal_ok p \<Longrightarrow> ms_step_ok db db''"
  by (fastforce simp: ms_step_ok_def ms_inv_def insert_proposal_def split: if_splits)

lemma ms_step_update:
  assumes step: "ms_step_ok db db'" and u: "update_proposal i f db' = Inr (u, db'')"
    and f: "\<And>q. mp_id (f q) = mp_id q" "\<And>q. q \<in> set (mb_proposals db') \<Longrightarrow> mp_id q = i \<Longrightarrow> proposal_ok (f q)"
    and evolves: "\<And>p q. p \<in> set (mb_proposals db) \<Longrightarrow> q \<in> set (mb_proposals db') \<Longrightarrow> mp_id q = i \<Longrightarrow> proposal_step db p q \<Longrightarrow> proposal_step db p (f q)"
  shows "ms_step_ok db db''"
proof -
  define g where "g = (\<lambda>x. if mp_id x = i then f x else x)"
  have props: "mb_proposals db'' = map g (mb_proposals db')" using u by (auto simp: update_proposal_def g_def)
  have ids: "map mp_id (map g (mb_proposals db')) = map mp_id (mb_proposals db')" by (simp add: f(1) g_def)
  have ok: "proposal_ok (g q)" if "q \<in> set (mb_proposals db')" for q
  proof (cases "mp_id q = i")
    case True
    then show ?thesis using f(2) [OF that] by (simp add: g_def)
  next
    case False
    have "proposal_ok q" using step that unfolding ms_step_ok_def ms_inv_def by blast
    with False show ?thesis by (simp add: g_def)
  qed
  have inv: "ms_inv db''" using step ids ok unfolding ms_inv_def ms_step_ok_def props set_map by (simp only: ball_simps) blast
  have "\<exists>p' \<in> set (mb_proposals db''). proposal_step db p p'" if p: "p \<in> set (mb_proposals db)" for p
  proof -
    obtain q where q: "q \<in> set (mb_proposals db')" "proposal_step db p q" using step p unfolding ms_step_ok_def by blast
    have "proposal_step db p (g q)" using evolves [OF p q(1) _ q(2)] q(2) by (cases "mp_id q = i") (simp_all only: g_def if_True if_False simp_thms)
    moreover have "g q \<in> set (mb_proposals db'')" unfolding props set_map using q(1) by (rule imageI)
    ultimately show ?thesis by (rule bexI)
  qed
  with inv show ?thesis unfolding ms_step_ok_def by blast
qed

lemma proposal_step_expired: "proposal_step db p q \<Longrightarrow> proposal_step db p (q\<lparr>mp_status := MpExpired\<rparr>)"
  by (simp add: proposal_step_def)

lemma ms_step_expire:
  assumes step: "ms_step_ok db db'" and u: "update_proposal i (\<lambda>q. q\<lparr>mp_status := MpExpired\<rparr>) db' = Inr (u, db'')"
  shows "ms_step_ok db db''"
  using step by (intro ms_step_update [OF step u]) (auto simp: proposal_step_expired proposal_ok_def ms_step_ok_def ms_inv_def)

lemma find_proposal_unique:
  "ms_inv db \<Longrightarrow> find_proposal wid pid db = Some p \<Longrightarrow>
     p \<in> set (mb_proposals db) \<and> mp_id p = pid \<and> mp_walletId p = wid \<and> (\<forall>q \<in> set (mb_proposals db). mp_id q = pid \<longrightarrow> q = p)"
  unfolding ms_inv_def find_proposal_def by (auto simp: find_Some_iff dest: nth_mem) (metis (mono_tags, lifting) distinct_map inj_on_def nth_mem)

text \<open>A new signature, and the execution, of the proposal that was read.\<close>

lemma ms_step_sign:
  assumes inv: "ms_inv db" and p: "find_proposal wid pid db = Some p" "mp_status p = MpPending"
    and new: "\<not> (\<exists>g \<in> set (mp_signatures p). pg_signer g = pg_signer g0)" and st: "st \<in> {MpPending, MpSigned}"
    and u: "update_proposal pid (\<lambda>q. q\<lparr>mp_signatures := mp_signatures p @ [g0], mp_status := st\<rparr>) db = Inr (u, db')"
  shows "ms_step_ok db db'"
proof (rule ms_step_update [OF ms_step_refl [OF inv] u])
  note only = find_proposal_unique [OF inv p(1)]
  show "proposal_ok (q\<lparr>mp_signatures := mp_signatures p @ [g0], mp_status := st\<rparr>)" if "q \<in> set (mb_proposals db)" "mp_id q = pid" for q
  proof -
    have "q = p" "proposal_ok p" using only that inv by (auto simp: ms_inv_def)
    with p(2) new st show ?thesis by (auto simp: proposal_ok_def)
  qed
  show "proposal_step db r (q\<lparr>mp_signatures := mp_signatures p @ [g0], mp_status := st\<rparr>)"
    if "q \<in> set (mb_proposals db)" "mp_id q = pid" "r \<in> set (mb_proposals db)" "proposal_step db r q" for q r
  proof -
    have "q = p" "r = p" using only that by (auto simp: proposal_step_def)
    with p(2) st show ?thesis by (auto simp: proposal_step_def)
  qed
qed simp

lemma ms_step_execute:
  assumes inv: "ms_inv db" and p: "find_proposal wid pid db = Some p" "mp_status p = MpSigned"
    and x: "find_wallet wid db = Some x" "\<not> mw_paused x" "\<not> accumulated_weight x (mp_signatures p) < of_int (mw_threshold x)"
    and u: "update_proposal pid (\<lambda>q. q\<lparr>mp_status := MpExecuted, mp_executedAt := t, mp_executionHash := Some h\<rparr>) db = Inr (u, db')"
  shows "ms_step_ok db db'"
proof (rule ms_step_update [OF ms_step_refl [OF inv] u])
  note only = find_proposal_unique [OF inv p(1)]
  have may: "may_execute db p" using only x p(2) unfolding may_execute_def find_wallet_def by (auto simp: find_Some_iff intro: nth_mem)
  show "proposal_ok (q\<lparr>mp_status := MpExecuted, mp_executedAt := t, mp_executionHash := Some h\<rparr>)" if "q \<in> set (mb_proposals db)" "mp_id q = pid" for q
    using that inv by (auto simp: ms_inv_def proposal_ok_def)
  show "proposal_step db r (q\<lparr>mp_status := MpExecuted, mp_executedAt := t, mp_executionHash := Some h\<rparr>)"
    if "q \<in> set (mb_proposals db)" "mp_id q = pid" "r \<in> set (mb_proposals db)" "proposal_step db r q" for q r
  proof -
    have "q = p" "r = p" "proposal_ok p" using only that inv by (auto simp: proposal_step_def ms_inv_def)
    with p(2) may show ?thesis by (auto simp: proposal_step_def proposal_ok_def)
  qed
qed simp

section \<open>The operations\<close>

lemma ends_wallet [ends_rules]:
  "Q d \<Longrightarrow> (\<And>x. find_wallet i d = Some x \<Longrightarrow> ends d Q (k x)) \<Longrightarrow> ends d Q (with_wallet env i k)"
  unfolding with_wallet_def by (intro ends_rules) auto

lemma ends_proposal [ends_rules]:
  "Q d \<Longrightarrow> (\<And>p. find_proposal wid pid d = Some p \<Longrightarrow> ends d Q (k p)) \<Longrightarrow> ends d Q (with_proposal env wid pid k)"
  unfolding with_proposal_def by (intro ends_rules) auto

text \<open>After the last change of a proposal a program only writes the audit log and the wallets, and reads.\<close>

lemma ends_audit [ends_rules]:
  assumes "ms_step_ok d0 d" and "\<And>d'. mb_proposals d' = mb_proposals d \<Longrightarrow> ms_step_ok d0 d' \<Longrightarrow> ends d' (ms_step_ok d0) (k ())"
  shows "ends d (ms_step_ok d0) (pbind (addAuditLog env wid ev pid a) k)"
  unfolding addAuditLog_def by (intro ends_query) (use assms ms_step_same [of _ d d0] in auto)

lemma ends_update_wallet [ends_rules]:
  assumes "ms_step_ok d0 d" and "\<And>d'. mb_proposals d' = mb_proposals d \<Longrightarrow> ms_step_ok d0 d' \<Longrightarrow> ends d' (ms_step_ok d0) (k ())"
  shows "ends d (ms_step_ok d0) (pbind (db_query fails (update_wallet i f)) k)"
  by (intro ends_query) (use assms ms_step_same [of _ d d0] in \<open>auto simp: update_wallet_def\<close>)

lemma ends_change:
  assumes "ms_step_ok d0 d" and "\<And>a d'. f d = Inr (a, d') \<Longrightarrow> ms_step_ok d0 d'" and "\<And>a d'. ms_step_ok d0 d' \<Longrightarrow> ends d' (ms_step_ok d0) (k a)"
  shows "ends d (ms_step_ok d0) (pbind (db_query fails f) k)"
  by (intro ends_query) (use assms in auto)

lemma ends_insert:
  assumes "ms_step_ok d0 d" "proposal_ok p" "\<And>a d'. ms_step_ok d0 d' \<Longrightarrow> ends d' (ms_step_ok d0) (k a)"
  shows "ends d (ms_step_ok d0) (pbind (db_query fails (insert_proposal p)) k)"
  by (rule ends_change [OF assms(1) ms_step_insert [OF assms(1) _ assms(2)] assms(3)])

lemma ends_expire:
  assumes "ms_step_ok d0 d" "\<And>a d'. ms_step_ok d0 d' \<Longrightarrow> ends d' (ms_step_ok d0) (k a)"
  shows "ends d (ms_step_ok d0) (pbind (db_query fails (update_proposal i (\<lambda>q. q\<lparr>mp_status := MpExpired\<rparr>))) k)"
  by (rule ends_change [OF assms(1) ms_step_expire [OF assms(1)] assms(2)])

lemma createMultiSigWallet_step: "ms_inv d \<Longrightarrow> ends d (ms_step_ok d) (createMultiSigWallet env req)"
  unfolding createMultiSigWallet_def
  by (intro ends_rules ms_step_refl; (auto simp: insert_wallet_def split: if_splits intro: ms_step_refl ms_step_same)?)

lemma createProposal_step: "ms_inv d \<Longrightarrow> ends d (ms_step_ok d) (createProposal env wid req)"
  unfolding createProposal_def
  by (intro ends_insert ends_audit ends_pret ends_pthrow ends_outside ends_assoc ends_wallet ends_if ends_option ends_option_bind ends_pret_bind;
      (assumption | erule ms_step_refl | simp add: proposal_ok_def))

lemma submitSignature_step:
  assumes inv: "ms_inv d"
  shows "ends d (ms_step_ok d) (submitSignature env wid pid a g)"
  unfolding submitSignature_def Let_def
  by (intro ends_wallet ends_proposal ends_outside ends_if ends_pthrow ends_expire ends_audit ends_change ends_pret ms_step_refl inv;
      (assumption | (elim ms_step_sign [OF inv]; simp)))

lemma executeProposal_step:
  assumes inv: "ms_inv d"
  shows "ends d (ms_step_ok d) (executeProposal env wid pid a)"
  unfolding executeProposal_def
  by (intro ends_wallet ends_proposal ends_outside ends_if ends_pthrow ends_expire ends_update_wallet ends_audit ends_change ends_pret ms_step_refl inv;
      (assumption | (elim ms_step_execute [OF inv]; simp)))

lemma updateSigner_step: "ms_inv d \<Longrightarrow> ends d (ms_step_ok d) (updateSigner env wid act a v b)"
  unfolding updateSigner_def by (intro ends_rules ms_step_refl; assumption)

lemma pauseWallet_step: "ms_inv d \<Longrightarrow> ends d (ms_step_ok d) (pauseWallet env wid a)"
  unfolding pauseWallet_def by (intro ends_rules ms_step_refl; assumption)

lemma unpauseWallet_step: "ms_inv d \<Longrightarrow> ends d (ms_step_ok d) (unpauseWallet env wid a)"
  unfolding unpauseWallet_def by (intro ends_rules ms_step_refl; assumption)

lemma expireStaleProposals_step: "ms_inv d \<Longrightarrow> ends d (ms_step_ok d) (expireStaleProposals env)"
  unfolding expireStaleProposals_def
  by (intro ends_select ends_outside ends_pfor; (erule ms_step_refl)?)
     (auto simp: expire_stale_def intro!: ends_if ends_expire ends_audit ends_pret)

lemmas ms_steps = createMultiSigWallet_step createProposal_step submitSignature_step executeProposal_step updateSigner_step
  pauseWallet_step unpauseWallet_step expireStaleProposals_step

lemma ms_apply_step: "ms_inv d \<Longrightarrow> ends d (ms_step_ok d) (ms_apply env op)"
  unfolding ms_apply_def by (cases op) (simp_all add: ends_discard ms_steps)

text \<open>C14: One operation on multi-signature wallets, however it ends: no signer signs a proposal twice; a proposal keeps its transaction,
  its expiry and the signatures it has; it moves only from pending to signed to executed, or to expired; and it is executed only
  if it was signed and not yet executed, its wallet was not paused and the signatures of its distinct signers weigh the threshold.
\<close>

theorem multisig_execution_sound:
  assumes "ms_inv (iw_db w)"
  shows "ms_step_ok (iw_db w) (iw_db (snd (ms_apply env op w)))"
  by (rule endsD [OF ms_apply_step [OF assms]])

lemma ms_apply_inv: "ms_inv (iw_db w) \<Longrightarrow> ms_inv (iw_db (snd (ms_apply env op w)))"
  using endsD [OF ms_apply_step] by (auto simp: ms_step_ok_def)

text \<open>A proposal over a run: what is kept of it from its first to its last row.\<close>

definition proposal_later :: "MultiSigProposal \<Rightarrow> MultiSigProposal \<Rightarrow> bool" where
  "proposal_later p p' \<longleftrightarrow> mp_id p' = mp_id p \<and> mp_transaction p' = mp_transaction p \<and> prefix (mp_signatures p) (mp_signatures p') \<and>
     (mp_status p \<notin> {MpPending, MpSigned} \<longrightarrow> mp_executionHash p' = mp_executionHash p \<and> mp_status p' \<notin> {MpPending, MpSigned})"

lemma proposal_later_refl: "proposal_later p p"
  by (simp add: proposal_later_def)

lemma proposal_later_step:
  assumes "proposal_step db p p'" "proposal_later p' p''"
  shows "proposal_later p p''"
proof -
  have "prefix (mp_signatures p) (mp_signatures p'')"
    using assms prefix_order.trans unfolding proposal_step_def proposal_later_def by blast
  moreover have "mp_executionHash p'' = mp_executionHash p \<and> mp_status p'' \<notin> {MpPending, MpSigned}" if "mp_status p \<notin> {MpPending, MpSigned}"
  proof -
    have "mp_status p' \<notin> {MpPending, MpSigned}" using assms(1) that by (cases "mp_status p"; cases "mp_status p'") (auto simp: proposal_step_def)
    moreover have "mp_executionHash p' = mp_executionHash p" using assms(1) that by (auto simp: proposal_step_def may_execute_def)
    ultimately show ?thesis using assms(2) by (simp add: proposal_later_def)
  qed
  ultimately show ?thesis using assms by (simp add: proposal_step_def proposal_later_def)
qed

text \<open>Over any sequence of operations a proposal keeps its transaction and its signatures, and once it was executed or expired it
  is not signed or executed again: the hash of its execution stays as it is.
\<close>

theorem multisig_executed_once:
  assumes "ms_inv (iw_db w)" "p \<in> set (mb_proposals (iw_db w))"
  shows "\<exists>p' \<in> set (mb_proposals (iw_db (ms_run env ops w))). proposal_later p p'"
  using assms
proof (induction ops arbitrary: w p)
  case Nil
  then show ?case by (auto intro: proposal_later_refl)
next
  case (Cons op ops)
  obtain p1 where p1: "p1 \<in> set (mb_proposals (iw_db (snd (ms_apply env op w))))" "proposal_step (iw_db w) p p1"
    using endsD [OF ms_apply_step [OF Cons.prems(1)], of env op] Cons.prems(2) unfolding ms_step_ok_def by blast
  obtain p2 where "p2 \<in> set (mb_proposals (iw_db (ms_run env ops (snd (ms_apply env op w)))))" "proposal_later p1 p2"
    using Cons.IH [OF ms_apply_inv [OF Cons.prems(1)] p1(1)] by blast
  with proposal_later_step [OF p1(2)] show ?case by auto
qed

section \<open>Runs\<close>

text \<open>The clock and the ids count up; the database does not fail.\<close>

definition ms_demo_env :: "int ms_env" where
  "ms_demo_env = \<lparr>me_fails = (\<lambda>x. (None, x)), me_uuid = (\<lambda>x. (if x < 2 then ''W'' else ''P'', x)), me_now = (\<lambda>x. (x, x + 1)),
     me_address = (\<lambda>_ _. ''MULTISIG''), me_executionHash = (\<lambda>_ x. (''exec'', x)), me_sees_in_place = False\<rparr>"

definition ms_demo_wallet :: MultiSigWallet where
  "ms_demo_wallet = \<lparr>mw_id = ''W'', mw_address = ''MULTISIG'', mw_signers =
     [\<lparr>sn_address = ''a'', sn_weight = 1, sn_addedAt = 0\<rparr>, \<lparr>sn_address = ''b'', sn_weight = 1, sn_addedAt = 0\<rparr>],
     mw_threshold = 2, mw_nonce = 0, mw_createdAt = 1, mw_paused = False\<rparr>"

definition ms_demo_proposal :: MultiSigProposal where
  "ms_demo_proposal = \<lparr>mp_id = ''P'', mp_walletId = ''W'', mp_proposer = ''a'', mp_transaction =
     \<lparr>tp_contractId = ''C'', tp_method = ''pay'', tp_args = [], tp_memo = []\<rparr>, mp_signatures = [], mp_status = MpPending,
     mp_createdAt = 3, mp_expiresAt = 20, mp_executedAt = None, mp_executionHash = None\<rparr>"

definition ms_demo_world :: "int ms_world" where
  "ms_demo_world = \<lparr>iw_db = \<lparr>mb_wallets = [ms_demo_wallet], mb_proposals = [ms_demo_proposal], mb_audit = []\<rparr>, iw_ext = 4\<rparr>"

definition ms_demo_ops :: "ms_op list" where
  "ms_demo_ops = [OpSign ''W'' ''P'' ''a'' ''sa'', OpSign ''W'' ''P'' ''b'' ''sb'', OpExecute ''W'' ''P'' ''a'']"

lemma ms_demo_inv: "ms_inv (iw_db ms_demo_world)"
  by code_simp

lemma ms_demo_executed:
  "map (\<lambda>p. (mp_status p, mp_executionHash p, map pg_signer (mp_signatures p))) (mb_proposals (iw_db (ms_run ms_demo_env ms_demo_ops ms_demo_world)))
     = [(MpExecuted, Some ''exec'', [''a'', ''b''])]"
  by code_simp

definition ms_signed_world :: "int ms_world" where
  "ms_signed_world = ms_run ms_demo_env (take 2 ms_demo_ops) ms_demo_world"

theorem multisig_execution_sound_witness:
  "ms_inv (iw_db ms_signed_world) \<and> map mp_status (mb_proposals (iw_db ms_signed_world)) = [MpSigned] \<and>
   ms_step_ok (iw_db ms_signed_world) (iw_db (snd (ms_apply ms_demo_env (OpExecute ''W'' ''P'' ''a'') ms_signed_world)))"
proof -
  have "ms_inv (iw_db ms_signed_world)" by code_simp
  moreover have "map mp_status (mb_proposals (iw_db ms_signed_world)) = [MpSigned]" by code_simp
  ultimately show ?thesis using multisig_execution_sound [of ms_signed_world ms_demo_env "OpExecute ''W'' ''P'' ''a''"] by simp
qed

theorem multisig_executed_once_witness:
  "\<exists>p' \<in> set (mb_proposals (iw_db (ms_run ms_demo_env ms_demo_ops ms_demo_world))). proposal_later ms_demo_proposal p'"
  by (rule multisig_executed_once [OF ms_demo_inv]) (simp add: ms_demo_world_def)

definition ms_late_world :: "int ms_world" where
  "ms_late_world = (ms_run ms_demo_env ms_demo_ops ms_demo_world)\<lparr>iw_ext := 25\<rparr>"

definition ms_duplicate_world :: "int ms_world" where
  "ms_duplicate_world = snd (createMultiSigWallet ms_demo_env \<lparr>cw_signers = [(''a'', 1), (''a'', 1)], cw_threshold = 2\<rparr>
     \<lparr>iw_db = \<lparr>mb_wallets = [], mb_proposals = [], mb_audit = []\<rparr>, iw_ext = 0\<rparr>)"

text \<open>Two runs the service accepts. An executed proposal that is signed again after its expiry date turns into an expired one, with its
  execution hash: the date is tested before the status. A wallet may be created with one address as two signers, whose weights both
  count for the threshold; each address signs once and weighs its first entry only, so that no proposal of that wallet is ever signed.
\<close>

theorem multisig_defects:
  "map (\<lambda>p. (mp_status p, mp_executionHash p)) (mb_proposals (iw_db ms_late_world)) = [(MpExecuted, Some ''exec'')] \<and>
   map (\<lambda>p. (mp_status p, mp_executionHash p))
     (mb_proposals (iw_db (snd (ms_apply ms_demo_env (OpSign ''W'' ''P'' ''a'' ''sa'') ms_late_world)))) = [(MpExpired, Some ''exec'')] \<and>
   map (\<lambda>x. (mw_threshold x, accumulated_weight x [\<lparr>pg_signer = ''a'', pg_signature = ''s'', pg_signedAt = 0\<rparr>]))
     (mb_wallets (iw_db ms_duplicate_world)) = [(2, 1)]"
  by (intro conjI; code_simp)

end
