(* ===== verification/Co_Signing.thy ===== *)
theory Co_Signing
  imports Complex_Main Transactions
begin

text \<open>
  Co-signing sessions (wallet/src/multisig/coSigningService.ts): detached signatures of a Stellar transaction are collected,
  each checked against the claimed key, until the threshold is reached; then they are combined into one envelope, which is
  submitted. The store is the in-memory map of the repository, whose sessions are shared objects: an assignment to a field is
  visible at once, and \<^verbatim>\<open>save\<close> writes nothing new. The Stellar SDK is a parameter, the record \<open>stellar_sdk\<close>. \<open>cd_sent\<close> records
  the envelopes handed to the submitter. An operation runs without interruption between two awaits: the operations are
  composed of such segments, and the relation \<open>co_step\<close> lets the segments of concurrent calls interleave.
\<close>

section \<open>Sessions\<close>

record CollectedSignature =
  cg_signerAddress :: string
  cg_signatureBase64 :: string

datatype CoSigningSessionStatus = CsCollecting | CsReady | CsSubmitted | CsExpired

record MultiSigSession =
  cs_sessionId :: string
  cs_orderId :: string
  cs_transactionXdr :: string
  cs_requiredThreshold :: int
  cs_collectedSignatures :: "CollectedSignature list"
  cs_status :: CoSigningSessionStatus

record StoredCoSigningSession = MultiSigSession +
  cs_authorizedSigners :: "string list"
  cs_createdAt :: ms
  cs_expiresAt :: ms
  cs_combinedXdr :: "string option"
  cs_submissionResult :: "jsval option"
  cs_failureReason :: "string option"

record CreateCoSigningSessionInput =
  ci_orderId :: string
  ci_transactionXdr :: string
  ci_requiredThreshold :: rat
  ci_authorizedSigners :: "string list option"
  ci_ttlMs :: "ms option"

record AddCoSignatureInput =
  ai_sessionId :: string
  ai_signerAddress :: string
  ai_signatureBase64 :: string

datatype co_error =
    CoSigningSessionNotFound string
  | CoSigningSessionClosed string CoSigningSessionStatus
  | UnauthorizedCoSigner string
  | InvalidCoSignature string
  | CoAlreadySigned string
  | CoInputError string
  | CoSubmissionError string

record co_db =
  cd_sessions :: "string \<rightharpoonup> StoredCoSigningSession"
  cd_sent :: "(string \<times> string) list"

type_synonym 'a co_segment = "(co_db, co_error, 'a) prog"

definition DEFAULT_SESSION_TTL_MS :: ms where "DEFAULT_SESSION_TTL_MS = 15 * 60 * 1000"

section \<open>Signatures\<close>

datatype co_network = PUBLIC_NET | FUTURENET_NET | TESTNET_NET

record 'tx stellar_sdk =
  sk_network :: "string option"
  sk_fromXDR :: "string \<Rightarrow> co_network \<Rightarrow> string + 'tx option"
  sk_isPublicKey :: "string \<Rightarrow> bool"
  sk_verify :: "string \<Rightarrow> 'tx \<Rightarrow> nat list \<Rightarrow> bool"
  sk_signatureHint :: "string \<Rightarrow> nat list"
  sk_toXDR :: "'tx \<Rightarrow> (nat list \<times> nat list) list \<Rightarrow> string"

definition resolveNetworkPassphrase :: "'tx stellar_sdk \<Rightarrow> co_network" where
  "resolveNetworkPassphrase sdk =
     (let network = js_lower (case sk_network sdk of None \<Rightarrow> ''testnet'' | Some n \<Rightarrow> n) in
      if network = ''mainnet'' then PUBLIC_NET
      else if network = ''futurenet'' then FUTURENET_NET
      else TESTNET_NET)"

text \<open>\<^verbatim>\<open>fromXDR\<close> throws, or returns a fee-bump transaction (\<open>None\<close>) or a classic one.\<close>

definition parseBaseTransaction :: "'tx stellar_sdk \<Rightarrow> string \<Rightarrow> co_error + 'tx" where
  "parseBaseTransaction sdk transactionXdr =
     (case sk_fromXDR sdk transactionXdr (resolveNetworkPassphrase sdk) of
        Inl message \<Rightarrow> Inl (InvalidCoSignature (''Invalid transaction XDR: '' @ message))
      | Inr None \<Rightarrow> Inl (InvalidCoSignature ''fee-bump'')
      | Inr (Some tx) \<Rightarrow> Inr tx)"

text \<open>\<^verbatim>\<open>Buffer.from(s, "base64")\<close>: the text up to the first padding, characters of neither alphabet skipped, whole bytes only.\<close>

definition base64_digit :: "char \<Rightarrow> nat option" where
  "base64_digit c =
     (let n = of_char c :: nat in
      if 65 \<le> n \<and> n \<le> 90 then Some (n - 65)
      else if 97 \<le> n \<and> n \<le> 122 then Some (n - 71)
      else if 48 \<le> n \<and> n \<le> 57 then Some (n + 4)
      else if n = 43 \<or> n = 45 then Some 62
      else if n = 47 \<or> n = 95 then Some 63
      else None)"

fun base64_bytes :: "nat list \<Rightarrow> nat list" where
  "base64_bytes (a # b # c # d # ds) = [a * 4 + b div 16, (b mod 16) * 16 + c div 4, (c mod 4) * 64 + d] @ base64_bytes ds"
| "base64_bytes [a, b, c] = [a * 4 + b div 16, (b mod 16) * 16 + c div 4]"
| "base64_bytes [a, b] = [a * 4 + b div 16]"
| "base64_bytes ds = []"

definition buffer_from_base64 :: "string \<Rightarrow> nat list" where
  "buffer_from_base64 s = base64_bytes (List.map_filter base64_digit (takeWhile (\<lambda>c. c \<noteq> CHR ''='') s))"

definition decodeSignature :: "string \<Rightarrow> co_error + nat list" where
  "decodeSignature signatureBase64 =
     (if js_trim signatureBase64 = [] then Inl (InvalidCoSignature ''required'')
      else let raw = buffer_from_base64 signatureBase64 in
        if length raw \<noteq> 64 then Inl (InvalidCoSignature ''length'') else Inr raw)"

definition validatePartialSignature :: "'tx stellar_sdk \<Rightarrow> string \<Rightarrow> string \<Rightarrow> string \<Rightarrow> co_error + unit" where
  "validatePartialSignature sdk transactionXdr signerAddress signatureBase64 =
     (if \<not> sk_isPublicKey sdk signerAddress then Inl (InvalidCoSignature ''public key'')
      else case decodeSignature signatureBase64 of Inl e \<Rightarrow> Inl e | Inr signature \<Rightarrow>
        (case parseBaseTransaction sdk transactionXdr of Inl e \<Rightarrow> Inl e | Inr tx \<Rightarrow>
          if \<not> sk_verify sdk signerAddress tx signature then Inl (InvalidCoSignature ''verification'') else Inr ()))"

text \<open>The decorated signatures of the envelope: each pair of hint and signature once.\<close>

fun decorated_signatures :: "'tx stellar_sdk \<Rightarrow> (nat list \<times> nat list) list \<Rightarrow> CollectedSignature list \<Rightarrow> co_error + (nat list \<times> nat list) list" where
  "decorated_signatures sdk seen [] = Inr seen"
| "decorated_signatures sdk seen (g # gs) =
     (case decodeSignature (cg_signatureBase64 g) of Inl e \<Rightarrow> Inl e | Inr signature \<Rightarrow>
        if \<not> sk_isPublicKey sdk (cg_signerAddress g) then Inl (CoInputError ''public key'')
        else let key = (sk_signatureHint sdk (cg_signerAddress g), signature) in
          decorated_signatures sdk (if key \<in> set seen then seen else seen @ [key]) gs)"

definition combineSignaturesIntoEnvelope :: "'tx stellar_sdk \<Rightarrow> string \<Rightarrow> CollectedSignature list \<Rightarrow> co_error + string" where
  "combineSignaturesIntoEnvelope sdk transactionXdr collectedSignatures =
     (case parseBaseTransaction sdk transactionXdr of Inl e \<Rightarrow> Inl e | Inr tx \<Rightarrow>
        (case decorated_signatures sdk [] collectedSignatures of Inl e \<Rightarrow> Inl e | Inr keys \<Rightarrow> Inr (sk_toXDR sdk tx keys)))"

section \<open>Segments of the operations\<close>

definition toPublicSession :: "StoredCoSigningSession \<Rightarrow> MultiSigSession" where
  "toPublicSession s = MultiSigSession.truncate s"

definition set_session :: "string \<Rightarrow> (StoredCoSigningSession \<Rightarrow> StoredCoSigningSession) \<Rightarrow> unit co_segment" where
  "set_session sid f = pmodify (\<lambda>d. d\<lparr>cd_sessions := (cd_sessions d)(sid := map_option f (cd_sessions d sid))\<rparr>)"

definition with_session :: "string \<Rightarrow> (StoredCoSigningSession \<Rightarrow> 'a co_segment) \<Rightarrow> 'a co_segment" where
  "with_session sid k = pbind (pgets (\<lambda>d. cd_sessions d sid)) (\<lambda>found.
     case found of None \<Rightarrow> pthrow (CoSigningSessionNotFound sid) | Some s \<Rightarrow> k s)"

definition isExpired :: "StoredCoSigningSession \<Rightarrow> ms \<Rightarrow> bool" where
  "isExpired stored now \<longleftrightarrow> cs_expiresAt stored \<le> now"

definition is_open :: "StoredCoSigningSession \<Rightarrow> bool" where
  "is_open stored \<longleftrightarrow> cs_status stored = CsCollecting \<or> cs_status stored = CsReady"

definition markExpired :: "StoredCoSigningSession \<Rightarrow> unit co_segment" where
  "markExpired stored =
     (if is_open stored then set_session (cs_sessionId stored) (\<lambda>s. s\<lparr>cs_status := CsExpired\<rparr>) else pret ())"

definition createCoSigningSession :: "'tx stellar_sdk \<Rightarrow> CreateCoSigningSessionInput \<Rightarrow> ms \<Rightarrow> string \<Rightarrow> MultiSigSession co_segment" where
  "createCoSigningSession sdk input now uuid =
     (if js_trim (ci_orderId input) = [] then pthrow (CoInputError ''orderId is required'')
      else if js_trim (ci_transactionXdr input) = [] then pthrow (CoInputError ''transactionXdr is required'')
      else case parseBaseTransaction sdk (ci_transactionXdr input) of Inl e \<Rightarrow> pthrow e | Inr tx \<Rightarrow>
        (let uniqueSigners = js_unique (filter (\<lambda>a. a \<noteq> []) (map js_trim (case ci_authorizedSigners input of None \<Rightarrow> [] | Some l \<Rightarrow> l))) in
         if \<exists>a \<in> set uniqueSigners. \<not> sk_isPublicKey sdk a then pthrow (CoInputError ''authorized signer'')
         else if snd (quotient_of (ci_requiredThreshold input)) \<noteq> 1 \<or> ci_requiredThreshold input < 1
         then pthrow (CoInputError ''requiredThreshold must be a positive integer'')
         else if uniqueSigners \<noteq> [] \<and> ci_requiredThreshold input > of_nat (length uniqueSigners)
         then pthrow (CoInputError ''requiredThreshold exceeds'')
         else
           let stored = \<lparr>cs_sessionId = uuid, cs_orderId = ci_orderId input, cs_transactionXdr = ci_transactionXdr input,
                 cs_requiredThreshold = \<lfloor>ci_requiredThreshold input\<rfloor>, cs_collectedSignatures = [], cs_status = CsCollecting,
                 cs_authorizedSigners = uniqueSigners, cs_createdAt = now,
                 cs_expiresAt = now + (case ci_ttlMs input of None \<Rightarrow> DEFAULT_SESSION_TTL_MS | Some t \<Rightarrow> t),
                 cs_combinedXdr = None, cs_submissionResult = None, cs_failureReason = None\<rparr> in
           pbind (pmodify (\<lambda>d. d\<lparr>cd_sessions := (cd_sessions d)(uuid \<mapsto> stored)\<rparr>)) (\<lambda>_.
           pret (toPublicSession stored))))"

definition read_session :: "string \<Rightarrow> MultiSigSession co_segment" where
  "read_session sid = with_session sid (\<lambda>s. pret (toPublicSession s))"

definition getCoSigningSession :: "string \<Rightarrow> ms \<Rightarrow> MultiSigSession option co_segment" where
  "getCoSigningSession sid now =
     pbind (pgets (\<lambda>d. cd_sessions d sid)) (\<lambda>found. case found of
       None \<Rightarrow> pret None
     | Some stored \<Rightarrow>
         pbind (if is_open stored \<and> isExpired stored now then markExpired stored else pret ()) (\<lambda>_.
         pbind (read_session sid) (\<lambda>s. pret (Some s))))"

text \<open>\<^verbatim>\<open>addCoSignature\<close> up to the save: the signature is collected, and the result says whether the threshold is reached.\<close>

definition collect :: "'tx stellar_sdk \<Rightarrow> AddCoSignatureInput \<Rightarrow> ms \<Rightarrow> bool co_segment" where
  "collect sdk input now =
     with_session (ai_sessionId input) (\<lambda>stored.
     if isExpired stored now
     then pbind (markExpired stored) (\<lambda>_. pthrow (CoSigningSessionClosed (ai_sessionId input) CsExpired))
     else if cs_status stored \<noteq> CsCollecting then pthrow (CoSigningSessionClosed (ai_sessionId input) (cs_status stored))
     else if cs_authorizedSigners stored \<noteq> [] \<and> ai_signerAddress input \<notin> set (cs_authorizedSigners stored)
     then pthrow (UnauthorizedCoSigner (ai_signerAddress input))
     else if \<exists>g \<in> set (cs_collectedSignatures stored). cg_signerAddress g = ai_signerAddress input
     then pthrow (CoAlreadySigned (ai_signerAddress input))
     else case validatePartialSignature sdk (cs_transactionXdr stored) (ai_signerAddress input) (ai_signatureBase64 input) of
       Inl e \<Rightarrow> pthrow e
     | Inr _ \<Rightarrow>
         (let collected = cs_collectedSignatures stored @
                [\<lparr>cg_signerAddress = ai_signerAddress input, cg_signatureBase64 = ai_signatureBase64 input\<rparr>];
              enough = int (length collected) \<ge> cs_requiredThreshold stored in
          pbind (set_session (ai_sessionId input) (\<lambda>s. s\<lparr>cs_collectedSignatures := collected,
             cs_status := (if enough then CsReady else cs_status s)\<rparr>)) (\<lambda>_. pret enough)))"

text \<open>\<^verbatim>\<open>submitStoredSession\<close> up to the call of the submitter (if there is one), and from its answer on.\<close>

definition combine_and_send :: "'tx stellar_sdk \<Rightarrow> bool \<Rightarrow> string \<Rightarrow> string co_segment" where
  "combine_and_send sdk submits sid =
     with_session sid (\<lambda>stored.
     case combineSignaturesIntoEnvelope sdk (cs_transactionXdr stored) (cs_collectedSignatures stored) of
       Inl e \<Rightarrow> pthrow e
     | Inr combined \<Rightarrow>
         pbind (set_session sid (\<lambda>s. s\<lparr>cs_combinedXdr := Some combined\<rparr>)) (\<lambda>_.
         pbind (if submits then pmodify (\<lambda>d. d\<lparr>cd_sent := cd_sent d @ [(sid, combined)]\<rparr>) else pret ()) (\<lambda>_.
         pret combined)))"

definition settle :: "string \<Rightarrow> string + jsval option \<Rightarrow> unit co_segment" where
  "settle sid answer =
     (case answer of
        Inr result \<Rightarrow> set_session sid (\<lambda>s. s\<lparr>cs_submissionResult := (case result of None \<Rightarrow> cs_submissionResult s | Some v \<Rightarrow> Some v),
            cs_status := CsSubmitted\<rparr>)
      | Inl message \<Rightarrow> pbind (set_session sid (\<lambda>s. s\<lparr>cs_failureReason := Some message\<rparr>)) (\<lambda>_. pthrow (CoSubmissionError message)))"

text \<open>\<^verbatim>\<open>submitCoSigningSession\<close> up to \<^verbatim>\<open>submitStoredSession\<close>; \<open>Some\<close> is its early return.\<close>

definition start_submit :: "string \<Rightarrow> ms \<Rightarrow> MultiSigSession option co_segment" where
  "start_submit sid now =
     with_session sid (\<lambda>stored.
     if isExpired stored now
     then pbind (markExpired stored) (\<lambda>_. pthrow (CoSigningSessionClosed sid CsExpired))
     else if cs_status stored = CsSubmitted then pret (Some (toPublicSession stored))
     else if cs_status stored = CsExpired then pthrow (CoSigningSessionClosed sid (cs_status stored))
     else if int (length (cs_collectedSignatures stored)) < cs_requiredThreshold stored then pthrow (CoInputError ''Threshold not met'')
     else pbind (set_session sid (\<lambda>s. s\<lparr>cs_status := CsReady\<rparr>)) (\<lambda>_. pret None))"

definition expireCoSigningSession :: "string \<Rightarrow> ms \<Rightarrow> MultiSigSession co_segment" where
  "expireCoSigningSession sid now =
     with_session sid (\<lambda>stored.
     pbind (if is_open stored
            then if isExpired stored now then markExpired stored else set_session sid (\<lambda>s. s\<lparr>cs_status := CsExpired\<rparr>)
            else pret ()) (\<lambda>_.
     read_session sid))"

definition expireStaleCoSigningSessions :: "ms \<Rightarrow> nat co_segment" where
  "expireStaleCoSigningSessions now = pret 0"

section \<open>Operations that submit\<close>

type_synonym ('w, 'a) co_prog = "((co_db, 'w) tx_world, co_error, 'a) prog"

type_synonym 'w submitter = "string \<Rightarrow> 'w \<Rightarrow> (string + jsval) \<times> 'w"

definition segment :: "'a co_segment \<Rightarrow> ('w, 'a) co_prog" where
  "segment m = pzoom iw_db (\<lambda>d w. w\<lparr>iw_db := d\<rparr>) m"

definition ask_submitter :: "'w submitter option \<Rightarrow> string \<Rightarrow> ('w, string + jsval option) co_prog" where
  "ask_submitter submit combined =
     (case submit of
        None \<Rightarrow> pret (Inr None)
      | Some f \<Rightarrow> pbind (outside (f combined)) (\<lambda>answer. pret (map_sum id Some answer)))"

definition submitStoredSession :: "'tx stellar_sdk \<Rightarrow> 'w submitter option \<Rightarrow> string \<Rightarrow> ('w, unit) co_prog" where
  "submitStoredSession sdk submit sid =
     pbind (segment (combine_and_send sdk (submit \<noteq> None) sid)) (\<lambda>combined.
     pbind (ask_submitter submit combined) (\<lambda>answer.
     segment (settle sid answer)))"

definition addCoSignature :: "'tx stellar_sdk \<Rightarrow> 'w submitter option \<Rightarrow> AddCoSignatureInput \<Rightarrow> ms \<Rightarrow> ('w, MultiSigSession) co_prog" where
  "addCoSignature sdk submit input now =
     pbind (segment (collect sdk input now)) (\<lambda>enough.
     pbind (if enough then submitStoredSession sdk submit (ai_sessionId input) else pret ()) (\<lambda>_.
     segment (read_session (ai_sessionId input))))"

definition submitCoSigningSession :: "'tx stellar_sdk \<Rightarrow> 'w submitter option \<Rightarrow> string \<Rightarrow> ms \<Rightarrow> ('w, MultiSigSession) co_prog" where
  "submitCoSigningSession sdk submit sid now =
     pbind (segment (start_submit sid now)) (\<lambda>early. case early of
       Some s \<Rightarrow> pret s
     | None \<Rightarrow>
         pbind (submitStoredSession sdk submit sid) (\<lambda>_.
         segment (read_session sid)))"

section \<open>Interleaving\<close>

text \<open>The calls that wait: to combine the signatures, or for the submitter's answer.\<close>

datatype co_task = Combining string | Waiting string

type_synonym co_config = "co_db \<times> co_task list"

inductive co_step :: "'tx stellar_sdk \<Rightarrow> co_config \<Rightarrow> co_config \<Rightarrow> bool" for sdk where
  create: "cd_sessions d uuid = None \<Longrightarrow> co_step sdk (d, ts) (snd (createCoSigningSession sdk input now uuid d), ts)"
| look: "co_step sdk (d, ts) (snd (getCoSigningSession sid now d), ts)"
| collected: "collect sdk input now d = (Inr True, d') \<Longrightarrow> co_step sdk (d, ts) (d', Combining (ai_sessionId input) # ts)"
| partial: "collect sdk input now d = (r, d') \<Longrightarrow> r \<noteq> Inr True \<Longrightarrow> co_step sdk (d, ts) (d', ts)"
| submitting: "start_submit sid now d = (Inr None, d') \<Longrightarrow> co_step sdk (d, ts) (d', Combining sid # ts)"
| refused: "start_submit sid now d = (r, d') \<Longrightarrow> r \<noteq> Inr None \<Longrightarrow> co_step sdk (d, ts) (d', ts)"
| sent: "Combining sid \<in> set ts \<Longrightarrow> combine_and_send sdk submits sid d = (Inr x, d') \<Longrightarrow>
    co_step sdk (d, ts) (d', Waiting sid # remove1 (Combining sid) ts)"
| uncombined: "Combining sid \<in> set ts \<Longrightarrow> combine_and_send sdk submits sid d = (Inl e, d') \<Longrightarrow>
    co_step sdk (d, ts) (d', remove1 (Combining sid) ts)"
| answered: "Waiting sid \<in> set ts \<Longrightarrow> co_step sdk (d, ts) (snd (settle sid answer d), remove1 (Waiting sid) ts)"
| expire: "co_step sdk (d, ts) (snd (expireCoSigningSession sid now d), ts)"

definition co_start :: co_config where
  "co_start = (\<lparr>cd_sessions = Map.empty, cd_sent = []\<rparr>, [])"

end
