(* ===== verification/Co_Signing_Properties.thy ===== *)
theory Co_Signing_Properties
  imports Co_Signing
begin

text \<open>
  What the co-signing sessions guarantee, for any interleaving of calls: the quorum behind every submitted envelope, the whole
  operations as paths of segments, that enough signatures are submitted, and the repeated submission the code allows.
\<close>

section \<open>The quorum of every envelope\<close>

text \<open>What the library says of a text and a signature: the text is a classic transaction, and the bytes of the signature are 64 and
  verify against it under a valid public key.\<close>

definition base_transaction :: "'tx stellar_sdk \<Rightarrow> string \<Rightarrow> 'tx \<Rightarrow> bool" where
  "base_transaction sdk xdr tx \<longleftrightarrow> sk_fromXDR sdk xdr (resolveNetworkPassphrase sdk) = Inr (Some tx)"

definition signature_verifies :: "'tx stellar_sdk \<Rightarrow> string \<Rightarrow> string \<Rightarrow> string \<Rightarrow> bool" where
  "signature_verifies sdk xdr address signature \<longleftrightarrow>
     (\<exists>tx. base_transaction sdk xdr tx \<and> sk_isPublicKey sdk address \<and> length (buffer_from_base64 signature) = 64 \<and>
        sk_verify sdk address tx (buffer_from_base64 signature))"

text \<open>The envelope of a transaction with signatures: each of them decorated with the hint of its key, once, and nothing else.\<close>

definition decorated :: "'tx stellar_sdk \<Rightarrow> CollectedSignature \<Rightarrow> nat list \<times> nat list" where
  "decorated sdk g = (sk_signatureHint sdk (cg_signerAddress g), buffer_from_base64 (cg_signatureBase64 g))"

definition envelope_of :: "'tx stellar_sdk \<Rightarrow> string \<Rightarrow> CollectedSignature set \<Rightarrow> string \<Rightarrow> bool" where
  "envelope_of sdk xdr gs x \<longleftrightarrow> (\<exists>tx ks. base_transaction sdk xdr tx \<and> distinct ks \<and> set ks = decorated sdk ` gs \<and> x = sk_toXDR sdk tx ks)"

lemma parse_base: "parseBaseTransaction sdk xdr = Inr tx \<longleftrightarrow> base_transaction sdk xdr tx"
  by (auto simp: parseBaseTransaction_def base_transaction_def split: sum.splits option.splits)

lemma space_no_digit: "js_space c \<Longrightarrow> base64_digit c = None"
  by (auto simp: js_space_def base64_digit_def Let_def)

lemma blank_decodes_empty:
  assumes "js_trim s = []"
  shows "buffer_from_base64 s = []"
proof -
  have "\<forall>c \<in> set (takeWhile (\<lambda>c. c \<noteq> CHR ''='') s). base64_digit c = None"
    using assms space_no_digit by (auto simp: js_trim_all_space dest: set_takeWhileD)
  then have "List.map_filter base64_digit (takeWhile (\<lambda>c. c \<noteq> CHR ''='') s) = []" by (simp add: map_filter_def filter_empty_conv)
  then show ?thesis by (simp add: buffer_from_base64_def)
qed

lemma decode_bytes: "decodeSignature g = Inr raw \<longleftrightarrow> length (buffer_from_base64 g) = 64 \<and> raw = buffer_from_base64 g"
  using blank_decodes_empty [of g] by (auto simp: decodeSignature_def Let_def)

lemma validate_verifies: "validatePartialSignature sdk xdr a g = Inr u \<longleftrightarrow> signature_verifies sdk xdr a g"
proof -
  have "(\<exists>tx. parseBaseTransaction sdk xdr = Inr tx \<and> P tx) \<longleftrightarrow> (\<exists>tx. base_transaction sdk xdr tx \<and> P tx)" for P by (simp add: parse_base)
  moreover have "validatePartialSignature sdk xdr a g = Inr u \<longleftrightarrow> sk_isPublicKey sdk a \<and>
      (\<exists>raw. decodeSignature g = Inr raw \<and> (\<exists>tx. parseBaseTransaction sdk xdr = Inr tx \<and> sk_verify sdk a tx raw))"
    by (auto simp: validatePartialSignature_def split: sum.splits)
  ultimately show ?thesis by (auto simp: signature_verifies_def decode_bytes)
qed

lemma decorated_signatures_keys:
  assumes "decorated_signatures sdk seen gs = Inr ks" "distinct seen"
  shows "distinct ks \<and> set ks = set seen \<union> decorated sdk ` set gs"
  using assms
proof (induction gs arbitrary: seen)
  case (Cons g gs)
  let ?key = "decorated sdk g"
  have "decorated_signatures sdk (if ?key \<in> set seen then seen else seen @ [?key]) gs = Inr ks"
    using Cons.prems(1) by (auto simp: Let_def decode_bytes decorated_def split: sum.splits if_splits)
  from Cons.IH [OF this] Cons.prems(2) show ?case by (auto split: if_splits)
qed simp

lemma combine_envelope:
  "combineSignaturesIntoEnvelope sdk xdr gs = Inr x \<Longrightarrow> envelope_of sdk xdr (set gs) x"
  using decorated_signatures_keys [of sdk "[]" gs]
  by (fastforce simp: combineSignaturesIntoEnvelope_def envelope_of_def parse_base split: sum.splits)

text \<open>The signatures of a session: distinct signers, each authorised, each verified against the transaction.\<close>

definition signatures_ok :: "'tx stellar_sdk \<Rightarrow> StoredCoSigningSession \<Rightarrow> bool" where
  "signatures_ok sdk s \<longleftrightarrow>
     distinct (map cg_signerAddress (cs_collectedSignatures s)) \<and>
     (\<forall>g \<in> set (cs_collectedSignatures s).
        (cs_authorizedSigners s = [] \<or> cg_signerAddress g \<in> set (cs_authorizedSigners s)) \<and>
        signature_verifies sdk (cs_transactionXdr s) (cg_signerAddress g) (cg_signatureBase64 g))"

definition co_quorum :: "StoredCoSigningSession \<Rightarrow> bool" where
  "co_quorum s \<longleftrightarrow> cs_requiredThreshold s \<le> int (length (cs_collectedSignatures s))"

definition session_ok :: "'tx stellar_sdk \<Rightarrow> string \<Rightarrow> StoredCoSigningSession \<Rightarrow> bool" where
  "session_ok sdk sid s \<longleftrightarrow> cs_sessionId s = sid \<and> 1 \<le> cs_requiredThreshold s \<and> signatures_ok sdk s \<and>
     (\<exists>tx. base_transaction sdk (cs_transactionXdr s) tx) \<and>
     (cs_status s = CsCollecting \<longrightarrow> \<not> co_quorum s) \<and> (cs_status s \<in> {CsReady, CsSubmitted} \<longrightarrow> co_quorum s)"

text \<open>What was sent for a session: the envelope of its transaction with its signatures, which are a quorum.\<close>

definition sent_ok :: "'tx stellar_sdk \<Rightarrow> StoredCoSigningSession \<Rightarrow> string \<Rightarrow> bool" where
  "sent_ok sdk s x \<longleftrightarrow> co_quorum s \<and> signatures_ok sdk s \<and> envelope_of sdk (cs_transactionXdr s) (set (cs_collectedSignatures s)) x"

definition co_db_ok :: "'tx stellar_sdk \<Rightarrow> co_db \<Rightarrow> bool" where
  "co_db_ok sdk d \<longleftrightarrow> (\<forall>sid s. cd_sessions d sid = Some s \<longrightarrow> session_ok sdk sid s) \<and>
     (\<forall>sid x. (sid, x) \<in> set (cd_sent d) \<longrightarrow> (\<exists>s. cd_sessions d sid = Some s \<and> sent_ok sdk s x))"

text \<open>A session evolves: no field but the signatures, the status and the outcome changes, and a quorum is not touched.\<close>

definition session_step :: "StoredCoSigningSession \<Rightarrow> StoredCoSigningSession \<Rightarrow> bool" where
  "session_step s s' \<longleftrightarrow>
     cs_transactionXdr s' = cs_transactionXdr s \<and> cs_authorizedSigners s' = cs_authorizedSigners s \<and>
     cs_requiredThreshold s' = cs_requiredThreshold s \<and> (co_quorum s \<longrightarrow> cs_collectedSignatures s' = cs_collectedSignatures s)"

definition co_later :: "co_db \<Rightarrow> co_db \<Rightarrow> bool" where
  "co_later d d' \<longleftrightarrow> (\<forall>sid s. cd_sessions d sid = Some s \<longrightarrow> (\<exists>s'. cd_sessions d' sid = Some s' \<and> session_step s s'))"

lemma session_step_refl [simp]: "session_step s s"
  by (simp add: session_step_def)

lemma session_step_sent: "session_step s s' \<Longrightarrow> sent_ok sdk s x \<Longrightarrow> sent_ok sdk s' x"
  by (auto simp: session_step_def sent_ok_def signatures_ok_def co_quorum_def)

lemma session_step_quorum: "session_step s s' \<Longrightarrow> co_quorum s \<Longrightarrow> co_quorum s'"
  by (auto simp: session_step_def co_quorum_def)

lemma co_later_refl [simp]: "co_later d d"
  by (simp add: co_later_def)

lemma co_db_session: "co_db_ok sdk d \<Longrightarrow> cd_sessions d sid = Some s \<Longrightarrow> session_ok sdk sid s"
  by (simp add: co_db_ok_def)

lemma co_db_sent: "co_db_ok sdk d \<Longrightarrow> (sid, x) \<in> set (cd_sent d) \<Longrightarrow> \<exists>s. cd_sessions d sid = Some s \<and> sent_ok sdk s x"
  unfolding co_db_ok_def by blast

text \<open>One change of one session.\<close>

lemma set_session_ok:
  assumes ok: "co_db_ok sdk d" and s: "cd_sessions d sid = Some s" and f: "session_ok sdk sid (f s)" "session_step s (f s)"
    and d': "d' = d\<lparr>cd_sessions := (cd_sessions d)(sid \<mapsto> f s)\<rparr>"
  shows "co_db_ok sdk d' \<and> co_later d d'"
proof
  show "co_db_ok sdk d'" unfolding co_db_ok_def d'
  proof (intro conjI allI impI)
    fix i t assume "cd_sessions (d\<lparr>cd_sessions := (cd_sessions d)(sid \<mapsto> f s)\<rparr>) i = Some t"
    with ok f(1) show "session_ok sdk i t" by (auto simp: co_db_ok_def split: if_splits)
  next
    fix i x assume "(i, x) \<in> set (cd_sent (d\<lparr>cd_sessions := (cd_sessions d)(sid \<mapsto> f s)\<rparr>))"
    then obtain t where "cd_sessions d i = Some t" "sent_ok sdk t x" using co_db_sent [OF ok] by auto
    with s f(2) show "\<exists>t. cd_sessions (d\<lparr>cd_sessions := (cd_sessions d)(sid \<mapsto> f s)\<rparr>) i = Some t \<and> sent_ok sdk t x"
      by (auto dest: session_step_sent)
  qed
  show "co_later d d'" using s f(2) by (auto simp: co_later_def d')
qed

lemma set_session_apply:
  "cd_sessions d sid = Some s \<Longrightarrow> set_session sid f d = (Inr (), d\<lparr>cd_sessions := (cd_sessions d)(sid \<mapsto> f s)\<rparr>)"
  by (simp add: set_session_def pmodify_apply)

text \<open>The specification every segment meets, for one start.\<close>

definition co_safe :: "'tx stellar_sdk \<Rightarrow> co_db \<Rightarrow> 'a co_segment \<Rightarrow> bool" where
  "co_safe sdk d m \<longleftrightarrow> co_db_ok sdk (snd (m d)) \<and> co_later d (snd (m d))"

lemma co_safe_with_session:
  assumes "co_db_ok sdk d" and "\<And>s. cd_sessions d sid = Some s \<Longrightarrow> session_ok sdk sid s \<Longrightarrow> co_safe sdk d (k s)"
  shows "co_safe sdk d (with_session sid k)"
  using assms co_db_session [OF assms(1)] unfolding co_safe_def with_session_def by (auto simp: prog_simps split: option.splits)

lemma co_safe_set:
  assumes "co_db_ok sdk d" "cd_sessions d sid = Some s" "session_ok sdk sid (f s)" "session_step s (f s)"
  shows "co_safe sdk d (pbind (set_session sid f) (\<lambda>_. pret a))"
  using set_session_ok [where f = f, OF assms refl] assms(2) by (simp add: co_safe_def pbind_apply set_session_apply pret_apply)

lemma co_safe_set_throw:
  assumes "co_db_ok sdk d" "cd_sessions d sid = Some s" "session_ok sdk sid (f s)" "session_step s (f s)"
  shows "co_safe sdk d (pbind (set_session sid f) (\<lambda>_. pthrow e))"
  using set_session_ok [where f = f, OF assms refl] assms(2) by (simp add: co_safe_def pbind_apply set_session_apply pthrow_apply)

lemma co_safe_pret: "co_db_ok sdk d \<Longrightarrow> co_safe sdk d (pret a)"
  by (simp add: co_safe_def pret_apply)

lemma co_safe_pthrow: "co_db_ok sdk d \<Longrightarrow> co_safe sdk d (pthrow e)"
  by (simp add: co_safe_def pthrow_apply)

lemma co_safe_if: "(b \<Longrightarrow> co_safe sdk d m) \<Longrightarrow> (\<not> b \<Longrightarrow> co_safe sdk d m') \<Longrightarrow> co_safe sdk d (if b then m else m')"
  by simp

lemma co_safe_sum:
  "(\<And>e. x = Inl e \<Longrightarrow> co_safe sdk d (f e)) \<Longrightarrow> (\<And>y. x = Inr y \<Longrightarrow> co_safe sdk d (g y)) \<Longrightarrow> co_safe sdk d (case x of Inl e \<Rightarrow> f e | Inr y \<Rightarrow> g y)"
  by (cases x) auto

text \<open>A segment whose last part only reads.\<close>

lemma co_safe_then:
  assumes "co_safe sdk d m" "\<And>a d. snd (k a d) = d"
  shows "co_safe sdk d (pbind m k)"
  using assms by (auto simp: co_safe_def pbind_apply split: prod.splits sum.splits)

lemma with_session_reads: "(\<And>s d. snd (k s d) = d) \<Longrightarrow> snd (with_session sid k d) = d"
  by (auto simp: with_session_def prog_simps split: option.splits)

lemma read_session_reads [simp]: "snd (read_session sid d) = d"
  unfolding read_session_def by (rule with_session_reads) (simp add: pret_apply)

lemma expire_session_ok: "session_ok sdk sid s \<Longrightarrow> session_ok sdk sid (s\<lparr>cs_status := CsExpired\<rparr>) \<and> session_step s (s\<lparr>cs_status := CsExpired\<rparr>)"
  by (auto simp: session_ok_def session_step_def signatures_ok_def co_quorum_def)

lemma session_expire_ok:
  assumes "co_db_ok sdk d" "cd_sessions d sid = Some s"
  shows "co_safe sdk d (set_session sid (\<lambda>s. s\<lparr>cs_status := CsExpired\<rparr>))"
  using co_safe_set [OF assms, of "\<lambda>s. s\<lparr>cs_status := CsExpired\<rparr>" "()"] expire_session_ok [OF co_db_session [OF assms]]
  by (simp add: pbind_pret_right)

lemma markExpired_ok:
  assumes "co_db_ok sdk d" "cd_sessions d sid = Some s"
  shows "co_safe sdk d (markExpired s)"
proof -
  have "cs_sessionId s = sid" using co_db_session [OF assms] by (simp add: session_ok_def)
  then show ?thesis unfolding markExpired_def using session_expire_ok [OF assms] by (auto intro!: co_safe_if co_safe_pret assms)
qed

section \<open>The segments are safe\<close>

lemma getCoSigningSession_safe:
  assumes ok: "co_db_ok sdk d"
  shows "co_safe sdk d (getCoSigningSession sid now)"
proof (cases "cd_sessions d sid")
  case None
  then show ?thesis using ok by (simp add: co_safe_def getCoSigningSession_def prog_simps)
next
  case (Some s)
  have "co_safe sdk d (pbind (if is_open s \<and> isExpired s now then markExpired s else pret ()) (\<lambda>_. pbind (read_session sid) (\<lambda>s. pret (Some s))))"
    by (intro co_safe_then co_safe_if markExpired_ok [OF ok Some] co_safe_pret ok)
       (auto simp: pbind_apply pret_apply split: prod.splits sum.splits dest: arg_cong [of _ _ snd])
  with Some show ?thesis by (simp add: co_safe_def getCoSigningSession_def pbind_apply pgets_apply)
qed

lemma expireCoSigningSession_safe:
  assumes ok: "co_db_ok sdk d"
  shows "co_safe sdk d (expireCoSigningSession sid now)"
  unfolding expireCoSigningSession_def
  by (intro co_safe_with_session co_safe_then co_safe_if markExpired_ok session_expire_ok co_safe_pret ok) (assumption | simp)+

lemma start_submit_safe:
  assumes ok: "co_db_ok sdk d"
  shows "co_safe sdk d (start_submit sid now)"
  unfolding start_submit_def
proof (intro co_safe_with_session co_safe_if co_safe_pret co_safe_pthrow ok)
  fix s assume "cd_sessions d sid = Some s"
  then show "co_safe sdk d (pbind (markExpired s) (\<lambda>_. pthrow (CoSigningSessionClosed sid CsExpired)))"
    by (intro co_safe_then markExpired_ok ok) (simp_all add: pthrow_apply)
next
  fix s assume "cd_sessions d sid = Some s" "session_ok sdk sid s" "\<not> int (length (cs_collectedSignatures s)) < cs_requiredThreshold s"
  then show "co_safe sdk d (pbind (set_session sid (\<lambda>s. s\<lparr>cs_status := CsReady\<rparr>)) (\<lambda>_. pret None))"
    by (intro co_safe_set ok) (auto simp: session_ok_def session_step_def signatures_ok_def co_quorum_def)
qed

lemma createCoSigningSession_safe:
  assumes ok: "co_db_ok sdk d" and fresh: "cd_sessions d uuid = None"
  shows "co_safe sdk d (createCoSigningSession sdk input now uuid)"
proof -
  have "co_safe sdk d (pbind (pmodify (\<lambda>d. d\<lparr>cd_sessions := (cd_sessions d)(uuid \<mapsto> s)\<rparr>)) (\<lambda>_. pret a))"
    if s: "session_ok sdk uuid s" for s and a :: MultiSigSession
  proof -
    have "co_db_ok sdk (d\<lparr>cd_sessions := (cd_sessions d)(uuid \<mapsto> s)\<rparr>)" unfolding co_db_ok_def
    proof (intro conjI allI impI)
      fix i t assume "cd_sessions (d\<lparr>cd_sessions := (cd_sessions d)(uuid \<mapsto> s)\<rparr>) i = Some t"
      with s co_db_session [OF ok] show "session_ok sdk i t" by (auto split: if_splits)
    next
      fix i x assume "(i, x) \<in> set (cd_sent (d\<lparr>cd_sessions := (cd_sessions d)(uuid \<mapsto> s)\<rparr>))"
      then obtain t where t: "cd_sessions d i = Some t" "sent_ok sdk t x" using co_db_sent [OF ok] by auto
      with fresh have "i \<noteq> uuid" by auto
      with t show "\<exists>t. cd_sessions (d\<lparr>cd_sessions := (cd_sessions d)(uuid \<mapsto> s)\<rparr>) i = Some t \<and> sent_ok sdk t x" by simp
    qed
    then show ?thesis using fresh by (auto simp: co_safe_def co_later_def prog_simps)
  qed
  note stored = this
  show ?thesis unfolding createCoSigningSession_def Let_def
  proof (intro co_safe_if co_safe_sum co_safe_pthrow ok stored)
    fix tx :: 'a assume "parseBaseTransaction sdk (ci_transactionXdr input) = Inr tx"
      "\<not> (snd (quotient_of (ci_requiredThreshold input)) \<noteq> 1 \<or> ci_requiredThreshold input < 1)"
    then show "session_ok sdk uuid
       \<lparr>cs_sessionId = uuid, cs_orderId = ci_orderId input, cs_transactionXdr = ci_transactionXdr input,
        cs_requiredThreshold = \<lfloor>ci_requiredThreshold input\<rfloor>, cs_collectedSignatures = [], cs_status = CsCollecting,
        cs_authorizedSigners = js_unique (filter (\<lambda>a. a \<noteq> []) (map js_trim (case ci_authorizedSigners input of None \<Rightarrow> [] | Some l \<Rightarrow> l))),
        cs_createdAt = now, cs_expiresAt = now + (case ci_ttlMs input of None \<Rightarrow> DEFAULT_SESSION_TTL_MS | Some t \<Rightarrow> t),
        cs_combinedXdr = None, cs_submissionResult = None, cs_failureReason = None\<rparr>"
      by (auto simp: session_ok_def signatures_ok_def co_quorum_def le_floor_iff parse_base)
  qed
qed

lemma collected_ok:
  assumes s: "session_ok sdk sid s" "cs_status s = CsCollecting"
    and g: "cs_authorizedSigners s = [] \<or> cg_signerAddress g \<in> set (cs_authorizedSigners s)" "\<forall>h \<in> set (cs_collectedSignatures s). cg_signerAddress h \<noteq> cg_signerAddress g"
      "signature_verifies sdk (cs_transactionXdr s) (cg_signerAddress g) (cg_signatureBase64 g)"
    and s': "s' = s\<lparr>cs_collectedSignatures := cs_collectedSignatures s @ [g], cs_status :=
      (if int (length (cs_collectedSignatures s @ [g])) \<ge> cs_requiredThreshold s then CsReady else cs_status s)\<rparr>"
  shows "session_ok sdk sid s' \<and> session_step s s'"
  using assms by (auto simp: session_ok_def session_step_def signatures_ok_def co_quorum_def)

lemma collect_safe:
  assumes ok: "co_db_ok sdk d"
  shows "co_safe sdk d (collect sdk input now)"
  unfolding collect_def Let_def
proof (intro co_safe_with_session co_safe_if co_safe_sum co_safe_pthrow ok)
  fix s assume "cd_sessions d (ai_sessionId input) = Some s"
  then show "co_safe sdk d (pbind (markExpired s) (\<lambda>_. pthrow (CoSigningSessionClosed (ai_sessionId input) CsExpired)))"
    by (intro co_safe_then markExpired_ok ok) (simp_all add: pthrow_apply)
next
  fix s :: StoredCoSigningSession and u :: unit
  let ?g = "\<lparr>cg_signerAddress = ai_signerAddress input, cg_signatureBase64 = ai_signatureBase64 input\<rparr>"
  let ?enough = "int (length (cs_collectedSignatures s @ [?g])) \<ge> cs_requiredThreshold s"
  assume s: "cd_sessions d (ai_sessionId input) = Some s" "session_ok sdk (ai_sessionId input) s" and "\<not> cs_status s \<noteq> CsCollecting"
    "\<not> (cs_authorizedSigners s \<noteq> [] \<and> ai_signerAddress input \<notin> set (cs_authorizedSigners s))"
    "\<not> (\<exists>g \<in> set (cs_collectedSignatures s). cg_signerAddress g = ai_signerAddress input)"
    "validatePartialSignature sdk (cs_transactionXdr s) (ai_signerAddress input) (ai_signatureBase64 input) = Inr u"
  then have "session_ok sdk (ai_sessionId input) (s\<lparr>cs_collectedSignatures := cs_collectedSignatures s @ [?g], cs_status := (if ?enough then CsReady else cs_status s)\<rparr>) \<and>
     session_step s (s\<lparr>cs_collectedSignatures := cs_collectedSignatures s @ [?g], cs_status := (if ?enough then CsReady else cs_status s)\<rparr>)"
    by (intro collected_ok [where g = ?g]) (auto simp: validate_verifies)
  then show "co_safe sdk d (pbind (set_session (ai_sessionId input) (\<lambda>t. t\<lparr>cs_collectedSignatures := cs_collectedSignatures s @ [?g],
     cs_status := (if ?enough then CsReady else cs_status t)\<rparr>)) (\<lambda>_. pret ?enough))"
    using s by (intro co_safe_set ok) auto
qed

lemma combine_and_send_safe:
  assumes ok: "co_db_ok sdk d" and s: "cd_sessions d sid = Some s" "co_quorum s"
  shows "co_safe sdk d (combine_and_send sdk submits sid)"
proof (cases "combineSignaturesIntoEnvelope sdk (cs_transactionXdr s) (cs_collectedSignatures s)")
  case (Inl e)
  with ok s show ?thesis by (simp add: co_safe_def combine_and_send_def with_session_def prog_simps)
next
  case (Inr x)
  let ?s = "s\<lparr>cs_combinedXdr := Some x\<rparr>" and ?d = "d\<lparr>cd_sessions := (cd_sessions d)(sid \<mapsto> s\<lparr>cs_combinedXdr := Some x\<rparr>)\<rparr>"
  have so: "session_ok sdk sid s" using ok s(1) by (rule co_db_session)
  have "session_ok sdk sid ?s" "session_step s ?s" using so by (auto simp: session_ok_def session_step_def signatures_ok_def co_quorum_def)
  then have d: "co_db_ok sdk ?d" "co_later d ?d"
    using set_session_ok [where f = "\<lambda>s. s\<lparr>cs_combinedXdr := Some x\<rparr>", OF ok s(1) _ _ refl] by auto
  have "sent_ok sdk ?s x" using so s(2) combine_envelope [OF Inr] by (auto simp: sent_ok_def session_ok_def signatures_ok_def co_quorum_def)
  with d have "co_db_ok sdk (?d\<lparr>cd_sent := cd_sent d @ [(sid, x)]\<rparr>)" "co_later d (?d\<lparr>cd_sent := cd_sent d @ [(sid, x)]\<rparr>)"
    by (auto simp: co_db_ok_def co_later_def)
  with d s(1) Inr show ?thesis
    by (auto simp: co_safe_def combine_and_send_def with_session_def prog_simps set_session_apply)
qed

lemma settle_safe:
  assumes ok: "co_db_ok sdk d" and s: "cd_sessions d sid = Some s" "co_quorum s"
  shows "co_safe sdk d (settle sid answer)"
proof -
  have "session_ok sdk sid s" using ok s(1) by (rule co_db_session)
  then have 1: "session_ok sdk sid (s\<lparr>cs_failureReason := m\<rparr>)" "session_step s (s\<lparr>cs_failureReason := m\<rparr>)"
    "session_ok sdk sid (s\<lparr>cs_submissionResult := r, cs_status := CsSubmitted\<rparr>)" "session_step s (s\<lparr>cs_submissionResult := r, cs_status := CsSubmitted\<rparr>)" for m r
    using s(2) by (auto simp: session_ok_def session_step_def signatures_ok_def co_quorum_def)
  show ?thesis
  proof (cases answer)
    case (Inl m)
    then show ?thesis unfolding settle_def using 1 co_safe_set_throw [where f = "\<lambda>s. s\<lparr>cs_failureReason := Some m\<rparr>", OF ok s(1)] by simp
  next
    case (Inr r)
    let ?f = "\<lambda>s. s\<lparr>cs_submissionResult := (case r of None \<Rightarrow> cs_submissionResult s | Some v \<Rightarrow> Some v), cs_status := CsSubmitted\<rparr>"
    show ?thesis unfolding settle_def Inr using 1 co_safe_set [where f = ?f and a = "()", OF ok s(1)] by (simp add: pbind_pret_right)
  qed
qed

section \<open>Every interleaving\<close>

fun task_session :: "co_task \<Rightarrow> string" where
  "task_session (Combining sid) = sid"
| "task_session (Waiting sid) = sid"

definition co_inv :: "'tx stellar_sdk \<Rightarrow> co_config \<Rightarrow> bool" where
  "co_inv sdk c \<longleftrightarrow> co_db_ok sdk (fst c) \<and> (\<forall>t \<in> set (snd c). \<exists>s. cd_sessions (fst c) (task_session t) = Some s \<and> co_quorum s)"

lemma co_inv_step:
  assumes "co_inv sdk (d, ts)" and "co_db_ok sdk d' \<and> co_later d d'"
    and new: "\<And>t. t \<in> set ts' \<Longrightarrow> t \<in> set ts \<or> (\<exists>s. cd_sessions d' (task_session t) = Some s \<and> co_quorum s)"
  shows "co_inv sdk (d', ts')"
proof -
  have "\<exists>s. cd_sessions d' (task_session t) = Some s \<and> co_quorum s" if t: "t \<in> set ts'" for t
  proof (cases "t \<in> set ts")
    case True
    then obtain s where "cd_sessions d (task_session t) = Some s" "co_quorum s" using assms(1) by (auto simp: co_inv_def)
    with assms(2) show ?thesis unfolding co_later_def using session_step_quorum by blast
  next
    case False
    with new [OF t] show ?thesis by blast
  qed
  with assms(2) show ?thesis by (simp add: co_inv_def)
qed

lemma collect_enough:
  "collect sdk input now d = (Inr True, d') \<Longrightarrow> \<exists>s. cd_sessions d' (ai_sessionId input) = Some s \<and> co_quorum s"
  by (auto simp: collect_def with_session_def prog_simps markExpired_def set_session_def co_quorum_def Let_def
      split: option.splits if_splits sum.splits)

lemma start_submit_ready:
  "start_submit sid now d = (Inr None, d') \<Longrightarrow> \<exists>s. cd_sessions d' sid = Some s \<and> co_quorum s"
  by (auto simp: start_submit_def with_session_def prog_simps markExpired_def set_session_def co_quorum_def
      split: option.splits if_splits)

lemma co_safeD: "co_safe sdk d m \<Longrightarrow> m d = (r, d') \<Longrightarrow> co_db_ok sdk d' \<and> co_later d d'"
  by (simp add: co_safe_def)

lemma co_step_inv:
  assumes "co_step sdk c c'" "co_inv sdk c"
  shows "co_inv sdk c'"
  using assms
proof (induction rule: co_step.induct)
  case (create d uuid ts input now)
  then have "co_safe sdk d (createCoSigningSession sdk input now uuid)" by (intro createCoSigningSession_safe) (simp_all add: co_inv_def)
  then show ?case using co_inv_step [OF create.prems] by (simp add: co_safe_def)
next
  case (look d ts sid now)
  then have "co_safe sdk d (getCoSigningSession sid now)" by (intro getCoSigningSession_safe) (simp add: co_inv_def)
  then show ?case using co_inv_step [OF look.prems] by (simp add: co_safe_def)
next
  case (collected input now d d' ts)
  then have safe: "co_safe sdk d (collect sdk input now)" by (intro collect_safe) (simp add: co_inv_def)
  show ?case by (rule co_inv_step [OF collected.prems co_safeD [OF safe collected.hyps]]) (use collect_enough [OF collected.hyps] in auto)
next
  case (partial input now d r d' ts)
  then have safe: "co_safe sdk d (collect sdk input now)" by (intro collect_safe) (simp add: co_inv_def)
  show ?case by (rule co_inv_step [OF partial.prems co_safeD [OF safe partial.hyps(1)]]) simp
next
  case (submitting sid now d d' ts)
  then have safe: "co_safe sdk d (start_submit sid now)" by (intro start_submit_safe) (simp add: co_inv_def)
  show ?case by (rule co_inv_step [OF submitting.prems co_safeD [OF safe submitting.hyps]]) (use start_submit_ready [OF submitting.hyps] in auto)
next
  case (refused sid now d r d' ts)
  then have safe: "co_safe sdk d (start_submit sid now)" by (intro start_submit_safe) (simp add: co_inv_def)
  show ?case by (rule co_inv_step [OF refused.prems co_safeD [OF safe refused.hyps(1)]]) simp
next
  case (sent sid ts submits d x d')
  then obtain s where s: "cd_sessions d sid = Some s" "co_quorum s" and ok: "co_db_ok sdk d" by (fastforce simp: co_inv_def)
  note safe = co_safeD [OF combine_and_send_safe [OF ok s] sent.hyps(2)]
  then obtain s' where "cd_sessions d' sid = Some s'" "co_quorum s'" using s session_step_quorum unfolding co_later_def by blast
  then show ?case by (intro co_inv_step [OF sent.prems safe]) (auto dest: notin_set_remove1)
next
  case (uncombined sid ts submits d e d')
  then obtain s where s: "cd_sessions d sid = Some s" "co_quorum s" and ok: "co_db_ok sdk d" by (fastforce simp: co_inv_def)
  show ?case by (intro co_inv_step [OF uncombined.prems co_safeD [OF combine_and_send_safe [OF ok s] uncombined.hyps(2)]]) (auto dest: notin_set_remove1)
next
  case (answered sid ts d answer)
  then obtain s where s: "cd_sessions d sid = Some s" "co_quorum s" and ok: "co_db_ok sdk d" by (fastforce simp: co_inv_def)
  show ?case by (intro co_inv_step [OF answered.prems settle_safe [OF ok s, unfolded co_safe_def]]) (auto dest: notin_set_remove1)
next
  case (expire d ts sid now)
  then have "co_safe sdk d (expireCoSigningSession sid now)" by (intro expireCoSigningSession_safe) (simp add: co_inv_def)
  then show ?case using co_inv_step [OF expire.prems] by (simp add: co_safe_def)
qed

lemma co_steps_inv: "(co_step sdk)\<^sup>*\<^sup>* c c' \<Longrightarrow> co_inv sdk c \<Longrightarrow> co_inv sdk c'"
  by (induction rule: rtranclp_induct) (auto intro: co_step_inv)

lemma co_start_inv: "co_inv sdk co_start"
  by (simp add: co_inv_def co_start_def co_db_ok_def)

text \<open>C15: Whatever calls run at the same time and however their segments interleave: every envelope handed to the submitter is the
  library's encoding of the session's transaction with the decorated signatures of the session, each once and no other; these
  signatures are at least as many as the threshold, by different signers, each authorised for the session and each verified by the
  library against that transaction; and a session counts as submitted only with such a quorum.\<close>

theorem cosigning_quorum:
  assumes "(co_step sdk)\<^sup>*\<^sup>* co_start (d, ts)"
  shows "(\<forall>sid x. (sid, x) \<in> set (cd_sent d) \<longrightarrow> (\<exists>s. cd_sessions d sid = Some s \<and> sent_ok sdk s x)) \<and>
    (\<forall>sid s. cd_sessions d sid = Some s \<and> cs_status s = CsSubmitted \<longrightarrow> co_quorum s \<and> signatures_ok sdk s)"
proof -
  have ok: "co_db_ok sdk d" using co_steps_inv [OF assms co_start_inv] by (simp add: co_inv_def)
  have "co_quorum s \<and> signatures_ok sdk s" if "cd_sessions d sid = Some s" "cs_status s = CsSubmitted" for sid s
    using co_db_session [OF ok that(1)] that(2) by (simp add: session_ok_def)
  with co_db_sent [OF ok] show ?thesis by blast
qed

section \<open>Whole operations are paths of segments\<close>

lemma segment_run: "segment m w = (r, w') \<Longrightarrow> m (iw_db w) = (r, iw_db w')"
  by (auto simp: segment_def pzoom_apply split: prod.splits)

lemma segment_apply: "m (iw_db w) = (r, d) \<Longrightarrow> segment m w = (r, w\<lparr>iw_db := d\<rparr>)"
  by (simp add: segment_def pzoom_apply)

lemma ask_submitter_returns: "\<exists>answer x. ask_submitter submit combined w = (Inr answer, w\<lparr>iw_ext := x\<rparr>)"
  by (cases submit) (auto simp: ask_submitter_def prog_simps outside_def split: prod.splits intro: exI [of _ "iw_ext w"])

lemma submitStoredSession_path:
  assumes run: "submitStoredSession sdk submit sid w = (r, w')"
  shows "(co_step sdk)\<^sup>*\<^sup>* (iw_db w, Combining sid # ts) (iw_db w', ts)"
proof -
  obtain b where b: "b = (submit \<noteq> None)" by blast
  obtain q d where Pair: "combine_and_send sdk b sid (iw_db w) = (q, d)" by fastforce
  then have seg: "segment (combine_and_send sdk b sid) w = (q, w\<lparr>iw_db := d\<rparr>)" by (rule segment_apply)
  show ?thesis
  proof (cases q)
    case (Inl e)
    have "iw_db w' = d" using run Inl by (auto simp: submitStoredSession_def b [symmetric] pbind_apply seg simp del: not_None_eq)
    moreover have "co_step sdk (iw_db w, Combining sid # ts) (d, remove1 (Combining sid) (Combining sid # ts))"
      by (rule co_step.uncombined) (use Pair Inl in auto)
    ultimately show ?thesis by auto
  next
    case (Inr x)
    obtain answer y where a: "ask_submitter submit x (w\<lparr>iw_db := d\<rparr>) = (Inr answer, w\<lparr>iw_db := d, iw_ext := y\<rparr>)"
      using ask_submitter_returns [of submit x "w\<lparr>iw_db := d\<rparr>"] by auto
    have "segment (settle sid answer) (w\<lparr>iw_db := d, iw_ext := y\<rparr>) = (r, w')"
      using run Inr a by (simp add: submitStoredSession_def b [symmetric] pbind_apply seg del: not_None_eq)
    then have "iw_db w' = snd (settle sid answer d)" by (auto dest!: segment_run)
    moreover have "co_step sdk (iw_db w, Combining sid # ts) (d, Waiting sid # remove1 (Combining sid) (Combining sid # ts))"
      by (rule co_step.sent) (use Pair Inr in auto)
    moreover have "co_step sdk (d, Waiting sid # ts) (snd (settle sid answer d), remove1 (Waiting sid) (Waiting sid # ts))"
      by (rule co_step.answered) simp
    ultimately show ?thesis by (auto intro: converse_rtranclp_into_rtranclp)
  qed
qed

lemma segment_read [simp]: "iw_db (snd (segment (read_session sid) w)) = iw_db w"
  using read_session_reads [of sid "iw_db w"] by (cases "read_session sid (iw_db w)") (simp add: segment_def pzoom_apply)

lemma read_after: "iw_db (snd (pbind m (\<lambda>_. segment (read_session sid)) w)) = iw_db (snd (m w))"
  by (cases "m w") (auto simp: pbind_apply split: sum.splits)

text \<open>A whole call of \<^verbatim>\<open>addCoSignature\<close> or \<^verbatim>\<open>submitCoSigningSession\<close>, with any submitter and any result, is a path of the
  segments that may interleave with other calls, so that what holds on every path holds of the calls as they are written.\<close>

theorem cosigning_calls_are_paths:
  "(co_step sdk)\<^sup>*\<^sup>* (iw_db w, ts) (iw_db (snd (addCoSignature sdk submit input now w)), ts) \<and>
   (co_step sdk)\<^sup>*\<^sup>* (iw_db w, ts) (iw_db (snd (submitCoSigningSession sdk submit sid now w)), ts)"
proof
  obtain q d where c: "collect sdk input now (iw_db w) = (q, d)" by fastforce
  then have seg: "segment (collect sdk input now) w = (q, w\<lparr>iw_db := d\<rparr>)" by (rule segment_apply)
  let ?w = "w\<lparr>iw_db := d\<rparr>"
  show "(co_step sdk)\<^sup>*\<^sup>* (iw_db w, ts) (iw_db (snd (addCoSignature sdk submit input now w)), ts)"
  proof (cases "q = Inr True")
    case True
    obtain r w1 where 1: "submitStoredSession sdk submit (ai_sessionId input) ?w = (r, w1)" by fastforce
    have "iw_db (snd (addCoSignature sdk submit input now w)) = iw_db w1"
      using True 1
      by (simp add: read_after addCoSignature_def seg pbind_apply [of "segment (collect sdk input now)"])
    moreover have "co_step sdk (iw_db w, ts) (d, Combining (ai_sessionId input) # ts)" using c True by (auto intro: co_step.collected)
    ultimately show ?thesis using submitStoredSession_path [OF 1, where ts = ts] by (auto intro: converse_rtranclp_into_rtranclp)
  next
    case False
    have "iw_db (snd (addCoSignature sdk submit input now w)) = d"
    proof (cases q)
      case (Inl e)
      then show ?thesis by (simp add: addCoSignature_def seg pbind_apply)
    next
      case (Inr b)
      with False have "\<not> b" by auto
      with Inr show ?thesis
        by (simp add: read_after addCoSignature_def seg pbind_apply [of "segment (collect sdk input now)"] pret_apply)
    qed
    with co_step.partial [OF c False, where ts = ts] show ?thesis by auto
  qed
next
  obtain q d where c: "start_submit sid now (iw_db w) = (q, d)" by fastforce
  then have seg: "segment (start_submit sid now) w = (q, w\<lparr>iw_db := d\<rparr>)" by (rule segment_apply)
  let ?w = "w\<lparr>iw_db := d\<rparr>"
  show "(co_step sdk)\<^sup>*\<^sup>* (iw_db w, ts) (iw_db (snd (submitCoSigningSession sdk submit sid now w)), ts)"
  proof (cases "q = Inr None")
    case True
    obtain r w1 where 1: "submitStoredSession sdk submit sid ?w = (r, w1)" by fastforce
    have "iw_db (snd (submitCoSigningSession sdk submit sid now w)) = iw_db w1"
      using True 1
      by (simp add: read_after submitCoSigningSession_def seg pbind_apply [of "segment (start_submit sid now)"])
    moreover have "co_step sdk (iw_db w, ts) (d, Combining sid # ts)" using c True by (auto intro: co_step.submitting)
    ultimately show ?thesis using submitStoredSession_path [OF 1, where ts = ts] by (auto intro: converse_rtranclp_into_rtranclp)
  next
    case False
    then have "iw_db (snd (submitCoSigningSession sdk submit sid now w)) = d"
      by (auto simp: submitCoSigningSession_def seg pbind_apply pret_apply split: sum.splits option.splits)
    with co_step.refused [OF c False, where ts = ts] show ?thesis by auto
  qed
qed

section \<open>Enough signatures are submitted\<close>

lemma decorated_total:
  "\<forall>g \<in> set gs. signature_verifies sdk x (cg_signerAddress g) (cg_signatureBase64 g) \<Longrightarrow> \<exists>ks. decorated_signatures sdk seen gs = Inr ks"
proof (induction gs arbitrary: seen)
  case (Cons g gs)
  then have "sk_isPublicKey sdk (cg_signerAddress g)" "decodeSignature (cg_signatureBase64 g) = Inr (buffer_from_base64 (cg_signatureBase64 g))"
    by (auto simp: signature_verifies_def decode_bytes)
  then show ?case using Cons.IH Cons.prems by (simp add: Let_def)
qed simp

lemma combine_total:
  assumes "session_ok sdk sid s"
  shows "\<exists>x. combineSignaturesIntoEnvelope sdk (cs_transactionXdr s) (cs_collectedSignatures s) = Inr x"
proof -
  obtain tx ks where "base_transaction sdk (cs_transactionXdr s) tx" "decorated_signatures sdk [] (cs_collectedSignatures s) = Inr ks"
    using assms decorated_total [of "cs_collectedSignatures s" sdk "cs_transactionXdr s" "[]"] by (auto simp: session_ok_def signatures_ok_def)
  then show ?thesis by (simp add: combineSignaturesIntoEnvelope_def parse_base [symmetric])
qed

definition added_signature :: "AddCoSignatureInput \<Rightarrow> CollectedSignature" where
  "added_signature input = \<lparr>cg_signerAddress = ai_signerAddress input, cg_signatureBase64 = ai_signatureBase64 input\<rparr>"

lemma collect_last:
  assumes s: "cd_sessions d (ai_sessionId input) = Some s" "cs_status s = CsCollecting" "now < cs_expiresAt s"
    and last: "cs_requiredThreshold s \<le> int (length (cs_collectedSignatures s)) + 1"
    and auth: "cs_authorizedSigners s = [] \<or> ai_signerAddress input \<in> set (cs_authorizedSigners s)"
      "\<forall>g \<in> set (cs_collectedSignatures s). cg_signerAddress g \<noteq> ai_signerAddress input"
      "signature_verifies sdk (cs_transactionXdr s) (ai_signerAddress input) (ai_signatureBase64 input)"
  shows "\<exists>d' s'. collect sdk input now d = (Inr True, d') \<and> cd_sent d' = cd_sent d \<and> cd_sessions d' (ai_sessionId input) = Some s' \<and>
    cs_transactionXdr s' = cs_transactionXdr s \<and> cs_collectedSignatures s' = cs_collectedSignatures s @ [added_signature input]"
proof -
  have "validatePartialSignature sdk (cs_transactionXdr s) (ai_signerAddress input) (ai_signatureBase64 input) = Inr ()"
    using auth(3) by (simp add: validate_verifies)
  with assms(1-6) show ?thesis
    by (auto simp: collect_def with_session_def prog_simps set_session_apply isExpired_def added_signature_def Let_def)
qed

lemma submitStoredSession_accepted:
  assumes ok: "co_db_ok sdk (iw_db w)" and s: "cd_sessions (iw_db w) sid = Some s" and f: "\<forall>x y. \<exists>v y'. f x y = (Inr v, y')"
  shows "\<exists>x s' w'. submitStoredSession sdk (Some f) sid w = (Inr (), w') \<and> cd_sent (iw_db w') = cd_sent (iw_db w) @ [(sid, x)] \<and>
    envelope_of sdk (cs_transactionXdr s) (set (cs_collectedSignatures s)) x \<and> cd_sessions (iw_db w') sid = Some s' \<and> cs_status s' = CsSubmitted"
proof -
  obtain x where x: "combineSignaturesIntoEnvelope sdk (cs_transactionXdr s) (cs_collectedSignatures s) = Inr x"
    using combine_total [OF co_db_session [OF ok s]] by blast
  define d where "d = (iw_db w)\<lparr>cd_sessions := (cd_sessions (iw_db w))(sid \<mapsto> s\<lparr>cs_combinedXdr := Some x\<rparr>), cd_sent := cd_sent (iw_db w) @ [(sid, x)]\<rparr>"
  have "combine_and_send sdk True sid (iw_db w) = (Inr x, d)"
    using s x by (simp add: combine_and_send_def with_session_def prog_simps set_session_apply d_def)
  then have 1: "segment (combine_and_send sdk True sid) w = (Inr x, w\<lparr>iw_db := d\<rparr>)" by (rule segment_apply)
  obtain v y where v: "f x (iw_ext w) = (Inr v, y)" using f by blast
  have 2: "ask_submitter (Some f) x (w\<lparr>iw_db := d\<rparr>) = (Inr (Inr (Some v)), w\<lparr>iw_db := d, iw_ext := y\<rparr>)"
    by (simp add: ask_submitter_def pbind_apply outside_def v pret_apply)
  have sd: "cd_sessions d sid = Some (s\<lparr>cs_combinedXdr := Some x\<rparr>)" "cd_sent d = cd_sent (iw_db w) @ [(sid, x)]" by (simp_all add: d_def)
  obtain d2 where 3: "settle sid (Inr (Some v)) d = (Inr (), d2)" "cd_sent d2 = cd_sent d" "\<exists>s'. cd_sessions d2 sid = Some s' \<and> cs_status s' = CsSubmitted"
    using sd(1) by (simp add: settle_def set_session_apply)
  have "segment (settle sid (Inr (Some v))) (w\<lparr>iw_db := d, iw_ext := y\<rparr>) = (Inr (), w\<lparr>iw_db := d2, iw_ext := y\<rparr>)"
    by (simp add: segment_def pzoom_apply 3)
  with 1 2 have "submitStoredSession sdk (Some f) sid w = (Inr (), w\<lparr>iw_db := d2, iw_ext := y\<rparr>)"
    by (simp add: submitStoredSession_def pbind_apply)
  with 3 sd(2) combine_envelope [OF x] show ?thesis by auto
qed

text \<open>C39: When a signature that the library verifies, of an authorised new signer, is the last one a session needs, and the submitter
  accepts every envelope, the call returns the session as submitted, and exactly one envelope was handed to the submitter: the
  encoding of the session's transaction with the signatures collected before and the new one, each once and no other.\<close>

theorem last_signature_submits:
  assumes reach: "(co_step sdk)\<^sup>*\<^sup>* co_start (iw_db w, ts)"
    and s: "cd_sessions (iw_db w) (ai_sessionId input) = Some s" "cs_status s = CsCollecting" "now < cs_expiresAt s"
      "cs_requiredThreshold s \<le> int (length (cs_collectedSignatures s)) + 1"
    and auth: "cs_authorizedSigners s = [] \<or> ai_signerAddress input \<in> set (cs_authorizedSigners s)"
      "\<forall>g \<in> set (cs_collectedSignatures s). cg_signerAddress g \<noteq> ai_signerAddress input"
      "signature_verifies sdk (cs_transactionXdr s) (ai_signerAddress input) (ai_signatureBase64 input)"
    and f: "\<forall>x y. \<exists>v y'. f x y = (Inr v, y')"
  shows "\<exists>p x w'. addCoSignature sdk (Some f) input now w = (Inr p, w') \<and> cs_status p = CsSubmitted \<and>
    cd_sent (iw_db w') = cd_sent (iw_db w) @ [(ai_sessionId input, x)] \<and>
    envelope_of sdk (cs_transactionXdr s) (insert (added_signature input) (set (cs_collectedSignatures s))) x"
proof -
  have ok: "co_db_ok sdk (iw_db w)" using co_steps_inv [OF reach co_start_inv] by (simp add: co_inv_def)
  obtain d' s' where c: "collect sdk input now (iw_db w) = (Inr True, d')" "cd_sent d' = cd_sent (iw_db w)" "cd_sessions d' (ai_sessionId input) = Some s'"
      "cs_transactionXdr s' = cs_transactionXdr s" "cs_collectedSignatures s' = cs_collectedSignatures s @ [added_signature input]"
    using collect_last [OF s auth] by blast
  from c(1) have 1: "segment (collect sdk input now) w = (Inr True, w\<lparr>iw_db := d'\<rparr>)" by (rule segment_apply)
  have ok': "co_db_ok sdk (iw_db (w\<lparr>iw_db := d'\<rparr>))" using co_safeD [OF collect_safe [OF ok] c(1)] by simp
  obtain x s2 w' where 2: "submitStoredSession sdk (Some f) (ai_sessionId input) (w\<lparr>iw_db := d'\<rparr>) = (Inr (), w')"
      "cd_sent (iw_db w') = cd_sent d' @ [(ai_sessionId input, x)]" "cd_sessions (iw_db w') (ai_sessionId input) = Some s2" "cs_status s2 = CsSubmitted"
      "envelope_of sdk (cs_transactionXdr s') (set (cs_collectedSignatures s')) x"
    using submitStoredSession_accepted [where f = f and sid = "ai_sessionId input" and s = s', OF ok' _ f] c(3) by auto
  have "read_session (ai_sessionId input) (iw_db w') = (Inr (toPublicSession s2), iw_db w')"
    using 2(3) by (simp add: read_session_def with_session_def prog_simps)
  then have 3: "segment (read_session (ai_sessionId input)) w' = (Inr (toPublicSession s2), w'\<lparr>iw_db := iw_db w'\<rparr>)" by (rule segment_apply)
  have "addCoSignature sdk (Some f) input now w = (Inr (toPublicSession s2), w')"
    using 3 by (simp add: addCoSignature_def pbind_apply 1 2(1))
  moreover have "cs_status (toPublicSession s2) = CsSubmitted" using 2(4) by (simp add: toPublicSession_def MultiSigSession.truncate_def)
  ultimately show ?thesis using 2(2,5) c(2,4,5) by auto
qed

section \<open>Runs\<close>

text \<open>Transactions are their own text, every key is valid and a signature verifies if it is 64 zero bytes; the encoding
  appends a mark for each signature.\<close>

definition co_demo_sdk :: "string stellar_sdk" where
  "co_demo_sdk = \<lparr>sk_network = None, sk_fromXDR = (\<lambda>x _. Inr (Some x)), sk_isPublicKey = (\<lambda>_. True), sk_verify = (\<lambda>_ _ g. list_all (\<lambda>b. b = 0) g),
     sk_signatureHint = (\<lambda>a. map of_char a), sk_toXDR = (\<lambda>x ks. x @ replicate (length ks) (CHR ''+''))\<rparr>"

definition co_demo_sign :: "string \<Rightarrow> AddCoSignatureInput" where
  "co_demo_sign a = \<lparr>ai_sessionId = ''S'', ai_signerAddress = a, ai_signatureBase64 = replicate 86 (CHR ''A'')\<rparr>"

definition co_demo_input :: CreateCoSigningSessionInput where
  "co_demo_input = \<lparr>ci_orderId = ''o'', ci_transactionXdr = ''tx'', ci_requiredThreshold = 2, ci_authorizedSigners = Some [''a'', ''b''], ci_ttlMs = None\<rparr>"

definition co_demo_created :: co_db where
  "co_demo_created = snd (createCoSigningSession co_demo_sdk co_demo_input 0 ''S'' (fst co_start))"

definition co_demo_partial :: co_db where
  "co_demo_partial = snd (collect co_demo_sdk (co_demo_sign ''a'') 1 co_demo_created)"

definition co_demo_ready :: co_db where
  "co_demo_ready = snd (collect co_demo_sdk (co_demo_sign ''b'') 2 co_demo_partial)"

lemma co_demo_partial_result: "fst (collect co_demo_sdk (co_demo_sign ''a'') 1 co_demo_created) = Inr False"
  by code_simp

lemma co_demo_ready_result: "fst (collect co_demo_sdk (co_demo_sign ''b'') 2 co_demo_partial) = Inr True"
  by code_simp

lemma co_demo_partial_reached: "(co_step co_demo_sdk)\<^sup>*\<^sup>* co_start (co_demo_partial, [])"
proof -
  have "co_step co_demo_sdk co_start (co_demo_created, [])"
    unfolding co_demo_created_def using co_step.create [of "fst co_start" "''S''" co_demo_sdk "[]" co_demo_input 0] by (simp add: co_start_def)
  moreover have "co_step co_demo_sdk (co_demo_created, []) (co_demo_partial, [])"
    by (rule co_step.partial [where r = "Inr False" and input = "co_demo_sign ''a''" and now = 1])
       (simp_all add: co_demo_partial_def co_demo_partial_result prod_eq_iff)
  ultimately show ?thesis by auto
qed

lemma co_demo_ready_reached: "(co_step co_demo_sdk)\<^sup>*\<^sup>* co_start (co_demo_ready, [Combining ''S''])"
proof -
  have "co_step co_demo_sdk (co_demo_partial, []) (co_demo_ready, [Combining (ai_sessionId (co_demo_sign ''b''))])"
    by (rule co_step.collected [where now = 2]) (simp_all add: co_demo_ready_def co_demo_ready_result prod_eq_iff)
  with co_demo_partial_reached show ?thesis by (auto simp: co_demo_sign_def intro: rtranclp.rtrancl_into_rtrancl)
qed

text \<open>A second call while the first one is under way: the session is ready, so the same envelope is sent again.\<close>

definition co_demo_again :: co_db where
  "co_demo_again = snd (start_submit ''S'' 3 co_demo_ready)"

definition co_demo_sent :: co_db where
  "co_demo_sent = snd (combine_and_send co_demo_sdk True ''S'' co_demo_again)"

definition co_demo_sent_twice :: co_db where
  "co_demo_sent_twice = snd (combine_and_send co_demo_sdk True ''S'' co_demo_sent)"

lemma co_demo_again_results:
  "fst (start_submit ''S'' 3 co_demo_ready) = Inr None"
  "fst (combine_and_send co_demo_sdk True ''S'' co_demo_again) = Inr ''tx++''"
  "fst (combine_and_send co_demo_sdk True ''S'' co_demo_sent) = Inr ''tx++''"
  "cd_sent co_demo_sent_twice = [(''S'', ''tx++''), (''S'', ''tx++'')]"
  by code_simp+

lemma co_demo_sent_twice_reached: "(co_step co_demo_sdk)\<^sup>*\<^sup>* co_start (co_demo_sent_twice, [Waiting ''S'', Waiting ''S''])"
proof -
  have "co_step co_demo_sdk (co_demo_ready, [Combining ''S'']) (co_demo_again, [Combining ''S'', Combining ''S''])"
    by (rule co_step.submitting [where now = 3]) (simp add: co_demo_again_def co_demo_again_results prod_eq_iff)
  moreover have "co_step co_demo_sdk (co_demo_again, [Combining ''S'', Combining ''S'']) (co_demo_sent, Waiting ''S'' # remove1 (Combining ''S'') [Combining ''S'', Combining ''S''])"
    by (rule co_step.sent [where submits = True and x = "''tx++''"]) (simp_all add: co_demo_sent_def co_demo_again_results prod_eq_iff)
  moreover have "co_step co_demo_sdk (co_demo_sent, [Waiting ''S'', Combining ''S''])
      (co_demo_sent_twice, Waiting ''S'' # remove1 (Combining ''S'') [Waiting ''S'', Combining ''S''])"
    by (rule co_step.sent [where submits = True and x = "''tx++''"]) (simp_all add: co_demo_sent_twice_def co_demo_again_results prod_eq_iff)
  ultimately show ?thesis using co_demo_ready_reached by (auto intro: rtranclp.rtrancl_into_rtrancl)
qed

theorem cosigning_quorum_witness:
  "(co_step co_demo_sdk)\<^sup>*\<^sup>* co_start (co_demo_sent_twice, [Waiting ''S'', Waiting ''S'']) \<and>
   (\<exists>s. cd_sessions co_demo_sent_twice ''S'' = Some s \<and> sent_ok co_demo_sdk s ''tx++'')"
  using cosigning_quorum [OF co_demo_sent_twice_reached] co_demo_sent_twice_reached co_demo_again_results(4) by simp

text \<open>One envelope is submitted twice if a session is submitted explicitly while the call that completed it is under way: the
  status stays ready until the network has answered.\<close>

theorem cosigning_sends_twice:
  "\<exists>d ts. (co_step co_demo_sdk)\<^sup>*\<^sup>* co_start (d, ts) \<and> cd_sent d = [(''S'', ''tx++''), (''S'', ''tx++'')]"
  using co_demo_sent_twice_reached co_demo_again_results(4) by blast

definition co_demo_session :: StoredCoSigningSession where
  "co_demo_session = \<lparr>cs_sessionId = ''S'', cs_orderId = ''o'', cs_transactionXdr = ''tx'', cs_requiredThreshold = 2,
     cs_collectedSignatures = [\<lparr>cg_signerAddress = ''a'', cg_signatureBase64 = replicate 86 (CHR ''A'')\<rparr>], cs_status = CsCollecting,
     cs_authorizedSigners = [''a'', ''b''], cs_createdAt = 0, cs_expiresAt = 900000, cs_combinedXdr = None, cs_submissionResult = None,
     cs_failureReason = None\<rparr>"

lemma co_demo_partial_session: "cd_sessions co_demo_partial ''S'' = Some co_demo_session"
  by code_simp

theorem last_signature_submits_witness:
  "\<exists>p x w'. addCoSignature co_demo_sdk (Some (\<lambda>_ (y :: int). (Inr JNull, y))) (co_demo_sign ''b'') 2 \<lparr>iw_db = co_demo_partial, iw_ext = 0\<rparr> = (Inr p, w') \<and>
     cs_status p = CsSubmitted \<and> cd_sent (iw_db w') = cd_sent co_demo_partial @ [(''S'', x)] \<and>
     envelope_of co_demo_sdk ''tx'' (insert (added_signature (co_demo_sign ''b'')) (set (cs_collectedSignatures co_demo_session))) x"
proof -
  have 1: "validatePartialSignature co_demo_sdk (cs_transactionXdr co_demo_session) (ai_signerAddress (co_demo_sign ''b'')) (ai_signatureBase64 (co_demo_sign ''b'')) = Inr ()"
    by code_simp
  show ?thesis
    using last_signature_submits [where w = "\<lparr>iw_db = co_demo_partial, iw_ext = 0 :: int\<rparr>" and input = "co_demo_sign ''b''" and s = co_demo_session
        and now = 2 and sdk = co_demo_sdk and f = "\<lambda>_ y. (Inr JNull, y)" and ts = "[]"] co_demo_partial_reached co_demo_partial_session 1 [unfolded validate_verifies]
    by (simp add: co_demo_sign_def co_demo_session_def)
qed

end
