(* ===== verification/Guardian_Recovery.thy ===== *)
theory Guardian_Recovery
  imports Complex_Main Transactions "HOL-Library.Sublist" "HOL-Library.List_Lexorder" "HOL-Library.Char_ord"
begin

text \<open>
  Social account recovery (wallet/src/recovery/guardianRecovery.ts): guardians with verification codes, recovery requests that
  verified guardians approve, and the key material a completed recovery returns. The state is the three tables, the emergency
  flag and the in-memory times of the last attempts; each statement may throw and then has no effect, also where a column is too
  short, and what was written before stays. Operations follow one another. The cryptographic functions of Node are parameters:
  PBKDF2, AES-256-GCM with its tag, HMAC-SHA-256 and random bytes. The ids are columns of type UUID: \<^verbatim>\<open>findByPk\<close> has PostgreSQL
  convert the text it is given (\<open>ge_castUuid\<close>, the canonical spelling, or \<open>None\<close> for an invalid text), and a row it found is
  updated and reloaded by the id of the row; the code itself compares the texts of requests.
\<close>

section \<open>Tables\<close>

datatype RecoveryStatus = RvPending | RvApproved | RvRejected | RvExpired | RvCompleted

record encrypted_json =
  ej_salt :: string
  ej_iv :: string
  ej_tag :: string
  ej_data :: string

record GuardianModel =
  gd_id :: string
  gd_walletAddress :: string
  gd_type :: string
  gd_identifier :: string
  gd_identifierEncrypted :: encrypted_json
  gd_verified :: bool
  gd_verificationCode :: "string option"
  gd_verificationExpiresAt :: "ms option"
  gd_createdAt :: ms

record RecoveryApproval =
  ra_guardianId :: string
  ra_approvedAt :: ms
  ra_signature :: string

record RecoveryRequestModel =
  rr_id :: string
  rr_walletAddress :: string
  rr_initiatedBy :: string
  rr_expiresAt :: ms
  rr_status :: RecoveryStatus
  rr_approvals :: "RecoveryApproval list"
  rr_requiredApprovals :: int
  rr_createdAt :: ms

record RecoveryResult =
  rt_walletAddress :: string
  rt_newMasterKey :: encrypted_json
  rt_recoveryKey :: string
  rt_completedAt :: ms

record recovery_db =
  rb_guardians :: "GuardianModel list"
  rb_requests :: "RecoveryRequestModel list"
  rb_audit :: "(string \<times> string) list"
  rb_enabled :: bool
  rb_attempts :: "string \<rightharpoonup> ms"

datatype recovery_error =
    RecoveryDisabled
  | RecoveryRateLimited
  | RecoveryAlreadyPending string
  | RecoveryNotFound string
  | RecoveryNotPending RecoveryStatus
  | RecoveryHasExpired
  | GuardianNotFound string
  | GuardianNotVerified string
  | GuardianAlreadyVerified
  | WrongWallet
  | AlreadyApproved
  | InvalidVerificationCode
  | VerificationCodeExpired
  | GuardianInput string
  | RecoveryConstraint string
  | RecoveryDown string

record 'w recovery_env =
  ge_fails :: "('w, recovery_error) outages"
  ge_uuid :: "'w \<Rightarrow> string \<times> 'w"
  ge_now :: "'w \<Rightarrow> ms \<times> 'w"
  ge_randomBytes :: "nat \<Rightarrow> 'w \<Rightarrow> nat list \<times> 'w"
  ge_pbkdf2 :: "nat list \<Rightarrow> nat list"
  ge_gcm :: "nat list \<Rightarrow> nat list \<Rightarrow> string \<Rightarrow> nat list \<times> nat list"
  ge_ungcm :: "nat list \<Rightarrow> nat list \<Rightarrow> nat list \<Rightarrow> nat list \<Rightarrow> string option"
  ge_hmac :: "string \<Rightarrow> string"
  ge_castUuid :: "string \<Rightarrow> string option"

type_synonym ('w, 'a) recovery_prog = "((recovery_db, 'w) tx_world, recovery_error, 'a) prog"

definition RATE_LIMIT_DAYS :: int where "RATE_LIMIT_DAYS = 30"
definition IV_LENGTH :: nat where "IV_LENGTH = 12"
definition SALT_LENGTH :: nat where "SALT_LENGTH = 16"
definition VERIFICATION_CODE_LENGTH :: nat where "VERIFICATION_CODE_LENGTH = 8"
definition VERIFICATION_EXPIRY_MINUTES :: int where "VERIFICATION_EXPIRY_MINUTES = 30"
definition DEFAULT_REQUIRED_APPROVALS :: int where "DEFAULT_REQUIRED_APPROVALS = 3"
definition RECOVERY_LOCK_DAYS :: int where "RECOVERY_LOCK_DAYS = 7"

section \<open>Encryption\<close>

definition hex_digit :: "nat \<Rightarrow> char" where
  "hex_digit n = (if n < 10 then char_of (48 + n) else char_of (87 + n))"

definition to_hex :: "nat list \<Rightarrow> string" where
  "to_hex bs = concat (map (\<lambda>b. [hex_digit (b div 16), hex_digit (b mod 16)]) bs)"

definition hex_value :: "char \<Rightarrow> nat option" where
  "hex_value c =
     (let n = of_char c :: nat in
      if 48 \<le> n \<and> n \<le> 57 then Some (n - 48)
      else if 97 \<le> n \<and> n \<le> 102 then Some (n - 87)
      else if 65 \<le> n \<and> n \<le> 70 then Some (n - 55)
      else None)"

text \<open>\<^verbatim>\<open>Buffer.from(s, "hex")\<close> stops at the first pair that is not hexadecimal.\<close>

fun from_hex :: "string \<Rightarrow> nat list" where
  "from_hex (a # b # cs) =
     (case (hex_value a, hex_value b) of (Some x, Some y) \<Rightarrow> (x * 16 + y) # from_hex cs | _ \<Rightarrow> [])"
| "from_hex cs = []"

definition encryptIdentifier :: "'w recovery_env \<Rightarrow> string \<Rightarrow> ('w, encrypted_json) recovery_prog" where
  "encryptIdentifier env identifier =
     pbind (outside (ge_randomBytes env SALT_LENGTH)) (\<lambda>salt.
     pbind (outside (ge_randomBytes env IV_LENGTH)) (\<lambda>iv.
     let (data, tag) = ge_gcm env (ge_pbkdf2 env salt) iv identifier in
     pret \<lparr>ej_salt = to_hex salt, ej_iv = to_hex iv, ej_tag = to_hex tag, ej_data = to_hex data\<rparr>))"

text \<open>\<open>None\<close>: the authentication tag does not fit.\<close>

definition decryptIdentifier :: "'w recovery_env \<Rightarrow> encrypted_json \<Rightarrow> string option" where
  "decryptIdentifier env j =
     ge_ungcm env (ge_pbkdf2 env (from_hex (ej_salt j))) (from_hex (ej_iv j)) (from_hex (ej_tag j)) (from_hex (ej_data j))"

fun join_with :: "string \<Rightarrow> string list \<Rightarrow> string" where
  "join_with sep [] = []"
| "join_with sep [x] = x"
| "join_with sep (x # xs) = x @ sep @ join_with sep xs"

definition deriveRecoveryKey :: "'w recovery_env \<Rightarrow> string list \<Rightarrow> string" where
  "deriveRecoveryKey env signatures = ge_hmac env (join_with ''|'' (sort signatures))"

definition js_upper_char :: "char \<Rightarrow> char" where
  "js_upper_char c = (if CHR ''a'' \<le> c \<and> c \<le> CHR ''z'' then char_of (of_char c - 32 :: nat) else c)"

definition js_upper :: "string \<Rightarrow> string" where
  "js_upper s = map js_upper_char s"

section \<open>Statements\<close>

definition recovery_audit :: "'w recovery_env \<Rightarrow> string \<Rightarrow> string \<Rightarrow> ('w, unit) recovery_prog" where
  "recovery_audit env walletAddress eventType =
     db_query (ge_fails env) (\<lambda>db. Inr ((), db\<lparr>rb_audit := rb_audit db @ [(walletAddress, eventType)]\<rparr>))"

definition insert_guardian :: "GuardianModel \<Rightarrow> recovery_db \<Rightarrow> recovery_error + (GuardianModel \<times> recovery_db)" where
  "insert_guardian g db =
     (if gd_id g \<in> gd_id ` set (rb_guardians db) then Inl (RecoveryConstraint ''unique'')
      else Inr (g, db\<lparr>rb_guardians := rb_guardians db @ [g]\<rparr>))"

definition insert_request :: "RecoveryRequestModel \<Rightarrow> recovery_db \<Rightarrow> recovery_error + (RecoveryRequestModel \<times> recovery_db)" where
  "insert_request r db =
     (if rr_id r \<in> rr_id ` set (rb_requests db) then Inl (RecoveryConstraint ''unique'')
      else Inr (r, db\<lparr>rb_requests := rb_requests db @ [r]\<rparr>))"

definition update_guardian :: "string \<Rightarrow> (GuardianModel \<Rightarrow> GuardianModel) \<Rightarrow> recovery_db \<Rightarrow> recovery_error + (unit \<times> recovery_db)" where
  "update_guardian i f db = Inr ((), db\<lparr>rb_guardians := map (\<lambda>g. if gd_id g = i then f g else g) (rb_guardians db)\<rparr>)"

definition update_request :: "string \<Rightarrow> (RecoveryRequestModel \<Rightarrow> RecoveryRequestModel) \<Rightarrow> recovery_db \<Rightarrow> recovery_error + (unit \<times> recovery_db)" where
  "update_request i f db = Inr ((), db\<lparr>rb_requests := map (\<lambda>r. if rr_id r = i then f r else r) (rb_requests db)\<rparr>)"

definition delete_guardian :: "string \<Rightarrow> recovery_db \<Rightarrow> recovery_error + (unit \<times> recovery_db)" where
  "delete_guardian i db = Inr ((), db\<lparr>rb_guardians := filter (\<lambda>g. gd_id g \<noteq> i) (rb_guardians db)\<rparr>)"

definition find_guardian :: "string \<Rightarrow> recovery_db \<Rightarrow> GuardianModel option" where
  "find_guardian i db = find (\<lambda>g. gd_id g = i) (rb_guardians db)"

definition find_request :: "string \<Rightarrow> recovery_db \<Rightarrow> RecoveryRequestModel option" where
  "find_request i db = find (\<lambda>r. rr_id r = i) (rb_requests db)"

definition findByPk :: "'w recovery_env \<Rightarrow> (string \<Rightarrow> recovery_db \<Rightarrow> 'a option) \<Rightarrow> string \<Rightarrow> ('w, 'a option) recovery_prog" where
  "findByPk env row text =
     db_query (ge_fails env) (\<lambda>db. case ge_castUuid env text of None \<Rightarrow> Inl (RecoveryConstraint ''uuid'') | Some i \<Rightarrow> Inr (row i db, db))"

definition with_guardian :: "'w recovery_env \<Rightarrow> string \<Rightarrow> (GuardianModel \<Rightarrow> ('w, 'a) recovery_prog) \<Rightarrow> ('w, 'a) recovery_prog" where
  "with_guardian env text k = pbind (findByPk env find_guardian text) (\<lambda>found.
     case found of None \<Rightarrow> pthrow (GuardianNotFound text) | Some g \<Rightarrow> k g)"

definition with_request :: "'w recovery_env \<Rightarrow> string \<Rightarrow> (RecoveryRequestModel \<Rightarrow> ('w, 'a) recovery_prog) \<Rightarrow> ('w, 'a) recovery_prog" where
  "with_request env text k = pbind (findByPk env find_request text) (\<lambda>found.
     case found of None \<Rightarrow> pthrow (RecoveryNotFound text) | Some r \<Rightarrow> k r)"

text \<open>\<^verbatim>\<open>reload\<close> of a row, which throws if the row is gone.\<close>

definition reload :: "'w recovery_env \<Rightarrow> (recovery_db \<Rightarrow> 'a option) \<Rightarrow> ('w, 'a) recovery_prog" where
  "reload env row = pbind (db_select (ge_fails env) row) (\<lambda>found.
     case found of None \<Rightarrow> pthrow (RecoveryConstraint ''reload'') | Some x \<Rightarrow> pret x)"

section \<open>Flags and the rate limit\<close>

definition disableRecovery :: "('w, unit) recovery_prog" where
  "disableRecovery = mem_update (\<lambda>db. db\<lparr>rb_enabled := False\<rparr>)"

definition enableRecovery :: "('w, unit) recovery_prog" where
  "enableRecovery = mem_update (\<lambda>db. db\<lparr>rb_enabled := True\<rparr>)"

definition mem_get :: "('d \<Rightarrow> 'a) \<Rightarrow> ('d, 'w, 'e, 'a) tx_prog" where
  "mem_get f = pgets (\<lambda>w. f (iw_db w))"

definition isRecoveryEnabled :: "('w, bool) recovery_prog" where
  "isRecoveryEnabled = mem_get rb_enabled"

definition isRateLimited :: "string \<Rightarrow> ms \<Rightarrow> recovery_db \<Rightarrow> bool" where
  "isRateLimited walletAddress now db =
     (case rb_attempts db walletAddress of
        None \<Rightarrow> False
      | Some t \<Rightarrow> of_int (now - t) / (1000 * 60 * 60 * 24) < (of_int RATE_LIMIT_DAYS :: rat))"

section \<open>Guardians\<close>

record AddGuardianRequest =
  ag_walletAddress :: string
  ag_type :: string
  ag_identifier :: string

definition addGuardian :: "'w recovery_env \<Rightarrow> AddGuardianRequest \<Rightarrow> ('w, GuardianModel) recovery_prog" where
  "addGuardian env req =
     (if ag_walletAddress req = [] \<or> ag_identifier req = [] then pthrow (GuardianInput ''required'')
      else if ag_type req \<notin> set [''email'', ''phone'', ''wallet''] then pthrow (GuardianInput ''type'')
      else
        pbind (encryptIdentifier env (ag_identifier req)) (\<lambda>encrypted.
        pbind (outside (ge_randomBytes env VERIFICATION_CODE_LENGTH)) (\<lambda>random.
        pbind (outside (ge_now env)) (\<lambda>now.
        pbind (outside (ge_uuid env)) (\<lambda>i.
        pbind (outside (ge_now env)) (\<lambda>created.
        pbind (db_query (ge_fails env) (insert_guardian
          \<lparr>gd_id = i, gd_walletAddress = ag_walletAddress req, gd_type = ag_type req, gd_identifier = ag_identifier req,
           gd_identifierEncrypted = encrypted, gd_verified = False,
           gd_verificationCode = Some (js_upper (take VERIFICATION_CODE_LENGTH (to_hex random))),
           gd_verificationExpiresAt = Some (now + VERIFICATION_EXPIRY_MINUTES * 60 * 1000), gd_createdAt = created\<rparr>)) (\<lambda>g.
        pbind (recovery_audit env (ag_walletAddress req) ''GUARDIAN_ADDED'') (\<lambda>_.
        pret g))))))))"

definition verifyGuardian :: "'w recovery_env \<Rightarrow> string \<Rightarrow> string \<Rightarrow> ('w, GuardianModel) recovery_prog" where
  "verifyGuardian env guardianId code =
     with_guardian env guardianId (\<lambda>g.
     if gd_verified g then pthrow GuardianAlreadyVerified
     else if (case gd_verificationCode g of None \<Rightarrow> True | Some c \<Rightarrow> c = [] \<or> c \<noteq> js_upper code) then pthrow InvalidVerificationCode
     else
       pbind (outside (ge_now env)) (\<lambda>now.
       if (case gd_verificationExpiresAt g of None \<Rightarrow> False | Some t \<Rightarrow> t < now) then pthrow VerificationCodeExpired
       else
         pbind (db_query (ge_fails env) (update_guardian (gd_id g) (\<lambda>g. g\<lparr>gd_verified := True, gd_verificationCode := None,
           gd_verificationExpiresAt := None\<rparr>))) (\<lambda>_.
         pbind (recovery_audit env (gd_walletAddress g) ''GUARDIAN_VERIFIED'') (\<lambda>_.
         reload env (find_guardian (gd_id g))))))"

definition removeGuardian :: "'w recovery_env \<Rightarrow> string \<Rightarrow> ('w, unit) recovery_prog" where
  "removeGuardian env guardianId =
     with_guardian env guardianId (\<lambda>g.
     pbind (db_query (ge_fails env) (delete_guardian (gd_id g))) (\<lambda>_.
     recovery_audit env (gd_walletAddress g) ''GUARDIAN_REMOVED''))"

definition listGuardians :: "'w recovery_env \<Rightarrow> string \<Rightarrow> ('w, GuardianModel list) recovery_prog" where
  "listGuardians env walletAddress = db_select (ge_fails env) (\<lambda>db. filter (\<lambda>g. gd_walletAddress g = walletAddress) (rb_guardians db))"

section \<open>Recovery\<close>

record InitiateRecoveryRequest =
  ir_walletAddress :: string
  ir_initiatedBy :: string
  ir_requiredApprovals :: "int option"

definition initiateRecovery :: "'w recovery_env \<Rightarrow> InitiateRecoveryRequest \<Rightarrow> ('w, RecoveryRequestModel) recovery_prog" where
  "initiateRecovery env req =
     pbind isRecoveryEnabled (\<lambda>enabled.
     if \<not> enabled then pthrow RecoveryDisabled
     else
       pbind (outside (ge_now env)) (\<lambda>now.
       pbind (mem_get (isRateLimited (ir_walletAddress req) now)) (\<lambda>limited.
       if limited then pthrow RecoveryRateLimited
       else
         pbind (db_select (ge_fails env) (\<lambda>db. find (\<lambda>r. rr_walletAddress r = ir_walletAddress req \<and> rr_status r = RvPending) (rb_requests db))) (\<lambda>existing.
         case existing of
           Some r \<Rightarrow> pthrow (RecoveryAlreadyPending (rr_id r))
         | None \<Rightarrow>
             pbind (outside (ge_now env)) (\<lambda>start.
             pbind (outside (ge_uuid env)) (\<lambda>i.
             pbind (outside (ge_now env)) (\<lambda>created.
             pbind (db_query (ge_fails env) (insert_request
               \<lparr>rr_id = i, rr_walletAddress = ir_walletAddress req, rr_initiatedBy = ir_initiatedBy req,
                rr_expiresAt = start + RECOVERY_LOCK_DAYS * 24 * 60 * 60 * 1000, rr_status = RvPending, rr_approvals = [],
                rr_requiredApprovals = (case ir_requiredApprovals req of None \<Rightarrow> DEFAULT_REQUIRED_APPROVALS | Some n \<Rightarrow> n),
                rr_createdAt = created\<rparr>)) (\<lambda>r.
             pbind (outside (ge_now env)) (\<lambda>attempt.
             pbind (mem_update (\<lambda>db. db\<lparr>rb_attempts := (rb_attempts db)(ir_walletAddress req \<mapsto> attempt)\<rparr>)) (\<lambda>_.
             pbind (db_select (ge_fails env) (\<lambda>db. filter (\<lambda>g. gd_walletAddress g = ir_walletAddress req \<and> gd_verified g) (rb_guardians db))) (\<lambda>guardians.
             pbind (recovery_audit env (ir_walletAddress req) ''RECOVERY_INITIATED'') (\<lambda>_.
             pret r))))))))))))"

definition completeRecovery :: "'w recovery_env \<Rightarrow> RecoveryRequestModel \<Rightarrow> string list \<Rightarrow> ('w, RecoveryResult) recovery_prog" where
  "completeRecovery env r signatures =
     pbind (outside (ge_randomBytes env 32)) (\<lambda>raw.
     pbind (encryptIdentifier env (to_hex raw)) (\<lambda>newMasterKey.
     pbind (db_query (ge_fails env) (update_request (rr_id r) (\<lambda>r. r\<lparr>rr_status := RvCompleted\<rparr>))) (\<lambda>_.
     pbind (recovery_audit env (rr_walletAddress r) ''RECOVERY_COMPLETED'') (\<lambda>_.
     pbind (outside (ge_now env)) (\<lambda>completedAt.
     pret \<lparr>rt_walletAddress = rr_walletAddress r, rt_newMasterKey = newMasterKey, rt_recoveryKey = deriveRecoveryKey env signatures,
       rt_completedAt = completedAt\<rparr>)))))"

definition approveRecovery :: "'w recovery_env \<Rightarrow> string \<Rightarrow> string \<Rightarrow> string \<Rightarrow> ('w, RecoveryRequestModel + RecoveryResult) recovery_prog" where
  "approveRecovery env recoveryRequestId guardianId signature =
     with_request env recoveryRequestId (\<lambda>r.
     if rr_status r \<noteq> RvPending then pthrow (RecoveryNotPending (rr_status r))
     else
       pbind (outside (ge_now env)) (\<lambda>now.
       if rr_expiresAt r \<le> now
       then pbind (db_query (ge_fails env) (update_request (rr_id r) (\<lambda>r. r\<lparr>rr_status := RvExpired\<rparr>))) (\<lambda>_.
            pbind (recovery_audit env (rr_walletAddress r) ''RECOVERY_EXPIRED'') (\<lambda>_.
            pthrow RecoveryHasExpired))
       else
         with_guardian env guardianId (\<lambda>g.
         if \<not> gd_verified g then pthrow (GuardianNotVerified guardianId)
         else if gd_walletAddress g \<noteq> rr_walletAddress r then pthrow WrongWallet
         else if \<exists>a \<in> set (rr_approvals r). ra_guardianId a = guardianId then pthrow AlreadyApproved
         else
           pbind (outside (ge_now env)) (\<lambda>approvedAt.
           let updated = rr_approvals r @ [\<lparr>ra_guardianId = guardianId, ra_approvedAt = approvedAt, ra_signature = signature\<rparr>] in
           pbind (db_query (ge_fails env) (update_request (rr_id r) (\<lambda>r. r\<lparr>rr_approvals := updated\<rparr>))) (\<lambda>_.
           pbind (recovery_audit env (rr_walletAddress r) ''RECOVERY_APPROVED'') (\<lambda>_.
           if int (length updated) \<ge> rr_requiredApprovals r
           then pbind (completeRecovery env r (map ra_signature updated)) (\<lambda>res. pret (Inr res))
           else pbind (reload env (find_request (rr_id r))) (\<lambda>r. pret (Inl r))))))))"

definition getRecoveryRequest :: "'w recovery_env \<Rightarrow> string \<Rightarrow> ('w, RecoveryRequestModel) recovery_prog" where
  "getRecoveryRequest env i = with_request env i pret"

end
