(* ===== verification/Guardian_Properties.thy ===== *)
theory Guardian_Properties
  imports Guardian_Recovery "HOL-Library.Multiset"
begin

text \<open>
  What account recovery guarantees: who approved a request and when it may be completed, one pending request per wallet, the
  round trip of the encryption, the recovery key as a function of the set of approvals, and the runs that the time-lock and the
  emergency flag are meant to prevent.
\<close>

section \<open>Operations as one step\<close>

datatype recovery_op =
    OpAddGuardian AddGuardianRequest
  | OpVerifyGuardian string string
  | OpRemoveGuardian string
  | OpInitiate InitiateRecoveryRequest
  | OpApprove string string string
  | OpDisable
  | OpEnable

definition recovery_apply :: "'w recovery_env \<Rightarrow> recovery_op \<Rightarrow> ('w, unit) recovery_prog" where
  "recovery_apply env op =
     (case op of
        OpAddGuardian req \<Rightarrow> pbind (addGuardian env req) (\<lambda>_. pret ())
      | OpVerifyGuardian i c \<Rightarrow> pbind (verifyGuardian env i c) (\<lambda>_. pret ())
      | OpRemoveGuardian i \<Rightarrow> removeGuardian env i
      | OpInitiate req \<Rightarrow> pbind (initiateRecovery env req) (\<lambda>_. pret ())
      | OpApprove i g s \<Rightarrow> pbind (approveRecovery env i g s) (\<lambda>_. pret ())
      | OpDisable \<Rightarrow> disableRecovery
      | OpEnable \<Rightarrow> enableRecovery)"

fun recovery_run :: "'w recovery_env \<Rightarrow> recovery_op list \<Rightarrow> (recovery_db, 'w) tx_world \<Rightarrow> (recovery_db, 'w) tx_world" where
  "recovery_run env [] w = w"
| "recovery_run env (op # ops) w = recovery_run env ops (snd (recovery_apply env op w))"

section \<open>What every operation keeps\<close>

definition request_ok :: "RecoveryRequestModel \<Rightarrow> bool" where
  "request_ok r \<longleftrightarrow> distinct (map ra_guardianId (rr_approvals r)) \<and>
     (rr_status r = RvCompleted \<longrightarrow> rr_requiredApprovals r \<le> int (length (rr_approvals r)))"

definition one_pending :: "RecoveryRequestModel list \<Rightarrow> bool" where
  "one_pending rs \<longleftrightarrow> (\<forall>r \<in> set rs. \<forall>r' \<in> set rs.
     rr_status r = RvPending \<and> rr_status r' = RvPending \<and> rr_walletAddress r = rr_walletAddress r' \<longrightarrow> rr_id r = rr_id r')"

definition recovery_inv :: "recovery_db \<Rightarrow> bool" where
  "recovery_inv db \<longleftrightarrow> distinct (map rr_id (rb_requests db)) \<and> (\<forall>r \<in> set (rb_requests db). request_ok r) \<and> one_pending (rb_requests db)"

text \<open>An approval is the guardian's: its text names a guardian who is, at the time, verified and of the request's wallet.\<close>

definition may_approve :: "'w recovery_env \<Rightarrow> recovery_db \<Rightarrow> RecoveryRequestModel \<Rightarrow> RecoveryApproval \<Rightarrow> bool" where
  "may_approve env db r a \<longleftrightarrow> rr_status r = RvPending \<and>
     (\<exists>g \<in> set (rb_guardians db). ge_castUuid env (ra_guardianId a) = Some (gd_id g) \<and> gd_verified g \<and> gd_walletAddress g = rr_walletAddress r)"

definition request_step :: "'w recovery_env \<Rightarrow> recovery_db \<Rightarrow> RecoveryRequestModel \<Rightarrow> RecoveryRequestModel \<Rightarrow> bool" where
  "request_step env db r r' \<longleftrightarrow>
     rr_id r' = rr_id r \<and> rr_walletAddress r' = rr_walletAddress r \<and> rr_requiredApprovals r' = rr_requiredApprovals r \<and>
     (rr_approvals r' = rr_approvals r \<or> (\<exists>a. rr_approvals r' = rr_approvals r @ [a] \<and> may_approve env db r a)) \<and>
     (rr_status r' = rr_status r \<or> rr_status r = RvPending \<and>
        (rr_status r' = RvExpired \<or> rr_status r' = RvCompleted \<and> rr_requiredApprovals r \<le> int (length (rr_approvals r'))))"

definition recovery_step_ok :: "'w recovery_env \<Rightarrow> recovery_db \<Rightarrow> recovery_db \<Rightarrow> bool" where
  "recovery_step_ok env db db' \<longleftrightarrow> recovery_inv db' \<and> (\<forall>r \<in> set (rb_requests db). \<exists>r' \<in> set (rb_requests db'). request_step env db r r')"

lemma request_step_refl [simp]: "request_step env db r r"
  by (simp add: request_step_def)

lemma recovery_step_refl [intro]: "recovery_inv db \<Longrightarrow> recovery_step_ok env db db"
  by (auto simp: recovery_step_ok_def intro!: bexI [where P = "request_step env db r" and x = r for r])

lemma recovery_step_same: "rb_requests db'' = rb_requests db' \<Longrightarrow> recovery_step_ok env db db' \<Longrightarrow> recovery_step_ok env db db''"
  by (simp add: recovery_step_ok_def recovery_inv_def)

lemma one_pending_snoc:
  assumes "one_pending rs" and free: "\<forall>r' \<in> set rs. \<not> (rr_walletAddress r' = rr_walletAddress r \<and> rr_status r' = RvPending)"
  shows "one_pending (rs @ [r])"
  unfolding one_pending_def
proof (intro ballI impI)
  fix a b assume ab: "a \<in> set (rs @ [r])" "b \<in> set (rs @ [r])"
    and p: "rr_status a = RvPending \<and> rr_status b = RvPending \<and> rr_walletAddress a = rr_walletAddress b"
  consider "a \<in> set rs" "b \<in> set rs" | "a = r" "b = r" | "a \<in> set rs" "b = r" | "a = r" "b \<in> set rs" using ab by auto
  then show "rr_id a = rr_id b"
  proof cases
    case 1
    with assms(1) p show ?thesis unfolding one_pending_def by blast
  next
    case 2
    then show ?thesis by (simp only:)
  next
    case 3
    with free p have False by blast
    then show ?thesis ..
  next
    case 4
    with free p have False by auto
    then show ?thesis ..
  qed
qed

lemma recovery_step_insert:
  assumes inv: "recovery_inv db" and r: "insert_request r db = Inr (q, db')" "request_ok r"
    and free: "\<forall>r' \<in> set (rb_requests db). \<not> (rr_walletAddress r' = rr_walletAddress r \<and> rr_status r' = RvPending)"
  shows "recovery_step_ok env db db'"
proof -
  have db': "rb_requests db' = rb_requests db @ [r]" "rr_id r \<notin> rr_id ` set (rb_requests db)" using r(1) by (auto simp: insert_request_def split: if_splits)
  have "one_pending (rb_requests db')" unfolding db'(1) using inv by (intro one_pending_snoc free) (simp add: recovery_inv_def)
  moreover have "distinct (map rr_id (rb_requests db'))" using inv db'(2) by (simp add: recovery_inv_def db'(1))
  moreover have "\<forall>p \<in> set (rb_requests db'). request_ok p" using inv r(2) by (simp add: recovery_inv_def db'(1))
  ultimately have "recovery_inv db'" unfolding recovery_inv_def by blast
  moreover have "\<exists>r' \<in> set (rb_requests db'). request_step env db p r'" if "p \<in> set (rb_requests db)" for p
    by (rule bexI [of _ p]) (use that db'(1) in simp_all)
  ultimately show ?thesis unfolding recovery_step_ok_def by blast
qed

lemma find_request_unique:
  assumes "recovery_inv db" "find_request i db = Some r"
  shows "r \<in> set (rb_requests db) \<and> rr_id r = i \<and> (\<forall>q \<in> set (rb_requests db). rr_id q = i \<longrightarrow> q = r)"
proof -
  have "r \<in> set (rb_requests db) \<and> rr_id r = i" using assms(2) by (auto simp: find_request_def find_Some_iff)
  moreover have "inj_on rr_id (set (rb_requests db))" using assms(1) by (simp add: recovery_inv_def distinct_map)
  ultimately show ?thesis by (auto dest: inj_onD)
qed

text \<open>A change of the request that was read.\<close>

lemma recovery_step_update:
  assumes inv: "recovery_inv db" and r: "find_request i db = Some r"
    and db': "rb_requests db' = map (\<lambda>q. if rr_id q = i then h q else q) (rb_requests db)"
    and h: "request_ok (h r)" "request_step env db r (h r)" "rr_status (h r) = RvPending \<longrightarrow> rr_status r = RvPending"
  shows "recovery_step_ok env db db'"
proof -
  define g where "g = (\<lambda>q. if rr_id q = i then h q else q)"
  have props: "rb_requests db' = map g (rb_requests db)" using db' by (simp add: g_def)
  note only = find_request_unique [OF inv r]
  have g: "g q = (if q = r then h r else q)" if "q \<in> set (rb_requests db)" for q
  proof (cases "rr_id q = i")
    case True
    with only that have "q = r" by blast
    with True show ?thesis by (simp add: g_def)
  next
    case False
    with only have "q \<noteq> r" by blast
    with False show ?thesis by (simp add: g_def)
  qed
  have step: "request_step env db q (g q)" if "q \<in> set (rb_requests db)" for q using g [OF that] h(2) by simp
  have ok: "request_ok (g q)" if "q \<in> set (rb_requests db)" for q 
  proof -
    have "request_ok q" using inv that by (simp add: recovery_inv_def)
    with g [OF that] h(1) show ?thesis by simp
  qed
  have pend: "rr_status (g q) = RvPending \<Longrightarrow> rr_status q = RvPending" if "q \<in> set (rb_requests db)" for q using g [OF that] h(3) by (simp split: if_splits)
  have same: "rr_id (g q) = rr_id q" "rr_walletAddress (g q) = rr_walletAddress q" if "q \<in> set (rb_requests db)" for q
    using step [OF that] by (simp_all add: request_step_def)
  have ids: "map rr_id (map g (rb_requests db)) = map rr_id (rb_requests db)" using same(1) by simp
  have "one_pending (rb_requests db')" unfolding one_pending_def props
  proof (intro ballI impI)
    fix q q' assume "q \<in> set (map g (rb_requests db))" "q' \<in> set (map g (rb_requests db))"
      and p: "rr_status q = RvPending \<and> rr_status q' = RvPending \<and> rr_walletAddress q = rr_walletAddress q'"
    then obtain a b where ab: "a \<in> set (rb_requests db)" "q = g a" "b \<in> set (rb_requests db)" "q' = g b" by auto
    have "rr_status a = RvPending" "rr_status b = RvPending" "rr_walletAddress a = rr_walletAddress b"
      using pend [OF ab(1)] pend [OF ab(3)] same(2) [OF ab(1)] same(2) [OF ab(3)] p unfolding ab(2,4) by simp_all
    moreover have "one_pending (rb_requests db)" using inv by (simp add: recovery_inv_def)
    ultimately have "rr_id a = rr_id b" using ab(1,3) unfolding one_pending_def by blast
    then show "rr_id q = rr_id q'" using same(1) [OF ab(1)] same(1) [OF ab(3)] unfolding ab(2,4) by simp
  qed
  moreover have "distinct (map rr_id (rb_requests db'))" unfolding props ids using inv by (simp add: recovery_inv_def)
  moreover have "\<forall>q \<in> set (rb_requests db'). request_ok q" unfolding props using ok by auto
  ultimately have "recovery_inv db'" unfolding recovery_inv_def by blast
  moreover have "\<exists>q' \<in> set (rb_requests db'). request_step env db q q'" if "q \<in> set (rb_requests db)" for q
    by (rule bexI [of _ "g q"]) (use step [OF that] that in \<open>simp_all add: props\<close>)
  ultimately show ?thesis unfolding recovery_step_ok_def by blast
qed

section \<open>The operations\<close>

lemma ends_find:
  assumes "Q d" "\<And>i. ge_castUuid env text = Some i \<Longrightarrow> ends d Q (k (row i d))"
  shows "ends d Q (pbind (findByPk env row text) k)"
  unfolding findByPk_def by (intro ends_query) (use assms in \<open>auto split: option.splits\<close>)

lemma ends_guardian:
  "Q d \<Longrightarrow> (\<And>i g. ge_castUuid env text = Some i \<Longrightarrow> find_guardian i d = Some g \<Longrightarrow> ends d Q (k g)) \<Longrightarrow> ends d Q (with_guardian env text k)"
  unfolding with_guardian_def by (intro ends_find ends_option ends_pthrow)

lemma ends_request:
  "Q d \<Longrightarrow> (\<And>i r. ge_castUuid env text = Some i \<Longrightarrow> find_request i d = Some r \<Longrightarrow> ends d Q (k r)) \<Longrightarrow> ends d Q (with_request env text k)"
  unfolding with_request_def by (intro ends_find ends_option ends_pthrow)

lemma ends_reload: "Q d \<Longrightarrow> ends d Q (reload env row)"
  unfolding reload_def by (intro ends_select ends_option ends_pthrow ends_pret)

lemma ends_reload_then: "Q d \<Longrightarrow> ends d Q (pbind (reload env row) (\<lambda>x. pret (f x)))"
  unfolding reload_def by (intro ends_assoc ends_select ends_option_bind ends_pthrow_bind ends_pret_bind ends_pret)

lemma ends_get: "ends d Q (k (f d)) \<Longrightarrow> ends d Q (pbind (mem_get f) k)"
  by (simp add: ends_def mem_get_def pbind_apply pgets_apply)

lemma ends_encrypt: "(\<And>j. ends d Q (k j)) \<Longrightarrow> ends d Q (pbind (encryptIdentifier env x) k)"
  unfolding encryptIdentifier_def by (intro ends_assoc ends_outside) (auto simp: Let_def split: prod.splits)

text \<open>A statement that leaves the requests alone.\<close>

lemma ends_other:
  assumes "recovery_step_ok env d0 d" and "\<And>a d'. f d = Inr (a, d') \<Longrightarrow> rb_requests d' = rb_requests d"
    and "\<And>a d'. rb_requests d' = rb_requests d \<Longrightarrow> recovery_step_ok env d0 d' \<Longrightarrow> ends d' (recovery_step_ok env d0) (k a)"
  shows "ends d (recovery_step_ok env d0) (pbind (db_query fails f) k)"
  by (intro ends_query) (use assms recovery_step_same [of _ d env d0] in auto)

lemma ends_recovery_audit:
  assumes "recovery_step_ok env d0 d" and "\<And>d'. rb_requests d' = rb_requests d \<Longrightarrow> recovery_step_ok env d0 d' \<Longrightarrow> ends d' (recovery_step_ok env d0) (k ())"
  shows "ends d (recovery_step_ok env d0) (pbind (recovery_audit env a e) k)"
  unfolding recovery_audit_def by (rule ends_other) (use assms in auto)

lemma ends_recovery_audit_last: "recovery_step_ok env d0 d \<Longrightarrow> ends d (recovery_step_ok env d0) (recovery_audit env a e)"
  using ends_recovery_audit [of env d0 d pret a e] by (simp add: pbind_pret_right ends_pret)

lemma addGuardian_step: "recovery_inv d \<Longrightarrow> ends d (recovery_step_ok env d) (addGuardian env req)"
  unfolding addGuardian_def
  by (intro ends_if ends_pthrow ends_encrypt ends_outside ends_other ends_recovery_audit ends_pret;
      (assumption | erule recovery_step_refl | (simp add: insert_guardian_def split: if_splits)))

lemma verifyGuardian_step: "recovery_inv d \<Longrightarrow> ends d (recovery_step_ok env d) (verifyGuardian env i c)"
  unfolding verifyGuardian_def
  by (intro ends_if ends_pthrow ends_guardian ends_outside ends_other ends_recovery_audit ends_reload;
      (assumption | erule recovery_step_refl | (auto simp: update_guardian_def)))

lemma removeGuardian_step: "recovery_inv d \<Longrightarrow> ends d (recovery_step_ok env d) (removeGuardian env i)"
  unfolding removeGuardian_def
  by (intro ends_guardian ends_other ends_recovery_audit_last; (assumption | erule recovery_step_refl | (auto simp: delete_guardian_def)))

lemma ends_insert_request:
  assumes "recovery_inv d" "request_ok r" "find (\<lambda>q. rr_walletAddress q = rr_walletAddress r \<and> rr_status q = RvPending) (rb_requests d) = None"
    and "\<And>a d'. recovery_step_ok env d d' \<Longrightarrow> ends d' (recovery_step_ok env d) (k a)"
  shows "ends d (recovery_step_ok env d) (pbind (db_query fails (insert_request r)) k)"
  by (rule ends_query) (use assms recovery_step_insert [OF assms(1) _ assms(2), of _ _ env] in \<open>auto simp: find_None_iff intro!: recovery_step_refl\<close>)

lemma initiateRecovery_step: "recovery_inv d \<Longrightarrow> ends d (recovery_step_ok env d) (initiateRecovery env req)"
  unfolding initiateRecovery_def isRecoveryEnabled_def
  by (intro ends_if ends_pthrow ends_get ends_outside ends_select ends_option ends_insert_request ends_update ends_recovery_audit ends_pret;
      (assumption | erule recovery_step_refl | (erule recovery_step_same [rotated]; simp) | simp add: request_ok_def)?)

lemma approval_ok:
  assumes inv: "recovery_inv d" and r: "find_request i d = Some r" "rr_status r = RvPending"
    and g: "ge_castUuid env gid = Some j" "find_guardian j d = Some g" "gd_verified g" "gd_walletAddress g = rr_walletAddress r"
    and a: "ra_guardianId a = gid" "\<not> (\<exists>b \<in> set (rr_approvals r). ra_guardianId b = gid)"
    and st: "st = RvPending \<or> st = RvCompleted \<and> rr_requiredApprovals r \<le> int (length (rr_approvals r @ [a]))"
  shows "request_ok (r\<lparr>rr_approvals := rr_approvals r @ [a], rr_status := st\<rparr>) \<and> request_step env d r (r\<lparr>rr_approvals := rr_approvals r @ [a], rr_status := st\<rparr>)"
proof -
  have "request_ok r" using inv find_request_unique [OF inv r(1)] by (simp add: recovery_inv_def)
  moreover have "g \<in> set (rb_guardians d)" "gd_id g = j" using g(2) by (auto simp: find_guardian_def find_Some_iff)
  ultimately show ?thesis using r(2) g(1,3,4) a st by (auto simp: request_ok_def request_step_def may_approve_def)
qed

lemma ends_complete:
  assumes "recovery_step_ok env d0 d"
    and fin: "\<And>d'. rb_requests d' = map (\<lambda>q. if rr_id q = rr_id r then q\<lparr>rr_status := RvCompleted\<rparr> else q) (rb_requests d) \<Longrightarrow> recovery_step_ok env d0 d'"
    and "\<And>res d'. recovery_step_ok env d0 d' \<Longrightarrow> ends d' (recovery_step_ok env d0) (k res)"
  shows "ends d (recovery_step_ok env d0) (pbind (completeRecovery env r sigs) k)"
  unfolding completeRecovery_def
proof (intro ends_assoc ends_outside ends_encrypt ends_query assms(1))
  fix raw j u d' assume "update_request (rr_id r) (\<lambda>r. r\<lparr>rr_status := RvCompleted\<rparr>) d = Inr (u, d')"
  then have "recovery_step_ok env d0 d'" by (intro fin) (auto simp: update_request_def)
  then show "ends d' (recovery_step_ok env d0) (pbind (recovery_audit env (rr_walletAddress r) ''RECOVERY_COMPLETED'') (\<lambda>x. pbind (pbind (outside (ge_now env))
     (\<lambda>completedAt. pret \<lparr>rt_walletAddress = rr_walletAddress r, rt_newMasterKey = j, rt_recoveryKey = deriveRecoveryKey env sigs, rt_completedAt = completedAt\<rparr>)) k))"
    by (intro ends_recovery_audit ends_assoc ends_outside ends_pret_bind assms(3))
qed

lemma approveRecovery_step:
  assumes inv: "recovery_inv d"
  shows "ends d (recovery_step_ok env d) (approveRecovery env text gid s)"
  unfolding approveRecovery_def Let_def
proof (intro ends_request ends_if ends_pthrow ends_outside ends_guardian recovery_step_refl [OF inv])
  fix i r now assume r: "find_request i d = Some r" "\<not> rr_status r \<noteq> RvPending" "rr_expiresAt r \<le> now"
  show "ends d (recovery_step_ok env d) (pbind (db_query (ge_fails env) (update_request (rr_id r) (\<lambda>r. r\<lparr>rr_status := RvExpired\<rparr>)))
          (\<lambda>_. pbind (recovery_audit env (rr_walletAddress r) ''RECOVERY_EXPIRED'') (\<lambda>_. pthrow RecoveryHasExpired)))"
  proof (intro ends_query recovery_step_refl [OF inv])
    have [simp]: "rr_id r = i" using find_request_unique [OF inv r(1)] by blast
    fix u d' assume "update_request (rr_id r) (\<lambda>r. r\<lparr>rr_status := RvExpired\<rparr>) d = Inr (u, d')"
    then have "rb_requests d' = map (\<lambda>q. if rr_id q = i then q\<lparr>rr_status := RvExpired\<rparr> else q) (rb_requests d)" by (auto simp: update_request_def)
    moreover have "request_ok r" using inv find_request_unique [OF inv r(1)] by (simp add: recovery_inv_def)
    ultimately have "recovery_step_ok env d d'"
      using r(2) by (intro recovery_step_update [OF inv r(1)]) (auto simp: request_ok_def request_step_def)
    then show "ends d' (recovery_step_ok env d) (pbind (recovery_audit env (rr_walletAddress r) ''RECOVERY_EXPIRED'') (\<lambda>_. pthrow RecoveryHasExpired))"
      by (intro ends_recovery_audit ends_pthrow)
  qed
next
  fix i r now j g approvedAt
  let ?a = "\<lparr>ra_guardianId = gid, ra_approvedAt = approvedAt, ra_signature = s\<rparr>"
  assume r: "find_request i d = Some r" "\<not> rr_status r \<noteq> RvPending" and g: "ge_castUuid env gid = Some j" "find_guardian j d = Some g" "\<not> \<not> gd_verified g"
    "\<not> gd_walletAddress g \<noteq> rr_walletAddress r" "\<not> (\<exists>a \<in> set (rr_approvals r). ra_guardianId a = gid)"
  have [simp]: "rr_id r = i" using find_request_unique [OF inv r(1)] by blast
  note appr = approval_ok [OF inv r(1) _ g(1,2) _ _ _ g(5), where a = ?a]
  show "ends d (recovery_step_ok env d) (pbind (db_query (ge_fails env) (update_request (rr_id r) (\<lambda>q. q\<lparr>rr_approvals := rr_approvals r @ [?a]\<rparr>)))
     (\<lambda>_. pbind (recovery_audit env (rr_walletAddress r) ''RECOVERY_APPROVED'')
       (\<lambda>_. if int (length (rr_approvals r @ [?a])) \<ge> rr_requiredApprovals r
             then pbind (completeRecovery env r (map ra_signature (rr_approvals r @ [?a]))) (\<lambda>res. pret (Inr res))
             else pbind (reload env (find_request (rr_id r))) (\<lambda>r. pret (Inl r)))))"
  proof (intro ends_query recovery_step_refl [OF inv])
    fix u d' assume "update_request (rr_id r) (\<lambda>q. q\<lparr>rr_approvals := rr_approvals r @ [?a]\<rparr>) d = Inr (u, d')"
    then have d': "rb_requests d' = map (\<lambda>q. if rr_id q = i then q\<lparr>rr_approvals := rr_approvals r @ [?a]\<rparr> else q) (rb_requests d)" by (auto simp: update_request_def)
    have r2: "r\<lparr>rr_approvals := rr_approvals r @ [?a], rr_status := RvPending\<rparr> = r\<lparr>rr_approvals := rr_approvals r @ [?a]\<rparr>" using r(2) by simp
    have step: "recovery_step_ok env d d'"
      by (rule recovery_step_update [OF inv r(1) d']) (use appr [of RvPending] r(2) g r2 in simp_all)
    show "ends d' (recovery_step_ok env d) (pbind (recovery_audit env (rr_walletAddress r) ''RECOVERY_APPROVED'')
       (\<lambda>_. if int (length (rr_approvals r @ [?a])) \<ge> rr_requiredApprovals r
             then pbind (completeRecovery env r (map ra_signature (rr_approvals r @ [?a]))) (\<lambda>res. pret (Inr res))
             else pbind (reload env (find_request (rr_id r))) (\<lambda>r. pret (Inl r))))"
    proof (intro ends_recovery_audit ends_if ends_complete ends_reload_then ends_pret step)
      fix d2 d3 :: recovery_db assume d2: "rb_requests d2 = rb_requests d'" and enough: "int (length (rr_approvals r @ [?a])) \<ge> rr_requiredApprovals r"
        and d3: "rb_requests d3 = map (\<lambda>q. if rr_id q = rr_id r then q\<lparr>rr_status := RvCompleted\<rparr> else q) (rb_requests d2)"
      have "rb_requests d3 = map (\<lambda>q. if rr_id q = i then q\<lparr>rr_approvals := rr_approvals r @ [?a], rr_status := RvCompleted\<rparr> else q) (rb_requests d)"
        by (simp add: d3 d2 d')
      then show "recovery_step_ok env d d3"
        by (rule recovery_step_update [OF inv r(1)]) (use appr [of RvCompleted] r(2) g enough in simp_all)
    qed
  qed
qed

lemmas recovery_steps = addGuardian_step verifyGuardian_step removeGuardian_step initiateRecovery_step approveRecovery_step

lemma recovery_apply_step:
  assumes inv: "recovery_inv d"
  shows "ends d (recovery_step_ok env d) (recovery_apply env op)"
  using recovery_step_same [OF _ recovery_step_refl [OF inv], of _ env]
  by (cases op) (simp_all add: recovery_apply_def inv recovery_steps ends_discard ends_update_last disableRecovery_def enableRecovery_def)

text \<open>C16: One operation of account recovery, however it ends, operations following one another: no text of a guardian's id approves a
  request twice; each new approval's text names, as the database reads it, a guardian who is verified and belongs to the wallet, on a
  pending request; a request leaves the pending state only to expire or, with the required number of approvals, to be completed; and a
  wallet has at most one pending request. (One guardian may approve under two spellings of the id, as a run below shows.)\<close>

theorem recovery_approvals_sound:
  assumes "recovery_inv (iw_db w)"
  shows "recovery_step_ok env (iw_db w) (iw_db (snd (recovery_apply env op w)))"
  by (rule endsD [OF recovery_apply_step [OF assms]])

lemma recovery_run_inv: "recovery_inv (iw_db w) \<Longrightarrow> recovery_inv (iw_db (recovery_run env ops w))"
proof (induction ops arbitrary: w)
  case (Cons op ops)
  have "recovery_inv (iw_db (snd (recovery_apply env op w)))" using endsD [OF recovery_apply_step [OF Cons.prems]] by (simp add: recovery_step_ok_def)
  then show ?case by (simp add: Cons.IH)
qed simp

section \<open>The rate limit\<close>

lemma isRateLimited_iff:
  "isRateLimited a now db \<longleftrightarrow> (\<exists>t. rb_attempts db a = Some t \<and> now < t + 30 * 86400000)"
proof (cases "rb_attempts db a")
  case (Some t)
  have "of_int (now - t) / (1000 * 60 * 60 * 24) < (30 :: rat) \<longleftrightarrow> (of_int (now - t) :: rat) < of_int (30 * 86400000)" by (simp add: field_simps)
  also have "\<dots> \<longleftrightarrow> now - t < 30 * 86400000" by (rule of_int_less_iff)
  finally show ?thesis using Some by (auto simp: isRateLimited_def RATE_LIMIT_DAYS_def)
qed (simp add: isRateLimited_def)

section \<open>Encryption\<close>

lemma hex_digit_value: "n < 16 \<Longrightarrow> hex_value (hex_digit n) = Some n"
  by (auto simp: hex_value_def hex_digit_def Let_def)

lemma from_to_hex: "\<forall>b \<in> set bs. b < 256 \<Longrightarrow> from_hex (to_hex bs) = bs"
proof (induction bs)
  case (Cons b bs)
  then have "b div 16 < 16" "b mod 16 < 16" by auto
  with Cons show ?case by (simp add: to_hex_def hex_digit_value)
qed (simp add: to_hex_def)

text \<open>What the cryptographic functions promise: they work on bytes, and decryption under the same key, nonce and tag inverts encryption.\<close>

definition bytes :: "nat list \<Rightarrow> bool" where
  "bytes bs \<longleftrightarrow> (\<forall>b \<in> set bs. b < 256)"

definition aes_gcm :: "'w recovery_env \<Rightarrow> bool" where
  "aes_gcm env \<longleftrightarrow> (\<forall>n x. bytes (fst (ge_randomBytes env n x))) \<and>
     (\<forall>key iv text. bytes (fst (ge_gcm env key iv text)) \<and> bytes (snd (ge_gcm env key iv text)) \<and>
        ge_ungcm env key iv (snd (ge_gcm env key iv text)) (fst (ge_gcm env key iv text)) = Some text)"

text \<open>With AES-GCM as documented, an encrypted identifier, hex-encoded with its salt, nonce and tag, is decrypted to itself.\<close>

theorem identifier_roundtrip:
  assumes "aes_gcm env" and "encryptIdentifier env identifier w = (Inr j, w')"
  shows "decryptIdentifier env j = Some identifier"
proof -
  obtain salt x where s: "ge_randomBytes env SALT_LENGTH (iw_ext w) = (salt, x)" by fastforce
  obtain iv y where i: "ge_randomBytes env IV_LENGTH x = (iv, y)" by fastforce
  obtain data tag where g: "ge_gcm env (ge_pbkdf2 env salt) iv identifier = (data, tag)" by fastforce
  have j: "j = \<lparr>ej_salt = to_hex salt, ej_iv = to_hex iv, ej_tag = to_hex tag, ej_data = to_hex data\<rparr>"
    using assms(2) by (auto simp: encryptIdentifier_def pbind_apply outside_def pret_apply s i g)
  have "bytes salt" "bytes iv" "bytes data" "bytes tag" "ge_ungcm env (ge_pbkdf2 env salt) iv tag data = Some identifier"
    using assms(1) s i g unfolding aes_gcm_def by (metis fst_conv snd_conv)+
  then show ?thesis by (simp add: j decryptIdentifier_def from_to_hex bytes_def)
qed

text \<open>The recovery key depends on the signatures, not on the order in which the guardians approved.\<close>

theorem recovery_key_order:
  assumes "mset sigs = mset sigs'"
  shows "deriveRecoveryKey env sigs = deriveRecoveryKey env sigs'"
proof -
  have "sort sigs = sort sigs'" using assms by (metis properties_for_sort mset_sort sorted_sort)
  then show ?thesis by (simp add: deriveRecoveryKey_def)
qed

section \<open>Runs\<close>

definition rv_demo_env :: "int recovery_env" where
  "rv_demo_env = \<lparr>ge_fails = (\<lambda>x. (None, x)), ge_uuid = (\<lambda>x. (''r'', x)), ge_now = (\<lambda>x. (x, x + 1)), ge_randomBytes = (\<lambda>n x. (replicate n 7, x)),
     ge_pbkdf2 = id, ge_gcm = (\<lambda>_ _ s. (map of_char s, [])), ge_ungcm = (\<lambda>_ _ _ bs. Some (map char_of bs)), ge_hmac = id, ge_castUuid = (\<lambda>text. Some (js_lower text))\<rparr>"

definition rv_demo_guardian :: GuardianModel where
  "rv_demo_guardian = \<lparr>gd_id = ''g'', gd_walletAddress = ''W'', gd_type = ''email'', gd_identifier = ''g@x'',
     gd_identifierEncrypted = \<lparr>ej_salt = [], ej_iv = [], ej_tag = [], ej_data = []\<rparr>, gd_verified = True, gd_verificationCode = None,
     gd_verificationExpiresAt = None, gd_createdAt = 0\<rparr>"

definition rv_demo_world :: "(recovery_db, int) tx_world" where
  "rv_demo_world = \<lparr>iw_db = \<lparr>rb_guardians = [rv_demo_guardian], rb_requests = [], rb_audit = [], rb_enabled = True, rb_attempts = Map.empty\<rparr>, iw_ext = 0\<rparr>"

definition rv_demo_request :: "int \<Rightarrow> recovery_op" where
  "rv_demo_request n = OpInitiate \<lparr>ir_walletAddress = ''W'', ir_initiatedBy = ''x'', ir_requiredApprovals = Some n\<rparr>"

definition rv_demo_pending :: "(recovery_db, int) tx_world" where
  "rv_demo_pending = recovery_run rv_demo_env [rv_demo_request 1] rv_demo_world"

lemma rv_demo_pending_inv: "recovery_inv (iw_db rv_demo_pending)"
  unfolding rv_demo_pending_def by (rule recovery_run_inv) (simp add: rv_demo_world_def recovery_inv_def one_pending_def)

theorem recovery_approvals_sound_witness:
  "recovery_inv (iw_db rv_demo_pending) \<and>
   recovery_step_ok rv_demo_env (iw_db rv_demo_pending) (iw_db (snd (recovery_apply rv_demo_env (OpApprove ''r'' ''g'' ''sig'') rv_demo_pending)))"
  using recovery_approvals_sound [OF rv_demo_pending_inv] rv_demo_pending_inv by blast

lemma rv_demo_gcm: "aes_gcm rv_demo_env"
  by (auto simp: aes_gcm_def rv_demo_env_def bytes_def comp_def)

theorem identifier_roundtrip_witness:
  "aes_gcm rv_demo_env \<and> (\<exists>j w'. encryptIdentifier rv_demo_env ''g@x'' rv_demo_world = (Inr j, w') \<and> decryptIdentifier rv_demo_env j = Some ''g@x'')"
proof -
  obtain j w' where 1: "encryptIdentifier rv_demo_env ''g@x'' rv_demo_world = (Inr j, w')"
    by (auto simp: encryptIdentifier_def pbind_apply outside_def pret_apply rv_demo_env_def)
  from identifier_roundtrip [OF rv_demo_gcm 1] 1 rv_demo_gcm show ?thesis by blast
qed

theorem recovery_key_order_witness:
  "mset [''a'', ''b''] = mset [''b'', ''a''] \<and> deriveRecoveryKey rv_demo_env [''a'', ''b''] = deriveRecoveryKey rv_demo_env [''b'', ''a'']"
  using recovery_key_order [of "[''a'', ''b'']" "[''b'', ''a'']" rv_demo_env] by simp

text \<open>A request may ask for a single approval, is completed at once, within the seven days called a time-lock, and also after the
  emergency flag has disabled recovery.\<close>

theorem recovery_without_lock:
  "map (\<lambda>r. (rr_status r, rr_expiresAt r)) (rb_requests (iw_db (recovery_run rv_demo_env
     [rv_demo_request 1, OpDisable, OpApprove ''r'' ''g'' ''sig''] rv_demo_world))) = [(RvCompleted, 604800001)] \<and>
   iw_ext (recovery_run rv_demo_env [rv_demo_request 1, OpDisable, OpApprove ''r'' ''g'' ''sig''] rv_demo_world) < 10"
  by (intro conjI; code_simp)

text \<open>The duplicate test compares the texts of the requests, the lookup the ids: one guardian gives both of the approvals a request
  asks for, under two spellings of the same id.\<close>

theorem guardian_approves_twice:
  "map (\<lambda>r. (rr_status r, map ra_guardianId (rr_approvals r))) (rb_requests (iw_db (recovery_run rv_demo_env
     [rv_demo_request 2, OpApprove ''r'' ''g'' ''sig'', OpApprove ''r'' ''g'' ''again'', OpApprove ''r'' ''G'' ''other''] rv_demo_world))) =
     [(RvCompleted, [''g'', ''G''])]"
  by code_simp

end
