(* ===== verification/Sequence_Numbers.thy ===== *)
theory Sequence_Numbers
  imports Complex_Main Transactions
begin

text \<open>
  Sequence numbers of Stellar accounts (wallet/src/queue/txQueue.ts, sequenceMonitoring.ts): blocks of numbers reserved in Redis
  under a lock, the cursor from which a block is consumed, the cached number used without a reservation, the reset after a
  sequence conflict, and the administration of reservations. The state is the Redis keys, one map per family of keys, each with
  the time its key expires; a key that has expired is absent. Only this code writes them, so that the entries are kept as the
  objects their JSON text stands for, and sequence numbers as integers. Every command may throw and then has no effect.
  Horizon's answer for an account, lease ids and the clock are the environment; waiting only lets the clock advance.
\<close>

section \<open>Redis\<close>

record SequenceReservation =
  sr_account :: string
  sr_firstSequence :: int
  sr_lastSequence :: int
  sr_size :: int
  sr_leaseId :: string
  sr_expiresAt :: ms

record SequenceGap =
  sg_account :: string
  sg_expectedSequence :: int
  sg_actualSequence :: int
  sg_gapSize :: int
  sg_detectedAt :: ms
  sg_resolved :: bool

datatype audit_action = AuReserve | AuConsume | AuRelease | AuExpire | AuForceRelease | AuPreWarm | AuGapDetected

record AuditTrailEntry =
  au_timestamp :: ms
  au_account :: string
  au_action :: audit_action
  au_leaseId :: "string option"
  au_sequence :: "int option"

type_synonym 'v keyspace = "string \<rightharpoonup> ('v \<times> ms option)"

record seq_db =
  sq_reservations :: "SequenceReservation list keyspace"
  sq_cursors :: "int keyspace"
  sq_cache :: "int keyspace"
  sq_locks :: "string keyspace"
  sq_monitor :: "string keyspace"
  sq_contention :: "int keyspace"
  sq_gaps :: "SequenceGap list keyspace"
  sq_audit :: "AuditTrailEntry list keyspace"
  sq_highThroughput :: "string list"

datatype seq_error =
    LockNotAcquired
  | AccountNotLoaded string
  | InvalidExpireTime
  | RedisDown string

record 'w seq_env =
  se_fails :: "('w, seq_error) outages"
  se_now :: "'w \<Rightarrow> ms \<times> 'w"
  se_leaseId :: "'w \<Rightarrow> string \<times> 'w"
  se_loadAccount :: "string \<Rightarrow> 'w \<Rightarrow> (seq_error + int) \<times> 'w"

type_synonym ('w, 'a) seq_prog = "((seq_db, 'w) tx_world, seq_error, 'a) prog"

text \<open>Every command finds the keys that have expired deleted.\<close>

definition purge :: "ms \<Rightarrow> 'v keyspace \<Rightarrow> 'v keyspace" where
  "purge t m k = (case m k of None \<Rightarrow> None | Some (v, e) \<Rightarrow>
     (case e of None \<Rightarrow> Some (v, e) | Some x \<Rightarrow> if t < x then Some (v, e) else None))"

definition purge_db :: "ms \<Rightarrow> seq_db \<Rightarrow> seq_db" where
  "purge_db t db = db\<lparr>sq_reservations := purge t (sq_reservations db), sq_cursors := purge t (sq_cursors db), sq_cache := purge t (sq_cache db),
     sq_locks := purge t (sq_locks db), sq_monitor := purge t (sq_monitor db), sq_contention := purge t (sq_contention db),
     sq_gaps := purge t (sq_gaps db), sq_audit := purge t (sq_audit db)\<rparr>"

definition get_key :: "'v keyspace \<Rightarrow> string \<Rightarrow> 'v option" where
  "get_key m k = map_option fst (m k)"

definition get_list :: "'v list keyspace \<Rightarrow> string \<Rightarrow> 'v list" where
  "get_list m k = (case m k of None \<Rightarrow> [] | Some (vs, e) \<Rightarrow> vs)"

definition get_ttl :: "'v keyspace \<Rightarrow> string \<Rightarrow> ms option" where
  "get_ttl m k = (case m k of None \<Rightarrow> None | Some (v, e) \<Rightarrow> e)"

text \<open>\<^verbatim>\<open>RPUSH\<close>, \<^verbatim>\<open>LREM key 0 v\<close> (a list that becomes empty is deleted), \<^verbatim>\<open>LTRIM key -n -1\<close> and \<^verbatim>\<open>EXPIRE\<close>.\<close>

definition rpush :: "string \<Rightarrow> 'v \<Rightarrow> 'v list keyspace \<Rightarrow> 'v list keyspace" where
  "rpush k v m = m(k \<mapsto> (get_list m k @ [v], get_ttl m k))"

definition lrem :: "string \<Rightarrow> 'v \<Rightarrow> 'v list keyspace \<Rightarrow> 'v list keyspace" where
  "lrem k v m = (let rest = removeAll v (get_list m k) in m(k := (if rest = [] then None else Some (rest, get_ttl m k))))"

definition ltrim :: "string \<Rightarrow> nat \<Rightarrow> 'v list keyspace \<Rightarrow> 'v list keyspace" where
  "ltrim k n m = (case m k of None \<Rightarrow> m | Some (vs, e) \<Rightarrow> m(k \<mapsto> (drop (length vs - n) vs, e)))"

definition expire_key :: "string \<Rightarrow> int \<Rightarrow> ms \<Rightarrow> 'v keyspace \<Rightarrow> 'v keyspace" where
  "expire_key k seconds t m = (case m k of None \<Rightarrow> m | Some (v, e) \<Rightarrow> m(k \<mapsto> (v, Some (t + seconds * 1000))))"

definition delete_keys :: "(string \<Rightarrow> bool) \<Rightarrow> 'v keyspace \<Rightarrow> 'v keyspace" where
  "delete_keys P m k = (if P k then None else m k)"

definition redis_command :: "'w seq_env \<Rightarrow> (ms \<Rightarrow> seq_db \<Rightarrow> seq_error + ('a \<times> seq_db)) \<Rightarrow> ('w, 'a) seq_prog" where
  "redis_command env f = pbind (outside (se_now env)) (\<lambda>t. db_query (se_fails env) (\<lambda>db. f t (purge_db t db)))"

definition redis_read :: "'w seq_env \<Rightarrow> (ms \<Rightarrow> seq_db \<Rightarrow> 'a) \<Rightarrow> ('w, 'a) seq_prog" where
  "redis_read env f = redis_command env (\<lambda>t db. Inr (f t db, db))"

definition redis_write :: "'w seq_env \<Rightarrow> (ms \<Rightarrow> seq_db \<Rightarrow> seq_db) \<Rightarrow> ('w, unit) seq_prog" where
  "redis_write env f = redis_command env (\<lambda>t db. Inr ((), f t db))"

definition pfinally :: "('s, 'e, 'a) prog \<Rightarrow> ('s, 'e, unit) prog \<Rightarrow> ('s, 'e, 'a) prog" where
  "pfinally m cleanup = pbind (ptry m) (\<lambda>r. pbind cleanup (\<lambda>_. case r of Inl e \<Rightarrow> pthrow e | Inr a \<Rightarrow> pret a))"

section \<open>Monitoring\<close>

definition RETENTION_DAYS :: int where "RETENTION_DAYS = 30"
definition MAX_AUDIT_ENTRIES :: nat where "MAX_AUDIT_ENTRIES = 1000"

definition recordAuditEntry :: "'w seq_env \<Rightarrow> string \<Rightarrow> audit_action \<Rightarrow> string option \<Rightarrow> int option \<Rightarrow> ('w, unit) seq_prog" where
  "recordAuditEntry env account action leaseId sequence =
     pbind (outside (se_now env)) (\<lambda>now.
     pbind (redis_write env (\<lambda>t db. db\<lparr>sq_audit := rpush account \<lparr>au_timestamp = now, au_account = account, au_action = action,
       au_leaseId = leaseId, au_sequence = sequence\<rparr> (sq_audit db)\<rparr>)) (\<lambda>_.
     pbind (redis_write env (\<lambda>t db. db\<lparr>sq_audit := ltrim account MAX_AUDIT_ENTRIES (sq_audit db)\<rparr>)) (\<lambda>_.
     redis_write env (\<lambda>t db. db\<lparr>sq_audit := expire_key account (RETENTION_DAYS * 86400) t (sq_audit db)\<rparr>))))"

definition recordContentionEvent :: "'w seq_env \<Rightarrow> string \<Rightarrow> ('w, unit) seq_prog" where
  "recordContentionEvent env account =
     pbind (redis_write env (\<lambda>t db. db\<lparr>sq_contention := (sq_contention db)(account \<mapsto>
       ((case get_key (sq_contention db) account of None \<Rightarrow> 0 | Some n \<Rightarrow> n) + 1, get_ttl (sq_contention db) account))\<rparr>)) (\<lambda>_.
     redis_write env (\<lambda>t db. db\<lparr>sq_contention := expire_key account 3600 t (sq_contention db)\<rparr>))"

definition recordLockAcquisition :: "'w seq_env \<Rightarrow> string \<Rightarrow> string \<Rightarrow> ('w, unit) seq_prog" where
  "recordLockAcquisition env account holder =
     redis_write env (\<lambda>t db. db\<lparr>sq_monitor := (sq_monitor db)(account \<mapsto> (holder, Some (t + 10000)))\<rparr>)"

definition recordLockRelease :: "'w seq_env \<Rightarrow> string \<Rightarrow> ('w, unit) seq_prog" where
  "recordLockRelease env account = redis_write env (\<lambda>t db. db\<lparr>sq_monitor := (sq_monitor db)(account := None)\<rparr>)"

definition detectSequenceGap :: "'w seq_env \<Rightarrow> string \<Rightarrow> int \<Rightarrow> int \<Rightarrow> ('w, SequenceGap option) seq_prog" where
  "detectSequenceGap env account expected actual =
     (if actual > expected + 1
      then
        pbind (outside (se_now env)) (\<lambda>now.
        let gap = \<lparr>sg_account = account, sg_expectedSequence = expected, sg_actualSequence = actual, sg_gapSize = actual - expected - 1,
              sg_detectedAt = now, sg_resolved = False\<rparr> in
        pbind (redis_write env (\<lambda>t db. db\<lparr>sq_gaps := rpush account gap (sq_gaps db)\<rparr>)) (\<lambda>_.
        pbind (redis_write env (\<lambda>t db. db\<lparr>sq_gaps := ltrim account 100 (sq_gaps db)\<rparr>)) (\<lambda>_.
        pbind (recordAuditEntry env account AuGapDetected None None) (\<lambda>_.
        pret (Some gap)))))
      else pret None)"

text \<open>The loops over stored entries catch what their body throws and go on with the next entry.\<close>

fun resolve_in :: "'w seq_env \<Rightarrow> string \<Rightarrow> int \<Rightarrow> SequenceGap list \<Rightarrow> ('w, bool) seq_prog" where
  "resolve_in env account expected [] = pret False"
| "resolve_in env account expected (g # gs) =
     (if sg_expectedSequence g = expected \<and> \<not> sg_resolved g
      then
        pcatch
          (pbind (redis_write env (\<lambda>t db. db\<lparr>sq_gaps := lrem account g (sq_gaps db)\<rparr>)) (\<lambda>_.
           pbind (redis_write env (\<lambda>t db. db\<lparr>sq_gaps := rpush account (g\<lparr>sg_resolved := True\<rparr>) (sq_gaps db)\<rparr>)) (\<lambda>_.
           pbind (recordAuditEntry env account AuGapDetected None None) (\<lambda>_.
           pret True))))
          (\<lambda>_. resolve_in env account expected gs)
      else resolve_in env account expected gs)"

definition resolveSequenceGap :: "'w seq_env \<Rightarrow> string \<Rightarrow> int \<Rightarrow> ('w, bool) seq_prog" where
  "resolveSequenceGap env account expected =
     pbind (redis_read env (\<lambda>t db. get_list (sq_gaps db) account)) (\<lambda>gaps. resolve_in env account expected gaps)"

section \<open>Reserving a block\<close>

definition remove_reservation :: "'w seq_env \<Rightarrow> string \<Rightarrow> SequenceReservation \<Rightarrow> ('w, unit) seq_prog" where
  "remove_reservation env account r = redis_write env (\<lambda>t db. db\<lparr>sq_reservations := lrem account r (sq_reservations db)\<rparr>)"

definition getActiveReservations :: "'w seq_env \<Rightarrow> string \<Rightarrow> ('w, SequenceReservation list) seq_prog" where
  "getActiveReservations env account =
     pbind (redis_read env (\<lambda>t db. get_list (sq_reservations db) account)) (\<lambda>stored.
     pbind (outside (se_now env)) (\<lambda>now.
     pbind (pfor (filter (\<lambda>r. \<not> sr_expiresAt r > now) stored) () (\<lambda>r _. remove_reservation env account r)) (\<lambda>_.
     pret (filter (\<lambda>r. sr_expiresAt r > now) stored))))"

text \<open>\<^verbatim>\<open>SET lock locked PX 5000 NX\<close>, tried at most 20 times.\<close>

definition try_lock :: "'w seq_env \<Rightarrow> string \<Rightarrow> ('w, bool) seq_prog" where
  "try_lock env address =
     redis_command env (\<lambda>t db. case get_key (sq_locks db) address of
        Some _ \<Rightarrow> Inr (False, db)
      | None \<Rightarrow> Inr (True, db\<lparr>sq_locks := (sq_locks db)(address \<mapsto> (''locked'', Some (t + 5000)))\<rparr>))"

fun acquire_lock :: "'w seq_env \<Rightarrow> string \<Rightarrow> nat \<Rightarrow> ('w, bool) seq_prog" where
  "acquire_lock env address 0 = pret False"
| "acquire_lock env address (Suc n) = pbind (try_lock env address) (\<lambda>res. if res then pret True else acquire_lock env address n)"

definition highest_reserved :: "int \<Rightarrow> SequenceReservation list \<Rightarrow> int" where
  "highest_reserved ledger rs = foldl (\<lambda>h r. if sr_lastSequence r > h then sr_lastSequence r else h) ledger rs"

definition load_account :: "'w seq_env \<Rightarrow> string \<Rightarrow> ('w, int) seq_prog" where
  "load_account env address = pbind (outside (se_loadAccount env address)) (\<lambda>r. case r of Inl e \<Rightarrow> pthrow e | Inr n \<Rightarrow> pret n)"

definition reserve_locked :: "'w seq_env \<Rightarrow> string \<Rightarrow> int \<Rightarrow> ('w, SequenceReservation) seq_prog" where
  "reserve_locked env address blockSize =
     pbind (recordLockAcquisition env address ''txQueue'') (\<lambda>_.
     pbind (load_account env address) (\<lambda>ledgerSequence.
     pbind (getActiveReservations env address) (\<lambda>active.
     pbind (outside (se_leaseId env)) (\<lambda>leaseId.
     pbind (outside (se_now env)) (\<lambda>now.
     let first = highest_reserved ledgerSequence active + 1;
         ttl = 60 * 60 * 1000;
         reservation = \<lparr>sr_account = address, sr_firstSequence = first, sr_lastSequence = first + blockSize - 1, sr_size = blockSize,
           sr_leaseId = leaseId, sr_expiresAt = now + ttl\<rparr> in
     pbind (redis_write env (\<lambda>t db. db\<lparr>sq_reservations := rpush address reservation (sq_reservations db)\<rparr>)) (\<lambda>_.
     pbind (redis_write env (\<lambda>t db. db\<lparr>sq_reservations := expire_key address (ttl div 1000) t (sq_reservations db)\<rparr>)) (\<lambda>_.
     pbind (recordAuditEntry env address AuReserve (Some leaseId) (Some first)) (\<lambda>_.
     pret reservation))))))))"

definition unlock :: "'w seq_env \<Rightarrow> string \<Rightarrow> ('w, unit) seq_prog" where
  "unlock env address =
     pbind (redis_write env (\<lambda>t db. db\<lparr>sq_locks := (sq_locks db)(address := None)\<rparr>)) (\<lambda>_. recordLockRelease env address)"

definition reserveSequenceBlock :: "'w seq_env \<Rightarrow> string \<Rightarrow> int \<Rightarrow> ('w, SequenceReservation) seq_prog" where
  "reserveSequenceBlock env address blockSize =
     pbind (acquire_lock env address 20) (\<lambda>acquired.
     if \<not> acquired then pbind (recordContentionEvent env address) (\<lambda>_. pthrow LockNotAcquired)
     else pfinally (reserve_locked env address blockSize) (unlock env address))"

section \<open>The next sequence number\<close>

text \<open>\<^verbatim>\<open>SET cursor n PX d\<close>: Redis refuses an expire time that is not positive.\<close>

definition set_cursor :: "'w seq_env \<Rightarrow> SequenceReservation \<Rightarrow> int \<Rightarrow> ('w, unit) seq_prog" where
  "set_cursor env r n =
     pbind (outside (se_now env)) (\<lambda>now.
     redis_command env (\<lambda>t db.
       if sr_expiresAt r - now \<le> 0 then Inl InvalidExpireTime
       else Inr ((), db\<lparr>sq_cursors := (sq_cursors db)(sr_leaseId r \<mapsto> (n, Some (t + (sr_expiresAt r - now))))\<rparr>)))"

definition consume :: "'w seq_env \<Rightarrow> string \<Rightarrow> ms \<Rightarrow> SequenceReservation \<Rightarrow> ('w, (int \<times> SequenceReservation) option) seq_prog" where
  "consume env address now r =
     (if sr_expiresAt r \<le> now then pret None
      else
        pbind (redis_read env (\<lambda>t db. get_key (sq_cursors db) (sr_leaseId r))) (\<lambda>stored.
        let cursor = (case stored of None \<Rightarrow> sr_firstSequence r | Some c \<Rightarrow> c) in
        if cursor \<le> sr_lastSequence r
        then
          pbind (set_cursor env r (cursor + 1)) (\<lambda>_.
          pbind (recordAuditEntry env address AuConsume (Some (sr_leaseId r)) (Some cursor)) (\<lambda>_.
          pret (Some (cursor, r))))
        else pret None))"

fun consume_first :: "'w seq_env \<Rightarrow> string \<Rightarrow> ms \<Rightarrow> SequenceReservation list \<Rightarrow> ('w, (int \<times> SequenceReservation) option) seq_prog" where
  "consume_first env address now [] = pret None"
| "consume_first env address now (r # rs) =
     pbind (pcatch (consume env address now r) (\<lambda>_. pret None)) (\<lambda>found.
     case found of None \<Rightarrow> consume_first env address now rs | Some x \<Rightarrow> pret (Some x))"

definition getNextSequenceFromReservation :: "'w seq_env \<Rightarrow> string \<Rightarrow> ('w, (int \<times> SequenceReservation) option) seq_prog" where
  "getNextSequenceFromReservation env address =
     pbind (outside (se_now env)) (\<lambda>now.
     pbind (redis_read env (\<lambda>t db. get_list (sq_reservations db) address)) (\<lambda>stored.
     consume_first env address now stored))"

definition release_used :: "'w seq_env \<Rightarrow> string \<Rightarrow> int \<times> SequenceReservation \<Rightarrow> ('w, unit) seq_prog" where
  "release_used env address used =
     (case used of (cursor, r) \<Rightarrow>
        if cursor + 1 > sr_lastSequence r
        then
          pbind (remove_reservation env address r) (\<lambda>_.
          pbind (redis_write env (\<lambda>t db. db\<lparr>sq_cursors := (sq_cursors db)(sr_leaseId r := None)\<rparr>)) (\<lambda>_.
          recordAuditEntry env address AuExpire (Some (sr_leaseId r)) None))
        else pret ())"

text \<open>\<^verbatim>\<open>KEYS seq:res:*:cursor\<close> are the cursors of all accounts; to delete none of them is the command that changes nothing.\<close>

definition resetCache :: "'w seq_env \<Rightarrow> string \<Rightarrow> ('w, unit) seq_prog" where
  "resetCache env address =
     pbind (redis_write env (\<lambda>t db. db\<lparr>sq_cache := (sq_cache db)(address := None)\<rparr>)) (\<lambda>_.
     pbind (redis_write env (\<lambda>t db. db\<lparr>sq_reservations := (sq_reservations db)(address := None)\<rparr>)) (\<lambda>_.
     pbind (redis_read env (\<lambda>t db k. get_key (sq_cursors db) k \<noteq> None)) (\<lambda>cursorKeys.
     pbind (redis_write env (\<lambda>t db. db\<lparr>sq_cursors := delete_keys cursorKeys (sq_cursors db)\<rparr>)) (\<lambda>_.
     recordAuditEntry env address AuExpire None None))))"

definition reset_after :: "'w seq_env \<Rightarrow> string \<Rightarrow> (int \<times> SequenceReservation) option \<Rightarrow> ('w, unit) seq_prog" where
  "reset_after env address used =
     (case used of
        None \<Rightarrow> resetCache env address
      | Some u \<Rightarrow> pbind (release_used env address u) (\<lambda>_. resetCache env address))"

definition fallback_sequence :: "'w seq_env \<Rightarrow> string \<Rightarrow> ('w, int) seq_prog" where
  "fallback_sequence env address =
     pbind (load_account env address) (\<lambda>ledgerSequence.
     pbind (redis_read env (\<lambda>t db. get_key (sq_cache db) address)) (\<lambda>cached.
     let next = (case cached of
           Some c \<Rightarrow> if c \<ge> ledgerSequence then c + 1 else ledgerSequence + 1
         | None \<Rightarrow> ledgerSequence + 1) in
     pbind (redis_write env (\<lambda>t db. db\<lparr>sq_cache := (sq_cache db)(address \<mapsto> (next, Some (t + 60000)))\<rparr>)) (\<lambda>_.
     pret (next - 1))))"

text \<open>The number to build with, and what its \<^verbatim>\<open>resetCache\<close> closure holds on to.\<close>

definition getNextSequenceNumber :: "'w seq_env \<Rightarrow> string \<Rightarrow> nat \<Rightarrow> ('w, int \<times> (int \<times> SequenceReservation) option) seq_prog" where
  "getNextSequenceNumber env address attempt =
     pbind (if attempt > 1 then resetCache env address else pret ()) (\<lambda>_.
     pbind (getNextSequenceFromReservation env address) (\<lambda>found.
     case found of
       Some (sequence, r) \<Rightarrow>
         pbind (if sequence > sr_firstSequence r + 1
                then pbind (detectSequenceGap env address (sr_firstSequence r) sequence) (\<lambda>_. pret ())
                else pret ()) (\<lambda>_.
         pret (sequence, Some (sequence, r)))
     | None \<Rightarrow> pbind (fallback_sequence env address) (\<lambda>n. pret (n, None))))"

section \<open>Administration\<close>

definition clean_leaked :: "'w seq_env \<Rightarrow> string \<Rightarrow> ms \<Rightarrow> SequenceReservation \<Rightarrow> nat \<times> SequenceReservation list \<Rightarrow> ('w, nat \<times> SequenceReservation list) seq_prog" where
  "clean_leaked env account now r acc =
     (if sr_expiresAt r \<le> now
      then
        pcatch
          (pbind (remove_reservation env account r) (\<lambda>_.
           pbind (redis_write env (\<lambda>t db. db\<lparr>sq_cursors := (sq_cursors db)(sr_leaseId r := None)\<rparr>)) (\<lambda>_.
           pbind (recordAuditEntry env account AuExpire (Some (sr_leaseId r)) None) (\<lambda>_.
           pret (fst acc + 1, snd acc @ [r])))))
          (\<lambda>_. pbind (remove_reservation env account r) (\<lambda>_. pret (fst acc + 1, snd acc @ [r])))
      else pret acc)"

definition detectAndCleanupLeakedReservations :: "'w seq_env \<Rightarrow> string \<Rightarrow> ('w, nat \<times> SequenceReservation list) seq_prog" where
  "detectAndCleanupLeakedReservations env account =
     pbind (redis_read env (\<lambda>t db. get_list (sq_reservations db) account)) (\<lambda>stored.
     pbind (outside (se_now env)) (\<lambda>now.
     pfor stored (0, []) (clean_leaked env account now)))"

fun pre_warm :: "'w seq_env \<Rightarrow> string \<Rightarrow> int \<Rightarrow> nat \<Rightarrow> ('w, SequenceReservation list) seq_prog" where
  "pre_warm env account blockSize 0 = pret []"
| "pre_warm env account blockSize (Suc n) =
     pbind (ptry (reserveSequenceBlock env account blockSize)) (\<lambda>reserved.
     case reserved of
       Inl e \<Rightarrow> pret []
     | Inr r \<Rightarrow>
         pbind (ptry (recordAuditEntry env account AuPreWarm (Some (sr_leaseId r)) None)) (\<lambda>audited.
         case audited of
           Inl e \<Rightarrow> pret [r]
         | Inr _ \<Rightarrow> pbind (pre_warm env account blockSize n) (\<lambda>rs. pret (r # rs))))"

definition preWarmReservations :: "'w seq_env \<Rightarrow> string \<Rightarrow> int \<Rightarrow> ('w, SequenceReservation list) seq_prog" where
  "preWarmReservations env account blockSize =
     pbind (redis_read env (\<lambda>t db. get_list (sq_reservations db) account)) (\<lambda>existing.
     pre_warm env account blockSize (3 - length existing))"

fun force_release_in :: "'w seq_env \<Rightarrow> string \<Rightarrow> string \<Rightarrow> SequenceReservation list \<Rightarrow> ('w, bool) seq_prog" where
  "force_release_in env account leaseId [] = pret False"
| "force_release_in env account leaseId (r # rs) =
     (if sr_leaseId r = leaseId
      then
        pcatch
          (pbind (remove_reservation env account r) (\<lambda>_.
           pbind (redis_write env (\<lambda>t db. db\<lparr>sq_cursors := (sq_cursors db)(leaseId := None)\<rparr>)) (\<lambda>_.
           pbind (recordAuditEntry env account AuForceRelease (Some leaseId) None) (\<lambda>_.
           pret True))))
          (\<lambda>_. force_release_in env account leaseId rs)
      else force_release_in env account leaseId rs)"

definition forceReleaseReservation :: "'w seq_env \<Rightarrow> string \<Rightarrow> string \<Rightarrow> ('w, bool) seq_prog" where
  "forceReleaseReservation env account leaseId =
     pbind (redis_read env (\<lambda>t db. get_list (sq_reservations db) account)) (\<lambda>stored. force_release_in env account leaseId stored)"

definition autoPreWarmHighThroughputAccounts :: "'w seq_env \<Rightarrow> ('w, unit) seq_prog" where
  "autoPreWarmHighThroughputAccounts env =
     pbind (redis_read env (\<lambda>t db. sq_highThroughput db)) (\<lambda>accounts.
     pfor accounts () (\<lambda>account _. pbind (ptry (preWarmReservations env account 50)) (\<lambda>_. pret ())))"

definition markHighThroughputAccount :: "'w seq_env \<Rightarrow> string \<Rightarrow> ('w, unit) seq_prog" where
  "markHighThroughputAccount env account = redis_write env (\<lambda>t db. db\<lparr>sq_highThroughput := List.insert account (sq_highThroughput db)\<rparr>)"

definition unmarkHighThroughputAccount :: "'w seq_env \<Rightarrow> string \<Rightarrow> ('w, unit) seq_prog" where
  "unmarkHighThroughputAccount env account = redis_write env (\<lambda>t db. db\<lparr>sq_highThroughput := removeAll account (sq_highThroughput db)\<rparr>)"

end
