(* ===== verification/Sequence_Properties.thy ===== *)
theory Sequence_Properties
  imports Sequence_Numbers
begin

text \<open>
  The blocks of sequence numbers an account has reserved never overlap; what the next sequence number is; and two runs in which
  a number is skipped or handed out again.
\<close>

section \<open>Reserved blocks are disjoint\<close>

text \<open>The blocks of an account follow one another without overlap.\<close>

definition blocks_ok :: "SequenceReservation list \<Rightarrow> bool" where
  "blocks_ok rs \<longleftrightarrow> sorted_wrt (\<lambda>r r'. sr_lastSequence r < sr_firstSequence r') rs"

definition seq_ok :: "seq_db \<Rightarrow> bool" where
  "seq_ok db \<longleftrightarrow> (\<forall>a. blocks_ok (get_list (sq_reservations db) a))"

lemma blocks_ok_filter: "blocks_ok rs \<Longrightarrow> blocks_ok (filter P rs)"
  unfolding blocks_ok_def by (rule sorted_wrt_filter)

lemma blocks_ok_Nil [simp]: "blocks_ok []"
  by (simp add: blocks_ok_def)

lemma blocks_ok_snoc: "blocks_ok rs \<Longrightarrow> \<forall>r \<in> set rs. sr_lastSequence r < sr_firstSequence r' \<Longrightarrow> blocks_ok (rs @ [r'])"
  by (simp add: blocks_ok_def sorted_wrt_append)

lemma get_list_purge: "get_list (purge t m) a = get_list m a \<or> get_list (purge t m) a = []"
  by (auto simp: get_list_def purge_def split: option.splits)

lemma get_list_purge_subset: "set (get_list (purge t m) a) \<subseteq> set (get_list m a)"
  using get_list_purge [of t m a] by auto

lemma get_list_rpush: "get_list (rpush k v m) a = (if a = k then get_list m k @ [v] else get_list m a)"
  by (simp add: get_list_def rpush_def)

lemma get_list_lrem: "get_list (lrem k v m) a = (if a = k then removeAll v (get_list m k) else get_list m a)"
  by (auto simp: get_list_def lrem_def Let_def split: option.splits)

lemma get_list_expire: "get_list (expire_key k n t m) a = get_list m a"
  by (auto simp: get_list_def expire_key_def split: option.splits)

lemma seq_ok_purge: "seq_ok db \<Longrightarrow> seq_ok (purge_db t db)"
  unfolding seq_ok_def purge_db_def using get_list_purge [of t "sq_reservations db"] by (simp, metis blocks_ok_Nil)

lemma seq_ok_lrem: "seq_ok db \<Longrightarrow> seq_ok (db\<lparr>sq_reservations := lrem k v (sq_reservations db)\<rparr>)"
  by (simp add: seq_ok_def get_list_lrem blocks_ok_filter removeAll_filter_not_eq)

lemma seq_ok_delete: "seq_ok db \<Longrightarrow> seq_ok (db\<lparr>sq_reservations := (sq_reservations db)(k := None)\<rparr>)"
  by (simp add: seq_ok_def get_list_def)

lemma seq_ok_expire: "seq_ok db \<Longrightarrow> seq_ok (db\<lparr>sq_reservations := expire_key k n t (sq_reservations db)\<rparr>)"
  by (simp add: seq_ok_def get_list_expire)

text \<open>Commands and programs that keep the blocks.\<close>

lemma keeps_command: "(\<And>t db a db'. seq_ok db \<Longrightarrow> f t db = Inr (a, db') \<Longrightarrow> seq_ok db') \<Longrightarrow> keeps (of_db seq_ok) (redis_command env f)"
  unfolding redis_command_def by (intro keeps_pbind outside_keeps db_query_keeps) (use seq_ok_purge in blast)

lemma keeps_read [keeps_rules]: "keeps (of_db seq_ok) (redis_read env f)"
  unfolding redis_read_def by (rule keeps_command) simp

lemma keeps_write: "(\<And>t db. seq_ok db \<Longrightarrow> seq_ok (f t db)) \<Longrightarrow> keeps (of_db seq_ok) (redis_write env f)"
  unfolding redis_write_def by (rule keeps_command) auto

lemma keeps_write_other: "(\<And>t db. sq_reservations (f t db) = sq_reservations db) \<Longrightarrow> keeps (of_db seq_ok) (redis_write env f)"
  by (rule keeps_write) (simp add: seq_ok_def)

lemma keeps_pfinally [keeps_rules]: "keeps I m \<Longrightarrow> keeps I c \<Longrightarrow> keeps I (pfinally m c)"
  unfolding pfinally_def by (intro keeps_rules)

lemma recordAuditEntry_keeps [keeps_rules]: "keeps (of_db seq_ok) (recordAuditEntry env a act l s)"
  unfolding recordAuditEntry_def by (intro keeps_pbind outside_keeps keeps_write_other) simp_all

lemma recordContentionEvent_keeps [keeps_rules]: "keeps (of_db seq_ok) (recordContentionEvent env a)"
  unfolding recordContentionEvent_def by (intro keeps_pbind keeps_write_other) simp_all

lemma lock_monitor_keeps [keeps_rules]: "keeps (of_db seq_ok) (recordLockAcquisition env a h)" "keeps (of_db seq_ok) (recordLockRelease env a)"
  unfolding recordLockAcquisition_def recordLockRelease_def by (intro keeps_write_other, simp)+

lemma detectSequenceGap_keeps [keeps_rules]: "keeps (of_db seq_ok) (detectSequenceGap env a e c)"
  unfolding detectSequenceGap_def Let_def by (intro keeps_if keeps_pbind outside_keeps keeps_write_other recordAuditEntry_keeps keeps_pret) simp_all

lemma remove_reservation_keeps [keeps_rules]: "keeps (of_db seq_ok) (remove_reservation env a r)"
  unfolding remove_reservation_def by (intro keeps_write seq_ok_lrem)

lemma unlock_keeps [keeps_rules]: "keeps (of_db seq_ok) (unlock env a)"
  unfolding unlock_def by (intro keeps_pbind keeps_write_other lock_monitor_keeps) simp

lemma try_lock_keeps [keeps_rules]: "keeps (of_db seq_ok) (try_lock env a)"
  unfolding try_lock_def by (rule keeps_command) (auto simp: seq_ok_def split: option.splits)

lemma acquire_lock_keeps [keeps_rules]: "keeps (of_db seq_ok) (acquire_lock env a n)"
  by (induction n) (auto intro!: keeps_rules)

lemma load_account_keeps [keeps_rules]: "keeps (of_db seq_ok) (load_account env a)"
  unfolding load_account_def by (intro keeps_rules)

lemma resetCache_keeps [keeps_rules]: "keeps (of_db seq_ok) (resetCache env a)"
  unfolding resetCache_def by (intro keeps_pbind keeps_read recordAuditEntry_keeps keeps_write) (auto simp: seq_ok_def get_list_def)

lemma set_cursor_keeps [keeps_rules]: "keeps (of_db seq_ok) (set_cursor env r n)"
  unfolding set_cursor_def by (intro keeps_pbind outside_keeps keeps_command) (auto simp: seq_ok_def split: if_splits)

lemma consume_first_keeps [keeps_rules]: "keeps (of_db seq_ok) (consume_first env a now rs)"
  by (induction rs) (auto simp: consume_def Let_def intro!: keeps_rules)

lemma getNextSequenceNumber_keeps [keeps_rules]: "keeps (of_db seq_ok) (getNextSequenceNumber env a n)"
  unfolding getNextSequenceNumber_def getNextSequenceFromReservation_def fallback_sequence_def Let_def
  by (intro keeps_pbind keeps_if keeps_case_option keeps_rules; (auto split: prod.splits intro!: keeps_rules keeps_write_other)?)

lemma delete_cursor_keeps [keeps_rules]: "keeps (of_db seq_ok) (redis_write env (\<lambda>t db. db\<lparr>sq_cursors := (sq_cursors db)(l := None)\<rparr>))"
  by (rule keeps_write_other) simp

lemma reset_after_keeps [keeps_rules]: "keeps (of_db seq_ok) (reset_after env a u)"
  unfolding reset_after_def release_used_def
  by (intro keeps_case_option keeps_pbind keeps_rules) (auto split: prod.splits intro!: keeps_rules)

lemma resolveSequenceGap_keeps [keeps_rules]: "keeps (of_db seq_ok) (resolveSequenceGap env a e)"
proof -
  have "keeps (of_db seq_ok) (resolve_in env a e gs)" for gs
    by (induction gs) (auto intro!: keeps_rules keeps_write_other)
  then show ?thesis unfolding resolveSequenceGap_def by (intro keeps_pbind keeps_read)
qed

lemma detectAndCleanup_keeps [keeps_rules]: "keeps (of_db seq_ok) (detectAndCleanupLeakedReservations env a)"
  unfolding detectAndCleanupLeakedReservations_def clean_leaked_def by (intro keeps_pbind keeps_pfor keeps_if keeps_pcatch keeps_rules)

lemma forceReleaseReservation_keeps [keeps_rules]: "keeps (of_db seq_ok) (forceReleaseReservation env a l)"
proof -
  have "keeps (of_db seq_ok) (force_release_in env a l rs)" for rs
    by (induction rs) (auto intro!: keeps_rules)
  then show ?thesis unfolding forceReleaseReservation_def by (intro keeps_pbind keeps_read)
qed

text \<open>Reserving: what is stored after the active reservations were read is among them, so that the new block starts above it.\<close>

abbreviation blocks_in :: "seq_db \<Rightarrow> string \<Rightarrow> SequenceReservation set" where
  "blocks_in d a \<equiv> set (get_list (sq_reservations d) a)"

lemma blocks_in_purge: "blocks_in (purge_db t d) a \<subseteq> blocks_in d a"
  using get_list_purge_subset [of t "sq_reservations d" a] by (simp add: purge_db_def)

lemma ends_command:
  assumes "Q d" and "\<And>t a d'. f t (purge_db t d) = Inr (a, d') \<Longrightarrow> ends d' Q (k a)"
  shows "ends d Q (pbind (redis_command env f) k)"
  unfolding redis_command_def by (intro ends_assoc ends_outside ends_query assms)

lemma ends_read:
  assumes "Q d" and "\<And>t. ends (purge_db t d) Q (k (f t (purge_db t d)))"
  shows "ends d Q (pbind (redis_read env f) k)"
  unfolding redis_read_def by (rule ends_command) (use assms in auto)

lemma ends_write:
  assumes "Q d" and "\<And>t. ends (f t (purge_db t d)) Q (k ())"
  shows "ends d Q (pbind (redis_write env f) k)"
  unfolding redis_write_def by (rule ends_command) (use assms in auto)

lemma ends_keeps:
  assumes "keeps (of_db Q) m" "Q d"
  shows "ends d Q m"
  using assms by (auto simp: ends_def keeps_def of_db_def)

lemma ends_remove_all:
  assumes "seq_ok d" "blocks_in d a \<subseteq> S" and "\<And>d'. seq_ok d' \<Longrightarrow> blocks_in d' a \<subseteq> S - set rs \<Longrightarrow> ends d' seq_ok (k ())"
  shows "ends d seq_ok (pbind (pfor rs () (\<lambda>r _. remove_reservation env a r)) k)"
  using assms
proof (induction rs arbitrary: d S)
  case (Cons r rs)
  have "ends (purge_db t d\<lparr>sq_reservations := lrem a r (sq_reservations (purge_db t d))\<rparr>) seq_ok (pbind (pfor rs () (\<lambda>r _. remove_reservation env a r)) k)" for t
  proof (rule Cons.IH [where S = "S - {r}"])
    show "seq_ok (purge_db t d\<lparr>sq_reservations := lrem a r (sq_reservations (purge_db t d))\<rparr>)" by (intro seq_ok_lrem seq_ok_purge Cons.prems(1))
    show "blocks_in (purge_db t d\<lparr>sq_reservations := lrem a r (sq_reservations (purge_db t d))\<rparr>) a \<subseteq> S - {r}"
      using blocks_in_purge [of t d a] Cons.prems(2) by (auto simp: get_list_lrem)
    show "ends d' seq_ok (k ())" if "seq_ok d'" "blocks_in d' a \<subseteq> S - {r} - set rs" for d' using that by (intro Cons.prems(3)) auto
  qed
  then show ?case unfolding remove_reservation_def by (simp add: pbind_assoc) (intro ends_write Cons.prems(1))
qed (simp add: ends_pret_bind)

lemma ends_active:
  assumes "seq_ok d" and "\<And>active d'. seq_ok d' \<Longrightarrow> blocks_in d' a \<subseteq> set active \<Longrightarrow> ends d' seq_ok (k active)"
  shows "ends d seq_ok (pbind (getActiveReservations env a) k)"
  unfolding getActiveReservations_def
proof (intro ends_assoc ends_read ends_outside assms(1))
  fix t now
  let ?stored = "get_list (sq_reservations (purge_db t d)) a"
  have "ends (purge_db t d) seq_ok (pbind (pfor (filter (\<lambda>r. \<not> sr_expiresAt r > now) ?stored) () (\<lambda>r _. remove_reservation env a r))
       (\<lambda>_. k (filter (\<lambda>r. sr_expiresAt r > now) ?stored)))"
    by (rule ends_remove_all [where S = "set ?stored", OF seq_ok_purge [OF assms(1)] subset_refl], rule assms(2)) auto
  then show "ends (purge_db t d) seq_ok (pbind (pfor (filter (\<lambda>r. \<not> sr_expiresAt r > now) ?stored) () (\<lambda>r _. remove_reservation env a r))
       (\<lambda>_. pbind (pret (filter (\<lambda>r. sr_expiresAt r > now) ?stored)) k))" by simp
qed

lemma highest_reserved_ge: "ledger \<le> highest_reserved ledger rs \<and> (\<forall>r \<in> set rs. sr_lastSequence r \<le> highest_reserved ledger rs)"
  unfolding highest_reserved_def
proof (induction rs arbitrary: ledger)
  case (Cons r rs)
  show ?case using Cons [of "if sr_lastSequence r > ledger then sr_lastSequence r else ledger"] by (auto split: if_splits)
qed simp

lemma seq_ok_rpush:
  assumes "seq_ok d" "\<forall>r \<in> blocks_in d a. sr_lastSequence r < sr_firstSequence r'"
  shows "seq_ok (d\<lparr>sq_reservations := rpush a r' (sq_reservations d)\<rparr>)"
  using assms by (simp add: seq_ok_def get_list_rpush blocks_ok_snoc)

lemma ends_load: "Q d \<Longrightarrow> (\<And>n. ends d Q (k n)) \<Longrightarrow> ends d Q (pbind (load_account env a) k)"
  unfolding load_account_def by (intro ends_assoc ends_outside) (auto simp: ends_pthrow split: sum.splits)

lemma reserve_rest_keeps:
  "keeps (of_db seq_ok) (pbind (redis_write env (\<lambda>t db. db\<lparr>sq_reservations := expire_key a n t (sq_reservations db)\<rparr>))
     (\<lambda>_. pbind (recordAuditEntry env a act l s) (\<lambda>_. pret x)))"
  by (intro keeps_pbind keeps_write seq_ok_expire recordAuditEntry_keeps keeps_pret)

lemma reserve_block_ends:
  assumes d': "seq_ok d'" "blocks_in d' a \<subseteq> set active" and first: "sr_firstSequence r = highest_reserved ledger active + 1"
    and k: "keeps (of_db seq_ok) (k ())"
  shows "ends d' seq_ok (pbind (redis_write env (\<lambda>t db. db\<lparr>sq_reservations := rpush a r (sq_reservations db)\<rparr>)) k)"
proof (rule ends_write [where Q = seq_ok, OF d'(1)])
  fix t
  have "blocks_in (purge_db t d') a \<subseteq> set active" using d'(2) blocks_in_purge [of t d' a] by blast
  then have "\<forall>q \<in> blocks_in (purge_db t d') a. sr_lastSequence q < sr_firstSequence r" using highest_reserved_ge [of ledger active] first by fastforce
  from ends_keeps [OF k seq_ok_rpush [OF seq_ok_purge [OF d'(1)] this]]
  show "ends (purge_db t d'\<lparr>sq_reservations := rpush a r (sq_reservations (purge_db t d'))\<rparr>) seq_ok (k ())" .
qed

lemma reserve_locked_ends:
  assumes "seq_ok d"
  shows "ends d seq_ok (reserve_locked env a n)"
  unfolding reserve_locked_def Let_def recordLockAcquisition_def
proof (rule ends_write [where Q = seq_ok, OF assms], intro ends_load ends_active ends_outside)
  fix ledger active d' leaseId now assume "seq_ok d'" "blocks_in d' a \<subseteq> set active"
  then show "ends d' seq_ok (pbind (redis_write env (\<lambda>t db. db\<lparr>sq_reservations := rpush a
       \<lparr>sr_account = a, sr_firstSequence = highest_reserved ledger active + 1, sr_lastSequence = highest_reserved ledger active + 1 + n - 1,
        sr_size = n, sr_leaseId = leaseId, sr_expiresAt = now + 60 * 60 * 1000\<rparr> (sq_reservations db)\<rparr>))
     (\<lambda>_. pbind (redis_write env (\<lambda>t db. db\<lparr>sq_reservations := expire_key a (60 * 60 * 1000 div 1000) t (sq_reservations db)\<rparr>))
       (\<lambda>_. pbind (recordAuditEntry env a AuReserve (Some leaseId) (Some (highest_reserved ledger active + 1)))
         (\<lambda>_. pret \<lparr>sr_account = a, sr_firstSequence = highest_reserved ledger active + 1, sr_lastSequence = highest_reserved ledger active + 1 + n - 1,
        sr_size = n, sr_leaseId = leaseId, sr_expiresAt = now + 60 * 60 * 1000\<rparr>))))"
    by (rule reserve_block_ends) (simp, rule reserve_rest_keeps)
qed (use seq_ok_purge [OF assms] in \<open>simp_all add: seq_ok_def\<close>)

lemma reserve_locked_keeps: "keeps (of_db seq_ok) (reserve_locked env a n)"
  unfolding keeps_def of_db_def using endsD [OF reserve_locked_ends] by blast

lemma reserveSequenceBlock_keeps [keeps_rules]: "keeps (of_db seq_ok) (reserveSequenceBlock env a n)"
  unfolding reserveSequenceBlock_def by (intro keeps_pbind keeps_if keeps_rules reserve_locked_keeps)

lemma preWarmReservations_keeps [keeps_rules]: "keeps (of_db seq_ok) (preWarmReservations env a n)"
proof -
  have "keeps (of_db seq_ok) (pre_warm env a n m)" for m
    by (induction m) (auto intro!: keeps_rules)
  then show ?thesis unfolding preWarmReservations_def by (intro keeps_pbind keeps_read)
qed

section \<open>Any sequence of operations\<close>

datatype seq_op =
    OpReserve string int
  | OpNext string nat
  | OpReset string "(int \<times> SequenceReservation) option"
  | OpResolveGap string int
  | OpCleanLeaked string
  | OpPreWarm string int
  | OpForceRelease string string
  | OpAutoPreWarm
  | OpMark string
  | OpUnmark string

definition seq_apply :: "'w seq_env \<Rightarrow> seq_op \<Rightarrow> ('w, unit) seq_prog" where
  "seq_apply env op =
     (case op of
        OpReserve a n \<Rightarrow> pbind (reserveSequenceBlock env a n) (\<lambda>_. pret ())
      | OpNext a n \<Rightarrow> pbind (getNextSequenceNumber env a n) (\<lambda>_. pret ())
      | OpReset a u \<Rightarrow> reset_after env a u
      | OpResolveGap a e \<Rightarrow> pbind (resolveSequenceGap env a e) (\<lambda>_. pret ())
      | OpCleanLeaked a \<Rightarrow> pbind (detectAndCleanupLeakedReservations env a) (\<lambda>_. pret ())
      | OpPreWarm a n \<Rightarrow> pbind (preWarmReservations env a n) (\<lambda>_. pret ())
      | OpForceRelease a l \<Rightarrow> pbind (forceReleaseReservation env a l) (\<lambda>_. pret ())
      | OpAutoPreWarm \<Rightarrow> autoPreWarmHighThroughputAccounts env
      | OpMark a \<Rightarrow> markHighThroughputAccount env a
      | OpUnmark a \<Rightarrow> unmarkHighThroughputAccount env a)"

fun seq_run :: "'w seq_env \<Rightarrow> seq_op list \<Rightarrow> (seq_db, 'w) tx_world \<Rightarrow> (seq_db, 'w) tx_world" where
  "seq_run env [] w = w"
| "seq_run env (op # ops) w = seq_run env ops (snd (seq_apply env op w))"

lemma seq_apply_keeps: "keeps (of_db seq_ok) (seq_apply env op)"
proof (cases op)
  case OpAutoPreWarm
  then show ?thesis unfolding seq_apply_def autoPreWarmHighThroughputAccounts_def by (auto intro!: keeps_rules)
qed (auto simp: seq_apply_def markHighThroughputAccount_def unmarkHighThroughputAccount_def intro!: keeps_rules keeps_write_other)

definition seq_empty :: seq_db where
  "seq_empty = \<lparr>sq_reservations = Map.empty, sq_cursors = Map.empty, sq_cache = Map.empty, sq_locks = Map.empty, sq_monitor = Map.empty,
     sq_contention = Map.empty, sq_gaps = Map.empty, sq_audit = Map.empty, sq_highThroughput = []\<rparr>"

text \<open>C18: Whatever reservations, consumptions, resets and administrative calls follow one another on any accounts, and whichever of
  their Redis commands fail, the stored blocks of an account are in ascending order and no sequence number is in two of them.\<close>

theorem reserved_blocks_disjoint:
  assumes "iw_db w = seq_empty" and rs: "get_list (sq_reservations (iw_db (seq_run env ops w))) a = rs"
  shows "\<forall>i j. i < j \<and> j < length rs \<longrightarrow> sr_lastSequence (rs ! i) < sr_firstSequence (rs ! j)"
proof -
  have run: "seq_ok (iw_db (seq_run env ops w'))" if "seq_ok (iw_db w')" for w'
    using that
  proof (induction ops arbitrary: w')
    case (Cons op ops)
    have "seq_ok (iw_db (snd (seq_apply env op w')))" using keepsD [OF seq_apply_keeps, of w'] Cons.prems by (simp add: of_db_def)
    then show ?case by (simp add: Cons.IH)
  qed simp
  have "seq_ok (iw_db w)" by (simp add: assms(1) seq_empty_def seq_ok_def get_list_def)
  from run [OF this] have "blocks_ok rs" unfolding rs [symmetric] by (simp add: seq_ok_def)
  then show ?thesis by (simp add: blocks_ok_def sorted_wrt_iff_nth_less)
qed

section \<open>Runs\<close>

text \<open>A clock that advances, a Redis that does not fail, and accounts whose ledger sequence number is 100.\<close>

definition seq_demo_env :: "int seq_env" where
  "seq_demo_env = \<lparr>se_fails = (\<lambda>x. (None, x)), se_now = (\<lambda>x. (x, x + 1)), se_leaseId = (\<lambda>x. (if x < 25 then ''L1'' else ''L2'', x)),
     se_loadAccount = (\<lambda>_ x. (Inr 100, x))\<rparr>"

definition seq_demo_world :: "(seq_db, int) tx_world" where
  "seq_demo_world = \<lparr>iw_db = seq_empty, iw_ext = 0\<rparr>"

definition seq_demo_ops :: "seq_op list" where
  "seq_demo_ops = [OpReserve ''A'' 2, OpReserve ''A'' 3]"

lemma demo_command:
  "redis_command seq_demo_env f \<lparr>iw_db = d, iw_ext = x\<rparr> =
     (case f x (purge_db x d) of Inl e \<Rightarrow> (Inl e, \<lparr>iw_db = d, iw_ext = x + 1\<rparr>) | Inr (a, d') \<Rightarrow> (Inr a, \<lparr>iw_db = d', iw_ext = x + 1\<rparr>))"
  by (simp add: redis_command_def pbind_apply outside_def db_query_def seq_demo_env_def split: sum.splits prod.splits)

lemma demo_read: "redis_read seq_demo_env f \<lparr>iw_db = d, iw_ext = x\<rparr> = (Inr (f x (purge_db x d)), \<lparr>iw_db = purge_db x d, iw_ext = x + 1\<rparr>)"
  by (simp add: redis_read_def demo_command)

lemma demo_write: "redis_write seq_demo_env f \<lparr>iw_db = d, iw_ext = x\<rparr> = (Inr (), \<lparr>iw_db = f x (purge_db x d), iw_ext = x + 1\<rparr>)"
  by (simp add: redis_write_def demo_command)

lemma demo_now: "outside (se_now seq_demo_env) \<lparr>iw_db = d, iw_ext = x\<rparr> = (Inr x, \<lparr>iw_db = d, iw_ext = x + 1\<rparr>)"
  by (simp add: outside_def seq_demo_env_def)

lemma demo_load: "load_account seq_demo_env a \<lparr>iw_db = d, iw_ext = x\<rparr> = (Inr 100, \<lparr>iw_db = d, iw_ext = x\<rparr>)"
  by (simp add: load_account_def pbind_apply outside_def seq_demo_env_def pret_apply)

lemmas demo_simps = demo_command demo_read demo_write demo_now demo_load pbind_apply pret_apply

lemma purge_apply: "m k = Some (v, e) \<Longrightarrow> (case e of None \<Rightarrow> True | Some y \<Rightarrow> t < y) \<Longrightarrow> purge t m k = Some (v, e)"
  by (auto simp: purge_def split: option.splits)

lemma purge_None: "m k = None \<Longrightarrow> purge t m k = None"
  by (simp add: purge_def)

lemma demo_lease: "outside (se_leaseId seq_demo_env) \<lparr>iw_db = d, iw_ext = x\<rparr> = (Inr (if x < 25 then ''L1'' else ''L2''), \<lparr>iw_db = d, iw_ext = x\<rparr>)"
  by (simp add: outside_def seq_demo_env_def)

lemma demo_audit:
  "\<exists>d'. recordAuditEntry seq_demo_env a act l s \<lparr>iw_db = d, iw_ext = x\<rparr> = (Inr (), \<lparr>iw_db = d', iw_ext = x + 4\<rparr>) \<and>
     sq_reservations d' = purge (x + 3) (purge (x + 2) (purge (x + 1) (sq_reservations d))) \<and>
     sq_cursors d' = purge (x + 3) (purge (x + 2) (purge (x + 1) (sq_cursors d)))"
  by (simp add: recordAuditEntry_def demo_simps purge_db_def add.commute [of x])

text \<open>Two blocks reserved one after the other.\<close>

definition demo_rs :: "SequenceReservation list \<Rightarrow> seq_db \<Rightarrow> bool" where
  "demo_rs rs d \<longleftrightarrow> get_list (sq_reservations d) ''A'' = rs \<and> (\<forall>v e. sq_reservations d ''A'' = Some (v, Some e) \<longrightarrow> 1000 < e) \<and>
     (\<forall>r\<in>set rs. 1000 < sr_expiresAt r)"

lemma demo_rs_purge:
  assumes "demo_rs rs d" "t < 1000" "sq_reservations d' = purge t (sq_reservations d)"
  shows "demo_rs rs d'"
  using assms by (auto simp: demo_rs_def get_list_def purge_def split: option.splits if_splits)

lemma demo_rs_audit:
  assumes "demo_rs rs d" "x < 900"
  shows "\<exists>d'. recordAuditEntry seq_demo_env a act l s \<lparr>iw_db = d, iw_ext = x\<rparr> = (Inr (), \<lparr>iw_db = d', iw_ext = x + 4\<rparr>) \<and> demo_rs rs d'"
proof -
  obtain d' where d': "recordAuditEntry seq_demo_env a act l s \<lparr>iw_db = d, iw_ext = x\<rparr> = (Inr (), \<lparr>iw_db = d', iw_ext = x + 4\<rparr>)"
     "sq_reservations d' = purge (x + 3) (purge (x + 2) (purge (x + 1) (sq_reservations d)))" using demo_audit [of a act l s d x] by blast
  have "demo_rs rs (d\<lparr>sq_reservations := purge (x + 2) (purge (x + 1) (sq_reservations d))\<rparr>)"
    by (rule demo_rs_purge [of _ "d\<lparr>sq_reservations := purge (x + 1) (sq_reservations d)\<rparr>" "x + 2"], rule demo_rs_purge [of _ d "x + 1"]) (use assms in simp_all)
  then have "demo_rs rs d'" by (rule demo_rs_purge [of _ _ "x + 3"]) (use assms d'(2) in simp_all)
  with d'(1) show ?thesis by blast
qed

lemma demo_reserve_locked:
  assumes rs: "demo_rs rs d" and x: "0 \<le> x" "x < 800"
  shows "\<exists>r d'. reserve_locked seq_demo_env ''A'' n \<lparr>iw_db = d, iw_ext = x\<rparr> = (Inr r, \<lparr>iw_db = d', iw_ext = x + 10\<rparr>) \<and> demo_rs (rs @ [r]) d'"
proof -
  define d1 where "d1 = (purge_db x d)\<lparr>sq_monitor := (sq_monitor (purge_db x d))(''A'' \<mapsto> (''txQueue'', Some (x + 10000)))\<rparr>"
  define d2 where "d2 = purge_db (x + 1) d1"
  define r where "r = \<lparr>sr_account = ''A'', sr_firstSequence = highest_reserved 100 rs + 1, sr_lastSequence = highest_reserved 100 rs + n, sr_size = n,
    sr_leaseId = (if x + 3 < 25 then ''L1'' else ''L2''), sr_expiresAt = x + 3 + 3600000\<rparr>"
  define d3 where "d3 = (purge_db (x + 4) d2)\<lparr>sq_reservations := rpush ''A'' r (sq_reservations (purge_db (x + 4) d2))\<rparr>"
  define d4 where "d4 = (purge_db (x + 5) d3)\<lparr>sq_reservations := expire_key ''A'' 3600 (x + 5) (sq_reservations (purge_db (x + 5) d3))\<rparr>"
  have 1: "demo_rs rs d1" by (rule demo_rs_purge [OF rs, of x]) (use x in \<open>simp_all add: d1_def purge_db_def\<close>)
  have 2: "demo_rs rs d2" by (rule demo_rs_purge [OF 1, of "x + 1"]) (use x in \<open>simp_all add: d2_def purge_db_def\<close>)
  have 3: "demo_rs rs (purge_db (x + 4) d2)" by (rule demo_rs_purge [OF 2, of "x + 4"]) (use x in \<open>simp_all add: purge_db_def\<close>)
  have r: "1000 < sr_expiresAt r" using x by (simp add: r_def)
  have "demo_rs (rs @ [r]) d3" using 3 r by (auto simp: demo_rs_def d3_def rpush_def get_list_def get_ttl_def split: option.splits)
  then have 4: "demo_rs (rs @ [r]) (purge_db (x + 5) d3)" by (rule demo_rs_purge [of _ _ "x + 5"]) (use x in \<open>simp_all add: purge_db_def\<close>)
  have 5: "demo_rs (rs @ [r]) d4" using 4 x by (auto simp: demo_rs_def d4_def expire_key_def get_list_def split: option.splits)
  obtain d' where d': "recordAuditEntry seq_demo_env ''A'' AuReserve (Some (sr_leaseId r)) (Some (sr_firstSequence r)) \<lparr>iw_db = d4, iw_ext = x + 6\<rparr> =
      (Inr (), \<lparr>iw_db = d', iw_ext = x + 6 + 4\<rparr>)" "demo_rs (rs @ [r]) d'"
    using demo_rs_audit [OF 5, of "x + 6" "''A''" AuReserve "Some (sr_leaseId r)" "Some (sr_firstSequence r)"] x by auto
  have active: "getActiveReservations seq_demo_env ''A'' \<lparr>iw_db = d1, iw_ext = x + 1\<rparr> = (Inr rs, \<lparr>iw_db = d2, iw_ext = x + 3\<rparr>)"
  proof -
    have "get_list (sq_reservations d2) ''A'' = rs" "\<forall>r\<in>set rs. 1000 < sr_expiresAt r" using 2 by (simp_all add: demo_rs_def)
    moreover from this(2) x have "filter (\<lambda>r. \<not> x + 2 < sr_expiresAt r) rs = []" "filter (\<lambda>r. x + 2 < sr_expiresAt r) rs = rs" by (auto simp: filter_empty_conv filter_id_conv)
    ultimately show ?thesis by (simp add: getActiveReservations_def demo_simps d2_def add.commute [of x])
  qed
  have "reserve_locked seq_demo_env ''A'' n \<lparr>iw_db = d, iw_ext = x\<rparr> = (Inr r, \<lparr>iw_db = d', iw_ext = x + 10\<rparr>)"
    using active d'(1) by (simp add: reserve_locked_def recordLockAcquisition_def demo_simps demo_lease d1_def d3_def d4_def r_def Let_def add.commute [of x])
  with d'(2) show ?thesis by blast
qed

lemma demo_reserve:
  assumes rs: "demo_rs rs d" "sq_locks d ''A'' = None" and x: "0 \<le> x" "x < 700"
  shows "\<exists>r d'. reserveSequenceBlock seq_demo_env ''A'' n \<lparr>iw_db = d, iw_ext = x\<rparr> = (Inr r, \<lparr>iw_db = d', iw_ext = x + 13\<rparr>) \<and>
    demo_rs (rs @ [r]) d' \<and> sq_locks d' ''A'' = None"
proof -
  define d1 where "d1 = (purge_db x d)\<lparr>sq_locks := (sq_locks (purge_db x d))(''A'' \<mapsto> (''locked'', Some (x + 5000)))\<rparr>"
  have "demo_rs rs d1" by (rule demo_rs_purge [OF rs(1), of x]) (use x in \<open>simp_all add: d1_def purge_db_def\<close>)
  from demo_reserve_locked [OF this, of "x + 1" n] x obtain r d2 where
    2: "reserve_locked seq_demo_env ''A'' n \<lparr>iw_db = d1, iw_ext = x + 1\<rparr> = (Inr r, \<lparr>iw_db = d2, iw_ext = x + 11\<rparr>)" "demo_rs (rs @ [r]) d2"
    by auto
  define d3 where "d3 = (purge_db (x + 11) d2)\<lparr>sq_locks := (sq_locks (purge_db (x + 11) d2))(''A'' := None)\<rparr>"
  define d4 where "d4 = (purge_db (x + 12) d3)\<lparr>sq_monitor := (sq_monitor (purge_db (x + 12) d3))(''A'' := None)\<rparr>"
  have 3: "demo_rs (rs @ [r]) d3" by (rule demo_rs_purge [OF 2(2), of "x + 11"]) (use x in \<open>simp_all add: d3_def purge_db_def\<close>)
  have 4: "demo_rs (rs @ [r]) d4" "sq_locks d4 ''A'' = None"
    by (rule demo_rs_purge [OF 3, of "x + 12"]) (use x in \<open>simp_all add: d4_def d3_def purge_db_def purge_None\<close>)
  have "try_lock seq_demo_env ''A'' \<lparr>iw_db = d, iw_ext = x\<rparr> = (Inr True, \<lparr>iw_db = d1, iw_ext = x + 1\<rparr>)"
    using rs(2) by (simp add: try_lock_def demo_simps get_key_def purge_db_def purge_None d1_def)
  then have "acquire_lock seq_demo_env ''A'' (Suc k) \<lparr>iw_db = d, iw_ext = x\<rparr> = (Inr True, \<lparr>iw_db = d1, iw_ext = x + 1\<rparr>)" for k
    by (simp add: pbind_apply pret_apply)
  from this [of 19] have "acquire_lock seq_demo_env ''A'' 20 \<lparr>iw_db = d, iw_ext = x\<rparr> = (Inr True, \<lparr>iw_db = d1, iw_ext = x + 1\<rparr>)"
    by (simp del: acquire_lock.simps)
  then have "reserveSequenceBlock seq_demo_env ''A'' n \<lparr>iw_db = d, iw_ext = x\<rparr> = (Inr r, \<lparr>iw_db = d4, iw_ext = x + 13\<rparr>)"
    using 2(1) by (simp add: reserveSequenceBlock_def pfinally_def ptry_def unlock_def recordLockRelease_def demo_simps d3_def d4_def add.commute [of x])
  with 4 show ?thesis by blast
qed

lemma seq_demo_blocks: "\<exists>r r'. get_list (sq_reservations (iw_db (seq_run seq_demo_env seq_demo_ops seq_demo_world))) ''A'' = [r, r']"
proof -
  have "demo_rs [] seq_empty" "sq_locks seq_empty ''A'' = None" by (simp_all add: demo_rs_def seq_empty_def get_list_def)
  from demo_reserve [OF this, of 0 2] obtain r d1 where
    1: "reserveSequenceBlock seq_demo_env ''A'' 2 \<lparr>iw_db = seq_empty, iw_ext = 0\<rparr> = (Inr r, \<lparr>iw_db = d1, iw_ext = 13\<rparr>)" "demo_rs [r] d1" "sq_locks d1 ''A'' = None" by auto
  from demo_reserve [OF 1(2,3), of 13 3] obtain r' d2 where
    2: "reserveSequenceBlock seq_demo_env ''A'' 3 \<lparr>iw_db = d1, iw_ext = 13\<rparr> = (Inr r', \<lparr>iw_db = d2, iw_ext = 26\<rparr>)" "demo_rs [r, r'] d2" by auto
  have "iw_db (seq_run seq_demo_env seq_demo_ops seq_demo_world) = d2"
    by (simp add: seq_demo_ops_def seq_demo_world_def seq_apply_def pbind_apply pret_apply 1(1) 2(1))
  with 2(2) show ?thesis by (auto simp: demo_rs_def)
qed

theorem reserved_blocks_disjoint_witness:
  "iw_db seq_demo_world = seq_empty \<and>
   length (get_list (sq_reservations (iw_db (seq_run seq_demo_env seq_demo_ops seq_demo_world))) ''A'') = 2 \<and>
   sr_lastSequence (get_list (sq_reservations (iw_db (seq_run seq_demo_env seq_demo_ops seq_demo_world))) ''A'' ! 0) <
     sr_firstSequence (get_list (sq_reservations (iw_db (seq_run seq_demo_env seq_demo_ops seq_demo_world))) ''A'' ! 1)"
proof -
  have 1: "iw_db seq_demo_world = seq_empty" by (simp add: seq_demo_world_def)
  have 2: "length (get_list (sq_reservations (iw_db (seq_run seq_demo_env seq_demo_ops seq_demo_world))) ''A'') = 2"
    using seq_demo_blocks by auto
  show ?thesis using reserved_blocks_disjoint [where env = seq_demo_env and ops = seq_demo_ops and a = "''A''", OF 1 refl] 1 2 by auto
qed

text \<open>An account with one reserved block, and the place of its cursor.\<close>

definition demo_block :: SequenceReservation where
  "demo_block = \<lparr>sr_account = ''A'', sr_firstSequence = 101, sr_lastSequence = 102, sr_size = 2, sr_leaseId = ''L1'', sr_expiresAt = 3600000\<rparr>"

lemma demo_block_sel: "sr_expiresAt demo_block = 3600000" "sr_leaseId demo_block = ''L1''" "sr_firstSequence demo_block = 101" "sr_lastSequence demo_block = 102"
  by (simp_all add: demo_block_def)

definition demo_holds :: "int option \<Rightarrow> seq_db \<Rightarrow> bool" where
  "demo_holds c d \<longleftrightarrow> sq_reservations d ''A'' = Some ([demo_block], None) \<and>
     sq_cursors d ''L1'' = map_option (\<lambda>n. (n, Some 3600001)) c"

lemma demo_holds_purge:
  assumes "demo_holds c d" "t < 3600001"
  shows "purge t (sq_reservations d) ''A'' = Some ([demo_block], None)" "purge t (sq_cursors d) ''L1'' = map_option (\<lambda>n. (n, Some 3600001)) c"
  using assms by (auto simp: demo_holds_def purge_def split: option.splits)

lemma demo_holds_audit:
  assumes "demo_holds c d" "x < 1000"
  shows "\<exists>d'. recordAuditEntry seq_demo_env a act l s \<lparr>iw_db = d, iw_ext = x\<rparr> = (Inr (), \<lparr>iw_db = d', iw_ext = x + 4\<rparr>) \<and> demo_holds c d'"
proof -
  obtain d' where d': "recordAuditEntry seq_demo_env a act l s \<lparr>iw_db = d, iw_ext = x\<rparr> = (Inr (), \<lparr>iw_db = d', iw_ext = x + 4\<rparr>)"
     "sq_reservations d' = purge (x + 3) (purge (x + 2) (purge (x + 1) (sq_reservations d)))"
     "sq_cursors d' = purge (x + 3) (purge (x + 2) (purge (x + 1) (sq_cursors d)))" using demo_audit [of a act l s d x] by blast
  have "demo_holds c d'" using assms by (cases c) (simp_all add: demo_holds_def d'(2,3) purge_apply purge_None)
  with d'(1) show ?thesis by blast
qed

lemma demo_consume:
  assumes d: "demo_holds c d" and x: "0 \<le> x" "x < 900" and n: "n = (case c of None \<Rightarrow> 101 | Some m \<Rightarrow> m)" "n \<le> 102"
  shows "\<exists>d'. getNextSequenceFromReservation seq_demo_env ''A'' \<lparr>iw_db = d, iw_ext = x\<rparr> = (Inr (Some (n, demo_block)), \<lparr>iw_db = d', iw_ext = x + 9\<rparr>) \<and> demo_holds (Some (n + 1)) d'"
proof -
  let ?d2 = "purge_db (x + 2) (purge_db (x + 1) d)"
  define d3 where "d3 = (purge_db (x + 4) ?d2)\<lparr>sq_cursors := (sq_cursors (purge_db (x + 4) ?d2))(''L1'' \<mapsto> (n + 1, Some 3600001))\<rparr>"
  have h: "sq_reservations ?d2 ''A'' = Some ([demo_block], None)" "sq_reservations (purge_db (x + 1) d) ''A'' = Some ([demo_block], None)"
      "sq_cursors ?d2 ''L1'' = map_option (\<lambda>n. (n, Some 3600001)) c"
    using d x by (cases c; simp add: demo_holds_def purge_db_def purge_apply purge_None)+
  have d3: "demo_holds (Some (n + 1)) d3" using h(1) by (simp add: demo_holds_def d3_def purge_db_def purge_apply)
  obtain d' where d': "recordAuditEntry seq_demo_env ''A'' AuConsume (Some ''L1'') (Some n) \<lparr>iw_db = d3, iw_ext = x + 5\<rparr> = (Inr (), \<lparr>iw_db = d', iw_ext = x + 5 + 4\<rparr>)"
      "demo_holds (Some (n + 1)) d'" using demo_holds_audit [OF d3, of "x + 5" "''A''" AuConsume "Some ''L1''" "Some n"] x by auto
  have set: "set_cursor seq_demo_env demo_block (n + 1) \<lparr>iw_db = ?d2, iw_ext = x + 3\<rparr> = (Inr (), \<lparr>iw_db = d3, iw_ext = x + 5\<rparr>)"
    using x by (simp add: set_cursor_def demo_simps demo_block_def d3_def add.commute [of x])
  have cur: "(case get_key (sq_cursors ?d2) ''L1'' of None \<Rightarrow> sr_firstSequence demo_block | Some m \<Rightarrow> m) = n"
    using h(3) n(1) by (cases c) (simp_all add: get_key_def demo_block_sel)
  have "consume seq_demo_env ''A'' x demo_block \<lparr>iw_db = purge_db (x + 1) d, iw_ext = x + 2\<rparr> = (Inr (Some (n, demo_block)), \<lparr>iw_db = d', iw_ext = x + 9\<rparr>)"
    using x n(2) set d'(1) cur by (simp add: consume_def demo_read pbind_apply pret_apply Let_def demo_block_sel(1,2,4) add.commute [of x])
  then have "getNextSequenceFromReservation seq_demo_env ''A'' \<lparr>iw_db = d, iw_ext = x\<rparr> = (Inr (Some (n, demo_block)), \<lparr>iw_db = d', iw_ext = x + 9\<rparr>)"
    using h(2) by (simp add: getNextSequenceFromReservation_def demo_simps get_list_def pcatch_apply add.commute [of x])
  with d'(2) show ?thesis by blast
qed

lemma demo_next:
  assumes d: "demo_holds c d" and x: "0 \<le> x" "x < 900" and n: "n = (case c of None \<Rightarrow> 101 | Some m \<Rightarrow> m)" "n \<le> 102"
  shows "\<exists>d'. getNextSequenceNumber seq_demo_env ''A'' 1 \<lparr>iw_db = d, iw_ext = x\<rparr> = (Inr (n, Some (n, demo_block)), \<lparr>iw_db = d', iw_ext = x + 9\<rparr>) \<and> demo_holds (Some (n + 1)) d'"
proof -
  obtain d' where "getNextSequenceFromReservation seq_demo_env ''A'' \<lparr>iw_db = d, iw_ext = x\<rparr> = (Inr (Some (n, demo_block)), \<lparr>iw_db = d', iw_ext = x + 9\<rparr>)"
    "demo_holds (Some (n + 1)) d'" using demo_consume [OF assms] by blast
  with n(2) show ?thesis by (simp add: getNextSequenceNumber_def demo_simps demo_block_def)
qed

lemma demo_reset:
  assumes "demo_holds (Some c) d" "x < 900"
  shows "\<exists>d'. resetCache seq_demo_env ''B'' \<lparr>iw_db = d, iw_ext = x\<rparr> = (Inr (), \<lparr>iw_db = d', iw_ext = x + 8\<rparr>) \<and> demo_holds None d'"
proof -
  define d1 where "d1 = (purge_db x d)\<lparr>sq_cache := (sq_cache (purge_db x d))(''B'' := None)\<rparr>"
  define d2 where "d2 = (purge_db (x + 1) d1)\<lparr>sq_reservations := (sq_reservations (purge_db (x + 1) d1))(''B'' := None)\<rparr>"
  define d3 where "d3 = purge_db (x + 2) d2"
  define d4 where "d4 = (purge_db (x + 3) d3)\<lparr>sq_cursors := delete_keys (\<lambda>k. get_key (sq_cursors d3) k \<noteq> None) (sq_cursors (purge_db (x + 3) d3))\<rparr>"
  have "sq_reservations d3 ''A'' = Some ([demo_block], None)" "sq_cursors d3 ''L1'' = Some (c, Some 3600001)"
    using assms by (simp_all add: demo_holds_def d3_def d2_def d1_def purge_db_def purge_apply)
  then have "demo_holds None d4" by (simp add: demo_holds_def d4_def purge_db_def purge_apply get_key_def delete_keys_def)
  then obtain d' where "recordAuditEntry seq_demo_env ''B'' AuExpire None None \<lparr>iw_db = d4, iw_ext = x + 4\<rparr> = (Inr (), \<lparr>iw_db = d', iw_ext = x + 4 + 4\<rparr>)" "demo_holds None d'"
    using demo_holds_audit [of None d4 "x + 4" "''B''" AuExpire None None] assms(2) by auto
  then show ?thesis by (simp add: resetCache_def demo_simps d4_def d3_def d2_def d1_def add.commute [of x])
qed

definition demo_held :: "(seq_db, int) tx_world" where
  "demo_held = \<lparr>iw_db = seq_empty\<lparr>sq_reservations := [''A'' \<mapsto> ([demo_block], None)]\<rparr>, iw_ext = 0\<rparr>"

lemma demo_held_holds: "demo_holds None (iw_db demo_held)"
  by (simp add: demo_held_def demo_holds_def seq_empty_def)

definition sequence_of :: "(seq_error + int \<times> (int \<times> SequenceReservation) option) \<times> (seq_db, int) tx_world \<Rightarrow> int option" where
  "sequence_of x = (case fst x of Inl e \<Rightarrow> None | Inr (n, _) \<Rightarrow> Some n)"

text \<open>The number a transaction is built with, which the builder increments. Without a reservation it is the ledger's number, 100,
  and the transaction has the next one. From a reserved block that starts at 101 it is 101, so that the transaction has the number
  102 and is rejected by the ledger.\<close>

theorem reservation_skips_first:
  "sequence_of (getNextSequenceNumber seq_demo_env ''A'' 1 seq_demo_world) = Some 100 \<and>
   sequence_of (getNextSequenceNumber seq_demo_env ''A'' 1 demo_held) = Some 101"
proof
  show "sequence_of (getNextSequenceNumber seq_demo_env ''A'' 1 seq_demo_world) = Some 100"
    by (simp add: getNextSequenceNumber_def getNextSequenceFromReservation_def fallback_sequence_def demo_simps seq_demo_world_def seq_empty_def
        purge_db_def purge_def get_list_def get_key_def Let_def sequence_of_def)
  show "sequence_of (getNextSequenceNumber seq_demo_env ''A'' 1 demo_held) = Some 101"
    using demo_next [OF demo_held_holds, of 0 101] by (auto simp: sequence_of_def demo_held_def)
qed

text \<open>A reset of one account deletes the cursors of all accounts, so that another account's block is consumed from its start again:
  account A gets 101, and after a reset of account B it gets 101 again.\<close>

theorem reset_reissues_number:
  "sequence_of (getNextSequenceNumber seq_demo_env ''A'' 1 demo_held) = Some 101 \<and>
   sequence_of (getNextSequenceNumber seq_demo_env ''A'' 1 (seq_run seq_demo_env [OpNext ''A'' 1] demo_held)) = Some 102 \<and>
   sequence_of (getNextSequenceNumber seq_demo_env ''A'' 1 (seq_run seq_demo_env [OpNext ''A'' 1, OpReset ''B'' None] demo_held)) = Some 101"
proof -
  obtain d1 where 1: "getNextSequenceNumber seq_demo_env ''A'' 1 demo_held = (Inr (101, Some (101, demo_block)), \<lparr>iw_db = d1, iw_ext = 9\<rparr>)" "demo_holds (Some 102) d1"
    using demo_next [OF demo_held_holds, of 0 101] by (auto simp: demo_held_def)
  obtain d2 where 2: "getNextSequenceNumber seq_demo_env ''A'' 1 \<lparr>iw_db = d1, iw_ext = 9\<rparr> = (Inr (102, Some (102, demo_block)), \<lparr>iw_db = d2, iw_ext = 18\<rparr>)"
    using demo_next [OF 1(2), of 9 102] by auto
  obtain d3 where 3: "resetCache seq_demo_env ''B'' \<lparr>iw_db = d1, iw_ext = 9\<rparr> = (Inr (), \<lparr>iw_db = d3, iw_ext = 17\<rparr>)" "demo_holds None d3"
    using demo_reset [OF 1(2), of 9] by auto
  obtain d4 where 4: "getNextSequenceNumber seq_demo_env ''A'' 1 \<lparr>iw_db = d3, iw_ext = 17\<rparr> = (Inr (101, Some (101, demo_block)), \<lparr>iw_db = d4, iw_ext = 26\<rparr>)"
    using demo_next [OF 3(2), of 17 101] by auto
  show ?thesis by (simp add: sequence_of_def seq_apply_def pbind_apply pret_apply reset_after_def 1(1) 2 3(1) 4 del: One_nat_def)
qed

end
