(* ===== verification/Tx_Queue.thy ===== *)
theory Tx_Queue
  imports Spend_Limits Sequence_Numbers
begin

text \<open>
  The transaction queue of the wallet service (wallet/src/queue/txQueue.ts, submissionFailure.ts): a request is checked against
  the spend limits and queued; its job takes a sequence number, builds, simulates, signs and submits the transaction, waits for
  the network to confirm it and records the spend; failures are classified into those that are retried and terminal ones. The
  state is Redis with the sequence numbers, the spend limits with their counters, the wallets and the signing audit log. The
  key vault, the Stellar SDK, the RPC server and Horizon are the environment. Job attempts follow one another, as the worker's
  concurrency of 1 and the test runner have it; BullMQ's storage of jobs is not modelled.
\<close>

section \<open>Failures\<close>

record js_error =
  je_status :: "int option"
  je_message :: string

record SubmissionFailure =
  sf_code :: string
  sf_message :: string
  sf_retryable :: bool
  sf_txHash :: "string option"

definition MALFORMED_XDR_PATTERNS :: "string list" where
  "MALFORMED_XDR_PATTERNS = [''malformed xdr'', ''invalid xdr'', ''failed to parse xdr'', ''fromxdr'', ''xdr decode'', ''bad xdr'']"

definition AUTH_FAILURE_PATTERNS :: "string list" where
  "AUTH_FAILURE_PATTERNS = [''auth failure'', ''authentication failed'', ''unauthorized'', ''forbidden'', ''access denied'',
     ''invalid auth tag'', ''decryption failed'', ''failed to decrypt'']"

definition RETRYABLE_NETWORK_PATTERNS :: "string list" where
  "RETRYABLE_NETWORK_PATTERNS = [''timeout'', ''network'', ''econnrefused'', ''enotfound'', ''econnreset'', ''etimedout'', ''socket hang up'',
     ''fetch failed'', ''rate limit'', ''429'', ''500'', ''502'', ''503'', ''504'', ''temporarily unavailable'', ''service unavailable'']"

definition matchesPatterns :: "string \<Rightarrow> string list \<Rightarrow> bool" where
  "matchesPatterns message patterns \<longleftrightarrow> (\<exists>p \<in> set patterns. js_includes (js_lower message) p)"

definition classifySubmissionFailure :: "string \<Rightarrow> string option \<Rightarrow> SubmissionFailure" where
  "classifySubmissionFailure message txHash =
     (let lower = js_lower message;
          result = (\<lambda>code retryable. \<lparr>sf_code = code, sf_message = message, sf_retryable = retryable, sf_txHash = txHash\<rparr>) in
      if matchesPatterns lower MALFORMED_XDR_PATTERNS then result ''TX_MALFORMED_XDR'' False
      else if matchesPatterns lower AUTH_FAILURE_PATTERNS then result ''TX_AUTH_FAILURE'' False
      else if js_includes lower ''simulation failed'' then result ''TX_SIMULATION_FAILED'' False
      else if js_includes lower ''tx_bad_seq'' \<or> js_includes lower ''bad_seq'' then result ''TX_SEQUENCE_CONFLICT'' True
      else if js_includes lower ''transaction failed'' then result ''TX_EXECUTION_FAILED'' False
      else if js_includes lower ''submission failed''
      then if matchesPatterns lower RETRYABLE_NETWORK_PATTERNS then result ''TX_RPC_TRANSIENT'' True else result ''TX_SUBMISSION_REJECTED'' False
      else if js_includes lower ''transaction timeout'' \<or> js_includes lower ''status untracked'' then result ''TX_POLL_TIMEOUT'' True
      else if matchesPatterns lower RETRYABLE_NETWORK_PATTERNS then result ''TX_RPC_TRANSIENT'' True
      else result ''TX_SUBMISSION_UNKNOWN'' False)"

text \<open>A three-digit code as a word of its own: \<^verbatim>\<open>/\b(504|503)\b/\<close>.\<close>

definition word_char :: "char \<Rightarrow> bool" where
  "word_char c \<longleftrightarrow> (let n = of_char c :: nat in (48 \<le> n \<and> n \<le> 57) \<or> (65 \<le> n \<and> n \<le> 90) \<or> (97 \<le> n \<and> n \<le> 122) \<or> n = 95)"

fun has_word :: "string list \<Rightarrow> bool \<Rightarrow> string \<Rightarrow> bool" where
  "has_word ws inside [] = False"
| "has_word ws inside (c # cs) =
     ((\<not> inside \<and> (\<exists>w \<in> set ws. take (length w) (c # cs) = w \<and> (case drop (length w) (c # cs) of [] \<Rightarrow> True | d # _ \<Rightarrow> \<not> word_char d))) \<or>
      has_word ws (word_char c) cs)"

definition isRpcGatewayTimeout :: "js_error \<Rightarrow> bool" where
  "isRpcGatewayTimeout err \<longleftrightarrow>
     je_status err = Some 504 \<or> je_status err = Some 503 \<or>
     has_word [''504'', ''503''] False (je_message err) \<or>
     js_includes (js_lower (je_message err)) ''gateway timeout'' \<or> js_includes (js_lower (je_message err)) ''service unavailable''"

section \<open>State and environment\<close>

record queue_request =
  qr_sourceAddress :: string
  qr_contractId :: string
  qr_method :: string
  qr_args :: "jsval list"
  qr_argTypes :: "string list option"
  qr_userId :: "string option"
  qr_walletId :: "string option"
  qr_delegationId :: "string option"
  qr_amountStroops :: "string option"

record wallet_row =
  wl_id :: string
  wl_userId :: string
  wl_stellarAddress :: string

datatype signing_status = SigningSuccess | SigningFailure

record queue_db =
  qd_seq :: seq_db
  qd_spend :: spend_db
  qd_wallets :: "wallet_row list"
  qd_signingAudit :: "(string \<times> signing_status \<times> string option) list"

datatype rpc_status = RpcSuccess int | RpcFailed string | RpcNotFound

record send_response =
  sn_status :: string
  sn_hash :: string
  sn_json :: string

record ('w, 'tx) queue_env =
  qe_seq :: "'w seq_env"
  qe_spend :: "'w spend_env"
  qe_fails :: "('w, js_error) outages"
  qe_getKey :: "string \<Rightarrow> 'w \<Rightarrow> (js_error + string) \<times> 'w"
  qe_build :: "queue_request \<Rightarrow> int \<Rightarrow> 'w \<Rightarrow> (js_error + 'tx) \<times> 'w"
  qe_simulate :: "'tx \<Rightarrow> 'w \<Rightarrow> (js_error + (string + 'tx)) \<times> 'w"
  qe_sign :: "string \<Rightarrow> 'tx \<Rightarrow> 'tx"
  qe_hash :: "'tx \<Rightarrow> string"
  qe_send :: "'tx \<Rightarrow> 'w \<Rightarrow> (js_error + send_response) \<times> 'w"
  qe_getTransaction :: "string \<Rightarrow> 'w \<Rightarrow> (js_error + rpc_status) \<times> 'w"
  qe_horizonTransaction :: "string \<Rightarrow> 'w \<Rightarrow> (js_error + unit) \<times> 'w"
  qe_requestSize :: "queue_request \<Rightarrow> int"
  qe_maxXdrBytes :: "rat option"
  qe_isTest :: bool

type_synonym ('w, 'a) queue_prog = "((queue_db, 'w) tx_world, js_error, 'a) prog"

definition js_message :: "string \<Rightarrow> js_error" where
  "js_message m = \<lparr>je_status = None, je_message = m\<rparr>"

text \<open>\<open>qe_isTest\<close>: \<^verbatim>\<open>process.env.NODE_ENV\<close> is \<^verbatim>\<open>"test"\<close>.\<close>

text \<open>The other components' programs on their part of the state; an error keeps its message.\<close>

definition on_part :: "(queue_db \<Rightarrow> 'd) \<Rightarrow> ('d \<Rightarrow> queue_db \<Rightarrow> queue_db) \<Rightarrow> ('e \<Rightarrow> string) \<Rightarrow> (('d, 'w) tx_world, 'e, 'a) prog \<Rightarrow> ('w, 'a) queue_prog" where
  "on_part get put msg m w =
     (case m \<lparr>iw_db = get (iw_db w), iw_ext = iw_ext w\<rparr> of (r, w') \<Rightarrow>
        (map_sum (\<lambda>e. js_message (msg e)) id r, w\<lparr>iw_db := put (iw_db w') (iw_db w), iw_ext := iw_ext w'\<rparr>))"

fun seq_message :: "seq_error \<Rightarrow> string" where
  "seq_message LockNotAcquired = ''Failed to acquire sequence reservation lock''"
| "seq_message (AccountNotLoaded m) = m"
| "seq_message InvalidExpireTime = ''ERR invalid expire time in set command''"
| "seq_message (RedisDown m) = m"

fun spend_message :: "spend_error \<Rightarrow> string" where
  "spend_message (RedisError m) = m"
| "spend_message (SpendDown m) = m"

definition on_seq :: "((seq_db, 'w) tx_world, seq_error, 'a) prog \<Rightarrow> ('w, 'a) queue_prog" where
  "on_seq = on_part qd_seq (\<lambda>d db. db\<lparr>qd_seq := d\<rparr>) seq_message"

definition on_spend :: "((spend_db, 'w) tx_world, spend_error, 'a) prog \<Rightarrow> ('w, 'a) queue_prog" where
  "on_spend = on_part qd_spend (\<lambda>d db. db\<lparr>qd_spend := d\<rparr>) spend_message"

definition ask :: "('w \<Rightarrow> (js_error + 'a) \<times> 'w) \<Rightarrow> ('w, 'a) queue_prog" where
  "ask f = pbind (outside f) (\<lambda>r. case r of Inl e \<Rightarrow> pthrow e | Inr a \<Rightarrow> pret a)"

definition swallowed :: "('w, unit) queue_prog \<Rightarrow> ('w, unit) queue_prog" where
  "swallowed m = pcatch m (\<lambda>_. pret ())"

definition insertAuditLog :: "('w, 'tx) queue_env \<Rightarrow> string \<Rightarrow> signing_status \<Rightarrow> string option \<Rightarrow> ('w, unit) queue_prog" where
  "insertAuditLog env walletId status txHash =
     db_query (qe_fails env) (\<lambda>db. Inr ((), db\<lparr>qd_signingAudit := qd_signingAudit db @ [(walletId, status, txHash)]\<rparr>))"

definition audit_signing :: "('w, 'tx) queue_env \<Rightarrow> queue_request \<Rightarrow> signing_status \<Rightarrow> string option \<Rightarrow> ('w, unit) queue_prog" where
  "audit_signing env request status txHash =
     (case qr_walletId request of
        Some i \<Rightarrow> if i \<noteq> [] then swallowed (insertAuditLog env i status txHash) else pret ()
      | None \<Rightarrow> pret ())"

section \<open>A job\<close>

fun reconcile_polls :: "('w, 'tx) queue_env \<Rightarrow> string \<Rightarrow> nat \<Rightarrow> ('w, TransactionResult option) queue_prog" where
  "reconcile_polls env txHash 0 = pret None"
| "reconcile_polls env txHash (Suc n) =
     pbind (ptry (ask (qe_getTransaction env txHash))) (\<lambda>status.
     case status of
       Inr (RpcSuccess ledger) \<Rightarrow> pret (Some \<lparr>tx_hash = txHash, tx_ledger = ledger, tx_success = True\<rparr>)
     | Inr (RpcFailed x) \<Rightarrow> pret None
     | Inr RpcNotFound \<Rightarrow> reconcile_polls env txHash n
     | Inl e \<Rightarrow> reconcile_polls env txHash n)"

definition reconcileTimedOutSubmission :: "('w, 'tx) queue_env \<Rightarrow> string \<Rightarrow> ('w, TransactionResult option) queue_prog" where
  "reconcileTimedOutSubmission env txHash = reconcile_polls env txHash (if qe_isTest env then 2 else 6)"

definition verifyLedgerSubmission :: "('w, 'tx) queue_env \<Rightarrow> string \<Rightarrow> ('w, bool) queue_prog" where
  "verifyLedgerSubmission env hash =
     pbind (ptry (ask (qe_horizonTransaction env hash))) (\<lambda>r. case r of Inr _ \<Rightarrow> pret True | Inl _ \<Rightarrow> pret False)"

definition bad_sequence :: "string \<Rightarrow> bool" where
  "bad_sequence m \<longleftrightarrow> js_includes m ''tx_bad_seq'' \<or> js_includes m ''bad_seq''"

definition record_spend_of :: "('w, 'tx) queue_env \<Rightarrow> queue_request \<Rightarrow> ('w, unit) queue_prog" where
  "record_spend_of env request =
     (case (qr_userId request, qr_walletId request, qr_amountStroops request) of
        (Some u, Some i, Some a) \<Rightarrow>
          if u \<noteq> [] \<and> i \<noteq> [] \<and> a \<noteq> []
          then (case js_BigInt a of
                  Some amount \<Rightarrow> if amount > 0 then swallowed (on_spend (recordSpend (qe_spend env) u i amount)) else pret ()
                | None \<Rightarrow> pret ())
          else pret ()
      | _ \<Rightarrow> pret ())"

text \<open>Twelve polls for the result; \<open>None\<close> when none of them settled it.\<close>

fun poll_result :: "('w, 'tx) queue_env \<Rightarrow> queue_request \<Rightarrow> ('w, unit) queue_prog \<Rightarrow> string \<Rightarrow> nat \<Rightarrow> ('w, TransactionResult option) queue_prog" where
  "poll_result env request reset txHash 0 = pret None"
| "poll_result env request reset txHash (Suc retries) =
     pbind (ptry (ask (qe_getTransaction env txHash))) (\<lambda>status.
     case status of
       Inl e \<Rightarrow> if isRpcGatewayTimeout e then poll_result env request reset txHash retries else pthrow e
     | Inr (RpcSuccess ledger) \<Rightarrow>
         pbind (record_spend_of env request) (\<lambda>_.
         pbind (audit_signing env request SigningSuccess (Some txHash)) (\<lambda>_.
         pret (Some \<lparr>tx_hash = txHash, tx_ledger = ledger, tx_success = True\<rparr>)))
     | Inr (RpcFailed x) \<Rightarrow>
         pbind (if bad_sequence x then reset else pret ()) (\<lambda>_. pthrow (js_message (''Transaction failed: '' @ x)))
     | Inr RpcNotFound \<Rightarrow> poll_result env request reset txHash retries)"

definition send_or_reconcile :: "('w, 'tx) queue_env \<Rightarrow> queue_request \<Rightarrow> 'tx \<Rightarrow> ('w, TransactionResult + send_response) queue_prog" where
  "send_or_reconcile env request tx =
     pbind (ptry (ask (qe_send env tx))) (\<lambda>sent.
     case sent of
       Inr res \<Rightarrow> pret (Inr res)
     | Inl e \<Rightarrow>
         if isRpcGatewayTimeout e
         then
           pbind (reconcileTimedOutSubmission env (qe_hash env tx)) (\<lambda>reconciled.
           case reconciled of
             Some result \<Rightarrow> pbind (audit_signing env request SigningSuccess (Some (qe_hash env tx))) (\<lambda>_. pret (Inl result))
           | None \<Rightarrow> pthrow (js_message (''Submission failed: RPC gateway timeout (504/503) and transaction not found on-chain: '' @ je_message e)))
         else pthrow e)"

definition confirm :: "('w, 'tx) queue_env \<Rightarrow> queue_request \<Rightarrow> ('w, unit) queue_prog \<Rightarrow> send_response \<Rightarrow> ('w, TransactionResult) queue_prog" where
  "confirm env request reset res =
     (if sn_status res = ''ERROR''
      then pbind (if bad_sequence (sn_json res) then reset else pret ()) (\<lambda>_. pthrow (js_message (''Submission failed: '' @ sn_json res)))
      else
        pbind (poll_result env request reset (sn_hash res) 12) (\<lambda>polled.
        case polled of
          Some result \<Rightarrow> pret result
        | None \<Rightarrow>
            pbind (verifyLedgerSubmission env (sn_hash res)) (\<lambda>confirmed.
            if confirmed
            then pbind (audit_signing env request SigningSuccess (Some (sn_hash res))) (\<lambda>_.
                 pret \<lparr>tx_hash = sn_hash res, tx_ledger = 0, tx_success = True\<rparr>)
            else pthrow (js_message (''Transaction timeout or status untracked: '' @ sn_status res)))))"

definition submit_built :: "('w, 'tx) queue_env \<Rightarrow> queue_request \<Rightarrow> string \<Rightarrow> int \<Rightarrow> ('w, unit) queue_prog \<Rightarrow> ('w, TransactionResult) queue_prog" where
  "submit_built env request secret sequence reset =
     pbind (ask (qe_build env request sequence)) (\<lambda>draft.
     pbind (ask (qe_simulate env draft)) (\<lambda>simulated.
     case simulated of
       Inl reasons \<Rightarrow> pthrow (js_message (''Transaction simulation failed: '' @ reasons))
     | Inr assembled \<Rightarrow>
         (let tx = qe_sign env secret assembled in
          pbind (send_or_reconcile env request tx) (\<lambda>sent.
          case sent of Inl result \<Rightarrow> pret result | Inr res \<Rightarrow> confirm env request reset res))))"

datatype job_error = JobRaw string | JobRetry string | JobTerminal string

definition throwClassifiedSubmissionFailure :: "SubmissionFailure \<Rightarrow> job_error" where
  "throwClassifiedSubmissionFailure failure =
     (if sf_retryable failure then JobRetry (sf_message failure) else JobTerminal (sf_code failure @ '': '' @ sf_message failure))"

definition executeTxJob :: "('w, 'tx) queue_env \<Rightarrow> queue_request \<Rightarrow> nat \<Rightarrow> ((queue_db, 'w) tx_world, job_error, TransactionResult) prog" where
  "executeTxJob env request attempt =
     pbind (pcatch (ask (qe_getKey env (qr_sourceAddress request))) (\<lambda>e. pthrow (JobRaw (je_message e)))) (\<lambda>secret.
     pbind (pcatch (on_seq (getNextSequenceNumber (qe_seq env) (qr_sourceAddress request) attempt)) (\<lambda>e. pthrow (JobRaw (je_message e)))) (\<lambda>next.
     case next of (sequence, used) \<Rightarrow>
       pcatch (submit_built env request secret sequence (on_seq (reset_after (qe_seq env) (qr_sourceAddress request) used))) (\<lambda>err.
         let failure = classifySubmissionFailure (je_message err) None in
         pbind (if sf_retryable failure then pret () else pcatch (audit_signing env request SigningFailure None) (\<lambda>_. pret ())) (\<lambda>_.
         pthrow (throwClassifiedSubmissionFailure failure)))))"

section \<open>Attempts\<close>

fun job_message :: "job_error \<Rightarrow> string" where
  "job_message (JobRaw m) = m"
| "job_message (JobRetry m) = m"
| "job_message (JobTerminal m) = m"

text \<open>At most \<open>n\<close> attempts; \<open>again\<close> says which errors are tried again. BullMQ does so for every error that is not an
  \<^verbatim>\<open>UnrecoverableError\<close>, the test runner only for those that classify as retryable.\<close>

fun run_attempts :: "(job_error \<Rightarrow> bool) \<Rightarrow> ('w, 'tx) queue_env \<Rightarrow> queue_request \<Rightarrow> nat \<Rightarrow> nat \<Rightarrow> ((queue_db, 'w) tx_world, job_error, TransactionResult) prog" where
  "run_attempts again env request made 0 = pthrow (JobRaw ''Job failed after max attempts'')"
| "run_attempts again env request made (Suc n) =
     pbind (ptry (executeTxJob env request (made + 1))) (\<lambda>r.
     case r of
       Inr result \<Rightarrow> pret result
     | Inl e \<Rightarrow> if again e \<and> n > 0 then run_attempts again env request (made + 1) n else pthrow e)"

fun is_terminal :: "job_error \<Rightarrow> bool" where
  "is_terminal (JobTerminal m) = True"
| "is_terminal e = False"

definition DEFAULT_QUEUE_ATTEMPTS :: nat where "DEFAULT_QUEUE_ATTEMPTS = 5"

definition runTestJob :: "('w, 'tx) queue_env \<Rightarrow> queue_request \<Rightarrow> ((queue_db, 'w) tx_world, job_error, TransactionResult) prog" where
  "runTestJob env request =
     run_attempts (\<lambda>e. \<not> is_terminal e \<and> sf_retryable (classifySubmissionFailure (job_message e) None)) env request 0 5"

definition run_worker :: "('w, 'tx) queue_env \<Rightarrow> queue_request \<Rightarrow> ((queue_db, 'w) tx_world, job_error, TransactionResult) prog" where
  "run_worker env request =
     pcatch (run_attempts (\<lambda>e. \<not> is_terminal e) env request 0 DEFAULT_QUEUE_ATTEMPTS) (\<lambda>e. pthrow (JobRaw (job_message e)))"

section \<open>Queueing a request\<close>

record XdrValidationResult =
  xv_valid :: bool
  xv_sizeBytes :: int
  xv_maxBytes :: rat

text \<open>\<open>None\<close> stands for \<^verbatim>\<open>NaN\<close>.\<close>

definition validateXdrSize :: "('w, 'tx) queue_env \<Rightarrow> queue_request \<Rightarrow> XdrValidationResult" where
  "validateXdrSize env request =
     (let sizeBytes = qe_requestSize env request;
          maxBytes = (case qe_maxXdrBytes env of None \<Rightarrow> 65536 | Some raw \<Rightarrow> if raw \<le> 0 then 65536 else raw) in
      \<lparr>xv_valid = of_int sizeBytes \<le> maxBytes, xv_sizeBytes = sizeBytes, xv_maxBytes = maxBytes\<rparr>)"

definition present :: "string option \<Rightarrow> bool" where
  "present x \<longleftrightarrow> (case x of None \<Rightarrow> False | Some s \<Rightarrow> s \<noteq> [])"

definition identify_wallet :: "('w, 'tx) queue_env \<Rightarrow> queue_request \<Rightarrow> ('w, string option \<times> string option) queue_prog" where
  "identify_wallet env request =
     (if \<not> present (qr_userId request) \<or> \<not> present (qr_walletId request)
      then
        pbind (pcatch (db_select (qe_fails env) (\<lambda>db. find (\<lambda>r. wl_stellarAddress r = qr_sourceAddress request) (qd_wallets db))) (\<lambda>_. pret None)) (\<lambda>found.
        case found of
          Some r \<Rightarrow> pret (if present (qr_userId request) then qr_userId request else Some (wl_userId r),
                          if present (qr_walletId request) then qr_walletId request else Some (wl_id r))
        | None \<Rightarrow> pret (qr_userId request, qr_walletId request))
      else pret (qr_userId request, qr_walletId request))"

text \<open>The spend check: a limit that is exceeded is thrown, any other error is logged and the request goes on.\<close>

definition check_limits :: "('w, 'tx) queue_env \<Rightarrow> queue_request \<Rightarrow> string \<Rightarrow> string \<Rightarrow> int \<Rightarrow> ('w, queue_request) queue_prog" where
  "check_limits env request userId walletId amount =
     pcatch
       (pbind (on_spend (checkSpendLimit (qe_spend env) userId walletId (qr_delegationId request) amount)) (\<lambda>res.
        if \<not> sc_allowed res
        then pthrow (js_message (''Spending limit exceeded: '' @ (case sc_reason res of None \<Rightarrow> ''limit exceeded'' | Some r \<Rightarrow> if r = [] then ''limit exceeded'' else r)))
        else pret (request\<lparr>qr_userId := Some userId, qr_walletId := Some walletId, qr_amountStroops := Some (show_int amount)\<rparr>)))
       (\<lambda>err. if js_includes (je_message err) ''Spending limit exceeded'' then pthrow err else pret request)"

definition admit_transaction :: "('w, 'tx) queue_env \<Rightarrow> queue_request \<Rightarrow> ('w, queue_request) queue_prog" where
  "admit_transaction env request =
     (if \<not> xv_valid (validateXdrSize env request) then pthrow (js_message ''Payload too large'')
      else
        case (if present (qr_amountStroops request) then js_BigInt (the (qr_amountStroops request)) else Some 0) of
          None \<Rightarrow> pthrow (js_message ''Cannot convert to a BigInt'')
        | Some amount \<Rightarrow>
            pbind (identify_wallet env request) (\<lambda>ids.
            case ids of (userId, walletId) \<Rightarrow>
              if present userId \<and> present walletId then check_limits env request (the userId) (the walletId) amount
              else pret request))"

definition addTransactionToQueue :: "('w, 'tx) queue_env \<Rightarrow> queue_request \<Rightarrow> ((queue_db, 'w) tx_world, job_error, TransactionResult) prog" where
  "addTransactionToQueue env request =
     pbind (pcatch (admit_transaction env request) (\<lambda>e. pthrow (JobRaw (je_message e)))) (\<lambda>admitted.
     if qe_isTest env then runTestJob env admitted else run_worker env admitted)"

section \<open>Job status\<close>

datatype job_status = JobQueued | JobProcessing | JobSubmitted | JobFailed

definition getJobStatus :: "string \<Rightarrow> job_status" where
  "getJobStatus state =
     (if state = ''waiting'' \<or> state = ''delayed'' \<or> state = ''waiting-children'' then JobQueued
      else if state = ''active'' then JobProcessing
      else if state = ''completed'' then JobSubmitted
      else if state = ''failed'' then JobFailed
      else JobQueued)"

end
