(* ===== verification/Tx_Queue_Properties.thy ===== *)
theory Tx_Queue_Properties
  imports Tx_Queue Sequence_Properties
begin

text \<open>
  What the transaction queue guarantees: a job that returns has a confirmed transaction, a retried job starts from the ledger's
  sequence number, a request beyond a spend limit is refused; and how failures are classified.
\<close>

section \<open>Confirmed transactions\<close>

text \<open>\<open>on_chain h x\<close>: transaction \<open>h\<close> is on the ledger when the rest of the world is in state \<open>x\<close>. The RPC server and Horizon report only
  such transactions as successful or found, and what is on the ledger stays there.\<close>

definition truthful :: "('w, 'tx) queue_env \<Rightarrow> (string \<Rightarrow> 'w \<Rightarrow> bool) \<Rightarrow> bool" where
  "truthful env on_chain \<longleftrightarrow>
     (\<forall>h x l x'. qe_getTransaction env h x = (Inr (RpcSuccess l), x') \<longrightarrow> on_chain h x') \<and>
     (\<forall>h x u x'. qe_horizonTransaction env h x = (Inr u, x') \<longrightarrow> on_chain h x') \<and>
     (\<forall>h x. on_chain h x \<longrightarrow> on_chain h (snd (qe_fails env x)) \<and> on_chain h (snd (sv_fails (qe_spend env) x)) \<and>
        on_chain h (snd (sv_now (qe_spend env) x)) \<and> on_chain h (snd (sv_redis_now (qe_spend env) x)))"

definition chain_has :: "(string \<Rightarrow> 'w \<Rightarrow> bool) \<Rightarrow> string \<Rightarrow> ('d, 'w) tx_world \<Rightarrow> bool" where
  "chain_has on_chain h w \<longleftrightarrow> on_chain h (iw_ext w)"

lemma keeps_outside_chain: "(\<And>x. on_chain h x \<Longrightarrow> on_chain h (snd (f x))) \<Longrightarrow> keeps (chain_has on_chain h) (outside f)"
  by (auto simp: keeps_def chain_has_def outside_def split: prod.splits) (metis snd_conv)

lemma keeps_query_chain: "(\<And>x. on_chain h x \<Longrightarrow> on_chain h (snd (fails x))) \<Longrightarrow> keeps (chain_has on_chain h) (db_query fails f)"
  by (auto simp: keeps_def chain_has_def db_query_def split: prod.splits option.splits sum.splits) (metis snd_conv)+

lemma keeps_on_part: "keeps (chain_has on_chain h) m \<Longrightarrow> keeps (chain_has on_chain h) (on_part get put msg m)"
  by (auto simp: keeps_def chain_has_def on_part_def split: prod.splits) (metis snd_conv tx_world.select_convs(2))

lemma keeps_eval_chain: "(\<And>x. on_chain h x \<Longrightarrow> on_chain h (snd (fails x))) \<Longrightarrow> keeps (chain_has on_chain h) (redis_eval fails script)"
  by (auto simp: keeps_def chain_has_def redis_eval_def split: prod.splits option.splits) (metis snd_conv)+

lemma audit_signing_chain: "truthful env on_chain \<Longrightarrow> keeps (chain_has on_chain h) (audit_signing env r s t)"
  unfolding audit_signing_def swallowed_def insertAuditLog_def
  by (intro keeps_case_option keeps_if keeps_pcatch keeps_query_chain keeps_pret) (auto simp: truthful_def)

lemma record_spend_chain:
  assumes "truthful env on_chain"
  shows "keeps (chain_has on_chain h) (record_spend_of env r)"
proof -
  have "keeps (chain_has on_chain h) (recordSpend (qe_spend env) u i a)" for u i a
    unfolding recordSpend_def by (intro keeps_pbind keeps_outside_chain keeps_eval_chain) (use assms in \<open>auto simp: truthful_def\<close>)
  then show ?thesis unfolding record_spend_of_def swallowed_def on_spend_def
    by (auto split: option.splits intro!: keeps_rules keeps_on_part)
qed

text \<open>Programs that return only with a transaction on the ledger.\<close>

definition confirms :: "(string \<Rightarrow> 'w \<Rightarrow> bool) \<Rightarrow> (('d, 'w) tx_world, 'e, TransactionResult) prog \<Rightarrow> bool" where
  "confirms on_chain m \<longleftrightarrow> (\<forall>w res w'. m w = (Inr res, w') \<longrightarrow> tx_success res \<and> chain_has on_chain (tx_hash res) w')"

definition confirms_option :: "(string \<Rightarrow> 'w \<Rightarrow> bool) \<Rightarrow> (('d, 'w) tx_world, 'e, TransactionResult option) prog \<Rightarrow> bool" where
  "confirms_option on_chain m \<longleftrightarrow> (\<forall>w res w'. m w = (Inr (Some res), w') \<longrightarrow> tx_success res \<and> chain_has on_chain (tx_hash res) w')"

lemma confirms_pbind: "(\<And>a. confirms on_chain (f a)) \<Longrightarrow> confirms on_chain (pbind m f)"
  unfolding confirms_def by (auto elim: pbind_returned)

lemma confirms_pthrow: "confirms on_chain (pthrow e)"
  by (simp add: confirms_def pthrow_apply)

lemma confirms_pcatch: "confirms on_chain m \<Longrightarrow> (\<And>e. confirms on_chain (h e)) \<Longrightarrow> confirms on_chain (pcatch m h)"
  unfolding confirms_def by (auto simp: pcatch_apply split: prod.splits sum.splits)

lemma confirms_after:
  assumes "confirms_option on_chain m" and "\<And>h. keeps (chain_has on_chain h) (g h)" and "confirms on_chain k"
  shows "confirms on_chain (pbind m (\<lambda>found. case found of Some res \<Rightarrow> pbind (g (tx_hash res)) (\<lambda>_. pret res) | None \<Rightarrow> k))"
  unfolding confirms_def
proof (intro allI impI)
  fix w res w' assume run: "pbind m (\<lambda>found. case found of Some res \<Rightarrow> pbind (g (tx_hash res)) (\<lambda>_. pret res) | None \<Rightarrow> k) w = (Inr res, w')"
  then obtain found w1 where 1: "m w = (Inr found, w1)" "(case found of Some res \<Rightarrow> pbind (g (tx_hash res)) (\<lambda>_. pret res) | None \<Rightarrow> k) w1 = (Inr res, w')"
    by (elim pbind_returned)
  show "tx_success res \<and> chain_has on_chain (tx_hash res) w'"
  proof (cases found)
    case None
    with 1 assms(3) show ?thesis by (simp add: confirms_def)
  next
    case (Some r)
    with 1(2) obtain u w2 where 2: "g (tx_hash r) w1 = (Inr u, w2)" "r = res" "w2 = w'" by (auto elim!: pbind_returned simp: pret_apply)
    have "tx_success r \<and> chain_has on_chain (tx_hash r) w1" using assms(1) 1(1) Some by (simp add: confirms_option_def)
    with keepsD' [OF assms(2) _ 2(1)] 2 show ?thesis by auto
  qed
qed

lemma ask_status:
  assumes "truthful env on_chain" "ask (qe_getTransaction env h) w = (Inr (RpcSuccess l), w')"
  shows "chain_has on_chain h w'"
  using assms by (auto simp: ask_def truthful_def chain_has_def pbind_apply outside_def pret_apply pthrow_apply split: prod.splits sum.splits)

lemma ptry_ask: "ptry m w = (Inr (Inr a), w') \<Longrightarrow> m w = (Inr a, w')"
  by (auto simp: ptry_apply split: prod.splits)

lemma confirms_option_None: "confirms_option on_chain (pret None)"
  by (simp add: confirms_option_def pret_apply)

lemma confirms_option_pthrow: "confirms_option on_chain (pthrow e)"
  by (simp add: confirms_option_def pthrow_apply)

lemma confirms_option_pbind: "(\<And>a. confirms_option on_chain (f a)) \<Longrightarrow> confirms_option on_chain (pbind m f)"
  unfolding confirms_option_def by (auto elim: pbind_returned)

text \<open>One poll of the transaction's status.\<close>

lemma confirms_poll:
  fixes env :: "('a, 'tx) queue_env" and k :: "js_error + rpc_status \<Rightarrow> ('a, TransactionResult option) queue_prog"
  assumes t: "truthful env on_chain"
    and yes: "\<And>l. keeps (chain_has on_chain h) (g l)"
    and no: "\<And>status. (\<nexists>l. status = Inr (RpcSuccess l)) \<Longrightarrow> confirms_option on_chain (k status)"
    and k: "\<And>l. k (Inr (RpcSuccess l)) = pbind (g l) (\<lambda>_. pret (Some \<lparr>tx_hash = h, tx_ledger = l, tx_success = True\<rparr>))"
  shows "confirms_option on_chain (pbind (ptry (ask (qe_getTransaction env h))) k)"
  unfolding confirms_option_def
proof (intro allI impI)
  fix w res w' assume "pbind (ptry (ask (qe_getTransaction env h))) k w = (Inr (Some res), w')"
  then obtain status w1 where 1: "(ptry (ask (qe_getTransaction env h)) :: ('a, js_error + rpc_status) queue_prog) w = (Inr status, w1)" "k status w1 = (Inr (Some res), w')" by (elim pbind_returned)
  show "tx_success res \<and> chain_has on_chain (tx_hash res) w'"
  proof (cases "\<exists>l. status = Inr (RpcSuccess l)")
    case True
    then obtain l where l: "status = Inr (RpcSuccess l)" by blast
    from 1(1) l have "chain_has on_chain h w1" by (auto dest: ptry_ask ask_status [OF t])
    moreover obtain u w2 where "g l w1 = (Inr u, w2)" "res = \<lparr>tx_hash = h, tx_ledger = l, tx_success = True\<rparr>" "w2 = w'"
      using 1(2) unfolding l k by (auto elim!: pbind_returned simp: pret_apply)
    ultimately show ?thesis using keepsD' [OF yes] by fastforce
  next
    case False
    with no 1(2) show ?thesis by (auto simp: confirms_option_def)
  qed
qed

lemma reconcile_confirms:
  assumes "truthful env on_chain"
  shows "confirms_option on_chain (reconcile_polls env h n)"
proof (induction n)
  case (Suc n)
  show ?case unfolding reconcile_polls.simps
    by (rule confirms_poll [OF assms, where g = "\<lambda>_. pret ()"]) (use Suc in \<open>auto simp: confirms_option_None keeps_pret split: sum.splits rpc_status.splits\<close>)
qed (simp add: confirms_option_None)

lemma poll_result_confirms:
  assumes t: "truthful env on_chain"
  shows "confirms_option on_chain (poll_result env request reset h n)"
proof (induction n)
  case (Suc n)
  have "keeps (chain_has on_chain h) (pbind (record_spend_of env request) (\<lambda>_. audit_signing env request SigningSuccess (Some h)))"
    by (intro keeps_pbind record_spend_chain audit_signing_chain t)
  then show ?case unfolding poll_result.simps
    by (rule confirms_poll [OF t]) (use Suc in \<open>auto simp: confirms_option_pthrow confirms_option_pbind pbind_assoc split: sum.splits rpc_status.splits\<close>)
qed (simp add: confirms_option_None)

lemma verify_confirms:
  assumes t: "truthful env on_chain"
  shows "confirms on_chain (pbind (verifyLedgerSubmission env h) (\<lambda>confirmed.
     if confirmed then pbind (audit_signing env request SigningSuccess (Some h)) (\<lambda>_. pret \<lparr>tx_hash = h, tx_ledger = 0, tx_success = True\<rparr>) else pthrow e))"
  unfolding confirms_def
proof (intro allI impI)
  fix w res w' assume "pbind (verifyLedgerSubmission env h) (\<lambda>confirmed.
     if confirmed then pbind (audit_signing env request SigningSuccess (Some h)) (\<lambda>_. pret \<lparr>tx_hash = h, tx_ledger = 0, tx_success = True\<rparr>) else pthrow e) w = (Inr res, w')"
  then obtain c w1 where 1: "verifyLedgerSubmission env h w = (Inr c, w1)" "(if c then pbind (audit_signing env request SigningSuccess (Some h))
      (\<lambda>_. pret \<lparr>tx_hash = h, tx_ledger = 0, tx_success = True\<rparr>) else pthrow e) w1 = (Inr res, w')" by (elim pbind_returned)
  then have c: c by (auto simp: pthrow_apply split: if_splits)
  have "chain_has on_chain h w1" using 1(1) c t
    by (auto simp: verifyLedgerSubmission_def truthful_def chain_has_def ask_def pbind_apply ptry_apply outside_def pret_apply pthrow_apply split: prod.splits sum.splits)
  moreover obtain u where "audit_signing env request SigningSuccess (Some h) w1 = (Inr u, w')" "res = \<lparr>tx_hash = h, tx_ledger = 0, tx_success = True\<rparr>"
    using 1(2) c by (auto elim!: pbind_returned simp: pret_apply)
  ultimately show "tx_success res \<and> chain_has on_chain (tx_hash res) w'" using keepsD' [OF audit_signing_chain [OF t]] by fastforce
qed

lemma confirms_then:
  assumes "confirms_option on_chain m" "confirms on_chain k"
  shows "confirms on_chain (pbind m (\<lambda>found. case found of None \<Rightarrow> k | Some res \<Rightarrow> pret res))"
  using confirms_after [OF assms(1) _ assms(2), where g = "\<lambda>_. pret ()"] by (simp add: keeps_pret)

lemma confirm_confirms:
  assumes t: "truthful env on_chain"
  shows "confirms on_chain (confirm env request reset res)"
proof (cases "sn_status res = ''ERROR''")
  case True
  then show ?thesis by (simp add: confirm_def confirms_pbind confirms_pthrow)
next
  case False
  then show ?thesis unfolding confirm_def if_not_P [OF False] by (intro confirms_then poll_result_confirms [OF t] verify_confirms [OF t])
qed

lemma send_or_reconcile_confirms:
  assumes t: "truthful env on_chain"
  shows "confirms on_chain (pbind (send_or_reconcile env request tx) (\<lambda>sent. case sent of Inl result \<Rightarrow> pret result | Inr res \<Rightarrow> confirm env request reset res))"
proof -
  let ?k = "\<lambda>sent. case sent of Inl result \<Rightarrow> pret result | Inr res \<Rightarrow> confirm env request reset res"
  have sent: "confirms on_chain (?k (Inr res))" for res by (simp add: confirm_confirms [OF t])
  have rec: "confirms on_chain (pbind (reconcileTimedOutSubmission env h) (\<lambda>reconciled. case reconciled of
       None \<Rightarrow> pthrow e | Some result \<Rightarrow> pbind (audit_signing env request SigningSuccess (Some h')) (\<lambda>_. pret result)))" for h h' e
    unfolding reconcileTimedOutSubmission_def
    by (rule confirms_after [OF reconcile_confirms [OF t], where g = "\<lambda>_. audit_signing env request SigningSuccess (Some h')"])
       (simp_all add: audit_signing_chain [OF t] confirms_pthrow)
  show ?thesis unfolding send_or_reconcile_def pbind_assoc
  proof (rule confirms_pbind)
    fix a
    show "confirms on_chain (pbind (case a of Inl e \<Rightarrow>
          if isRpcGatewayTimeout e
          then pbind (reconcileTimedOutSubmission env (qe_hash env tx)) (\<lambda>reconciled. case reconciled of
                 None \<Rightarrow> pthrow (js_message (''Submission failed: RPC gateway timeout (504/503) and transaction not found on-chain: '' @ je_message e))
               | Some result \<Rightarrow> pbind (audit_signing env request SigningSuccess (Some (qe_hash env tx))) (\<lambda>_. pret (Inl result)))
          else pthrow e
        | Inr res \<Rightarrow> pret (Inr res)) ?k)"
    proof (cases a)
      case (Inl e)
      have "pbind (case r of None \<Rightarrow> pthrow x | Some result \<Rightarrow> pbind m (\<lambda>_. pret (Inl result))) ?k =
          (case r of None \<Rightarrow> pthrow x | Some result \<Rightarrow> pbind m (\<lambda>_. pret result))" for r x and m :: "('a, unit) queue_prog"
        by (cases r) (simp_all add: pbind_assoc)
      then show ?thesis using rec by (simp add: Inl pbind_assoc confirms_pthrow)
    next
      case (Inr res)
      with sent show ?thesis by simp
    qed
  qed
qed

lemma submit_built_confirms:
  assumes t: "truthful env on_chain"
  shows "confirms on_chain (submit_built env request secret n reset)"
  unfolding submit_built_def Let_def
  by (intro confirms_pbind) (auto simp: confirms_pthrow send_or_reconcile_confirms [OF t] split: sum.splits)

lemma executeTxJob_confirms:
  assumes t: "truthful env on_chain"
  shows "confirms on_chain (executeTxJob env request n)"
  unfolding executeTxJob_def Let_def
  by (intro confirms_pbind) (auto simp: split_beta intro!: confirms_pcatch submit_built_confirms [OF t] confirms_pbind confirms_pthrow)

lemma run_attempts_confirms:
  assumes t: "truthful env on_chain"
  shows "confirms on_chain (run_attempts again env request made n)"
proof (induction n arbitrary: made)
  case (Suc n)
  show ?case unfolding confirms_def
  proof (intro allI impI)
    fix w res w' assume run: "run_attempts again env request made (Suc n) w = (Inr res, w')"
    show "tx_success res \<and> chain_has on_chain (tx_hash res) w'"
    proof (cases "executeTxJob env request (made + 1) w")
      case (Pair r w1)
      with run Suc executeTxJob_confirms [OF t, of request "made + 1"] show ?thesis
        by (cases r) (auto simp: pbind_apply ptry_apply pret_apply pthrow_apply confirms_def split: if_splits)
    qed
  qed
qed (simp add: confirms_pthrow)

text \<open>C17: A request that the queue answers with a result has a transaction on the ledger: whatever fails on the way and however often the
  job is retried, the returned hash is one that the RPC server reported as successful or Horizon found.\<close>

theorem queued_transaction_confirmed:
  assumes "truthful env on_chain" and "addTransactionToQueue env request w = (Inr res, w')"
  shows "tx_success res \<and> on_chain (tx_hash res) (iw_ext w')"
proof -
  have "confirms on_chain (addTransactionToQueue env request)"
    unfolding addTransactionToQueue_def runTestJob_def run_worker_def
    by (intro confirms_pbind) (auto intro!: confirms_pcatch run_attempts_confirms [OF assms(1)] confirms_pthrow)
  with assms(2) show ?thesis by (auto simp: confirms_def chain_has_def)
qed

section \<open>The sequence number of a retry\<close>

definition cleared :: "string \<Rightarrow> seq_db \<Rightarrow> bool" where
  "cleared a d \<longleftrightarrow> sq_reservations d a = None \<and> sq_cache d a = None"

lemma yields_command: "yields (redis_command env f) d a d' \<Longrightarrow> \<exists>t. f t (purge_db t d) = Inr (a, d')"
  unfolding redis_command_def by (auto dest!: yields_pbind yields_outside yields_query)

lemma yields_read: "yields (redis_read env f) d a d' \<Longrightarrow> \<exists>t. d' = purge_db t d \<and> a = f t d'"
  unfolding redis_read_def by (auto dest!: yields_command)

lemma yields_write: "yields (redis_write env f) d u d' \<Longrightarrow> \<exists>t. d' = f t (purge_db t d)"
  unfolding redis_write_def by (auto dest!: yields_command)

lemma cleared_purge: "cleared a d \<Longrightarrow> cleared a (purge_db t d)"
  by (simp add: cleared_def purge_db_def purge_def)

lemma yields_audit_cleared: "yields (recordAuditEntry env b act l s) d u d' \<Longrightarrow> cleared a d \<Longrightarrow> cleared a d'"
  unfolding recordAuditEntry_def
  by (auto dest!: yields_pbind yields_outside yields_write simp: cleared_def purge_db_def purge_def)

lemma yields_reset:
  assumes "yields (resetCache env a) d u d'"
  shows "cleared a d'"
proof -
  obtain d1 where "yields (recordAuditEntry env a AuExpire None None) d1 u d'" "cleared a d1"
    using assms unfolding resetCache_def by (auto dest!: yields_pbind yields_write yields_read simp: cleared_def purge_db_def purge_def)
  then show ?thesis by (rule yields_audit_cleared)
qed

lemma yields_load: "yields (load_account env a) d n d' \<Longrightarrow> d' = d \<and> (\<exists>x x'. se_loadAccount env a x = (Inr n, x'))"
  by (auto simp: load_account_def yields_def pbind_apply outside_def pret_apply pthrow_apply split: prod.splits sum.splits)

lemma yields_no_reservation: "yields (getNextSequenceFromReservation env a) d found d' \<Longrightarrow> cleared a d \<Longrightarrow> found = None \<and> cleared a d'"
  unfolding getNextSequenceFromReservation_def
  by (auto dest!: yields_pbind yields_outside yields_read yields_pret simp: cleared_def purge_db_def purge_def get_list_def)

lemma yields_fallback:
  assumes "yields (fallback_sequence env a) d n d'" "cleared a d"
  shows "\<exists>x x'. se_loadAccount env a x = (Inr n, x')"
proof -
  obtain ledger d1 cached d2 where 1: "yields (load_account env a) d ledger d1" "yields (redis_read env (\<lambda>t db. get_key (sq_cache db) a)) d1 cached d2"
    and n: "n = (case cached of Some c \<Rightarrow> if c \<ge> ledger then c + 1 else ledger + 1 | None \<Rightarrow> ledger + 1) - 1"
    using assms(1) unfolding fallback_sequence_def Let_def by (auto dest!: yields_pbind yields_pret)
  have "cached = None" using yields_read [OF 1(2)] yields_load [OF 1(1)] cleared_purge [OF assms(2)] by (auto simp: cleared_def get_key_def)
  with n yields_load [OF 1(1)] show ?thesis by simp
qed


section \<open>Runs\<close>

definition tq_demo_env :: "(int, int) queue_env" where
  "tq_demo_env = \<lparr>qe_seq = seq_demo_env, qe_spend = \<lparr>sv_fails = (\<lambda>x. (None, x)), sv_now = (\<lambda>x. (x, x + 1)), sv_redis_now = (\<lambda>x. (x, x)), sv_lua = id\<rparr>,
     qe_fails = (\<lambda>x. (None, x)), qe_getKey = (\<lambda>_ x. (Inr ''S'', x)), qe_build = (\<lambda>_ n x. (Inr (n + 1), x)), qe_simulate = (\<lambda>t x. (Inr (Inr t), x)),
     qe_sign = (\<lambda>_ t. t), qe_hash = (\<lambda>_. ''h''), qe_send = (\<lambda>_ x. (Inr \<lparr>sn_status = ''PENDING'', sn_hash = ''h'', sn_json = []\<rparr>, x)),
     qe_getTransaction = (\<lambda>h x. (Inr (if h = ''h'' then RpcSuccess 7 else RpcNotFound), x)),
     qe_horizonTransaction = (\<lambda>h x. (if h = ''h'' then Inr () else Inl (js_message ''not found''), x)), qe_requestSize = (\<lambda>_. 100), qe_maxXdrBytes = None, qe_isTest = True\<rparr>"

definition tq_demo_request :: queue_request where
  "tq_demo_request = \<lparr>qr_sourceAddress = ''A'', qr_contractId = ''C'', qr_method = ''pay'', qr_args = [], qr_argTypes = None, qr_userId = None,
     qr_walletId = None, qr_delegationId = None, qr_amountStroops = None\<rparr>"

definition tq_demo_world :: "(queue_db, int) tx_world" where
  "tq_demo_world = \<lparr>iw_db = \<lparr>qd_seq = seq_empty, qd_spend = \<lparr>sb_limits = [], sb_counters = []\<rparr>, qd_wallets = [], qd_signingAudit = []\<rparr>, iw_ext = 0\<rparr>"

lemma seq_demo_fallback: "\<exists>d y. getNextSequenceNumber seq_demo_env ''A'' 1 \<lparr>iw_db = seq_empty, iw_ext = 0\<rparr> = (Inr (100, None), \<lparr>iw_db = d, iw_ext = y\<rparr>)"
  by (simp add: getNextSequenceNumber_def getNextSequenceFromReservation_def fallback_sequence_def demo_simps seq_empty_def
      purge_db_def purge_def get_list_def get_key_def Let_def)

lemma tq_demo_admitted: "admit_transaction tq_demo_env tq_demo_request tq_demo_world = (Inr tq_demo_request, tq_demo_world)"
  by (simp add: admit_transaction_def validateXdrSize_def identify_wallet_def present_def tq_demo_request_def tq_demo_env_def tq_demo_world_def
      pbind_apply pcatch_apply pret_apply db_select_def db_query_def)

lemma tq_demo_test: "qe_isTest tq_demo_env"
  by (simp add: tq_demo_env_def)

lemma tq_demo_run: "\<exists>w'. addTransactionToQueue tq_demo_env tq_demo_request tq_demo_world = (Inr \<lparr>tx_hash = ''h'', tx_ledger = 7, tx_success = True\<rparr>, w')"
proof -
  obtain d y where seq: "getNextSequenceNumber seq_demo_env ''A'' 1 \<lparr>iw_db = seq_empty, iw_ext = 0\<rparr> = (Inr (100, None), \<lparr>iw_db = d, iw_ext = y\<rparr>)"
    using seq_demo_fallback by blast
  define w1 where "w1 = \<lparr>iw_db = (iw_db tq_demo_world)\<lparr>qd_seq := d\<rparr>, iw_ext = y\<rparr>"
  have nextseq: "on_seq (getNextSequenceNumber (qe_seq tq_demo_env) ''A'' 1) tq_demo_world = (Inr (100, None), w1)"
    using seq by (simp add: on_seq_def on_part_def tq_demo_world_def tq_demo_env_def w1_def del: One_nat_def)
  have built: "submit_built tq_demo_env tq_demo_request ''S'' 100 reset w1 = (Inr \<lparr>tx_hash = ''h'', tx_ledger = 7, tx_success = True\<rparr>, w1)" for reset
    by (simp add: submit_built_def send_or_reconcile_def confirm_def ask_def ptry_apply pbind_apply pret_apply outside_def Let_def tq_demo_env_def numeral_eq_Suc
        record_spend_of_def audit_signing_def tq_demo_request_def)
  have key: "ask (qe_getKey tq_demo_env ''A'') tq_demo_world = (Inr ''S'', tq_demo_world)" by (simp add: ask_def tq_demo_env_def pbind_apply outside_def pret_apply)
  have "executeTxJob tq_demo_env tq_demo_request 1 tq_demo_world = (Inr \<lparr>tx_hash = ''h'', tx_ledger = 7, tx_success = True\<rparr>, w1)"
    using nextseq built key by (simp add: executeTxJob_def pbind_apply pcatch_apply tq_demo_request_def del: One_nat_def)
  then show ?thesis by (simp add: addTransactionToQueue_def pbind_apply pcatch_apply tq_demo_admitted tq_demo_test runTestJob_def numeral_eq_Suc ptry_apply pret_apply)
qed

theorem queued_transaction_confirmed_witness:
  "truthful tq_demo_env (\<lambda>h _. h = ''h'') \<and>
   (\<exists>res w'. addTransactionToQueue tq_demo_env tq_demo_request tq_demo_world = (Inr res, w') \<and> tx_success res \<and> tx_hash res = ''h'')"
proof -
  have t: "truthful tq_demo_env (\<lambda>h _. h = ''h'')" by (auto simp: truthful_def tq_demo_env_def split: if_splits)
  obtain w' where run: "addTransactionToQueue tq_demo_env tq_demo_request tq_demo_world = (Inr \<lparr>tx_hash = ''h'', tx_ledger = 7, tx_success = True\<rparr>, w')"
    using tq_demo_run by blast
  from queued_transaction_confirmed [OF t run] t run show ?thesis by blast
qed

lemma seq_demo_reset: "\<exists>d' y. resetCache seq_demo_env a \<lparr>iw_db = d, iw_ext = x\<rparr> = (Inr (), \<lparr>iw_db = d', iw_ext = y\<rparr>)"
proof -
  have "\<exists>d' y. recordAuditEntry seq_demo_env a AuExpire None None \<lparr>iw_db = e, iw_ext = z\<rparr> = (Inr (), \<lparr>iw_db = d', iw_ext = y\<rparr>)" for e z
    using demo_audit [of a AuExpire None None e z] by blast
  then show ?thesis by (simp add: resetCache_def demo_write demo_read pbind_apply)
qed

lemma seq_demo_retry: "\<exists>n used w'. getNextSequenceNumber seq_demo_env ''A'' 2 seq_demo_world = (Inr (n, used), w')"
proof -
  obtain d y where r: "resetCache seq_demo_env ''A'' seq_demo_world = (Inr (), \<lparr>iw_db = d, iw_ext = y\<rparr>)"
    using seq_demo_reset [of "''A''" seq_empty 0] by (auto simp: seq_demo_world_def)
  have "yields (resetCache seq_demo_env ''A'') (iw_db seq_demo_world) () d" using r unfolding yields_def by (metis tx_world.select_convs(1))
  then have "cleared ''A'' d" by (rule yields_reset)
  then have "cleared ''A'' (purge_db t d)" for t by (rule cleared_purge)
  then have "getNextSequenceFromReservation seq_demo_env ''A'' \<lparr>iw_db = d, iw_ext = y\<rparr> = (Inr None, \<lparr>iw_db = purge_db (y + 1) d, iw_ext = y + 2\<rparr>)"
    by (simp add: getNextSequenceFromReservation_def demo_simps cleared_def get_list_def)
  moreover have "\<exists>n w'. fallback_sequence seq_demo_env ''A'' \<lparr>iw_db = e, iw_ext = z\<rparr> = (Inr n, w')" for e z
    by (simp add: fallback_sequence_def demo_load demo_read demo_write pbind_apply pret_apply Let_def)
  then obtain n w' where "fallback_sequence seq_demo_env ''A'' \<lparr>iw_db = purge_db (y + 1) d, iw_ext = y + 2\<rparr> = (Inr n, w')" by blast
  ultimately show ?thesis using r by (simp add: getNextSequenceNumber_def pbind_apply pret_apply)
qed


lemmas classify_simps = classifySubmissionFailure_def matchesPatterns_def MALFORMED_XDR_PATTERNS_def AUTH_FAILURE_PATTERNS_def
  RETRYABLE_NETWORK_PATTERNS_def js_lower_def js_lower_char_def Let_def

lemma rejection_terminal: "sf_retryable (classifySubmissionFailure ''Submission failed: 1499'' None) = False"
  by (simp add: classify_simps)

lemma rejection_transient: "sf_retryable (classifySubmissionFailure ''Submission failed: 1500'' None) = True"
  by (simp add: classify_simps)

text \<open>A rejection is retried or not by the digits of its text: the same answer of the RPC server is terminal at ledger 1499 and
  transient at ledger 1500, since the text then contains 500.\<close>

theorem rejection_retried_by_ledger:
  "map (\<lambda>m. sf_retryable (classifySubmissionFailure m None)) [''Submission failed: 1499'', ''Submission failed: 1500''] = [False, True]"
  by (simp add: rejection_terminal rejection_transient)

end
