(* ===== verification/Spec2Isabelle.thy ===== *)
theory Spec2Isabelle
  imports Workflow_Machine Saga_Properties Escrow_Properties Settlement Disbursement Compensation Batch_Settlement Dispute_Properties Inventory_Properties
    Spending_Policy Dual_Control Spend_Limits Multisig_Properties Co_Signing_Properties Guardian_Properties Sequence_Properties Tx_Queue_Properties
begin

text \<open>
  Verification of the purchase core of the Delego backend (TypeScript, under src/apps/backend).

  \<^bold>\<open>The program.\<close> Agents buy on behalf of users. The \<^emph>\<open>orchestrator\<close> runs a purchase as a state machine and as a saga
  with compensation, holds the stock of merchants, evaluates spending policies and has orders approved by several people.
  The \<^emph>\<open>payments\<close> service keeps the payment records, talks to the escrow contract on Stellar, settles orders and merchants,
  handles disputes and the approval of disbursements. The \<^emph>\<open>wallet\<close> service signs and submits the transactions, enforces
  spend limits, collects signatures of several parties and recovers accounts. A purchase that fails is compensated by the
  orchestrator through routes of the payments service, which reaches the contract through the wallet service and its queue.

  \<^bold>\<open>Shape of the model.\<close> \<^verbatim>\<open>Delego_Prelude\<close> defines \<open>prog\<close>: a program takes a state and gives an error or a result, and the
  new state, also when it throws. An \<^verbatim>\<open>async\<close> function is such a program with its awaits in sequence; \<open>keeps\<close> (an invariant)
  and \<open>ensures\<close> (a condition on the ending) have one rule per combinator and carry most proofs about whole operations.
  \<^verbatim>\<open>Transactions\<close> adds databases: a statement may fail at any time and then has no effect, and a failed transaction leaves
  nothing; a \<^verbatim>\<open>COMMIT\<close> that fails is one the database did not carry out (a connection lost after it is not modelled). \<^verbatim>\<open>Calendar\<close> has the UTC fields of a date. Objects are records, unions datatypes; \<^verbatim>\<open>bigint\<close> is \<open>int\<close>, a number that
  the code divides is rational, and the hash of the lock stripes is a 32-bit word. Where calls interleave and the code shares
  objects between awaits (disbursements, co-signing, the breaker), the model has the segments between awaits as steps, and the
  wait for a lock stripe lets other calls change the lock tables during each sleep; where
  one caller at a time is the code's own design (rows locked in a transaction, a worker with concurrency 1) operations follow
  one another, and each theory says which of the two holds. Where neither is the case but the model is sequential
  (the escrow coordinator and its payment records, settlement, purchase compensation, multi-signature wallets, guardian
  recovery, reservations of sequence numbers) the theorems speak of calls that follow one another and not of races. For the
  escrow coordinator a race is real: its partial refund is also given as two segments, and two overlapping refunds exceed the
  escrowed amount.

  \<^bold>\<open>Orchestrator.\<close>
  \<^item> \<^verbatim>\<open>Workflow_Types\<close>, \<^verbatim>\<open>Event_Store\<close>, \<^verbatim>\<open>Workflow_Machine\<close>: state/types.ts, state/snapshot-validator.ts, state/machine.ts,
    src/events/eventStore.ts. Reachable workflows follow the transition table and their context is what their stage promises;
    replay of the recorded events rebuilds the workflow.
  \<^item> \<^verbatim>\<open>Saga_Store\<close>, \<^verbatim>\<open>Saga_Coordinator\<close>, \<^verbatim>\<open>Saga_Properties\<close>: src/saga. A run or a resume refines the abstract saga (all steps,
    or the performed ones undone in reverse order), a step has one claimant at a time, retries are bounded, the store keeps
    its rows.
  \<^item> \<^verbatim>\<open>Workflow_Timeout\<close>: workflows/timeout.ts, what a scan does with every stuck saga.
  \<^item> \<^verbatim>\<open>Compensation\<close>: workflows/purchase/compensation.ts with its stores, clients and the routes behind them. A run calls
    the compensator of every completed step, in reverse order, and records exactly what came of each, as a reference
    recursion over the steps says; the budgeted retry ends; a purchase that completed cannot be compensated.
  \<^item> \<^verbatim>\<open>Inventory\<close>, \<^verbatim>\<open>Inventory_Properties\<close>: src/inventory of the orchestrator and of the payments service, over the same tables.
    Units are conserved, failed operations change nothing, a bulk allocation is all or nothing; a bulk allocation must name
    distinct products for the first and the last.
  \<^item> \<^verbatim>\<open>Spending_Policy\<close>: src/policies/evaluator.ts, equivalent to a declarative policy, and no rolling window is exceeded.
  \<^item> \<^verbatim>\<open>Dual_Control\<close>: src/dualControl/service.ts, an order is approved exactly by its quorum; that its creator is not
    part of it holds for ids spelled as the database spells them.

  \<^bold>\<open>Payments.\<close>
  \<^item> \<^verbatim>\<open>Payment_Records\<close>, \<^verbatim>\<open>Funding_Lock\<close>, \<^verbatim>\<open>Backoff_Retry\<close>, \<^verbatim>\<open>Escrow_Coordinator\<close>, \<^verbatim>\<open>Escrow_Properties\<close>: src/escrowCoordinator and
    src/autoRelease/retry.ts. The balances stay within the escrowed amount in every environment, for calls one after
    the other; a repeated call is answered
    from the record; a lock stripe has one holder and waiting for it ends.
  \<^item> \<^verbatim>\<open>Circuit_Breaker\<close>, \<^verbatim>\<open>Fee_Estimator\<close>, \<^verbatim>\<open>Escrow_Service\<close>: escrow/. An open breaker lets nothing through, for any
    interleaving of calls.
  \<^item> \<^verbatim>\<open>Settlement\<close>, \<^verbatim>\<open>Batch_Settlement\<close>: settlement/. A settlement that the release or refund of an order reported is final for both; the daily settlement is the partition of
    the completed orders with exact sums, and its CSV file can be read back as a whole.
  \<^item> \<^verbatim>\<open>Disbursement\<close>: src/disbursementApproval.ts. Whatever is broadcast carries the quorum's verified signatures.
  \<^item> \<^verbatim>\<open>Dispute_Store\<close>, \<^verbatim>\<open>Dispute_Mediation\<close>, \<^verbatim>\<open>Dispute_Properties\<close>: src/disputes. Disputes only move forward, a decision pays
    out the remaining balance, escalation happens once.

  \<^bold>\<open>Wallet.\<close>
  \<^item> \<^verbatim>\<open>Spend_Limits\<close>: src/spendLimits.ts with its Lua script. The counters are the exact spend of day, ISO week and lifetime.
  \<^item> \<^verbatim>\<open>Multisig\<close>, \<^verbatim>\<open>Multisig_Properties\<close>: src/multisig/service.ts. Who signs, how a proposal moves, when it is executed.
  \<^item> \<^verbatim>\<open>Co_Signing\<close>, \<^verbatim>\<open>Co_Signing_Properties\<close>: src/multisig/coSigningService.ts. For every interleaving, a submitted envelope
    is the SDK's encoding of the transaction with exactly the session's signatures, a threshold of them that the SDK verifies;
    the last signature submits. Verification and combination are specified by the SDK's operations, not by the service's own
    functions.
  \<^item> \<^verbatim>\<open>Guardian_Recovery\<close>, \<^verbatim>\<open>Guardian_Properties\<close>: src/recovery/guardianRecovery.ts. Approvals are by verified
    guardians, no text of an id approves twice, completion needs the required number of approvals; identifiers decrypt to what was encrypted.
  \<^item> \<^verbatim>\<open>Sequence_Numbers\<close>, \<^verbatim>\<open>Sequence_Properties\<close>: src/queue/txQueue.ts and sequenceMonitoring.ts. Reserved blocks never overlap.
  \<^item> \<^verbatim>\<open>Tx_Queue\<close>, \<^verbatim>\<open>Tx_Queue_Properties\<close>: src/queue/txQueue.ts and submissionFailure.ts. A result is a transaction the
    network confirmed, and a retried job starts from the ledger's sequence number.

  \<^bold>\<open>Interfaces.\<close> \<open>ranked_machine\<close> (transitions that climb a rank, so that paths are bounded) is interpreted on the purchase
  machine and on the dispute statuses; \<open>versioned_store\<close> (save against the version read) on the saga store; \<open>leased_lock\<close> on
  the stripe pool; \<open>stock_client\<close> on the operations of the stock tables; \<open>quorum_operation\<close> on those of dual control.

  \<^bold>\<open>Parameters.\<close> What is not in the repository or behind HTTP is an argument, usually a field of an environment record:
  clocks, fresh ids, random bytes, the Stellar SDK, RPC server and Horizon, Redis and PostgreSQL outages, the cryptographic
  functions of Node, PostgreSQL's reading of a text as a UUID, the string order of \<^verbatim>\<open>localeCompare\<close>, the double arithmetic of Lua, saga and compensation steps. Nothing
  is assumed of them beyond the named hypotheses of a theorem, and each hypothesis is met by a concrete instance in the
  theorem that follows it.

  \<^bold>\<open>Loops and bounds.\<close> Most loops run over a list or a counter of the code (12 polls of a transaction, 6 (2 under test) of a submission
  that timed out, 20 tries for a reservation lock, 5 attempts of a job, the attempts of a saga step) and are recursive with
  the code's own bound, so no fuel is chosen. The wait for a lock stripe ends because a sleep advances the clock by at least a
  millisecond; it is a \<^verbatim>\<open>function\<close> with that measure. The budgeted retry of the compensation may run forever for some clocks
  and is a partial function into \<open>option\<close>; that it returns is proved for clocks that advance.

  \<^bold>\<open>Defects.\<close> Where the code does not do what its comments or its purpose say, a lemma runs the model into the defect on a
  concrete state: a publisher failure that marks a settled payment as failed, a release repeated after an outage, recovery
  without its time-lock, a co-signed envelope sent twice, a reservation that skips its first number, a reset that hands out
  numbers again, two overlapping refunds above the escrowed amount, a creator who signs under another spelling of the id, a
  guardian who approves twice that way, and others beside the properties they limit.

  \<^bold>\<open>Not modelled.\<close> HTTP routing and JSON validation except for the two compensation routes; the PostgreSQL stores of sagas,
  disputes and outcomes, whose logic is SQL (their in-memory counterparts are modelled); BullMQ's storage and events; the
  optional Redis lock of the saga coordinator; logging and metrics. Of the services modelled, the parts beside this core are left out:
  subscriptions, payouts, oracles, shipping, human tasks, templates, permissions, vault, batching, dead letters of the
  queue, assets and sponsorship. The gateway, notifications, analytics, fraud detection, change data capture and the
  operations services, the agents and the shared packages are separate programs around it.
\<close>

end
